(* ===== verification/Taf_Prelude.thy ===== *)
theory Taf_Prelude
  imports Main "HOL-Library.Word" "HOL-Library.Multiset"
begin

unbundle bit_operations_syntax

text \<open>
  Shared layer of the development: the machine types of the C++ sources, the memory faults a
  C++ pointer access can cause, byte-order conversion (the calls to \<open>htons\<close>, \<open>htonl\<close>,
  \<open>ntohs\<close>, \<open>ntohl\<close> followed or preceded by a \<open>memcpy\<close>), bounded reads and writes of byte
  arrays, and the generic lemmas the component theories use.
\<close>

section \<open>Machine types\<close>

type_synonym byte = "8 word"
type_synonym u16 = "16 word"
type_synonym u32 = "32 word"

text \<open>The lemmas that evaluate byte conversions and bounded accesses.\<close>

named_theorems wire_simps \<open>byte-order conversions\<close>
named_theorems mem_simps \<open>bounded reads and writes\<close>

section \<open>Memory faults\<close>

text \<open>
  Accesses that C++ leaves undefined are values of the model: a read or write outside an array,
  an access to a block after it was released, and the use of a null pointer. An operation that
  may do one of these returns \<open>Inl\<close> of the fault. \<open>OutOfFuel\<close> is a loop that has not ended within
  the steps it was given.
\<close>

datatype mem_fault = OutOfBounds | UseAfterRelease | NullDeref | OutOfFuel

type_synonym 'a mem = "mem_fault + 'a"

definition mbind :: "'e + 'a \<Rightarrow> ('a \<Rightarrow> 'e + 'b) \<Rightarrow> 'e + 'b" where
  "mbind m f = (case m of Inl e \<Rightarrow> Inl e | Inr a \<Rightarrow> f a)"

lemma mbind_simps [simp]:
  "mbind (Inl e) f = Inl e"
  "mbind (Inr a) f = f a"
  by (simp_all add: mbind_def)

lemma mbind_eq_Inr [simp]:
  "mbind m f = Inr b \<longleftrightarrow> (\<exists>a. m = Inr a \<and> f a = Inr b)"
  by (cases m) auto

lemma mbind_eq_Inl:
  "mbind m f = Inl e \<longleftrightarrow> m = Inl e \<or> (\<exists>a. m = Inr a \<and> f a = Inl e)"
  by (cases m) auto

lemma mbind_cong [fundef_cong]:
  "m = m' \<Longrightarrow> (\<And>a. m' = Inr a \<Longrightarrow> f a = f' a) \<Longrightarrow> mbind m f = mbind m' f'"
  by (cases m') auto

section \<open>Bounded access to byte arrays\<close>

definition rd :: "byte list \<Rightarrow> nat \<Rightarrow> byte mem" where
  "rd buf i = (if i < length buf then Inr (buf ! i) else Inl OutOfBounds)"

definition wr :: "byte list \<Rightarrow> nat \<Rightarrow> byte \<Rightarrow> byte list mem" where
  "wr buf i v = (if i < length buf then Inr (buf[i := v]) else Inl OutOfBounds)"

text \<open>\<open>memcpy\<close> out of an array, and into one.\<close>

definition rdn :: "byte list \<Rightarrow> nat \<Rightarrow> nat \<Rightarrow> byte list mem" where
  "rdn buf i n = (if i + n \<le> length buf then Inr (take n (drop i buf)) else Inl OutOfBounds)"

definition wrn :: "byte list \<Rightarrow> nat \<Rightarrow> byte list \<Rightarrow> byte list mem" where
  "wrn buf i bs = (if i + length bs \<le> length buf
     then Inr (take i buf @ bs @ drop (i + length bs) buf) else Inl OutOfBounds)"

lemma rd_eq_Inr [mem_simps]: "rd buf i = Inr b \<longleftrightarrow> i < length buf \<and> b = buf ! i"
  by (auto simp: rd_def)

lemma wr_eq_Inr [mem_simps]: "wr buf i v = Inr b \<longleftrightarrow> i < length buf \<and> b = buf[i := v]"
  by (auto simp: wr_def)

lemma rdn_eq_Inr [mem_simps]:
  "rdn buf i n = Inr bs \<longleftrightarrow> i + n \<le> length buf \<and> bs = take n (drop i buf)"
  by (auto simp: rdn_def)

lemma wrn_eq_Inr [mem_simps]:
  "wrn buf i bs = Inr b \<longleftrightarrow> i + length bs \<le> length buf \<and>
     b = take i buf @ bs @ drop (i + length bs) buf"
  by (auto simp: wrn_def)

lemma rd_fault [mem_simps]: "rd buf i = Inl e \<longleftrightarrow> length buf \<le> i \<and> e = OutOfBounds"
  by (auto simp: rd_def)

lemma rdn_fault [mem_simps]: "rdn buf i n = Inl e \<longleftrightarrow> length buf < i + n \<and> e = OutOfBounds"
  by (auto simp: rdn_def)

lemma rdn_length: "rdn buf i n = Inr bs \<Longrightarrow> length bs = n"
  by (auto simp: rdn_def split: if_splits)

text \<open>Writing and reading back an array.\<close>

lemma wrn_length: "wrn buf i bs = Inr b \<Longrightarrow> length b = length buf"
  by (auto simp: wrn_def split: if_splits)

lemma rdn_wrn_same: "wrn buf i bs = Inr b \<Longrightarrow> rdn b i (length bs) = Inr bs"
  by (auto simp: wrn_def rdn_def split: if_splits)

lemma wrn_nth_other:
  "wrn buf i bs = Inr b \<Longrightarrow> j < i \<or> i + length bs \<le> j \<Longrightarrow> j < length buf \<Longrightarrow> b ! j = buf ! j"
  by (auto simp: wrn_def nth_append split: if_splits)

text \<open>Filling an array from its start: the part not yet written is a suffix of the old contents.\<close>

lemma wr_seq:
  "length xs = p \<Longrightarrow> p < length d \<Longrightarrow> wr (xs @ drop p d) p v = Inr ((xs @ [v]) @ drop (Suc p) d)"
  by (auto simp: wr_def list_update_append Cons_nth_drop_Suc [symmetric])

lemma wrn_seq:
  "length xs = p \<Longrightarrow> p + length bs \<le> length d \<Longrightarrow>
   wrn (xs @ drop p d) p bs = Inr ((xs @ bs) @ drop (p + length bs) d)"
  by (auto simp: wrn_def add.commute)

section \<open>Network byte order\<close>

definition be16 :: "u16 \<Rightarrow> byte list" where
  "be16 w = [ucast (drop_bit 8 w), ucast w]"

definition be32 :: "u32 \<Rightarrow> byte list" where
  "be32 w = [ucast (drop_bit 24 w), ucast (drop_bit 16 w), ucast (drop_bit 8 w), ucast w]"

definition of_be16 :: "byte list \<Rightarrow> u16" where
  "of_be16 bs = push_bit 8 (ucast (bs ! 0)) OR ucast (bs ! 1)"

definition of_be32 :: "byte list \<Rightarrow> u32" where
  "of_be32 bs = push_bit 24 (ucast (bs ! 0)) OR push_bit 16 (ucast (bs ! 1)) OR
     push_bit 8 (ucast (bs ! 2)) OR ucast (bs ! 3)"

text \<open>
  The bytes of a 32-bit value copied without \<open>htonl\<close>. The targets (Snapdragon, ARM) are
  little-endian.
\<close>

definition host32 :: "u32 \<Rightarrow> byte list" where
  "host32 w = rev (be32 w)"

lemma length_be [simp]: "length (be16 w) = 2" "length (be32 v) = 4" "length (host32 v) = 4"
  by (simp_all add: be16_def be32_def host32_def)

lemma of_be16_be16 [wire_simps, simp]: "of_be16 (be16 w) = w"
  by (rule bit_word_eqI) (auto simp: of_be16_def be16_def bit_simps)

lemma of_be32_be32 [wire_simps, simp]: "of_be32 (be32 w) = w"
proof (rule bit_word_eqI)
  fix n assume n: "n < LENGTH(32)"
  consider "n < 8" | "8 \<le> n" "n < 16" | "16 \<le> n" "n < 24" | "24 \<le> n" by linarith
  then show "bit (of_be32 (be32 w)) n = bit w n"
    using n by cases (auto simp: of_be32_def be32_def bit_simps)
qed

lemma be16_of_be16 [wire_simps]: "length bs = 2 \<Longrightarrow> be16 (of_be16 bs) = bs"
proof -
  assume "length bs = 2"
  then obtain a b where bs: "bs = [a, b]"
    by (auto simp: numeral_2_eq_2 length_Suc_conv)
  have "ucast (drop_bit 8 (of_be16 [a, b])) = a" "ucast (of_be16 [a, b]) = b"
    by (rule bit_word_eqI; auto simp: of_be16_def bit_simps dest: bit_imp_le_length)+
  with bs show ?thesis by (simp add: be16_def)
qed

section \<open>Lists\<close>

lemma nth_drop_add: "i + j < length xs \<Longrightarrow> drop i xs ! j = xs ! (i + j)"
  by simp

lemma filter_length_less:
  "x \<in> set xs \<Longrightarrow> \<not> P x \<Longrightarrow> length (filter P xs) < length xs"
proof (induction xs)
  case Nil
  then show ?case by simp
next
  case (Cons y ys)
  then show ?case using length_filter_le [of P ys] by (auto simp: less_Suc_eq_le)
qed

text \<open>\<open>std::swap(*iter, v.back()); v.pop_back()\<close>: the first match is replaced by the last.\<close>

definition swap_pop :: "nat \<Rightarrow> 'a list \<Rightarrow> 'a list" where
  "swap_pop i xs = butlast (xs[i := last xs])"

lemma mset_sub_list:
  assumes "mset xs \<subseteq># mset ys"
  shows "set xs \<subseteq> set ys" "length xs \<le> length ys" "distinct ys \<Longrightarrow> distinct xs"
proof -
  obtain zs where "mset ys = mset xs + mset zs" using assms by (metis ex_mset subset_mset.le_iff_add)
  then have zs: "mset ys = mset (xs @ zs)" by simp
  show "set xs \<subseteq> set ys" using mset_eq_setD [OF zs] by auto
  show "length xs \<le> length ys" using mset_eq_length [OF zs] by simp
  show "distinct xs" if "distinct ys" using that mset_eq_imp_distinct_iff [OF zs] by simp
qed

lemma mset_swap_pop:
  assumes "i < length xs"
  shows "mset (swap_pop i xs) = mset xs - {#xs ! i#}"
proof -
  let ?ys = "xs[i := last xs]"
  have ne: "xs \<noteq> []" "?ys \<noteq> []" using assms by auto
  have "last ?ys = last xs"
    using ne assms by (simp add: last_conv_nth nth_list_update)
  moreover have "mset ?ys = mset (butlast ?ys) + {#last ?ys#}"
    using append_butlast_last_id [OF ne(2)] by (metis mset.simps mset_append)
  ultimately show ?thesis
    using mset_update [OF assms, of "last xs"] by (simp add: swap_pop_def)
qed

section \<open>Streams of encoded items\<close>

text \<open>
  The contract between an encoder of single items and a decoder of the stream that their
  concatenation forms. \<open>ok\<close> holds of the items the encoder may be given, and \<open>canon\<close> is the item
  that the decoder gives back for an encoded one: an item with \<open>canon c = c\<close> survives the round
  trip.
\<close>

locale stream_code =
  fixes enc :: "'c \<Rightarrow> 's list" and ok :: "'c \<Rightarrow> bool" and canon :: "'c \<Rightarrow> 'd"
    and decs :: "'s list \<Rightarrow> 'd list option"
  assumes decs_Nil: "decs [] = Some []"
    and decs_enc: "ok c \<Longrightarrow> decs (enc c @ r) = map_option ((#) (canon c)) (decs r)"
begin

lemma decs_stream: "list_all ok cs \<Longrightarrow> decs (concat (map enc cs)) = Some (map canon cs)"
  by (induction cs) (simp_all add: decs_Nil decs_enc)

lemma decs_append:
  "list_all ok cs \<Longrightarrow> decs (concat (map enc cs) @ r) = map_option ((@) (map canon cs)) (decs r)"
proof (induction cs)
  case Nil
  then show ?case by (cases "decs r") simp_all
next
  case (Cons c cs)
  then show ?case by (cases "decs r") (simp_all add: decs_enc)
qed

lemma stream_inj:
  "list_all ok cs \<Longrightarrow> list_all ok ds \<Longrightarrow> concat (map enc cs) = concat (map enc ds) \<Longrightarrow>
   map canon cs = map canon ds"
  using decs_stream [of cs] decs_stream [of ds] by simp

end

section \<open>The first element with a property\<close>

fun find_index :: "('a \<Rightarrow> bool) \<Rightarrow> 'a list \<Rightarrow> nat option" where
  "find_index P [] = None"
| "find_index P (x # xs) = (if P x then Some 0 else map_option Suc (find_index P xs))"

lemma find_index_Some:
  "find_index P xs = Some i \<Longrightarrow> i < length xs \<and> P (xs ! i)"
  by (induction xs arbitrary: i) (auto split: if_splits)

lemma find_index_None: "find_index P xs = None \<longleftrightarrow> (\<forall>x\<in>set xs. \<not> P x)"
  by (induction xs) auto

end
