(* ===== verification/Sms_Septet.thy ===== *)
theory Sms_Septet
  imports Taf_Prelude
begin

unbundle bit_operations_syntax

text \<open>
  The GSM 7-bit layer of \<open>tafSMSSvc/tafSmsPdu.cpp\<close>: the two translation tables, the packing of
  septets into octets (\<open>Get7BitsAtPos\<close>, \<open>Set7BitsAtPos\<close>), and the loops
  \<open>pduDecode7BitsTo8Bits\<close> and \<open>pduEncode8BitsTo7Bits\<close>. A C++ pointer into an array is a pair of
  the array and an offset \<open>base\<close>; a read or write outside the array is a fault.

  The lemmas relate the octet buffer to the abstract sequence of septets it holds (\<open>packs\<close>),
  and derive the round trip of a text through the two loops.
\<close>

section \<open>Result codes and tables\<close>

datatype le_result = LE_OK | LE_FAULT | LE_OVERFLOW | LE_UNSUPPORTED

abbreviation ESCAPE_7BIT :: byte where "ESCAPE_7BIT \<equiv> 0x1B"
abbreviation ESCAPE_SHIFT_INDEX :: byte where "ESCAPE_SHIFT_INDEX \<equiv> 128"
abbreviation NON_PRINTABLE_8_BIT :: byte where "NON_PRINTABLE_8_BIT \<equiv> 63"
abbreviation FORM_FEED_8BIT :: byte where "FORM_FEED_8BIT \<equiv> 12"
abbreviation BITMASK_7BITS :: byte where "BITMASK_7BITS \<equiv> 0x7F"

text \<open>
  The table from 8-bit characters to septets, in two halves. An entry of 128 or more stands for
  the escape septet followed by the entry less 128.
\<close>

definition ascii_8_to_7_lo :: "byte list" where
  "ascii_8_to_7_lo = [
     63, 63, 63, 63, 63, 63, 63, 63, 63, 63, 10, 63, 138, 13, 63, 63,
     63, 63, 63, 63, 63, 63, 63, 63, 63, 63, 63, 63, 63, 63, 63, 63,
     32, 33, 34, 35, 2, 37, 38, 39, 40, 41, 42, 43, 44, 45, 46, 47,
     48, 49, 50, 51, 52, 53, 54, 55, 56, 57, 58, 59, 60, 61, 62, 63,
     0, 65, 66, 67, 68, 69, 70, 71, 72, 73, 74, 75, 76, 77, 78, 79,
     80, 81, 82, 83, 84, 85, 86, 87, 88, 89, 90, 188, 175, 190, 148, 17,
     217, 97, 98, 99, 100, 101, 102, 103, 104, 105, 106, 107, 108, 109, 110, 111,
     112, 113, 114, 115, 116, 117, 118, 119, 120, 121, 122, 168, 192, 169, 189, 63]"

definition ascii_8_to_7_hi :: "byte list" where
  "ascii_8_to_7_hi = [
     63, 63, 39, 102, 34, 63, 63, 63, 63, 63, 83, 39, 214, 63, 63, 63,
     63, 39, 39, 34, 34, 42, 45, 45, 39, 63, 115, 39, 111, 63, 63, 89,
     32, 64, 99, 1, 36, 3, 33, 95, 34, 63, 63, 60, 63, 45, 63, 63,
     63, 63, 50, 51, 39, 117, 63, 63, 63, 49, 63, 62, 63, 63, 63, 96,
     65, 65, 65, 65, 91, 14, 28, 9, 31, 31, 31, 31, 73, 73, 73, 73,
     68, 93, 79, 79, 79, 79, 92, 42, 11, 85, 85, 85, 94, 89, 63, 30,
     127, 97, 97, 97, 123, 15, 29, 9, 4, 5, 101, 101, 7, 7, 105, 105,
     63, 125, 8, 111, 111, 111, 24, 47, 12, 6, 117, 117, 126, 121, 63, 121]"

definition ascii_8_to_7 :: "byte list" where
  "ascii_8_to_7 = ascii_8_to_7_lo @ ascii_8_to_7_hi"

definition ascii_7_to_8 :: "byte list" where
  "ascii_7_to_8 = [
     64, 163, 36, 165, 232, 233, 249, 236, 242, 199, 10, 216, 248, 13, 197, 229,
     63, 95, 63, 63, 63, 63, 63, 63, 63, 63, 63, 27, 198, 230, 223, 201,
     32, 33, 34, 35, 164, 37, 38, 39, 40, 41, 42, 43, 44, 45, 46, 47,
     48, 49, 50, 51, 52, 53, 54, 55, 56, 57, 58, 59, 60, 61, 62, 63,
     161, 65, 66, 67, 68, 69, 70, 71, 72, 73, 74, 75, 76, 77, 78, 79,
     80, 81, 82, 83, 84, 85, 86, 87, 88, 89, 90, 196, 214, 209, 220, 167,
     191, 97, 98, 99, 100, 101, 102, 103, 104, 105, 106, 107, 108, 109, 110, 111,
     112, 113, 114, 115, 116, 117, 118, 119, 120, 121, 122, 228, 246, 241, 252, 224]"

section \<open>Septets in an octet buffer\<close>

text \<open>
  \<open>index\<close> is an \<open>uint8_t\<close>, hence the reduction modulo 256. The octet after the one that holds
  the first bit is read whenever the septet does not start an octet.
\<close>

definition Get7BitsAtPos :: "byte list \<Rightarrow> nat \<Rightarrow> nat \<Rightarrow> byte mem" where
  "Get7BitsAtPos buffer base pos =
     (let index = (pos div 8) mod 256; offset = pos mod 8 in
      mbind (rd buffer (base + index)) (\<lambda>b.
        let low_Byte = drop_bit offset b in
        if offset > 0
        then mbind (rd buffer (base + index + 1)) (\<lambda>b1.
               let high_Byte = push_bit (8 - offset) b1 in
               Inr ((low_Byte OR high_Byte) AND BITMASK_7BITS))
        else Inr (low_Byte AND BITMASK_7BITS)))"

definition Set7BitsAtPos :: "byte list \<Rightarrow> nat \<Rightarrow> byte \<Rightarrow> nat \<Rightarrow> byte list mem" where
  "Set7BitsAtPos buffer base v pos =
     (let val = v AND BITMASK_7BITS; index = (pos div 8) mod 256; offset = pos mod 8 in
      if offset = 0 then wr buffer (base + index) val
      else mbind (rd buffer (base + index)) (\<lambda>b.
        if offset = 1 then wr buffer (base + index) (b OR push_bit 1 val)
        else mbind (wr buffer (base + index) (b OR push_bit offset val)) (\<lambda>buffer1.
               wr buffer1 (base + index + 1) (drop_bit (8 - offset) val))))"

section \<open>Decoding septets to characters\<close>

definition escaped_char :: "byte \<Rightarrow> byte" where
  "escaped_char b =
     (if b = 10 then FORM_FEED_8BIT
      else if b = 20 then 94
      else if b = 40 then 123
      else if b = 41 then 125
      else if b = 47 then 92
      else if b = 60 then 91
      else if b = 61 then 126
      else if b = 62 then 93
      else if b = 64 then 124
      else NON_PRINTABLE_8_BIT)"

text \<open>
  The loop of \<open>pduDecode7BitsTo8Bits\<close>: \<open>r\<close> is \<open>r_indx\<close>, \<open>out\<close> the characters written so far
  (\<open>w_indx\<close> is its length), which the result holds on an overflow too. The escape septet
  consumes the next septet.
\<close>

function decode_loop ::
  "byte list \<Rightarrow> nat \<Rightarrow> nat \<Rightarrow> nat \<Rightarrow> nat \<Rightarrow> byte list \<Rightarrow> (le_result \<times> byte list) mem" where
  "decode_loop buf base len outSize r out =
     (if r < len
      then mbind (Get7BitsAtPos buf base (r * 7)) (\<lambda>s.
             let byte = ascii_7_to_8 ! unat s in
             if byte \<noteq> ESCAPE_7BIT
             then if length out \<ge> outSize then Inr (LE_OVERFLOW, out)
                  else decode_loop buf base len outSize (r + 1) (out @ [byte])
             else mbind (Get7BitsAtPos buf base ((r + 1) * 7)) (\<lambda>s2.
                    if length out \<ge> outSize then Inr (LE_OVERFLOW, out)
                    else decode_loop buf base len outSize (r + 2) (out @ [escaped_char s2])))
      else Inr (LE_OK, out))"
  by pat_completeness auto
termination
  by (relation "measure (\<lambda>(buf, base, len, outSize, r, out). len - r)") auto

declare decode_loop.simps [simp del]

definition pduDecode7BitsTo8Bits ::
  "byte list \<Rightarrow> nat \<Rightarrow> nat \<Rightarrow> nat \<Rightarrow> (le_result \<times> byte list) mem" where
  "pduDecode7BitsTo8Bits buf base len outSize = decode_loop buf base len outSize 0 []"

section \<open>Encoding characters to septets\<close>

text \<open>
  The loop of \<open>pduEncode8BitsTo7Bits\<close>: \<open>i\<close> runs from \<open>pos\<close> to \<open>pos + len\<close>; \<open>n\<close> is
  \<open>numOfwriteChar\<close> and \<open>m\<close> is \<open>numOf8bitChar\<close>, both \<open>uint8_t\<close>. The counter of the source is an
  \<open>uint8_t\<close> as well and agrees with \<open>i\<close> while \<open>pos + len \<le> 255\<close>, which its only call
  (\<open>pos = 0\<close>, \<open>len\<close> an \<open>uint8_t\<close>) ensures.
\<close>

definition octets_of :: "nat \<Rightarrow> nat" where
  "octets_of n = (let numOfbit = n * 7; q = (numOfbit div 8) mod 256 in
     if numOfbit mod 8 \<noteq> 0 then (q + 1) mod 256 else q)"

function encode_loop ::
  "byte list \<Rightarrow> nat \<Rightarrow> nat \<Rightarrow> byte list \<Rightarrow> nat \<Rightarrow> nat \<Rightarrow> nat \<Rightarrow> nat
     \<Rightarrow> (byte list \<times> (le_result + nat \<times> nat)) mem" where
  "encode_loop inp i stop buf base outSize n m =
     (if i < stop
      then mbind (rd inp i) (\<lambda>c.
        let byte = ascii_8_to_7 ! unat c in
        if byte \<ge> ESCAPE_SHIFT_INDEX
        then if m > outSize then Inr (buf, Inl LE_OVERFLOW)
             else mbind (Set7BitsAtPos buf base ESCAPE_7BIT (n * 7)) (\<lambda>buf1.
               let n1 = (n + 1) mod 256 in
               mbind (Set7BitsAtPos buf1 base (byte - ESCAPE_SHIFT_INDEX) (n1 * 7)) (\<lambda>buf2.
                 let n2 = (n1 + 1) mod 256 in
                 encode_loop inp (i + 1) stop buf2 base outSize n2 (octets_of n2)))
        else if m > outSize then Inr (buf, Inl LE_OVERFLOW)
             else mbind (Set7BitsAtPos buf base byte (n * 7)) (\<lambda>buf1.
               let n1 = (n + 1) mod 256 in
               encode_loop inp (i + 1) stop buf1 base outSize n1 (octets_of n1)))
      else if m > outSize then Inr (buf, Inl LE_OVERFLOW)
      else Inr (buf, Inr (n, m)))"
  by pat_completeness auto
termination
  by (relation "measure (\<lambda>(inp, i, stop, buf, base, outSize, n, m). stop - i)") auto

declare encode_loop.simps [simp del]

text \<open>The result holds the written buffer, and the error or \<open>*bufferOut_Write\<close> and the octet count.\<close>

definition pduEncode8BitsTo7Bits ::
  "byte list \<Rightarrow> nat \<Rightarrow> nat \<Rightarrow> byte list \<Rightarrow> nat \<Rightarrow> nat
     \<Rightarrow> (byte list \<times> (le_result + nat \<times> nat)) mem" where
  "pduEncode8BitsTo7Bits inp pos len buf base outSize =
     encode_loop inp pos (len + pos) buf base outSize 0 0"

section \<open>The bit stream of a buffer\<close>

definition sbit :: "byte list \<Rightarrow> nat \<Rightarrow> nat \<Rightarrow> bool" where
  "sbit buf base i = bit (buf ! (base + i div 8)) (i mod 8)"

lemma sbit_update:
  "base + q < length buf \<Longrightarrow>
   sbit (buf[base + q := w]) base i = (if i div 8 = q then bit w (i mod 8) else sbit buf base i)"
  by (auto simp: sbit_def)

lemma octet_split: "(i :: nat) = 8 * (i div 8) + i mod 8" "i mod 8 < 8"
  by simp_all

lemma octet_eqI: "(i :: nat) = 8 * q + r \<Longrightarrow> r < 8 \<Longrightarrow> i div 8 = q \<and> i mod 8 = r"
  by simp

lemma and_7F: "(x :: byte) AND 0x7F = take_bit 7 x"
  by (simp add: take_bit_eq_mask mask_eq_exp_minus_1)

text \<open>\<open>Get7BitsAtPos\<close> reads the seven bits that start at \<open>pos\<close>.\<close>

lemma Get7BitsAtPos_eq:
  assumes "pos div 8 < 256" and "base + pos div 8 < length buf"
    and "pos mod 8 > 0 \<Longrightarrow> base + pos div 8 + 1 < length buf"
  obtains s where "Get7BitsAtPos buf base pos = Inr s"
    and "\<And>j. bit s j \<longleftrightarrow> j < 7 \<and> sbit buf base (pos + j)"
proof -
  define q o' where "q = pos div 8" and "o' = pos mod 8"
  have pos: "pos = 8 * q + o'" "o' < 8" by (simp_all add: q_def o'_def)
  have dm: "(pos + j) div 8 = (if o' + j < 8 then q else q + 1)"
     "(pos + j) mod 8 = (if o' + j < 8 then o' + j else o' + j - 8)" if "j < 7" for j
    using pos that by (auto simp: div_nat_eqI mod_nat_eqI)
  have sb: "sbit buf base (pos + j) =
      (if o' + j < 8 then bit (buf ! (base + q)) (o' + j) else bit (buf ! (base + q + 1)) (o' + j - 8))"
    if "j < 7" for j
    using dm [OF that] by (auto simp: sbit_def)
  show thesis
  proof (cases "o' = 0")
    case True
    have "Get7BitsAtPos buf base pos = Inr (drop_bit 0 (buf ! (base + q)) AND 0x7F)"
      using assms True by (simp add: Get7BitsAtPos_def Let_def rd_def q_def o'_def)
    then show thesis
      by (rule that) (use True sb in \<open>auto simp: bit_simps and_7F\<close>)
  next
    case False
    have "Get7BitsAtPos buf base pos =
       Inr ((drop_bit o' (buf ! (base + q)) OR push_bit (8 - o') (buf ! (base + q + 1))) AND 0x7F)"
      using assms False by (simp add: Get7BitsAtPos_def Let_def rd_def q_def o'_def)
    then show thesis
    proof (rule that)
      fix j
      have ge: "bit (buf ! (base + q)) (o' + j) \<Longrightarrow> o' + j < 8"
        using bit_imp_le_length [of "buf ! (base + q)" "o' + j"] by simp
      show "bit ((drop_bit o' (buf ! (base + q)) OR push_bit (8 - o') (buf ! (base + q + 1))) AND 0x7F) j
         \<longleftrightarrow> j < 7 \<and> sbit buf base (pos + j)"
        using sb [of j] ge pos(2) False
        by (auto simp: bit_simps and_7F add.commute split: if_splits)
    qed
  qed
qed

text \<open>
  A buffer \<open>packs\<close> a list of septets when septet \<open>k\<close> occupies the bits from \<open>7 k\<close>, and
  \<open>packed\<close> when in addition the unused bits of the last octet are clear, which is what lets the
  next septet be combined by a bitwise or.
\<close>

definition packs :: "byte list \<Rightarrow> nat \<Rightarrow> byte list \<Rightarrow> bool" where
  "packs buf base ss \<longleftrightarrow>
     (\<forall>k < length ss. \<forall>j < 7. sbit buf base (7 * k + j) = bit (ss ! k) j)"

definition packed :: "byte list \<Rightarrow> nat \<Rightarrow> byte list \<Rightarrow> bool" where
  "packed buf base ss \<longleftrightarrow> packs buf base ss \<and>
     (\<forall>i. 7 * length ss \<le> i \<and> i < 8 * ((7 * length ss + 7) div 8) \<longrightarrow> \<not> sbit buf base i)"

lemma packed_Nil [simp]: "packed buf base []"
  by (simp add: packed_def packs_def)

lemma Set7BitsAtPos_sbit:
  assumes q: "q = pos div 8" "q < 256" and o: "o' = pos mod 8"
    and rng: "base + q < length buf" "o' > 1 \<Longrightarrow> base + q + 1 < length buf"
    and clr: "\<And>i. pos \<le> i \<Longrightarrow> i < 8 * ((pos + 7) div 8) \<Longrightarrow> \<not> sbit buf base i"
  obtains buf' where "Set7BitsAtPos buf base v pos = Inr buf'" and "length buf' = length buf"
    and "\<And>i. i < pos \<Longrightarrow> sbit buf' base i = sbit buf base i"
    and "\<And>j. j < 7 \<Longrightarrow> sbit buf' base (pos + j) = bit v j"
    and "\<And>i. pos + 7 \<le> i \<Longrightarrow> i < 8 * ((pos + 14) div 8) \<Longrightarrow> \<not> sbit buf' base i"
    and "\<And>x. x < base + q \<or> base + q + 1 < x \<Longrightarrow> buf' ! x = buf ! x"
proof -
  have pos: "pos = 8 * q + o'" "o' < 8" using q o by auto
  let ?v = "v AND 0x7F"
  have v: "bit ?v j \<longleftrightarrow> j < 7 \<and> bit v j" for j
    by (auto simp: bit_simps and_7F)
  define b0 where "b0 = buf ! (base + q)"
  have b0: "bit b0 i = sbit buf base (8 * q + i)" if "i < 8" for i
    using that by (simp add: b0_def sbit_def)
  have b0hi: "\<not> bit b0 i" if "o' \<le> i" "o' > 0" for i
  proof (cases "i < 8")
    case True
    have "(pos + 7) div 8 = q + 1"
      using octet_eqI [of "pos + 7" "q + 1" "o' - 1"] pos that(2) by simp
    then have "i + 8 * q < 8 * ((pos + 7) div 8)" using True by simp
    then have "\<not> sbit buf base (8 * q + i)" using clr [of "8 * q + i"] pos that(1) by (simp add: add.commute)
    then show ?thesis using b0 [OF True] by simp
  next
    case False
    then show ?thesis using bit_imp_le_length [of b0 i] by auto
  qed
  define w0 where "w0 = (if o' = 0 then ?v else b0 OR push_bit o' ?v)"
  have w0: "bit w0 i = (if i < o' then bit b0 i else i < 8 \<and> i - o' < 7 \<and> bit v (i - o'))" for i
  proof (cases "o' = 0")
    case True
    then show ?thesis using v [of i] by (auto simp: w0_def)
  next
    case False
    have "bit w0 i \<longleftrightarrow> bit b0 i \<or> (o' \<le> i \<and> i < 8 \<and> bit ?v (i - o'))"
      using False by (auto simp: w0_def bit_simps)
    then show ?thesis using b0hi [of i] False v [of "i - o'"] by auto
  qed
  define w1 where "w1 = drop_bit (8 - o') ?v"
  have w1: "bit w1 i = (i + 8 - o' < 7 \<and> bit v (i + 8 - o'))" for i
    using pos(2) v [of "8 - o' + i"] by (auto simp: w1_def bit_simps add.commute)
  define buf' where "buf' = (if o' \<le> 1 then buf[base + q := w0] else buf[base + q := w0, base + (q + 1) := w1])"
  have eq: "Set7BitsAtPos buf base v pos = Inr buf'"
  proof -
    have mods: "pos div 8 mod 256 = q" "pos mod 8 = o'" using q o by auto
    show ?thesis
      using rng pos(2)
      unfolding Set7BitsAtPos_def Let_def mods buf'_def w0_def w1_def b0_def
      by (auto simp: rd_def wr_def add.assoc)
  qed
  have s0: "sbit buf' base i = (if i div 8 = q then bit w0 (i mod 8)
       else if i div 8 = q + 1 \<and> o' > 1 then bit w1 (i mod 8) else sbit buf base i)" for i
  proof (cases "o' \<le> 1")
    case True
    then show ?thesis using rng by (simp add: buf'_def sbit_update)
  next
    case False
    then have "base + (q + 1) < length (buf[base + q := w0])" using rng by simp
    then show ?thesis
      using False rng by (simp add: buf'_def sbit_update del: One_nat_def add_Suc_right)
  qed
  have A: "sbit buf' base i = sbit buf base i" if "i < pos" for i
  proof -
    have "i div 8 < q \<or> (i div 8 = q \<and> i mod 8 < o')" using that pos octet_split [of i] by linarith
    then show ?thesis
      using w0 [of "i mod 8"] b0 [of "i mod 8"] by (auto simp: s0)
  qed
  have B: "sbit buf' base (pos + j) = bit v j" if "j < 7" for j
  proof (cases "o' + j < 8")
    case True
    then have "(pos + j) div 8 = q" "(pos + j) mod 8 = o' + j"
      using octet_eqI [of "pos + j" q "o' + j"] pos by simp_all
    then show ?thesis using True that w0 [of "o' + j"] by (simp add: s0)
  next
    case False
    then have "(pos + j) div 8 = q + 1" "(pos + j) mod 8 = o' + j - 8" "o' > 1"
      using octet_eqI [of "pos + j" "q + 1" "o' + j - 8"] pos that by auto
    then show ?thesis using False that w1 [of "o' + j - 8"] by (simp add: s0)
  qed
  have C: "\<not> sbit buf' base i" if "pos + 7 \<le> i" "i < 8 * ((pos + 14) div 8)" for i
  proof (cases "o' \<le> 1")
    case True
    have "(pos + 14) div 8 = q + 1"
      using octet_eqI [of "pos + 14" "q + 1" "o' + 6"] True pos by simp
    then have d: "i div 8 = q"
      using that True pos octet_split [of i] by linarith
    moreover have "i mod 8 \<ge> o' + 7"
      using that(1) pos d octet_split [of i] by linarith
    ultimately show ?thesis using w0 [of "i mod 8"] by (auto simp: s0)
  next
    case False
    then have "(pos + 14) div 8 = q + 2"
      using octet_eqI [of "pos + 14" "q + 2" "o' - 2"] pos by simp
    then have d: "i div 8 = q + 1"
      using that False pos octet_split [of i] by linarith
    moreover have "i mod 8 + 8 \<ge> o' + 7"
      using that(1) pos d octet_split [of i] by linarith
    ultimately show ?thesis using w1 [of "i mod 8"] False by (auto simp: s0)
  qed
  have D: "buf' ! x = buf ! x" if "x < base + q \<or> base + q + 1 < x" for x
    using that by (auto simp: buf'_def)
  have L: "length buf' = length buf" by (simp add: buf'_def)
  show thesis by (rule that [OF eq L A B C D])
qed

text \<open>Appending one septet.\<close>

definition octets :: "nat \<Rightarrow> nat" where
  "octets n = (7 * n + 7) div 8"

lemma octets_of_eq: "n < 256 \<Longrightarrow> octets_of n = octets n"
proof -
  assume n: "n < 256"
  define q r where "q = n * 7 div 8" and "r = n * 7 mod 8"
  have qr: "n * 7 = 8 * q + r" "r < 8" by (simp_all add: q_def r_def)
  have q: "q < 224" using n qr by linarith
  have "octets n = (if r \<noteq> 0 then q + 1 else q)"
    using octet_eqI [of "7 * n + 7" "q + 1" "r - 1"] octet_eqI [of "7 * n + 7" q "7"] qr
    by (auto simp: octets_def mult.commute)
  then show ?thesis using q by (auto simp: octets_of_def Let_def q_def [symmetric] r_def [symmetric])
qed

lemma octets_bound: "octets n \<le> k \<longleftrightarrow> 7 * n \<le> 8 * k"
  unfolding octets_def using octet_split [of "7 * n + 7"] by linarith

lemma octets_mono: "a \<le> b \<Longrightarrow> octets a \<le> octets b"
  by (simp add: octets_def div_le_mono)

lemma septet_octet_bound:
  "7 * k div 8 < octets (Suc k)" "(7 * k) mod 8 > 1 \<Longrightarrow> 7 * k div 8 + 1 < octets (Suc k)"
proof -
  have e: "7 * Suc k + 7 = 7 * k + 14" by simp
  note o = octet_split [of "7 * k"] octet_split [of "7 * k + 14"]
  show "7 * k div 8 < octets (Suc k)" unfolding octets_def e using o by linarith
  show "7 * k div 8 + 1 < octets (Suc k)" if "(7 * k) mod 8 > 1" unfolding octets_def e using o that by linarith
qed

lemma Set7BitsAtPos_packed:
  assumes p: "packed buf base ss" and n: "length ss < 255"
    and rng: "base + octets (Suc (length ss)) \<le> length buf"
  obtains buf' where "Set7BitsAtPos buf base v (length ss * 7) = Inr buf'"
    and "length buf' = length buf" and "packed buf' base (ss @ [v])"
    and "\<And>x. x < base \<or> base + octets (Suc (length ss)) \<le> x \<Longrightarrow> buf' ! x = buf ! x"
proof -
  let ?pos = "7 * length ss"
  have clr: "\<not> sbit buf base i" if "?pos \<le> i" "i < 8 * ((?pos + 7) div 8)" for i
    using p that by (auto simp: packed_def)
  note b = septet_octet_bound [of "length ss"]
  have q: "?pos div 8 < 256" using n by linarith
  have r0: "base + ?pos div 8 < length buf" using b(1) rng by linarith
  have r1: "base + ?pos div 8 + 1 < length buf" if "?pos mod 8 > 1" using b(2) [OF that] rng by linarith
  obtain buf' where buf': "Set7BitsAtPos buf base v ?pos = Inr buf'" "length buf' = length buf"
    "\<And>i. i < ?pos \<Longrightarrow> sbit buf' base i = sbit buf base i"
    "\<And>j. j < 7 \<Longrightarrow> sbit buf' base (?pos + j) = bit v j"
    "\<And>i. ?pos + 7 \<le> i \<Longrightarrow> i < 8 * ((?pos + 14) div 8) \<Longrightarrow> \<not> sbit buf' base i"
    "\<And>x. x < base + ?pos div 8 \<or> base + ?pos div 8 + 1 < x \<Longrightarrow> buf' ! x = buf ! x"
    by (rule Set7BitsAtPos_sbit [OF refl q refl r0, of v])
      (use r1 in simp, use clr in simp, blast intro: that)
  have pk: "packs buf' base (ss @ [v])"
    unfolding packs_def
  proof (intro allI impI)
    fix k j :: nat assume k: "k < length (ss @ [v])" and j: "j < 7"
    show "sbit buf' base (7 * k + j) = bit ((ss @ [v]) ! k) j"
    proof (cases "k < length ss")
      case True
      then have "7 * k + j < ?pos" using j by linarith
      then show ?thesis using True p j buf'(3) by (auto simp: packed_def packs_def nth_append)
    next
      case False
      then show ?thesis using k j buf'(4) by (simp add: nth_append less_Suc_eq)
    qed
  qed
  have "packed buf' base (ss @ [v])"
    unfolding packed_def using pk buf'(5) by (simp add: algebra_simps)
  moreover have "buf' ! x = buf ! x" if "x < base \<or> base + octets (Suc (length ss)) \<le> x" for x
  proof (cases "?pos mod 8 > 1")
    case True
    then show ?thesis using that b buf'(6) [of x] by linarith
  next
    case False
    show ?thesis
    proof (cases "x = base + ?pos div 8 + 1")
      case True
      have "buf' = buf[base + ?pos div 8 := buf' ! (base + ?pos div 8)]"
        using buf'(1) False q
        by (auto simp: Set7BitsAtPos_def Let_def rd_def wr_def split: if_splits)
      then show ?thesis using True by (metis less_add_one nth_list_update_neq order_less_irrefl)
    next
      case neq: False
      then show ?thesis using that b buf'(6) [of x] by linarith
    qed
  qed
  ultimately show thesis
    using that buf'(1,2) by (simp add: mult.commute)
qed

section \<open>Characters as septets\<close>

definition char_septets :: "byte \<Rightarrow> byte list" where
  "char_septets c = (let b = ascii_8_to_7 ! unat c in
     if b \<ge> ESCAPE_SHIFT_INDEX then [ESCAPE_7BIT, b - ESCAPE_SHIFT_INDEX] else [b])"

definition text_septets :: "byte list \<Rightarrow> byte list" where
  "text_septets t = concat (map char_septets t)"

lemma text_septets_simps [simp]:
  "text_septets [] = []" "text_septets (c # t) = char_septets c @ text_septets t"
  by (simp_all add: text_septets_def)

lemma char_septets_length: "length (char_septets c) \<le> 2" "char_septets c \<noteq> []"
  by (auto simp: char_septets_def Let_def)

text \<open>
  What a run of the encoder achieves: the packed septets \<open>ss\<close> if they fit into \<open>outSize\<close> octets,
  and an overflow otherwise. Nothing outside those octets changes.
\<close>

definition encodes_as ::
  "byte list \<Rightarrow> nat \<Rightarrow> nat \<Rightarrow> byte list \<Rightarrow> (byte list \<times> (le_result + nat \<times> nat)) mem \<Rightarrow> bool" where
  "encodes_as buf base outSize ss res \<longleftrightarrow>
     (let N = length ss in
      \<exists>buf'. length buf' = length buf \<and>
        (if octets N \<le> outSize
         then res = Inr (buf', Inr (N, octets N)) \<and> packed buf' base ss \<and>
              (\<forall>x. x < base \<or> base + octets N \<le> x \<longrightarrow> buf' ! x = buf ! x)
         else res = Inr (buf', Inl LE_OVERFLOW)))"

lemma encodes_as_trans:
  assumes "encodes_as buf1 base outSize ss res" and "length buf1 = length buf"
    and "\<And>x. x < base \<or> base + octets n \<le> x \<Longrightarrow> buf1 ! x = buf ! x" and "n \<le> length ss"
  shows "encodes_as buf base outSize ss res"
proof -
  have le: "octets n \<le> octets (length ss)" by (rule octets_mono [OF assms(4)])
  then have "buf1 ! x = buf ! x" if "x < base \<or> base + octets (length ss) \<le> x" for x
    using assms(3) [of x] that le by linarith
  then show ?thesis
    using assms(1,2) by (auto simp: encodes_as_def Let_def split: if_splits)
qed

text \<open>
  The encoder writes the septets of the text behind those already packed, and reports an
  overflow exactly when the packed text needs more than \<open>outSize\<close> octets. Two octets beyond
  \<open>outSize\<close> are enough room for every write it makes before it notices.
\<close>

lemma encode_loop_spec:
  assumes "take (stop - i) (drop i inp) = t" and "stop \<le> length inp"
    and "packed buf base ss" and "n = length ss" and "m = octets n"
    and "outSize \<le> 221" and "base + outSize + 2 \<le> length buf"
  shows "encodes_as buf base outSize (ss @ text_septets t)
           (encode_loop inp i stop buf base outSize n m)"
  using assms
proof (induction t arbitrary: i buf ss n m)
  case Nil
  then have "\<not> i < stop" by auto
  with Nil show ?case
    by (subst encode_loop.simps) (auto simp: encodes_as_def)
next
  case (Cons c t)
  have i: "i < stop" using Cons.prems(1) by (cases "i < stop") auto
  have il: "i < length inp" using i Cons.prems(2) by simp
  have d: "drop i inp = inp ! i # drop (Suc i) inp" using il by (simp add: Cons_nth_drop_Suc)
  obtain k where k: "stop - i = Suc k" using i by (metis Suc_diff_Suc)
  have ct: "inp ! i = c" "take (stop - (i + 1)) (drop (i + 1) inp) = t"
    using Cons.prems(1) d k by (auto simp: take_Suc_Cons) (metis Suc_diff_Suc diff_Suc_1 i)
  let ?b = "ascii_8_to_7 ! unat c"
  show ?case
  proof (cases "octets n > outSize")
    case True
    have "octets (length (ss @ text_septets (c # t))) > outSize"
      using True Cons.prems(4) octets_mono [of n "length (ss @ text_septets (c # t))"] by simp
    then show ?thesis
      using True i il ct(1) Cons.prems(5)
      by (subst encode_loop.simps) (auto simp: rd_def Let_def encodes_as_def)
  next
    case False
    then have mn: "\<not> m > outSize" "octets n \<le> outSize" using Cons.prems(5) by auto
    note g = mn(2) [unfolded octets_bound]
    have n253: "n \<le> 252" using g Cons.prems(6) by linarith
    have g1: "octets (Suc n) \<le> outSize + 1" unfolding octets_bound using g by simp
    have g2: "octets (Suc (Suc n)) \<le> outSize + 2" unfolding octets_bound using g by simp
    have unfold: "encode_loop inp i stop buf base outSize n m =
       (if ?b \<ge> ESCAPE_SHIFT_INDEX
        then mbind (Set7BitsAtPos buf base ESCAPE_7BIT (n * 7)) (\<lambda>buf1.
               mbind (Set7BitsAtPos buf1 base (?b - ESCAPE_SHIFT_INDEX) ((n + 1) * 7)) (\<lambda>buf2.
                 encode_loop inp (i + 1) stop buf2 base outSize (n + 2) (octets (n + 2))))
        else mbind (Set7BitsAtPos buf base ?b (n * 7)) (\<lambda>buf1.
               encode_loop inp (i + 1) stop buf1 base outSize (n + 1) (octets (n + 1))))"
      using i il ct(1) mn n253 by (subst encode_loop.simps) (simp add: rd_def Let_def octets_of_eq)
    have r1: "base + octets (Suc (length ss)) \<le> length buf" "length ss < 255"
      using g1 n253 Cons.prems(4,7) by simp_all
    show ?thesis
    proof (cases "?b \<ge> ESCAPE_SHIFT_INDEX")
      case esc: True
      obtain b1 where b1: "Set7BitsAtPos buf base ESCAPE_7BIT (n * 7) = Inr b1"
        "length b1 = length buf" "packed b1 base (ss @ [ESCAPE_7BIT])"
        "\<And>x. x < base \<or> base + octets (Suc n) \<le> x \<Longrightarrow> b1 ! x = buf ! x"
        using Set7BitsAtPos_packed [OF Cons.prems(3) r1(2,1), of ESCAPE_7BIT] Cons.prems(4) by metis
      have r2: "base + octets (Suc (length (ss @ [ESCAPE_7BIT]))) \<le> length b1"
        "length (ss @ [ESCAPE_7BIT]) < 255"
        using g2 n253 Cons.prems(4,7) b1(2) by simp_all
      obtain b2 where b2: "Set7BitsAtPos b1 base (?b - ESCAPE_SHIFT_INDEX) ((n + 1) * 7) = Inr b2"
        "length b2 = length b1" "packed b2 base ((ss @ [ESCAPE_7BIT]) @ [?b - ESCAPE_SHIFT_INDEX])"
        "\<And>x. x < base \<or> base + octets (Suc (Suc n)) \<le> x \<Longrightarrow> b2 ! x = b1 ! x"
        by (rule Set7BitsAtPos_packed [OF b1(3) r2(2,1), of "?b - ESCAPE_SHIFT_INDEX"])
          (use Cons.prems(4) in auto)
      have cs: "char_septets c = [ESCAPE_7BIT, ?b - ESCAPE_SHIFT_INDEX]"
        using esc by (simp add: char_septets_def Let_def)
      have "encodes_as b2 base outSize ((ss @ [ESCAPE_7BIT, ?b - ESCAPE_SHIFT_INDEX]) @ text_septets t)
          (encode_loop inp (i + 1) stop b2 base outSize (n + 2) (octets (n + 2)))"
        by (rule Cons.IH) (use ct Cons.prems b1 b2 in simp_all)
      then have "encodes_as b2 base outSize (ss @ text_septets (c # t))
          (encode_loop inp (i + 1) stop b2 base outSize (n + 2) (octets (n + 2)))"
        by (simp add: cs)
      then have "encodes_as b1 base outSize (ss @ text_septets (c # t))
          (encode_loop inp (i + 1) stop b2 base outSize (n + 2) (octets (n + 2)))"
        by (rule encodes_as_trans) (use b2 cs Cons.prems(4) in auto)
      then have "encodes_as buf base outSize (ss @ text_septets (c # t))
          (encode_loop inp (i + 1) stop b2 base outSize (n + 2) (octets (n + 2)))"
        by (rule encodes_as_trans) (use b1 cs Cons.prems(4) in auto)
      then show ?thesis
        using esc unfold b1(1) b2(1) by simp
    next
      case plain: False
      obtain b1 where b1: "Set7BitsAtPos buf base ?b (n * 7) = Inr b1"
        "length b1 = length buf" "packed b1 base (ss @ [?b])"
        "\<And>x. x < base \<or> base + octets (Suc n) \<le> x \<Longrightarrow> b1 ! x = buf ! x"
        using Set7BitsAtPos_packed [OF Cons.prems(3) r1(2,1), of ?b] Cons.prems(4) by metis
      have cs: "char_septets c = [?b]"
        using plain by (simp add: char_septets_def Let_def)
      have "encodes_as b1 base outSize ((ss @ [?b]) @ text_septets t)
          (encode_loop inp (i + 1) stop b1 base outSize (n + 1) (octets (n + 1)))"
        by (rule Cons.IH) (use ct Cons.prems b1 in simp_all)
      then have "encodes_as b1 base outSize (ss @ text_septets (c # t))
          (encode_loop inp (i + 1) stop b1 base outSize (n + 1) (octets (n + 1)))"
        by (simp add: cs)
      then have "encodes_as buf base outSize (ss @ text_septets (c # t))
          (encode_loop inp (i + 1) stop b1 base outSize (n + 1) (octets (n + 1)))"
        by (rule encodes_as_trans) (use b1 cs Cons.prems(4) in auto)
      then show ?thesis
        using plain unfold b1(1) by simp
    qed
  qed
qed

section \<open>Septets as characters\<close>

fun decode_septets :: "byte list \<Rightarrow> byte list option" where
  "decode_septets [] = Some []"
| "decode_septets (s # ss) =
     (if ascii_7_to_8 ! unat s \<noteq> ESCAPE_7BIT
      then map_option ((#) (ascii_7_to_8 ! unat s)) (decode_septets ss)
      else (case ss of [] \<Rightarrow> None
            | s2 # ss' \<Rightarrow> map_option ((#) (escaped_char s2)) (decode_septets ss')))"

text \<open>The character that comes back when \<open>c\<close> is encoded and decoded.\<close>

definition gsm_canon :: "byte \<Rightarrow> byte" where
  "gsm_canon c = (let b = ascii_8_to_7 ! unat c in
     if b \<ge> ESCAPE_SHIFT_INDEX then escaped_char (b - ESCAPE_SHIFT_INDEX) else ascii_7_to_8 ! unat b)"

definition gsm_safe :: "byte \<Rightarrow> bool" where
  "gsm_safe c \<longleftrightarrow> gsm_canon c = c"

lemma length_tables [simp]: "length ascii_8_to_7 = 256" "length ascii_7_to_8 = 128"
  by (simp_all add: ascii_8_to_7_def ascii_8_to_7_lo_def ascii_8_to_7_hi_def ascii_7_to_8_def)

lemma ascii_7_to_8_escape: "k < 128 \<Longrightarrow> ascii_7_to_8 ! k = ESCAPE_7BIT \<longleftrightarrow> k = 27"
proof -
  have "list_all (\<lambda>k. (ascii_7_to_8 ! k = ESCAPE_7BIT) = (k = 27)) [0..<128]"
    by code_simp
  then show "k < 128 \<Longrightarrow> ?thesis" by (simp add: list_all_iff)
qed

lemma ascii_8_to_7_no_escape: "ascii_8_to_7 ! unat (c :: byte) \<noteq> ESCAPE_7BIT"
proof -
  have "ESCAPE_7BIT \<notin> set ascii_8_to_7"
    by (simp add: ascii_8_to_7_def ascii_8_to_7_lo_def ascii_8_to_7_hi_def)
  moreover have "ascii_8_to_7 ! unat c \<in> set ascii_8_to_7"
    using unsigned_less [of c] by (intro nth_mem) simp
  ultimately show ?thesis by auto
qed

lemma char_septets_septet: "s \<in> set (char_septets c) \<Longrightarrow> take_bit 7 s = s"
proof -
  have small: "take_bit 7 b = b" if "b < 128" for b :: byte
  proof (rule bit_word_eqI)
    fix n
    have "unat b < 2 ^ 7" using that by (simp add: word_less_nat_alt)
    then have "\<not> bit (unat b) n" if "7 \<le> n"
      using that by (metis bit_take_bit_iff linorder_not_less take_bit_nat_eq_self_iff)
    then show "bit (take_bit 7 b) n = bit b n"
      by (auto simp: bit_simps not_less [symmetric] bit_unsigned_iff)
  qed
  have shift: "b - 128 < 128" if "128 \<le> b" for b :: byte
  proof -
    have "unat (b - 128) = unat b - 128" using that by (simp add: unat_sub)
    moreover have "unat b < 256" using unsigned_less [of b, where ?'a = nat] by simp
    ultimately show ?thesis by (simp add: word_less_nat_alt)
  qed
  show "s \<in> set (char_septets c) \<Longrightarrow> ?thesis"
    by (auto simp: char_septets_def Let_def split: if_splits intro!: small shift)
qed

interpretation gsm: stream_code char_septets "\<lambda>_. True" gsm_canon decode_septets
proof
  fix c :: byte and r
  let ?b = "ascii_8_to_7 ! unat c"
  show "decode_septets (char_septets c @ r) = map_option ((#) (gsm_canon c)) (decode_septets r)"
  proof (cases "?b \<ge> ESCAPE_SHIFT_INDEX")
    case True
    have "ascii_7_to_8 ! 27 = ESCAPE_7BIT" by (simp add: ascii_7_to_8_escape)
    then show ?thesis using True by (simp add: char_septets_def gsm_canon_def Let_def)
  next
    case False
    then have "unat ?b < 128" by (simp add: word_less_nat_alt not_le)
    moreover have "unat ?b \<noteq> 27"
      using ascii_8_to_7_no_escape [of c] by (auto simp: word_unat_eq_iff)
    ultimately show ?thesis
      using False by (simp add: char_septets_def gsm_canon_def Let_def ascii_7_to_8_escape)
  qed
qed simp

lemma text_septets_roundtrip: "decode_septets (text_septets t) = Some (map gsm_canon t)"
  unfolding text_septets_def by (rule gsm.decs_stream) (simp add: list_all_iff)

section \<open>The decoding loop\<close>

lemma Get7BitsAtPos_packs:
  assumes p: "packs buf base ss" and k: "k < length ss" and n: "length ss \<le> 255"
    and rng: "base + octets (length ss) < length buf" and s: "take_bit 7 (ss ! k) = ss ! k"
  shows "Get7BitsAtPos buf base (k * 7) = Inr (ss ! k)"
proof -
  have "octets (Suc k) \<le> octets (length ss)" using k by (intro octets_mono) simp
  then have o: "7 * k div 8 < octets (length ss)" using septet_octet_bound(1) [of k] by simp
  have q: "k * 7 div 8 < 256" using k n by linarith
  have r: "base + k * 7 div 8 < length buf" "base + k * 7 div 8 + 1 < length buf"
    using o rng by (simp_all add: mult.commute)
  obtain w where w: "Get7BitsAtPos buf base (k * 7) = Inr w"
    "\<And>j. bit w j \<longleftrightarrow> j < 7 \<and> sbit buf base (k * 7 + j)"
    by (rule Get7BitsAtPos_eq [OF q r(1) r(2)]) (blast intro: that)
  have "w = take_bit 7 (ss ! k)"
    by (rule bit_word_eqI)
      (use w(2) p k in \<open>auto simp: bit_simps packs_def mult.commute\<close>)
  then show ?thesis using w(1) s by simp
qed

lemma decode_loop_spec:
  assumes "packs buf base ss" and "length ss \<le> 255" and "base + octets (length ss) < length buf"
    and "\<And>s. s \<in> set ss \<Longrightarrow> take_bit 7 s = s"
    and "decode_septets (drop r ss) = Some t" and "length out \<le> outSize"
  shows "decode_loop buf base (length ss) outSize r out =
     Inr (if length out + length t \<le> outSize then (LE_OK, out @ t)
          else (LE_OVERFLOW, take outSize (out @ t)))"
  using assms(5,6)
proof (induction "length ss - r" arbitrary: r out t rule: less_induct)
  case less
  show ?case
  proof (cases "r < length ss")
    case False
    then show ?thesis using less.prems by (subst decode_loop.simps) simp
  next
    case True
    have d: "drop r ss = ss ! r # drop (Suc r) ss" using True by (simp add: Cons_nth_drop_Suc)
    have g: "Get7BitsAtPos buf base (r * 7) = Inr (ss ! r)"
      by (rule Get7BitsAtPos_packs [OF assms(1) True assms(2,3)]) (use assms(4) True in simp)
    let ?c = "ascii_7_to_8 ! unat (ss ! r)"
    show ?thesis
    proof (cases "?c = ESCAPE_7BIT")
      case False
      then obtain t' where t': "t = ?c # t'" "decode_septets (drop (Suc r) ss) = Some t'"
        using less.prems d by auto
      then show ?thesis
        using False True g less.hyps [of "Suc r" t' "out @ [?c]"] less.prems(2)
        by (subst decode_loop.simps) auto
    next
      case esc: True
      then have "Suc r < length ss" using less.prems d by (cases "Suc r < length ss") auto
      then have d2: "drop (Suc r) ss = ss ! Suc r # drop (Suc (Suc r)) ss"
        by (simp add: Cons_nth_drop_Suc)
      have g2: "Get7BitsAtPos buf base ((r + 1) * 7) = Inr (ss ! (r + 1))"
        by (rule Get7BitsAtPos_packs [OF assms(1) _ assms(2,3)])
          (use assms(4) \<open>Suc r < length ss\<close> in simp_all)
      obtain t' where t': "t = escaped_char (ss ! Suc r) # t'"
          "decode_septets (drop (Suc (Suc r)) ss) = Some t'"
        using less.prems d d2 esc by auto
      then show ?thesis
        using esc True g g2 less.hyps [of "Suc (Suc r)" t' "out @ [escaped_char (ss ! Suc r)]"]
          less.prems(2)
        by (subst decode_loop.simps) auto
    qed
  qed
qed

text \<open>
  Decoding a buffer into which a text was encoded. The read of the octet behind the last septet
  needs one octet more than the encoded text has.
\<close>

lemma decode_packed_text:
  assumes "packs buf base (text_septets t)" and "length (text_septets t) \<le> 255"
    and "base + octets (length (text_septets t)) < length buf" and "length t \<le> outSize"
  shows "pduDecode7BitsTo8Bits buf base (length (text_septets t)) outSize =
     Inr (LE_OK, map gsm_canon t)"
proof -
  have s: "take_bit 7 s = s" if "s \<in> set (text_septets t)" for s
    using that by (auto simp: text_septets_def char_septets_septet)
  show ?thesis
    unfolding pduDecode7BitsTo8Bits_def
    by (subst decode_loop_spec [OF assms(1-3) s, where t = "map gsm_canon t"])
      (use assms(4) text_septets_roundtrip [of t] in simp_all)
qed

lemma encode_text_spec:
  assumes "len \<le> length inp" and "outSize \<le> 221" and "base + outSize + 2 \<le> length buf"
  shows "encodes_as buf base outSize (text_septets (take len inp))
     (pduEncode8BitsTo7Bits inp 0 len buf base outSize)"
  unfolding pduEncode8BitsTo7Bits_def
  using encode_loop_spec [of "len + 0" 0 inp "take len inp" buf base "[]" 0 0 outSize] assms
  by (simp add: octets_def)

section \<open>Properties of the text codec\<close>

text \<open>
  C32: a text whose characters the tables can represent comes back unchanged. If its septets fit
  into \<open>outSize\<close> octets, \<open>pduEncode8BitsTo7Bits\<close> returns them, and \<open>pduDecode7BitsTo8Bits\<close> run on
  the written buffer with the returned septet count returns the text.
\<close>

theorem text_roundtrip:
  assumes "len \<le> length inp" and "list_all gsm_safe (take len inp)"
    and "octets (length (text_septets (take len inp))) \<le> outSize"
    and "outSize \<le> 221" and "base + outSize + 2 \<le> length buf" and "len \<le> outSize'"
  shows "\<exists>buf' n m. pduEncode8BitsTo7Bits inp 0 len buf base outSize = Inr (buf', Inr (n, m)) \<and>
     pduDecode7BitsTo8Bits buf' base n outSize' = Inr (LE_OK, take len inp)"
proof -
  let ?t = "take len inp" and ?n = "length (text_septets (take len inp))"
  obtain buf' where buf': "pduEncode8BitsTo7Bits inp 0 len buf base outSize = Inr (buf', Inr (?n, octets ?n))"
      "length buf' = length buf" "packed buf' base (text_septets ?t)"
    using encode_text_spec [OF assms(1,4,5)] assms(3) by (auto simp: encodes_as_def Let_def)
  have n: "?n \<le> 255" using assms(3,4) octets_bound [of ?n outSize] by linarith
  have "map gsm_canon ?t = ?t"
    using assms(2) by (simp add: list_all_iff gsm_safe_def map_idI)
  moreover have "pduDecode7BitsTo8Bits buf' base ?n outSize' = Inr (LE_OK, map gsm_canon ?t)"
    by (rule decode_packed_text) (use buf' n assms(1,3,5,6) in \<open>auto simp: packed_def\<close>)
  ultimately show ?thesis using buf'(1) by auto
qed

text \<open>The text \<open>a{1\<close>, whose brace takes an escape, through a buffer with other contents.\<close>

theorem text_roundtrip_witness:
  "\<exists>buf' n m. pduEncode8BitsTo7Bits [0x61, 0x7B, 0x31] 0 3 (replicate 9 0xFF) 1 6 = Inr (buf', Inr (n, m)) \<and>
     pduDecode7BitsTo8Bits buf' 1 n 3 = Inr (LE_OK, [0x61, 0x7B, 0x31])"
proof -
  have s: "list_all gsm_safe (take 3 [0x61, 0x7B, 0x31])"
    "octets (length (text_septets (take 3 [0x61, 0x7B, 0x31]))) \<le> 6" by code_simp+
  show ?thesis
    using text_roundtrip [OF _ s, of 1 "replicate 9 0xFF" 3] by simp
qed

text \<open>
  On every input the encoder ends without touching memory outside the output area and the two
  octets behind it, and reports \<open>LE_OVERFLOW\<close> exactly when the packed text needs more than
  \<open>outSize\<close> octets. Otherwise it returns the number of septets and of octets, and leaves every
  octet outside the packed text as it was.
\<close>

theorem encode_bounds:
  assumes "len \<le> length inp" and "outSize \<le> 221" and "base + outSize + 2 \<le> length buf"
  shows "let n = length (text_septets (take len inp)) in
     \<exists>buf'. length buf' = length buf \<and>
       pduEncode8BitsTo7Bits inp 0 len buf base outSize =
         Inr (buf', if outSize < octets n then Inl LE_OVERFLOW else Inr (n, octets n)) \<and>
       (octets n \<le> outSize \<longrightarrow> (\<forall>x. x < base \<or> base + octets n \<le> x \<longrightarrow> buf' ! x = buf ! x))"
  using encode_text_spec [OF assms] by (auto simp: encodes_as_def Let_def split: if_splits)

theorem encode_bounds_witness:
  "\<exists>buf'. pduEncode8BitsTo7Bits (replicate 3 0x7E) 0 3 (replicate 7 0) 0 5 = Inr (buf', Inl LE_OVERFLOW)"
proof -
  have "\<not> octets (length (text_septets (take 3 (replicate 3 0x7E)))) \<le> 5" by code_simp
  then show ?thesis
    using encode_bounds [of 3 "replicate 3 0x7E" 5 0 "replicate 7 0"] by (auto simp: Let_def)
qed

text \<open>
  Of the printable ASCII characters, exactly the grave accent does not survive the round trip
  (its entry is -39 cast to an octet, an escape sequence that the decoder does not know).
\<close>

theorem printable_ascii_safe:
  assumes "0x20 \<le> c" and "c \<le> (0x7E :: byte)"
  shows "gsm_safe c \<longleftrightarrow> c \<noteq> 0x60"
proof -
  have "list_all (\<lambda>k. gsm_safe (of_nat k) = (k \<noteq> 0x60)) [0x20..<0x7F]"
    by code_simp
  moreover have "unat c \<in> set [0x20..<0x7F]"
    unfolding set_upt atLeastLessThan_iff using assms by (simp add: word_le_nat_alt)
  ultimately have "gsm_safe (of_nat (unat c)) \<longleftrightarrow> unat c \<noteq> 0x60"
    unfolding list_all_iff by blast
  then show ?thesis by (auto simp: word_unat_eq_iff)
qed

theorem printable_ascii_safe_witness: "gsm_safe 0x41 \<and> \<not> gsm_safe 0x60"
  using printable_ascii_safe [of "0x41"] printable_ascii_safe [of "0x60"] by simp

text \<open>
  Septet 124 decodes to the character 246 (o with diaeresis), but encoding that character
  gives septet 24, which decodes to a question mark: the decode table and the encode table
  disagree on it.
\<close>

theorem o_diaeresis_lost:
  "decode_septets [124] = Some [246] \<and> char_septets 246 = [24] \<and>
   decode_septets (char_septets 246) = Some [NON_PRINTABLE_8_BIT]"
  by code_simp

end
