(* ===== verification/Taf_Legato.thy ===== *)
theory Taf_Legato
  imports Taf_Prelude
begin

unbundle bit_operations_syntax

text \<open>
  What the sources rely on of the string functions of the Legato framework, which is not part of
  the repository: the functions themselves are parameters of the definitions that call them, and
  the predicates here state their documented behaviour.
\<close>

text \<open>What the documentation of \<open>le_hex_StringToBinary\<close> promises for a string of hex digits.\<close>

definition is_hex :: "byte \<Rightarrow> bool" where
  "is_hex c \<longleftrightarrow> 0x30 \<le> c \<and> c \<le> 0x39 \<or> 0x41 \<le> c \<and> c \<le> 0x46 \<or> 0x61 \<le> c \<and> c \<le> 0x66"

definition hexval :: "byte \<Rightarrow> byte" where
  "hexval c = (if c \<le> 0x39 then c - 0x30 else (c AND 0xDF) - 0x37)"

fun hex_bytes :: "byte list \<Rightarrow> byte list" where
  "hex_bytes (a # b # s) = (push_bit 4 (hexval a) OR hexval b) # hex_bytes s"
| "hex_bytes _ = []"

definition hex_spec :: "(byte list \<Rightarrow> nat \<Rightarrow> byte list) \<Rightarrow> bool" where
  "hex_spec hex \<longleftrightarrow> (\<forall>s n. list_all is_hex s \<and> even (length s) \<and> length s div 2 \<le> n \<longrightarrow>
     hex s n = hex_bytes s)"

lemma length_hex_bytes: "length (hex_bytes s) = length s div 2"
  by (induction s rule: hex_bytes.induct) auto

text \<open>
  \<open>le_utf8_Copy\<close> into an array of \<open>n\<close> bytes copies a string of ASCII characters up to \<open>n - 1\<close>
  bytes. Strings are lists without the terminating NUL.
\<close>

definition utf8_spec :: "(byte list \<Rightarrow> nat \<Rightarrow> byte list) \<Rightarrow> bool" where
  "utf8_spec utf8 \<longleftrightarrow>
     (\<forall>s n. list_all (\<lambda>c. 0 < c \<and> c < 128) s \<and> 0 < n \<longrightarrow> utf8 s n = take (n - 1) s) \<and>
     (\<forall>s n. length (utf8 s n) < n \<or> n = 0)"

lemma hex_spec_hex_bytes: "hex_spec (\<lambda>s n. hex_bytes s)"
  by (simp add: hex_spec_def)

lemma utf8_spec_take: "utf8_spec (\<lambda>s n. take (n - 1) s)"
  by (auto simp: utf8_spec_def)

end
