(* ===== verification/Sms_Pdu.thy ===== *)
theory Sms_Pdu
  imports Sms_Septet Taf_Legato
begin

unbundle bit_operations_syntax

text \<open>
  The PDU layer of \<open>tafSMSSvc/tafSmsPdu.cpp\<close>: decoding of SMS-DELIVER (\<open>smsPdu_Decode\<close>) and
  encoding of SMS-SUBMIT (\<open>smsPdu_Encode\<close>), with the semi-octet addresses and the data coding
  scheme. Positions are \<open>uint8_t\<close> in the source and are reduced modulo 256 where it stores them
  in one. The array sizes come from an interface file outside the sources (\<open>taf_sms.api\<close>), and
  \<open>le_hex_StringToBinary\<close> from the Legato framework: both are parameters.
\<close>

section \<open>Data\<close>

datatype sms_Type = SMS_TYPE_DELIVER | SMS_TYPE_SUBMIT | SMS_TYPE_STATUS_REPORT | SMS_TYPE_PDU
  | SMS_TYPE_CELL_BROADCAST | SMS_TYPE_UNSUPPORTED

datatype sms_Protocol = SMS_PROTOCOL_UNKNOWN | SMS_PROTOCOL_GSM | SMS_PROTOCOL_CDMA
  | SMS_PROTOCOL_GW_CB

datatype pdu_Encoding = PDU_ENCODING_7_BITS | PDU_ENCODING_8_BITS | PDU_ENCODING_16_BITS
  | PDU_ENCODING_UNKNOWN

record sms_limits =
  TAF_SMS_TEXT_BYTES :: nat
  TAF_SMS_TEXT_LEN :: nat
  TAF_SMS_PDU_BYTES :: nat
  TAF_SMS_PDU_PAYLOAD :: nat
  TAF_TYPES_REMOTE_PARTY_NUM_MAX_BYTES :: nat
  LE_OVERFLOW_code :: int \<comment> \<open>the negative number that \<open>LE_OVERFLOW\<close> stands for\<close>

record sms_PduMsg =
  pm_addr :: "byte list"
  pm_data :: "byte list"
  pm_dataLen :: u32
  pm_type :: sms_Type
  pm_encoding :: pdu_Encoding

record smsPdu_EncodeMsg =
  em_protocol :: sms_Protocol
  em_msgData :: "byte list"
  em_msgDataLen :: nat
  em_addrData :: "byte list" \<comment> \<open>without the terminating NUL\<close>
  em_encoding :: pdu_Encoding
  em_type :: sms_Type
  em_statusReport :: bool

record taf_sms_Pdu =
  pdu_length :: nat
  pdu_data :: "byte list"

abbreviation u8 :: "nat \<Rightarrow> nat" where "u8 n \<equiv> n mod 256"

definition GetByteAtPos :: "byte list \<Rightarrow> nat \<Rightarrow> byte mem" where
  "GetByteAtPos buf pos = rd buf (u8 pos)"

definition SetByteAtPos :: "byte list \<Rightarrow> nat \<Rightarrow> byte \<Rightarrow> byte list mem" where
  "SetByteAtPos buf pos v = wr buf (u8 pos) v"

section \<open>Addresses\<close>

text \<open>One semi-octet as a character: \<open>0..9\<close>, then \<open>A..F\<close>.\<close>

definition nibble_char :: "byte \<Rightarrow> byte" where
  "nibble_char n = (let c = n + 0x30 in if c > 0x39 then c + 7 else c)"

definition semi_octet :: "byte \<Rightarrow> nat \<Rightarrow> byte" where
  "semi_octet b i = (if i mod 2 = 0 then b AND 0x0F else drop_bit 4 (b AND 0xF0))"

function addr_loop :: "byte list \<Rightarrow> nat \<Rightarrow> nat \<Rightarrow> nat \<Rightarrow> byte list \<Rightarrow> nat \<Rightarrow> byte list mem" where
  "addr_loop buf base addrLen i out idx =
     (if i < addrLen \<and> \<not> idx \<ge> length out - 1
      then mbind (rd buf (base + i div 2 + 1)) (\<lambda>b.
        let nibble = nibble_char (semi_octet b i) in
        if nibble = 0x46 then wr out idx 0
        else mbind (wr out idx nibble) (\<lambda>out'. addr_loop buf base addrLen (i + 1) out' (idx + 1)))
      else wr out idx 0)"
  by pat_completeness auto
termination
  by (relation "measure (\<lambda>(buf, base, addrLen, i, out, idx). addrLen - i)") auto

declare addr_loop.simps [simp del]

text \<open>
  \<open>out\<close> is the array \<open>outputAddr\<close> of \<open>length out\<close> characters. A type of number 5 is an
  alphanumeric address in packed septets; \<open>0x91\<close> is an international number. The return value,
  always \<open>addrLen\<close>, is left out.
\<close>

definition pduDecodeAddr :: "byte list \<Rightarrow> nat \<Rightarrow> nat \<Rightarrow> byte list \<Rightarrow> byte list mem" where
  "pduDecodeAddr buf base addrLen out =
     (if length out = 0 then Inr out
      else
        let out0 = out[0 := 0] in
        mbind (rd buf base) (\<lambda>toa.
        let ton = drop_bit 4 toa AND 0x07 in
        if ton = 5
        then
          let addrOctets = u8 ((addrLen + 1) div 2); septetCount = u8 ((addrOctets * 8) div 7) in
          mbind (pduDecode7BitsTo8Bits buf (base + 1) septetCount (length out - 1)) (\<lambda>(r, decoded).
          mbind (wrn out0 0 decoded) (\<lambda>out1.
            if r \<noteq> LE_OK then wr out1 0 0 else wr out1 (length decoded) 0))
        else if toa = 0x91 \<and> 0 < length out - 1
        then mbind (wr out0 0 0x2B) (\<lambda>out1. addr_loop buf base addrLen 0 out1 1)
        else addr_loop buf base addrLen 0 out0 0))"

section \<open>User data\<close>

text \<open>The result holds the array \<open>userData\<close> and the returned length (negative for an error).\<close>

definition pduDecodeUserData ::
  "sms_limits \<Rightarrow> pdu_Encoding \<Rightarrow> byte list \<Rightarrow> nat \<Rightarrow> byte list \<Rightarrow> nat \<Rightarrow> (int \<times> byte list) mem" where
  "pduDecodeUserData L encoding buf base userData userDataLen =
     (case encoding of
        PDU_ENCODING_7_BITS \<Rightarrow>
          mbind (pduDecode7BitsTo8Bits buf base userDataLen (TAF_SMS_TEXT_BYTES L)) (\<lambda>(r, decoded).
          mbind (wrn userData 0 decoded) (\<lambda>userData1.
            if r \<noteq> LE_OK then Inr (LE_OVERFLOW_code L, userData1)
            else if length decoded < TAF_SMS_TEXT_BYTES L
            then mbind (wr userData1 (length decoded) 0) (\<lambda>userData2.
                   Inr (int (length decoded), userData2))
            else Inr (int (length decoded), userData1)))
      | PDU_ENCODING_8_BITS \<Rightarrow>
          mbind (rdn buf base userDataLen) (\<lambda>bs.
          mbind (wrn userData 0 bs) (\<lambda>userData1. Inr (int userDataLen, userData1)))
      | PDU_ENCODING_16_BITS \<Rightarrow>
          mbind (rdn buf base userDataLen) (\<lambda>bs.
          mbind (wrn userData 0 bs) (\<lambda>userData1. Inr (int userDataLen, userData1)))
      | PDU_ENCODING_UNKNOWN \<Rightarrow> Inr (0, userData))"

text \<open>The encodings in the order of the enumeration, whose numbers the code casts to.\<close>

definition pdu_Encoding_of :: "byte \<Rightarrow> pdu_Encoding" where
  "pdu_Encoding_of n = (if n = 0 then PDU_ENCODING_7_BITS else if n = 1 then PDU_ENCODING_8_BITS
     else if n = 2 then PDU_ENCODING_16_BITS else PDU_ENCODING_UNKNOWN)"

definition getDataCodingScheme :: "byte \<Rightarrow> pdu_Encoding" where
  "getDataCodingScheme smsDcs =
     (if drop_bit 4 smsDcs = 0xF then pdu_Encoding_of (drop_bit 2 smsDcs AND 1)
      else if drop_bit 6 smsDcs = 0 then pdu_Encoding_of (drop_bit 2 smsDcs AND 3)
      else PDU_ENCODING_UNKNOWN)"

section \<open>SMS-DELIVER\<close>

definition sms_DecodeDeliver ::
  "sms_limits \<Rightarrow> byte list \<Rightarrow> sms_PduMsg \<Rightarrow> (le_result \<times> sms_PduMsg) mem" where
  "sms_DecodeDeliver L dataPtr smsPdu =
     mbind (GetByteAtPos dataPtr 0) (\<lambda>smsc.
     let pos_smsDeliver = u8 (1 + unat smsc) in
     mbind (GetByteAtPos dataPtr (pos_smsDeliver + 1)) (\<lambda>smsAddrLen.
     let pos_smsAddr = u8 (pos_smsDeliver + 2) in
     if unat smsAddrLen + 1 + 1 > length (pm_addr smsPdu) then Inr (LE_OVERFLOW, smsPdu)
     else
     mbind (pduDecodeAddr dataPtr pos_smsAddr (unat smsAddrLen) (pm_addr smsPdu)) (\<lambda>addr.
     let smsPdu1 = smsPdu\<lparr>pm_addr := addr\<rparr> in
     mbind (rd dataPtr (pos_smsDeliver + 1)) (\<lambda>addrLen'.
     let pos_smsPid = u8 (pos_smsDeliver + 3 + (unat addrLen' + 1) div 2);
         pos_smsDcs = u8 (pos_smsPid + 1) in
     mbind (rd dataPtr pos_smsDcs) (\<lambda>dcs.
     let encoding = getDataCodingScheme dcs in
     if encoding = PDU_ENCODING_UNKNOWN then Inr (LE_UNSUPPORTED, smsPdu1)
     else
     let smsPdu2 = smsPdu1\<lparr>pm_encoding := encoding\<rparr>;
         pos_dataLen = u8 (pos_smsDcs + 7 + 1) in
     mbind (GetByteAtPos dataPtr pos_dataLen) (\<lambda>smsUdl.
     if length (pm_data smsPdu2) < unat smsUdl then Inr (LE_FAULT, smsPdu2)
     else
     let pos_Data = u8 (pos_dataLen + 1) in
     mbind (pduDecodeUserData L encoding dataPtr pos_Data (pm_data smsPdu2) (unat smsUdl))
       (\<lambda>(decodedContentSize, data).
     Inr (LE_OK, smsPdu2\<lparr>pm_data := data, pm_dataLen := word_of_int decodedContentSize\<rparr>))))))))"

definition sms_PduMsg_zero :: "sms_limits \<Rightarrow> sms_PduMsg" where
  "sms_PduMsg_zero L = \<lparr>pm_addr = replicate (TAF_TYPES_REMOTE_PARTY_NUM_MAX_BYTES L + 4) 0,
     pm_data = replicate (TAF_SMS_TEXT_BYTES L) 0, pm_dataLen = 0, pm_type = SMS_TYPE_DELIVER,
     pm_encoding = PDU_ENCODING_7_BITS\<rparr>"

definition sms_DecodeGsm :: "sms_limits \<Rightarrow> byte list \<Rightarrow> (le_result \<times> sms_PduMsg) mem" where
  "sms_DecodeGsm L dataPtr =
     (let smsPdu = sms_PduMsg_zero L in
      mbind (GetByteAtPos dataPtr 0) (\<lambda>smsc.
      let pos_smsDeliver = u8 (1 + unat smsc) in
      mbind (GetByteAtPos dataPtr pos_smsDeliver) (\<lambda>smsType.
      if smsType AND 0x03 = 0x00
      then sms_DecodeDeliver L dataPtr (smsPdu\<lparr>pm_type := SMS_TYPE_DELIVER\<rparr>)
      else Inr (LE_UNSUPPORTED, smsPdu))))"

definition smsPdu_Decode ::
  "sms_limits \<Rightarrow> sms_Protocol \<Rightarrow> byte list \<Rightarrow> sms_PduMsg \<Rightarrow> (le_result \<times> sms_PduMsg) mem" where
  "smsPdu_Decode L protocol dataPtr smsPdu =
     (case protocol of
        SMS_PROTOCOL_GSM \<Rightarrow> sms_DecodeGsm L dataPtr
      | SMS_PROTOCOL_CDMA \<Rightarrow> Inr (LE_UNSUPPORTED, smsPdu)
      | SMS_PROTOCOL_GW_CB \<Rightarrow> Inr (LE_UNSUPPORTED, smsPdu)
      | SMS_PROTOCOL_UNKNOWN \<Rightarrow> Inr (LE_UNSUPPORTED, smsPdu))"

section \<open>SMS-SUBMIT\<close>

text \<open>The digits in swapped pairs, an odd number of them filled up with \<open>F\<close>.\<close>

function number_loop :: "byte list \<Rightarrow> nat \<Rightarrow> byte list \<Rightarrow> byte list mem" where
  "number_loop addr i number =
     (if i < length addr
      then mbind (wr number (i + 1) (addr ! i)) (\<lambda>number1.
           mbind (wr number1 i (if i + 1 < length addr then addr ! (i + 1) else 0x46)) (\<lambda>number2.
             number_loop addr (i + 2) number2))
      else Inr number)"
  by pat_completeness auto
termination
  by (relation "measure (\<lambda>(addr, i, number). length addr - i)") auto

declare number_loop.simps [simp del]

text \<open>
  \<open>hex s size\<close> is what \<open>le_hex_StringToBinary\<close> writes for the string \<open>s\<close> into \<open>size\<close> bytes. The
  output is a part of the array \<open>out\<close>, from \<open>base\<close>.
\<close>

definition pduEncodeAddr ::
  "sms_limits \<Rightarrow> (byte list \<Rightarrow> nat \<Rightarrow> byte list) \<Rightarrow> byte list \<Rightarrow> byte list \<Rightarrow> nat \<Rightarrow> nat
     \<Rightarrow> (nat \<times> byte list) mem" where
  "pduEncodeAddr L hex addrPtr out base outSize =
     (let addr = (if addrPtr \<noteq> [] \<and> hd addrPtr = 0x2B then tl addrPtr else addrPtr);
          numLen = 2 * ((length addr + 1) div 2) in
      mbind (number_loop addr 0 (replicate (TAF_TYPES_REMOTE_PARTY_NUM_MAX_BYTES L) 0)) (\<lambda>number.
      mbind (wrn out base (hex (take numLen number) outSize)) (\<lambda>out1.
        Inr (length addr, out1))))"

text \<open>The fixed part of the PDU: everything up to and without the user data length.\<close>

definition sms_EncodeHeader ::
  "sms_limits \<Rightarrow> (byte list \<Rightarrow> nat \<Rightarrow> byte list) \<Rightarrow> byte \<Rightarrow> nat \<Rightarrow> byte \<Rightarrow> byte \<Rightarrow> byte list \<Rightarrow> byte list
     \<Rightarrow> (nat \<times> byte list) mem" where
  "sms_EncodeHeader L hex pduType addrLen addrToa tpDcs addrData data =
     mbind (SetByteAtPos data 0 0x00) (\<lambda>d0.
     mbind (SetByteAtPos d0 1 pduType) (\<lambda>d1.
     mbind (SetByteAtPos d1 2 0x00) (\<lambda>d2.
     mbind (SetByteAtPos d2 3 (of_nat addrLen)) (\<lambda>d3.
     mbind (SetByteAtPos d3 4 addrToa) (\<lambda>d4.
     mbind (pduEncodeAddr L hex addrData d4 5 (TAF_SMS_PDU_BYTES L - 5)) (\<lambda>(n, d5).
     let pos = u8 (5 + (n + 1) div 2) in
     mbind (SetByteAtPos d5 pos 0x00) (\<lambda>d6.
     mbind (SetByteAtPos d6 (u8 (pos + 1)) tpDcs) (\<lambda>d7.
     mbind (SetByteAtPos d7 (u8 (pos + 2)) 0xAD) (\<lambda>d8.
       Inr (u8 (pos + 3), d8))))))))))"

text \<open>The user data length and the user data, with an overflow where they do not fit.\<close>

definition sms_EncodeUserData ::
  "sms_limits \<Rightarrow> pdu_Encoding \<Rightarrow> byte list \<Rightarrow> nat \<Rightarrow> nat \<Rightarrow> byte list
     \<Rightarrow> (byte list \<times> (le_result + nat)) mem" where
  "sms_EncodeUserData L encoding msgData msgLen pos data =
     (case encoding of
        PDU_ENCODING_7_BITS \<Rightarrow>
          mbind (pduEncode8BitsTo7Bits msgData 0 (u8 msgLen) data (pos + 1) (TAF_SMS_PDU_PAYLOAD L))
            (\<lambda>(data1, r).
          case r of
            Inl e \<Rightarrow> Inr (data1, Inl LE_OVERFLOW)
          | Inr (newmsgLen, octetLen) \<Rightarrow>
              mbind (SetByteAtPos data1 pos (of_nat newmsgLen)) (\<lambda>data2.
                Inr (data2, Inr (u8 (u8 (pos + 1) + octetLen)))))
      | PDU_ENCODING_8_BITS \<Rightarrow>
          if msgLen > TAF_SMS_PDU_PAYLOAD L then Inr (data, Inl LE_OVERFLOW)
          else mbind (SetByteAtPos data pos (of_nat msgLen)) (\<lambda>data1.
               mbind (rdn msgData 0 msgLen) (\<lambda>bs.
               mbind (wrn data1 (u8 (pos + 1)) bs) (\<lambda>data2.
                 Inr (data2, Inr (u8 (u8 (pos + 1) + msgLen))))))
      | PDU_ENCODING_16_BITS \<Rightarrow>
          if msgLen > TAF_SMS_PDU_PAYLOAD L then Inr (data, Inl LE_OVERFLOW)
          else mbind (SetByteAtPos data pos (of_nat msgLen)) (\<lambda>data1.
               mbind (rdn msgData 0 msgLen) (\<lambda>bs.
               mbind (wrn data1 (u8 (pos + 1)) bs) (\<lambda>data2.
                 Inr (data2, Inr (u8 (u8 (pos + 1) + msgLen))))))
      | PDU_ENCODING_UNKNOWN \<Rightarrow> Inr (data, Inl LE_UNSUPPORTED))"

definition sms_EncodeGsm ::
  "sms_limits \<Rightarrow> (byte list \<Rightarrow> nat \<Rightarrow> byte list) \<Rightarrow> smsPdu_EncodeMsg \<Rightarrow> taf_sms_Pdu
     \<Rightarrow> (le_result \<times> taf_sms_Pdu) mem" where
  "sms_EncodeGsm L hex sms smsPdu =
     (if em_msgDataLen sms > TAF_SMS_TEXT_LEN L then Inr (LE_FAULT, smsPdu)
      else
      let pdu0 = smsPdu\<lparr>pdu_data := replicate (TAF_SMS_PDU_BYTES L) 0\<rparr> in
      if em_type sms \<noteq> SMS_TYPE_SUBMIT then Inr (LE_UNSUPPORTED, pdu0)
      else
      let pduType = (0x01 OR 0x10 OR (if em_statusReport sms then 0x20 else 0)) in
      if length (em_addrData sms) > TAF_TYPES_REMOTE_PARTY_NUM_MAX_BYTES L
      then Inr (LE_FAULT, pdu0)
      else
      let plus = (em_addrData sms \<noteq> [] \<and> hd (em_addrData sms) = 0x2B);
          addrLen = (if plus then length (em_addrData sms) - 1 else length (em_addrData sms));
          addrToa = (if plus then 0x91 else 0x81) in
      if em_encoding sms = PDU_ENCODING_UNKNOWN then Inr (LE_FAULT, pdu0)
      else
      let tpDcs = (case em_encoding sms of PDU_ENCODING_8_BITS \<Rightarrow> 0x04
                   | PDU_ENCODING_16_BITS \<Rightarrow> 0x08 | _ \<Rightarrow> 0x00) in
      mbind (sms_EncodeHeader L hex pduType addrLen addrToa tpDcs (em_addrData sms) (pdu_data pdu0))
        (\<lambda>(pos, data).
      mbind (sms_EncodeUserData L (em_encoding sms) (em_msgData sms) (em_msgDataLen sms) pos data)
        (\<lambda>(data', r).
      case r of
        Inl e \<Rightarrow> Inr (e, pdu0\<lparr>pdu_data := data'\<rparr>)
      | Inr pos' \<Rightarrow> Inr (LE_OK, pdu0\<lparr>pdu_data := data', pdu_length := pos'\<rparr>))))"

definition smsPdu_Encode ::
  "sms_limits \<Rightarrow> (byte list \<Rightarrow> nat \<Rightarrow> byte list) \<Rightarrow> smsPdu_EncodeMsg \<Rightarrow> taf_sms_Pdu
     \<Rightarrow> (le_result \<times> taf_sms_Pdu) mem" where
  "smsPdu_Encode L hex sms smsPdu =
     (case em_protocol sms of
        SMS_PROTOCOL_GSM \<Rightarrow> sms_EncodeGsm L hex sms smsPdu
      | SMS_PROTOCOL_CDMA \<Rightarrow> Inr (LE_UNSUPPORTED, smsPdu)
      | SMS_PROTOCOL_GW_CB \<Rightarrow> Inr (LE_UNSUPPORTED, smsPdu)
      | SMS_PROTOCOL_UNKNOWN \<Rightarrow> Inr (LE_UNSUPPORTED, smsPdu))"

section \<open>Semi-octets\<close>

fun swap_pairs :: "byte list \<Rightarrow> byte list" where
  "swap_pairs [] = []"
| "swap_pairs [a] = [0x46, a]"
| "swap_pairs (a # b # s) = b # a # swap_pairs s"

definition is_digit :: "byte \<Rightarrow> bool" where
  "is_digit c \<longleftrightarrow> 0x30 \<le> c \<and> c \<le> 0x39"

lemma length_swap_pairs: "length (swap_pairs s) = 2 * ((length s + 1) div 2)"
  by (induction s rule: swap_pairs.induct) auto

lemma swap_pairs_hex: "list_all is_digit s \<Longrightarrow> list_all is_hex (swap_pairs s)"
  by (induction s rule: swap_pairs.induct) (auto simp: is_digit_def is_hex_def)

lemma number_loop_spec:
  assumes "2 * k \<le> length addr + 1" and "2 * k + length (swap_pairs (drop (2 * k) addr)) \<le> length number"
  shows "number_loop addr (2 * k) number =
     Inr (take (2 * k) number @ swap_pairs (drop (2 * k) addr)
          @ drop (2 * k + length (swap_pairs (drop (2 * k) addr))) number)"
  using assms
proof (induction "length addr - 2 * k" arbitrary: k number rule: less_induct)
  case less
  let ?s = "drop (2 * k) addr"
  show ?case
  proof (cases "2 * k < length addr")
    case False
    then show ?thesis by (subst number_loop.simps) simp
  next
    case True
    then have d: "?s = addr ! (2 * k) # drop (2 * k + 1) addr" by (simp add: Cons_nth_drop_Suc)
    show ?thesis
    proof (cases "2 * k + 1 < length addr")
      case False
      then have d1: "?s = [addr ! (2 * k)]" using d by simp
      then have r: "2 * k + 1 < length number" using less.prems(2) by simp
      have step: "number_loop addr (2 * k) number =
          number_loop addr (2 * k + 2) (number[2 * k + 1 := addr ! (2 * k), 2 * k := 0x46])"
        using True False r by (subst number_loop.simps) (simp add: wr_def)
      have "number_loop addr (2 * k + 2) x = Inr x" for x
        using False by (subst number_loop.simps) simp
      then show ?thesis
        unfolding step d1 using r by (simp add: upd_conv_take_nth_drop nth_append list_update_append
            take_Suc_conv_app_nth Cons_nth_drop_Suc)
    next
      case t2: True
      then have d2: "drop (2 * k + 1) addr = addr ! (2 * k + 1) # drop (2 * (k + 1)) addr"
        by (simp add: Cons_nth_drop_Suc)
      have sp: "swap_pairs ?s = addr ! (2 * k + 1) # addr ! (2 * k) # swap_pairs (drop (2 * (k + 1)) addr)"
        unfolding d d2 by simp
      have r: "2 * k + 1 < length number" using less.prems(2) sp by simp
      let ?n = "number[2 * k + 1 := addr ! (2 * k), 2 * k := addr ! (2 * k + 1)]"
      have step: "number_loop addr (2 * k) number = number_loop addr (2 * (k + 1)) ?n"
        using True t2 r by (subst number_loop.simps) (simp add: wr_def)
      have IH: "number_loop addr (2 * (k + 1)) ?n = Inr (take (2 * (k + 1)) ?n
          @ swap_pairs (drop (2 * (k + 1)) addr)
          @ drop (2 * (k + 1) + length (swap_pairs (drop (2 * (k + 1)) addr))) ?n)"
        by (rule less.hyps) (use True t2 less.prems sp in simp_all)
      have t: "take (2 * (k + 1)) ?n = take (2 * k) number @ [addr ! (2 * k + 1), addr ! (2 * k)]"
        using r by (simp add: take_Suc_conv_app_nth)
      show ?thesis
        unfolding step IH t sp by simp
    qed
  qed
qed

lemma nibble_bits: "x < 16 \<Longrightarrow> bit (x :: byte) n \<Longrightarrow> n < 4"
proof -
  assume x: "x < 16" and b: "bit x n"
  have "unat x < 2 ^ 4" using x by (simp add: word_less_nat_alt)
  then have "take_bit 4 (unat x) = unat x" by (simp add: take_bit_nat_eq_self_iff)
  moreover have "bit (unat x) n" using b by (simp add: bit_unsigned_iff bit_imp_le_length)
  ultimately show "n < 4" by (metis bit_take_bit_iff)
qed

lemma pack_nibbles:
  assumes "x < 16" and "y < (16 :: byte)"
  shows "semi_octet (push_bit 4 y OR x) (2 * k) = x"
    and "semi_octet (push_bit 4 y OR x) (Suc (2 * k)) = y"
proof -
  have m: "a AND 0x0F = take_bit 4 a" for a :: byte
    by (simp add: take_bit_eq_mask mask_eq_exp_minus_1)
  have t: "take_bit 4 x = x" "take_bit 4 y = y"
    by (rule bit_word_eqI; use assms nibble_bits in \<open>auto simp: bit_take_bit_iff\<close>)+
  show "semi_octet (push_bit 4 y OR x) (2 * k) = x"
  proof (rule bit_word_eqI)
    fix n assume "n < LENGTH(8)"
    then show "bit (semi_octet (push_bit 4 y OR x) (2 * k)) n = bit x n"
      using nibble_bits [OF assms(1), of n]
      by (auto simp: semi_octet_def m bit_take_bit_iff bit_or_iff bit_push_bit_iff)
  qed
  have d: "drop_bit 4 (a AND 0xF0) = take_bit 4 (drop_bit 4 a)" for a :: byte
    by (simp add: m)
  show "semi_octet (push_bit 4 y OR x) (Suc (2 * k)) = y"
  proof (rule bit_word_eqI)
    fix n assume "n < LENGTH(8)"
    then show "bit (semi_octet (push_bit 4 y OR x) (Suc (2 * k))) n = bit y n"
      using nibble_bits [OF assms(1), of "4 + n"] nibble_bits [OF assms(2), of n]
      by (auto simp: semi_octet_def d bit_take_bit_iff bit_or_iff bit_push_bit_iff bit_drop_bit_eq
          simp del: drop_bit_and)
  qed
qed

lemma semi_octet_add2: "semi_octet b (Suc (Suc i)) = semi_octet b i"
  by (simp add: semi_octet_def)

lemma digit_facts:
  assumes "is_digit c"
  shows "hexval c < 16" "nibble_char (hexval c) = c" "c \<noteq> 0x46"
proof -
  have "list_all (\<lambda>k. hexval (of_nat k) < 16 \<and> nibble_char (hexval (of_nat k)) = of_nat k \<and>
      of_nat k \<noteq> (0x46 :: byte)) [0x30..<0x3A]"
    by code_simp
  moreover have "unat c \<in> set [0x30..<0x3A]"
    unfolding set_upt atLeastLessThan_iff using assms by (simp add: is_digit_def word_le_nat_alt)
  ultimately have "hexval (of_nat (unat c)) < 16 \<and> nibble_char (hexval (of_nat (unat c))) = of_nat (unat c) \<and>
      of_nat (unat c) \<noteq> (0x46 :: byte)"
    unfolding list_all_iff by blast
  then show "hexval c < 16" "nibble_char (hexval c) = c" "c \<noteq> 0x46" by simp_all
qed

lemma semi_octet_nth:
  assumes "list_all is_digit s" and "j < length s"
  shows "nibble_char (semi_octet (hex_bytes (swap_pairs s) ! (j div 2)) j) = s ! j"
  using assms
proof (induction s arbitrary: j rule: swap_pairs.induct)
  case 1
  then show ?case by simp
next
  case (2 a)
  have F: "hexval 0x46 < 16" by code_simp
  show ?case using 2 pack_nibbles(1) [OF _ F, of _ 0] digit_facts by simp
next
  case (3 a b s)
  show ?case
  proof (cases "j < 2")
    case True
    then have "j = 0 \<or> j = 1" by auto
    then show ?thesis using 3(2) digit_facts pack_nibbles [of "hexval a" "hexval b" 0] by auto
  next
    case False
    then obtain i where "j = i + 2" by (metis add.commute le_Suc_ex not_less)
    then show ?thesis using 3 by (simp add: semi_octet_add2)
  qed
qed

lemma addr_loop_spec:
  assumes src: "\<And>j. j < length s \<Longrightarrow> nibble_char (semi_octet (buf ! (base + j div 2 + 1)) j) = s ! j"
    and rng: "base + (length s + 1) div 2 < length buf" and nf: "list_all (\<lambda>c. c \<noteq> 0x46) s"
    and "i \<le> length s" and "idx + (length s - i) < length out"
  shows "addr_loop buf base (length s) i out idx =
     Inr (take idx out @ drop i s @ 0 # drop (idx + (length s - i) + 1) out)"
  using assms(4,5)
proof (induction "length s - i" arbitrary: i idx out)
  case 0
  then show ?case
    by (subst addr_loop.simps) (simp add: wr_def upd_conv_take_nth_drop)
next
  case (Suc k)
  then have i: "i < length s" by simp
  have r: "base + i div 2 + 1 < length buf" using i rng by linarith
  have idx: "idx < length out" "\<not> length out - 1 \<le> idx" using Suc.prems i by auto
  have c: "s ! i \<noteq> 0x46" using nf i by (simp add: list_all_length)
  have IH: "addr_loop buf base (length s) (i + 1) (out[idx := s ! i]) (idx + 1) =
     Inr (take (idx + 1) (out[idx := s ! i]) @ drop (i + 1) s @
          0 # drop (idx + 1 + (length s - (i + 1)) + 1) (out[idx := s ! i]))"
    by (rule Suc.hyps(1)) (use Suc.hyps(2) Suc.prems i in auto)
  have t: "take (idx + 1) (out[idx := s ! i]) = take idx out @ [s ! i]"
    using idx(1) by (simp add: take_Suc_conv_app_nth)
  have step: "addr_loop buf base (length s) i out idx =
     addr_loop buf base (length s) (i + 1) (out[idx := s ! i]) (idx + 1)"
    using i idx r c src [OF i] by (subst addr_loop.simps) (simp add: rd_def wr_def Let_def)
  show ?case
    unfolding step IH t using i Cons_nth_drop_Suc [OF i, symmetric] by (simp add: Suc_diff_Suc)
qed

text \<open>
  The buffer from \<open>base\<close> holds the type of address and the semi-octets of the digits: decoding
  writes the number, with a leading plus for an international one, and the terminating NUL.
\<close>

lemma pduDecodeAddr_digits:
  assumes toa: "buf ! base = toa" "toa = 0x81 \<or> toa = 0x91" and dig: "list_all is_digit s"
    and so: "take ((length s + 1) div 2) (drop (base + 1) buf) = hex_bytes (swap_pairs s)"
    and rng: "base + (length s + 1) div 2 < length buf"
    and out: "(if toa = 0x91 then 1 else 0) + length s < length out"
  shows "\<exists>rest. pduDecodeAddr buf base (length s) out =
     Inr ((if toa = 0x91 then [0x2B] else []) @ s @ 0 # rest)"
proof -
  have src: "nibble_char (semi_octet (buf ! (base + j div 2 + 1)) j) = s ! j" if j: "j < length s" for j
  proof -
    have jd: "j div 2 < (length s + 1) div 2" using j by linarith
    have "hex_bytes (swap_pairs s) ! (j div 2) = buf ! (base + 1 + j div 2)"
      unfolding so [symmetric] using jd rng by simp
    then show ?thesis using semi_octet_nth [OF dig j] by (simp add: add.assoc)
  qed
  have nf: "list_all (\<lambda>c. c \<noteq> 0x46) s"
    using dig digit_facts(3) by (auto simp: list_all_iff)
  have ton: "drop_bit 4 toa AND 0x07 \<noteq> 5" using toa(2) by auto
  have b: "base < length buf" using rng by simp
  obtain o0 os where o0: "out = o0 # os" using out by (cases out) auto
  show ?thesis
  proof (cases "toa = 0x91")
    case True
    obtain o1 os' where os: "os = o1 # os'" using out True o0 by (cases os) auto
    have "addr_loop buf base (length s) 0 (0x2B # os) 1 =
        Inr (take 1 (0x2B # os) @ drop 0 s @ 0 # drop (1 + (length s - 0) + 1) (0x2B # os))"
      by (rule addr_loop_spec [OF src rng nf]) (use out True o0 in auto)
    then show ?thesis
      using True ton toa(1) b o0 os by (auto simp: pduDecodeAddr_def rd_def wr_def Let_def)
  next
    case False
    have "addr_loop buf base (length s) 0 (0 # os) 0 =
        Inr (take 0 (0 # os) @ drop 0 s @ 0 # drop (0 + (length s - 0) + 1) (0 # os))"
      by (rule addr_loop_spec [OF src rng nf]) (use out False o0 in auto)
    then show ?thesis
      using False ton toa(1) b o0 by (auto simp: pduDecodeAddr_def rd_def wr_def Let_def)
  qed
qed

section \<open>The layout of an SMS-SUBMIT\<close>

text \<open>An address: an optional intl and digits, as the code's \<open>addrData\<close>.\<close>

definition number_text :: "bool \<Rightarrow> byte list \<Rightarrow> byte list" where
  "number_text intl s = (if intl then 0x2B # s else s)"

definition submit_header :: "byte \<Rightarrow> bool \<Rightarrow> byte list \<Rightarrow> byte \<Rightarrow> byte list" where
  "submit_header pduType intl s tpDcs =
     [0x00, pduType, 0x00, of_nat (length s), if intl then 0x91 else 0x81]
       @ hex_bytes (swap_pairs s) @ [0x00, tpDcs, 0xAD]"

lemma length_submit_header:
  "length (submit_header pduType intl s tpDcs) = 8 + (length s + 1) div 2"
  by (simp add: submit_header_def length_hex_bytes length_swap_pairs)

lemma pduEncodeAddr_digits:
  assumes hex: "hex_spec hex" and dig: "list_all is_digit s"
    and room: "2 * ((length s + 1) div 2) \<le> TAF_TYPES_REMOTE_PARTY_NUM_MAX_BYTES L"
    and out: "base + (length s + 1) div 2 \<le> length out" "(length s + 1) div 2 \<le> outSize"
  shows "pduEncodeAddr L hex (number_text intl s) out base outSize =
     Inr (length s, take base out @ hex_bytes (swap_pairs s) @ drop (base + (length s + 1) div 2) out)"
proof -
  let ?M = "TAF_TYPES_REMOTE_PARTY_NUM_MAX_BYTES L"
  have a: "(if number_text intl s \<noteq> [] \<and> hd (number_text intl s) = 0x2B then tl (number_text intl s)
      else number_text intl s) = s"
    using dig by (cases s) (auto simp: number_text_def is_digit_def)
  have n: "number_loop s 0 (replicate ?M 0) = Inr (swap_pairs s @ drop (length (swap_pairs s)) (replicate ?M 0))"
    using number_loop_spec [of 0 s "replicate ?M 0"] room by (simp add: length_swap_pairs)
  have t: "take (2 * ((length s + 1) div 2)) (swap_pairs s @ r) = swap_pairs s" for r
    by (simp add: length_swap_pairs)
  have h: "hex (swap_pairs s) outSize = hex_bytes (swap_pairs s)"
    using hex swap_pairs_hex [OF dig] out(2) unfolding hex_spec_def by (simp add: length_swap_pairs)
  show ?thesis
    unfolding pduEncodeAddr_def Let_def a n mbind_simps t h
    using out(1) by (simp add: wrn_def length_hex_bytes length_swap_pairs)
qed

lemma sms_EncodeHeader_spec:
  assumes hex: "hex_spec hex" and dig: "list_all is_digit s"
    and room: "2 * ((length s + 1) div 2) \<le> TAF_TYPES_REMOTE_PARTY_NUM_MAX_BYTES L"
    and data: "length data = TAF_SMS_PDU_BYTES L" "8 + (length s + 1) div 2 \<le> length data"
      "8 + (length s + 1) div 2 < 256"
  shows "sms_EncodeHeader L hex pduType (length s) (if intl then 0x91 else 0x81) tpDcs
       (number_text intl s) data =
     Inr (8 + (length s + 1) div 2, submit_header pduType intl s tpDcs @ drop (8 + (length s + 1) div 2) data)"
proof -
  let ?m = "(length s + 1) div 2" and ?toa = "(if intl then 0x91 else 0x81) :: byte"
  let ?h0 = "[0x00, pduType, 0x00, of_nat (length s), ?toa]" and ?so = "hex_bytes (swap_pairs s)"
  have so: "length ?so = ?m" by (simp add: length_hex_bytes length_swap_pairs)
  have w: "SetByteAtPos (xs @ drop p data) p v = Inr (ys @ drop q data)"
    if "ys = xs @ [v]" "q = Suc p" "length xs = p" "p < 8 + ?m" for xs ys p q v
    unfolding SetByteAtPos_def using that data wr_seq [of xs p data v] by simp
  have 1: "SetByteAtPos data 0 0x00 = Inr ([0x00] @ drop 1 data)"
    "SetByteAtPos ([0x00] @ drop 1 data) 1 pduType = Inr ([0x00, pduType] @ drop 2 data)"
    "SetByteAtPos ([0x00, pduType] @ drop 2 data) 2 0x00 = Inr ([0x00, pduType, 0x00] @ drop 3 data)"
    "SetByteAtPos ([0x00, pduType, 0x00] @ drop 3 data) 3 (of_nat (length s)) =
       Inr ([0x00, pduType, 0x00, of_nat (length s)] @ drop 4 data)"
    "SetByteAtPos ([0x00, pduType, 0x00, of_nat (length s)] @ drop 4 data) 4 ?toa = Inr (?h0 @ drop 5 data)"
    using w [of "[0]" "[]" 0 1 0] by simp (rule w; simp)+
  have 2: "pduEncodeAddr L hex (number_text intl s) (?h0 @ drop 5 data) 5 (TAF_SMS_PDU_BYTES L - 5) =
     Inr (length s, (?h0 @ ?so) @ drop (5 + ?m) data)"
  proof -
    have "drop q (xs @ drop p d) = drop q d" if "length xs = p" "p \<le> q" for xs d :: "byte list" and p q
      using that by simp
    from this [of ?h0 5 "5 + ?m" data]
    have d: "drop (5 + ?m) (?h0 @ drop 5 data) = drop (5 + ?m) data" by (simp del: append_Cons)
    have "pduEncodeAddr L hex (number_text intl s) (?h0 @ drop 5 data) 5 (TAF_SMS_PDU_BYTES L - 5) =
        Inr (length s, take 5 (?h0 @ drop 5 data) @ ?so @ drop (5 + ?m) (?h0 @ drop 5 data))"
      by (rule pduEncodeAddr_digits [OF hex dig room]) (use data in auto)
    then show ?thesis unfolding d by simp
  qed
  have 3: "SetByteAtPos ((?h0 @ ?so) @ drop (5 + ?m) data) (5 + ?m) 0x00 =
       Inr ((?h0 @ ?so @ [0x00]) @ drop (6 + ?m) data)"
    "SetByteAtPos ((?h0 @ ?so @ [0x00]) @ drop (6 + ?m) data) (6 + ?m) tpDcs =
       Inr ((?h0 @ ?so @ [0x00, tpDcs]) @ drop (7 + ?m) data)"
    "SetByteAtPos ((?h0 @ ?so @ [0x00, tpDcs]) @ drop (7 + ?m) data) (7 + ?m) 0xAD =
       Inr ((?h0 @ ?so @ [0x00, tpDcs, 0xAD]) @ drop (8 + ?m) data)"
    by (rule w; simp add: so)+
  have u: "u8 (5 + ?m) = 5 + ?m" "u8 (5 + ?m + 1) = 6 + ?m" "u8 (5 + ?m + 2) = 7 + ?m" "u8 (5 + ?m + 3) = 8 + ?m"
    using data(3) by simp_all
  show ?thesis
    unfolding sms_EncodeHeader_def 1 2 3 mbind_simps Let_def prod.case u submit_header_def by simp
qed

text \<open>The hypotheses on the limits and the message, as a bool-valued predicate.\<close>

definition submit_ok :: "sms_limits \<Rightarrow> bool \<Rightarrow> byte list \<Rightarrow> smsPdu_EncodeMsg \<Rightarrow> bool" where
  "submit_ok L intl s sms \<longleftrightarrow>
     list_all is_digit s \<and> em_addrData sms = number_text intl s \<and> em_type sms = SMS_TYPE_SUBMIT \<and>
     length (number_text intl s) \<le> TAF_TYPES_REMOTE_PARTY_NUM_MAX_BYTES L \<and>
     2 * ((length s + 1) div 2) \<le> TAF_TYPES_REMOTE_PARTY_NUM_MAX_BYTES L \<and>
     em_msgDataLen sms \<le> TAF_SMS_TEXT_LEN L \<and> em_msgDataLen sms \<le> length (em_msgData sms) \<and>
     em_msgDataLen sms \<le> 255 \<and>
     11 + (length s + 1) div 2 + TAF_SMS_PDU_PAYLOAD L \<le> TAF_SMS_PDU_BYTES L \<and>
     TAF_SMS_PDU_BYTES L \<le> 255"

definition submit_type :: "smsPdu_EncodeMsg \<Rightarrow> byte" where
  "submit_type sms = (if em_statusReport sms then 0x31 else 0x11)"

definition submit_dcs :: "pdu_Encoding \<Rightarrow> byte" where
  "submit_dcs e = (case e of PDU_ENCODING_8_BITS \<Rightarrow> 0x04 | PDU_ENCODING_16_BITS \<Rightarrow> 0x08 | _ \<Rightarrow> 0x00)"

lemma hd_number_text:
  assumes "list_all is_digit s"
  shows "(number_text intl s \<noteq> [] \<and> hd (number_text intl s) = 0x2B) = intl"
  using assms by (cases s) (auto simp: number_text_def is_digit_def)

lemma sms_EncodeGsm_header:
  assumes hex: "hex_spec hex" and ok: "submit_ok L intl s sms" and enc: "em_encoding sms \<noteq> PDU_ENCODING_UNKNOWN"
  defines "h \<equiv> submit_header (submit_type sms) intl s (submit_dcs (em_encoding sms))"
  shows "sms_EncodeGsm L hex sms pdu =
     mbind (sms_EncodeUserData L (em_encoding sms) (em_msgData sms) (em_msgDataLen sms) (length h)
              (h @ replicate (TAF_SMS_PDU_BYTES L - length h) 0))
       (\<lambda>(data', r). case r of
          Inl e \<Rightarrow> Inr (e, pdu\<lparr>pdu_data := data'\<rparr>)
        | Inr pos' \<Rightarrow> Inr (LE_OK, pdu\<lparr>pdu_data := data', pdu_length := pos'\<rparr>))"
proof -
  note o = ok [unfolded submit_ok_def]
  have dig: "list_all is_digit s" using o by simp
  have al: "(if intl then length (number_text intl s) - 1 else length (number_text intl s)) = length s"
    by (simp add: number_text_def)
  have st: "(0x01 OR 0x10 OR (if em_statusReport sms then 0x20 else 0)) = submit_type sms"
    by (simp add: submit_type_def)
  have dcs: "(case em_encoding sms of PDU_ENCODING_8_BITS \<Rightarrow> 0x04
                   | PDU_ENCODING_16_BITS \<Rightarrow> 0x08 | _ \<Rightarrow> 0x00) = submit_dcs (em_encoding sms)"
    by (simp add: submit_dcs_def)
  have H: "sms_EncodeHeader L hex (submit_type sms) (length s) (if intl then 0x91 else 0x81)
       (submit_dcs (em_encoding sms)) (number_text intl s) (replicate (TAF_SMS_PDU_BYTES L) 0) =
     Inr (length h, h @ replicate (TAF_SMS_PDU_BYTES L - length h) 0)"
    unfolding h_def
    by (subst sms_EncodeHeader_spec [OF hex dig]) (use o in \<open>auto simp: length_submit_header\<close>)
  have g: "\<not> em_msgDataLen sms > TAF_SMS_TEXT_LEN L" "em_type sms = SMS_TYPE_SUBMIT"
    "\<not> length (number_text intl s) > TAF_TYPES_REMOTE_PARTY_NUM_MAX_BYTES L"
    "em_addrData sms = number_text intl s"
    using o by auto
  show ?thesis
    unfolding sms_EncodeGsm_def Let_def g(4) hd_number_text [OF dig] al st dcs
    using g enc H by (simp add: mbind_def split: sum.splits)
qed

lemma SetByteAtPos_seq:
  "length xs = p \<Longrightarrow> p < 256 \<Longrightarrow> SetByteAtPos (xs @ y # ys) p v = Inr (xs @ v # ys)"
  by (auto simp: SetByteAtPos_def wr_def)

text \<open>
  The octets of an SMS-SUBMIT with 8-bit or 16-bit user data. For an address of digits with an
  optional plus, within the limits, \<open>smsPdu_Encode\<close> returns \<open>LE_OK\<close> and exactly the header
  (service centre, type, reference, address with type and semi-octets, protocol, coding scheme,
  validity), the user data length and the user data, with zeros behind \<open>length\<close>.
\<close>

theorem submit_layout:
  assumes "hex_spec hex" and "submit_ok L intl s sms" and "em_protocol sms = SMS_PROTOCOL_GSM"
    and enc: "em_encoding sms = PDU_ENCODING_8_BITS \<or> em_encoding sms = PDU_ENCODING_16_BITS"
    and pay: "em_msgDataLen sms \<le> TAF_SMS_PDU_PAYLOAD L"
  shows "let t = submit_header (submit_type sms) intl s (submit_dcs (em_encoding sms))
                   @ [of_nat (em_msgDataLen sms)] @ take (em_msgDataLen sms) (em_msgData sms) in
     smsPdu_Encode L hex sms pdu = Inr (LE_OK, pdu\<lparr>
       pdu_data := t @ replicate (TAF_SMS_PDU_BYTES L - length t) 0, pdu_length := length t\<rparr>)"
proof -
  let ?h = "submit_header (submit_type sms) intl s (submit_dcs (em_encoding sms))"
  let ?m = "take (em_msgDataLen sms) (em_msgData sms)" and ?B = "TAF_SMS_PDU_BYTES L"
  note o = assms(2) [unfolded submit_ok_def]
  have h: "length ?h = 8 + (length s + 1) div 2" by (rule length_submit_header)
  obtain k where k: "?B - length ?h = Suc k" using o h by (cases "?B - length ?h") auto
  have m: "length ?m = em_msgDataLen sms" using o by simp
  have ud: "sms_EncodeUserData L (em_encoding sms) (em_msgData sms) (em_msgDataLen sms) (length ?h)
      (?h @ replicate (?B - length ?h) 0) =
    Inr (?h @ of_nat (em_msgDataLen sms) # ?m @ replicate (k - em_msgDataLen sms) 0,
         Inr (length ?h + 1 + em_msgDataLen sms))"
  proof -
    have s1: "SetByteAtPos (?h @ replicate (?B - length ?h) 0) (length ?h) (of_nat (em_msgDataLen sms)) =
        Inr ((?h @ [of_nat (em_msgDataLen sms)]) @ drop (length ?h + 1) (replicate ?B 0))"
      unfolding k using SetByteAtPos_seq [of ?h "length ?h" 0 "replicate k 0"] o h k by simp
    have s2: "wrn ((?h @ [of_nat (em_msgDataLen sms)]) @ drop (length ?h + 1) (replicate ?B 0)) (length ?h + 1) ?m
        = Inr (((?h @ [of_nat (em_msgDataLen sms)]) @ ?m) @ drop (length ?h + 1 + length ?m) (replicate ?B 0))"
      by (rule wrn_seq) (use o h m pay in auto)
    have u: "u8 (length ?h + 1) = length ?h + 1"
      "u8 (length ?h + 1 + em_msgDataLen sms) = length ?h + 1 + em_msgDataLen sms"
      using o h pay by simp_all
    have r: "rdn (em_msgData sms) 0 (em_msgDataLen sms) = Inr ?m" using o by (simp add: rdn_def)
    have k': "?B - (length ?h + 1 + em_msgDataLen sms) = k - em_msgDataLen sms" using k by simp
    show ?thesis
      using enc pay s1 s2 r u m k' unfolding sms_EncodeUserData_def
      by (auto simp: not_less [symmetric])
  qed
  have ne: "em_encoding sms \<noteq> PDU_ENCODING_UNKNOWN" using enc by auto
  have g: "smsPdu_Encode L hex sms pdu = sms_EncodeGsm L hex sms pdu"
    using assms(3) by (simp add: smsPdu_Encode_def)
  have k': "?B - length (?h @ [of_nat (em_msgDataLen sms)] @ ?m) = k - em_msgDataLen sms"
    unfolding length_append m using k by simp
  show ?thesis
    unfolding g sms_EncodeGsm_header [OF assms(1,2) ne] ud mbind_simps Let_def k' prod.case sum.case
    by (simp add: m del: length_take)
qed

lemma packs_update_below:
  "p < base \<Longrightarrow> packs (buf[p := v]) base ss \<longleftrightarrow> packs buf base ss"
  by (simp add: packs_def sbit_def)

lemma submit_header_parts:
  assumes "take (length h) d = h" and "h = submit_header t intl s dcs"
  shows "d ! 4 = (if intl then 0x91 else 0x81)"
    and "take ((length s + 1) div 2) (drop 5 d) = hex_bytes (swap_pairs s)"
proof -
  have d: "d = h @ drop (length h) d" using assms(1) by (metis append_take_drop_id)
  show "d ! 4 = (if intl then 0x91 else 0x81)"
    by (subst d) (simp add: assms(2) submit_header_def nth_append)
  have so: "length (hex_bytes (swap_pairs s)) = (length s + 1) div 2"
    by (simp add: length_hex_bytes length_swap_pairs)
  have "drop 5 (submit_header t intl s dcs) = hex_bytes (swap_pairs s) @ [0, dcs, 0xAD]"
    by (simp add: submit_header_def)
  then show "take ((length s + 1) div 2) (drop 5 d) = hex_bytes (swap_pairs s)"
    by (subst d) (simp add: assms(2) so length_submit_header)
qed

text \<open>
  C33: what \<open>smsPdu_Encode\<close> writes for a 7-bit message can be read back by the decoding routines:
  \<open>pduDecodeAddr\<close> at the address field gives the recipient's number, and \<open>pduDecodeUserData\<close> at
  the user data, with the length octet the encoder stored, gives the text.
\<close>

theorem submit_text_readback:
  assumes "hex_spec hex" and "submit_ok L intl s sms" and "em_protocol sms = SMS_PROTOCOL_GSM"
    and enc: "em_encoding sms = PDU_ENCODING_7_BITS"
    and safe: "list_all gsm_safe (take (em_msgDataLen sms) (em_msgData sms))"
    and pay: "octets (length (text_septets (take (em_msgDataLen sms) (em_msgData sms)))) \<le> TAF_SMS_PDU_PAYLOAD L"
      "TAF_SMS_PDU_PAYLOAD L \<le> 221"
    and ud: "length ud = TAF_SMS_TEXT_BYTES L" "em_msgDataLen sms \<le> TAF_SMS_TEXT_BYTES L"
    and out: "length (number_text intl s) < length out"
  shows "\<exists>d n rest rest'. smsPdu_Encode L hex sms pdu = Inr (LE_OK, pdu\<lparr>pdu_data := d, pdu_length := n\<rparr>) \<and>
     pduDecodeAddr d 4 (length s) out = Inr (number_text intl s @ 0 # rest) \<and>
     (let p = 8 + (length s + 1) div 2 in
      pduDecodeUserData L PDU_ENCODING_7_BITS d (p + 1) ud (unat (d ! p)) =
        Inr (int (em_msgDataLen sms), take (em_msgDataLen sms) (em_msgData sms) @ rest'))"
proof -
  let ?h = "submit_header (submit_type sms) intl s (submit_dcs (em_encoding sms))"
  let ?t = "take (em_msgDataLen sms) (em_msgData sms)" and ?B = "TAF_SMS_PDU_BYTES L"
  let ?p = "8 + (length s + 1) div 2" and ?n = "length (text_septets ?t)"
  let ?buf = "?h @ replicate (?B - length ?h) 0"
  note o = assms(2) [unfolded submit_ok_def]
  have h: "length ?h = ?p" by (rule length_submit_header)
  have lb: "length ?buf = ?B" using o h by simp
  obtain buf' where buf': "pduEncode8BitsTo7Bits (em_msgData sms) 0 (em_msgDataLen sms) ?buf (?p + 1)
        (TAF_SMS_PDU_PAYLOAD L) = Inr (buf', Inr (?n, octets ?n))"
      "length buf' = ?B" "packed buf' (?p + 1) (text_septets ?t)"
      "\<And>x. x < ?p + 1 \<Longrightarrow> buf' ! x = ?buf ! x"
    using encode_text_spec [of "em_msgDataLen sms" "em_msgData sms" "TAF_SMS_PDU_PAYLOAD L" "?p + 1" ?buf]
      o pay lb by (auto simp: encodes_as_def Let_def)
  have n: "?n \<le> 255" using pay octets_bound [of ?n "TAF_SMS_PDU_PAYLOAD L"] by linarith
  define d where "d = buf'[?p := of_nat ?n]"
  have p: "?p < ?B" using o by simp
  have dp: "d ! ?p = of_nat ?n" "unat (d ! ?p) = ?n"
    using buf'(2) p n by (simp_all add: d_def unat_of_nat)
  have th: "take (length ?h) d = ?h"
    by (rule nth_equalityI) (use buf'(2,4) p h in \<open>auto simp: d_def nth_append\<close>)
  have ne: "em_encoding sms \<noteq> PDU_ENCODING_UNKNOWN" using enc by simp
  have E: "smsPdu_Encode L hex sms pdu =
      Inr (LE_OK, pdu\<lparr>pdu_data := d, pdu_length := u8 (u8 (?p + 1) + octets ?n)\<rparr>)"
  proof -
    have m: "u8 (em_msgDataLen sms) = em_msgDataLen sms" using o by simp
    have s1: "SetByteAtPos buf' ?p (of_nat ?n) = Inr d"
      using buf'(2) p o by (simp add: SetByteAtPos_def wr_def d_def)
    have "sms_EncodeUserData L (em_encoding sms) (em_msgData sms) (em_msgDataLen sms) (length ?h) ?buf =
        Inr (d, Inr (u8 (u8 (?p + 1) + octets ?n)))"
      unfolding sms_EncodeUserData_def h m using enc buf'(1) s1 h by simp
    then show ?thesis
      unfolding smsPdu_Encode_def using assms(3) by (simp add: sms_EncodeGsm_header [OF assms(1,2) ne])
  qed
  have ld: "length d = ?B" using buf'(2) by (simp add: d_def)
  obtain rest where A: "pduDecodeAddr d 4 (length s) out = Inr (number_text intl s @ 0 # rest)"
    using pduDecodeAddr_digits [OF submit_header_parts(1) [OF th refl], of s out] o
      submit_header_parts(2) [OF th refl] ld out
    by (auto simp: number_text_def split: if_splits)
  have dec: "pduDecode7BitsTo8Bits d (?p + 1) ?n (TAF_SMS_TEXT_BYTES L) = Inr (LE_OK, map gsm_canon ?t)"
  proof (rule decode_packed_text)
    show "packs d (?p + 1) (text_septets ?t)"
      using buf'(3) by (simp add: d_def packs_update_below packed_def)
    show "?p + 1 + octets ?n < length d" using ld o pay by linarith
  qed (use n ud o in auto)
  have c: "map gsm_canon ?t = ?t" using safe by (simp add: list_all_iff gsm_safe_def map_idI)
  have lt: "length ?t = em_msgDataLen sms" using o by simp
  obtain rest' where U: "pduDecodeUserData L PDU_ENCODING_7_BITS d (?p + 1) ud (unat (d ! ?p)) =
      Inr (int (em_msgDataLen sms), ?t @ rest')"
  proof (cases "em_msgDataLen sms < TAF_SMS_TEXT_BYTES L")
    case True
    then show ?thesis
      using dec ud that lt unfolding dp(2) pduDecodeUserData_def
      by (simp add: c wrn_def wr_def list_update_append del: length_take)
  next
    case False
    then show ?thesis
      using dec [unfolded c] ud that [of "[]"] lt unfolding dp(2) pduDecodeUserData_def
      by (simp add: c wrn_def del: length_take)
  qed
  show ?thesis using E A U by (auto simp: Let_def)
qed

section \<open>Bounds of the decoder\<close>

lemma decode_loop_length:
  assumes "decode_loop buf base len outSize r out = Inr (res, out')" and "length out \<le> outSize"
  shows "length out' \<le> outSize \<and> length out' \<le> length out + (len - r) \<and>
     (length out + (len - r) \<le> outSize \<longrightarrow> res = LE_OK)"
  using assms
proof (induction "len - r" arbitrary: r out rule: less_induct)
  case less
  show ?case
  proof (cases "r < len")
    case False
    then show ?thesis using less.prems by (subst (asm) decode_loop.simps) auto
  next
    case True
    have IH: "length out' \<le> outSize \<and> length out' \<le> length out + (len - r) \<and>
        (length out + (len - r) \<le> outSize \<longrightarrow> res = LE_OK)"
      if "decode_loop buf base len outSize r' (out @ [c]) = Inr (res, out')" "length out < outSize" "r < r'" for c r'
    proof -
      have "len - r' < len - r" using that True by linarith
      then show ?thesis using less.hyps [of r' "out @ [c]"] that by (auto; linarith)
    qed
    show ?thesis
      using less.prems True
      by (subst (asm) decode_loop.simps)
        (force simp: Let_def not_le simp del: add_2_eq_Suc add_2_eq_Suc' split: if_splits dest!: IH)
  qed
qed

lemma Get7BitsAtPos_room:
  "base + 256 < length buf \<Longrightarrow> \<exists>v. Get7BitsAtPos buf base pos = Inr v"
proof -
  assume "base + 256 < length buf"
  moreover have "pos div 8 mod 256 < 256" by simp
  ultimately have "base + pos div 8 mod 256 < length buf" "base + pos div 8 mod 256 + 1 < length buf"
    by linarith+
  then show ?thesis by (auto simp: Get7BitsAtPos_def Let_def rd_def)
qed

lemma decode_loop_room:
  assumes "base + 256 < length buf"
  shows "\<exists>x. decode_loop buf base len outSize r out = Inr x"
proof (induction "len - r" arbitrary: r out rule: less_induct)
  case less
  obtain a b where ab: "Get7BitsAtPos buf base (r * 7) = Inr a" "Get7BitsAtPos buf base ((r + 1) * 7) = Inr b"
    using Get7BitsAtPos_room [OF assms] by metis
  then show ?case
    using less.hyps [of "r + 1"] less.hyps [of "r + 2"]
    by (subst decode_loop.simps) (auto simp: Let_def simp del: One_nat_def add_Suc_right)
qed

lemma decode_room:
  assumes "base + 256 < length buf"
  obtains r out where "pduDecode7BitsTo8Bits buf base len outSize = Inr (r, out)"
    and "length out \<le> outSize" and "length out \<le> len" and "len \<le> outSize \<Longrightarrow> r = LE_OK"
proof -
  obtain r out where "decode_loop buf base len outSize 0 [] = Inr (r, out)"
    using decode_loop_room [OF assms] by fastforce
  then show thesis
    using that decode_loop_length [of buf base len outSize 0 "[]" r out] by (simp add: pduDecode7BitsTo8Bits_def)
qed

lemma addr_loop_room:
  assumes "base + 129 < length buf" and "addrLen \<le> 255" and "idx < length out"
  shows "\<exists>out'. addr_loop buf base addrLen i out idx = Inr out' \<and> length out' = length out \<and> 0 \<in> set out'"
  using assms(3)
proof (induction "addrLen - i" arbitrary: i out idx rule: less_induct)
  case less
  have z: "0 \<in> set (out[idx := 0])" using less.prems by (rule set_update_memI)
  show ?case
  proof (cases "i < addrLen \<and> \<not> idx \<ge> length out - 1")
    case False
    then show ?thesis using less.prems z by (subst addr_loop.simps) (auto simp: wr_def)
  next
    case True
    have "base + i div 2 + 1 < length buf" using assms(1,2) True by linarith
    then show ?thesis
      using True less.prems z less.hyps [of "i + 1" "idx + 1" "out[idx := c]" for c]
      by (subst addr_loop.simps) (auto simp: wr_def rd_def Let_def)
  qed
qed

lemma pduDecodeAddr_room:
  assumes "base + 257 < length buf" and "addrLen \<le> 255" and "0 < length out"
  shows "\<exists>out'. pduDecodeAddr buf base addrLen out = Inr out' \<and> length out' = length out \<and> 0 \<in> set out'"
proof -
  let ?ton = "drop_bit 4 (buf ! base) AND 0x07"
  have b: "rd buf base = Inr (buf ! base)" using assms by (simp add: rd_def)
  have b1: "base + 1 + 256 < length buf" using assms by simp
  have l: "\<exists>out'. addr_loop buf base addrLen 0 o' idx = Inr out' \<and> length out' = length o' \<and> 0 \<in> set out'"
    if "idx < length o'" for o' idx
    by (rule addr_loop_room) (use assms that in auto)
  show ?thesis
  proof (cases "?ton = 5")
    case True
    obtain r dec where d: "pduDecode7BitsTo8Bits buf (base + 1) (u8 (u8 ((addrLen + 1) div 2) * 8 div 7)) (length out - 1)
        = Inr (r, dec)" "length dec \<le> length out - 1"
      by (rule decode_room [OF b1]) blast
    obtain o1 where o1: "wrn (out[0 := 0]) 0 dec = Inr o1" using d(2) that by (fastforce simp: wrn_def)
    have len: "length o1 = length out" using wrn_length [OF o1] by simp
    have "length dec < length o1" using d(2) assms(3) len by linarith
    then show ?thesis
      using True b d(1) o1 len assms(3) set_update_memI [of 0 o1 0] set_update_memI [of "length dec" o1 0]
      by (simp add: pduDecodeAddr_def Let_def wr_def)
  next
    case False
    then show ?thesis
      using b assms(3) l [of 1 "out[0 := 0, 0 := 0x2B]"] l [of 0 "out[0 := 0]"]
      by (auto simp: pduDecodeAddr_def Let_def wr_def)
  qed
qed

lemma pduDecodeUserData_room:
  assumes "base + 256 < length buf" and "n \<le> 255" and "n \<le> length ud" and "length ud = TAF_SMS_TEXT_BYTES L"
  shows "\<exists>k ud'. pduDecodeUserData L e buf base ud n = Inr (int k, ud') \<and> length ud' = length ud \<and> k \<le> n"
proof (cases e)
  case PDU_ENCODING_7_BITS
  obtain r out where d: "pduDecode7BitsTo8Bits buf base n (TAF_SMS_TEXT_BYTES L) = Inr (r, out)"
    "length out \<le> TAF_SMS_TEXT_BYTES L" "length out \<le> n" "r = LE_OK"
    by (rule decode_room [OF assms(1), of n "TAF_SMS_TEXT_BYTES L"]) (use assms in auto)
  obtain u where u: "wrn ud 0 out = Inr u" using d(2) assms(4) by (simp add: wrn_def)
  show ?thesis
    using PDU_ENCODING_7_BITS d u wrn_length [OF u] assms(4) by (auto simp: pduDecodeUserData_def wr_def)
qed (use assms in \<open>auto simp: pduDecodeUserData_def rdn_def wrn_def\<close>)

lemma GetByteAtPos_room: "256 \<le> length d \<Longrightarrow> GetByteAtPos d p = Inr (d ! u8 p)"
proof -
  assume "256 \<le> length d"
  moreover have "u8 p < 256" by simp
  ultimately have "u8 p < length d" by linarith
  then show ?thesis by (simp add: GetByteAtPos_def rd_def)
qed

text \<open>What a decoding that ends leaves in the message, whatever the octets were.\<close>

definition msg_sane :: "sms_limits \<Rightarrow> sms_PduMsg \<Rightarrow> bool" where
  "msg_sane L m \<longleftrightarrow> length (pm_addr m) = TAF_TYPES_REMOTE_PARTY_NUM_MAX_BYTES L + 4 \<and>
     length (pm_data m) = TAF_SMS_TEXT_BYTES L \<and> 0 \<in> set (pm_addr m) \<and>
     unat (pm_dataLen m) \<le> TAF_SMS_TEXT_BYTES L \<and> unat (pm_dataLen m) \<le> 255"

lemma msg_sane_zero: "msg_sane L (sms_PduMsg_zero L)"
  by (simp add: msg_sane_def sms_PduMsg_zero_def)

lemma sms_DecodeDeliver_room:
  assumes d: "513 \<le> length d" and m: "msg_sane L m"
  shows "\<exists>r m'. sms_DecodeDeliver L d m = Inr (r, m') \<and> msg_sane L m' \<and>
     (r = LE_OK \<longrightarrow> pm_encoding m' \<noteq> PDU_ENCODING_UNKNOWN) \<and> pm_type m' = pm_type m"
proof -
  have g: "GetByteAtPos d p = Inr (d ! u8 p)" for p by (rule GetByteAtPos_room) (use d in simp)
  define pos where "pos = u8 (1 + unat (d ! u8 0))"
  define al where "al = d ! u8 (pos + 1)"
  have al: "unat al \<le> 255" using unsigned_less [of al, where ?'a = nat] by simp
  have pb: "pos < 256" "u8 (pos + 2) < 256" by (simp_all add: pos_def)
  have r1: "rd d (pos + 1) = Inr (d ! (pos + 1))" using pb d by (simp add: rd_def)
  obtain a where a: "pduDecodeAddr d (u8 (pos + 2)) (unat al) (pm_addr m) = Inr a"
      "length a = length (pm_addr m)" "0 \<in> set a"
  proof -
    have "u8 (pos + 2) + 257 < length d" "0 < length (pm_addr m)"
      using pb d m by (linarith, simp add: msg_sane_def)
    then show thesis using pduDecodeAddr_room [OF _ al, of _ d "pm_addr m"] that by blast
  qed
  define dcs where "dcs = u8 (u8 (pos + 3 + (unat (d ! (pos + 1)) + 1) div 2) + 1)"
  have r2: "rd d dcs = Inr (d ! dcs)"
  proof -
    have "dcs < 256" by (simp add: dcs_def)
    then show ?thesis using d by (simp add: rd_def)
  qed
  define e where "e = getDataCodingScheme (d ! dcs)"
  define dl where "dl = u8 (dcs + 7 + 1)"
  define udl where "udl = d ! u8 dl"
  have udl: "unat udl \<le> 255" using unsigned_less [of udl, where ?'a = nat] by simp
  have unfold: "sms_DecodeDeliver L d m =
    (if unat al + 1 + 1 > length (pm_addr m) then Inr (LE_OVERFLOW, m)
     else if e = PDU_ENCODING_UNKNOWN then Inr (LE_UNSUPPORTED, m\<lparr>pm_addr := a\<rparr>)
     else if length (pm_data m) < unat udl then Inr (LE_FAULT, m\<lparr>pm_addr := a, pm_encoding := e\<rparr>)
     else mbind (pduDecodeUserData L e d (u8 (dl + 1)) (pm_data m) (unat udl)) (\<lambda>(n, data).
       Inr (LE_OK, m\<lparr>pm_addr := a, pm_encoding := e, pm_data := data, pm_dataLen := word_of_int n\<rparr>)))"
    unfolding sms_DecodeDeliver_def Let_def g mbind_simps pos_def [symmetric] al_def [symmetric] a(1) r1
      dcs_def [symmetric] r2 e_def [symmetric] dl_def [symmetric] udl_def [symmetric]
    by simp
  show ?thesis
  proof (cases "unat udl \<le> length (pm_data m)")
    case True
    have "u8 (dl + 1) < 256" by simp
    then have "u8 (dl + 1) + 256 < length d" using d by linarith
    then obtain k u where k: "pduDecodeUserData L e d (u8 (dl + 1)) (pm_data m) (unat udl) = Inr (int k, u)"
        "length u = length (pm_data m)" "k \<le> unat udl"
      using pduDecodeUserData_room [of "u8 (dl + 1)" d "unat udl" "pm_data m" L e] udl True m
      unfolding msg_sane_def by blast
    have "unat (word_of_int (int k) :: u32) = k"
      using k(3) udl by (simp add: unat_of_nat)
    then show ?thesis unfolding unfold using k True m a udl by (auto simp: msg_sane_def)
  next
    case False
    then show ?thesis unfolding unfold using m a by (auto simp: msg_sane_def)
  qed
qed

section \<open>Reading from a longer array\<close>

text \<open>
  The decoder asks for no length: what it returns depends on the octets that it reads. \<open>reads_le\<close>
  compares a run on an array with a run on a longer one: it ends with the same result or has read
  beyond the shorter array.
\<close>

definition reads_le :: "'a mem \<Rightarrow> 'a mem \<Rightarrow> bool" where
  "reads_le x y \<longleftrightarrow> x = Inl OutOfBounds \<or> x = y"

named_theorems reads_intros \<open>runs that agree unless the shorter array ends\<close>

lemma reads_le_refl [reads_intros]: "reads_le x x"
  by (simp add: reads_le_def)

lemma reads_le_rd [reads_intros]: "reads_le (rd buf i) (rd (buf @ rest) i)"
  by (simp add: reads_le_def rd_def nth_append)

lemma reads_le_rdn [reads_intros]: "reads_le (rdn buf i n) (rdn (buf @ rest) i n)"
  by (auto simp: reads_le_def rdn_def)

lemma reads_le_mbind [reads_intros]:
  "reads_le x y \<Longrightarrow> (\<And>a. reads_le (f a) (g a)) \<Longrightarrow> reads_le (mbind x f) (mbind y g)"
  by (auto simp: reads_le_def mbind_def split: sum.split)

lemma reads_le_if [reads_intros]:
  "(c \<Longrightarrow> reads_le a b) \<Longrightarrow> (\<not> c \<Longrightarrow> reads_le a' b') \<Longrightarrow> reads_le (if c then a else a') (if c then b else b')"
  by simp

lemma reads_le_prod [reads_intros]:
  "(\<And>a b. reads_le (f a b) (g a b)) \<Longrightarrow> reads_le (case p of (a, b) \<Rightarrow> f a b) (case p of (a, b) \<Rightarrow> g a b)"
  by (cases p) simp

lemma reads_le_GetByteAtPos [reads_intros]: "reads_le (GetByteAtPos buf p) (GetByteAtPos (buf @ rest) p)"
  unfolding GetByteAtPos_def by (rule reads_le_rd)

lemma reads_le_Get7BitsAtPos [reads_intros]:
  "reads_le (Get7BitsAtPos buf base pos) (Get7BitsAtPos (buf @ rest) base pos)"
  unfolding Get7BitsAtPos_def Let_def by (intro reads_intros)

lemma reads_le_decode_loop [reads_intros]:
  "reads_le (decode_loop buf base len outSize r out) (decode_loop (buf @ rest) base len outSize r out)"
proof (induction "len - r" arbitrary: r out rule: less_induct)
  case less
  show ?case
    unfolding decode_loop.simps [of buf base len outSize r out] decode_loop.simps [of "buf @ rest" base len outSize r out] Let_def
    by (intro reads_intros less.hyps) simp_all
qed

lemma reads_le_addr_loop [reads_intros]:
  "reads_le (addr_loop buf base addrLen i out idx) (addr_loop (buf @ rest) base addrLen i out idx)"
proof (induction "addrLen - i" arbitrary: i out idx rule: less_induct)
  case less
  show ?case
    unfolding addr_loop.simps [of buf base addrLen i out idx] addr_loop.simps [of "buf @ rest" base addrLen i out idx] Let_def
    by (intro reads_intros less.hyps) linarith
qed

lemma reads_le_pduDecodeAddr [reads_intros]:
  "reads_le (pduDecodeAddr buf base addrLen out) (pduDecodeAddr (buf @ rest) base addrLen out)"
  unfolding pduDecodeAddr_def pduDecode7BitsTo8Bits_def Let_def by (intro reads_intros)

lemma reads_le_pduDecodeUserData [reads_intros]:
  "reads_le (pduDecodeUserData L e buf base ud n) (pduDecodeUserData L e (buf @ rest) base ud n)"
  unfolding pduDecodeUserData_def pduDecode7BitsTo8Bits_def by (cases e; simp only: pdu_Encoding.case; intro reads_intros)

lemma reads_le_sms_DecodeGsm: "reads_le (sms_DecodeGsm L d) (sms_DecodeGsm L (d @ rest))"
  unfolding sms_DecodeGsm_def sms_DecodeDeliver_def Let_def by (intro reads_intros)

lemma sms_DecodeGsm_room:
  assumes "513 \<le> length d"
  shows "\<exists>r m. sms_DecodeGsm L d = Inr (r, m) \<and> msg_sane L m \<and>
     (r = LE_OK \<longrightarrow> pm_type m = SMS_TYPE_DELIVER \<and> pm_encoding m \<noteq> PDU_ENCODING_UNKNOWN)"
proof -
  have g: "GetByteAtPos d p = Inr (d ! u8 p)" for p
    by (rule GetByteAtPos_room) (use assms in simp)
  let ?z = "sms_PduMsg_zero L\<lparr>pm_type := SMS_TYPE_DELIVER\<rparr>"
  have z: "msg_sane L ?z" using msg_sane_zero [of L] by (simp add: msg_sane_def)
  obtain r m where "sms_DecodeDeliver L d ?z = Inr (r, m)" "msg_sane L m"
      "r = LE_OK \<longrightarrow> pm_encoding m \<noteq> PDU_ENCODING_UNKNOWN" "pm_type m = SMS_TYPE_DELIVER"
    using sms_DecodeDeliver_room [OF assms z] by auto
  then show ?thesis using msg_sane_zero [of L] by (auto simp: sms_DecodeGsm_def g Let_def)
qed

text \<open>
  C40: decoding a PDU of any octets in an array of any length either reads beyond this array or
  ends, and it never writes outside the message. When it ends, the number is terminated, the data
  length fits the text array and comes from one octet (an error code is never stored as a length), and
  \<open>LE_OK\<close> implies a TPDU of type DELIVER with a supported encoding; and the result does not depend on
  what lies behind the array. That a fault is a read beyond the array, and nothing else, is the
  last clause: the same octets end with a result as soon as the memory behind them can be
  read, at the latest when there are 513 octets. Other protocols than GSM leave the message alone.
\<close>

theorem decode_sane:
  "(smsPdu_Decode L SMS_PROTOCOL_GSM dataPtr m = Inl OutOfBounds \<or>
     (\<exists>r m'. smsPdu_Decode L SMS_PROTOCOL_GSM dataPtr m = Inr (r, m') \<and> msg_sane L m' \<and>
       (r = LE_OK \<longrightarrow> pm_type m' = SMS_TYPE_DELIVER \<and> pm_encoding m' \<noteq> PDU_ENCODING_UNKNOWN) \<and>
       (\<forall>rest. smsPdu_Decode L SMS_PROTOCOL_GSM (dataPtr @ rest) m = Inr (r, m')))) \<and>
   (\<forall>rest. 513 \<le> length (dataPtr @ rest) \<longrightarrow>
     (\<exists>r m'. smsPdu_Decode L SMS_PROTOCOL_GSM (dataPtr @ rest) m = Inr (r, m'))) \<and>
   (protocol \<noteq> SMS_PROTOCOL_GSM \<longrightarrow> smsPdu_Decode L protocol dataPtr m = Inr (LE_UNSUPPORTED, m))"
proof (intro conjI)
  have G: "smsPdu_Decode L SMS_PROTOCOL_GSM d m = sms_DecodeGsm L d" for d by (simp add: smsPdu_Decode_def)
  have le: "reads_le (sms_DecodeGsm L dataPtr) (sms_DecodeGsm L (dataPtr @ rest))" for rest
    by (rule reads_le_sms_DecodeGsm)
  obtain r m' where room: "sms_DecodeGsm L (dataPtr @ replicate 513 0) = Inr (r, m')" "msg_sane L m'"
      "r = LE_OK \<longrightarrow> pm_type m' = SMS_TYPE_DELIVER \<and> pm_encoding m' \<noteq> PDU_ENCODING_UNKNOWN"
    using sms_DecodeGsm_room [of "dataPtr @ replicate 513 0" L] by auto
  show "smsPdu_Decode L SMS_PROTOCOL_GSM dataPtr m = Inl OutOfBounds \<or>
     (\<exists>r m'. smsPdu_Decode L SMS_PROTOCOL_GSM dataPtr m = Inr (r, m') \<and> msg_sane L m' \<and>
       (r = LE_OK \<longrightarrow> pm_type m' = SMS_TYPE_DELIVER \<and> pm_encoding m' \<noteq> PDU_ENCODING_UNKNOWN) \<and>
       (\<forall>rest. smsPdu_Decode L SMS_PROTOCOL_GSM (dataPtr @ rest) m = Inr (r, m')))"
    unfolding G using le [of "replicate 513 0"] le room by (auto simp: reads_le_def)
  show "\<forall>rest. 513 \<le> length (dataPtr @ rest) \<longrightarrow>
     (\<exists>r m'. smsPdu_Decode L SMS_PROTOCOL_GSM (dataPtr @ rest) m = Inr (r, m'))"
    unfolding G using sms_DecodeGsm_room [of "dataPtr @ rest" L for rest] by blast
  show "protocol \<noteq> SMS_PROTOCOL_GSM \<longrightarrow> smsPdu_Decode L protocol dataPtr m = Inr (LE_UNSUPPORTED, m)"
    by (cases protocol) (simp_all add: smsPdu_Decode_def)
qed

abbreviation example_limits :: sms_limits where
  "example_limits \<equiv> \<lparr>TAF_SMS_TEXT_BYTES = 161, TAF_SMS_TEXT_LEN = 160, TAF_SMS_PDU_BYTES = 176,
     TAF_SMS_PDU_PAYLOAD = 140, TAF_TYPES_REMOTE_PARTY_NUM_MAX_BYTES = 18, LE_OVERFLOW_code = -8\<rparr>"

text \<open>
  An array of 176 octets, the size of the program's arrays: a DELIVER from +123 with the text "Hi"
  decodes there.
\<close>

abbreviation example_deliver :: "byte list" where
  "example_deliver \<equiv> [0, 0x04, 3, 0x91, 0x21, 0xF3, 0, 0, 0, 0, 0, 0, 0, 0, 0, 2, 0xC8, 0x34] @ replicate 158 0"

lemma example_deliver_decodes:
  "(case smsPdu_Decode example_limits SMS_PROTOCOL_GSM example_deliver (sms_PduMsg_zero example_limits) of
      Inl e \<Rightarrow> False
    | Inr (r, m') \<Rightarrow> r = LE_OK \<and> take 5 (pm_addr m') = [0x2B, 0x31, 0x32, 0x33, 0] \<and>
        pm_dataLen m' = 2 \<and> take 2 (pm_data m') = [0x48, 0x69])"
  by code_simp

theorem decode_sane_witness:
  "\<exists>m'. length example_deliver = 176 \<and> msg_sane example_limits m' \<and> pm_dataLen m' = 2 \<and>
     take 5 (pm_addr m') = [0x2B, 0x31, 0x32, 0x33, 0] \<and> take 2 (pm_data m') = [0x48, 0x69] \<and>
     (\<forall>rest. smsPdu_Decode example_limits SMS_PROTOCOL_GSM (example_deliver @ rest)
        (sms_PduMsg_zero example_limits) = Inr (LE_OK, m'))"
proof -
  let ?m = "sms_PduMsg_zero example_limits"
  obtain m' where m': "smsPdu_Decode example_limits SMS_PROTOCOL_GSM example_deliver ?m = Inr (LE_OK, m')"
      "take 5 (pm_addr m') = [0x2B, 0x31, 0x32, 0x33, 0]" "pm_dataLen m' = 2" "take 2 (pm_data m') = [0x48, 0x69]"
    using example_deliver_decodes
    by (cases "smsPdu_Decode example_limits SMS_PROTOCOL_GSM example_deliver ?m") (auto simp del: take_Suc_Cons append.simps)
  then have "msg_sane example_limits m' \<and>
      (\<forall>rest. smsPdu_Decode example_limits SMS_PROTOCOL_GSM (example_deliver @ rest) ?m = Inr (LE_OK, m'))"
    using decode_sane [of example_limits example_deliver ?m SMS_PROTOCOL_GSM] by (metis Inl_Inr_False Inr_inject Pair_inject)
  then show ?thesis using m' by (intro exI [of _ m']) simp
qed

text \<open>
  The length of the input is not an argument of the decoder and its octets are trusted: a PDU
  array of \<open>n\<close> octets whose first octet is \<open>n - 1\<close> or more (and less than 255) is read beyond its end.
\<close>

theorem decode_overread:
  assumes "dataPtr \<noteq> []" and "length dataPtr \<le> 1 + unat (hd dataPtr)" and "unat (hd dataPtr) < 255"
  shows "smsPdu_Decode L SMS_PROTOCOL_GSM dataPtr m = Inl OutOfBounds"
proof -
  obtain x xs where d: "dataPtr = x # xs" using assms(1) by (cases dataPtr) auto
  have "u8 (1 + unat x) = 1 + unat x" using assms(3) d by simp
  then show ?thesis
    using assms(2) d by (simp add: smsPdu_Decode_def sms_DecodeGsm_def GetByteAtPos_def rd_def Let_def)
qed

theorem decode_overread_witness:
  "smsPdu_Decode example_limits SMS_PROTOCOL_GSM (200 # replicate 175 0) (sms_PduMsg_zero example_limits) = Inl OutOfBounds"
  using decode_overread [of "200 # replicate 175 0" example_limits "sms_PduMsg_zero example_limits"] by simp

text \<open>An 8-bit message of two octets to \<open>+123\<close>, and the text \<open>Hi\<close> to the same number.\<close>

abbreviation example_submit :: "pdu_Encoding \<Rightarrow> smsPdu_EncodeMsg" where
  "example_submit e \<equiv> \<lparr>em_protocol = SMS_PROTOCOL_GSM, em_msgData = [0x48, 0x69], em_msgDataLen = 2,
     em_addrData = [0x2B, 0x31, 0x32, 0x33], em_encoding = e, em_type = SMS_TYPE_SUBMIT,
     em_statusReport = False\<rparr>"

theorem submit_layout_witness:
  "smsPdu_Encode example_limits (\<lambda>s n. hex_bytes s) (example_submit PDU_ENCODING_8_BITS)
     \<lparr>pdu_length = 0, pdu_data = []\<rparr> =
   Inr (LE_OK, \<lparr>pdu_length = 13, pdu_data =
     [0x00, 0x11, 0x00, 0x03, 0x91, 0x21, 0xF3, 0x00, 0x04, 0xAD, 0x02, 0x48, 0x69] @ replicate 163 0\<rparr>)"
proof -
  have h: "hex_spec (\<lambda>s n. hex_bytes s)" by (simp add: hex_spec_def)
  have o: "submit_ok example_limits True [0x31, 0x32, 0x33] (example_submit PDU_ENCODING_8_BITS)"
    by (simp add: submit_ok_def number_text_def is_digit_def)
  have e: "submit_header 0x11 True [0x31, 0x32, 0x33] 0x04 =
      [0x00, 0x11, 0x00, 0x03, 0x91, 0x21, 0xF3, 0x00, 0x04, 0xAD]"
    by code_simp
  show ?thesis
    using submit_layout [OF h o, of "\<lparr>pdu_length = 0, pdu_data = []\<rparr>"] e
    by (simp add: Let_def submit_type_def submit_dcs_def)
qed

theorem submit_text_readback_witness:
  "\<exists>d n rest rest'. smsPdu_Encode example_limits (\<lambda>s n. hex_bytes s) (example_submit PDU_ENCODING_7_BITS)
     \<lparr>pdu_length = 0, pdu_data = []\<rparr> = Inr (LE_OK, \<lparr>pdu_length = n, pdu_data = d\<rparr>) \<and>
   pduDecodeAddr d 4 3 (replicate 22 0) = Inr ([0x2B, 0x31, 0x32, 0x33] @ 0 # rest) \<and>
   pduDecodeUserData example_limits PDU_ENCODING_7_BITS d 11 (replicate 161 0) (unat (d ! 10)) =
     Inr (2, [0x48, 0x69] @ rest')"
proof -
  have h: "hex_spec (\<lambda>s n. hex_bytes s)" by (simp add: hex_spec_def)
  have o: "submit_ok example_limits True [0x31, 0x32, 0x33] (example_submit PDU_ENCODING_7_BITS)"
    by (simp add: submit_ok_def number_text_def is_digit_def)
  have s: "list_all gsm_safe (take 2 [0x48, 0x69])"
    and p: "octets (length (text_septets (take 2 [0x48, 0x69]))) \<le> 140" by code_simp+
  show ?thesis
    using submit_text_readback [OF h o, of "replicate 161 0" "replicate 22 0" "\<lparr>pdu_length = 0, pdu_data = []\<rparr>"] s p
    by (simp add: Let_def number_text_def numeral_3_eq_3)
qed

end
