(* ===== verification/Doip_Config.thy ===== *)
theory Doip_Config
  imports Taf_Legato
begin

unbundle bit_operations_syntax

text \<open>
  The configuration of a DoIP entity, \<open>tafDoIPStack/tafDoIPVehicleMgr.cpp\<close>: the record
  \<open>taf_doip_Config_t\<close>, its initialisation from the JSON file, and the getters and setters of
  \<open>VehicleManager\<close>. \<open>doipConfigPtr\<close> is an option: \<open>None\<close> is the null pointer, before \<open>Init\<close> and
  after \<open>DeInit\<close>. A getter with an output parameter returns the value or the error code. The
  null checks of the output parameters, which no caller fails, are left out.
\<close>

section \<open>Result codes and constants\<close>

datatype taf_doip_Result =
    TAF_DOIP_RESULT_OK | TAF_DOIP_RESULT_HDR_ERROR | TAF_DOIP_RESULT_TIMEOUT_A
  | TAF_DOIP_RESULT_UNKNOWN_SA | TAF_DOIP_RESULT_INVALID_SA | TAF_DOIP_RESULT_UNKNOWN_TA
  | TAF_DOIP_RESULT_MESSAGE_TOO_LARGE | TAF_DOIP_RESULT_OUT_OF_MEMORY
  | TAF_DOIP_RESULT_TARGET_UNREACHABLE | TAF_DOIP_RESULT_NO_LINK | TAF_DOIP_RESULT_NO_SOCKET
  | TAF_DOIP_RESULT_NOT_INIT | TAF_DOIP_RESULT_NOT_START | TAF_DOIP_RESULT_PARAM_ERROR
  | TAF_DOIP_RESULT_ROUTING_INACTIVE | TAF_DOIP_RESULT_NETWORK_ERROR
  | TAF_DOIP_RESULT_MESSAGE_TOO_SHORT | TAF_DOIP_RESULT_UNSET | TAF_DOIP_RESULT_SA_REGISTERED
  | TAF_DOIP_RESULT_SA_DEREGISTERED | TAF_DOIP_RESULT_ERROR

abbreviation TAF_DOIP_VIN_SIZE :: nat where "TAF_DOIP_VIN_SIZE \<equiv> 17"
abbreviation TAF_DOIP_EID_SIZE :: nat where "TAF_DOIP_EID_SIZE \<equiv> 6"
abbreviation TAF_DOIP_GID_SIZE :: nat where "TAF_DOIP_GID_SIZE \<equiv> 6"
abbreviation TAF_DOIP_MDS_DEFAULT :: u32 where "TAF_DOIP_MDS_DEFAULT \<equiv> 4096"
abbreviation TAF_DOIP_MCTS_DEFAULT :: u32 where "TAF_DOIP_MCTS_DEFAULT \<equiv> 10"
abbreviation TAF_DOIP_SA_DEFAULT :: u16 where "TAF_DOIP_SA_DEFAULT \<equiv> 0x201"
abbreviation MAX_MDS :: u32 where "MAX_MDS \<equiv> 65536"
abbreviation MAX_INF_NUM :: nat where "MAX_INF_NUM \<equiv> 8"

section \<open>The configuration record\<close>

text \<open>Strings in character arrays are lists without the NUL; \<open>cfg_eid\<close> and \<open>cfg_gid\<close> are arrays.\<close>

record taf_doip_Config =
  cfg_vin :: "byte list"
  cfg_eid :: "byte list"
  cfg_gid :: "byte list"
  cfg_entityLA :: u32
  cfg_maxSockNum :: u32
  cfg_maxDataSize :: u32
  cfg_maxAnnounceCount :: u32
  cfg_announceWait :: bool
  cfg_announceItrvalTime :: u32
  cfg_genInactiveTime :: u32
  cfg_initInactiveTime :: u32
  cfg_aliveCheckTime :: u32
  cfg_authEnableStatus :: bool
  cfg_authInfo :: u32
  cfg_ifaceList :: "(byte list \<times> u16) list" \<comment> \<open>name and VLAN id\<close>
  cfg_netType :: "byte list"
  cfg_udpPort :: u16
  cfg_tcpPort :: u16
  cfg_udpSrc :: u16
  cfg_isTLS :: bool
  cfg_certFile :: "byte list"
  cfg_pkFile :: "byte list"
  cfg_funcGroupList :: "u16 list"
  cfg_parseStatus :: bool

text \<open>What \<open>pt::read_json\<close> and the conversions of the property tree deliver for the file.\<close>

record doip_json =
  js_VIN :: "byte list"
  js_EID :: "byte list"
  js_GID :: "byte list"
  js_source_address :: nat
  js_Function_group :: "nat list"
  js_MCTS :: u32
  js_MDS :: u32
  js_Announce_Num :: u32
  js_Announce_Wait :: bool
  js_Announce_Interval :: u32
  js_General_Inactivity :: u32
  js_Initial_Inactivity :: u32
  js_Alive_Check :: u32
  js_ifname :: "byte list list"
  js_type :: "byte list"
  js_TCP_DATA :: u32
  js_UDP_DISCOVERY :: u32
  js_UDP_SOURCE :: u32
  js_TLS_enable :: bool
  js_certificate :: "byte list"
  js_private_key :: "byte list"

text \<open>The calls into Legato and the operating system.\<close>

record doip_ext =
  ext_hex :: "byte list \<Rightarrow> nat \<Rightarrow> byte list" \<comment> \<open>the bytes \<open>le_hex_StringToBinary\<close> writes\<close>
  ext_utf8 :: "byte list \<Rightarrow> nat \<Rightarrow> byte list"
  ext_vlan :: "byte list \<Rightarrow> u16" \<comment> \<open>\<open>GetVlanId\<close>, from \<open>/proc/net/vlan/config\<close>\<close>

section \<open>Identifiers\<close>

function RemoveColon_loop :: "byte list \<Rightarrow> nat \<Rightarrow> byte list \<Rightarrow> byte list" where
  "RemoveColon_loop ident i outId =
     (if i < length ident
      then RemoveColon_loop ident (i + 1) (if ident ! i \<noteq> 0x3A then outId @ [ident ! i] else outId)
      else outId)"
  by pat_completeness auto
termination
  by (relation "measure (\<lambda>(ident, i, outId). length ident - i)") auto

declare RemoveColon_loop.simps [simp del]

definition RemoveColon :: "byte list \<Rightarrow> byte list" where
  "RemoveColon ident = RemoveColon_loop ident 0 []"

text \<open>The bytes written to the start of an array.\<close>

definition overlay :: "byte list \<Rightarrow> byte list \<Rightarrow> byte list" where
  "overlay bs arr = bs @ drop (length bs) arr"

definition SetEid :: "doip_ext \<Rightarrow> byte list \<Rightarrow> taf_doip_Config option
    \<Rightarrow> taf_doip_Result \<times> taf_doip_Config option" where
  "SetEid X eid cfg =
     (let eidOut = RemoveColon eid in
      if length eidOut \<noteq> TAF_DOIP_EID_SIZE * 2 then (TAF_DOIP_RESULT_OUT_OF_MEMORY, cfg)
      else case cfg of
        None \<Rightarrow> (TAF_DOIP_RESULT_ERROR, cfg)
      | Some c \<Rightarrow> (TAF_DOIP_RESULT_OK,
          Some (c\<lparr>cfg_eid := overlay (ext_hex X eidOut TAF_DOIP_EID_SIZE) (cfg_eid c)\<rparr>)))"

definition GetEid :: "taf_doip_Config option \<Rightarrow> taf_doip_Result + byte list" where
  "GetEid cfg = (case cfg of None \<Rightarrow> Inl TAF_DOIP_RESULT_ERROR | Some c \<Rightarrow> Inr (cfg_eid c))"

text \<open>\<open>SetGid\<close> checks the string without colons and converts the string with them.\<close>

definition SetGid :: "doip_ext \<Rightarrow> byte list \<Rightarrow> taf_doip_Config option
    \<Rightarrow> taf_doip_Result \<times> taf_doip_Config option" where
  "SetGid X gid cfg =
     (let gidOut = RemoveColon gid in
      if length gidOut \<noteq> TAF_DOIP_GID_SIZE * 2 then (TAF_DOIP_RESULT_OUT_OF_MEMORY, cfg)
      else case cfg of
        None \<Rightarrow> (TAF_DOIP_RESULT_ERROR, cfg)
      | Some c \<Rightarrow> (TAF_DOIP_RESULT_OK,
          Some (c\<lparr>cfg_gid := overlay (ext_hex X gid TAF_DOIP_GID_SIZE) (cfg_gid c)\<rparr>)))"

definition GetGid :: "taf_doip_Config option \<Rightarrow> taf_doip_Result + byte list" where
  "GetGid cfg = (case cfg of None \<Rightarrow> Inl TAF_DOIP_RESULT_ERROR | Some c \<Rightarrow> Inr (cfg_gid c))"

section \<open>The vehicle identification number\<close>

text \<open>The characters of ISO 3779: capital letters without I, O and Q, and digits.\<close>

definition vin_char :: "byte \<Rightarrow> bool" where
  "vin_char c \<longleftrightarrow> 0x41 \<le> c \<and> c \<le> 0x48 \<or> 0x4A \<le> c \<and> c \<le> 0x4E \<or> c = 0x50 \<or>
     0x52 \<le> c \<and> c \<le> 0x5A \<or> 0x30 \<le> c \<and> c \<le> 0x39"

fun CheckVIN :: "byte list \<Rightarrow> bool" where
  "CheckVIN [] = True"
| "CheckVIN (c # s) = (if vin_char c then CheckVIN s else False)"

text \<open>The second component is the string given to \<open>le_cfg_SetString\<close>, if it is called.\<close>

definition SetVinInStorage :: "byte list \<Rightarrow> taf_doip_Result \<times> byte list option" where
  "SetVinInStorage vin =
     (if length vin \<noteq> TAF_DOIP_VIN_SIZE then (TAF_DOIP_RESULT_PARAM_ERROR, None)
      else if \<not> CheckVIN vin then (TAF_DOIP_RESULT_PARAM_ERROR, None)
      else (TAF_DOIP_RESULT_OK, Some vin))"

definition SetVin :: "doip_ext \<Rightarrow> byte list \<Rightarrow> taf_doip_Config option
    \<Rightarrow> taf_doip_Result \<times> byte list option \<times> taf_doip_Config option" where
  "SetVin X vin cfg =
     (if length vin \<noteq> TAF_DOIP_VIN_SIZE then (TAF_DOIP_RESULT_PARAM_ERROR, None, cfg)
      else case SetVinInStorage vin of (ret, stored) \<Rightarrow>
        if ret \<noteq> TAF_DOIP_RESULT_OK then (ret, stored, cfg)
        else (TAF_DOIP_RESULT_OK, stored, case cfg of
            None \<Rightarrow> None
          | Some c \<Rightarrow> Some (c\<lparr>cfg_vin := ext_utf8 X vin (TAF_DOIP_VIN_SIZE + 1)\<rparr>)))"

definition GetVin :: "doip_ext \<Rightarrow> taf_doip_Config option \<Rightarrow> taf_doip_Result + byte list" where
  "GetVin X cfg = (case cfg of
       None \<Rightarrow> Inl TAF_DOIP_RESULT_UNSET
     | Some c \<Rightarrow> if cfg_vin c = [] then Inl TAF_DOIP_RESULT_UNSET
         else Inr (ext_utf8 X (cfg_vin c) (TAF_DOIP_VIN_SIZE + 1)))"

text \<open>
  \<open>node\<close> is the string that the configuration tree holds, if the node exists. On a wrong length
  the string stays in the array although the result is an error.
\<close>

definition GetVinFromStorage :: "doip_ext \<Rightarrow> byte list option \<Rightarrow> byte list \<Rightarrow> taf_doip_Result \<times> byte list" where
  "GetVinFromStorage X node vin = (case node of
       None \<Rightarrow> (TAF_DOIP_RESULT_UNSET, vin)
     | Some s \<Rightarrow> let vin' = ext_utf8 X s (TAF_DOIP_VIN_SIZE + 1) in
         if length vin' \<noteq> TAF_DOIP_VIN_SIZE then (TAF_DOIP_RESULT_UNSET, vin')
         else (TAF_DOIP_RESULT_OK, vin'))"

section \<open>Getters\<close>

text \<open>The guard that most getters share: the configuration exists and was parsed.\<close>

definition parsed :: "taf_doip_Config option \<Rightarrow> taf_doip_Result \<Rightarrow> (taf_doip_Config \<Rightarrow> 'a) \<Rightarrow> taf_doip_Result + 'a" where
  "parsed cfg err f = (case cfg of
       Some c \<Rightarrow> if cfg_parseStatus c then Inr (f c) else Inl err
     | None \<Rightarrow> Inl err)"

definition GetProtocolVersion :: "taf_doip_Config option \<Rightarrow> byte mem" where
  "GetProtocolVersion cfg = (case cfg of
       None \<Rightarrow> Inl NullDeref
     | Some c \<Rightarrow> Inr (if \<not> cfg_isTLS c then 0x2 else 0x3))"

definition GetMaxConcurrentSockNum :: "taf_doip_Config option \<Rightarrow> taf_doip_Result + u32" where
  "GetMaxConcurrentSockNum cfg = parsed cfg TAF_DOIP_RESULT_UNSET cfg_maxSockNum"

definition GetMaxDataSize :: "taf_doip_Config option \<Rightarrow> taf_doip_Result + u32" where
  "GetMaxDataSize cfg = parsed cfg TAF_DOIP_RESULT_UNSET cfg_maxDataSize"

definition GetMaxAnnounceCount :: "taf_doip_Config option \<Rightarrow> taf_doip_Result + u32" where
  "GetMaxAnnounceCount cfg = parsed cfg TAF_DOIP_RESULT_UNSET cfg_maxAnnounceCount"

definition GetAnnounceWait :: "taf_doip_Config option \<Rightarrow> bool" where
  "GetAnnounceWait cfg = (case cfg of
       Some c \<Rightarrow> cfg_parseStatus c \<and> cfg_announceWait c
     | None \<Rightarrow> False)"

definition GetAnnounceIntervalTime :: "taf_doip_Config option \<Rightarrow> taf_doip_Result + u32" where
  "GetAnnounceIntervalTime cfg = parsed cfg TAF_DOIP_RESULT_UNSET cfg_announceItrvalTime"

definition GetGenInactivityTime :: "taf_doip_Config option \<Rightarrow> taf_doip_Result + u32" where
  "GetGenInactivityTime cfg = parsed cfg TAF_DOIP_RESULT_UNSET cfg_genInactiveTime"

definition GetInitialInactivityTime :: "taf_doip_Config option \<Rightarrow> taf_doip_Result + u32" where
  "GetInitialInactivityTime cfg = parsed cfg TAF_DOIP_RESULT_UNSET cfg_initInactiveTime"

definition GetAliveCheckTime :: "taf_doip_Config option \<Rightarrow> taf_doip_Result + u32" where
  "GetAliveCheckTime cfg = parsed cfg TAF_DOIP_RESULT_UNSET cfg_aliveCheckTime"

definition SetEntityLogicalAddr ::
  "u16 \<Rightarrow> taf_doip_Config option \<Rightarrow> taf_doip_Result \<times> taf_doip_Config option" where
  "SetEntityLogicalAddr la cfg = (case cfg of
       Some c \<Rightarrow> (TAF_DOIP_RESULT_OK, Some (c\<lparr>cfg_entityLA := ucast la\<rparr>))
     | None \<Rightarrow> (TAF_DOIP_RESULT_ERROR, None))"

definition GetEntityLogicalAddr :: "taf_doip_Config option \<Rightarrow> taf_doip_Result + u16" where
  "GetEntityLogicalAddr cfg = parsed cfg TAF_DOIP_RESULT_UNSET (\<lambda>c. ucast (cfg_entityLA c))"

definition GetAuthEnableStatus :: "taf_doip_Config option \<Rightarrow> bool" where
  "GetAuthEnableStatus cfg = (case cfg of Some c \<Rightarrow> cfg_authEnableStatus c | None \<Rightarrow> False)"

definition GetAuthInfo :: "taf_doip_Config option \<Rightarrow> taf_doip_Result + u32" where
  "GetAuthInfo cfg = parsed cfg TAF_DOIP_RESULT_UNSET cfg_authInfo"

definition GetNetType :: "doip_ext \<Rightarrow> taf_doip_Config option \<Rightarrow> taf_doip_Result + byte list" where
  "GetNetType X cfg = parsed cfg TAF_DOIP_RESULT_ERROR (\<lambda>c. ext_utf8 X (cfg_netType c) 8)"

definition GetTcpPort :: "taf_doip_Config option \<Rightarrow> taf_doip_Result + u16" where
  "GetTcpPort cfg = parsed cfg TAF_DOIP_RESULT_UNSET cfg_tcpPort"

definition GetUdpPort :: "taf_doip_Config option \<Rightarrow> taf_doip_Result + u16" where
  "GetUdpPort cfg = parsed cfg TAF_DOIP_RESULT_UNSET cfg_udpPort"

definition GetUdpSrcPort :: "taf_doip_Config option \<Rightarrow> taf_doip_Result + u16" where
  "GetUdpSrcPort cfg = parsed cfg TAF_DOIP_RESULT_UNSET cfg_udpSrc"

text \<open>\<open>GetTLSFlag\<close> writes its output on an error too.\<close>

definition GetTLSFlag :: "taf_doip_Config option \<Rightarrow> taf_doip_Result \<times> bool" where
  "GetTLSFlag cfg = (case parsed cfg TAF_DOIP_RESULT_UNSET cfg_isTLS of
       Inr b \<Rightarrow> (TAF_DOIP_RESULT_OK, b) | Inl e \<Rightarrow> (e, False))"

definition GetTLSCertFile :: "doip_ext \<Rightarrow> taf_doip_Config option \<Rightarrow> taf_doip_Result + byte list" where
  "GetTLSCertFile X cfg = parsed cfg TAF_DOIP_RESULT_ERROR (\<lambda>c. ext_utf8 X (cfg_certFile c) 255)"

definition GetTLSPKFile :: "doip_ext \<Rightarrow> taf_doip_Config option \<Rightarrow> taf_doip_Result + byte list" where
  "GetTLSPKFile X cfg = parsed cfg TAF_DOIP_RESULT_ERROR (\<lambda>c. ext_utf8 X (cfg_pkFile c) 255)"

text \<open>The broadcast address \<open>255.255.255.255\<close>.\<close>

definition GetMulticast :: "doip_ext \<Rightarrow> byte list" where
  "GetMulticast X = ext_utf8 X
     [0x32, 0x35, 0x35, 0x2E, 0x32, 0x35, 0x35, 0x2E, 0x32, 0x35, 0x35, 0x2E, 0x32, 0x35, 0x35] 46"

text \<open>The walk along the list of functional groups.\<close>

primrec funcGroup_walk :: "u16 \<Rightarrow> u16 list \<Rightarrow> bool" where
  "funcGroup_walk la [] = False"
| "funcGroup_walk la (g # gs) = (if g = la then True else funcGroup_walk la gs)"

definition IsFunctionalAddress :: "taf_doip_Config option \<Rightarrow> u16 \<Rightarrow> bool" where
  "IsFunctionalAddress cfg la = (case cfg of
       None \<Rightarrow> False | Some c \<Rightarrow> funcGroup_walk la (cfg_funcGroupList c))"

definition GetIfaceList :: "taf_doip_Config option \<Rightarrow> (byte list \<times> u16) list option" where
  "GetIfaceList cfg = map_option cfg_ifaceList cfg"

section \<open>Initialisation\<close>

text \<open>The interfaces of the file, at most \<open>MAX_INF_NUM\<close>; \<open>cnt\<close> is the counter of the loop.\<close>

fun parse_ifaces :: "doip_ext \<Rightarrow> byte list list \<Rightarrow> nat \<Rightarrow> (byte list \<times> u16) list" where
  "parse_ifaces X [] cnt = []"
| "parse_ifaces X (n # ns) cnt =
     (if cnt \<ge> MAX_INF_NUM then []
      else let nm = ext_utf8 X n 30 in (nm, ext_vlan X nm) # parse_ifaces X ns (cnt + 1))"

text \<open>\<open>json = None\<close> is an exception while the file is read: the process ends (\<open>LE_FATAL\<close>).\<close>

definition ParseJsonConfig ::
  "doip_ext \<Rightarrow> doip_json option \<Rightarrow> bool \<Rightarrow> taf_doip_Config \<Rightarrow> taf_doip_Config option" where
  "ParseJsonConfig X json isVinStored c = (case json of
       None \<Rightarrow> None
     | Some j \<Rightarrow> Some (c\<lparr>
         cfg_vin := (if isVinStored then cfg_vin c else ext_utf8 X (js_VIN j) (TAF_DOIP_VIN_SIZE + 1)),
         cfg_eid := overlay (ext_hex X (take (TAF_DOIP_EID_SIZE * 2) (RemoveColon (js_EID j)))
           TAF_DOIP_EID_SIZE) (cfg_eid c),
         cfg_gid := overlay (ext_hex X (take (TAF_DOIP_GID_SIZE * 2) (RemoveColon (js_GID j)))
           TAF_DOIP_GID_SIZE) (cfg_gid c),
         cfg_entityLA := of_nat (js_source_address j),
         cfg_funcGroupList := cfg_funcGroupList c @ map of_nat (js_Function_group j),
         cfg_maxSockNum := js_MCTS j,
         cfg_maxDataSize := (if js_MDS j > MAX_MDS then MAX_MDS else js_MDS j),
         cfg_maxAnnounceCount := js_Announce_Num j,
         cfg_announceWait := js_Announce_Wait j,
         cfg_announceItrvalTime := js_Announce_Interval j,
         cfg_genInactiveTime := js_General_Inactivity j,
         cfg_initInactiveTime := js_Initial_Inactivity j,
         cfg_aliveCheckTime := js_Alive_Check j,
         cfg_authEnableStatus := False,
         cfg_authInfo := 0,
         cfg_ifaceList := cfg_ifaceList c @ parse_ifaces X (js_ifname j) 0,
         cfg_netType := ext_utf8 X (js_type j) 8,
         cfg_tcpPort := ucast (js_TCP_DATA j),
         cfg_udpPort := ucast (js_UDP_DISCOVERY j),
         cfg_udpSrc := ucast (js_UDP_SOURCE j),
         cfg_isTLS := js_TLS_enable j,
         cfg_certFile := ext_utf8 X (js_certificate j) 255,
         cfg_pkFile := ext_utf8 X (js_private_key j) 255,
         cfg_parseStatus := True\<rparr>))"

text \<open>\<open>fresh\<close> is the content of the memory that \<open>le_mem_ForceAlloc\<close> delivers.\<close>

definition Init ::
  "doip_ext \<Rightarrow> byte list option \<Rightarrow> doip_json option \<Rightarrow> taf_doip_Config \<Rightarrow> taf_doip_Config option" where
  "Init X node json fresh =
     (let c = fresh\<lparr>cfg_funcGroupList := [], cfg_ifaceList := []\<rparr> in
      case GetVinFromStorage X node (cfg_vin c) of (result, vin) \<Rightarrow>
        ParseJsonConfig X json (result = TAF_DOIP_RESULT_OK) (c\<lparr>cfg_vin := vin\<rparr>))"

definition DeInit :: "taf_doip_Config option \<Rightarrow> taf_doip_Result \<times> taf_doip_Config option" where
  "DeInit cfg = (TAF_DOIP_RESULT_OK, None)"

section \<open>Lemmas and properties\<close>

lemma RemoveColon_loop_eq: "RemoveColon_loop s i out = out @ filter (\<lambda>c. c \<noteq> 0x3A) (drop i s)"
proof (induction "length s - i" arbitrary: i out)
  case 0
  then show ?case by (subst RemoveColon_loop.simps) simp
next
  case (Suc k)
  then have i: "i < length s" by simp
  have IH: "RemoveColon_loop s (Suc i) x = x @ filter (\<lambda>c. c \<noteq> 0x3A) (drop (Suc i) s)" for x
    by (rule Suc.hyps(1)) (use Suc.hyps(2) in simp)
  show ?case
    using Cons_nth_drop_Suc [OF i, symmetric] i
    by (subst RemoveColon_loop.simps) (simp add: IH)
qed

lemma RemoveColon_eq: "RemoveColon s = filter (\<lambda>c. c \<noteq> 0x3A) s"
  by (simp add: RemoveColon_def RemoveColon_loop_eq)

lemma CheckVIN_iff: "CheckVIN s \<longleftrightarrow> list_all vin_char s"
  by (induction s) simp_all

lemma funcGroup_walk_iff: "funcGroup_walk la gs \<longleftrightarrow> la \<in> set gs"
  by (induction gs) auto

lemma length_parse_ifaces: "cnt \<le> MAX_INF_NUM \<Longrightarrow> length (parse_ifaces X ns cnt) \<le> MAX_INF_NUM - cnt"
proof (induction X ns cnt rule: parse_ifaces.induct)
  case (2 X n ns cnt)
  then show ?case by (cases "cnt \<ge> MAX_INF_NUM") (auto simp: Let_def)
qed simp

text \<open>
  A string with twelve hex digits, colons anywhere between them, sets the EID to the six bytes
  they denote; \<open>GetEid\<close> gives them back, and nothing else of the configuration changes.
\<close>

theorem SetEid_GetEid:
  assumes "hex_spec (ext_hex X)" and "list_all is_hex (RemoveColon s)" and "length (RemoveColon s) = 12"
    and "length (cfg_eid c) = TAF_DOIP_EID_SIZE"
  shows "\<exists>c'. SetEid X s (Some c) = (TAF_DOIP_RESULT_OK, Some c') \<and>
     GetEid (Some c') = Inr (hex_bytes (RemoveColon s)) \<and>
     length (cfg_eid c') = TAF_DOIP_EID_SIZE \<and> c'\<lparr>cfg_eid := cfg_eid c\<rparr> = c"
proof -
  have h: "ext_hex X (RemoveColon s) 6 = hex_bytes (RemoveColon s)"
    using assms(1-3) unfolding hex_spec_def by simp
  have l: "length (hex_bytes (RemoveColon s)) = 6" using assms(3) by (simp add: length_hex_bytes)
  show ?thesis
    using assms(3,4) l by (simp add: SetEid_def GetEid_def h overlay_def)
qed

abbreviation example_ext :: doip_ext where
  "example_ext \<equiv> \<lparr>ext_hex = \<lambda>s n. hex_bytes s, ext_utf8 = \<lambda>s n. take (n - 1) s, ext_vlan = \<lambda>n. 0\<rparr>"

abbreviation example_config :: taf_doip_Config where
  "example_config \<equiv> \<lparr>cfg_vin = replicate 17 0x30, cfg_eid = replicate 6 0xEE, cfg_gid = replicate 6 0xCC,
     cfg_entityLA = 0x201, cfg_maxSockNum = 10, cfg_maxDataSize = 65536, cfg_maxAnnounceCount = 3,
     cfg_announceWait = False, cfg_announceItrvalTime = 500, cfg_genInactiveTime = 300000,
     cfg_initInactiveTime = 2000, cfg_aliveCheckTime = 500, cfg_authEnableStatus = False,
     cfg_authInfo = 0, cfg_ifaceList = [], cfg_netType = [0x49, 0x50, 0x76, 0x34],
     cfg_udpPort = 13400, cfg_tcpPort = 13400, cfg_udpSrc = 13400, cfg_isTLS = False,
     cfg_certFile = [], cfg_pkFile = [], cfg_funcGroupList = [0x200, 0xE000], cfg_parseStatus = True\<rparr>"

text \<open>The identifier \<open>a2:8c:ed:3e:38:14\<close> of the configuration in the repository.\<close>

theorem SetEid_GetEid_witness:
  "\<exists>c'. SetEid example_ext [0x61, 0x32, 0x3A, 0x38, 0x63, 0x3A, 0x65, 0x64, 0x3A, 0x33, 0x65, 0x3A,
       0x33, 0x38, 0x3A, 0x31, 0x34] (Some example_config) = (TAF_DOIP_RESULT_OK, Some c') \<and>
     GetEid (Some c') = Inr [0xA2, 0x8C, 0xED, 0x3E, 0x38, 0x14]"
proof -
  let ?s = "[0x61, 0x32, 0x3A, 0x38, 0x63, 0x3A, 0x65, 0x64, 0x3A, 0x33, 0x65, 0x3A, 0x33, 0x38,
     0x3A, 0x31, 0x34] :: byte list"
  have h: "hex_spec (ext_hex example_ext)" by (simp add: hex_spec_hex_bytes)
  have s: "list_all is_hex (RemoveColon ?s)" "length (RemoveColon ?s) = 12"
    "hex_bytes (RemoveColon ?s) = [0xA2, 0x8C, 0xED, 0x3E, 0x38, 0x14]"
    by code_simp+
  show ?thesis using SetEid_GetEid [OF h s(1,2), of example_config] s(3) by auto
qed

text \<open>
  \<open>SetVin\<close> succeeds exactly on strings of 17 characters of the alphabet of ISO 3779; then the
  string is written to the storage and \<open>GetVin\<close> gives it back. Otherwise neither the storage nor
  the configuration changes.
\<close>

theorem SetVin_GetVin:
  assumes "utf8_spec (ext_utf8 X)"
  shows "case SetVin X s (Some c) of (r, stored, cfg) \<Rightarrow>
     if length s = TAF_DOIP_VIN_SIZE \<and> list_all vin_char s
     then r = TAF_DOIP_RESULT_OK \<and> stored = Some s \<and> GetVin X cfg = Inr s
     else r = TAF_DOIP_RESULT_PARAM_ERROR \<and> stored = None \<and> cfg = Some c"
proof (cases "length s = TAF_DOIP_VIN_SIZE \<and> list_all vin_char s")
  case True
  have "0 < c \<and> c < 128" if "vin_char c" for c
    using that by (auto simp: vin_char_def word_le_nat_alt word_less_nat_alt)
  then have "list_all (\<lambda>c. 0 < c \<and> c < 128) s" using True by (auto simp: list_all_iff)
  then have "ext_utf8 X s 18 = s" using assms True unfolding utf8_spec_def by simp
  then show ?thesis
    using True by (auto simp: SetVin_def SetVinInStorage_def CheckVIN_iff GetVin_def)
next
  case False
  then show ?thesis by (auto simp: SetVin_def SetVinInStorage_def CheckVIN_iff)
qed

theorem SetVin_GetVin_witness:
  "case SetVin example_ext (replicate 17 0x41) (Some example_config) of (r, stored, cfg) \<Rightarrow>
     GetVin example_ext cfg = Inr (replicate 17 0x41)"
proof -
  have "length (replicate 17 (0x41 :: byte)) = TAF_DOIP_VIN_SIZE \<and> list_all vin_char (replicate 17 0x41)"
    by (simp add: list_all_iff vin_char_def)
  then show ?thesis
    using SetVin_GetVin [of example_ext "replicate 17 0x41" example_config] utf8_spec_take
    by (auto split: prod.splits)
qed

text \<open>
  A configuration that \<open>Init\<close> leaves is parsed, has a maximum data size of at most 64 KiB, at
  most eight interfaces and a terminated VIN of at most 17 characters, knows exactly the functional
  addresses of the file, and has authentication disabled, whatever the file says.
\<close>

theorem Init_config:
  assumes "Init X node json fresh = Some c" and "utf8_spec (ext_utf8 X)"
  shows "cfg_parseStatus c \<and> cfg_maxDataSize c \<le> MAX_MDS \<and> length (cfg_ifaceList c) \<le> MAX_INF_NUM \<and>
     length (cfg_vin c) \<le> TAF_DOIP_VIN_SIZE \<and> \<not> GetAuthEnableStatus (Some c) \<and>
     (\<forall>la. IsFunctionalAddress (Some c) la \<longleftrightarrow> (\<exists>j. json = Some j \<and> la \<in> of_nat ` set (js_Function_group j)))"
proof -
  obtain j where j: "json = Some j" using assms(1) by (cases json) (auto simp: Init_def ParseJsonConfig_def Let_def split: prod.splits)
  have "length (ext_utf8 X s 18) < 18" for s
    using assms(2) unfolding utf8_spec_def by (metis zero_neq_numeral)
  then have u: "length (ext_utf8 X s 18) \<le> 17" for s using less_Suc_eq_le [of _ 17] by simp
  have v: "length v \<le> 17" if "GetVinFromStorage X node (cfg_vin c0) = (TAF_DOIP_RESULT_OK, v)" for v c0
    using that by (auto simp: GetVinFromStorage_def Let_def split: option.splits if_splits)
  show ?thesis
    using assms(1) length_parse_ifaces [of 0 X "js_ifname j"] u v
    by (auto simp: Init_def ParseJsonConfig_def Let_def j GetAuthEnableStatus_def IsFunctionalAddress_def
        funcGroup_walk_iff split: prod.splits)
qed

text \<open>A file with one functional address and a maximum data size over the limit, no stored VIN.\<close>

definition example_json :: doip_json where
  "example_json = \<lparr>js_VIN = replicate 17 0x41, js_EID = [], js_GID = [], js_source_address = 0x201,
     js_Function_group = [0xE000], js_MCTS = 10, js_MDS = 100000, js_Announce_Num = 3,
     js_Announce_Wait = True, js_Announce_Interval = 500, js_General_Inactivity = 300000,
     js_Initial_Inactivity = 2000, js_Alive_Check = 500, js_ifname = [[0x65]], js_type = [0x49],
     js_TCP_DATA = 13400, js_UDP_DISCOVERY = 13400, js_UDP_SOURCE = 13400, js_TLS_enable = False,
     js_certificate = [], js_private_key = []\<rparr>"

theorem Init_config_witness:
  "\<exists>c. Init example_ext None (Some example_json) example_config = Some c \<and> cfg_maxDataSize c \<le> MAX_MDS
     \<and> (\<forall>la. IsFunctionalAddress (Some c) la \<longleftrightarrow> la = 0xE000)"
proof -
  obtain c where c: "Init example_ext None (Some example_json) example_config = Some c"
    by (simp add: Init_def ParseJsonConfig_def GetVinFromStorage_def)
  have "utf8_spec (ext_utf8 example_ext)" using utf8_spec_take by simp
  from Init_config [OF c this] c show ?thesis by (auto simp: example_json_def)
qed

text \<open>
  \<open>SetGid\<close> converts its argument with the colons still in it: for the notation of the
  configuration file the six bytes come from \<open>le_hex_StringToBinary\<close> on a string that is not
  hexadecimal, and where that function refuses it, \<open>SetGid\<close> reports success and changes nothing.
\<close>

theorem SetGid_colons:
  assumes "length (RemoveColon s) = 12" and "ext_hex X s TAF_DOIP_GID_SIZE = []"
  shows "SetGid X s (Some c) = (TAF_DOIP_RESULT_OK, Some c)"
  using assms by (simp add: SetGid_def overlay_def)

text \<open>A conversion that keeps to its documentation and refuses a string with another character.\<close>

theorem SetGid_colons_witness:
  "let X = example_ext\<lparr>ext_hex := \<lambda>s n. if list_all is_hex s then hex_bytes s else []\<rparr>;
       s = [0x61, 0x32, 0x3A, 0x38, 0x63, 0x3A, 0x65, 0x64, 0x3A, 0x33, 0x65, 0x3A, 0x33, 0x38,
            0x3A, 0x31, 0x34] in
   hex_spec (ext_hex X) \<and> SetGid X s (Some example_config) = (TAF_DOIP_RESULT_OK, Some example_config)"
proof -
  let ?X = "example_ext\<lparr>ext_hex := \<lambda>s n. if list_all is_hex s then hex_bytes s else []\<rparr>"
  let ?s = "[0x61, 0x32, 0x3A, 0x38, 0x63, 0x3A, 0x65, 0x64, 0x3A, 0x33, 0x65, 0x3A, 0x33, 0x38,
     0x3A, 0x31, 0x34] :: byte list"
  have "length (RemoveColon ?s) = 12" by code_simp
  moreover have "ext_hex ?X ?s 6 = []" by (simp add: is_hex_def)
  ultimately show ?thesis
    using SetGid_colons [of ?s ?X example_config] by (simp add: Let_def hex_spec_def)
qed

end
