(* ===== verification/Doip_Codec.thy ===== *)
theory Doip_Codec
  imports Doip_Config
begin

unbundle bit_operations_syntax

text \<open>
  The messages of the DoIP entity, \<open>ProtocolParser\<close> of \<open>tafDoIPVehDiscoveryAndParser.cpp\<close>: the
  generic header, the payload of every response, and the choice of the transport. A function that
  sends returns the send it asks for; \<open>Doip_Connection\<close> performs it. The targets are
  little-endian, so the copy of the first byte of an integer is its low byte.
\<close>

section \<open>Protocol constants\<close>

abbreviation TAF_DOIP_HEADER_GENERIC_LENGTH :: nat where "TAF_DOIP_HEADER_GENERIC_LENGTH \<equiv> 8"
abbreviation TAF_DOIP_MAX_BUFFER_SIZE :: nat where "TAF_DOIP_MAX_BUFFER_SIZE \<equiv> 1500"
abbreviation TAF_DOIP_LOGICAL_ADDRESS_LENGTH :: nat where "TAF_DOIP_LOGICAL_ADDRESS_LENGTH \<equiv> 2"

abbreviation TYPE_HEADER_NEGATIVE_ACK :: u16 where "TYPE_HEADER_NEGATIVE_ACK \<equiv> 0x0000"
abbreviation TYPE_VEHICLE_IDENTIFY_REQUEST :: u16 where "TYPE_VEHICLE_IDENTIFY_REQUEST \<equiv> 0x0001"
abbreviation TYPE_VEHICLE_IDENTIFY_REQUEST_EID :: u16 where "TYPE_VEHICLE_IDENTIFY_REQUEST_EID \<equiv> 0x0002"
abbreviation TYPE_VEHICLE_IDENTIFY_REQUEST_VIN :: u16 where "TYPE_VEHICLE_IDENTIFY_REQUEST_VIN \<equiv> 0x0003"
abbreviation TYPE_VEHICLE_ID_RESPONSE :: u16 where "TYPE_VEHICLE_ID_RESPONSE \<equiv> 0x0004"
abbreviation TYPE_ROUTING_ACTIVE_REQUEST :: u16 where "TYPE_ROUTING_ACTIVE_REQUEST \<equiv> 0x0005"
abbreviation TYPE_ROUTING_ACTIVE_RESPONSE :: u16 where "TYPE_ROUTING_ACTIVE_RESPONSE \<equiv> 0x0006"
abbreviation TYPE_ALIVE_CHECK_REQUEST :: u16 where "TYPE_ALIVE_CHECK_REQUEST \<equiv> 0x0007"
abbreviation TYPE_ALIVE_CHECK_RESPONSE :: u16 where "TYPE_ALIVE_CHECK_RESPONSE \<equiv> 0x0008"
abbreviation TYPE_ENTITY_STATUS_REQUEST :: u16 where "TYPE_ENTITY_STATUS_REQUEST \<equiv> 0x4001"
abbreviation TYPE_ENTITY_STATUS_RESPONSE :: u16 where "TYPE_ENTITY_STATUS_RESPONSE \<equiv> 0x4002"
abbreviation TYPE_POWER_MODE_INFO_REQUEST :: u16 where "TYPE_POWER_MODE_INFO_REQUEST \<equiv> 0x4003"
abbreviation TYPE_POWER_MODE_INFO_RESPONSE :: u16 where "TYPE_POWER_MODE_INFO_RESPONSE \<equiv> 0x4004"
abbreviation TYPE_DIAGNOSTIC_MESSAGE :: u16 where "TYPE_DIAGNOSTIC_MESSAGE \<equiv> 0x8001"
abbreviation TYPE_DIAGNOSTIC_POSITIVE_ACK :: u16 where "TYPE_DIAGNOSTIC_POSITIVE_ACK \<equiv> 0x8002"
abbreviation TYPE_DIAGNOSTIC_NEGATIVE_ACK :: u16 where "TYPE_DIAGNOSTIC_NEGATIVE_ACK \<equiv> 0x8003"

datatype taf_doipSockType = SOCKET_TYPE_UNKNOWN | SOCKET_TYPE_TCP | SOCKET_TYPE_UDP_UNI
  | SOCKET_TYPE_UDP_MULTI

datatype taf_doipRaResCode =
    RA_RES_UNKNOWN_SOURCE_ADDRESS | RA_RES_ALL_SOCKET_REGISTED_AND_ACTIVE
  | RA_RES_SA_DIFFERENT_ACTIVATED_SOCKET | RA_RES_SA_REGISTED_DIFFERENT_SOCKET
  | RA_RES_MISSING_AUTHENTICATION | RA_RES_REJECT_CONFIRMATION | RA_RES_UNSUPPORTED_RA_TYPE
  | RA_RES_ROUTING_SUCCESSFULLY_ACTIVATED | RA_RES_CONFIRMATION_REQUIRED

fun RaResCode_byte :: "taf_doipRaResCode \<Rightarrow> byte" where
  "RaResCode_byte RA_RES_UNKNOWN_SOURCE_ADDRESS = 0x00"
| "RaResCode_byte RA_RES_ALL_SOCKET_REGISTED_AND_ACTIVE = 0x01"
| "RaResCode_byte RA_RES_SA_DIFFERENT_ACTIVATED_SOCKET = 0x02"
| "RaResCode_byte RA_RES_SA_REGISTED_DIFFERENT_SOCKET = 0x03"
| "RaResCode_byte RA_RES_MISSING_AUTHENTICATION = 0x04"
| "RaResCode_byte RA_RES_REJECT_CONFIRMATION = 0x05"
| "RaResCode_byte RA_RES_UNSUPPORTED_RA_TYPE = 0x06"
| "RaResCode_byte RA_RES_ROUTING_SUCCESSFULLY_ACTIVATED = 0x10"
| "RaResCode_byte RA_RES_CONFIRMATION_REQUIRED = 0x11"

datatype taf_doipHeaderNACKCode = HEADER_NACK_INCORRECT_PATTERN_FORMAT
  | HEADER_NACK_UNKNOWN_PAYLOAD_TYPE | HEADER_NACK_MESSAGE_TOO_LARGE | HEADER_NACK_OUT_OF_MEMORY
  | HEADER_NACK_INVALID_PAYLOAD_LENGTH

fun HeaderNACKCode_byte :: "taf_doipHeaderNACKCode \<Rightarrow> byte" where
  "HeaderNACKCode_byte HEADER_NACK_INCORRECT_PATTERN_FORMAT = 0x00"
| "HeaderNACKCode_byte HEADER_NACK_UNKNOWN_PAYLOAD_TYPE = 0x01"
| "HeaderNACKCode_byte HEADER_NACK_MESSAGE_TOO_LARGE = 0x02"
| "HeaderNACKCode_byte HEADER_NACK_OUT_OF_MEMORY = 0x03"
| "HeaderNACKCode_byte HEADER_NACK_INVALID_PAYLOAD_LENGTH = 0x04"

datatype taf_doipDiagNACKCode = DIAGNOSTIC_NACK_INVALID_SA | DIAGNOSTIC_NACK_UNKNOWN_TA
  | DIAGNOSTIC_NACK_DIAG_MSG_TOO_LARGE | DIAGNOSTIC_NACK_OUT_OF_MEMORY
  | DIAGNOSTIC_NACK_TARGET_UNREACHABLE | DIAGNOSTIC_NACK_UNKNOWN_NETWORK
  | DIAGNOSTIC_NACK_TRANS_PROTO_ERROR

fun DiagNACKCode_byte :: "taf_doipDiagNACKCode \<Rightarrow> byte" where
  "DiagNACKCode_byte DIAGNOSTIC_NACK_INVALID_SA = 0x02"
| "DiagNACKCode_byte DIAGNOSTIC_NACK_UNKNOWN_TA = 0x03"
| "DiagNACKCode_byte DIAGNOSTIC_NACK_DIAG_MSG_TOO_LARGE = 0x04"
| "DiagNACKCode_byte DIAGNOSTIC_NACK_OUT_OF_MEMORY = 0x05"
| "DiagNACKCode_byte DIAGNOSTIC_NACK_TARGET_UNREACHABLE = 0x06"
| "DiagNACKCode_byte DIAGNOSTIC_NACK_UNKNOWN_NETWORK = 0x07"
| "DiagNACKCode_byte DIAGNOSTIC_NACK_TRANS_PROTO_ERROR = 0x08"

datatype taf_doipPayloadType = DOIP_HEADER_NEGATIVE_ACK | DOIP_VEHICLE_ANNOUNCEMENT
  | DOIP_VEHICLE_IDENTIFY_RESPONSE | DOIP_ROUTING_ACTIVE_RESPONSE | DOIP_ALIVE_CHECK_REQUEST
  | DOIP_ENTITY_STATUS_RESPONSE | DOIP_POWER_MODE_INFO_RESPONSE | DOIP_DIAGNOSTIC_POSITIVE_ACK
  | DOIP_DIAGNOSTIC_NEGATIVE_ACK | DOIP_DIAGNOSTIC_FROM_ENTITY | DOIP_VEHICLE_IDENTIFY_REQUEST
  | DOIP_VEHICLE_IDENTIFY_REQUEST_EID | DOIP_VEHICLE_IDENTIFY_REQUEST_VIN
  | DOIP_ROUTING_ACTIVE_REQUEST | DOIP_ALIVE_CHECK_RESPONSE | DOIP_ENTITY_STATUS_REQUEST
  | DOIP_POWER_MODE_INFO_REQUEST | DOIP_DIAGNOSTIC_FROM_EQUIP

datatype taf_doip_NodeType = NT_GATEWAY | NT_NODE | NT_UNKOWN

fun NodeType_byte :: "taf_doip_NodeType \<Rightarrow> byte" where
  "NodeType_byte NT_GATEWAY = 0x00"
| "NodeType_byte NT_NODE = 0x01"
| "NodeType_byte NT_UNKOWN = 0xFF"

text \<open>A socket reference is a number; a link names the socket, or the peer for UDP.\<close>

type_synonym sock = nat

record taf_doipLink =
  link_sockRef :: sock
  link_ip :: "byte list"
  link_port :: u16
  link_commType :: taf_doipSockType

record taf_doipHeader =
  protocolVer :: byte
  invProtocolVer :: byte
  payloadType :: u16
  payloadLen :: u32

section \<open>The generic header\<close>

definition PackGenericHeader :: "taf_doip_Config \<Rightarrow> u16 \<Rightarrow> u32 \<Rightarrow> byte list" where
  "PackGenericHeader c ptype plen =
     (let ver = (if \<not> cfg_isTLS c then 0x2 else 0x3) in
      [ver] @ [NOT ver] @ be16 ptype @ be32 plen)"

definition UnpackHeaderStruct :: "byte list \<Rightarrow> nat \<Rightarrow> taf_doipHeader mem" where
  "UnpackHeaderStruct buf base =
     mbind (rd buf base) (\<lambda>ver.
     mbind (rd buf (base + 1)) (\<lambda>inv.
     mbind (rdn buf (base + 2) 2) (\<lambda>ty.
     mbind (rdn buf (base + 4) 4) (\<lambda>len.
       Inr \<lparr>protocolVer = ver, invProtocolVer = inv, payloadType = of_be16 ty, payloadLen = of_be32 len\<rparr>))))"

section \<open>Sending\<close>

datatype doip_send =
    SendTCPData sock "byte list"
  | SendUDPTo sock "byte list" u16 "byte list"
  | SendUDPMulti sock "byte list"

definition SendDoIPMsg ::
  "taf_doipLink \<Rightarrow> taf_doipPayloadType \<Rightarrow> byte list \<Rightarrow> taf_doip_Result \<times> doip_send list" where
  "SendDoIPMsg link kind data =
     (let tcp = SendTCPData (link_sockRef link) data;
          uni = SendUDPTo (link_sockRef link) (link_ip link) (link_port link) data;
          multi = SendUDPMulti (link_sockRef link) data;
          only = (\<lambda>t s. if link_commType link = t then (TAF_DOIP_RESULT_OK, [s])
                        else (TAF_DOIP_RESULT_ERROR, [])) in
      case kind of
        DOIP_HEADER_NEGATIVE_ACK \<Rightarrow>
          (case link_commType link of
             SOCKET_TYPE_TCP \<Rightarrow> (TAF_DOIP_RESULT_OK, [tcp])
           | SOCKET_TYPE_UDP_MULTI \<Rightarrow> (TAF_DOIP_RESULT_OK, [multi])
           | SOCKET_TYPE_UDP_UNI \<Rightarrow> (TAF_DOIP_RESULT_OK, [uni])
           | SOCKET_TYPE_UNKNOWN \<Rightarrow> (TAF_DOIP_RESULT_ERROR, []))
      | DOIP_VEHICLE_ANNOUNCEMENT \<Rightarrow> only SOCKET_TYPE_UDP_MULTI multi
      | DOIP_VEHICLE_IDENTIFY_RESPONSE \<Rightarrow> only SOCKET_TYPE_UDP_UNI uni
      | DOIP_ROUTING_ACTIVE_RESPONSE \<Rightarrow> only SOCKET_TYPE_TCP tcp
      | DOIP_ALIVE_CHECK_REQUEST \<Rightarrow> only SOCKET_TYPE_TCP tcp
      | DOIP_ALIVE_CHECK_RESPONSE \<Rightarrow> only SOCKET_TYPE_TCP tcp
      | DOIP_POWER_MODE_INFO_RESPONSE \<Rightarrow> only SOCKET_TYPE_UDP_UNI uni
      | DOIP_ENTITY_STATUS_RESPONSE \<Rightarrow> only SOCKET_TYPE_UDP_UNI uni
      | DOIP_DIAGNOSTIC_POSITIVE_ACK \<Rightarrow> only SOCKET_TYPE_TCP tcp
      | DOIP_DIAGNOSTIC_NEGATIVE_ACK \<Rightarrow> only SOCKET_TYPE_TCP tcp
      | _ \<Rightarrow> (TAF_DOIP_RESULT_OK, []))"

section \<open>The responses\<close>

text \<open>
  \<open>stk\<close> is the uninitialised array \<open>vin\<close> on the stack, of 18 bytes: it is sent where \<open>GetVin\<close>
  fails and behind a VIN shorter than 17 characters.
\<close>

definition VehicleAnnounceOrIdRes ::
  "doip_ext \<Rightarrow> taf_doip_Config \<Rightarrow> byte list \<Rightarrow> taf_doipLink \<Rightarrow> u16 \<Rightarrow> byte \<Rightarrow> doip_send list" where
  "VehicleAnnounceOrIdRes X c stk link entityLA furtherAction =
     (let vin = (case GetVin X (Some c) of Inr v \<Rightarrow> overlay (v @ [0]) stk | Inl e \<Rightarrow> stk);
          data = PackGenericHeader c TYPE_VEHICLE_ID_RESPONSE 32
                   @ take TAF_DOIP_VIN_SIZE vin @ be16 entityLA
                   @ cfg_eid c @ cfg_gid c @ [furtherAction] in
      if link_commType link = SOCKET_TYPE_UDP_UNI
      then snd (SendDoIPMsg link DOIP_VEHICLE_IDENTIFY_RESPONSE data)
      else if link_commType link = SOCKET_TYPE_UDP_MULTI
      then snd (SendDoIPMsg link DOIP_VEHICLE_ANNOUNCEMENT data)
      else [])"

text \<open>\<open>reserved\<close> is copied in the byte order of the host.\<close>

definition RoutingActivationRes ::
  "taf_doip_Config \<Rightarrow> taf_doipLink \<Rightarrow> u16 \<Rightarrow> u16 \<Rightarrow> taf_doipRaResCode \<Rightarrow> u32 \<Rightarrow> doip_send list" where
  "RoutingActivationRes c link equipLA entityLA raResCode reserved =
     snd (SendDoIPMsg link DOIP_ROUTING_ACTIVE_RESPONSE
       (PackGenericHeader c TYPE_ROUTING_ACTIVE_RESPONSE 9
          @ be16 equipLA @ be16 entityLA @ [RaResCode_byte raResCode] @ host32 reserved))"

definition AliveCheckReq :: "taf_doip_Config \<Rightarrow> taf_doipLink \<Rightarrow> doip_send list" where
  "AliveCheckReq c link =
     snd (SendDoIPMsg link DOIP_ALIVE_CHECK_REQUEST (PackGenericHeader c TYPE_ALIVE_CHECK_REQUEST 0))"

definition AliveCheckRes :: "taf_doip_Config \<Rightarrow> taf_doipLink \<Rightarrow> u16 \<Rightarrow> doip_send list" where
  "AliveCheckRes c link equipLA =
     snd (SendDoIPMsg link DOIP_ALIVE_CHECK_RESPONSE
       (PackGenericHeader c TYPE_ALIVE_CHECK_RESPONSE 2 @ be16 equipLA))"

definition DiagPowerModeRes :: "taf_doip_Config \<Rightarrow> taf_doipLink \<Rightarrow> byte \<Rightarrow> doip_send list" where
  "DiagPowerModeRes c link powerMode =
     snd (SendDoIPMsg link DOIP_POWER_MODE_INFO_RESPONSE
       (PackGenericHeader c TYPE_POWER_MODE_INFO_RESPONSE 1 @ [powerMode]))"

text \<open>\<open>maxDataSize\<close> is copied in the byte order of the host.\<close>

definition DoIPEntityStatusRes ::
  "taf_doip_Config \<Rightarrow> taf_doipLink \<Rightarrow> taf_doip_NodeType \<Rightarrow> byte \<Rightarrow> byte \<Rightarrow> u32 \<Rightarrow> doip_send list" where
  "DoIPEntityStatusRes c link nodeType maxCTS numCTS maxDataSize =
     snd (SendDoIPMsg link DOIP_ENTITY_STATUS_RESPONSE
       (PackGenericHeader c TYPE_ENTITY_STATUS_RESPONSE 7
          @ [NodeType_byte nodeType] @ [maxCTS] @ [numCTS] @ host32 maxDataSize))"

text \<open>The range check of the code never fails: the enumeration has no other values.\<close>

definition HeaderNegativeACK ::
  "taf_doip_Config \<Rightarrow> taf_doipLink \<Rightarrow> taf_doipHeaderNACKCode \<Rightarrow> doip_send list" where
  "HeaderNegativeACK c link headerNACKCode =
     snd (SendDoIPMsg link DOIP_HEADER_NEGATIVE_ACK
       (PackGenericHeader c TYPE_HEADER_NEGATIVE_ACK 1 @ [HeaderNACKCode_byte headerNACKCode]))"

definition DiagNegativeACK ::
  "taf_doip_Config \<Rightarrow> taf_doipLink \<Rightarrow> u16 \<Rightarrow> u16 \<Rightarrow> taf_doipDiagNACKCode \<Rightarrow> doip_send list" where
  "DiagNegativeACK c link entityLA equipLA diagNACKCode =
     snd (SendDoIPMsg link DOIP_DIAGNOSTIC_NEGATIVE_ACK
       (PackGenericHeader c TYPE_DIAGNOSTIC_NEGATIVE_ACK 5
          @ be16 entityLA @ be16 equipLA @ [DiagNACKCode_byte diagNACKCode]))"

definition DiagPositiveACK :: "taf_doip_Config \<Rightarrow> taf_doipLink \<Rightarrow> u16 \<Rightarrow> u16 \<Rightarrow> doip_send list" where
  "DiagPositiveACK c link entityLA equipLA =
     snd (SendDoIPMsg link DOIP_DIAGNOSTIC_POSITIVE_ACK
       (PackGenericHeader c TYPE_DIAGNOSTIC_POSITIVE_ACK 5
          @ be16 entityLA @ be16 equipLA @ [0x00]))"

section \<open>Frames\<close>

text \<open>A message as the header announces it: a type and a payload.\<close>

type_synonym frame = "u16 \<times> byte list"

definition frame_bytes :: "taf_doip_Config \<Rightarrow> frame \<Rightarrow> byte list" where
  "frame_bytes c f = PackGenericHeader c (fst f) (of_nat (length (snd f))) @ snd f"

lemma length_PackGenericHeader [simp]: "length (PackGenericHeader c t l) = 8"
  by (simp add: PackGenericHeader_def Let_def)

definition version_byte :: "taf_doip_Config \<Rightarrow> byte" where
  "version_byte c = (if \<not> cfg_isTLS c then 0x2 else 0x3)"

lemma UnpackHeaderStruct_Pack:
  "UnpackHeaderStruct (pre @ PackGenericHeader c t l @ post) (length pre) =
     Inr \<lparr>protocolVer = version_byte c, invProtocolVer = NOT (version_byte c), payloadType = t, payloadLen = l\<rparr>"
proof -
  let ?b = "pre @ PackGenericHeader c t l @ post"
  have nth: "?b ! (length pre + k) = PackGenericHeader c t l ! k" if "k < 8" for k
    using that by (simp add: nth_append)
  have d: "drop (length pre + k) ?b = drop k (PackGenericHeader c t l) @ post" if "k \<le> 8" for k
    using that by simp
  have p: "PackGenericHeader c t l = [version_byte c, NOT (version_byte c)] @ be16 t @ be32 l"
    by (simp add: PackGenericHeader_def version_byte_def)
  have r0: "rd ?b (length pre) = Inr (version_byte c)"
    using nth [of 0] by (simp add: rd_def p)
  have r1: "rd ?b (length pre + 1) = Inr (NOT (version_byte c))"
    using nth [of 1] by (simp add: rd_def p)
  have r2: "rdn ?b (length pre + 2) 2 = Inr (be16 t)"
    using d [of 2] by (simp add: rdn_def p)
  have r3: "rdn ?b (length pre + 4) 4 = Inr (be32 l)"
    using d [of 4] by (simp add: rdn_def p be16_def)
  show ?thesis
    unfolding UnpackHeaderStruct_def r0 r1 r2 r3 mbind_simps by simp
qed

section \<open>Properties of the codec\<close>

text \<open>
  \<open>UnpackHeaderStruct\<close> reads back what \<open>PackGenericHeader\<close> wrote, wherever the header lies in
  the buffer, with the version of the configuration and its complement.
\<close>

theorem header_roundtrip:
  "\<exists>h. UnpackHeaderStruct (pre @ PackGenericHeader c t l @ post) (length pre) = Inr h \<and>
     payloadType h = t \<and> payloadLen h = l \<and> protocolVer h = NOT (invProtocolVer h) \<and>
     GetProtocolVersion (Some c) = Inr (protocolVer h)"
  by (simp add: UnpackHeaderStruct_Pack GetProtocolVersion_def version_byte_def)

definition tcp_link :: "sock \<Rightarrow> taf_doipLink" where
  "tcp_link s = \<lparr>link_sockRef = s, link_ip = [], link_port = 0, link_commType = SOCKET_TYPE_TCP\<rparr>"

definition udp_link :: "sock \<Rightarrow> byte list \<Rightarrow> u16 \<Rightarrow> taf_doipLink" where
  "udp_link s ip port = \<lparr>link_sockRef = s, link_ip = ip, link_port = port, link_commType = SOCKET_TYPE_UDP_UNI\<rparr>"

lemma tcp_responses:
  "RoutingActivationRes c (tcp_link s) equipLA entityLA code reserved =
     [SendTCPData s (frame_bytes c (TYPE_ROUTING_ACTIVE_RESPONSE,
        be16 equipLA @ be16 entityLA @ [RaResCode_byte code] @ host32 reserved))]"
  "AliveCheckReq c (tcp_link s) = [SendTCPData s (frame_bytes c (TYPE_ALIVE_CHECK_REQUEST, []))]"
  "AliveCheckRes c (tcp_link s) equipLA =
     [SendTCPData s (frame_bytes c (TYPE_ALIVE_CHECK_RESPONSE, be16 equipLA))]"
  "HeaderNegativeACK c (tcp_link s) nack =
     [SendTCPData s (frame_bytes c (TYPE_HEADER_NEGATIVE_ACK, [HeaderNACKCode_byte nack]))]"
  "DiagNegativeACK c (tcp_link s) entityLA equipLA dnack =
     [SendTCPData s (frame_bytes c (TYPE_DIAGNOSTIC_NEGATIVE_ACK,
        be16 entityLA @ be16 equipLA @ [DiagNACKCode_byte dnack]))]"
  "DiagPositiveACK c (tcp_link s) entityLA equipLA =
     [SendTCPData s (frame_bytes c (TYPE_DIAGNOSTIC_POSITIVE_ACK, be16 entityLA @ be16 equipLA @ [0x00]))]"
  by (simp_all add: RoutingActivationRes_def AliveCheckReq_def AliveCheckRes_def HeaderNegativeACK_def
      DiagNegativeACK_def DiagPositiveACK_def SendDoIPMsg_def Let_def tcp_link_def frame_bytes_def)

lemma udp_responses:
  "DiagPowerModeRes c (udp_link s ip port) pm =
     [SendUDPTo s ip port (frame_bytes c (TYPE_POWER_MODE_INFO_RESPONSE, [pm]))]"
  "DoIPEntityStatusRes c (udp_link s ip port) nt mcts ncts mds =
     [SendUDPTo s ip port (frame_bytes c (TYPE_ENTITY_STATUS_RESPONSE,
        [NodeType_byte nt] @ [mcts] @ [ncts] @ host32 mds))]"
  "HeaderNegativeACK c (udp_link s ip port) nack =
     [SendUDPTo s ip port (frame_bytes c (TYPE_HEADER_NEGATIVE_ACK, [HeaderNACKCode_byte nack]))]"
  by (simp_all add: DiagPowerModeRes_def DoIPEntityStatusRes_def HeaderNegativeACK_def
      SendDoIPMsg_def Let_def udp_link_def frame_bytes_def)

text \<open>
  The identification response announces 32 bytes and has them: the VIN of the configuration,
  the logical address, the entity and group identifiers and the further action, in this order, for
  any configuration with a full VIN.
\<close>

theorem identification_response:
  assumes "utf8_spec (ext_utf8 X)" and "length (cfg_vin c) = TAF_DOIP_VIN_SIZE" and "list_all vin_char (cfg_vin c)"
    and "length (cfg_eid c) = TAF_DOIP_EID_SIZE" and "length (cfg_gid c) = TAF_DOIP_GID_SIZE"
  shows "\<exists>p. VehicleAnnounceOrIdRes X c stk (udp_link s ip port) la fa =
       [SendUDPTo s ip port (frame_bytes c (TYPE_VEHICLE_ID_RESPONSE, p))] \<and> length p = 32 \<and>
     take 17 p = cfg_vin c \<and> of_be16 (drop 17 p) = la \<and> take 6 (drop 19 p) = cfg_eid c \<and>
     take 6 (drop 25 p) = cfg_gid c \<and> p ! 31 = fa"
proof -
  have "0 < c \<and> c < 128" if "vin_char c" for c
    using that by (auto simp: vin_char_def word_le_nat_alt word_less_nat_alt)
  then have "list_all (\<lambda>c. 0 < c \<and> c < 128) (cfg_vin c)" using assms(3) by (auto simp: list_all_iff)
  then have "ext_utf8 X (cfg_vin c) 18 = cfg_vin c" using assms(1,2) unfolding utf8_spec_def by simp
  then have v: "GetVin X (Some c) = Inr (cfg_vin c)" using assms(2) by (auto simp: GetVin_def)
  let ?p = "cfg_vin c @ be16 la @ cfg_eid c @ cfg_gid c @ [fa]"
  have l: "length ?p = 32" using assms by simp
  have "VehicleAnnounceOrIdRes X c stk (udp_link s ip port) la fa =
      [SendUDPTo s ip port (frame_bytes c (TYPE_VEHICLE_ID_RESPONSE, ?p))]"
    unfolding VehicleAnnounceOrIdRes_def v Let_def frame_bytes_def
    using assms(2) l by (simp add: overlay_def udp_link_def SendDoIPMsg_def)
  moreover have "of_be16 (drop 17 ?p) = la"
    using assms(2) of_be16_be16 [of la] by (simp add: of_be16_def be16_def)
  moreover have "?p ! 31 = fa" using assms by (simp add: nth_append)
  ultimately show ?thesis using l assms by (intro exI [of _ ?p]) simp
qed

theorem identification_response_witness:
  "\<exists>p. VehicleAnnounceOrIdRes example_ext example_config (replicate 18 0xAA) (udp_link 7 [] 13400) 0x201 0 =
       [SendUDPTo 7 [] 13400 (frame_bytes example_config (TYPE_VEHICLE_ID_RESPONSE, p))] \<and>
     take 17 p = replicate 17 0x30"
proof -
  have "list_all vin_char (replicate 17 0x30)" by (simp add: list_all_iff vin_char_def)
  then show ?thesis
    using identification_response [of example_ext example_config "replicate 18 0xAA" 7 "[]" 13400 "0x201" 0]
      utf8_spec_take by auto
qed

text \<open>
  Without a VIN the response is sent all the same, and its first 17 payload bytes are whatever
  the stack held.
\<close>

theorem identification_without_vin:
  assumes "cfg_vin c = []" and "length stk = 18"
  shows "VehicleAnnounceOrIdRes X c stk (udp_link s ip port) la fa =
     [SendUDPTo s ip port (PackGenericHeader c TYPE_VEHICLE_ID_RESPONSE 32 @ take 17 stk @ be16 la
        @ cfg_eid c @ cfg_gid c @ [fa])]"
  using assms by (simp add: VehicleAnnounceOrIdRes_def GetVin_def Let_def udp_link_def SendDoIPMsg_def)

theorem identification_without_vin_witness:
  "VehicleAnnounceOrIdRes example_ext (example_config\<lparr>cfg_vin := []\<rparr>) (replicate 18 0xAA) (udp_link 7 [] 13400) 0x201 0 =
     [SendUDPTo 7 [] 13400 (PackGenericHeader example_config TYPE_VEHICLE_ID_RESPONSE 32
        @ replicate 17 0xAA @ [2, 1] @ replicate 6 0xEE @ replicate 6 0xCC @ [0])]"
  using identification_without_vin [of "example_config\<lparr>cfg_vin := []\<rparr>" "replicate 18 0xAA" example_ext 7 "[]" 13400 "0x201" 0]
  by (simp add: be16_def PackGenericHeader_def)

text \<open>
  The entity status response carries the maximum data size with its bytes reversed: a tester
  that reads the field in network order, as every other field, gets the byte-swapped number.
\<close>

theorem entity_status_byte_order:
  "\<exists>data. DoIPEntityStatusRes c (udp_link s ip port) nt mcts ncts mds = [SendUDPTo s ip port data] \<and>
     length data = 15 \<and> drop 11 data = rev (be32 mds)"
  by (auto simp: udp_responses frame_bytes_def host32_def)

end
