(* ===== verification/Doip_State.thy ===== *)
theory Doip_State
  imports Doip_Codec
begin

text \<open>
  The state that the TCP side of the DoIP entity keeps, and the operations that manage it:
  the \<open>Connection\<close> objects of \<open>tafDoIPConnection.hpp\<close>, the \<open>connectionBox\<close> of
  \<open>tafDoIPConnectionMgr.cpp\<close>, the sessions of \<open>tafDoIPCommunicationMgr.cpp\<close>, and the path of an
  outgoing TCP message through these classes.

  A \<open>shared_ptr<Connection>\<close> is the number of an object in a store, so that an object that was
  removed from the box stays alive as long as another connection refers to it. What the entity
  does to the outside (sends, timers, releases, reports) is appended to a trace, and what it
  observes of the outside (reads, timer states, allocation, handlers of the application) is an
  environment of functions of that trace.
\<close>

section \<open>Objects\<close>

datatype ConnectState = STATE_LISTEN | STATE_INITIALIZED | STATE_PENDING_FOR_AUTH
  | STATE_PENDING_FOR_CONF | STATE_ROUTING_ACTIVE | STATE_FINALIZE

datatype ConnectType = TYPE_CLI | TYPE_SVR

datatype UserConfirmResult = CONFIRM_REJECT | CONFIRM_NO_NEED | CONFIRM_PASS

datatype TaType = TA_PHYSICAL | TA_FUNCTIONAL

text \<open>The three timers of a connection, and the state of the pointers to them.\<close>

datatype timer = InitialTimer | GeneralTimer | AliveCheckTimer

datatype timer_refs = TimersUninit | TimersLive | TimersDangling | TimersNull

type_synonym conn = nat
type_synonym block = nat

record taf_doip_Buffer =
  buf_data :: "byte list"
  buf_dataSize :: nat
  buf_dataPos :: nat

record Connection =
  cliSockRef :: sock
  allAliveCheckFlag :: bool
  singleAliveCheckFlag :: bool
  routingConnectionPtr :: "conn option"
  testerSA :: u16
  entitySA :: u16
  raTesterSa :: u16
  localIface :: "byte list"
  remoteIp :: "byte list"
  remotePort :: u16
  connState :: ConnectState
  connType :: ConnectType
  isConsuming :: bool
  timerRefs :: timer_refs
  authInfo :: u32
  inBuf :: "taf_doip_Buffer option"
  udsBuf :: "(block \<times> byte list) option"
  udsTotalLen :: nat
  udsReceived :: nat

record taf_doipSession =
  ses_logicalSrcAddr :: u16
  ses_diagIndication :: bool \<comment> \<open>the handler is registered\<close>
  ses_diagConfirm :: bool
  ses_userConfirm :: bool
  ses_pmQuery :: bool

section \<open>Trace and environment\<close>

datatype doip_event =
    EvTcp sock "byte list"
  | EvUdp sock "byte list" u16 "byte list"
  | EvUdpMulti sock "byte list"
  | EvRead sock nat
  | EvTimerCreate conn timer u32
  | EvTimerStart conn timer
  | EvTimerStop conn timer
  | EvTimerRestart conn timer
  | EvTimerDelete conn timer
  | EvSocketDelete sock
  | EvSocketShutdown sock
  | EvReleaseIn conn
  | EvAllocUds block
  | EvReleaseUds block
  | EvQueueConsume sock
  | EvQueueIndication u16 u16 TaType "byte list" block "byte list"
  | EvConnectionEvent u16 u16 taf_doip_Result "byte list"
  | EvStatusReport u16 u16 taf_doip_Result "byte list"
  | EvUserConfirm u16 u16
  | EvQueueRequest u16 u16 block "byte list"
  | EvQueueConfirm u16 u16 TaType
  | EvIndication u16 u16 TaType "byte list" "byte list option" taf_doip_Result
  | EvDiagConfirm u16 u16 TaType taf_doip_Result

type_synonym trace = "doip_event list"

record doip_env =
  ev_ext :: doip_ext
  ev_timer_running :: "trace \<Rightarrow> conn \<Rightarrow> timer \<Rightarrow> bool"
  ev_read :: "trace \<Rightarrow> sock \<Rightarrow> nat \<Rightarrow> byte list option" \<comment> \<open>\<open>None\<close>: an error code\<close>
  ev_send_ok :: "trace \<Rightarrow> sock \<Rightarrow> bool"
  ev_shutdown_ok :: "trace \<Rightarrow> sock \<Rightarrow> bool"
  ev_try_alloc :: "trace \<Rightarrow> byte list option" \<comment> \<open>the content of the block\<close>
  ev_socket_setup :: "trace \<Rightarrow> sock \<Rightarrow> bool" \<comment> \<open>timeout, event handler and monitoring succeed\<close>
  ev_user_confirm :: "trace \<Rightarrow> u16 \<Rightarrow> u16 \<Rightarrow> UserConfirmResult"
  ev_power_mode :: "trace \<Rightarrow> byte"
  ev_junk_sa :: "conn \<Rightarrow> timer \<Rightarrow> u16" \<comment> \<open>uninitialised members of a new object\<close>
  ev_junk_auth :: "conn \<Rightarrow> u32"
  ev_stack :: "trace \<Rightarrow> byte list" \<comment> \<open>an uninitialised array on the stack\<close>
  ev_fuel :: nat \<comment> \<open>steps granted to the loop that discards input\<close>

record doip_state =
  ds_cfg :: taf_doip_Config
  ds_conns :: "conn \<Rightarrow> Connection"
  ds_next :: conn
  ds_box :: "conn list"
  ds_aliveCheckNcts :: nat
  ds_udsSize :: nat \<comment> \<open>object size of \<open>udsMsgPool\<close>\<close>
  ds_blocks :: block
  ds_sessions :: "taf_doipSession list"
  ds_trace :: trace

definition emit :: "doip_event \<Rightarrow> doip_state \<Rightarrow> doip_state" where
  "emit e st = st\<lparr>ds_trace := ds_trace st @ [e]\<rparr>"

abbreviation conn_of :: "doip_state \<Rightarrow> conn \<Rightarrow> Connection" where
  "conn_of st c \<equiv> ds_conns st c"

definition modc :: "conn \<Rightarrow> (Connection \<Rightarrow> Connection) \<Rightarrow> doip_state \<Rightarrow> doip_state" where
  "modc c f st = st\<lparr>ds_conns := (ds_conns st)(c := f (ds_conns st c))\<rparr>"

text \<open>
  A concrete environment: reads find nothing, everything else succeeds, the application asks for no
  confirmation.
\<close>

abbreviation example_env :: doip_env where
  "example_env \<equiv> \<lparr>ev_ext = example_ext, ev_timer_running = \<lambda>t c i. False, ev_read = \<lambda>t s n. Some [],
     ev_send_ok = \<lambda>t s. True, ev_shutdown_ok = \<lambda>t s. True, ev_try_alloc = \<lambda>t. Some [],
     ev_socket_setup = \<lambda>t s. True, ev_user_confirm = \<lambda>t s a. CONFIRM_NO_NEED, ev_power_mode = \<lambda>t. 1,
     ev_junk_sa = \<lambda>c t. 0, ev_junk_auth = \<lambda>c. 0, ev_stack = \<lambda>t. replicate 18 0, ev_fuel = 1500\<rparr>"

section \<open>Lookups\<close>

definition IsConnectionRegitered :: "Connection \<Rightarrow> bool" where
  "IsConnectionRegitered k \<longleftrightarrow>
     (if connState k = STATE_ROUTING_ACTIVE \<or> connState k = STATE_PENDING_FOR_CONF
         \<or> connState k = STATE_ROUTING_ACTIVE then True else False)"

definition IsLogicalAddressMatch :: "Connection \<Rightarrow> u16 \<Rightarrow> bool" where
  "IsLogicalAddressMatch k la \<longleftrightarrow>
     (if connType k = TYPE_CLI \<and> la = entitySA k then True
      else if connType k = TYPE_SVR \<and> la = testerSA k then True else False)"

definition IsSocketRefMatch :: "Connection \<Rightarrow> sock \<Rightarrow> bool" where
  "IsSocketRefMatch k s \<longleftrightarrow> s = cliSockRef k"

definition SetLogicalSourceAddr :: "u16 \<Rightarrow> Connection \<Rightarrow> Connection" where
  "SetLogicalSourceAddr sa k = (if connType k = TYPE_SVR then k\<lparr>entitySA := sa\<rparr> else k\<lparr>testerSA := sa\<rparr>)"

definition GetLogicalSourceAddr :: "Connection \<Rightarrow> u16" where
  "GetLogicalSourceAddr k = (if connType k = TYPE_SVR then entitySA k else testerSA k)"

definition SetLogicalTargetAddr :: "u16 \<Rightarrow> Connection \<Rightarrow> Connection" where
  "SetLogicalTargetAddr sa k = (if connType k = TYPE_SVR then k\<lparr>testerSA := sa\<rparr> else k\<lparr>entitySA := sa\<rparr>)"

definition GetLogicalTargetAddr :: "Connection \<Rightarrow> u16" where
  "GetLogicalTargetAddr k = (if connType k = TYPE_SVR then testerSA k else entitySA k)"

definition FindConnectionBySocket :: "doip_state \<Rightarrow> sock \<Rightarrow> conn option" where
  "FindConnectionBySocket st s = find (\<lambda>c. IsSocketRefMatch (conn_of st c) s) (ds_box st)"

definition FindConnectionByLogicalAddr :: "doip_state \<Rightarrow> u16 \<Rightarrow> conn option" where
  "FindConnectionByLogicalAddr st la =
     find (\<lambda>c. IsLogicalAddressMatch (conn_of st c) la \<and> IsConnectionRegitered (conn_of st c)) (ds_box st)"

definition GetConnectionNum :: "doip_state \<Rightarrow> nat" where
  "GetConnectionNum st = length (ds_box st)"

definition GetRegisteredConnectionNum :: "doip_state \<Rightarrow> nat" where
  "GetRegisteredConnectionNum st = length (filter (\<lambda>c. IsConnectionRegitered (conn_of st c)) (ds_box st))"

text \<open>\<open>le_ref\<close> iteration over the sessions, and the first with the address.\<close>

definition FindDoipSession :: "doip_state \<Rightarrow> u16 \<Rightarrow> taf_doipSession option" where
  "FindDoipSession st sa = find (\<lambda>s. sa = ses_logicalSrcAddr s) (ds_sessions st)"

text \<open>The configured limits with the defaults the callers use.\<close>

definition mcts_of :: "doip_state \<Rightarrow> nat" where
  "mcts_of st = unat (case GetMaxConcurrentSockNum (Some (ds_cfg st)) of
     Inr m \<Rightarrow> m | Inl e \<Rightarrow> TAF_DOIP_MCTS_DEFAULT)"

definition mds_of :: "doip_state \<Rightarrow> nat" where
  "mds_of st = unat (case GetMaxDataSize (Some (ds_cfg st)) of
     Inr m \<Rightarrow> m | Inl e \<Rightarrow> TAF_DOIP_MDS_DEFAULT)"

section \<open>Sending over TCP\<close>

definition Connection_SendTCPData ::
  "doip_env \<Rightarrow> conn \<Rightarrow> byte list \<Rightarrow> doip_state \<Rightarrow> taf_doip_Result \<times> doip_state" where
  "Connection_SendTCPData E c msg st =
     (if msg = [] then (TAF_DOIP_RESULT_PARAM_ERROR, st)
      else
      let st1 = (if ev_timer_running E (ds_trace st) c GeneralTimer
                 then emit (EvTimerRestart c GeneralTimer) st else st);
          s = cliSockRef (conn_of st1 c);
          ok = ev_send_ok E (ds_trace st1) s;
          st2 = emit (EvTcp s msg) st1 in
      (if \<not> ok then TAF_DOIP_RESULT_ERROR else TAF_DOIP_RESULT_OK, st2))"

definition SendDoipMessage ::
  "doip_env \<Rightarrow> conn \<Rightarrow> byte list \<Rightarrow> doip_state \<Rightarrow> taf_doip_Result \<times> doip_state" where
  "SendDoipMessage E c msg st = Connection_SendTCPData E c msg st"

definition SendDiagMessage ::
  "doip_env \<Rightarrow> conn \<Rightarrow> byte list \<Rightarrow> doip_state \<Rightarrow> taf_doip_Result \<times> doip_state" where
  "SendDiagMessage E c msg st =
     (if connState (conn_of st c) \<noteq> STATE_ROUTING_ACTIVE then (TAF_DOIP_RESULT_ROUTING_INACTIVE, st)
      else Connection_SendTCPData E c msg st)"

text \<open>
  \<open>CommunicationMgr::SendTCPData\<close>: the message is copied to a buffer of 1500 bytes and sent by the
  connection that the box has for the socket. The buffer is a local of the model.
\<close>

definition CommunicationMgr_SendTCPData ::
  "doip_env \<Rightarrow> sock \<Rightarrow> byte list \<Rightarrow> doip_state \<Rightarrow> taf_doip_Result \<times> doip_state" where
  "CommunicationMgr_SendTCPData E s msg st =
     (if msg = [] \<or> length msg \<ge> TAF_DOIP_MAX_BUFFER_SIZE then (TAF_DOIP_RESULT_PARAM_ERROR, st)
      else case FindConnectionBySocket st s of
        None \<Rightarrow> (TAF_DOIP_RESULT_ERROR, st)
      | Some c \<Rightarrow> (TAF_DOIP_RESULT_OK, snd (SendDoipMessage E c msg st)))"

text \<open>
  The sends that a function of \<open>ProtocolParser\<close> asks for. UDP goes through the sockets of
  \<open>CommunicationMgr\<close>, which only transmit.
\<close>

fun perform :: "doip_env \<Rightarrow> doip_send list \<Rightarrow> doip_state \<Rightarrow> doip_state" where
  "perform E [] st = st"
| "perform E (SendTCPData s msg # xs) st = perform E xs (snd (CommunicationMgr_SendTCPData E s msg st))"
| "perform E (SendUDPTo s ip port msg # xs) st = perform E xs (emit (EvUdp s ip port msg) st)"
| "perform E (SendUDPMulti s msg # xs) st = perform E xs (emit (EvUdpMulti s msg) st)"

text \<open>\<open>ReportConnectionEvent\<close> of \<open>CommunicationMgr\<close>, called through the connection manager.\<close>

definition ReportConnectionEvent ::
  "u16 \<Rightarrow> u16 \<Rightarrow> taf_doip_Result \<Rightarrow> byte list \<Rightarrow> doip_state \<Rightarrow> doip_state" where
  "ReportConnectionEvent sa ta rgistResult iface st =
     (let st1 = emit (EvConnectionEvent sa ta rgistResult iface) st in
      case FindDoipSession st1 ta of
        None \<Rightarrow> st1
      | Some s \<Rightarrow> emit (EvStatusReport sa ta rgistResult iface) st1)"

section \<open>Ending a connection\<close>

definition stop_timer :: "doip_env \<Rightarrow> conn \<Rightarrow> timer \<Rightarrow> doip_state \<Rightarrow> doip_state" where
  "stop_timer E c t st =
     (if ev_timer_running E (ds_trace st) c t then emit (EvTimerStop c t) st else st)"

definition release_in :: "conn \<Rightarrow> doip_state \<Rightarrow> doip_state" where
  "release_in c st =
     (if inBuf (conn_of st c) \<noteq> None
      then modc c (\<lambda>k. k\<lparr>inBuf := None\<rparr>) (emit (EvReleaseIn c) st) else st)"

definition release_uds :: "conn \<Rightarrow> doip_state \<Rightarrow> doip_state" where
  "release_uds c st =
     (case udsBuf (conn_of st c) of
        None \<Rightarrow> st
      | Some (b, d) \<Rightarrow> modc c (\<lambda>k. k\<lparr>udsBuf := None\<rparr>) (emit (EvReleaseUds b) st))"

definition Shutdown :: "doip_env \<Rightarrow> conn \<Rightarrow> doip_state \<Rightarrow> taf_doip_Result \<times> doip_state" where
  "Shutdown E c st =
     (let st1 = modc c (\<lambda>k. k\<lparr>connState := STATE_FINALIZE\<rparr>) st;
          st2 = stop_timer E c InitialTimer (stop_timer E c GeneralTimer (stop_timer E c AliveCheckTimer st1));
          st3 = release_uds c (release_in c st2);
          s = cliSockRef (conn_of st3 c);
          ok = ev_shutdown_ok E (ds_trace st3) s;
          st4 = emit (EvSocketShutdown s) st3 in
      (if \<not> ok then TAF_DOIP_RESULT_ERROR else TAF_DOIP_RESULT_OK, st4))"

text \<open>The second run of \<open>Stop\<close> on an object finds null pointers, but deletes the socket again.\<close>

definition Stop :: "doip_env \<Rightarrow> conn \<Rightarrow> doip_state \<Rightarrow> doip_state" where
  "Stop E c st =
     (let live = (timerRefs (conn_of st c) \<noteq> TimersNull);
          st1 = (if live
                 then stop_timer E c InitialTimer (stop_timer E c GeneralTimer (stop_timer E c AliveCheckTimer st))
                 else st);
          st2 = (if live
                 then modc c (\<lambda>k. k\<lparr>timerRefs := TimersNull\<rparr>)
                        (emit (EvTimerDelete c InitialTimer) (emit (EvTimerDelete c GeneralTimer)
                          (emit (EvTimerDelete c AliveCheckTimer) st1)))
                 else st1);
          st3 = release_uds c (release_in c st2) in
      emit (EvSocketDelete (cliSockRef (conn_of st3 c))) st3)"

definition DeleteConnection :: "doip_env \<Rightarrow> conn \<Rightarrow> doip_state \<Rightarrow> doip_state" where
  "DeleteConnection E c st =
     (let st1 = Stop E c st; s = cliSockRef (conn_of st1 c) in
      case find_index (\<lambda>d. IsSocketRefMatch (conn_of st1 d) s) (ds_box st1) of
        None \<Rightarrow> st1
      | Some i \<Rightarrow> st1\<lparr>ds_box := swap_pop i (ds_box st1)\<rparr>)"

definition ShutdownAllConnection :: "doip_env \<Rightarrow> doip_state \<Rightarrow> doip_state" where
  "ShutdownAllConnection E st = fold (\<lambda>c s. snd (Shutdown E c s)) (ds_box st) st"

text \<open>The loop of \<open>DeleteAllConnection\<close>: stop the first connection and erase it from the box.\<close>

definition DeleteAllConnection :: "doip_env \<Rightarrow> doip_state \<Rightarrow> doip_state" where
  "DeleteAllConnection E st =
     fold (\<lambda>c s. let s1 = Stop E c s in s1\<lparr>ds_box := tl (ds_box s1)\<rparr>) (ds_box st) st"

section \<open>The message pools\<close>

text \<open>\<open>ConnectionManager::Init\<close>; \<open>ds_udsSize\<close> is 0 while there is no pool.\<close>

definition ConnectionManager_Init :: "doip_state \<Rightarrow> doip_state" where
  "ConnectionManager_Init st =
     (let len = mds_of st;
          len' = (if len < TAF_DOIP_MAX_BUFFER_SIZE then TAF_DOIP_MAX_BUFFER_SIZE else len) in
      if ds_udsSize st = 0 then st\<lparr>ds_udsSize := len'\<rparr> else st)"

section \<open>What the trace does not change\<close>

text \<open>
  Most operations only append to the trace. A part of the state that does not depend on the trace
  is the same before and after them; the lemmas are proved once, for every such part.
\<close>

locale untraced =
  fixes P :: "doip_state \<Rightarrow> 'a"
  assumes untraced: "P (st\<lparr>ds_trace := t\<rparr>) = P st"
begin

lemma emit: "P (emit e st) = P st"
  by (simp add: emit_def untraced)

lemma connection_send: "P (snd (Connection_SendTCPData E c msg st)) = P st"
  by (simp add: Connection_SendTCPData_def emit Let_def)

lemma doip_send: "P (snd (SendDoipMessage E c msg st)) = P st"
  by (simp add: SendDoipMessage_def connection_send)

lemma diag_send: "P (snd (SendDiagMessage E c msg st)) = P st"
  by (simp add: SendDiagMessage_def connection_send)

lemma manager_send: "P (snd (CommunicationMgr_SendTCPData E s msg st)) = P st"
  by (simp add: CommunicationMgr_SendTCPData_def doip_send split: option.splits)

lemma perform: "P (perform E xs st) = P st"
  by (induction E xs st rule: perform.induct) (simp_all add: manager_send emit)

lemma report: "P (ReportConnectionEvent sa ta r i st) = P st"
  by (simp add: ReportConnectionEvent_def Let_def emit split: option.splits)

lemma stop_timer: "P (stop_timer E c t st) = P st"
  by (simp add: stop_timer_def emit)

lemmas untraced_ops = emit connection_send doip_send diag_send manager_send perform report stop_timer

end

interpretation conns: untraced ds_conns by unfold_locales simp
interpretation box: untraced ds_box by unfold_locales simp
interpretation cfg: untraced ds_cfg by unfold_locales simp
interpretation nxt: untraced ds_next by unfold_locales simp
interpretation sess: untraced ds_sessions by unfold_locales simp
interpretation usize: untraced ds_udsSize by unfold_locales simp
interpretation ncts: untraced ds_aliveCheckNcts by unfold_locales simp

lemmas trace_simps = conns.untraced_ops box.untraced_ops cfg.untraced_ops nxt.untraced_ops
  sess.untraced_ops usize.untraced_ops ncts.untraced_ops

declare trace_simps [simp]

lemma modc_sel [simp]:
  "ds_conns (modc c f st) = (ds_conns st)(c := f (ds_conns st c))"
  "ds_box (modc c f st) = ds_box st" "ds_cfg (modc c f st) = ds_cfg st"
  "ds_next (modc c f st) = ds_next st" "ds_sessions (modc c f st) = ds_sessions st"
  "ds_udsSize (modc c f st) = ds_udsSize st" "ds_aliveCheckNcts (modc c f st) = ds_aliveCheckNcts st"
  "ds_trace (modc c f st) = ds_trace st" "ds_blocks (modc c f st) = ds_blocks st"
  by (simp_all add: modc_def)

lemma mcts_of_cong: "ds_cfg s = ds_cfg t \<Longrightarrow> mcts_of s = mcts_of t"
  by (simp add: mcts_of_def)

lemma mds_of_cong: "ds_cfg s = ds_cfg t \<Longrightarrow> mds_of s = mds_of t"
  by (simp add: mds_of_def)

interpretation mcts: untraced mcts_of by unfold_locales (simp add: mcts_of_def)
interpretation mds: untraced mds_of by unfold_locales (simp add: mds_of_def)
interpretation find_sock: untraced "\<lambda>st. FindConnectionBySocket st s" for s
  by unfold_locales (simp add: FindConnectionBySocket_def)
interpretation find_la: untraced "\<lambda>st. FindConnectionByLogicalAddr st la" for la
  by unfold_locales (simp add: FindConnectionByLogicalAddr_def)

section \<open>Lookup and removal\<close>

lemma find_index_unique:
  assumes "x \<in> set xs" "P x" "\<And>y. y \<in> set xs \<Longrightarrow> P y \<Longrightarrow> y = x"
  shows "\<exists>i. find_index P xs = Some i \<and> i < length xs \<and> xs ! i = x"
  using assms
proof (induction xs)
  case (Cons a xs)
  show ?case
  proof (cases "P a")
    case True
    then have "a = x" using Cons.prems(3) [of a] by simp
    then show ?thesis using True by simp
  next
    case False
    then have "x \<in> set xs" using Cons.prems(1,2) by auto
    then have "\<exists>i. find_index P xs = Some i \<and> i < length xs \<and> xs ! i = x"
      using Cons.prems(2,3) by (intro Cons.IH) simp_all
    then show ?thesis using False by auto
  qed
qed simp

text \<open>The connections in the box are distinct objects with distinct sockets.\<close>

definition box_ok :: "doip_state \<Rightarrow> bool" where
  "box_ok st \<longleftrightarrow> distinct (ds_box st) \<and> (\<forall>c\<in>set (ds_box st). c < ds_next st)
     \<and> inj_on (\<lambda>c. cliSockRef (conn_of st c)) (set (ds_box st))"

lemma box_ok_cong:
  "box_ok t \<Longrightarrow> ds_box s = ds_box t \<Longrightarrow> ds_next s = ds_next t
     \<Longrightarrow> (\<And>d. cliSockRef (conn_of s d) = cliSockRef (conn_of t d)) \<Longrightarrow> box_ok s"
  unfolding box_ok_def by simp

lemma FindConnectionBySocket_Some:
  "FindConnectionBySocket st s = Some c \<Longrightarrow> c \<in> set (ds_box st) \<and> cliSockRef (conn_of st c) = s"
  by (auto simp: FindConnectionBySocket_def find_Some_iff IsSocketRefMatch_def)

lemma FindConnectionBySocket_None:
  "FindConnectionBySocket st s = None \<longleftrightarrow> s \<notin> (\<lambda>c. cliSockRef (conn_of st c)) ` set (ds_box st)"
  by (auto simp: FindConnectionBySocket_def find_None_iff IsSocketRefMatch_def)

lemma FindConnectionByLogicalAddr_Some:
  "FindConnectionByLogicalAddr st la = Some c \<Longrightarrow> c \<in> set (ds_box st)
     \<and> IsConnectionRegitered (conn_of st c) \<and> IsLogicalAddressMatch (conn_of st c) la"
  by (auto simp: FindConnectionByLogicalAddr_def find_Some_iff)

lemma FindConnectionBySocket_box:
  assumes "box_ok st" "c \<in> set (ds_box st)"
  shows "FindConnectionBySocket st (cliSockRef (conn_of st c)) = Some c"
proof -
  obtain d where d: "FindConnectionBySocket st (cliSockRef (conn_of st c)) = Some d"
    using assms(2) FindConnectionBySocket_None by fastforce
  then show ?thesis
    using FindConnectionBySocket_Some [OF d] assms by (auto simp: box_ok_def inj_on_def)
qed

lemma release_in_sel [simp]:
  "ds_box (release_in c st) = ds_box st" "ds_cfg (release_in c st) = ds_cfg st"
  "ds_next (release_in c st) = ds_next st" "ds_sessions (release_in c st) = ds_sessions st"
  "ds_udsSize (release_in c st) = ds_udsSize st"
  "ds_aliveCheckNcts (release_in c st) = ds_aliveCheckNcts st"
  "ds_conns (release_in c st) = (ds_conns st)(c := (ds_conns st c)\<lparr>inBuf := None\<rparr>)"
  by (auto simp: release_in_def)

lemma release_uds_sel [simp]:
  "ds_box (release_uds c st) = ds_box st" "ds_cfg (release_uds c st) = ds_cfg st"
  "ds_next (release_uds c st) = ds_next st" "ds_sessions (release_uds c st) = ds_sessions st"
  "ds_udsSize (release_uds c st) = ds_udsSize st"
  "ds_aliveCheckNcts (release_uds c st) = ds_aliveCheckNcts st"
  "ds_conns (release_uds c st) = (ds_conns st)(c := (ds_conns st c)\<lparr>udsBuf := None\<rparr>)"
  by (auto simp: release_uds_def split: option.splits)

text \<open>The object after \<open>Stop\<close>.\<close>

definition stopped :: "Connection \<Rightarrow> Connection" where
  "stopped k = k\<lparr>timerRefs := TimersNull, inBuf := None, udsBuf := None\<rparr>"

lemma Stop_sel [simp]:
  "ds_box (Stop E c st) = ds_box st" "ds_cfg (Stop E c st) = ds_cfg st"
  "ds_next (Stop E c st) = ds_next st" "ds_sessions (Stop E c st) = ds_sessions st"
  "ds_udsSize (Stop E c st) = ds_udsSize st"
  "ds_aliveCheckNcts (Stop E c st) = ds_aliveCheckNcts st"
  "ds_conns (Stop E c st) = (ds_conns st)(c := stopped (ds_conns st c))"
  by (auto simp: Stop_def Let_def stopped_def)

lemma stopped_sel [simp]:
  "cliSockRef (stopped k) = cliSockRef k" "connState (stopped k) = connState k"
  "testerSA (stopped k) = testerSA k" "entitySA (stopped k) = entitySA k"
  "raTesterSa (stopped k) = raTesterSa k" "connType (stopped k) = connType k"
  "routingConnectionPtr (stopped k) = routingConnectionPtr k" "inBuf (stopped k) = None"
  "udsBuf (stopped k) = None" "localIface (stopped k) = localIface k"
  "allAliveCheckFlag (stopped k) = allAliveCheckFlag k" "udsTotalLen (stopped k) = udsTotalLen k"
  "singleAliveCheckFlag (stopped k) = singleAliveCheckFlag k" "udsReceived (stopped k) = udsReceived k"
  by (simp_all add: stopped_def)

lemma DeleteConnection_sel [simp]:
  "ds_cfg (DeleteConnection E c st) = ds_cfg st" "ds_next (DeleteConnection E c st) = ds_next st"
  "ds_sessions (DeleteConnection E c st) = ds_sessions st"
  "ds_udsSize (DeleteConnection E c st) = ds_udsSize st"
  "ds_aliveCheckNcts (DeleteConnection E c st) = ds_aliveCheckNcts st"
  "ds_conns (DeleteConnection E c st) = (ds_conns st)(c := stopped (ds_conns st c))"
  by (auto simp: DeleteConnection_def Let_def split: option.splits)

lemma Stop_sock [simp]: "cliSockRef (conn_of (Stop E c st) d) = cliSockRef (conn_of st d)"
  by simp

lemma DeleteConnection_box_eq:
  "ds_box (DeleteConnection E c st) =
     (case find_index (\<lambda>d. cliSockRef (conn_of st c) = cliSockRef (conn_of st d)) (ds_box st) of
        None \<Rightarrow> ds_box st | Some i \<Rightarrow> swap_pop i (ds_box st))"
  unfolding DeleteConnection_def Let_def Stop_sel(1) IsSocketRefMatch_def Stop_sock
  by (simp split: option.split)

lemma DeleteConnection_sub:
  "mset (ds_box (DeleteConnection E c st)) \<subseteq># mset (ds_box st)"
  unfolding DeleteConnection_box_eq
  by (auto simp: mset_swap_pop dest!: find_index_Some split: option.split)

lemma DeleteConnection_box:
  assumes "box_ok st" "c \<in> set (ds_box st)"
  shows "mset (ds_box (DeleteConnection E c st)) = mset (ds_box st) - {#c#}"
proof -
  have "y = c" if "y \<in> set (ds_box st)" "cliSockRef (conn_of st c) = cliSockRef (conn_of st y)" for y
    using that assms unfolding box_ok_def inj_on_def by metis
  then obtain i where "find_index (\<lambda>d. cliSockRef (conn_of st c) = cliSockRef (conn_of st d)) (ds_box st) = Some i"
      "i < length (ds_box st)" "ds_box st ! i = c"
    using find_index_unique [OF assms(2), of "\<lambda>d. cliSockRef (conn_of st c) = cliSockRef (conn_of st d)"] by metis
  then show ?thesis
    unfolding DeleteConnection_box_eq using mset_swap_pop [of i "ds_box st"] by simp
qed

text \<open>A connection whose socket is not in the box: nothing is removed.\<close>

lemma DeleteConnection_other:
  assumes "cliSockRef (conn_of st c) \<notin> (\<lambda>d. cliSockRef (conn_of st d)) ` set (ds_box st)"
  shows "ds_box (DeleteConnection E c st) = ds_box st"
proof (cases "find_index (\<lambda>d. cliSockRef (conn_of st c) = cliSockRef (conn_of st d)) (ds_box st)")
  case (Some i)
  note find_index_Some [OF Some]
  then have "cliSockRef (conn_of st (ds_box st ! i)) \<in> (\<lambda>d. cliSockRef (conn_of st d)) ` set (ds_box st)"
    by (intro imageI nth_mem) (rule conjunct1)
  with assms show ?thesis using find_index_Some [OF Some] by simp
qed (simp add: DeleteConnection_box_eq)

end
