(* ===== verification/Doip_Routing.thy ===== *)
theory Doip_Routing
  imports Doip_State
begin

text \<open>
  Routing activation: the connection state machine of \<open>tafDoIPConnection.cpp\<close> with authentication
  and confirmation, the handler of routing activation requests, the alive checks and their
  timers, and the creation of a connection.
\<close>

section \<open>The connection state machine\<close>

definition ConfirmRoutingActivation ::
  "doip_env \<Rightarrow> u16 \<Rightarrow> u16 \<Rightarrow> doip_state \<Rightarrow> UserConfirmResult \<times> doip_state" where
  "ConfirmRoutingActivation E sa ta st =
     (case FindDoipSession st ta of
        None \<Rightarrow> (CONFIRM_REJECT, st)
      | Some s \<Rightarrow>
          if ses_userConfirm s
          then (ev_user_confirm E (ds_trace st) sa ta, emit (EvUserConfirm sa ta) st)
          else (CONFIRM_NO_NEED, st))"

text \<open>The response to a routing activation request on the socket of connection \<open>c\<close>.\<close>

definition send_ra_res ::
  "doip_env \<Rightarrow> conn \<Rightarrow> u16 \<Rightarrow> u16 \<Rightarrow> taf_doipRaResCode \<Rightarrow> doip_state \<Rightarrow> doip_state" where
  "send_ra_res E c equipLA entityLA code st =
     perform E (RoutingActivationRes (ds_cfg st) (tcp_link (cliSockRef (conn_of st c))) equipLA entityLA code 0) st"

text \<open>
  \<open>ConnectionStateMachine\<close>, \<open>CheckRoutingActivationAuthen\<close> and \<open>CheckRoutingActivationConfirm\<close>
  call each other; a call always moves the connection forward through its states.
\<close>

function ConnectionStateMachine :: "doip_env \<Rightarrow> conn \<Rightarrow> ConnectState \<Rightarrow> u32 \<Rightarrow> doip_state \<Rightarrow> doip_state"
  and CheckRoutingActivationAuthen :: "doip_env \<Rightarrow> conn \<Rightarrow> u32 \<Rightarrow> doip_state \<Rightarrow> doip_state"
  and CheckRoutingActivationConfirm :: "doip_env \<Rightarrow> conn \<Rightarrow> doip_state \<Rightarrow> doip_state" where
  "ConnectionStateMachine E c s authenInfo st =
     (let preConnState = connState (conn_of st c);
          st1 = modc c (\<lambda>k. k\<lparr>connState := s\<rparr>) st;
          k = conn_of st1 c in
      case s of
        STATE_INITIALIZED \<Rightarrow> emit (EvTimerStart c InitialTimer) st1
      | STATE_PENDING_FOR_AUTH \<Rightarrow> CheckRoutingActivationAuthen E c authenInfo st1
      | STATE_PENDING_FOR_CONF \<Rightarrow> CheckRoutingActivationConfirm E c st1
      | STATE_ROUTING_ACTIVE \<Rightarrow>
          ReportConnectionEvent (testerSA k) (entitySA k) TAF_DOIP_RESULT_SA_REGISTERED (localIface k) st1
      | STATE_FINALIZE \<Rightarrow>
          (let st2 = (if preConnState = STATE_ROUTING_ACTIVE
                      then ReportConnectionEvent (testerSA k) (entitySA k) TAF_DOIP_RESULT_SA_DEREGISTERED
                             (localIface k) st1
                      else st1) in
           DeleteConnection E c st2)
      | STATE_LISTEN \<Rightarrow> st1)"
| "CheckRoutingActivationAuthen E c authenInfo st =
     (if GetAuthEnableStatus (Some (ds_cfg st))
      then
        let vehicleAuthInfo = (case GetAuthInfo (Some (ds_cfg st)) of Inr a \<Rightarrow> a | Inl e \<Rightarrow> 0) in
        if authenInfo = vehicleAuthInfo \<or> 0 = vehicleAuthInfo
        then ConnectionStateMachine E c STATE_PENDING_FOR_CONF 0 st
        else
          let k = conn_of st c;
              st1 = send_ra_res E c (testerSA k) (entitySA k) RA_RES_MISSING_AUTHENTICATION st in
          ConnectionStateMachine E c STATE_FINALIZE 0 st1
      else ConnectionStateMachine E c STATE_PENDING_FOR_CONF 0 st)"
| "CheckRoutingActivationConfirm E c st =
     (let k = conn_of st c in
      case ConfirmRoutingActivation E (testerSA k) (entitySA k) st of (result, st1) \<Rightarrow>
      if result = CONFIRM_PASS
      then ConnectionStateMachine E c STATE_ROUTING_ACTIVE 0
             (send_ra_res E c (testerSA k) (entitySA k) RA_RES_ROUTING_SUCCESSFULLY_ACTIVATED st1)
      else if result = CONFIRM_NO_NEED
      then ConnectionStateMachine E c STATE_ROUTING_ACTIVE 0
             (send_ra_res E c (testerSA k) (entitySA k) RA_RES_ROUTING_SUCCESSFULLY_ACTIVATED st1)
      else ConnectionStateMachine E c STATE_FINALIZE 0
             (send_ra_res E c (testerSA k) (entitySA k) RA_RES_REJECT_CONFIRMATION st1))"
  by pat_completeness auto
termination
  by (relation "measure (\<lambda>x. case x of
      Inl (E, c, s, a, st) \<Rightarrow> (case s of STATE_PENDING_FOR_AUTH \<Rightarrow> 4 | STATE_PENDING_FOR_CONF \<Rightarrow> 2 | _ \<Rightarrow> 0)
    | Inr (Inl (E, c, a, st)) \<Rightarrow> 3
    | Inr (Inr (E, c, st)) \<Rightarrow> 1)") auto

declare ConnectionStateMachine.simps [simp del]
declare CheckRoutingActivationAuthen.simps [simp del]
declare CheckRoutingActivationConfirm.simps [simp del]

abbreviation Finalize :: "doip_env \<Rightarrow> conn \<Rightarrow> doip_state \<Rightarrow> doip_state" where
  "Finalize E c st \<equiv> ConnectionStateMachine E c STATE_FINALIZE 0 st"

section \<open>Header negative acknowledgement\<close>

text \<open>
  The loop of \<open>ReadAndDiscardMsg\<close>. The source gives it no bound: a peer whose reads succeed
  without bytes keeps it running.
\<close>

fun discard_loop :: "nat \<Rightarrow> doip_env \<Rightarrow> sock \<Rightarrow> nat \<Rightarrow> doip_state \<Rightarrow> doip_state mem" where
  "discard_loop 0 E s len st = Inl OutOfFuel"
| "discard_loop (Suc n) E s len st =
     (let want = (if len > TAF_DOIP_MAX_BUFFER_SIZE then TAF_DOIP_MAX_BUFFER_SIZE else len);
          r = ev_read E (ds_trace st) s want;
          st1 = emit (EvRead s want) st in
      case r of
        None \<Rightarrow> Inr st1
      | Some bs \<Rightarrow> if len - length bs > 0 then discard_loop n E s (len - length bs) st1 else Inr st1)"

definition ReadAndDiscardMsg :: "doip_env \<Rightarrow> conn \<Rightarrow> nat \<Rightarrow> doip_state \<Rightarrow> doip_state mem" where
  "ReadAndDiscardMsg E c len st =
     (if len = 0 then Inr st
      else
        let len' = (if len > TAF_DOIP_MAX_BUFFER_SIZE then TAF_DOIP_MAX_BUFFER_SIZE else len) in
        discard_loop (ev_fuel E) E (cliSockRef (conn_of st c)) len' st)"

definition RespondHeaderNegativeACK ::
  "doip_env \<Rightarrow> conn \<Rightarrow> taf_doipHeaderNACKCode \<Rightarrow> nat \<Rightarrow> doip_state \<Rightarrow> doip_state mem" where
  "RespondHeaderNegativeACK E c nackCode left st =
     (let st1 = perform E (HeaderNegativeACK (ds_cfg st) (tcp_link (cliSockRef (conn_of st c))) nackCode) st in
      if nackCode = HEADER_NACK_INCORRECT_PATTERN_FORMAT \<or> nackCode = HEADER_NACK_INVALID_PAYLOAD_LENGTH
      then Inr (Finalize E c st1)
      else ReadAndDiscardMsg E c left st1)"

section \<open>Alive checks\<close>

definition send_alive_req :: "doip_env \<Rightarrow> conn \<Rightarrow> doip_state \<Rightarrow> doip_state" where
  "send_alive_req E d st =
     perform E (AliveCheckReq (ds_cfg st) (tcp_link (cliSockRef (conn_of st d)))) st"

text \<open>A null \<open>connectionTmp\<close> is dereferenced by the code; its callers pass registered addresses.\<close>

definition PerformSigleAliveCheck :: "doip_env \<Rightarrow> conn \<Rightarrow> u16 \<Rightarrow> doip_state \<Rightarrow> doip_state mem" where
  "PerformSigleAliveCheck E c ta st =
     (case FindConnectionByLogicalAddr st ta of
        None \<Rightarrow> Inl NullDeref
      | Some d \<Rightarrow>
          if d = c then Inr st
          else if singleAliveCheckFlag (conn_of st d) then Inr st
          else
            let st1 = modc d (\<lambda>k. k\<lparr>singleAliveCheckFlag := True, routingConnectionPtr := Some c\<rparr>) st;
                st2 = send_alive_req E d st1 in
            Inr (emit (EvTimerStart d AliveCheckTimer) st2))"

fun all_alive_loop :: "doip_env \<Rightarrow> conn \<Rightarrow> conn list \<Rightarrow> doip_state \<Rightarrow> doip_state mem" where
  "all_alive_loop E c [] st = Inr st"
| "all_alive_loop E c (d # ds) st =
     (if IsConnectionRegitered (conn_of st d)
      then mbind (PerformSigleAliveCheck E c (GetLogicalTargetAddr (conn_of st d)) st) (\<lambda>st1.
        if allAliveCheckFlag (conn_of st1 d) then all_alive_loop E c ds st1
        else
          let st2 = modc d (\<lambda>k. k\<lparr>allAliveCheckFlag := True, routingConnectionPtr := Some c\<rparr>) st1;
              st3 = send_alive_req E d st2 in
          all_alive_loop E c ds (emit (EvTimerStart d AliveCheckTimer) st3))
      else all_alive_loop E c ds st)"

definition PerformAllAliveCheck :: "doip_env \<Rightarrow> conn \<Rightarrow> doip_state \<Rightarrow> doip_state mem" where
  "PerformAllAliveCheck E c st = all_alive_loop E c (ds_box st) st"

text \<open>The rejection of the connection that waits for the outcome of an alive check on \<open>c\<close>.\<close>

definition reject_routing ::
  "doip_env \<Rightarrow> conn \<Rightarrow> taf_doipRaResCode \<Rightarrow> doip_state \<Rightarrow> doip_state" where
  "reject_routing E c code st =
     (case routingConnectionPtr (conn_of st c) of
        None \<Rightarrow> st
      | Some r \<Rightarrow>
          if \<not> IsConnectionRegitered (conn_of st r)
          then Finalize E r (send_ra_res E r (raTesterSa (conn_of st r)) (entitySA (conn_of st r)) code st)
          else st)"

text \<open>\<open>payload\<close> is the position of the payload in the reception buffer \<open>buf\<close>, \<open>plen\<close> its announced
  length.\<close>

definition AliveCheckResHandler ::
  "doip_env \<Rightarrow> conn \<Rightarrow> byte list \<Rightarrow> nat \<Rightarrow> nat \<Rightarrow> doip_state \<Rightarrow> doip_state mem" where
  "AliveCheckResHandler E c buf payload plen st =
     (if plen \<noteq> TAF_DOIP_LOGICAL_ADDRESS_LENGTH
      then RespondHeaderNegativeACK E c HEADER_NACK_INVALID_PAYLOAD_LENGTH 0 st
      else mbind (rdn buf payload 2) (\<lambda>la.
        if of_be16 la \<noteq> testerSA (conn_of st c) then Inr st
        else
        let st1 = stop_timer E c AliveCheckTimer st in
        if \<not> allAliveCheckFlag (conn_of st1 c) \<and> \<not> singleAliveCheckFlag (conn_of st1 c) then Inr st1
        else
        let mcts = mcts_of st1;
            st2 = (if allAliveCheckFlag (conn_of st1 c)
                   then
                     let a = modc c (\<lambda>k. k\<lparr>allAliveCheckFlag := False\<rparr>) st1;
                         b = a\<lparr>ds_aliveCheckNcts := (ds_aliveCheckNcts a + 1) mod 2 ^ 32\<rparr> in
                     if ds_aliveCheckNcts b = mcts
                     then (reject_routing E c RA_RES_ALL_SOCKET_REGISTED_AND_ACTIVE b)\<lparr>ds_aliveCheckNcts := 0\<rparr>
                     else b
                   else st1) in
        if singleAliveCheckFlag (conn_of st2 c)
        then Inr (reject_routing E c RA_RES_SA_REGISTED_DIFFERENT_SOCKET
               (modc c (\<lambda>k. k\<lparr>singleAliveCheckFlag := False\<rparr>) st2))
        else Inr st2))"

section \<open>The routing activation request\<close>

text \<open>The exit \<open>errOut\<close>: a negative response, then the connection is finalized.\<close>

definition ra_errOut ::
  "doip_env \<Rightarrow> conn \<Rightarrow> u16 \<Rightarrow> u16 \<Rightarrow> taf_doipRaResCode \<Rightarrow> doip_state \<Rightarrow> doip_state" where
  "ra_errOut E c fromSa ourSa resCode st = Finalize E c (send_ra_res E c fromSa ourSa resCode st)"

text \<open>The decision that follows a well-formed request (lines 946 to 1031).\<close>

definition ra_decide :: "doip_env \<Rightarrow> conn \<Rightarrow> u16 \<Rightarrow> u16 \<Rightarrow> u32 \<Rightarrow> doip_state \<Rightarrow> doip_state mem" where
  "ra_decide E c fromSa ourSa oemReserved st =
     (let st1 = emit (EvTimerStop c InitialTimer) st;
          st2 = modc c (\<lambda>k. k\<lparr>authInfo := oemReserved\<rparr>) st1;
          registeredCnt = GetRegisteredConnectionNum st2;
          activate = (\<lambda>s. ConnectionStateMachine E c STATE_PENDING_FOR_AUTH oemReserved
                            (modc c (\<lambda>k. k\<lparr>testerSA := fromSa\<rparr>) s)) in
      if registeredCnt = 0 then Inr (activate st2)
      else if IsConnectionRegitered (conn_of st2 c)
      then
        if fromSa = testerSA (conn_of st2 c) then Inr (activate st2)
        else Inr (ra_errOut E c fromSa ourSa RA_RES_SA_DIFFERENT_ACTIVATED_SOCKET st2)
      else
        case FindConnectionByLogicalAddr st2 fromSa of
          Some d \<Rightarrow>
            if d \<noteq> c
            then
              if \<not> singleAliveCheckFlag (conn_of st2 d)
              then
                let st3 = modc d (\<lambda>k. k\<lparr>routingConnectionPtr := Some c\<rparr>) st2;
                    st4 = send_alive_req E d st3;
                    st5 = modc d (\<lambda>k. k\<lparr>singleAliveCheckFlag := True\<rparr>) st4 in
                Inr (emit (EvTimerStart d AliveCheckTimer) st5)
              else Inr st2
            else if registeredCnt = mcts_of st2 then PerformAllAliveCheck E c st2
            else Inr (activate st2)
        | None \<Rightarrow>
            if registeredCnt = mcts_of st2 then PerformAllAliveCheck E c st2
            else Inr (activate st2))"

definition RoutingActiveReqHandler ::
  "doip_env \<Rightarrow> conn \<Rightarrow> byte list \<Rightarrow> nat \<Rightarrow> nat \<Rightarrow> doip_state \<Rightarrow> doip_state mem" where
  "RoutingActiveReqHandler E c buf payload plen st =
     (if 7 \<noteq> plen \<and> 11 \<noteq> plen
      then RespondHeaderNegativeACK E c HEADER_NACK_INVALID_PAYLOAD_LENGTH 0 st
      else
      let ourSa = entitySA (conn_of st c) in
      mbind (rdn buf payload 2) (\<lambda>sa.
      let fromSa = of_be16 sa in
      if fromSa < 0x0E00 \<or> fromSa > 0x0FFF
      then Inr (ra_errOut E c fromSa ourSa RA_RES_UNKNOWN_SOURCE_ADDRESS st)
      else
      let st1 = modc c (\<lambda>k. k\<lparr>raTesterSa := fromSa\<rparr>) st in
      mbind (rd buf (payload + 2)) (\<lambda>ty.
      if ty \<ge> 0x02 \<and> ty \<le> 0xDF
      then Inr (ra_errOut E c fromSa ourSa RA_RES_UNSUPPORTED_RA_TYPE st1)
      else
      mbind (rdn buf (payload + 3) 4) (\<lambda>raReserved.
      mbind (if plen = 11 then rdn buf (payload + 7) 4 else Inr [0, 0, 0, 0]) (\<lambda>oem.
        ra_decide E c fromSa ourSa (of_be32 oem) st1)))))"

section \<open>Timers\<close>

text \<open>The timers carry the socket reference; the handler looks the connection up.\<close>

definition InitialTimerHandler :: "doip_env \<Rightarrow> sock \<Rightarrow> doip_state \<Rightarrow> doip_state" where
  "InitialTimerHandler E s st = (case FindConnectionBySocket st s of
       None \<Rightarrow> st | Some c \<Rightarrow> Finalize E c (emit (EvTimerStop c InitialTimer) st))"

definition GeneralTimerHandler :: "doip_env \<Rightarrow> sock \<Rightarrow> doip_state \<Rightarrow> doip_state" where
  "GeneralTimerHandler E s st = (case FindConnectionBySocket st s of
       None \<Rightarrow> st | Some c \<Rightarrow> Finalize E c (emit (EvTimerStop c GeneralTimer) st))"

definition AliveCheckTimerHandler :: "doip_env \<Rightarrow> sock \<Rightarrow> doip_state \<Rightarrow> doip_state" where
  "AliveCheckTimerHandler E s st = (case FindConnectionBySocket st s of
       None \<Rightarrow> st
     | Some c \<Rightarrow>
         let st1 = emit (EvTimerStop c AliveCheckTimer) st in
         if \<not> allAliveCheckFlag (conn_of st1 c) \<and> \<not> singleAliveCheckFlag (conn_of st1 c) then st1
         else
         let st2 = (if allAliveCheckFlag (conn_of st1 c)
                    then
                      let b = st1\<lparr>ds_aliveCheckNcts := (ds_aliveCheckNcts st1 + 1) mod 2 ^ 32\<rparr> in
                      if ds_aliveCheckNcts b = mcts_of b then b\<lparr>ds_aliveCheckNcts := 0\<rparr> else b
                    else st1);
             st3 = (case routingConnectionPtr (conn_of st2 c) of
                      None \<Rightarrow> st2
                    | Some r \<Rightarrow>
                        if \<not> IsConnectionRegitered (conn_of st2 r)
                        then ConnectionStateMachine E r STATE_PENDING_FOR_AUTH (authInfo (conn_of st2 r))
                               (modc r (\<lambda>k. k\<lparr>testerSA := raTesterSa k\<rparr>) st2)
                        else st2) in
         Finalize E c st3)"

section \<open>Creating a connection\<close>

definition new_Connection ::
  "doip_env \<Rightarrow> conn \<Rightarrow> sock \<Rightarrow> ConnectType \<Rightarrow> byte list \<Rightarrow> u16 \<Rightarrow> byte list \<Rightarrow> Connection" where
  "new_Connection E c s ty ip port iface =
     \<lparr>cliSockRef = s, allAliveCheckFlag = False, singleAliveCheckFlag = False,
      routingConnectionPtr = None, testerSA = ev_junk_sa E c InitialTimer,
      entitySA = ev_junk_sa E c GeneralTimer, raTesterSa = ev_junk_sa E c AliveCheckTimer,
      localIface = iface, remoteIp = ip, remotePort = port, connState = STATE_INITIALIZED,
      connType = ty, isConsuming = False, timerRefs = TimersUninit, authInfo = ev_junk_auth E c,
      inBuf = None, udsBuf = None, udsTotalLen = 0, udsReceived = 0\<rparr>"

definition empty_Buffer :: taf_doip_Buffer where
  "empty_Buffer = \<lparr>buf_data = replicate TAF_DOIP_MAX_BUFFER_SIZE 0, buf_dataSize = 0, buf_dataPos = 0\<rparr>"

text \<open>A timer with its interval, or the default where the configuration has none.\<close>

definition create_timer ::
  "conn \<Rightarrow> timer \<Rightarrow> taf_doip_Result + u32 \<Rightarrow> u32 \<Rightarrow> doip_state \<Rightarrow> doip_state" where
  "create_timer c t interval dflt st =
     emit (EvTimerCreate c t (case interval of Inr i \<Rightarrow> i | Inl e \<Rightarrow> dflt)) st"

definition Start :: "doip_env \<Rightarrow> conn \<Rightarrow> doip_state \<Rightarrow> taf_doip_Result \<times> doip_state" where
  "Start E c st =
     (let cfg = Some (ds_cfg st) in
      case GetEntityLogicalAddr cfg of
        Inl e \<Rightarrow> (TAF_DOIP_RESULT_UNKNOWN_SA, st)
      | Inr sourceAddr \<Rightarrow>
          let st1 = modc c (\<lambda>k. case connType k of
                        TYPE_SVR \<Rightarrow> k\<lparr>entitySA := sourceAddr\<rparr>
                      | TYPE_CLI \<Rightarrow> k\<lparr>testerSA := sourceAddr\<rparr>) st;
              st2 = modc c (\<lambda>k. k\<lparr>inBuf := Some empty_Buffer, timerRefs := TimersLive\<rparr>) st1;
              st3 = create_timer c InitialTimer (GetInitialInactivityTime cfg) 300000 st2;
              st4 = create_timer c GeneralTimer (GetGenInactivityTime cfg) 2000 st3;
              st5 = create_timer c AliveCheckTimer (GetAliveCheckTime cfg) 2000 st4 in
          if \<not> ev_socket_setup E (ds_trace st5) (cliSockRef (conn_of st5 c))
          then
            let st6 = emit (EvTimerDelete c InitialTimer) (emit (EvTimerDelete c GeneralTimer)
                        (emit (EvTimerDelete c AliveCheckTimer) st5));
                st7 = modc c (\<lambda>k. k\<lparr>inBuf := None, timerRefs := TimersDangling\<rparr>) (emit (EvReleaseIn c) st6) in
            (TAF_DOIP_RESULT_ERROR, st7)
          else
            let st6 = ConnectionStateMachine E c STATE_INITIALIZED 0 st5 in
            (TAF_DOIP_RESULT_OK, modc c (\<lambda>k. k\<lparr>isConsuming := False\<rparr>) st6))"

text \<open>The result of \<open>Start\<close> is not looked at; the connection is in the box before it starts.\<close>

definition ServerCreateConnection ::
  "doip_env \<Rightarrow> sock \<Rightarrow> byte list \<Rightarrow> u16 \<Rightarrow> byte list \<Rightarrow> doip_state \<Rightarrow> conn option \<times> doip_state" where
  "ServerCreateConnection E s ip port iface st =
     (if length (ds_box st) \<ge> mcts_of st then (None, st)
      else
      let c = ds_next st;
          st1 = st\<lparr>ds_conns := (ds_conns st)(c := new_Connection E c s TYPE_SVR ip port iface),
                   ds_next := c + 1, ds_box := ds_box st @ [c]\<rparr> in
      (Some c, snd (Start E c st1)))"

definition FindOrCreateConnection ::
  "doip_env \<Rightarrow> sock \<Rightarrow> byte list \<Rightarrow> u16 \<Rightarrow> byte list \<Rightarrow> doip_state \<Rightarrow> conn option \<times> doip_state" where
  "FindOrCreateConnection E s ip port iface st =
     (case FindConnectionBySocket st s of
        Some c \<Rightarrow> (Some c, st)
      | None \<Rightarrow> ServerCreateConnection E s ip port iface st)"

end
