(* ===== verification/Doip_Tcp.thy ===== *)
theory Doip_Tcp
  imports Doip_Routing
begin

text \<open>
  Reception over TCP: \<open>ReceiveTCPData\<close>, \<open>ConsumeTCPData\<close>, \<open>CheckDoipHeader\<close>, \<open>ProcessDoipMessage\<close>
  and the diagnostic messages of \<open>tafDoIPConnection.cpp\<close>, with \<open>InformUdsMessage\<close>,
  \<open>TransUdsMessage\<close> and \<open>RequestUdsMessage\<close> of \<open>tafDoIPCommunicationMgr.cpp\<close>. Numbers of type
  \<open>uint32_t\<close> are naturals reduced modulo \<open>2 ^ 32\<close> where the code can wrap.
\<close>

abbreviation u32n :: "nat \<Rightarrow> nat" where "u32n n \<equiv> n mod 2 ^ 32"

section \<open>Diagnostic messages\<close>

text \<open>
  \<open>InformUdsMessage\<close>: the message is queued to the UDS thread with the block that holds it. For
  an unknown target the block is released here.
\<close>

definition InformUdsMessage ::
  "doip_env \<Rightarrow> u16 \<Rightarrow> u16 \<Rightarrow> block \<times> byte list \<Rightarrow> nat \<Rightarrow> byte list \<Rightarrow> doip_state
     \<Rightarrow> taf_doip_Result \<times> doip_state" where
  "InformUdsMessage E sa ta blk len iface st =
     (if len = 0 then (TAF_DOIP_RESULT_PARAM_ERROR, st)
      else
      let sourceAddr = (case GetEntityLogicalAddr (Some (ds_cfg st)) of Inr a \<Rightarrow> a | Inl e \<Rightarrow> 0) in
      if IsFunctionalAddress (Some (ds_cfg st)) ta
      then (TAF_DOIP_RESULT_OK,
            emit (EvQueueIndication sa sourceAddr TA_FUNCTIONAL iface (fst blk) (take len (snd blk))) st)
      else if ta \<noteq> sourceAddr
      then (TAF_DOIP_RESULT_UNKNOWN_TA, emit (EvReleaseUds (fst blk)) st)
      else (TAF_DOIP_RESULT_OK,
            emit (EvQueueIndication sa ta TA_PHYSICAL iface (fst blk) (take len (snd blk))) st))"

text \<open>The exits \<open>errOut2\<close> and \<open>errOut1\<close>.\<close>

definition diag_errOut2 ::
  "conn \<Rightarrow> taf_doip_Result \<Rightarrow> doip_state \<Rightarrow> taf_doip_Result \<times> doip_state" where
  "diag_errOut2 c retCode st =
     (let st1 = modc c (\<lambda>k. k\<lparr>udsTotalLen := 0, udsReceived := 0\<rparr>) st in
      (retCode, release_uds c st1))"

definition diag_errOut1 ::
  "doip_env \<Rightarrow> conn \<Rightarrow> u16 \<Rightarrow> u16 \<Rightarrow> taf_doipDiagNACKCode \<Rightarrow> taf_doip_Result \<Rightarrow> doip_state
     \<Rightarrow> taf_doip_Result \<times> doip_state" where
  "diag_errOut1 E c ta sa nackCode retCode st =
     (let st1 = perform E (DiagNegativeACK (ds_cfg st) (tcp_link (cliSockRef (conn_of st c))) ta sa nackCode) st;
          st2 = (if nackCode = DIAGNOSTIC_NACK_INVALID_SA then Finalize E c st1 else st1) in
      diag_errOut2 c retCode st2)"

definition DiagnosticMsgSvrSecondHandler ::
  "doip_env \<Rightarrow> conn \<Rightarrow> doip_state \<Rightarrow> (taf_doip_Result \<times> doip_state) mem" where
  "DiagnosticMsgSvrSecondHandler E c st =
     (let k = conn_of st c in
      if udsTotalLen k \<le> TAF_DOIP_LOGICAL_ADDRESS_LENGTH * 2
      then mbind (RespondHeaderNegativeACK E c HEADER_NACK_INVALID_PAYLOAD_LENGTH 0 st) (\<lambda>st1.
             Inr (diag_errOut2 c TAF_DOIP_RESULT_MESSAGE_TOO_SHORT st1))
      else case udsBuf k of
        None \<Rightarrow> Inl NullDeref
      | Some blk \<Rightarrow>
          mbind (rdn (snd blk) 0 2) (\<lambda>sa.
          mbind (rdn (snd blk) 2 2) (\<lambda>ta.
          let sa' = of_be16 sa; ta' = of_be16 ta in
          if connState k \<noteq> STATE_ROUTING_ACTIVE
          then Inr (diag_errOut1 E c ta' sa' DIAGNOSTIC_NACK_INVALID_SA TAF_DOIP_RESULT_ROUTING_INACTIVE st)
          else if sa' \<noteq> testerSA k
          then Inr (diag_errOut1 E c ta' sa' DIAGNOSTIC_NACK_INVALID_SA TAF_DOIP_RESULT_UNKNOWN_SA st)
          else if udsTotalLen k > mds_of st
          then Inr (diag_errOut1 E c ta' sa' DIAGNOSTIC_NACK_DIAG_MSG_TOO_LARGE TAF_DOIP_RESULT_MESSAGE_TOO_LARGE st)
          else if udsTotalLen k > ds_udsSize st
          then Inr (diag_errOut1 E c ta' sa' DIAGNOSTIC_NACK_OUT_OF_MEMORY TAF_DOIP_RESULT_MESSAGE_TOO_LARGE st)
          else
            case InformUdsMessage E sa' ta' blk (udsTotalLen k) (localIface k) st of (ret, st1) \<Rightarrow>
            if ret = TAF_DOIP_RESULT_UNKNOWN_TA
            then Inr (diag_errOut1 E c ta' sa' DIAGNOSTIC_NACK_UNKNOWN_TA TAF_DOIP_RESULT_UNKNOWN_TA st1)
            else if ret \<noteq> TAF_DOIP_RESULT_OK
            then Inr (diag_errOut1 E c ta' sa' DIAGNOSTIC_NACK_TRANS_PROTO_ERROR TAF_DOIP_RESULT_TARGET_UNREACHABLE st1)
            else
              let st2 = modc c (\<lambda>k. k\<lparr>udsTotalLen := 0, udsReceived := 0, udsBuf := None\<rparr>) st1 in
              Inr (TAF_DOIP_RESULT_OK,
                perform E (DiagPositiveACK (ds_cfg st2) (tcp_link (cliSockRef (conn_of st2 c))) ta' sa') st2))))"

definition DiagnosticMsgCliSecondHandler ::
  "doip_env \<Rightarrow> conn \<Rightarrow> doip_state \<Rightarrow> (taf_doip_Result \<times> doip_state) mem" where
  "DiagnosticMsgCliSecondHandler E c st = Inr (TAF_DOIP_RESULT_OK, st)"

definition DiagnosticMsgSecondHandler ::
  "doip_env \<Rightarrow> conn \<Rightarrow> doip_state \<Rightarrow> (taf_doip_Result \<times> doip_state) mem" where
  "DiagnosticMsgSecondHandler E c st =
     (if connType (conn_of st c) = TYPE_SVR then DiagnosticMsgSvrSecondHandler E c st
      else DiagnosticMsgCliSecondHandler E c st)"

text \<open>\<open>le_mem_TryAlloc\<close>: a block of the size of the pool, with whatever content it has.\<close>

definition alloc_uds :: "doip_env \<Rightarrow> conn \<Rightarrow> doip_state \<Rightarrow> doip_state option" where
  "alloc_uds E c st =
     (case udsBuf (conn_of st c) of
        Some b \<Rightarrow> Some st
      | None \<Rightarrow>
          (case ev_try_alloc E (ds_trace st) of
             None \<Rightarrow> None
           | Some content \<Rightarrow>
               let b = ds_blocks st;
                   d = take (ds_udsSize st) (content @ replicate (ds_udsSize st) 0);
                   st1 = emit (EvAllocUds b) (st\<lparr>ds_blocks := b + 1\<rparr>) in
               Some (modc c (\<lambda>k. k\<lparr>udsBuf := Some (b, d), udsTotalLen := 0, udsReceived := 0\<rparr>) st1)))"

definition DiagnosticMsgFirstHandler ::
  "doip_env \<Rightarrow> conn \<Rightarrow> byte list \<Rightarrow> nat \<Rightarrow> nat \<Rightarrow> nat \<Rightarrow> doip_state
     \<Rightarrow> (taf_doip_Result \<times> doip_state) mem" where
  "DiagnosticMsgFirstHandler E c buf payload plen receivedLen st =
     (case alloc_uds E c st of
        None \<Rightarrow> Inr (TAF_DOIP_RESULT_OUT_OF_MEMORY, st)
      | Some st1 \<Rightarrow>
          (case udsBuf (conn_of st1 c) of
             None \<Rightarrow> Inl NullDeref
           | Some (b, d) \<Rightarrow>
               mbind (rdn buf payload (if plen > receivedLen then receivedLen else plen)) (\<lambda>bs.
               mbind (wrn d 0 bs) (\<lambda>d'.
               let st2 = modc c (\<lambda>k. k\<lparr>udsBuf := Some (b, d'), udsTotalLen := plen, udsReceived := receivedLen\<rparr>) st1 in
               if plen \<le> receivedLen \<or> receivedLen = ds_udsSize st2
               then DiagnosticMsgSecondHandler E c st2
               else Inr (TAF_DOIP_RESULT_OK, st2)))))"

text \<open>The end of \<open>ReceiveDiagMessage\<close> (lines 642 to 649): the message is complete, or the block is full.\<close>

definition diag_received :: "doip_env \<Rightarrow> conn \<Rightarrow> doip_state \<Rightarrow> (taf_doip_Result \<times> doip_state) mem" where
  "diag_received E c st =
     (let k = conn_of st c in
      if udsTotalLen k \<le> udsReceived k \<or> udsReceived k = ds_udsSize st
      then mbind (DiagnosticMsgSecondHandler E c st) (\<lambda>(r, st1). Inr (TAF_DOIP_RESULT_OK, st1))
      else Inr (TAF_DOIP_RESULT_OK, st))"

definition ReceiveDiagMessage ::
  "doip_env \<Rightarrow> conn \<Rightarrow> doip_state \<Rightarrow> (taf_doip_Result \<times> doip_state) mem" where
  "ReceiveDiagMessage E c st =
     (let st1 = emit (EvTimerRestart c GeneralTimer) st;
          k = conn_of st1 c in
      if udsTotalLen k > udsReceived k
      then
        let want = (if udsTotalLen k > ds_udsSize st1 then (ds_udsSize st1 + 2 ^ 64 - udsReceived k) mod 2 ^ 64
                    else udsTotalLen k - udsReceived k) in
        case udsBuf k of
          None \<Rightarrow> Inl NullDeref
        | Some (b, d) \<Rightarrow>
            let r = ev_read E (ds_trace st1) (cliSockRef k) want;
                st2 = emit (EvRead (cliSockRef k) want) st1 in
            (case r of
               None \<Rightarrow> Inr (TAF_DOIP_RESULT_NETWORK_ERROR, st2)
             | Some bs \<Rightarrow>
                 mbind (wrn d (udsReceived k) bs) (\<lambda>d'.
                   diag_received E c
                     (modc c (\<lambda>k. k\<lparr>udsBuf := Some (b, d'), udsReceived := u32n (udsReceived k + length bs)\<rparr>) st2)))
      else diag_received E c st1)"

section \<open>The header check\<close>

definition supported_version :: "byte \<Rightarrow> bool" where
  "supported_version v \<longleftrightarrow> v = 0x1 \<or> v = 0x2 \<or> v = 0x3 \<or> v = 0xFF"

text \<open>The checks in their order: the code of the negative acknowledgement, or \<open>None\<close>.\<close>

definition header_nack :: "ConnectType \<Rightarrow> nat \<Rightarrow> taf_doipHeader \<Rightarrow> taf_doipHeaderNACKCode option option" where
  "header_nack ty mds h =
     (if \<not> supported_version (protocolVer h) then Some (Some HEADER_NACK_INCORRECT_PATTERN_FORMAT)
      else if protocolVer h \<noteq> NOT (invProtocolVer h) then Some (Some HEADER_NACK_INCORRECT_PATTERN_FORMAT)
      else if ty = TYPE_SVR \<and> payloadType h \<notin> {TYPE_ROUTING_ACTIVE_REQUEST, TYPE_ALIVE_CHECK_REQUEST,
                TYPE_ALIVE_CHECK_RESPONSE, TYPE_DIAGNOSTIC_MESSAGE}
      then Some (Some HEADER_NACK_UNKNOWN_PAYLOAD_TYPE)
      else if ty = TYPE_CLI \<and> payloadType h \<notin> {TYPE_HEADER_NEGATIVE_ACK, TYPE_ROUTING_ACTIVE_RESPONSE,
                TYPE_ALIVE_CHECK_REQUEST, TYPE_ALIVE_CHECK_RESPONSE, TYPE_DIAGNOSTIC_MESSAGE,
                TYPE_DIAGNOSTIC_POSITIVE_ACK, TYPE_DIAGNOSTIC_NEGATIVE_ACK}
      then Some None
      else if unat (payloadLen h) > u32n (mds + 2 ^ 32 - TAF_DOIP_HEADER_GENERIC_LENGTH)
      then Some (Some HEADER_NACK_MESSAGE_TOO_LARGE)
      else if payloadType h \<noteq> TYPE_DIAGNOSTIC_MESSAGE \<and>
              unat (payloadLen h) > TAF_DOIP_MAX_BUFFER_SIZE - TAF_DOIP_HEADER_GENERIC_LENGTH
      then Some (Some HEADER_NACK_OUT_OF_MEMORY)
      else None)"

text \<open>\<open>Some None\<close> above is the error of a tester, which sends no acknowledgement.\<close>

definition CheckDoipHeader ::
  "doip_env \<Rightarrow> conn \<Rightarrow> taf_doipHeader \<Rightarrow> nat \<Rightarrow> doip_state \<Rightarrow> (taf_doip_Result \<times> doip_state) mem" where
  "CheckDoipHeader E c h dataSize st =
     (let ty = connType (conn_of st c) in
      case header_nack ty (mds_of st) h of
        None \<Rightarrow> Inr (TAF_DOIP_RESULT_OK, st)
      | Some None \<Rightarrow> Inr (TAF_DOIP_RESULT_HDR_ERROR, st)
      | Some (Some nackCode) \<Rightarrow>
          if ty = TYPE_CLI then Inr (TAF_DOIP_RESULT_HDR_ERROR, st)
          else
          let totalMsgLen = u32n (unat (payloadLen h) + TAF_DOIP_HEADER_GENERIC_LENGTH) in
          mbind (RespondHeaderNegativeACK E c nackCode
                   (if totalMsgLen > dataSize then totalMsgLen - dataSize else 0) st) (\<lambda>st1.
            Inr (TAF_DOIP_RESULT_HDR_ERROR, st1)))"

section \<open>Processing one message\<close>

text \<open>
  The reception buffer as \<open>ProcessDoipMessage\<close> sees it: the handlers keep a pointer to it, which
  dangles when the connection has released the buffer.
\<close>

definition the_buffer :: "conn \<Rightarrow> doip_state \<Rightarrow> taf_doip_Buffer mem" where
  "the_buffer c st = (case inBuf (conn_of st c) of None \<Rightarrow> Inl UseAfterRelease | Some b \<Rightarrow> Inr b)"

definition set_buffer :: "conn \<Rightarrow> taf_doip_Buffer \<Rightarrow> doip_state \<Rightarrow> doip_state" where
  "set_buffer c b = modc c (\<lambda>k. k\<lparr>inBuf := Some b\<rparr>)"

definition reset_buffer :: "taf_doip_Buffer \<Rightarrow> taf_doip_Buffer" where
  "reset_buffer b = b\<lparr>buf_dataSize := 0, buf_dataPos := 0\<rparr>"

text \<open>The end of \<open>ProcessDoipMessage\<close>: the message is taken from the buffer (lines 857 to 875).\<close>

definition advance_buffer :: "nat \<Rightarrow> taf_doip_Buffer \<Rightarrow> taf_doip_Buffer" where
  "advance_buffer plen b =
     (let total = u32n (plen + TAF_DOIP_HEADER_GENERIC_LENGTH) in
      if total > buf_dataSize b then reset_buffer b
      else if buf_dataSize b - total = 0 then b\<lparr>buf_dataSize := 0, buf_dataPos := 0\<rparr>
      else b\<lparr>buf_dataSize := buf_dataSize b - total, buf_dataPos := u32n (buf_dataPos b + total)\<rparr>)"

definition ProcessDoipMessage ::
  "doip_env \<Rightarrow> conn \<Rightarrow> u16 \<Rightarrow> nat \<Rightarrow> doip_state \<Rightarrow> (taf_doip_Result \<times> doip_state) mem" where
  "ProcessDoipMessage E c ptype plen st =
     mbind (the_buffer c st) (\<lambda>b.
     let payloadPos = buf_dataPos b + TAF_DOIP_HEADER_GENERIC_LENGTH;
         finish = (\<lambda>s. mbind (the_buffer c s) (\<lambda>b'.
           Inr (TAF_DOIP_RESULT_OK, set_buffer c (advance_buffer plen b') s))) in
     if ptype = TYPE_ROUTING_ACTIVE_REQUEST
     then
       mbind (RoutingActiveReqHandler E c (buf_data b) payloadPos plen st) (\<lambda>st1.
       if connState (conn_of st1 c) = STATE_FINALIZE then Inr (TAF_DOIP_RESULT_NO_SOCKET, st1)
       else mbind (the_buffer c st1) (\<lambda>b1.
         if buf_dataSize b1 \<noteq> u32n (plen + TAF_DOIP_HEADER_GENERIC_LENGTH)
         then Inr (TAF_DOIP_RESULT_OK, set_buffer c (reset_buffer b1) st1)
         else finish st1))
     else if ptype = TYPE_ALIVE_CHECK_REQUEST
     then finish (perform E (AliveCheckRes (ds_cfg st) (tcp_link (cliSockRef (conn_of st c)))
                               (testerSA (conn_of st c))) st)
     else if ptype = TYPE_ALIVE_CHECK_RESPONSE
     then mbind (AliveCheckResHandler E c (buf_data b) payloadPos plen st) finish
     else if ptype = TYPE_DIAGNOSTIC_MESSAGE
     then
       (if buf_dataSize b < TAF_DOIP_HEADER_GENERIC_LENGTH + 2 * TAF_DOIP_LOGICAL_ADDRESS_LENGTH
        then Inr (TAF_DOIP_RESULT_MESSAGE_TOO_SHORT, st)
        else mbind (DiagnosticMsgFirstHandler E c (buf_data b) payloadPos plen
                      (buf_dataSize b - TAF_DOIP_HEADER_GENERIC_LENGTH) st) (\<lambda>(ret, st1).
          if ret = TAF_DOIP_RESULT_OUT_OF_MEMORY then Inr (TAF_DOIP_RESULT_OUT_OF_MEMORY, st1)
          else if ret \<noteq> TAF_DOIP_RESULT_OK \<and> connState (conn_of st1 c) = STATE_FINALIZE
          then Inr (TAF_DOIP_RESULT_NO_SOCKET, st1)
          else finish st1))
     else finish st)"

section \<open>Consuming the reception buffer\<close>

abbreviation TAF_DOIP_BATCH_SIZE :: nat where "TAF_DOIP_BATCH_SIZE \<equiv> 5"

text \<open>What one pass of the loop leads to.\<close>

datatype consume_step = Again | Break | Return

definition stop_consuming :: "conn \<Rightarrow> doip_state \<Rightarrow> doip_state" where
  "stop_consuming c = modc c (\<lambda>k. k\<lparr>isConsuming := False\<rparr>)"

text \<open>The exits that reset the buffer; they reach it through the connection.\<close>

definition reset_and_return :: "conn \<Rightarrow> doip_state \<Rightarrow> (consume_step \<times> doip_state) mem" where
  "reset_and_return c st =
     (case inBuf (conn_of st c) of
        None \<Rightarrow> Inl NullDeref
      | Some b \<Rightarrow> Inr (Return, stop_consuming c (set_buffer c (reset_buffer b) st)))"

definition is_diag_type :: "u16 \<Rightarrow> bool" where
  "is_diag_type t \<longleftrightarrow> t = TYPE_DIAGNOSTIC_MESSAGE \<or> t = TYPE_DIAGNOSTIC_POSITIVE_ACK
     \<or> t = TYPE_DIAGNOSTIC_NEGATIVE_ACK"

definition consume_one :: "doip_env \<Rightarrow> conn \<Rightarrow> taf_doip_Buffer \<Rightarrow> doip_state \<Rightarrow> (consume_step \<times> doip_state) mem" where
  "consume_one E c b st =
     mbind (UnpackHeaderStruct (buf_data b) (buf_dataPos b)) (\<lambda>hdr.
     mbind (CheckDoipHeader E c hdr (buf_dataSize b) st) (\<lambda>(r1, st1).
     if r1 \<noteq> TAF_DOIP_RESULT_OK
     then (if connState (conn_of st1 c) = STATE_FINALIZE then Inr (Return, st1) else reset_and_return c st1)
     else
     mbind (ProcessDoipMessage E c (payloadType hdr) (unat (payloadLen hdr)) st1) (\<lambda>(r2, st2).
     if r2 = TAF_DOIP_RESULT_NO_SOCKET \<or> r2 = TAF_DOIP_RESULT_MESSAGE_TOO_SHORT
     then Inr (Return, stop_consuming c st2)
     else if is_diag_type (payloadType hdr) \<and> r2 = TAF_DOIP_RESULT_OUT_OF_MEMORY then Inr (Break, st2)
     else if r2 \<noteq> TAF_DOIP_RESULT_OK then reset_and_return c st2
     else if is_diag_type (payloadType hdr)
     then (case inBuf (conn_of st2 c) of
             None \<Rightarrow> Inl NullDeref
           | Some b2 \<Rightarrow>
               if buf_dataSize b2 = 0
               then Inr (Return, stop_consuming c (set_buffer c (b2\<lparr>buf_dataPos := 0\<rparr>) st2))
               else Inr (Again, st2))
     else Inr (Again, st2))))"

text \<open>
  The loop, with the messages of the batch that remain; the result tells whether the code after
  the loop is reached.
\<close>

fun consume_loop :: "nat \<Rightarrow> doip_env \<Rightarrow> conn \<Rightarrow> doip_state \<Rightarrow> (bool \<times> doip_state) mem" where
  "consume_loop n E c st =
     (case inBuf (conn_of st c) of
        None \<Rightarrow> Inl NullDeref
      | Some b \<Rightarrow>
          if buf_dataSize b < TAF_DOIP_HEADER_GENERIC_LENGTH then Inr (True, st)
          else (case n of
            0 \<Rightarrow> Inr (True, st)
          | Suc m \<Rightarrow>
              if connState (conn_of st c) = STATE_FINALIZE then Inr (False, st)
              else mbind (consume_one E c b st) (\<lambda>(r, st1).
                case r of Again \<Rightarrow> consume_loop m E c st1
                        | Break \<Rightarrow> Inr (True, st1)
                        | Return \<Rightarrow> Inr (False, st1))))"

declare consume_loop.simps [simp del]

definition ConsumeTCPData :: "doip_env \<Rightarrow> sock \<Rightarrow> doip_state \<Rightarrow> doip_state mem" where
  "ConsumeTCPData E s st =
     (case FindConnectionBySocket st s of
        None \<Rightarrow> Inr st
      | Some c \<Rightarrow>
          if inBuf (conn_of st c) = None then Inr st
          else mbind (consume_loop TAF_DOIP_BATCH_SIZE E c st) (\<lambda>(after, st1).
            if \<not> after then Inr st1
            else case inBuf (conn_of st1 c) of
              None \<Rightarrow> Inl NullDeref
            | Some b \<Rightarrow>
                if buf_dataSize b \<ge> TAF_DOIP_HEADER_GENERIC_LENGTH then Inr (emit (EvQueueConsume s) st1)
                else Inr (stop_consuming c st1)))"

section \<open>Receiving\<close>

abbreviation TAF_DOIP_MAX_MSG_LEN_EXCEPT_UDS :: nat where "TAF_DOIP_MAX_MSG_LEN_EXCEPT_UDS \<equiv> 41"

definition ReceiveTCPData ::
  "doip_env \<Rightarrow> conn \<Rightarrow> doip_state \<Rightarrow> (taf_doip_Result \<times> doip_state) mem" where
  "ReceiveTCPData E c st =
     (case inBuf (conn_of st c) of
        None \<Rightarrow> Inr (TAF_DOIP_RESULT_PARAM_ERROR, st)
      | Some b \<Rightarrow>
          let st1 = (if ev_timer_running E (ds_trace st) c GeneralTimer
                     then emit (EvTimerRestart c GeneralTimer) st else emit (EvTimerStart c GeneralTimer) st);
              room = u32n (TAF_DOIP_MAX_BUFFER_SIZE + 2 ^ 32 - u32n (buf_dataPos b + buf_dataSize b));
              b1 = (if room \<le> TAF_DOIP_MAX_MSG_LEN_EXCEPT_UDS then reset_buffer b else b);
              received = (if room \<le> TAF_DOIP_MAX_MSG_LEN_EXCEPT_UDS then TAF_DOIP_MAX_BUFFER_SIZE else room);
              wrPos = u32n (buf_dataPos b1 + buf_dataSize b1);
              s = cliSockRef (conn_of st1 c);
              r = ev_read E (ds_trace st1) s received;
              st2 = emit (EvRead s received) (set_buffer c b1 st1) in
          (case r of
             None \<Rightarrow> Inr (TAF_DOIP_RESULT_NETWORK_ERROR, st2)
           | Some bs \<Rightarrow>
               mbind (wrn (buf_data b1) wrPos bs) (\<lambda>d.
               let st3 = set_buffer c (b1\<lparr>buf_data := d, buf_dataSize := u32n (buf_dataSize b1 + length bs)\<rparr>) st2 in
               if \<not> isConsuming (conn_of st3 c)
               then Inr (TAF_DOIP_RESULT_OK,
                         emit (EvQueueConsume s) (modc c (\<lambda>k. k\<lparr>isConsuming := True\<rparr>) st3))
               else Inr (TAF_DOIP_RESULT_OK, st3))))"

abbreviation POLLIN :: u16 where "POLLIN \<equiv> 0x0001"
abbreviation POLLRDHUP :: u16 where "POLLRDHUP \<equiv> 0x2000"

definition SocketEventCallback :: "doip_env \<Rightarrow> sock \<Rightarrow> u16 \<Rightarrow> doip_state \<Rightarrow> doip_state mem" where
  "SocketEventCallback E s events st =
     (case FindConnectionBySocket st s of
        None \<Rightarrow> Inr st
      | Some c \<Rightarrow>
          if events AND POLLRDHUP \<noteq> 0 then Inr (Finalize E c st)
          else if events AND POLLIN \<noteq> 0
          then
            let k = conn_of st c in
            mbind (if udsTotalLen k > udsReceived k then ReceiveDiagMessage E c st else ReceiveTCPData E c st)
              (\<lambda>(r, st1). Inr st1)
          else Inr st)"

definition TcpDataSocketEventCallback ::
  "doip_env \<Rightarrow> (sock \<times> byte list \<times> u16) option \<Rightarrow> byte list \<Rightarrow> u16 \<Rightarrow> doip_state \<Rightarrow> doip_state" where
  "TcpDataSocketEventCallback E accepted iface events st =
     (if events AND POLLIN \<noteq> POLLIN then st
      else case accepted of
        None \<Rightarrow> st
      | Some (childSock, ip, port) \<Rightarrow> snd (FindOrCreateConnection E childSock ip port iface st))"

section \<open>The UDS thread and transmission\<close>

text \<open>
  The queued functions: \<open>IndicateUdsMessage\<close> hands a received message to the application and
  releases the block, \<open>IndicateConnectionEvent\<close> and \<open>ConfirmUserMessage\<close> report.
\<close>

definition IndicateUdsMessage ::
  "u16 \<Rightarrow> u16 \<Rightarrow> TaType \<Rightarrow> byte list \<Rightarrow> block \<Rightarrow> byte list \<Rightarrow> doip_state \<Rightarrow> doip_state" where
  "IndicateUdsMessage sa ta taType ifName b msg st =
     (let st1 = (case FindDoipSession st ta of
                   None \<Rightarrow> st
                 | Some s \<Rightarrow>
                     if ses_diagIndication s
                     then emit (EvIndication sa ta taType ifName
                            (Some (drop (2 * TAF_DOIP_LOGICAL_ADDRESS_LENGTH) msg)) TAF_DOIP_RESULT_OK) st
                     else st) in
      emit (EvReleaseUds b) st1)"

definition IndicateConnectionEvent ::
  "u16 \<Rightarrow> u16 \<Rightarrow> byte list \<Rightarrow> taf_doip_Result \<Rightarrow> doip_state \<Rightarrow> doip_state" where
  "IndicateConnectionEvent sa ta ifName rgistResult st =
     (case FindDoipSession st ta of
        None \<Rightarrow> st
      | Some s \<Rightarrow>
          if ses_diagIndication s then emit (EvIndication sa ta TA_PHYSICAL ifName None rgistResult) st else st)"

definition ConfirmUserMessage :: "u16 \<Rightarrow> u16 \<Rightarrow> TaType \<Rightarrow> doip_state \<Rightarrow> doip_state" where
  "ConfirmUserMessage sa ta taType st =
     (case FindDoipSession st sa of
        None \<Rightarrow> st
      | Some s \<Rightarrow> if ses_diagConfirm s then emit (EvDiagConfirm sa ta taType TAF_DOIP_RESULT_OK) st else st)"

text \<open>\<open>TransUdsMessage\<close> builds the diagnostic message in a block of the pool and queues it.\<close>

definition TransUdsMessage ::
  "doip_env \<Rightarrow> u16 \<Rightarrow> u16 \<Rightarrow> TaType \<Rightarrow> byte list \<Rightarrow> doip_state \<Rightarrow> (taf_doip_Result \<times> doip_state) mem" where
  "TransUdsMessage E sa ta taType msg st =
     (if msg = [] then Inr (TAF_DOIP_RESULT_PARAM_ERROR, st)
      else if FindDoipSession st sa = None then Inr (TAF_DOIP_RESULT_UNKNOWN_SA, st)
      else case ev_try_alloc E (ds_trace st) of
        None \<Rightarrow> Inr (TAF_DOIP_RESULT_OUT_OF_MEMORY, st)
      | Some content \<Rightarrow>
          let b = ds_blocks st;
              d = take (ds_udsSize st) (content @ replicate (ds_udsSize st) 0);
              st1 = emit (EvAllocUds b) (st\<lparr>ds_blocks := b + 1\<rparr>);
              head = PackGenericHeader (ds_cfg st1) TYPE_DIAGNOSTIC_MESSAGE
                       (of_nat (length msg + 2 * TAF_DOIP_LOGICAL_ADDRESS_LENGTH)) in
          mbind (wrn d 0 head) (\<lambda>d1.
          mbind (wrn d1 8 (be16 sa)) (\<lambda>d2.
          mbind (wrn d2 10 (be16 ta)) (\<lambda>d3.
          mbind (wrn d3 12 msg) (\<lambda>d4.
            Inr (TAF_DOIP_RESULT_OK,
              emit (EvQueueConfirm sa ta taType)
                (emit (EvQueueRequest sa ta b (take (12 + length msg) d4)) st1)))))))"

definition RequestUdsMessage ::
  "doip_env \<Rightarrow> u16 \<Rightarrow> block \<Rightarrow> byte list \<Rightarrow> doip_state \<Rightarrow> doip_state" where
  "RequestUdsMessage E ta b msg st =
     (case FindConnectionByLogicalAddr st ta of
        None \<Rightarrow> emit (EvReleaseUds b) st
      | Some c \<Rightarrow> emit (EvReleaseUds b) (snd (SendDiagMessage E c msg st)))"

end
