(* ===== verification/Doip_Inv.thy ===== *)
theory Doip_Inv
  imports Doip_Tcp
begin

text \<open>
  The invariant of the TCP side and its preservation by every operation: the box holds distinct
  live connections with distinct sockets, at most as many as configured; a connection that is
  being activated has a tester address in the range that \<open>RoutingActiveReqHandler\<close> accepts; the
  reception buffers have their size and their positions inside it.
\<close>

section \<open>The invariant\<close>

definition valid_sa :: "u16 \<Rightarrow> bool" where
  "valid_sa sa \<longleftrightarrow> 0x0E00 \<le> sa \<and> sa \<le> 0x0FFF"

definition buf_ok :: "taf_doip_Buffer \<Rightarrow> bool" where
  "buf_ok b \<longleftrightarrow> length (buf_data b) = TAF_DOIP_MAX_BUFFER_SIZE
     \<and> buf_dataPos b + buf_dataSize b \<le> TAF_DOIP_MAX_BUFFER_SIZE"

definition activating :: "Connection \<Rightarrow> bool" where
  "activating k \<longleftrightarrow> connState k = STATE_PENDING_FOR_AUTH \<or> connState k = STATE_PENDING_FOR_CONF
     \<or> connState k = STATE_ROUTING_ACTIVE"

definition conn_ok :: "nat \<Rightarrow> Connection \<Rightarrow> bool" where
  "conn_ok usize k \<longleftrightarrow> connType k = TYPE_SVR \<and> (activating k \<longrightarrow> valid_sa (testerSA k))
     \<and> (\<forall>b. inBuf k = Some b \<longrightarrow> buf_ok b) \<and> (\<forall>b d. udsBuf k = Some (b, d) \<longrightarrow> length d = usize)
     \<and> udsReceived k \<le> usize"

definition live :: "Connection \<Rightarrow> bool" where
  "live k \<longleftrightarrow> connState k \<noteq> STATE_FINALIZE \<and> (udsTotalLen k > udsReceived k \<longrightarrow> udsBuf k \<noteq> None)"

definition wf :: "doip_state \<Rightarrow> bool" where
  "wf st \<longleftrightarrow> box_ok st \<and> length (ds_box st) \<le> mcts_of st \<and> TAF_DOIP_MAX_BUFFER_SIZE \<le> ds_udsSize st
     \<and> (\<forall>c<ds_next st. conn_ok (ds_udsSize st) (conn_of st c))
     \<and> (\<forall>c\<in>set (ds_box st). live (conn_of st c))
     \<and> (\<forall>c<ds_next st. \<forall>r. routingConnectionPtr (conn_of st c) = Some r
          \<longrightarrow> r < ds_next st \<and> valid_sa (raTesterSa (conn_of st r)))"

named_theorems wf_intros \<open>operations that keep the invariant\<close>

interpretation wf: untraced wf
  by unfold_locales (simp add: wf_def box_ok_def mcts_of_def)

lemmas wf_ops = wf.untraced_ops
declare wf_ops [simp]

lemma wfD:
  assumes "wf st"
  shows wf_box: "box_ok st" and wf_len: "length (ds_box st) \<le> mcts_of st"
    and wf_usize: "TAF_DOIP_MAX_BUFFER_SIZE \<le> ds_udsSize st"
    and wf_conn: "c < ds_next st \<Longrightarrow> conn_ok (ds_udsSize st) (conn_of st c)"
    and wf_live: "c \<in> set (ds_box st) \<Longrightarrow> live (conn_of st c)"
    and wf_in_box: "c \<in> set (ds_box st) \<Longrightarrow> c < ds_next st"
    and wf_ptr: "c < ds_next st \<Longrightarrow> routingConnectionPtr (conn_of st c) = Some r
          \<Longrightarrow> r < ds_next st \<and> valid_sa (raTesterSa (conn_of st r))"
  using assms by (auto simp: wf_def box_ok_def)

text \<open>The change of one connection, possibly with members of the box removed.\<close>

lemma wf_change:
  assumes "wf st" "ds_cfg st' = ds_cfg st" "ds_next st' = ds_next st" "ds_udsSize st' = ds_udsSize st"
    and sub: "mset (ds_box st') \<subseteq># mset (ds_box st)"
    and conns: "ds_conns st' = (ds_conns st)(c := k)"
    and k: "c < ds_next st \<Longrightarrow> conn_ok (ds_udsSize st) k" "cliSockRef k = cliSockRef (conn_of st c)"
      "valid_sa (raTesterSa (conn_of st c)) \<Longrightarrow> valid_sa (raTesterSa k)"
      "c \<in> set (ds_box st') \<Longrightarrow> live k"
      "\<And>r. c < ds_next st \<Longrightarrow> routingConnectionPtr k = Some r \<Longrightarrow> routingConnectionPtr (conn_of st c) \<noteq> Some r
         \<Longrightarrow> r < ds_next st \<and> valid_sa (raTesterSa (if r = c then k else conn_of st r))"
  shows "wf st'"
proof -
  note sub' = mset_sub_list [OF sub]
  have sock: "cliSockRef (conn_of st' d) = cliSockRef (conn_of st d)" for d
    using conns k(2) by simp
  have box: "box_ok st'"
    unfolding box_ok_def sock
    using sub' wf_box [OF assms(1)] assms(3) by (auto simp: box_ok_def intro: inj_on_subset)
  have ra: "valid_sa (raTesterSa (conn_of st d)) \<Longrightarrow> valid_sa (raTesterSa (conn_of st' d))" for d
    using conns k(3) by (cases "d = c") simp_all
  have ptr: "r < ds_next st' \<and> valid_sa (raTesterSa (conn_of st' r))"
    if "d < ds_next st'" "routingConnectionPtr (conn_of st' d) = Some r" for d r
  proof (cases "routingConnectionPtr (conn_of st d) = Some r")
    case True
    then show ?thesis using wf_ptr [OF assms(1)] that(1) ra assms(3) by simp
  next
    case False
    then have "d = c" using that(2) conns by (cases "d = c") auto
    then show ?thesis using False k(5) [of r] that assms(3) conns by (auto split: if_splits)
  qed
  have lv: "live (conn_of st' d)" if "d \<in> set (ds_box st')" for d
    using that sub'(1) wf_live [OF assms(1)] k(4) conns by (cases "d = c") auto
  have ok: "conn_ok (ds_udsSize st') (conn_of st' d)" if "d < ds_next st'" for d
    using that wf_conn [OF assms(1)] k(1) conns assms(3,4) by (cases "d = c") auto
  have len: "length (ds_box st') \<le> mcts_of st'"
    using sub'(2) wf_len [OF assms(1)] mcts_of_cong [OF assms(2)] by simp
  have us: "TAF_DOIP_MAX_BUFFER_SIZE \<le> ds_udsSize st'"
    using wf_usize [OF assms(1)] assms(4) by simp
  show ?thesis unfolding wf_def using box len us ok lv ptr by blast
qed

lemma wf_modc [wf_intros]:
  assumes "wf st" "c < ds_next st"
    and "conn_ok (ds_udsSize st) (f (conn_of st c))" "cliSockRef (f (conn_of st c)) = cliSockRef (conn_of st c)"
    and "valid_sa (raTesterSa (conn_of st c)) \<Longrightarrow> valid_sa (raTesterSa (f (conn_of st c)))"
    and "c \<in> set (ds_box st) \<Longrightarrow> live (f (conn_of st c))"
    and "\<And>r. routingConnectionPtr (f (conn_of st c)) = Some r \<Longrightarrow> routingConnectionPtr (conn_of st c) \<noteq> Some r
         \<Longrightarrow> r < ds_next st \<and> valid_sa (raTesterSa (if r = c then f (conn_of st c) else conn_of st r))"
  shows "wf (modc c f st)"
  by (rule wf_change [OF assms(1), where c = c and k = "f (conn_of st c)"])
    (use assms in simp_all)

section \<open>The end of a connection\<close>

lemma Finalize_eq:
  "Finalize E c st =
     (let st1 = modc c (\<lambda>k. k\<lparr>connState := STATE_FINALIZE\<rparr>) st; k = conn_of st1 c in
      DeleteConnection E c
        (if connState (conn_of st c) = STATE_ROUTING_ACTIVE
         then ReportConnectionEvent (testerSA k) (entitySA k) TAF_DOIP_RESULT_SA_DEREGISTERED (localIface k) st1
         else st1))"
  by (simp add: ConnectionStateMachine.simps Let_def)

text \<open>The object after it was finalized.\<close>

definition finalized :: "Connection \<Rightarrow> Connection" where
  "finalized k = stopped (k\<lparr>connState := STATE_FINALIZE\<rparr>)"

lemma finalized_sel [simp]:
  "connState (finalized k) = STATE_FINALIZE" "cliSockRef (finalized k) = cliSockRef k"
  "testerSA (finalized k) = testerSA k" "entitySA (finalized k) = entitySA k"
  "raTesterSa (finalized k) = raTesterSa k" "connType (finalized k) = connType k"
  "routingConnectionPtr (finalized k) = routingConnectionPtr k" "inBuf (finalized k) = None"
  "udsBuf (finalized k) = None" "udsReceived (finalized k) = udsReceived k"
  by (simp_all add: finalized_def)

lemma Finalize_sel [simp]:
  "ds_cfg (Finalize E c st) = ds_cfg st" "ds_next (Finalize E c st) = ds_next st"
  "ds_sessions (Finalize E c st) = ds_sessions st" "ds_udsSize (Finalize E c st) = ds_udsSize st"
  "ds_aliveCheckNcts (Finalize E c st) = ds_aliveCheckNcts st"
  "ds_conns (Finalize E c st) = (ds_conns st)(c := finalized (ds_conns st c))"
  by (auto simp: Finalize_eq Let_def finalized_def)

lemma DeleteConnection_box_cong:
  assumes "ds_box s = ds_box t" "\<And>d. cliSockRef (conn_of s d) = cliSockRef (conn_of t d)"
  shows "ds_box (DeleteConnection E c s) = ds_box (DeleteConnection E c t)"
  unfolding DeleteConnection_box_eq assms ..

lemma Finalize_ds_box: "ds_box (Finalize E c st) = ds_box (DeleteConnection E c st)"
  unfolding Finalize_eq Let_def
  by (rule DeleteConnection_box_cong; cases "connState (conn_of st c) = STATE_ROUTING_ACTIVE"; simp)

lemma Finalize_sub: "mset (ds_box (Finalize E c st)) \<subseteq># mset (ds_box st)"
  unfolding Finalize_ds_box by (rule DeleteConnection_sub)

lemma Finalize_box:
  "box_ok st \<Longrightarrow> c \<in> set (ds_box st) \<Longrightarrow> mset (ds_box (Finalize E c st)) = mset (ds_box st) - {#c#}"
  unfolding Finalize_ds_box by (rule DeleteConnection_box)

lemma Finalize_not_in:
  assumes "box_ok st"
  shows "c \<notin> set (ds_box (Finalize E c st))"
proof (cases "c \<in> set (ds_box st)")
  case True
  then have "count (mset (ds_box st)) c = 1"
    using assms by (simp add: box_ok_def distinct_count_atmost_1)
  then have "c \<notin># mset (ds_box (Finalize E c st))"
    unfolding Finalize_box [OF assms True] by (simp add: in_diff_count)
  then show ?thesis by simp
next
  case False
  then show ?thesis using mset_sub_list(1) [OF Finalize_sub, of E c st] by auto
qed

lemma wf_Finalize [wf_intros]:
  assumes "wf st"
  shows "wf (Finalize E c st)"
proof (rule wf_change [OF assms, where c = c and k = "finalized (conn_of st c)"])
  show "conn_ok (ds_udsSize st) (finalized (conn_of st c))" if "c < ds_next st"
    using wf_conn [OF assms that] by (simp add: conn_ok_def activating_def)
  show "live (finalized (conn_of st c))" if "c \<in> set (ds_box (Finalize E c st))"
    using that Finalize_not_in [OF wf_box [OF assms]] by simp
qed (simp_all add: Finalize_sub)

section \<open>Activation\<close>

lemma send_ra_res_sel [simp]:
  "ds_conns (send_ra_res E c q l r st) = ds_conns st" "ds_box (send_ra_res E c q l r st) = ds_box st"
  "ds_cfg (send_ra_res E c q l r st) = ds_cfg st" "ds_next (send_ra_res E c q l r st) = ds_next st"
  "ds_sessions (send_ra_res E c q l r st) = ds_sessions st"
  "ds_udsSize (send_ra_res E c q l r st) = ds_udsSize st"
  "ds_aliveCheckNcts (send_ra_res E c q l r st) = ds_aliveCheckNcts st"
  "wf (send_ra_res E c q l r st) = wf st"
  by (simp_all add: send_ra_res_def)

lemma ConfirmRoutingActivation_sel:
  assumes "ConfirmRoutingActivation E sa ta st = (r, st')"
  shows "ds_conns st' = ds_conns st" "ds_box st' = ds_box st" "ds_cfg st' = ds_cfg st"
    "ds_next st' = ds_next st" "ds_sessions st' = ds_sessions st" "ds_udsSize st' = ds_udsSize st"
    "ds_aliveCheckNcts st' = ds_aliveCheckNcts st" "wf st' = wf st"
  using assms by (auto simp: ConfirmRoutingActivation_def split: option.splits if_splits)

lemma wf_set_state [wf_intros]:
  assumes "wf st" "c < ds_next st" "s \<noteq> STATE_FINALIZE"
    and "s \<in> {STATE_PENDING_FOR_AUTH, STATE_PENDING_FOR_CONF, STATE_ROUTING_ACTIVE}
         \<Longrightarrow> valid_sa (testerSA (conn_of st c))"
  shows "wf (modc c (\<lambda>k. k\<lparr>connState := s\<rparr>) st)"
proof (rule wf_modc [OF assms(1,2)])
  show "conn_ok (ds_udsSize st) ((conn_of st c)\<lparr>connState := s\<rparr>)"
    using wf_conn [OF assms(1,2)] assms(4) by (auto simp: conn_ok_def activating_def)
  show "live ((conn_of st c)\<lparr>connState := s\<rparr>)" if "c \<in> set (ds_box st)"
    using wf_live [OF assms(1) that] assms(3) by (simp add: live_def)
qed simp_all

text \<open>The states after each of the three calls, with what they keep.\<close>

lemma Activate_eq:
  "ConnectionStateMachine E c STATE_ROUTING_ACTIVE a st =
     ReportConnectionEvent (testerSA (conn_of st c)) (entitySA (conn_of st c)) TAF_DOIP_RESULT_SA_REGISTERED
       (localIface (conn_of st c)) (modc c (\<lambda>k. k\<lparr>connState := STATE_ROUTING_ACTIVE\<rparr>) st)"
  by (simp add: ConnectionStateMachine.simps Let_def)

text \<open>
  An activation ends in one of two ways, and changes nothing else: the connection is active, or it
  is finalized and out of the box.
\<close>

definition activation_frame :: "doip_env \<Rightarrow> conn \<Rightarrow> doip_state \<Rightarrow> doip_state \<Rightarrow> bool" where
  "activation_frame E c st st' \<longleftrightarrow>
     ds_cfg st' = ds_cfg st \<and> ds_next st' = ds_next st \<and> ds_sessions st' = ds_sessions st
     \<and> ds_udsSize st' = ds_udsSize st \<and> ds_aliveCheckNcts st' = ds_aliveCheckNcts st
     \<and> (ds_box st' = ds_box st
          \<and> ds_conns st' = (ds_conns st)(c := (ds_conns st c)\<lparr>connState := STATE_ROUTING_ACTIVE\<rparr>)
        \<or> ds_box st' = ds_box (DeleteConnection E c st)
          \<and> ds_conns st' = (ds_conns st)(c := finalized (ds_conns st c)))"

lemma finalized_state [simp]: "finalized (k\<lparr>connState := s\<rparr>) = finalized k"
  by (simp add: finalized_def)

lemma activation_frame_start:
  assumes "activation_frame E c s st'"
    and "ds_cfg s = ds_cfg st" "ds_next s = ds_next st" "ds_sessions s = ds_sessions st"
    and "ds_udsSize s = ds_udsSize st" "ds_aliveCheckNcts s = ds_aliveCheckNcts st" "ds_box s = ds_box st"
    and "ds_conns s = (ds_conns st)(c := (ds_conns st c)\<lparr>connState := x\<rparr>)"
  shows "activation_frame E c st st'"
proof -
  have "ds_box (DeleteConnection E c s) = ds_box (DeleteConnection E c st)"
    by (rule DeleteConnection_box_cong) (simp_all add: assms)
  then show ?thesis using assms by (auto simp: activation_frame_def)
qed

lemma activation_frame_same:
  assumes "activation_frame E c s st'"
    and "ds_cfg s = ds_cfg st" "ds_next s = ds_next st" "ds_sessions s = ds_sessions st"
    and "ds_udsSize s = ds_udsSize st" "ds_aliveCheckNcts s = ds_aliveCheckNcts st" "ds_box s = ds_box st"
    and "ds_conns s = ds_conns st"
  shows "activation_frame E c st st'"
  by (rule activation_frame_start [OF assms(1-7), where x = "connState (ds_conns st c)"]) (simp add: assms)

lemma activation_frame_active: "activation_frame E c st (ConnectionStateMachine E c STATE_ROUTING_ACTIVE a st)"
  by (simp add: activation_frame_def Activate_eq)

lemma activation_frame_final: "activation_frame E c st (Finalize E c st)"
  by (simp add: activation_frame_def Finalize_ds_box)

lemma activation_frame_confirm: "activation_frame E c st (CheckRoutingActivationConfirm E c st)"
proof -
  obtain r st1 where r: "ConfirmRoutingActivation E (testerSA (conn_of st c)) (entitySA (conn_of st c)) st = (r, st1)"
    by fastforce
  note sel = ConfirmRoutingActivation_sel [OF r]
  show ?thesis
    unfolding CheckRoutingActivationConfirm.simps Let_def r prod.case
    by (cases r; simp; rule activation_frame_same [OF activation_frame_active]
        activation_frame_same [OF activation_frame_final]; simp add: sel)
qed

lemma activation_frame_conf: "activation_frame E c st (ConnectionStateMachine E c STATE_PENDING_FOR_CONF a st)"
  unfolding ConnectionStateMachine.simps [of E c STATE_PENDING_FOR_CONF] Let_def ConnectState.case
  by (rule activation_frame_start [OF activation_frame_confirm]) simp_all

lemma activation_frame_authen: "activation_frame E c st (CheckRoutingActivationAuthen E c a st)"
  unfolding CheckRoutingActivationAuthen.simps Let_def
  by (auto intro: activation_frame_conf activation_frame_same [OF activation_frame_final])

lemma activation_frame_auth: "activation_frame E c st (ConnectionStateMachine E c STATE_PENDING_FOR_AUTH a st)"
  unfolding ConnectionStateMachine.simps [of E c STATE_PENDING_FOR_AUTH] Let_def ConnectState.case
  by (rule activation_frame_start [OF activation_frame_authen]) simp_all

lemma activation_frame_sel:
  assumes "activation_frame E c st st'"
  shows "ds_cfg st' = ds_cfg st" "ds_next st' = ds_next st" "ds_udsSize st' = ds_udsSize st"
    "ds_sessions st' = ds_sessions st" "ds_aliveCheckNcts st' = ds_aliveCheckNcts st"
    "mset (ds_box st') \<subseteq># mset (ds_box st)" "d \<noteq> c \<Longrightarrow> conn_of st' d = conn_of st d"
    "routingConnectionPtr (conn_of st' d) = routingConnectionPtr (conn_of st d)"
    "cliSockRef (conn_of st' d) = cliSockRef (conn_of st d)"
    "raTesterSa (conn_of st' d) = raTesterSa (conn_of st d)"
    "testerSA (conn_of st' d) = testerSA (conn_of st d)"
    "entitySA (conn_of st' d) = entitySA (conn_of st d)"
  using assms DeleteConnection_sub [of E c st] by (auto simp: activation_frame_def)

lemma wf_activation:
  assumes "wf st" "c < ds_next st" "valid_sa (testerSA (conn_of st c))" "activation_frame E c st st'"
  shows "wf st'"
proof -
  consider "ds_conns st' = (ds_conns st)(c := (ds_conns st c)\<lparr>connState := STATE_ROUTING_ACTIVE\<rparr>)" "ds_box st' = ds_box st"
    | "ds_conns st' = (ds_conns st)(c := finalized (ds_conns st c))" "ds_box st' = ds_box (DeleteConnection E c st)"
    using assms(4) by (auto simp: activation_frame_def)
  then show ?thesis
  proof cases
    case 1
    have "wf (modc c (\<lambda>k. k\<lparr>connState := STATE_ROUTING_ACTIVE\<rparr>) st)"
      using assms(1-3) by (intro wf_set_state) simp_all
    then show ?thesis
      using 1 activation_frame_sel(1-3) [OF assms(4)] by (simp add: wf_def box_ok_def mcts_of_def)
  next
    case 2
    have "wf (Finalize E c st)" using assms(1) by (rule wf_Finalize)
    then show ?thesis
      using 2 activation_frame_sel(1-3) [OF assms(4)] by (simp add: wf_def box_ok_def mcts_of_def Finalize_ds_box)
  qed
qed

section \<open>Operations of the TCP side\<close>

text \<open>What no operation on existing connections changes.\<close>

definition keeps :: "doip_state \<Rightarrow> doip_state \<Rightarrow> bool" where
  "keeps st st' \<longleftrightarrow> ds_cfg st' = ds_cfg st \<and> ds_next st' = ds_next st \<and> ds_udsSize st' = ds_udsSize st
     \<and> ds_sessions st' = ds_sessions st \<and> mset (ds_box st') \<subseteq># mset (ds_box st)
     \<and> (\<forall>d. cliSockRef (conn_of st' d) = cliSockRef (conn_of st d))"

lemma keeps_refl [simp]: "keeps st st"
  by (simp add: keeps_def)

lemma keeps_trans [trans]: "keeps a b \<Longrightarrow> keeps b c \<Longrightarrow> keeps a c"
  by (auto simp: keeps_def)

lemma keeps_next: "keeps st st' \<Longrightarrow> ds_next st' = ds_next st"
  by (simp add: keeps_def)

interpretation keeps: untraced "keeps st" for st
  by unfold_locales (simp add: keeps_def)

lemmas keeps_ops = keeps.untraced_ops
declare keeps_ops [simp]

lemma keeps_modc [simp]:
  "cliSockRef (f (conn_of s c)) = cliSockRef (conn_of s c) \<Longrightarrow> keeps st (modc c f s) = keeps st s"
  by (auto simp: keeps_def)

lemma keeps_send_ra_res [simp]: "keeps st (send_ra_res E c q l r s) = keeps st s"
  by (simp add: send_ra_res_def)

lemma keeps_Finalize: "keeps st s \<Longrightarrow> keeps st (Finalize E c s)"
  using Finalize_sub [of E c s] by (auto simp: keeps_def intro: subset_mset.trans)

lemma keeps_activation: "activation_frame E c st st' \<Longrightarrow> keeps st st'"
  using activation_frame_sel [of E c st st'] by (simp add: keeps_def)

text \<open>An operation that keeps the invariant.\<close>

definition safe_step :: "doip_state \<Rightarrow> doip_state \<Rightarrow> bool" where
  "safe_step st st' \<longleftrightarrow> wf st' \<and> keeps st st'"

lemma safe_refl: "wf st \<Longrightarrow> safe_step st st"
  by (simp add: safe_step_def)

lemma safe_trans: "safe_step a b \<Longrightarrow> safe_step b c \<Longrightarrow> safe_step a c"
  by (auto simp: safe_step_def intro: keeps_trans)

interpretation safe: untraced "safe_step st" for st
  by unfold_locales (simp add: safe_step_def keeps_def wf_def box_ok_def mcts_of_def)

lemmas safe_ops = safe.untraced_ops
declare safe_ops [simp]

lemma safe_send_ra_res [simp]: "safe_step st (send_ra_res E c q l r s) = safe_step st s"
  by (simp add: send_ra_res_def)

lemma safe_send_alive [simp]: "safe_step st (send_alive_req E d s) = safe_step st s"
  by (simp add: send_alive_req_def)

lemma send_alive_sel [simp]:
  "ds_conns (send_alive_req E d st) = ds_conns st" "ds_box (send_alive_req E d st) = ds_box st"
  "ds_cfg (send_alive_req E d st) = ds_cfg st" "ds_next (send_alive_req E d st) = ds_next st"
  "ds_aliveCheckNcts (send_alive_req E d st) = ds_aliveCheckNcts st"
  "ds_udsSize (send_alive_req E d st) = ds_udsSize st"
  by (simp_all add: send_alive_req_def)

lemma safe_Finalize: "safe_step st s \<Longrightarrow> safe_step st (Finalize E c s)"
  by (simp add: safe_step_def wf_Finalize keeps_Finalize)

lemma safe_modc:
  assumes "safe_step st s" "wf (modc c f s)" "cliSockRef (f (conn_of s c)) = cliSockRef (conn_of s c)"
  shows "safe_step st (modc c f s)"
  using assms by (simp add: safe_step_def)

lemma safe_ncts: "safe_step st (s\<lparr>ds_aliveCheckNcts := n\<rparr>) = safe_step st s"
  by (simp add: safe_step_def keeps_def wf_def box_ok_def mcts_of_def)

lemma wf_blocks: "wf (s\<lparr>ds_blocks := n\<rparr>) = wf s"
  by (simp add: wf_def box_ok_def mcts_of_def)

lemma safe_blocks: "safe_step st (s\<lparr>ds_blocks := n\<rparr>) = safe_step st s"
  by (simp add: safe_step_def wf_blocks) (simp add: keeps_def)

text \<open>Updates of the flags and pointers of the alive check.\<close>

lemma safe_flags:
  assumes "safe_step st s" "c < ds_next s"
    and f: "\<And>k. conn_ok u (f k) = conn_ok u k" "\<And>k. live (f k) = live k" "\<And>k. cliSockRef (f k) = cliSockRef k"
      "\<And>k. raTesterSa (f k) = raTesterSa k"
    and "\<And>r. routingConnectionPtr (f (conn_of s c)) = Some r \<Longrightarrow> routingConnectionPtr (conn_of s c) = Some r
          \<or> r < ds_next s \<and> valid_sa (raTesterSa (conn_of s r))"
    and "u = ds_udsSize s"
  shows "safe_step st (modc c f s)"
proof (rule safe_modc [OF assms(1)])
  have w: "wf s" using assms(1) by (simp add: safe_step_def)
  show "wf (modc c f s)"
  proof (rule wf_modc [OF w assms(2)])
    show "live (f (conn_of s c))" if "c \<in> set (ds_box s)" using wf_live [OF w that] f by simp
    show "conn_ok (ds_udsSize s) (f (conn_of s c))" using wf_conn [OF w assms(2)] f assms(8) by simp
  qed (use assms(7) f in \<open>auto\<close>)
qed (simp add: f)

lemma conn_ok_flags [simp]:
  "conn_ok u (k\<lparr>allAliveCheckFlag := b\<rparr>) = conn_ok u k" "conn_ok u (k\<lparr>singleAliveCheckFlag := b\<rparr>) = conn_ok u k"
  "conn_ok u (k\<lparr>routingConnectionPtr := p\<rparr>) = conn_ok u k" "conn_ok u (k\<lparr>authInfo := a\<rparr>) = conn_ok u k"
  "conn_ok u (k\<lparr>isConsuming := b\<rparr>) = conn_ok u k" "conn_ok u (k\<lparr>raTesterSa := sa\<rparr>) = conn_ok u k"
  by (simp_all add: conn_ok_def activating_def)

lemma live_flags [simp]:
  "live (k\<lparr>allAliveCheckFlag := b\<rparr>) = live k" "live (k\<lparr>singleAliveCheckFlag := b\<rparr>) = live k"
  "live (k\<lparr>routingConnectionPtr := p\<rparr>) = live k" "live (k\<lparr>authInfo := a\<rparr>) = live k"
  "live (k\<lparr>isConsuming := b\<rparr>) = live k" "live (k\<lparr>raTesterSa := sa\<rparr>) = live k"
  "live (k\<lparr>testerSA := sa\<rparr>) = live k"
  by (simp_all add: live_def)

lemma discard_loop_safe:
  "discard_loop n E s len st1 = Inr st' \<Longrightarrow> safe_step st st1 \<Longrightarrow> safe_step st st'"
  by (induction n E s len st1 rule: discard_loop.induct)
    (auto simp: Let_def split: option.splits if_splits)

lemma ReadAndDiscardMsg_safe:
  "ReadAndDiscardMsg E c len st1 = Inr st' \<Longrightarrow> safe_step st st1 \<Longrightarrow> safe_step st st'"
  by (auto simp: ReadAndDiscardMsg_def Let_def intro: discard_loop_safe split: if_splits)

lemma RespondHeaderNegativeACK_safe:
  assumes "RespondHeaderNegativeACK E c code left st1 = Inr st'" "safe_step st st1"
  shows "safe_step st st'"
proof (cases "code = HEADER_NACK_INCORRECT_PATTERN_FORMAT \<or> code = HEADER_NACK_INVALID_PAYLOAD_LENGTH")
  case True
  then show ?thesis using assms by (auto simp: RespondHeaderNegativeACK_def Let_def intro!: safe_Finalize)
next
  case False
  then show ?thesis
    using assms by (auto simp: RespondHeaderNegativeACK_def Let_def intro: ReadAndDiscardMsg_safe)
qed

lemma PerformSigleAliveCheck_safe:
  assumes "PerformSigleAliveCheck E c ta s = Inr st'" "safe_step st s"
    and "c < ds_next s" "valid_sa (raTesterSa (conn_of s c))"
  shows "safe_step st st' \<and> ds_next st' = ds_next s \<and> raTesterSa (conn_of st' c) = raTesterSa (conn_of s c)"
proof (cases "FindConnectionByLogicalAddr s ta")
  case None
  then show ?thesis using assms(1) by (simp add: PerformSigleAliveCheck_def)
next
  case (Some d)
  have w: "wf s" using assms(2) by (simp add: safe_step_def)
  have d: "d < ds_next s" using FindConnectionByLogicalAddr_Some [OF Some] wf_in_box [OF w] by simp
  have "safe_step st (modc d (\<lambda>k. k\<lparr>singleAliveCheckFlag := True, routingConnectionPtr := Some c\<rparr>) s)"
    by (rule safe_flags [OF assms(2) d]) (use assms in auto)
  then show ?thesis
    using assms Some by (auto simp: PerformSigleAliveCheck_def Let_def split: if_splits)
qed

lemma all_alive_loop_safe:
  assumes "all_alive_loop E c ds s = Inr st'" "safe_step st s" "set ds \<subseteq> {..<ds_next s}"
    and "c < ds_next s" "valid_sa (raTesterSa (conn_of s c))"
  shows "safe_step st st'"
  using assms
proof (induction ds arbitrary: s)
  case (Cons d ds)
  show ?case
  proof (cases "IsConnectionRegitered (conn_of s d)")
    case False
    then show ?thesis using Cons.prems by (intro Cons.IH [of s]) simp_all
  next
    case True
    obtain s1 where s1: "PerformSigleAliveCheck E c (GetLogicalTargetAddr (conn_of s d)) s = Inr s1"
      using Cons.prems(1) True by auto
    note safe1 = PerformSigleAliveCheck_safe [OF s1 Cons.prems(2,4,5)]
    let ?s2 = "modc d (\<lambda>k. k\<lparr>allAliveCheckFlag := True, routingConnectionPtr := Some c\<rparr>) s1"
    have "safe_step st ?s2"
      by (rule safe_flags [OF conjunct1 [OF safe1], where u = "ds_udsSize s1"]) (use safe1 Cons.prems in auto)
    then show ?thesis
    proof (cases "allAliveCheckFlag (conn_of s1 d)")
      case all: True
      then show ?thesis using safe1 Cons.prems s1 True by (intro Cons.IH [of s1]) simp_all
    next
      case all: False
      then have "all_alive_loop E c ds (emit (EvTimerStart d AliveCheckTimer) (send_alive_req E d ?s2)) = Inr st'"
        using Cons.prems(1) s1 True by (simp add: Let_def)
      then show ?thesis
        by (rule Cons.IH) (use \<open>safe_step st ?s2\<close> safe1 Cons.prems in auto)
    qed
  qed
qed simp

lemma PerformAllAliveCheck_safe:
  assumes "PerformAllAliveCheck E c s = Inr st'" "safe_step st s" "c < ds_next s" "valid_sa (raTesterSa (conn_of s c))"
  shows "safe_step st st'"
  using all_alive_loop_safe [of E c "ds_box s" s st' st] assms wf_in_box [of s]
  by (auto simp: PerformAllAliveCheck_def safe_step_def)

lemma reject_routing_safe: "safe_step st s \<Longrightarrow> safe_step st (reject_routing E c code s)"
  by (auto simp: reject_routing_def safe_Finalize split: option.split)

lemma safe_step_next: "safe_step st s \<Longrightarrow> ds_next s = ds_next st"
  by (simp add: safe_step_def keeps_def)

lemma AliveCheckResHandler_safe:
  assumes "AliveCheckResHandler E c buf payload plen st = Inr st'" "wf st" "c < ds_next st"
  shows "safe_step st st'"
proof (cases "plen = TAF_DOIP_LOGICAL_ADDRESS_LENGTH")
  case False
  then show ?thesis
    using assms by (auto simp: AliveCheckResHandler_def intro: RespondHeaderNegativeACK_safe safe_refl)
next
  case True
  have all: "safe_step st (modc c (\<lambda>k. k\<lparr>allAliveCheckFlag := False\<rparr>) (stop_timer E c AliveCheckTimer st))"
    by (rule safe_flags [where u = "ds_udsSize (stop_timer E c AliveCheckTimer st)"]) (use assms safe_refl in auto)
  have one: "safe_step st (modc c (\<lambda>k. k\<lparr>singleAliveCheckFlag := False\<rparr>) s)" if "safe_step st s" for s
    by (rule safe_flags [OF that, where u = "ds_udsSize s"]) (use assms safe_step_next [OF that] in auto)
  show ?thesis
    using assms True
    by (auto simp: AliveCheckResHandler_def Let_def safe_refl split: if_splits
        intro!: reject_routing_safe one simp: safe_ncts all)
qed

lemma ra_errOut_safe: "safe_step st s \<Longrightarrow> safe_step st (ra_errOut E c q l code s)"
  by (simp add: ra_errOut_def safe_Finalize)

text \<open>Taking over the tester address of the request, and the activation.\<close>

lemma activation_safe:
  assumes "safe_step st s" "c < ds_next s" "valid_sa sa"
  shows "safe_step st (ConnectionStateMachine E c STATE_PENDING_FOR_AUTH a (modc c (\<lambda>k. k\<lparr>testerSA := sa\<rparr>) s))"
proof -
  let ?s1 = "modc c (\<lambda>k. k\<lparr>testerSA := sa\<rparr>) s"
  have w: "wf s" using assms(1) by (simp add: safe_step_def)
  have ok: "conn_ok (ds_udsSize s) ((conn_of s c)\<lparr>testerSA := sa\<rparr>)"
    using wf_conn [OF w assms(2)] assms(3) by (simp add: conn_ok_def activating_def)
  have w1: "wf ?s1"
    by (rule wf_modc [OF w assms(2)]) (use ok wf_live [OF w] in simp_all)
  have k1: "keeps st ?s1" using assms(1) by (simp add: safe_step_def)
  note fr = activation_frame_auth [of E c ?s1 a]
  show ?thesis
    using wf_activation [OF w1 _ _ fr] keeps_trans [OF k1 keeps_activation [OF fr]] assms(2,3)
    by (simp add: safe_step_def)
qed

lemma ra_decide_safe:
  assumes "ra_decide E c fromSa ourSa oem st = Inr st'" "safe_step st0 st" "c < ds_next st"
    and "valid_sa fromSa" "valid_sa (raTesterSa (conn_of st c))"
  shows "safe_step st0 st'"
proof -
  let ?s2 = "modc c (\<lambda>k. k\<lparr>authInfo := oem\<rparr>) (emit (EvTimerStop c InitialTimer) st)"
  have s2: "safe_step st0 ?s2"
    by (rule safe_flags [where u = "ds_udsSize st"]) (use assms in auto)
  have w: "wf ?s2" using s2 by (simp add: safe_step_def)
  note act = activation_safe [OF s2 _ assms(4), of c E oem]
  have all: "safe_step st0 s" if "PerformAllAliveCheck E c ?s2 = Inr s" for s
    by (rule PerformAllAliveCheck_safe [OF that s2]) (use assms in simp_all)
  have one: "safe_step st0 (emit (EvTimerStart d AliveCheckTimer)
       (modc d (\<lambda>k. k\<lparr>singleAliveCheckFlag := True\<rparr>) (send_alive_req E d
         (modc d (\<lambda>k. k\<lparr>routingConnectionPtr := Some c\<rparr>) ?s2))))"
    if "FindConnectionByLogicalAddr ?s2 fromSa = Some d" for d
  proof -
    have d: "d < ds_next ?s2" using FindConnectionByLogicalAddr_Some [OF that] wf_in_box [OF w] by blast
    have s3: "safe_step st0 (modc d (\<lambda>k. k\<lparr>routingConnectionPtr := Some c\<rparr>) ?s2)"
      by (rule safe_flags [OF s2 d, where u = "ds_udsSize ?s2"]) (use assms in auto)
    show ?thesis
      by (simp, rule safe_flags [where u = "ds_udsSize ?s2"]) (use s3 d in auto)
  qed
  show ?thesis
    using assms(1,3) act all one s2 ra_errOut_safe [OF s2]
    by (auto simp: ra_decide_def Let_def split: option.splits if_splits)
qed

lemma RoutingActiveReqHandler_safe:
  assumes "RoutingActiveReqHandler E c buf payload plen st = Inr st'" "wf st" "c < ds_next st"
  shows "safe_step st st'"
proof (cases "plen = 7 \<or> plen = 11")
  case False
  then show ?thesis
    using assms by (auto simp: RoutingActiveReqHandler_def intro: RespondHeaderNegativeACK_safe safe_refl)
next
  case True
  then obtain la where la: "rdn buf payload 2 = Inr la"
    using assms(1) by (auto simp: RoutingActiveReqHandler_def Let_def)
  let ?sa = "of_be16 la"
  show ?thesis
  proof (cases "?sa < 0x0E00 \<or> ?sa > 0x0FFF")
    case True
    then show ?thesis
      using assms \<open>plen = 7 \<or> plen = 11\<close> la safe_refl [OF assms(2)]
      by (auto simp: RoutingActiveReqHandler_def Let_def intro!: ra_errOut_safe)
  next
    case False
    then have v: "valid_sa ?sa" by (auto simp: valid_sa_def not_less)
    let ?s1 = "modc c (\<lambda>k. k\<lparr>raTesterSa := ?sa\<rparr>) st"
    have w1: "wf ?s1"
      by (rule wf_modc [OF assms(2,3)])
        (use v wf_conn [OF assms(2,3)] wf_live [OF assms(2)] in auto)
    have s1: "safe_step st ?s1" using w1 by (simp add: safe_step_def)
    have dec: "safe_step st s" if "ra_decide E c ?sa q oem ?s1 = Inr s" for s q oem
      by (rule ra_decide_safe [OF that s1]) (use assms(3) v in simp_all)
    show ?thesis
      using assms(1) True la False ra_errOut_safe [OF s1]
      by (auto simp: RoutingActiveReqHandler_def Let_def split: if_splits intro: dec)
  qed
qed

section \<open>Timers and new connections\<close>

lemma InitialTimerHandler_safe: "wf st \<Longrightarrow> safe_step st (InitialTimerHandler E s st)"
  by (auto simp: InitialTimerHandler_def safe_refl intro!: safe_Finalize split: option.split)

lemma GeneralTimerHandler_safe: "wf st \<Longrightarrow> safe_step st (GeneralTimerHandler E s st)"
  by (auto simp: GeneralTimerHandler_def safe_refl intro!: safe_Finalize split: option.split)

lemma AliveCheckTimerHandler_safe:
  assumes "wf st"
  shows "safe_step st (AliveCheckTimerHandler E s st)"
proof (cases "FindConnectionBySocket st s")
  case None
  then show ?thesis using assms by (simp add: AliveCheckTimerHandler_def safe_refl)
next
  case (Some c)
  let ?s1 = "emit (EvTimerStop c AliveCheckTimer) st"
  let ?b = "?s1\<lparr>ds_aliveCheckNcts := (ds_aliveCheckNcts ?s1 + 1) mod 2 ^ 32\<rparr>"
  let ?s2 = "if allAliveCheckFlag (conn_of ?s1 c)
             then if ds_aliveCheckNcts ?b = mcts_of ?b then ?b\<lparr>ds_aliveCheckNcts := 0\<rparr> else ?b else ?s1"
  have c: "c < ds_next st" using FindConnectionBySocket_Some [OF Some] wf_in_box [OF assms] by blast
  have s2: "safe_step st ?s2" using safe_refl [OF assms] by (simp add: safe_ncts split: if_split)
  have w2: "wf ?s2" using s2 by (simp add: safe_step_def)
  have n2: "ds_next ?s2 = ds_next st" "conn_of ?s2 = conn_of st" by (simp_all split: if_split)
  have act: "safe_step st (ConnectionStateMachine E r STATE_PENDING_FOR_AUTH a
       (modc r (\<lambda>k. k\<lparr>testerSA := raTesterSa k\<rparr>) ?s2))"
    if r: "routingConnectionPtr (conn_of st c) = Some r" for r a
  proof -
    have "r < ds_next ?s2" "valid_sa (raTesterSa (conn_of ?s2 r))"
      using wf_ptr [OF assms c r] n2 by simp_all
    then have "safe_step st (ConnectionStateMachine E r STATE_PENDING_FOR_AUTH a
       (modc r (\<lambda>k. k\<lparr>testerSA := raTesterSa (conn_of ?s2 r)\<rparr>) ?s2))"
      by (rule activation_safe [OF s2])
    then show ?thesis by (simp add: modc_def)
  qed
  show ?thesis
    unfolding AliveCheckTimerHandler_def Some option.case Let_def
    using s2 act n2 safe_refl [OF assms]
    by (auto intro!: safe_Finalize split: option.split simp del: safe_ncts)
qed

lemma new_Connection_sel [simp]:
  "cliSockRef (new_Connection E c s ty ip port i) = s" "connType (new_Connection E c s ty ip port i) = ty"
  "connState (new_Connection E c s ty ip port i) = STATE_INITIALIZED"
  "inBuf (new_Connection E c s ty ip port i) = None" "udsBuf (new_Connection E c s ty ip port i) = None"
  "routingConnectionPtr (new_Connection E c s ty ip port i) = None"
  "udsTotalLen (new_Connection E c s ty ip port i) = 0" "udsReceived (new_Connection E c s ty ip port i) = 0"
  by (simp_all add: new_Connection_def)

lemma buf_ok_empty: "buf_ok empty_Buffer"
  by (simp add: buf_ok_def empty_Buffer_def)

text \<open>The fields a change must respect when it touches neither the routing pointer nor the socket.\<close>

lemma wf_modc_simple:
  assumes "wf st" "c < ds_next st"
    and "conn_ok (ds_udsSize st) (conn_of st c) \<Longrightarrow> conn_ok (ds_udsSize st) (f (conn_of st c))"
    and "live (conn_of st c) \<Longrightarrow> live (f (conn_of st c))"
    and "cliSockRef (f (conn_of st c)) = cliSockRef (conn_of st c)"
    and "raTesterSa (f (conn_of st c)) = raTesterSa (conn_of st c)"
    and "routingConnectionPtr (f (conn_of st c)) = routingConnectionPtr (conn_of st c)"
  shows "wf (modc c f st)"
  by (rule wf_modc [OF assms(1,2)]) (use assms wf_conn [OF assms(1,2)] wf_live [OF assms(1)] in auto)

lemma wf_create_timer [simp]: "wf (create_timer c t i d st) = wf st"
  by (simp add: create_timer_def)

lemma create_timer_sel [simp]:
  "ds_conns (create_timer c t i d st) = ds_conns st" "ds_next (create_timer c t i d st) = ds_next st"
  "ds_box (create_timer c t i d st) = ds_box st" "ds_cfg (create_timer c t i d st) = ds_cfg st"
  "ds_udsSize (create_timer c t i d st) = ds_udsSize st"
  by (simp_all add: create_timer_def)

lemma wf_Start:
  assumes "wf st" "c < ds_next st" "connState (conn_of st c) \<noteq> STATE_FINALIZE"
  shows "wf (snd (Start E c st))"
proof (cases "GetEntityLogicalAddr (Some (ds_cfg st))")
  case (Inl e)
  then show ?thesis using assms(1) by (simp add: Start_def)
next
  case (Inr sourceAddr)
  have ty: "connType (conn_of st c) = TYPE_SVR" using wf_conn [OF assms(1,2)] by (simp add: conn_ok_def)
  let ?st2 = "modc c (\<lambda>k. k\<lparr>inBuf := Some empty_Buffer, timerRefs := TimersLive\<rparr>)
     (modc c (\<lambda>k. case connType k of TYPE_SVR \<Rightarrow> k\<lparr>entitySA := sourceAddr\<rparr> | TYPE_CLI \<Rightarrow> k\<lparr>testerSA := sourceAddr\<rparr>) st)"
  let ?k = "(conn_of st c)\<lparr>entitySA := sourceAddr, inBuf := Some empty_Buffer, timerRefs := TimersLive\<rparr>"
  have eq: "?st2 = modc c (\<lambda>k. ?k) st" by (simp add: modc_def ty)
  have w2: "wf ?st2"
    unfolding eq by (rule wf_modc_simple [OF assms(1,2)])
      (auto simp: conn_ok_def activating_def live_def buf_ok_empty)
  have c2: "conn_of ?st2 c = ?k" by (simp add: ty)
  have fail: "wf (modc c (\<lambda>k. k\<lparr>inBuf := None, timerRefs := TimersDangling\<rparr>) s)"
    if "wf s" "c < ds_next s" for s
    by (rule wf_modc_simple [OF that]) (auto simp: conn_ok_def activating_def live_def)
  have init: "wf (ConnectionStateMachine E c STATE_INITIALIZED 0 s)"
    if "wf s" "c < ds_next s" for s
    using that wf_set_state [of s c STATE_INITIALIZED] by (simp add: ConnectionStateMachine.simps Let_def)
  have nx: "ds_next (ConnectionStateMachine E c STATE_INITIALIZED 0 s) = ds_next s" for s
    by (simp add: ConnectionStateMachine.simps Let_def)
  have stop: "wf (modc c (\<lambda>k. k\<lparr>isConsuming := False\<rparr>) s)" if "wf s" "c < ds_next s" for s
    by (rule wf_modc_simple [OF that]) auto
  show ?thesis
    unfolding Start_def Let_def Inr sum.case
    using w2 assms(2) by (auto intro!: fail stop init simp: nx)
qed

lemma wf_ServerCreateConnection:
  assumes "wf st" "FindConnectionBySocket st s = None"
  shows "wf (snd (ServerCreateConnection E s ip port i st))"
proof (cases "length (ds_box st) \<ge> mcts_of st")
  case True
  then show ?thesis using assms(1) by (simp add: ServerCreateConnection_def)
next
  case False
  let ?c = "ds_next st" and ?k = "new_Connection E (ds_next st) s TYPE_SVR ip port i"
  let ?st1 = "st\<lparr>ds_conns := (ds_conns st)(?c := ?k), ds_next := ?c + 1, ds_box := ds_box st @ [?c]\<rparr>"
  have fresh: "\<forall>d\<in>set (ds_box st). d < ?c \<and> cliSockRef (conn_of st d) \<noteq> s"
    using assms by (auto simp: FindConnectionBySocket_None wf_in_box)
  have box: "box_ok ?st1"
    using wf_box [OF assms(1)] fresh
    by (force simp: box_ok_def inj_on_def)
  have k: "conn_ok (ds_udsSize st) ?k" "live ?k" by (simp_all add: conn_ok_def activating_def live_def)
  have ok: "conn_ok (ds_udsSize st) (conn_of ?st1 d)" if "d < ?c + 1" for d
    using that k(1) wf_conn [OF assms(1)] by (cases "d = ?c") auto
  have lv: "live (conn_of ?st1 d)" if "d \<in> set (ds_box st) \<or> d = ?c" for d
    using that k(2) wf_live [OF assms(1)] fresh by (cases "d = ?c") auto
  have ptr: "r < ?c + 1 \<and> valid_sa (raTesterSa (conn_of ?st1 r))"
    if "d < ?c + 1" "routingConnectionPtr (conn_of ?st1 d) = Some r" for d r
    using that wf_ptr [OF assms(1), of d r] by (cases "d = ?c") (auto simp: less_Suc_eq)
  have len: "length (ds_box ?st1) \<le> mcts_of ?st1"
    using False mcts_of_cong [of ?st1 st] by simp
  have "wf ?st1"
    unfolding wf_def using box len ok lv k(2) ptr wf_usize [OF assms(1)] by simp
  then show ?thesis
    using False by (simp add: ServerCreateConnection_def Let_def wf_Start)
qed

lemma wf_FindOrCreateConnection:
  "wf st \<Longrightarrow> wf (snd (FindOrCreateConnection E s ip port i st))"
  by (auto simp: FindOrCreateConnection_def wf_ServerCreateConnection split: option.split)

lemma wf_TcpDataSocketEventCallback:
  "wf st \<Longrightarrow> wf (TcpDataSocketEventCallback E acc i ev st)"
  by (auto simp: TcpDataSocketEventCallback_def wf_FindOrCreateConnection split: option.split)

section \<open>Reception\<close>

lemma safe_modc_simple:
  assumes "safe_step st s" "c < ds_next s"
    and "conn_ok (ds_udsSize s) (conn_of s c) \<Longrightarrow> conn_ok (ds_udsSize s) (f (conn_of s c))"
    and "live (conn_of s c) \<Longrightarrow> live (f (conn_of s c))"
    and "cliSockRef (f (conn_of s c)) = cliSockRef (conn_of s c)"
    and "raTesterSa (f (conn_of s c)) = raTesterSa (conn_of s c)"
    and "routingConnectionPtr (f (conn_of s c)) = routingConnectionPtr (conn_of s c)"
  shows "safe_step st (modc c f s)"
  by (rule safe_modc [OF assms(1) wf_modc_simple]) (use assms in \<open>auto simp: safe_step_def\<close>)

lemma safe_release_uds:
  assumes "safe_step st s" "c < ds_next s" "udsTotalLen (conn_of s c) \<le> udsReceived (conn_of s c)"
  shows "safe_step st (release_uds c s)"
  unfolding release_uds_def using assms
  by (auto intro!: safe_modc_simple simp: conn_ok_def activating_def live_def split: option.split)

lemma diag_errOut2_safe:
  assumes "safe_step st s" "c < ds_next s"
  shows "safe_step st (snd (diag_errOut2 c r s))"
proof -
  have "safe_step st (modc c (\<lambda>k. k\<lparr>udsTotalLen := 0, udsReceived := 0\<rparr>) s)"
    by (rule safe_modc_simple [OF assms]) (auto simp: conn_ok_def activating_def live_def)
  then show ?thesis using assms(2) by (auto simp: diag_errOut2_def Let_def intro!: safe_release_uds)
qed

lemma diag_errOut1_safe:
  assumes "safe_step st s" "c < ds_next s"
  shows "safe_step st (snd (diag_errOut1 E c ta sa nack r s))"
  unfolding diag_errOut1_def Let_def
  by (rule diag_errOut2_safe) (use assms safe_Finalize in \<open>auto split: if_split\<close>)

lemma InformUdsMessage_sel:
  assumes "InformUdsMessage E sa ta blk len i st = (r, st')"
  shows "safe_step st0 st' = safe_step st0 st" "ds_next st' = ds_next st" "ds_conns st' = ds_conns st"
    "ds_udsSize st' = ds_udsSize st"
  using assms by (auto simp: InformUdsMessage_def Let_def split: if_splits)

lemma DiagnosticMsgSvrSecondHandler_safe:
  assumes "DiagnosticMsgSvrSecondHandler E c st = Inr (r, st')" "safe_step st0 st" "c < ds_next st"
  shows "safe_step st0 st'"
proof (cases "udsTotalLen (conn_of st c) \<le> TAF_DOIP_LOGICAL_ADDRESS_LENGTH * 2")
  case True
  then obtain st1 where st1: "RespondHeaderNegativeACK E c HEADER_NACK_INVALID_PAYLOAD_LENGTH 0 st = Inr st1"
      "st' = snd (diag_errOut2 c TAF_DOIP_RESULT_MESSAGE_TOO_SHORT st1)"
    using assms(1) by (auto simp: DiagnosticMsgSvrSecondHandler_def Let_def)
  have s1: "safe_step st0 st1" by (rule RespondHeaderNegativeACK_safe [OF st1(1) assms(2)])
  then show ?thesis
    using st1(2) diag_errOut2_safe [OF s1] assms(3) safe_step_next [OF s1] safe_step_next [OF assms(2)] by simp
next
  case False
  note err = diag_errOut1_safe [of st0 _ c]
  obtain blk sa ta where blk: "udsBuf (conn_of st c) = Some blk" "rdn (snd blk) 0 2 = Inr sa" "rdn (snd blk) 2 2 = Inr ta"
    using False assms(1) by (auto simp: DiagnosticMsgSvrSecondHandler_def Let_def split: option.splits)
  obtain r1 st1 where inf: "InformUdsMessage E (of_be16 sa) (of_be16 ta) blk (udsTotalLen (conn_of st c))
      (localIface (conn_of st c)) st = (r1, st1)" by fastforce
  note sel = InformUdsMessage_sel [OF inf]
  have ack: "safe_step st0 (modc c (\<lambda>k. k\<lparr>udsTotalLen := 0, udsReceived := 0, udsBuf := None\<rparr>) st1)"
    by (rule safe_modc_simple) (use assms sel in \<open>auto simp: conn_ok_def activating_def live_def\<close>)
  have e: "safe_step st0 s'" if "diag_errOut1 E c t a n q s = (q', s')" "safe_step st0 s" "c < ds_next s" for t a n q s q' s'
    using diag_errOut1_safe [OF that(2,3), of E t a n q] that(1) by simp
  show ?thesis
    using assms False blk inf sel ack
    by (auto simp: DiagnosticMsgSvrSecondHandler_def Let_def split: if_splits elim!: e)
qed

lemma DiagnosticMsgSecondHandler_safe:
  assumes "DiagnosticMsgSecondHandler E c st = Inr (r, st')" "safe_step st0 st" "c < ds_next st"
  shows "safe_step st0 st'"
  using assms DiagnosticMsgSvrSecondHandler_safe [of E c st r st' st0]
  by (auto simp: DiagnosticMsgSecondHandler_def DiagnosticMsgCliSecondHandler_def split: if_splits)

text \<open>Allocation, and storing a part of a message.\<close>

lemma alloc_uds_safe:
  assumes "alloc_uds E c s = Some s1" "safe_step st s" "c < ds_next s"
  shows "safe_step st s1 \<and> ds_next s1 = ds_next s \<and> ds_udsSize s1 = ds_udsSize s \<and> udsBuf (conn_of s1 c) \<noteq> None"
proof (cases "udsBuf (conn_of s c)")
  case (Some b)
  then show ?thesis using assms by (simp add: alloc_uds_def)
next
  case None
  then obtain x where x: "ev_try_alloc E (ds_trace s) = Some x"
    using assms(1) by (auto simp: alloc_uds_def split: option.splits)
  define d where "d = take (ds_udsSize s) (x @ replicate (ds_udsSize s) 0)"
  have d: "length d = ds_udsSize s"
      "s1 = modc c (\<lambda>k. k\<lparr>udsBuf := Some (ds_blocks s, d), udsTotalLen := 0, udsReceived := 0\<rparr>)
              (emit (EvAllocUds (ds_blocks s)) (s\<lparr>ds_blocks := ds_blocks s + 1\<rparr>))"
    using assms(1) None x by (simp_all add: alloc_uds_def Let_def d_def)
  have "safe_step st (emit (EvAllocUds (ds_blocks s)) (s\<lparr>ds_blocks := ds_blocks s + 1\<rparr>))"
    using assms(2) by (simp add: safe_blocks)
  then have "safe_step st s1"
    unfolding d(2) by (rule safe_modc_simple)
      (use assms(3) d(1) in \<open>auto simp: conn_ok_def activating_def live_def\<close>)
  then show ?thesis using d(2) by simp
qed

lemma store_uds_safe:
  assumes "safe_step st s" "c < ds_next s" "length d = ds_udsSize s"
  shows "r \<le> ds_udsSize s \<Longrightarrow>
      safe_step st (modc c (\<lambda>k. k\<lparr>udsBuf := Some (b, d), udsTotalLen := t, udsReceived := r\<rparr>) s)"
    and "g (conn_of s c) \<le> ds_udsSize s \<Longrightarrow>
      safe_step st (modc c (\<lambda>k. k\<lparr>udsBuf := Some (b, d), udsReceived := g k\<rparr>) s)"
  by (rule safe_modc_simple; use assms in \<open>auto simp: conn_ok_def activating_def live_def\<close>)+

lemma DiagnosticMsgFirstHandler_safe:
  assumes "DiagnosticMsgFirstHandler E c buf payload plen receivedLen st = Inr (r, st')" "safe_step st0 st" "c < ds_next st"
    and "receivedLen \<le> ds_udsSize st"
  shows "safe_step st0 st'"
proof (cases "alloc_uds E c st")
  case None
  then show ?thesis using assms by (simp add: DiagnosticMsgFirstHandler_def)
next
  case (Some st1)
  note st1 = alloc_uds_safe [OF Some assms(2,3)]
  obtain b d where bd: "udsBuf (conn_of st1 c) = Some (b, d)" using st1 by auto
  obtain bs d' where w: "wrn d 0 bs = Inr d'"
      "(let st2 = modc c (\<lambda>k. k\<lparr>udsBuf := Some (b, d'), udsTotalLen := plen, udsReceived := receivedLen\<rparr>) st1 in
        if plen \<le> receivedLen \<or> receivedLen = ds_udsSize st2
        then DiagnosticMsgSecondHandler E c st2 else Inr (TAF_DOIP_RESULT_OK, st2)) = Inr (r, st')"
    using assms(1) Some bd by (auto simp: DiagnosticMsgFirstHandler_def)
  have "conn_ok (ds_udsSize st1) (conn_of st1 c)"
    using st1 assms(3) wf_conn [of st1 c] by (simp add: safe_step_def)
  then have "length d' = ds_udsSize st1"
    using bd wrn_length [OF w(1)] by (simp add: conn_ok_def)
  then have "safe_step st0 (modc c (\<lambda>k. k\<lparr>udsBuf := Some (b, d'), udsTotalLen := plen, udsReceived := receivedLen\<rparr>) st1)"
    using st1 assms(3,4) by (intro store_uds_safe) auto
  then show ?thesis
    using w(2) DiagnosticMsgSecondHandler_safe [of E c _ r st' st0] st1 assms(3)
    by (auto simp: Let_def split: if_splits)
qed

lemma diag_received_safe:
  assumes "diag_received E c s = Inr (r, st')" "safe_step st0 s" "c < ds_next s"
  shows "safe_step st0 st'"
  using assms DiagnosticMsgSecondHandler_safe [of E c s _ st' st0]
  by (auto simp: diag_received_def Let_def split: if_splits)

lemma ReceiveDiagMessage_safe:
  assumes "ReceiveDiagMessage E c st = Inr (r, st')" "safe_step st0 st" "c < ds_next st"
  shows "safe_step st0 st'"
proof (cases "udsTotalLen (conn_of st c) > udsReceived (conn_of st c)")
  case False
  then show ?thesis
    using assms diag_received_safe [of E c "emit (EvTimerRestart c GeneralTimer) st" r st' st0]
    by (simp add: ReceiveDiagMessage_def Let_def)
next
  case True
  then obtain b d where bd: "udsBuf (conn_of st c) = Some (b, d)"
    using assms(1) by (auto simp: ReceiveDiagMessage_def Let_def split: option.splits)
  have len: "length d = ds_udsSize st"
    using bd wf_conn [of st c] assms(2,3) by (auto simp: safe_step_def conn_ok_def)
  have store: "safe_step st0 (modc c (\<lambda>k. k\<lparr>udsBuf := Some (b, d'), udsReceived := g k\<rparr>) s)"
    if "safe_step st0 s" "ds_next s = ds_next st" "ds_udsSize s = ds_udsSize st"
      "conn_of s = conn_of st" "wrn d i bs = Inr d'" "g (conn_of st c) \<le> i + length bs" for d' i bs g s
    by (rule store_uds_safe(2)) (use that assms(3) len wrn_length [OF that(5)] in \<open>auto simp: mem_simps\<close>)
  have mod: "n mod m \<le> n" for n m :: nat by simp
  show ?thesis
    using assms(1) True bd assms(2,3)
    by (auto simp: ReceiveDiagMessage_def Let_def split: option.splits
        elim!: diag_received_safe intro!: store mod)
qed

lemma CheckDoipHeader_safe:
  assumes "CheckDoipHeader E c h n st = Inr (r, st')" "safe_step st0 st"
  shows "safe_step st0 st'"
  using assms by (auto simp: CheckDoipHeader_def Let_def split: option.splits if_splits
      elim!: RespondHeaderNegativeACK_safe)

lemma buf_ok_reset: "buf_ok b \<Longrightarrow> buf_ok (reset_buffer b)"
  by (simp add: buf_ok_def reset_buffer_def)

lemma buf_ok_advance: "buf_ok b \<Longrightarrow> buf_ok (advance_buffer n b)"
  by (auto simp: buf_ok_def advance_buffer_def reset_buffer_def Let_def)

lemma the_buffer_ok:
  assumes "the_buffer c s = Inr b" "safe_step st s" "c < ds_next s"
  shows "buf_ok b"
  using assms wf_conn [of s c] by (auto simp: the_buffer_def safe_step_def conn_ok_def split: option.splits)

lemma set_buffer_safe:
  assumes "safe_step st s" "c < ds_next s" "buf_ok b"
  shows "safe_step st (set_buffer c b s)"
  unfolding set_buffer_def
  by (rule safe_modc_simple [OF assms(1,2)]) (use assms(3) in \<open>auto simp: conn_ok_def activating_def live_def\<close>)

lemma stop_consuming_safe:
  assumes "safe_step st s" "c < ds_next s"
  shows "safe_step st (stop_consuming c s)"
  unfolding stop_consuming_def by (rule safe_modc_simple [OF assms]) auto

lemma set_buffer_next [simp]: "ds_next (set_buffer c b s) = ds_next s"
  by (simp add: set_buffer_def)

lemma ProcessDoipMessage_safe:
  assumes "ProcessDoipMessage E c ptype plen st = Inr (r, st')" "wf st" "c < ds_next st"
  shows "safe_step st st'"
proof -
  obtain b where b: "the_buffer c st = Inr b" using assms(1) by (auto simp: ProcessDoipMessage_def)
  define fin where "fin = (\<lambda>s. mbind (the_buffer c s) (\<lambda>b'.
     Inr (TAF_DOIP_RESULT_OK, set_buffer c (advance_buffer plen b') s)))"
  have fin: "safe_step st s'" if "fin s = Inr (q, s')" "safe_step st s" for s q s'
    using that assms(3) safe_step_next [OF that(2)] the_buffer_ok [OF _ that(2)]
    by (auto simp: fin_def intro!: set_buffer_safe buf_ok_advance)
  have refl: "safe_step st st" using assms(2) by (rule safe_refl)
  have ra: "safe_step st s" if "RoutingActiveReqHandler E c (buf_data b) p plen st = Inr s" for p s
    using RoutingActiveReqHandler_safe [OF that assms(2,3)] .
  have al: "safe_step st s" if "AliveCheckResHandler E c (buf_data b) p plen st = Inr s" for p s
    using AliveCheckResHandler_safe [OF that assms(2,3)] .
  have di: "safe_step st s" if "DiagnosticMsgFirstHandler E c (buf_data b) p plen n st = Inr (q, s)"
      "n \<le> 1500" for p n q s
    using DiagnosticMsgFirstHandler_safe [OF that(1) refl assms(3)] that(2) wf_usize [OF assms(2)] by simp
  have reset: "safe_step st (set_buffer c (reset_buffer b1) s)"
    if "the_buffer c s = Inr b1" "safe_step st s" for b1 s
    using that assms(3) safe_step_next [OF that(2)] the_buffer_ok [OF that]
    by (auto intro!: set_buffer_safe buf_ok_reset)
  show ?thesis
    using assms(1) b refl unfolding ProcessDoipMessage_def fin_def [symmetric] Let_def
    using the_buffer_ok [OF b refl assms(3)]
    by (auto simp: buf_ok_def split: if_splits dest!: fin ra al intro: reset di)
qed

lemma reset_and_return_safe:
  assumes "reset_and_return c s = Inr (q, s')" "safe_step st s" "c < ds_next s"
  shows "safe_step st s'"
  using assms the_buffer_ok [of c s _ st]
  by (auto simp: reset_and_return_def the_buffer_def split: option.splits
      intro!: stop_consuming_safe set_buffer_safe buf_ok_reset)

lemma consume_one_safe:
  assumes "consume_one E c b st = Inr (q, st')" "wf st" "c < ds_next st"
  shows "safe_step st st'"
proof -
  obtain hdr r1 st1 where h: "UnpackHeaderStruct (buf_data b) (buf_dataPos b) = Inr hdr"
      "CheckDoipHeader E c hdr (buf_dataSize b) st = Inr (r1, st1)"
    using assms(1) by (auto simp: consume_one_def)
  have s1: "safe_step st st1" using CheckDoipHeader_safe [OF h(2) safe_refl [OF assms(2)]] .
  have n1: "c < ds_next st1" using safe_step_next [OF s1] assms(3) by simp
  show ?thesis
  proof (cases "r1 = TAF_DOIP_RESULT_OK")
    case False
    then show ?thesis
      using assms(1) h s1 n1 by (auto simp: consume_one_def split: if_splits elim!: reset_and_return_safe)
  next
    case True
    then obtain r2 st2 where p: "ProcessDoipMessage E c (payloadType hdr) (unat (payloadLen hdr)) st1 = Inr (r2, st2)"
      using assms(1) h by (auto simp: consume_one_def)
    have s2: "safe_step st st2"
      using safe_trans [OF s1 ProcessDoipMessage_safe [OF p _ n1]] s1 by (simp add: safe_step_def)
    have n2: "c < ds_next st2" using safe_step_next [OF s2] assms(3) by simp
    have z: "safe_step st (set_buffer c (b2\<lparr>buf_dataPos := 0\<rparr>) st2)"
      if "inBuf (conn_of st2 c) = Some b2" for b2
      using the_buffer_ok [of c st2 b2 st] that s2 n2
      by (intro set_buffer_safe) (auto simp: the_buffer_def buf_ok_def)
    show ?thesis
      using assms(1) h p True s2 n2
      by (auto simp: consume_one_def split: if_splits option.splits
          elim!: reset_and_return_safe intro!: stop_consuming_safe z)
  qed
qed

lemma consume_loop_safe:
  "consume_loop n E c s = Inr (q, st') \<Longrightarrow> safe_step st s \<Longrightarrow> c < ds_next s \<Longrightarrow> safe_step st st'"
proof (induction n arbitrary: s)
  case 0
  then show ?case by (subst (asm) consume_loop.simps) (auto split: option.splits if_splits)
next
  case (Suc n)
  obtain b where b: "inBuf (conn_of s c) = Some b"
    using Suc.prems(1) by (subst (asm) consume_loop.simps) (auto split: option.splits)
  show ?case
  proof (cases "buf_dataSize b < TAF_DOIP_HEADER_GENERIC_LENGTH \<or> connState (conn_of s c) = STATE_FINALIZE")
    case True
    then show ?thesis
      using Suc.prems b by (subst (asm) consume_loop.simps) (auto split: option.splits if_splits)
  next
    case False
    then obtain r s1 where one: "consume_one E c b s = Inr (r, s1)"
      using Suc.prems(1) b by (subst (asm) consume_loop.simps) auto
    have s1: "safe_step st s1"
      using safe_trans [OF Suc.prems(2) consume_one_safe [OF one _ Suc.prems(3)]] Suc.prems(2)
      by (simp add: safe_step_def)
    have n1: "c < ds_next s1" using safe_step_next [OF s1] safe_step_next [OF Suc.prems(2)] Suc.prems(3) by simp
    show ?thesis
      using Suc.prems(1) b False one s1 Suc.IH [OF _ s1 n1]
      by (subst (asm) consume_loop.simps) (auto split: consume_step.splits)
  qed
qed

lemma ConsumeTCPData_safe:
  assumes "ConsumeTCPData E s st = Inr st'" "wf st"
  shows "safe_step st st'"
proof (cases "FindConnectionBySocket st s")
  case None
  then show ?thesis using assms by (simp add: ConsumeTCPData_def safe_refl)
next
  case (Some c)
  then have c: "c < ds_next st" using FindConnectionBySocket_Some [OF Some] wf_in_box [OF assms(2)] by blast
  have loop: "safe_step st s1 \<and> c < ds_next s1" if "consume_loop 5 E c st = Inr (q, s1)" for q s1
    using consume_loop_safe [OF that safe_refl [OF assms(2)] c] safe_step_next [of st s1] c by simp
  show ?thesis
    using assms Some by (auto simp: ConsumeTCPData_def safe_refl split: if_splits option.splits
        intro!: stop_consuming_safe dest!: loop)
qed

lemma buf_ok_write:
  assumes "buf_ok b" "wrn (buf_data b) (buf_dataPos b + buf_dataSize b) bs = Inr d"
  shows "buf_ok (b\<lparr>buf_data := d, buf_dataSize := u32n (buf_dataSize b + length bs)\<rparr>)"
proof -
  have "buf_dataPos b + buf_dataSize b + length bs \<le> TAF_DOIP_MAX_BUFFER_SIZE"
    using assms by (auto simp: buf_ok_def mem_simps)
  then show ?thesis
    using assms wrn_length [OF assms(2)] by (simp add: buf_ok_def)
qed

text \<open>The room of \<open>ReceiveTCPData\<close>: the arithmetic of the code does not wrap on a good buffer.\<close>

lemma receive_room:
  assumes "buf_ok b"
  shows "u32n (buf_dataPos b + buf_dataSize b) = buf_dataPos b + buf_dataSize b"
    and "u32n (TAF_DOIP_MAX_BUFFER_SIZE + 2 ^ 32 - u32n (buf_dataPos b + buf_dataSize b))
           = TAF_DOIP_MAX_BUFFER_SIZE - (buf_dataPos b + buf_dataSize b)"
proof -
  have le: "buf_dataPos b + buf_dataSize b \<le> 1500" using assms by (simp add: buf_ok_def)
  then show *: "u32n (buf_dataPos b + buf_dataSize b) = buf_dataPos b + buf_dataSize b" by simp
  have "1500 + 2 ^ 32 - (buf_dataPos b + buf_dataSize b) = (1500 - (buf_dataPos b + buf_dataSize b)) + 2 ^ 32"
    using le by simp
  moreover have "u32n ((1500 - (buf_dataPos b + buf_dataSize b)) + 2 ^ 32) = 1500 - (buf_dataPos b + buf_dataSize b)"
    by simp
  ultimately show "u32n (1500 + 2 ^ 32 - u32n (buf_dataPos b + buf_dataSize b)) = 1500 - (buf_dataPos b + buf_dataSize b)"
    unfolding * by metis
qed

text \<open>
  One call of \<open>ReceiveTCPData\<close> on a good buffer, with its arithmetic resolved: where at most 41
  bytes are free the buffer is emptied first.
\<close>

lemma ReceiveTCPData_eq:
  assumes "inBuf (conn_of st c) = Some b" "buf_ok b"
  shows "ReceiveTCPData E c st =
    (let st1 = (if ev_timer_running E (ds_trace st) c GeneralTimer
                then emit (EvTimerRestart c GeneralTimer) st else emit (EvTimerStart c GeneralTimer) st);
         b1 = (if TAF_DOIP_MAX_BUFFER_SIZE - (buf_dataPos b + buf_dataSize b) \<le> 41 then reset_buffer b else b);
         pos = buf_dataPos b1 + buf_dataSize b1;
         want = TAF_DOIP_MAX_BUFFER_SIZE - pos;
         s = cliSockRef (conn_of st1 c);
         r = ev_read E (ds_trace st1) s want;
         st2 = emit (EvRead s want) (set_buffer c b1 st1) in
     case r of
       None \<Rightarrow> Inr (TAF_DOIP_RESULT_NETWORK_ERROR, st2)
     | Some bs \<Rightarrow> mbind (wrn (buf_data b1) pos bs) (\<lambda>d.
         let st3 = set_buffer c (b1\<lparr>buf_data := d, buf_dataSize := u32n (buf_dataSize b1 + length bs)\<rparr>) st2 in
         if \<not> isConsuming (conn_of st3 c)
         then Inr (TAF_DOIP_RESULT_OK, emit (EvQueueConsume s) (modc c (\<lambda>k. k\<lparr>isConsuming := True\<rparr>) st3))
         else Inr (TAF_DOIP_RESULT_OK, st3)))"
proof -
  let ?room = "TAF_DOIP_MAX_BUFFER_SIZE - (buf_dataPos b + buf_dataSize b)"
  let ?b1 = "if ?room \<le> 41 then reset_buffer b else b"
  have b1: "buf_ok ?b1" using assms(2) by (simp add: buf_ok_reset)
  have want: "(if ?room \<le> 41 then TAF_DOIP_MAX_BUFFER_SIZE else ?room)
      = TAF_DOIP_MAX_BUFFER_SIZE - (buf_dataPos ?b1 + buf_dataSize ?b1)"
    by (simp add: reset_buffer_def)
  show ?thesis
    unfolding ReceiveTCPData_def assms(1) option.case receive_room(2) [OF assms(2)] Let_def
      receive_room(1) [OF b1] want
    by (rule refl)
qed

lemma ReceiveTCPData_safe:
  assumes "ReceiveTCPData E c st = Inr (r, st')" "wf st" "c < ds_next st"
  shows "safe_step st st'"
proof (cases "inBuf (conn_of st c)")
  case None
  then show ?thesis using assms by (simp add: ReceiveTCPData_def safe_refl)
next
  case (Some b)
  have b: "buf_ok b" using wf_conn [OF assms(2,3)] Some by (simp add: conn_ok_def)
  have cons: "safe_step st (modc c (\<lambda>k. k\<lparr>isConsuming := True\<rparr>) s)" if "safe_step st s" for s
    by (rule safe_modc_simple [OF that]) (use assms(3) safe_step_next [OF that] in auto)
  define b1 where "b1 = (if TAF_DOIP_MAX_BUFFER_SIZE - (buf_dataPos b + buf_dataSize b) \<le> 41 then reset_buffer b else b)"
  have b1: "buf_ok b1" using b by (simp add: b1_def buf_ok_reset)
  have s: "safe_step st (set_buffer c b2 s)" if "buf_ok b2" "safe_step st s" for b2 s
    using that assms(3) safe_step_next [OF that(2)] by (simp add: set_buffer_safe)
  show ?thesis
    using assms(1) safe_refl [OF assms(2)] s [OF b1] s [OF buf_ok_write [OF b1]]
    unfolding ReceiveTCPData_eq [OF Some b] b1_def [symmetric] Let_def
    by (auto split: option.splits if_splits intro!: cons)
qed

lemma SocketEventCallback_safe:
  assumes "SocketEventCallback E s ev st = Inr st'" "wf st"
  shows "safe_step st st'"
proof (cases "FindConnectionBySocket st s")
  case None
  then show ?thesis using assms by (simp add: SocketEventCallback_def safe_refl)
next
  case (Some c)
  then have c: "c < ds_next st" using FindConnectionBySocket_Some [OF Some] wf_in_box [OF assms(2)] by blast
  show ?thesis
    using assms Some safe_refl [OF assms(2)] c
    by (auto simp: SocketEventCallback_def Let_def split: if_splits intro!: safe_Finalize
        elim: ReceiveDiagMessage_safe ReceiveTCPData_safe)
qed

lemma RequestUdsMessage_safe: "wf st \<Longrightarrow> safe_step st (RequestUdsMessage E ta b msg st)"
  by (simp add: RequestUdsMessage_def safe_refl split: option.split)

lemma TransUdsMessage_safe:
  "TransUdsMessage E sa ta ty msg st = Inr (r, st') \<Longrightarrow> wf st \<Longrightarrow> safe_step st st'"
  by (auto simp: TransUdsMessage_def Let_def safe_refl safe_blocks split: if_splits option.splits)

end
