(* ===== verification/Doip_Udp.thy ===== *)
theory Doip_Udp
  imports Doip_Tcp
begin

text \<open>
  The UDP side of \<open>tafDoIPCommunicationMgr.cpp\<close>: the states of the session, the check of a datagram,
  the requests for vehicle identification, entity status and power mode, and the vehicle
  announcement of \<open>VehicleDiscovery\<close> (\<open>tafDoIPVehDiscoveryAndParser.cpp\<close>).
\<close>

datatype taf_doipState = DOIP_STATE_INIT | DOIP_STATE_START | DOIP_STATE_RUNNING | DOIP_STATE_STOP
  | DOIP_STATE_FINAL

datatype taf_doipInstanceType = INSTANCE_NODE | INSTANCE_GATEWAY | INSTANCE_TESTER | INSTANCE_UNKOWN

text \<open>The members of \<open>CommunicationMgr\<close> that the UDP side uses.\<close>

record CommunicationMgr =
  cm_state :: taf_doipState
  cm_instanceType :: taf_doipInstanceType
  cm_udpDiscoverSockRef :: "sock option"
  cm_tcpDataSockRef :: "sock option list"
  cm_udpEquipSockRef :: "sock option list"
  cm_localIps :: "byte list list"
  cm_udpDataBuffer :: "byte list option"
  cm_udpDataLen :: nat

section \<open>Session\<close>

text \<open>\<open>mon s\<close> is whether the monitoring of socket \<open>s\<close> can be enabled.\<close>

fun monitor_all :: "(sock \<Rightarrow> bool) \<Rightarrow> (sock option \<times> sock option) list \<Rightarrow> bool" where
  "monitor_all mon [] = True"
| "monitor_all mon ((tcp, udp) # xs) =
     (if (case tcp of None \<Rightarrow> False | Some s \<Rightarrow> \<not> mon s) then False
      else if (case udp of None \<Rightarrow> False | Some s \<Rightarrow> \<not> mon s) then False
      else monitor_all mon xs)"

definition SessionStart :: "(sock \<Rightarrow> bool) \<Rightarrow> CommunicationMgr \<Rightarrow> taf_doip_Result \<times> CommunicationMgr" where
  "SessionStart mon cm =
     (if cm_state cm = DOIP_STATE_START \<or> cm_state cm = DOIP_STATE_RUNNING then (TAF_DOIP_RESULT_OK, cm)
      else if cm_state cm \<noteq> DOIP_STATE_INIT \<and> cm_state cm \<noteq> DOIP_STATE_STOP then (TAF_DOIP_RESULT_ERROR, cm)
      else
      let cm1 = cm\<lparr>cm_state := DOIP_STATE_START\<rparr>;
          cm2 = (if cm_udpDataBuffer cm1 = None
                 then cm1\<lparr>cm_udpDataBuffer := Some (replicate TAF_DOIP_MAX_BUFFER_SIZE 0)\<rparr> else cm1);
          cm3 = cm2\<lparr>cm_udpDataLen := 0\<rparr> in
      if (case cm_udpDiscoverSockRef cm3 of None \<Rightarrow> False | Some s \<Rightarrow> \<not> mon s)
      then (TAF_DOIP_RESULT_ERROR, cm3)
      else if \<not> monitor_all mon (zip (cm_tcpDataSockRef cm3) (cm_udpEquipSockRef cm3))
      then (TAF_DOIP_RESULT_ERROR, cm3)
      else (TAF_DOIP_RESULT_OK, cm3\<lparr>cm_state := DOIP_STATE_RUNNING\<rparr>))"

definition SessionStop :: "CommunicationMgr \<Rightarrow> taf_doip_Result \<times> CommunicationMgr" where
  "SessionStop cm =
     (if cm_state cm \<noteq> DOIP_STATE_START \<and> cm_state cm \<noteq> DOIP_STATE_RUNNING then (TAF_DOIP_RESULT_OK, cm)
      else (TAF_DOIP_RESULT_OK,
            cm\<lparr>cm_udpDataBuffer := None, cm_udpDataLen := 0, cm_state := DOIP_STATE_STOP\<rparr>))"

section \<open>Queries of the application and the configuration\<close>

abbreviation POWER_MODE_NOT_SUPPORTED :: byte where "POWER_MODE_NOT_SUPPORTED \<equiv> 2"

text \<open>The handler of the first session that has one answers.\<close>

definition QueryPowerMode :: "doip_env \<Rightarrow> doip_state \<Rightarrow> byte" where
  "QueryPowerMode E st =
     (case find ses_pmQuery (ds_sessions st) of
        None \<Rightarrow> POWER_MODE_NOT_SUPPORTED
      | Some s \<Rightarrow> ev_power_mode E (ds_trace st))"

abbreviation TAF_DOIP_SA_DEFAULT :: u16 where "TAF_DOIP_SA_DEFAULT \<equiv> 0x201"

definition GetEntitySourceAddress :: "doip_state \<Rightarrow> u16" where
  "GetEntitySourceAddress st =
     (case GetEntityLogicalAddr (Some (ds_cfg st)) of Inr a \<Rightarrow> a | Inl e \<Rightarrow> TAF_DOIP_SA_DEFAULT)"

section \<open>Requests over UDP\<close>

text \<open>Responses leave through the discovery socket; a null one is the number 0.\<close>

definition udp_reply :: "CommunicationMgr \<Rightarrow> byte list \<Rightarrow> u16 \<Rightarrow> taf_doipLink" where
  "udp_reply cm ip port =
     \<lparr>link_sockRef = (case cm_udpDiscoverSockRef cm of None \<Rightarrow> 0 | Some s \<Rightarrow> s),
      link_ip = ip, link_port = port, link_commType = SOCKET_TYPE_UDP_UNI\<rparr>"

definition RespondHeaderNegativeACK_udp ::
  "doip_env \<Rightarrow> CommunicationMgr \<Rightarrow> byte list \<Rightarrow> u16 \<Rightarrow> taf_doipHeaderNACKCode \<Rightarrow> doip_state \<Rightarrow> doip_state" where
  "RespondHeaderNegativeACK_udp E cm ip port nackCode st =
     perform E (HeaderNegativeACK (ds_cfg st) (udp_reply cm ip port) nackCode) st"

abbreviation TAF_DOIP_FURTHER_ACTION_REQUIRED :: byte where "TAF_DOIP_FURTHER_ACTION_REQUIRED \<equiv> 0x10"
abbreviation TAF_DOIP_NO_FURTHER_ACTION_REQUIRED :: byte where "TAF_DOIP_NO_FURTHER_ACTION_REQUIRED \<equiv> 0x00"

definition VehicleIdentifyReqHandler ::
  "doip_env \<Rightarrow> CommunicationMgr \<Rightarrow> byte list \<Rightarrow> u16 \<Rightarrow> doip_state \<Rightarrow> doip_state" where
  "VehicleIdentifyReqHandler E cm ip port st =
     (case GetEntityLogicalAddr (Some (ds_cfg st)) of
        Inl e \<Rightarrow> st
      | Inr sourceAddr \<Rightarrow>
          perform E (VehicleAnnounceOrIdRes (ev_ext E) (ds_cfg st) (ev_stack E (ds_trace st)) (udp_reply cm ip port)
            sourceAddr (if GetAuthEnableStatus (Some (ds_cfg st)) then TAF_DOIP_FURTHER_ACTION_REQUIRED
                        else TAF_DOIP_NO_FURTHER_ACTION_REQUIRED)) st)"

text \<open>
  The requests with an EID and with a VIN: the payload is compared with ours, then the answer is
  that of the plain request. \<open>payload\<close> is the position of the payload in the datagram.
\<close>

definition VehicleIdentifyReqWithEidHandler ::
  "doip_env \<Rightarrow> CommunicationMgr \<Rightarrow> byte list \<Rightarrow> nat \<Rightarrow> nat \<Rightarrow> byte list \<Rightarrow> u16 \<Rightarrow> doip_state \<Rightarrow> doip_state mem" where
  "VehicleIdentifyReqWithEidHandler E cm buf payload plen ip port st =
     (if plen \<noteq> TAF_DOIP_EID_SIZE
      then Inr (RespondHeaderNegativeACK_udp E cm ip port HEADER_NACK_INVALID_PAYLOAD_LENGTH st)
      else case GetEid (Some (ds_cfg st)) of
        Inl e \<Rightarrow> Inr st
      | Inr ourEid \<Rightarrow>
          mbind (rdn buf payload TAF_DOIP_EID_SIZE) (\<lambda>p.
          if take TAF_DOIP_EID_SIZE ourEid \<noteq> p then Inr st
          else Inr (VehicleIdentifyReqHandler E cm ip port st)))"

definition VehicleIdentifyReqWithVinHandler ::
  "doip_env \<Rightarrow> CommunicationMgr \<Rightarrow> byte list \<Rightarrow> nat \<Rightarrow> nat \<Rightarrow> byte list \<Rightarrow> u16 \<Rightarrow> doip_state \<Rightarrow> doip_state mem" where
  "VehicleIdentifyReqWithVinHandler E cm buf payload plen ip port st =
     (if plen \<noteq> TAF_DOIP_VIN_SIZE
      then Inr (RespondHeaderNegativeACK_udp E cm ip port HEADER_NACK_INVALID_PAYLOAD_LENGTH st)
      else case GetVin (ev_ext E) (Some (ds_cfg st)) of
        Inl e \<Rightarrow> Inr st
      | Inr v \<Rightarrow>
          let ourVin = overlay (v @ [0]) (ev_stack E (ds_trace st)) in
          mbind (rdn buf payload TAF_DOIP_VIN_SIZE) (\<lambda>p.
          if take TAF_DOIP_VIN_SIZE ourVin \<noteq> p then Inr st
          else Inr (VehicleIdentifyReqHandler E cm ip port st)))"

definition EntityStatusReqHandler ::
  "doip_env \<Rightarrow> CommunicationMgr \<Rightarrow> byte list \<Rightarrow> u16 \<Rightarrow> doip_state \<Rightarrow> doip_state" where
  "EntityStatusReqHandler E cm ip port st =
     perform E (DoIPEntityStatusRes (ds_cfg st) (udp_reply cm ip port) NT_NODE (of_nat (mcts_of st))
       (of_nat (GetConnectionNum st)) (of_nat (mds_of st))) st"

definition PowerModeReqHandler ::
  "doip_env \<Rightarrow> CommunicationMgr \<Rightarrow> byte list \<Rightarrow> u16 \<Rightarrow> doip_state \<Rightarrow> doip_state" where
  "PowerModeReqHandler E cm ip port st =
     perform E (DiagPowerModeRes (ds_cfg st) (udp_reply cm ip port) (QueryPowerMode E st)) st"

definition EntityProcessDoipMessageOverUdp ::
  "doip_env \<Rightarrow> CommunicationMgr \<Rightarrow> u16 \<Rightarrow> byte list \<Rightarrow> nat \<Rightarrow> nat \<Rightarrow> byte list \<Rightarrow> u16 \<Rightarrow> doip_state
     \<Rightarrow> doip_state mem" where
  "EntityProcessDoipMessageOverUdp E cm ptype buf payload plen ip port st =
     (if ptype = TYPE_VEHICLE_IDENTIFY_REQUEST then Inr (VehicleIdentifyReqHandler E cm ip port st)
      else if ptype = TYPE_VEHICLE_IDENTIFY_REQUEST_EID
      then VehicleIdentifyReqWithEidHandler E cm buf payload plen ip port st
      else if ptype = TYPE_VEHICLE_IDENTIFY_REQUEST_VIN
      then VehicleIdentifyReqWithVinHandler E cm buf payload plen ip port st
      else if ptype = TYPE_ENTITY_STATUS_REQUEST then Inr (EntityStatusReqHandler E cm ip port st)
      else if ptype = TYPE_POWER_MODE_INFO_REQUEST then Inr (PowerModeReqHandler E cm ip port st)
      else Inr st)"

section \<open>The header check\<close>

text \<open>
  The build options leave the requests with an EID and for the entity status out of the types that
  the check accepts (\<open>TAF_DOIP_VIN_REQ_WITH_EID_OPTION\<close> and \<open>TAF_DOIP_ENTITY_STATUS_REQ_OPTION\<close> are 0).
\<close>

definition CheckDoipHeaderOverUdp ::
  "doip_env \<Rightarrow> CommunicationMgr \<Rightarrow> taf_doipHeader \<Rightarrow> byte list \<Rightarrow> u16 \<Rightarrow> doip_state
     \<Rightarrow> taf_doip_Result \<times> doip_state" where
  "CheckDoipHeaderOverUdp E cm h ip port st =
     (let errOut = (\<lambda>nackCode.
            if cm_instanceType cm = INSTANCE_TESTER then (TAF_DOIP_RESULT_HDR_ERROR, st)
            else (TAF_DOIP_RESULT_HDR_ERROR, RespondHeaderNegativeACK_udp E cm ip port nackCode st)) in
      if \<not> supported_version (protocolVer h) then errOut HEADER_NACK_INCORRECT_PATTERN_FORMAT
      else if protocolVer h \<noteq> NOT (invProtocolVer h) then errOut HEADER_NACK_INCORRECT_PATTERN_FORMAT
      else if payloadType h \<noteq> TYPE_VEHICLE_IDENTIFY_REQUEST
           \<and> payloadType h \<noteq> TYPE_VEHICLE_IDENTIFY_REQUEST_VIN
           \<and> payloadType h \<noteq> TYPE_POWER_MODE_INFO_REQUEST
      then errOut HEADER_NACK_UNKNOWN_PAYLOAD_TYPE
      else if unat (payloadLen h) > mds_of st then errOut HEADER_NACK_MESSAGE_TOO_LARGE
      else if unat (payloadLen h) > cm_udpDataLen cm - TAF_DOIP_HEADER_GENERIC_LENGTH
      then errOut HEADER_NACK_OUT_OF_MEMORY
      else (TAF_DOIP_RESULT_OK, st))"

abbreviation zero_ip :: "byte list" where
  "zero_ip \<equiv> [0x30, 0x2E, 0x30, 0x2E, 0x30, 0x2E, 0x30]" \<comment> \<open>\<open>0.0.0.0\<close>\<close>

text \<open>
  \<open>packet\<close> is what \<open>le_socket_RecvFrom\<close> returns: the bytes, at most the size of the buffer, and the
  address of the sender.
\<close>

definition RecvUdpData ::
  "doip_env \<Rightarrow> (byte list \<times> byte list \<times> u16) option \<Rightarrow> CommunicationMgr \<Rightarrow> doip_state
     \<Rightarrow> (taf_doip_Result \<times> CommunicationMgr \<times> doip_state) mem" where
  "RecvUdpData E packet cm st =
     (case packet of
        None \<Rightarrow> Inr (TAF_DOIP_RESULT_NETWORK_ERROR, cm, st)
      | Some (bs, fromIp, fromPort) \<Rightarrow>
          (case cm_udpDataBuffer cm of
             None \<Rightarrow> Inl NullDeref
           | Some old \<Rightarrow>
               mbind (wrn old 0 bs) (\<lambda>buf.
               let cm1 = cm\<lparr>cm_udpDataBuffer := Some buf\<rparr> in
               if fromIp \<in> set (cm_localIps cm1) then Inr (TAF_DOIP_RESULT_OK, cm1, st)
               else if fromIp = zero_ip then Inr (TAF_DOIP_RESULT_OK, cm1, st)
               else
               let cm2 = cm1\<lparr>cm_udpDataLen := length bs\<rparr> in
               if cm_udpDataLen cm2 < TAF_DOIP_HEADER_GENERIC_LENGTH
               then Inr (TAF_DOIP_RESULT_MESSAGE_TOO_SHORT, cm2, st)
               else
               mbind (UnpackHeaderStruct buf 0) (\<lambda>hdr.
               case CheckDoipHeaderOverUdp E cm2 hdr fromIp fromPort st of (r, st1) \<Rightarrow>
               if r \<noteq> TAF_DOIP_RESULT_OK then Inr (TAF_DOIP_RESULT_HDR_ERROR, cm2, st1)
               else
               mbind (EntityProcessDoipMessageOverUdp E cm2 (payloadType hdr) buf TAF_DOIP_HEADER_GENERIC_LENGTH
                        (unat (payloadLen hdr)) fromIp fromPort st1) (\<lambda>st2.
                 Inr (TAF_DOIP_RESULT_OK, cm2, st2))))))"

definition UdpSocketEventCallback ::
  "doip_env \<Rightarrow> u16 \<Rightarrow> (byte list \<times> byte list \<times> u16) option \<Rightarrow> CommunicationMgr \<Rightarrow> doip_state
     \<Rightarrow> (CommunicationMgr \<times> doip_state) mem" where
  "UdpSocketEventCallback E events packet cm st =
     (if events AND POLLIN \<noteq> 0
      then mbind (RecvUdpData E packet cm st) (\<lambda>(r, cm1, st1). Inr (cm1, st1))
      else Inr (cm, st))"

section \<open>Vehicle announcement\<close>

datatype vd_timer = VdNull | VdCreated | VdDeleted

datatype vd_event = VdSend doip_send | VdInterval u32 | VdStart | VdStop | VdDelete

record VehicleDiscovery =
  vd_waitTimerRef :: vd_timer
  vd_announceCount :: u32
  vd_maxAnnounceCount :: u32
  vd_trace :: "vd_event list"

definition vd_emit :: "vd_event list \<Rightarrow> VehicleDiscovery \<Rightarrow> VehicleDiscovery" where
  "vd_emit es v = v\<lparr>vd_trace := vd_trace v @ es\<rparr>"

text \<open>
  The handler of the wait timer. \<open>stkSa\<close>, \<open>stkPort\<close> and \<open>stkItv\<close> are the locals of the code before
  the configuration fills them. The timer is deleted after the last announcement, but the member
  that refers to it is kept.
\<close>

definition VehicleAnnounceTimerHandler ::
  "doip_ext \<Rightarrow> taf_doip_Config \<Rightarrow> byte list \<Rightarrow> u16 \<Rightarrow> u16 \<Rightarrow> u32 \<Rightarrow> sock \<Rightarrow> VehicleDiscovery
     \<Rightarrow> VehicleDiscovery mem" where
  "VehicleAnnounceTimerHandler X c stk stkSa stkPort stkItv discover v =
     (if vd_waitTimerRef v \<noteq> VdCreated then Inl UseAfterRelease
      else
      let link = \<lparr>link_sockRef = discover, link_ip = GetMulticast X,
                  link_port = (case GetUdpPort (Some c) of Inr p \<Rightarrow> p | Inl e \<Rightarrow> stkPort),
                  link_commType = SOCKET_TYPE_UDP_MULTI\<rparr>;
          sa = (case GetEntityLogicalAddr (Some c) of Inr a \<Rightarrow> a | Inl e \<Rightarrow> stkSa);
          v1 = vd_emit (map VdSend (VehicleAnnounceOrIdRes X c stk link sa
                 (if GetAuthEnableStatus (Some c) then TAF_DOIP_FURTHER_ACTION_REQUIRED
                  else TAF_DOIP_NO_FURTHER_ACTION_REQUIRED))) v;
          v2 = v1\<lparr>vd_announceCount := vd_announceCount v1 + 1\<rparr> in
      if vd_announceCount v2 < vd_maxAnnounceCount v2
      then Inr (vd_emit [VdInterval (case GetAnnounceIntervalTime (Some c) of Inr t \<Rightarrow> t | Inl e \<Rightarrow> stkItv), VdStart] v2)
      else if vd_announceCount v2 = vd_maxAnnounceCount v2
      then Inr (vd_emit [VdStop, VdDelete] (v2\<lparr>vd_announceCount := 0, vd_waitTimerRef := VdDeleted\<rparr>))
      else Inr v2)"

definition VehicleDiscovery_Init :: "VehicleDiscovery \<Rightarrow> VehicleDiscovery" where
  "VehicleDiscovery_Init v = v\<lparr>vd_waitTimerRef := VdCreated\<rparr>"

text \<open>\<open>waitTime\<close> is the random delay of the first announcement.\<close>

definition VehicleDiscoveryAnnounce ::
  "doip_ext \<Rightarrow> taf_doip_Config \<Rightarrow> byte list \<Rightarrow> u16 \<Rightarrow> u16 \<Rightarrow> u32 \<Rightarrow> sock \<Rightarrow> u32 \<Rightarrow> VehicleDiscovery
     \<Rightarrow> VehicleDiscovery mem" where
  "VehicleDiscoveryAnnounce X c stk stkSa stkPort stkItv discover waitTime v =
     (let v1 = (case GetMaxAnnounceCount (Some c) of Inr m \<Rightarrow> v\<lparr>vd_maxAnnounceCount := m\<rparr> | Inl e \<Rightarrow> v) in
      if vd_waitTimerRef v1 = VdNull then Inr v1
      else if GetAnnounceWait (Some c)
      then VehicleAnnounceTimerHandler X c stk stkSa stkPort stkItv discover v1
      else if vd_waitTimerRef v1 = VdDeleted then Inl UseAfterRelease
      else Inr (vd_emit [VdInterval waitTime, VdStart] v1))"

end
