(* ===== verification/Doip_Steps.thy ===== *)
theory Doip_Steps
  imports Doip_Inv Doip_Udp
begin

text \<open>
  The DoIP entity as a transition system: the event loop runs the callbacks of the sockets, the
  timers and the queued functions one after the other. The invariant of \<open>Doip_Inv\<close> holds in every
  state that the event loop can reach.
\<close>

section \<open>Steps over UDP\<close>

lemma VehicleIdentifyReqHandler_safe [simp]:
  "safe_step st0 (VehicleIdentifyReqHandler E cm ip port st) = safe_step st0 st"
  by (simp add: VehicleIdentifyReqHandler_def split: sum.split)

lemma RespondHeaderNegativeACK_udp_safe [simp]:
  "safe_step st0 (RespondHeaderNegativeACK_udp E cm ip port code st) = safe_step st0 st"
  by (simp add: RespondHeaderNegativeACK_udp_def)

lemma EntityProcess_safe:
  assumes "EntityProcessDoipMessageOverUdp E cm ty buf p n ip port st = Inr st'"
  shows "safe_step st0 st' = safe_step st0 st"
  using assms
  by (auto simp: EntityProcessDoipMessageOverUdp_def VehicleIdentifyReqWithEidHandler_def
      VehicleIdentifyReqWithVinHandler_def EntityStatusReqHandler_def PowerModeReqHandler_def Let_def
      split: if_splits sum.splits)

lemma CheckDoipHeaderOverUdp_safe [simp]:
  "safe_step st0 (snd (CheckDoipHeaderOverUdp E cm h ip port st)) = safe_step st0 st"
  by (auto simp: CheckDoipHeaderOverUdp_def Let_def)

lemma RecvUdpData_safe:
  assumes "RecvUdpData E packet cm st = Inr (r, cm', st')"
  shows "safe_step st0 st' = safe_step st0 st"
  using assms
  by (auto simp: RecvUdpData_def Let_def case_prod_unfold split: option.splits if_splits
      dest!: EntityProcess_safe [of _ _ _ _ _ _ _ _ _ _ st0])

section \<open>The event loop\<close>

inductive doip_step :: "doip_env \<Rightarrow> doip_state \<Rightarrow> doip_state \<Rightarrow> bool" for E where
  accept: "doip_step E st (TcpDataSocketEventCallback E accepted iface events st)"
| socket_event: "SocketEventCallback E s events st = Inr st' \<Longrightarrow> doip_step E st st'"
| consume: "ConsumeTCPData E s st = Inr st' \<Longrightarrow> doip_step E st st'"
| initial_timer: "doip_step E st (InitialTimerHandler E s st)"
| general_timer: "doip_step E st (GeneralTimerHandler E s st)"
| alive_timer: "doip_step E st (AliveCheckTimerHandler E s st)"
| trans_uds: "TransUdsMessage E sa ta ty msg st = Inr (r, st') \<Longrightarrow> doip_step E st st'"
| request_uds: "doip_step E st (RequestUdsMessage E ta b msg st)"
| indicate_uds: "doip_step E st (IndicateUdsMessage sa ta ty iface b msg st)"
| indicate_event: "doip_step E st (IndicateConnectionEvent sa ta iface r st)"
| confirm_user: "doip_step E st (ConfirmUserMessage sa ta ty st)"
| datagram: "RecvUdpData E packet cm st = Inr (r, cm', st') \<Longrightarrow> doip_step E st st'"

inductive_cases doip_stepE: "doip_step E st st'"

text \<open>The state after the initialization of the managers, with the configuration and the sessions.\<close>

definition doip_init :: "taf_doip_Config \<Rightarrow> taf_doipSession list \<Rightarrow> (conn \<Rightarrow> Connection) \<Rightarrow> doip_state" where
  "doip_init c sessions heap = ConnectionManager_Init
     \<lparr>ds_cfg = c, ds_conns = heap, ds_next = 0, ds_box = [], ds_aliveCheckNcts = 0, ds_udsSize = 0,
      ds_blocks = 0, ds_sessions = sessions, ds_trace = []\<rparr>"

inductive reachable :: "doip_env \<Rightarrow> doip_state \<Rightarrow> bool" for E where
  init: "reachable E (doip_init c sessions heap)"
| step: "reachable E st \<Longrightarrow> doip_step E st st' \<Longrightarrow> reachable E st'"

lemma wf_init: "wf (doip_init c sessions heap)"
  by (auto simp: doip_init_def ConnectionManager_Init_def Let_def wf_def box_ok_def)

lemma safe_wf: "safe_step st st' \<Longrightarrow> wf st'"
  by (simp add: safe_step_def)

lemma wf_step: "doip_step E st st' \<Longrightarrow> wf st \<Longrightarrow> wf st'"
  by (erule doip_stepE)
    (auto intro: wf_TcpDataSocketEventCallback
      SocketEventCallback_safe [THEN safe_wf] ConsumeTCPData_safe [THEN safe_wf]
      InitialTimerHandler_safe [THEN safe_wf] GeneralTimerHandler_safe [THEN safe_wf]
      AliveCheckTimerHandler_safe [THEN safe_wf] TransUdsMessage_safe [THEN safe_wf]
      RequestUdsMessage_safe [THEN safe_wf] safe_wf [OF RecvUdpData_safe [THEN iffD2, OF _ safe_refl]]
      simp: IndicateUdsMessage_def IndicateConnectionEvent_def ConfirmUserMessage_def Let_def
      split: option.split)

lemma reachable_wf: "reachable E st \<Longrightarrow> wf st"
  by (induction rule: reachable.induct) (auto intro: wf_init wf_step)

section \<open>Safety\<close>

text \<open>
  C3: in every state that the event loop reaches, the box holds at most the configured number of
  connections, no two on one socket; none of them is finalized; a connection whose routing is active or
  waits for authentication or confirmation has a tester address from 0x0E00 to 0x0FFF; and the
  reception buffers have 1500 bytes with the unread data inside.
\<close>

theorem entity_invariant:
  assumes "reachable E st"
  shows "length (ds_box st) \<le> mcts_of st \<and> distinct (map (\<lambda>c. cliSockRef (conn_of st c)) (ds_box st)) \<and>
     (\<forall>c\<in>set (ds_box st). connState (conn_of st c) \<noteq> STATE_FINALIZE \<and>
       (connState (conn_of st c) \<in> {STATE_PENDING_FOR_AUTH, STATE_PENDING_FOR_CONF, STATE_ROUTING_ACTIVE} \<longrightarrow>
          0x0E00 \<le> testerSA (conn_of st c) \<and> testerSA (conn_of st c) \<le> 0x0FFF) \<and>
       (\<forall>b. inBuf (conn_of st c) = Some b \<longrightarrow> length (buf_data b) = 1500 \<and>
          buf_dataPos b + buf_dataSize b \<le> 1500))"
proof -
  note w = reachable_wf [OF assms]
  have "connState (conn_of st c) \<noteq> STATE_FINALIZE \<and>
       (connState (conn_of st c) \<in> {STATE_PENDING_FOR_AUTH, STATE_PENDING_FOR_CONF, STATE_ROUTING_ACTIVE} \<longrightarrow>
          0x0E00 \<le> testerSA (conn_of st c) \<and> testerSA (conn_of st c) \<le> 0x0FFF) \<and>
       (\<forall>b. inBuf (conn_of st c) = Some b \<longrightarrow> length (buf_data b) = 1500 \<and>
          buf_dataPos b + buf_dataSize b \<le> 1500)" if c: "c \<in> set (ds_box st)" for c
    using wf_conn [OF w wf_in_box [OF w c]] wf_live [OF w c]
    by (auto simp: conn_ok_def activating_def live_def valid_sa_def buf_ok_def)
  then show ?thesis using wf_box [OF w] wf_len [OF w] by (auto simp: box_ok_def distinct_map)
qed

text \<open>An entity with one session; a client connects, and its connection is in the box.\<close>

abbreviation example_session :: taf_doipSession where
  "example_session \<equiv> \<lparr>ses_logicalSrcAddr = 0x201, ses_diagIndication = True, ses_diagConfirm = True,
     ses_userConfirm = False, ses_pmQuery = True\<rparr>"

definition example_accept :: doip_state where
  "example_accept = TcpDataSocketEventCallback example_env (Some (7, [0x31], 5000)) [0x65] POLLIN
     (doip_init example_config [example_session] (\<lambda>c. undefined))"

abbreviation example_conn :: Connection where
  "example_conn \<equiv> (new_Connection example_env 0 7 TYPE_SVR [0x31] 5000 [0x65])
     \<lparr>entitySA := 0x201, inBuf := Some empty_Buffer, timerRefs := TimersLive\<rparr>"

lemma example_reachable: "reachable example_env example_accept"
  unfolding example_accept_def by (rule reachable.step [OF reachable.init doip_step.accept])

lemma example_accept_sel:
  "ds_box example_accept = [0]" "conn_of example_accept 0 = example_conn"
  "ds_cfg example_accept = example_config" "ds_sessions example_accept = [example_session]"
  "ds_udsSize example_accept = 65536" "ds_next example_accept = 1"
  by (simp_all add: example_accept_def TcpDataSocketEventCallback_def FindOrCreateConnection_def
      FindConnectionBySocket_def ServerCreateConnection_def doip_init_def ConnectionManager_Init_def Let_def
      mcts_of_def mds_of_def GetMaxConcurrentSockNum_def GetMaxDataSize_def parsed_def Start_def
      GetEntityLogicalAddr_def ConnectionStateMachine.simps create_timer_def new_Connection_def)

theorem entity_invariant_witness:
  "length (ds_box example_accept) \<le> mcts_of example_accept \<and> ds_box example_accept = [0]"
  using entity_invariant [OF example_reachable] example_accept_sel(1) by blast





text \<open>How often the sockets have been read.\<close>

definition reads_done :: "doip_state \<Rightarrow> nat" where
  "reads_done st = length (filter (\<lambda>e. case e of EvRead s n \<Rightarrow> True | _ \<Rightarrow> False) (ds_trace st))"

lemma reads_done_emit [simp]:
  "reads_done (emit e st) = (case e of EvRead s n \<Rightarrow> Suc (reads_done st) | _ \<Rightarrow> reads_done st)"
  by (simp add: reads_done_def emit_def split: doip_event.split)

lemma reads_done_keeps [simp]:
  "reads_done (modc c f st) = reads_done st" "reads_done (st\<lparr>ds_box := box\<rparr>) = reads_done st"
  "reads_done (st\<lparr>ds_aliveCheckNcts := n\<rparr>) = reads_done st" "reads_done (set_buffer c b st) = reads_done st"
  by (simp_all add: reads_done_def modc_def set_buffer_def)

lemma reads_done_send [simp]: "reads_done (snd (CommunicationMgr_SendTCPData E s msg st)) = reads_done st"
  by (simp add: CommunicationMgr_SendTCPData_def SendDoipMessage_def Connection_SendTCPData_def Let_def split: option.split)

lemma reads_done_perform [simp]: "reads_done (perform E xs st) = reads_done st"
  by (induction E xs st rule: perform.induct) simp_all

lemma reads_done_release [simp]:
  "reads_done (stop_timer E c t st) = reads_done st" "reads_done (release_in c st) = reads_done st"
  "reads_done (release_uds c st) = reads_done st"
  by (simp_all add: stop_timer_def release_in_def release_uds_def split: option.split)

lemma reads_done_Stop [simp]:
  "reads_done (snd (Shutdown E c st)) = reads_done st" "reads_done (Stop E c st) = reads_done st"
  by (simp_all add: Shutdown_def Stop_def Let_def)

lemma reads_done_Delete [simp]: "reads_done (DeleteConnection E c st) = reads_done st"
  unfolding DeleteConnection_def Let_def
  by (cases "find_index (\<lambda>d. IsSocketRefMatch (conn_of (Stop E c st) d) (cliSockRef (conn_of (Stop E c st) c))) (ds_box (Stop E c st))")
    simp_all

lemma reads_done_report [simp]: "reads_done (ReportConnectionEvent sa ta r i st) = reads_done st"
  by (simp add: ReportConnectionEvent_def Let_def split: option.split)

lemma reads_done_Finalize [simp]: "reads_done (Finalize E c st) = reads_done st"
  by (simp add: ConnectionStateMachine.simps Let_def)







end
