(* ===== verification/Doip_Activation.thy ===== *)
theory Doip_Activation
  imports Doip_Steps
begin

text \<open>
  Routing activation and its arbitration: what a request leads to, how an alive check decides
  between two testers with one address, and how a connection ends.
\<close>

section \<open>Messages on the wire\<close>

text \<open>The events of sending a message on the socket of a connection in the box.\<close>

definition tcp_events :: "doip_env \<Rightarrow> conn \<Rightarrow> byte list \<Rightarrow> doip_state \<Rightarrow> doip_event list" where
  "tcp_events E c msg st =
     (if ev_timer_running E (ds_trace st) c GeneralTimer then [EvTimerRestart c GeneralTimer] else [])
       @ [EvTcp (cliSockRef (conn_of st c)) msg]"

definition logged :: "doip_event list \<Rightarrow> doip_state \<Rightarrow> doip_state" where
  "logged es st = st\<lparr>ds_trace := ds_trace st @ es\<rparr>"

lemma logged_sel [simp]:
  "ds_trace (logged es st) = ds_trace st @ es" "ds_conns (logged es st) = ds_conns st"
  "ds_box (logged es st) = ds_box st" "ds_cfg (logged es st) = ds_cfg st"
  "ds_next (logged es st) = ds_next st" "ds_sessions (logged es st) = ds_sessions st"
  "ds_udsSize (logged es st) = ds_udsSize st" "ds_aliveCheckNcts (logged es st) = ds_aliveCheckNcts st"
  by (simp_all add: logged_def)

lemma logged_append: "logged ys (logged xs st) = logged (xs @ ys) st"
  by (simp add: logged_def)

lemma emit_logged: "emit e st = logged [e] st"
  by (simp add: emit_def logged_def)

lemma SendDoipMessage_logged:
  "msg \<noteq> [] \<Longrightarrow> snd (SendDoipMessage E c msg st) = logged (tcp_events E c msg st) st"
  by (simp add: SendDoipMessage_def Connection_SendTCPData_def Let_def emit_def logged_def tcp_events_def)

lemma perform_tcp:
  assumes "FindConnectionBySocket st s = Some c" "msg \<noteq> []" "length msg < 1500"
  shows "perform E [SendTCPData s msg] st = logged (tcp_events E c msg st) st"
  using assms by (simp add: CommunicationMgr_SendTCPData_def SendDoipMessage_logged)

text \<open>A routing activation response, and an alive check request.\<close>

definition ra_msg :: "taf_doip_Config \<Rightarrow> u16 \<Rightarrow> u16 \<Rightarrow> taf_doipRaResCode \<Rightarrow> byte list" where
  "ra_msg cfg sa entity code =
     frame_bytes cfg (TYPE_ROUTING_ACTIVE_RESPONSE, be16 sa @ be16 entity @ [RaResCode_byte code] @ [0, 0, 0, 0])"

definition alive_msg :: "taf_doip_Config \<Rightarrow> byte list" where
  "alive_msg cfg = frame_bytes cfg (TYPE_ALIVE_CHECK_REQUEST, [])"

lemma length_frame_bytes: "length (frame_bytes c f) = 8 + length (snd f)"
  by (simp add: frame_bytes_def)

lemma perform_frame:
  assumes "FindConnectionBySocket st (cliSockRef (conn_of st c)) = Some c" "length p < 1000"
  shows "perform E [SendTCPData (cliSockRef (conn_of st c)) (frame_bytes cfg (t, p))] st =
     logged (tcp_events E c (frame_bytes cfg (t, p)) st) st"
proof (rule perform_tcp [OF assms(1)])
  have l: "length (frame_bytes cfg (t, p)) = 8 + length p" by (simp add: length_frame_bytes)
  then show "frame_bytes cfg (t, p) \<noteq> []" by auto
  show "length (frame_bytes cfg (t, p)) < 1500" using l assms(2) by simp
qed

lemma host32_0: "host32 0 = [0, 0, 0, 0]"
  by (simp add: host32_def be32_def)

lemma send_ra_res_logged:
  assumes "FindConnectionBySocket st (cliSockRef (conn_of st c)) = Some c"
  shows "send_ra_res E c sa entity code st = logged (tcp_events E c (ra_msg (ds_cfg st) sa entity code) st) st"
  unfolding send_ra_res_def tcp_responses host32_0 ra_msg_def by (rule perform_frame [OF assms]) simp

lemma send_alive_logged:
  assumes "FindConnectionBySocket st (cliSockRef (conn_of st c)) = Some c"
  shows "send_alive_req E c st = logged (tcp_events E c (alive_msg (ds_cfg st)) st) st"
  unfolding send_alive_req_def tcp_responses alive_msg_def by (rule perform_frame [OF assms]) simp

section \<open>Outcomes of an activation\<close>

lemma modc_modc: "modc c f (modc c g st) = modc c (\<lambda>k. f (g k)) st"
  by (simp add: modc_def)

lemma modc_logged: "modc c f (logged es st) = logged es (modc c f st)"
  by (simp add: modc_def logged_def)

lemma find_sock_modc:
  "(\<And>k. cliSockRef (f k) = cliSockRef k) \<Longrightarrow> FindConnectionBySocket (modc c f st) s = FindConnectionBySocket st s"
  by (auto simp: FindConnectionBySocket_def IsSocketRefMatch_def intro: arg_cong2 [where f = find])

lemma find_sock_logged [simp]: "FindConnectionBySocket (logged es st) s = FindConnectionBySocket st s"
  by (simp add: FindConnectionBySocket_def)

lemma session_simps [simp]:
  "FindDoipSession (modc c f st) sa = FindDoipSession st sa" "FindDoipSession (logged es st) sa = FindDoipSession st sa"
  by (simp_all add: FindDoipSession_def)

lemma tcp_events_modc: "(\<And>k. cliSockRef (f k) = cliSockRef k) \<Longrightarrow> tcp_events E c msg (modc d f st) = tcp_events E c msg st"
  by (simp add: tcp_events_def)

text \<open>The application has a session for the entity, and asks for no confirmation.\<close>

definition no_confirmation :: "doip_state \<Rightarrow> u16 \<Rightarrow> bool" where
  "no_confirmation st la \<longleftrightarrow> \<not> GetAuthEnableStatus (Some (ds_cfg st))
     \<and> (\<exists>s. FindDoipSession st la = Some s \<and> \<not> ses_userConfirm s)"

definition registered_events :: "u16 \<Rightarrow> u16 \<Rightarrow> byte list \<Rightarrow> doip_event list" where
  "registered_events sa la iface = [EvConnectionEvent sa la TAF_DOIP_RESULT_SA_REGISTERED iface,
     EvStatusReport sa la TAF_DOIP_RESULT_SA_REGISTERED iface]"

lemma activation_granted:
  assumes "no_confirmation st (entitySA (conn_of st c))"
    and "FindConnectionBySocket st (cliSockRef (conn_of st c)) = Some c"
  shows "ConnectionStateMachine E c STATE_PENDING_FOR_AUTH a st =
     (let k = conn_of st c in
      logged (tcp_events E c (ra_msg (ds_cfg st) (testerSA k) (entitySA k) RA_RES_ROUTING_SUCCESSFULLY_ACTIVATED) st
                @ registered_events (testerSA k) (entitySA k) (localIface k))
        (modc c (\<lambda>k. k\<lparr>connState := STATE_ROUTING_ACTIVE\<rparr>) st))"
proof -
  obtain s where s: "FindDoipSession st (entitySA (conn_of st c)) = Some s" "\<not> ses_userConfirm s"
    "\<not> GetAuthEnableStatus (Some (ds_cfg st))" using assms(1) by (auto simp: no_confirmation_def)
  let ?st1 = "modc c (\<lambda>k. k\<lparr>connState := STATE_PENDING_FOR_AUTH\<rparr>) st"
  let ?st2 = "modc c (\<lambda>k. k\<lparr>connState := STATE_PENDING_FOR_CONF\<rparr>) ?st1"
  have f2: "FindConnectionBySocket ?st2 (cliSockRef (conn_of ?st2 c)) = Some c"
    using assms(2) by (simp add: find_sock_modc)
  have 1: "ConnectionStateMachine E c STATE_PENDING_FOR_AUTH a st = CheckRoutingActivationAuthen E c a ?st1"
    by (simp add: ConnectionStateMachine.simps Let_def)
  have 2: "CheckRoutingActivationAuthen E c a ?st1 = CheckRoutingActivationConfirm E c ?st2"
    using s(3) by (simp add: CheckRoutingActivationAuthen.simps ConnectionStateMachine.simps [of E c STATE_PENDING_FOR_CONF] Let_def)
  have 3: "CheckRoutingActivationConfirm E c ?st2 = ConnectionStateMachine E c STATE_ROUTING_ACTIVE 0
      (send_ra_res E c (testerSA (conn_of st c)) (entitySA (conn_of st c)) RA_RES_ROUTING_SUCCESSFULLY_ACTIVATED ?st2)"
    using s by (simp add: CheckRoutingActivationConfirm.simps ConfirmRoutingActivation_def Let_def)
  show ?thesis
    unfolding 1 2 3 Activate_eq send_ra_res_logged [OF f2] Let_def ReportConnectionEvent_def emit_logged registered_events_def
    using s by (simp add: modc_logged modc_modc logged_append tcp_events_modc)
qed

section \<open>The routing activation request\<close>

text \<open>A request in the reception buffer: tester address, activation type and the reserved OEM field.\<close>

definition ra_request :: "byte list \<Rightarrow> nat \<Rightarrow> nat \<Rightarrow> u16 \<Rightarrow> byte \<Rightarrow> u32 \<Rightarrow> bool" where
  "ra_request buf p plen sa ty oem \<longleftrightarrow> (plen = 7 \<or> plen = 11) \<and> p + plen \<le> length buf
     \<and> of_be16 (take 2 (drop p buf)) = sa \<and> buf ! (p + 2) = ty
     \<and> oem = (if plen = 11 then of_be32 (take 4 (drop (p + 7) buf)) else 0)"

lemma ra_reads:
  assumes "ra_request buf p plen sa ty oem"
  shows "\<exists>la. rdn buf p 2 = Inr la \<and> of_be16 la = sa" "rd buf (p + 2) = Inr ty"
    "\<exists>r. rdn buf (p + 3) 4 = Inr r"
    "\<exists>o'. (if plen = 11 then rdn buf (p + 7) 4 else Inr [0, 0, 0, 0]) = Inr o' \<and> of_be32 o' = oem"
  using assms by (auto simp: ra_request_def rdn_def rd_def of_be32_def)

lemma ra_dispatch:
  assumes "ra_request buf p plen sa ty oem" "valid_sa sa" "ty < 2 \<or> 0xDF < ty"
  shows "RoutingActiveReqHandler E c buf p plen st =
     ra_decide E c sa (entitySA (conn_of st c)) oem (modc c (\<lambda>k. k\<lparr>raTesterSa := sa\<rparr>) st)"
proof -
  have len: "plen = 7 \<or> plen = 11" using assms(1) by (simp add: ra_request_def)
  show ?thesis
    using ra_reads [OF assms(1)] len assms(2,3)
    by (auto simp: RoutingActiveReqHandler_def Let_def valid_sa_def not_less)
qed

lemma reg_num_modc:
  "(\<And>k. connState (f k) = connState k) \<Longrightarrow> GetRegisteredConnectionNum (modc c f st) = GetRegisteredConnectionNum st"
  by (auto simp: GetRegisteredConnectionNum_def IsConnectionRegitered_def intro!: arg_cong [where f = length] filter_cong)

lemma find_la_modc:
  assumes "\<And>k. connState (f k) = connState k" "\<And>k. connType (f k) = connType k"
    "\<And>k. testerSA (f k) = testerSA k" "\<And>k. entitySA (f k) = entitySA k"
  shows "FindConnectionByLogicalAddr (modc c f st) la = FindConnectionByLogicalAddr st la"
  unfolding FindConnectionByLogicalAddr_def
  by (auto simp: IsConnectionRegitered_def IsLogicalAddressMatch_def assms intro!: arg_cong2 [where f = find])

interpretation reg_num: untraced GetRegisteredConnectionNum
  by unfold_locales (simp add: GetRegisteredConnectionNum_def)

lemma registered_below:
  assumes "wf st" "c \<in> set (ds_box st)" "\<not> IsConnectionRegitered (conn_of st c)"
  shows "GetRegisteredConnectionNum st < mcts_of st"
proof -
  have "GetRegisteredConnectionNum st < length (ds_box st)"
    unfolding GetRegisteredConnectionNum_def using assms(2,3) by (rule filter_length_less)
  then show ?thesis using wf_len [OF assms(1)] by simp
qed

text \<open>
  While an unregistered connection is in the box, fewer connections are registered than the
  configuration allows. So the test of \<open>RoutingActiveReqHandler\<close> for the limit never holds, and the
  alive check of all connections that it guards is never made.
\<close>

theorem limit_never_reached:
  assumes "reachable E st" "c \<in> set (ds_box st)" "\<not> IsConnectionRegitered (conn_of st c)"
  shows "GetRegisteredConnectionNum st < mcts_of st"
  using registered_below reachable_wf assms by blast

text \<open>
  C36: a well-formed request on an unregistered connection, from an address that no registered
  connection has, activates the routing: the tester address is taken over, the response 0x10 goes
  out on the socket, the event is reported, and nothing else changes. Authentication is disabled
  and the application asks for no confirmation.
\<close>

theorem routing_activated:
  assumes "reachable E st" "c \<in> set (ds_box st)" "\<not> IsConnectionRegitered (conn_of st c)"
    and "ra_request buf p plen sa ty oem" "0x0E00 \<le> sa" "sa \<le> 0x0FFF" "ty < 2 \<or> 0xDF < ty"
    and "FindConnectionByLogicalAddr st sa = None"
    and "no_confirmation st (entitySA (conn_of st c))"
  shows "let k = conn_of st c; st1 = logged [EvTimerStop c InitialTimer] st in
     RoutingActiveReqHandler E c buf p plen st = Inr
       (logged (tcp_events E c (ra_msg (ds_cfg st) sa (entitySA k) RA_RES_ROUTING_SUCCESSFULLY_ACTIVATED) st1
                 @ registered_events sa (entitySA k) (localIface k))
         (modc c (\<lambda>k. k\<lparr>raTesterSa := sa, authInfo := oem, testerSA := sa, connState := STATE_ROUTING_ACTIVE\<rparr>) st1))"
proof -
  note w = reachable_wf [OF assms(1)]
  have v: "valid_sa sa" using assms by (simp add: valid_sa_def)
  let ?k = "conn_of st c"
  let ?st1 = "logged [EvTimerStop c InitialTimer] st"
  let ?st2 = "modc c (\<lambda>k. k\<lparr>raTesterSa := sa, authInfo := oem\<rparr>) ?st1"
  let ?st3 = "modc c (\<lambda>k. k\<lparr>raTesterSa := sa, authInfo := oem, testerSA := sa\<rparr>) ?st1"
  have st2: "modc c (\<lambda>k. k\<lparr>authInfo := oem\<rparr>) (emit (EvTimerStop c InitialTimer)
       (modc c (\<lambda>k. k\<lparr>raTesterSa := sa\<rparr>) st)) = ?st2"
    by (simp add: emit_logged modc_logged modc_modc)
  have st3: "modc c (\<lambda>k. k\<lparr>testerSA := sa\<rparr>) ?st2 = ?st3" by (simp add: modc_modc)
  have n: "GetRegisteredConnectionNum ?st2 = GetRegisteredConnectionNum st"
    "FindConnectionByLogicalAddr ?st2 sa = FindConnectionByLogicalAddr st sa"
    "IsConnectionRegitered (conn_of ?st2 c) = IsConnectionRegitered ?k"
    by (simp_all add: reg_num_modc find_la_modc emit_logged [symmetric] IsConnectionRegitered_def
        reg_num.emit find_la.emit)
  have m: "mcts_of ?st2 = mcts_of st" by (rule mcts_of_cong) simp
  have dec: "ra_decide E c sa (entitySA ?k) oem (modc c (\<lambda>k. k\<lparr>raTesterSa := sa\<rparr>) st) =
      Inr (ConnectionStateMachine E c STATE_PENDING_FOR_AUTH oem ?st3)"
    unfolding ra_decide_def Let_def st2 st3 n m
    using registered_below [OF w assms(2,3)] assms(3,8) by simp
  have "FindConnectionBySocket ?st3 (cliSockRef (conn_of ?st3 c)) = Some c"
    using FindConnectionBySocket_box [OF wf_box [OF w] assms(2)] by (simp add: find_sock_modc)
  moreover have "no_confirmation ?st3 (entitySA (conn_of ?st3 c))" using assms(9) by (simp add: no_confirmation_def)
  ultimately show ?thesis
    unfolding ra_dispatch [OF assms(4) v assms(7)] dec Let_def
    by (subst activation_granted) (simp_all add: Let_def modc_modc tcp_events_modc)
qed

lemma example_find: "FindConnectionByLogicalAddr example_accept sa = None"
  by (simp add: FindConnectionByLogicalAddr_def example_accept_sel IsConnectionRegitered_def)

theorem limit_never_reached_witness:
  "GetRegisteredConnectionNum example_accept < mcts_of example_accept"
  by (rule limit_never_reached [OF example_reachable, where c = 0])
    (simp_all add: example_accept_sel IsConnectionRegitered_def)

theorem routing_activated_witness:
  "\<exists>st'. RoutingActiveReqHandler example_env 0 [0x0E, 0x80, 0, 0, 0, 0, 0] 0 7 example_accept = Inr st' \<and>
     connState (conn_of st' 0) = STATE_ROUTING_ACTIVE \<and> testerSA (conn_of st' 0) = 0xE80"
proof -
  have r: "ra_request [0x0E, 0x80, 0, 0, 0, 0, 0] 0 7 0xE80 0 0"
    by (simp add: ra_request_def of_be16_def)
  show ?thesis
    using routing_activated [OF example_reachable, of 0 "[0x0E, 0x80, 0, 0, 0, 0, 0]" 0 7 "0xE80" 0 0] r
    by (simp add: example_accept_sel example_find IsConnectionRegitered_def no_confirmation_def
        GetAuthEnableStatus_def FindDoipSession_def Let_def)
qed

section \<open>The end of a connection\<close>

lemma emit_trace [simp]: "ds_trace (emit e st) = ds_trace st @ [e]"
  by (simp add: emit_def)

definition dereg_event :: "Connection \<Rightarrow> doip_event" where
  "dereg_event k = EvConnectionEvent (testerSA k) (entitySA k) TAF_DOIP_RESULT_SA_DEREGISTERED (localIface k)"

text \<open>The events of \<open>Stop\<close>: timers and blocks, then the socket.\<close>

lemma Stop_trace:
  "\<exists>es. ds_trace (Stop E c st) = ds_trace st @ es @ [EvSocketDelete (cliSockRef (conn_of st c))]
     \<and> (\<forall>sa ta r i. EvConnectionEvent sa ta r i \<notin> set es) \<and> (\<forall>s m. EvTcp s m \<notin> set es)"
  by (auto simp: Stop_def Let_def stop_timer_def release_in_def release_uds_def split: option.split)

lemma DeleteConnection_trace: "ds_trace (DeleteConnection E c st) = ds_trace (Stop E c st)"
  by (simp add: DeleteConnection_def Let_def split: option.split)

lemma Finalize_trace:
  "\<exists>es. ds_trace (Finalize E c st) = ds_trace st @ es @ [EvSocketDelete (cliSockRef (conn_of st c))]
     \<and> (dereg_event (conn_of st c) \<in> set es \<longleftrightarrow> connState (conn_of st c) = STATE_ROUTING_ACTIVE)
     \<and> (\<forall>s m. EvTcp s m \<notin> set es)"
proof -
  let ?st1 = "modc c (\<lambda>k. k\<lparr>connState := STATE_FINALIZE\<rparr>) st"
  let ?rep = "ReportConnectionEvent (testerSA (conn_of ?st1 c)) (entitySA (conn_of ?st1 c)) TAF_DOIP_RESULT_SA_DEREGISTERED
     (localIface (conn_of ?st1 c)) ?st1"
  have rep: "\<exists>es. ds_trace ?rep = ds_trace st @ dereg_event (conn_of st c) # es \<and> (\<forall>s m. EvTcp s m \<notin> set es)"
    by (auto simp: ReportConnectionEvent_def Let_def dereg_event_def split: option.split)
  show ?thesis
    using rep Stop_trace [of E c ?rep] Stop_trace [of E c ?st1]
    unfolding Finalize_eq Let_def DeleteConnection_trace
    by (cases "connState (conn_of st c) = STATE_ROUTING_ACTIVE") (auto simp: dereg_event_def)
qed

lemma Finalize_gone:
  assumes "wf st" "c \<in> set (ds_box st)"
  shows "FindConnectionBySocket (Finalize E c st) (cliSockRef (conn_of st c)) = None"
proof -
  have sub: "set (ds_box (Finalize E c st)) \<subseteq> set (ds_box st)" by (rule mset_sub_list(1) [OF Finalize_sub])
  have nin: "c \<notin> set (ds_box (Finalize E c st))" by (rule Finalize_not_in [OF wf_box [OF assms(1)]])
  have ne: "cliSockRef (conn_of st d) \<noteq> cliSockRef (conn_of st c)" if d: "d \<in> set (ds_box (Finalize E c st))" for d
  proof
    assume eq: "cliSockRef (conn_of st d) = cliSockRef (conn_of st c)"
    have "d \<in> set (ds_box st)" using sub d by (rule subsetD)
    then have "d = c" using eq wf_box [OF assms(1)] assms(2) unfolding box_ok_def inj_on_def by blast
    then show False using d nin by simp
  qed
  have sock: "cliSockRef (conn_of (Finalize E c st) d) = cliSockRef (conn_of st d)" for d by simp
  show ?thesis unfolding FindConnectionBySocket_None sock using ne by (metis imageE)
qed

text \<open>
  When the general inactivity timer of a connection expires, exactly this connection leaves the
  box and its socket is deleted as the last step; the other connections are untouched, the socket is
  unknown from then on, and the application is told that the tester is gone exactly if the routing
  was active.
\<close>

theorem inactivity_timeout:
  assumes "reachable E st" "c \<in> set (ds_box st)"
  shows "let k = conn_of st c; st' = GeneralTimerHandler E (cliSockRef k) st in
     mset (ds_box st') = mset (ds_box st) - {#c#} \<and> (\<forall>d. d \<noteq> c \<longrightarrow> conn_of st' d = conn_of st d)
     \<and> FindConnectionBySocket st' (cliSockRef k) = None
     \<and> (\<exists>es. ds_trace st' = ds_trace st @ es @ [EvSocketDelete (cliSockRef k)]
          \<and> (dereg_event k \<in> set es \<longleftrightarrow> connState k = STATE_ROUTING_ACTIVE))"
proof -
  note w = reachable_wf [OF assms(1)]
  let ?s1 = "emit (EvTimerStop c GeneralTimer) st"
  have w1: "wf ?s1" using w by simp
  have b: "mset (ds_box (Finalize E c ?s1)) = mset (ds_box st) - {#c#}"
    using Finalize_box [OF wf_box [OF w1], of c E] assms(2) by simp
  have g: "FindConnectionBySocket (Finalize E c ?s1) (cliSockRef (conn_of st c)) = None"
    using Finalize_gone [OF w1, of c E] assms(2) by simp
  have t: "\<exists>es. ds_trace (Finalize E c ?s1) = ds_trace st @ es @ [EvSocketDelete (cliSockRef (conn_of st c))]
     \<and> (dereg_event (conn_of st c) \<in> set es \<longleftrightarrow> connState (conn_of st c) = STATE_ROUTING_ACTIVE)"
    using Finalize_trace [of E c ?s1] by (auto simp: dereg_event_def)
  show ?thesis
    unfolding Let_def GeneralTimerHandler_def FindConnectionBySocket_box [OF wf_box [OF w] assms(2)] option.case
    using b g t by simp
qed

theorem inactivity_timeout_witness:
  "ds_box (GeneralTimerHandler example_env 7 example_accept) = []"
proof -
  have "mset (ds_box (GeneralTimerHandler example_env 7 example_accept)) = {#0#} - {#0#}"
    using inactivity_timeout [OF example_reachable, of 0]
    by (simp add: example_accept_sel Let_def)
  then show ?thesis by simp
qed

text \<open>
  A request from an address outside 0x0E00 to 0x0FFF is answered with the code 0x00 and ends
  the connection, whatever the state of the other connections, which it leaves untouched.
\<close>

theorem unknown_source_refused:
  assumes "reachable E st" "c \<in> set (ds_box st)" "plen = 7 \<or> plen = 11" "rdn buf p 2 = Inr la"
    and "of_be16 la < 0x0E00 \<or> 0x0FFF < of_be16 la"
  shows "\<exists>st' es. RoutingActiveReqHandler E c buf p plen st = Inr st'
     \<and> connState (conn_of st' c) = STATE_FINALIZE \<and> mset (ds_box st') = mset (ds_box st) - {#c#}
     \<and> (\<forall>d. d \<noteq> c \<longrightarrow> conn_of st' d = conn_of st d)
     \<and> ds_trace st' = ds_trace st
         @ tcp_events E c (ra_msg (ds_cfg st) (of_be16 la) (entitySA (conn_of st c)) RA_RES_UNKNOWN_SOURCE_ADDRESS) st
         @ es @ [EvSocketDelete (cliSockRef (conn_of st c))]
     \<and> (\<forall>s m. EvTcp s m \<notin> set es)"
proof -
  note w = reachable_wf [OF assms(1)]
  let ?m = "ra_msg (ds_cfg st) (of_be16 la) (entitySA (conn_of st c)) RA_RES_UNKNOWN_SOURCE_ADDRESS"
  let ?s1 = "logged (tcp_events E c ?m st) st"
  have s1: "send_ra_res E c (of_be16 la) (entitySA (conn_of st c)) RA_RES_UNKNOWN_SOURCE_ADDRESS st = ?s1"
    by (rule send_ra_res_logged [OF FindConnectionBySocket_box [OF wf_box [OF w] assms(2)]])
  have eq: "RoutingActiveReqHandler E c buf p plen st = Inr (Finalize E c ?s1)"
    using assms(3-5) by (auto simp: RoutingActiveReqHandler_def Let_def ra_errOut_def s1)
  have b: "box_ok ?s1" using wf_box [OF w] by (simp add: box_ok_def)
  obtain es where es: "ds_trace (Finalize E c ?s1) = ds_trace ?s1 @ es @ [EvSocketDelete (cliSockRef (conn_of ?s1 c))]"
      "\<forall>s m. EvTcp s m \<notin> set es" using Finalize_trace [of E c ?s1] by auto
  show ?thesis
    unfolding eq using Finalize_box [OF b, of c E] assms(2) es by auto
qed

theorem unknown_source_refused_witness:
  "\<exists>st'. RoutingActiveReqHandler example_env 0 [0x01, 0x00, 0, 0, 0, 0, 0] 0 7 example_accept = Inr st' \<and>
     ds_box st' = []"
proof -
  have r: "rdn [0x01, 0x00, 0, 0, 0, 0, 0] 0 2 = Inr [0x01, 0x00]" by (simp add: rdn_def)
  show ?thesis
    using unknown_source_refused [OF example_reachable _ _ r, of 0 7]
    by (auto simp: example_accept_sel of_be16_def)
qed

section \<open>Arbitration by alive check\<close>

text \<open>
  A request from an address that another connection \<open>d\<close> has registered decides nothing yet: an
  alive check request goes out on the socket of \<open>d\<close>, whose alive check timer starts, and \<open>d\<close>
  remembers the requester.
\<close>

theorem arbitration_starts:
  assumes "wf st" "c \<in> set (ds_box st)" "\<not> IsConnectionRegitered (conn_of st c)"
    and "ra_request buf p plen sa ty oem" "0x0E00 \<le> sa" "sa \<le> 0x0FFF" "ty < 2 \<or> 0xDF < ty"
    and "FindConnectionByLogicalAddr st sa = Some d" "\<not> singleAliveCheckFlag (conn_of st d)"
  shows "let st1 = logged [EvTimerStop c InitialTimer] st in
     RoutingActiveReqHandler E c buf p plen st = Inr
       (logged (tcp_events E d (alive_msg (ds_cfg st)) st1 @ [EvTimerStart d AliveCheckTimer])
         (modc d (\<lambda>k. k\<lparr>routingConnectionPtr := Some c, singleAliveCheckFlag := True\<rparr>)
           (modc c (\<lambda>k. k\<lparr>raTesterSa := sa, authInfo := oem\<rparr>) st1)))"
proof -
  note w = assms(1)
  have v: "valid_sa sa" using assms by (simp add: valid_sa_def)
  note d = FindConnectionByLogicalAddr_Some [OF assms(8)]
  then have dc: "d \<noteq> c" using assms(3) by auto
  let ?st1 = "logged [EvTimerStop c InitialTimer] st"
  let ?st2 = "modc c (\<lambda>k. k\<lparr>raTesterSa := sa, authInfo := oem\<rparr>) ?st1"
  let ?st3 = "modc d (\<lambda>k. k\<lparr>routingConnectionPtr := Some c\<rparr>) ?st2"
  have st2: "modc c (\<lambda>k. k\<lparr>authInfo := oem\<rparr>) (emit (EvTimerStop c InitialTimer)
       (modc c (\<lambda>k. k\<lparr>raTesterSa := sa\<rparr>) st)) = ?st2"
    by (simp add: emit_logged modc_logged modc_modc)
  have n: "FindConnectionByLogicalAddr ?st2 sa = Some d" "singleAliveCheckFlag (conn_of ?st2 d) = False"
    "IsConnectionRegitered (conn_of ?st2 c) = False"
    using assms(3,8,9) dc
    by (simp_all add: find_la_modc emit_logged [symmetric] find_la.emit IsConnectionRegitered_def)
  have "0 < length (filter (\<lambda>c. IsConnectionRegitered (conn_of st c)) (ds_box st))"
    using d by (auto simp: filter_empty_conv)
  moreover have "GetRegisteredConnectionNum ?st2 = GetRegisteredConnectionNum st"
    by (simp add: reg_num_modc emit_logged [symmetric] reg_num.emit)
  ultimately have r: "GetRegisteredConnectionNum ?st2 \<noteq> 0" by (simp add: GetRegisteredConnectionNum_def)
  have "FindConnectionBySocket ?st3 (cliSockRef (conn_of ?st3 d)) = Some d"
    using FindConnectionBySocket_box [OF wf_box [OF w] conjunct1 [OF d]] dc by (simp add: find_sock_modc)
  then have al: "send_alive_req E d ?st3 = logged (tcp_events E d (alive_msg (ds_cfg st)) ?st1) ?st3"
    by (subst send_alive_logged) (simp_all add: tcp_events_modc)
  show ?thesis
    unfolding ra_dispatch [OF assms(4) v assms(7)] ra_decide_def Let_def st2 n option.case al
    using r dc by (simp add: emit_logged modc_logged modc_modc logged_append)
qed

lemma alive_timer_single:
  assumes "FindConnectionBySocket st s = Some d"
    and "singleAliveCheckFlag (conn_of st d)" "\<not> allAliveCheckFlag (conn_of st d)"
    and "routingConnectionPtr (conn_of st d) = Some c" "\<not> IsConnectionRegitered (conn_of st c)"
  shows "AliveCheckTimerHandler E s st =
     Finalize E d (ConnectionStateMachine E c STATE_PENDING_FOR_AUTH (authInfo (conn_of st c))
       (modc c (\<lambda>k. k\<lparr>testerSA := raTesterSa k\<rparr>) (emit (EvTimerStop d AliveCheckTimer) st)))"
  using assms by (simp add: AliveCheckTimerHandler_def Let_def)

lemma alive_response_single:
  assumes "rdn buf p 2 = Inr la" "of_be16 la = testerSA (conn_of st d)"
    and "singleAliveCheckFlag (conn_of st d)" "\<not> allAliveCheckFlag (conn_of st d)"
  shows "AliveCheckResHandler E d buf p 2 st = Inr (reject_routing E d RA_RES_SA_REGISTED_DIFFERENT_SOCKET
     (modc d (\<lambda>k. k\<lparr>singleAliveCheckFlag := False\<rparr>) (stop_timer E d AliveCheckTimer st)))"
  using assms by (simp add: AliveCheckResHandler_def Let_def)

text \<open>
  The connection \<open>d\<close> that an alive check asks answers with its own address: it keeps its
  registration, and the requester that waits is refused with the code 0x03 and leaves the box.
\<close>

theorem arbitration_alive:
  assumes "wf st" "d \<in> set (ds_box st)" "c \<in> set (ds_box st)" "c \<noteq> d"
    and "rdn buf p 2 = Inr la" "of_be16 la = testerSA (conn_of st d)"
    and "singleAliveCheckFlag (conn_of st d)" "\<not> allAliveCheckFlag (conn_of st d)"
    and "routingConnectionPtr (conn_of st d) = Some c" "\<not> IsConnectionRegitered (conn_of st c)"
  shows "\<exists>st'. AliveCheckResHandler E d buf p 2 st = Inr st'
     \<and> mset (ds_box st') = mset (ds_box st) - {#c#} \<and> connState (conn_of st' c) = STATE_FINALIZE
     \<and> conn_of st' d = (conn_of st d)\<lparr>singleAliveCheckFlag := False\<rparr>
     \<and> EvTcp (cliSockRef (conn_of st c)) (ra_msg (ds_cfg st) (raTesterSa (conn_of st c)) (entitySA (conn_of st c))
           RA_RES_SA_REGISTED_DIFFERENT_SOCKET) \<in> set (ds_trace st')"
proof -
  note w = assms(1)
  let ?s1 = "modc d (\<lambda>k. k\<lparr>singleAliveCheckFlag := False\<rparr>) (stop_timer E d AliveCheckTimer st)"
  let ?m = "ra_msg (ds_cfg st) (raTesterSa (conn_of st c)) (entitySA (conn_of st c)) RA_RES_SA_REGISTED_DIFFERENT_SOCKET"
  let ?s2 = "logged (tcp_events E c ?m ?s1) ?s1"
  have f: "FindConnectionBySocket ?s1 (cliSockRef (conn_of ?s1 c)) = Some c"
    using FindConnectionBySocket_box [OF wf_box [OF w] assms(3)] assms(4) by (simp add: find_sock_modc find_sock.stop_timer)
  have s2: "send_ra_res E c (raTesterSa (conn_of ?s1 c)) (entitySA (conn_of ?s1 c)) RA_RES_SA_REGISTED_DIFFERENT_SOCKET ?s1 = ?s2"
    unfolding send_ra_res_logged [OF f] using assms(4) by simp
  have "reject_routing E d RA_RES_SA_REGISTED_DIFFERENT_SOCKET ?s1 = Finalize E c ?s2"
    unfolding s2 [symmetric] using assms(4,9,10) by (simp add: reject_routing_def)
  then have eq: "AliveCheckResHandler E d buf p 2 st = Inr (Finalize E c ?s2)"
    unfolding alive_response_single [OF assms(5-8)] by simp
  have b: "box_ok ?s2" by (rule box_ok_cong [OF wf_box [OF w]]) simp_all
  obtain es where es: "ds_trace (Finalize E c ?s2) = ds_trace ?s2 @ es" using Finalize_trace [of E c ?s2] by auto
  show ?thesis
    unfolding eq using Finalize_box [OF b, of c E] assms(3,4) es by (auto simp: tcp_events_def)
qed

text \<open>
  The connection \<open>d\<close> that an alive check asks does not answer in time: it leaves the box, and
  the requester that waits is activated with the address it asked for.
\<close>

theorem arbitration_timeout:
  assumes "wf st" "d \<in> set (ds_box st)" "c \<in> set (ds_box st)" "c \<noteq> d"
    and "singleAliveCheckFlag (conn_of st d)" "\<not> allAliveCheckFlag (conn_of st d)"
    and "routingConnectionPtr (conn_of st d) = Some c" "\<not> IsConnectionRegitered (conn_of st c)"
    and "no_confirmation st (entitySA (conn_of st c))"
  shows "let st' = AliveCheckTimerHandler E (cliSockRef (conn_of st d)) st; sa = raTesterSa (conn_of st c) in
     mset (ds_box st') = mset (ds_box st) - {#d#} \<and> connState (conn_of st' d) = STATE_FINALIZE
     \<and> conn_of st' c = (conn_of st c)\<lparr>testerSA := sa, connState := STATE_ROUTING_ACTIVE\<rparr>
     \<and> EvTcp (cliSockRef (conn_of st c)) (ra_msg (ds_cfg st) sa (entitySA (conn_of st c))
           RA_RES_ROUTING_SUCCESSFULLY_ACTIVATED) \<in> set (ds_trace st')"
proof -
  note w = assms(1)
  let ?sa = "raTesterSa (conn_of st c)"
  let ?s1 = "modc c (\<lambda>k. k\<lparr>testerSA := raTesterSa k\<rparr>) (emit (EvTimerStop d AliveCheckTimer) st)"
  have f: "FindConnectionBySocket ?s1 (cliSockRef (conn_of ?s1 c)) = Some c"
    using FindConnectionBySocket_box [OF wf_box [OF w] assms(3)] by (simp add: find_sock_modc find_sock.emit)
  have nc: "no_confirmation ?s1 (entitySA (conn_of ?s1 c))"
    using assms(9) by (simp add: no_confirmation_def FindDoipSession_def)
  let ?s2 = "ConnectionStateMachine E c STATE_PENDING_FOR_AUTH (authInfo (conn_of st c)) ?s1"
  note act = activation_granted [OF nc f, of E "authInfo (conn_of st c)", unfolded Let_def]
  have eq: "AliveCheckTimerHandler E (cliSockRef (conn_of st d)) st = Finalize E d ?s2"
    by (rule alive_timer_single [OF FindConnectionBySocket_box [OF wf_box [OF w] assms(2)] assms(5-8)])
  have b: "box_ok ?s2" unfolding act by (rule box_ok_cong [OF wf_box [OF w]]) simp_all
  obtain es where es: "ds_trace (Finalize E d ?s2) = ds_trace ?s2 @ es" using Finalize_trace [of E d ?s2] by auto
  have box2: "ds_box ?s2 = ds_box st" unfolding act by simp
  have "conn_of ?s2 c = (conn_of st c)\<lparr>testerSA := ?sa, connState := STATE_ROUTING_ACTIVE\<rparr>"
    unfolding act by simp
  moreover have "EvTcp (cliSockRef (conn_of st c)) (ra_msg (ds_cfg st) ?sa (entitySA (conn_of st c))
           RA_RES_ROUTING_SUCCESSFULLY_ACTIVATED) \<in> set (ds_trace ?s2)"
    unfolding act by (simp add: tcp_events_def)
  ultimately show ?thesis
    unfolding Let_def eq using Finalize_box [OF b, of d E] assms(2,4) es box2 by simp
qed

text \<open>
  Two connections on the sockets 7 and 8: the first has the address 0x0E80 registered, the second
  asks for it; \<open>asked\<close> tells whether the alive check is under way.
\<close>

definition example_two :: "bool \<Rightarrow> doip_state" where
  "example_two asked =
     \<lparr>ds_cfg = example_config,
      ds_conns = (\<lambda>c. example_conn)
        (0 := example_conn\<lparr>connState := STATE_ROUTING_ACTIVE, testerSA := 0xE80, raTesterSa := 0xE80,
           singleAliveCheckFlag := asked, routingConnectionPtr := (if asked then Some 1 else None)\<rparr>,
         1 := example_conn\<lparr>cliSockRef := 8, raTesterSa := 0xE80\<rparr>),
      ds_next = 2, ds_box = [0, 1], ds_aliveCheckNcts = 0, ds_udsSize = 65536, ds_blocks = 0,
      ds_sessions = [example_session], ds_trace = []\<rparr>"

lemma example_two_sel:
  "ds_box (example_two b) = [0, 1]" "ds_cfg (example_two b) = example_config" "ds_next (example_two b) = 2"
  "ds_sessions (example_two b) = [example_session]" "ds_udsSize (example_two b) = 65536"
  "conn_of (example_two b) 0 = example_conn\<lparr>connState := STATE_ROUTING_ACTIVE, testerSA := 0xE80, raTesterSa := 0xE80,
           singleAliveCheckFlag := b, routingConnectionPtr := (if b then Some 1 else None)\<rparr>"
  "conn_of (example_two b) 1 = example_conn\<lparr>cliSockRef := 8, raTesterSa := 0xE80\<rparr>"
  "conn_of (example_two b) (Suc 0) = example_conn\<lparr>cliSockRef := 8, raTesterSa := 0xE80\<rparr>"
  by (simp_all add: example_two_def)

lemma wf_example_two: "wf (example_two b)"
proof -
  have lt: "c < 2 \<longleftrightarrow> c = 0 \<or> c = (1 :: nat)" for c by auto
  have m: "mcts_of (example_two b) = 10"
    by (simp add: mcts_of_def example_two_sel GetMaxConcurrentSockNum_def parsed_def)
  show ?thesis
    unfolding wf_def m
    by (auto simp: example_two_sel box_ok_def lt conn_ok_def activating_def live_def valid_sa_def
        buf_ok_empty new_Connection_def)
qed

lemma example_two_no_confirmation: "no_confirmation (example_two b) 0x201"
  by (simp add: no_confirmation_def example_two_sel GetAuthEnableStatus_def FindDoipSession_def)

lemma example_two_find: "FindConnectionByLogicalAddr (example_two b) 0xE80 = Some 0"
  by (simp add: FindConnectionByLogicalAddr_def example_two_sel IsConnectionRegitered_def
      IsLogicalAddressMatch_def new_Connection_def)

theorem arbitration_starts_witness:
  "\<exists>st'. RoutingActiveReqHandler example_env 1 [0x0E, 0x80, 0, 0, 0, 0, 0] 0 7 (example_two False) = Inr st' \<and>
     routingConnectionPtr (conn_of st' 0) = Some 1"
proof -
  have r: "ra_request [0x0E, 0x80, 0, 0, 0, 0, 0] 0 7 0xE80 0 0"
    by (simp add: ra_request_def of_be16_def)
  show ?thesis
    using arbitration_starts [OF wf_example_two, of 1 False "[0x0E, 0x80, 0, 0, 0, 0, 0]" 0 7 "0xE80" 0 0 0] r
    by (simp add: example_two_sel example_two_find IsConnectionRegitered_def Let_def new_Connection_def)
qed

theorem arbitration_alive_witness:
  "\<exists>st'. AliveCheckResHandler example_env 0 [0x0E, 0x80] 0 2 (example_two True) = Inr st' \<and>
     mset (ds_box st') = {#0#}"
proof -
  have "rdn [0x0E, 0x80] 0 2 = Inr [0x0E, 0x80]" by (simp add: rdn_def)
  then show ?thesis
    using arbitration_alive [OF wf_example_two, of 0 True 1 "[0x0E, 0x80]" 0 "[0x0E, 0x80]"]
    by (auto simp: example_two_sel IsConnectionRegitered_def new_Connection_def of_be16_def)
qed

theorem arbitration_timeout_witness:
  "mset (ds_box (AliveCheckTimerHandler example_env 7 (example_two True))) = {#1#}"
  using arbitration_timeout [OF wf_example_two, of 0 True 1] example_two_no_confirmation [of True]
  by (simp add: example_two_sel IsConnectionRegitered_def new_Connection_def Let_def)

end
