(* ===== verification/Doip_Delivery.thy ===== *)
theory Doip_Delivery
  imports Doip_Activation
begin

text \<open>
  Diagnostic messages from the wire to the application and back: the acceptance of headers, the
  delivery of a message that arrives in one piece or in several, the acknowledgements, and the
  faults that a peer can provoke.
\<close>

section \<open>Headers\<close>

lemma supported_version_byte: "supported_version (version_byte cfg)"
  by (simp add: supported_version_def version_byte_def)

lemma u32n_mds:
  assumes "8 \<le> m" "m < 2 ^ 32"
  shows "u32n (m + 2 ^ 32 - TAF_DOIP_HEADER_GENERIC_LENGTH) = m - 8"
proof -
  have "m + 2 ^ 32 - 8 = (m - 8) + 2 ^ 32" using assms(1) by simp
  then have "u32n (m + 2 ^ 32 - 8) = u32n (m - 8)" by (metis mod_add_self2)
  then show ?thesis using assms(2) by simp
qed

text \<open>A header as a peer packs it, announcing \<open>n\<close> bytes of type \<open>t\<close>.\<close>

definition peer_header :: "taf_doip_Config \<Rightarrow> u16 \<Rightarrow> u32 \<Rightarrow> taf_doipHeader" where
  "peer_header cfg t n = \<lparr>protocolVer = version_byte cfg, invProtocolVer = NOT (version_byte cfg),
     payloadType = t, payloadLen = n\<rparr>"

lemma peer_header_accepted:
  assumes "connType (conn_of st c) = TYPE_SVR"
    and "t \<in> {TYPE_ROUTING_ACTIVE_REQUEST, TYPE_ALIVE_CHECK_REQUEST, TYPE_ALIVE_CHECK_RESPONSE, TYPE_DIAGNOSTIC_MESSAGE}"
    and "8 \<le> mds_of st" "mds_of st < 2 ^ 32" "unat n \<le> mds_of st - 8"
    and "t \<noteq> TYPE_DIAGNOSTIC_MESSAGE \<longrightarrow> unat n \<le> TAF_DOIP_MAX_BUFFER_SIZE - TAF_DOIP_HEADER_GENERIC_LENGTH"
  shows "CheckDoipHeader E c (peer_header cfg t n) k st = Inr (TAF_DOIP_RESULT_OK, st)"
proof -
  have "header_nack TYPE_SVR (mds_of st) (peer_header cfg t n) = None"
    unfolding header_nack_def u32n_mds [OF assms(3,4)]
    using assms(2,5,6) by (auto simp: peer_header_def supported_version_byte)
  then show ?thesis using assms(1) by (simp add: CheckDoipHeader_def)
qed

lemma Unpack_at:
  assumes "take 8 (drop p buf) = PackGenericHeader cfg t n"
  shows "UnpackHeaderStruct buf p = Inr (peer_header cfg t n)"
proof -
  have len: "p + 8 \<le> length buf" using arg_cong [OF assms, of length] by (simp add: min_def split: if_splits)
  have "buf = take p buf @ PackGenericHeader cfg t n @ drop (p + 8) buf"
    unfolding assms [symmetric] by (metis append_take_drop_id drop_drop add.commute)
  then show ?thesis
    using UnpackHeaderStruct_Pack [of "take p buf" cfg t n "drop (p + 8) buf"] len
    by (simp add: peer_header_def)
qed

section \<open>A complete message in the block\<close>

text \<open>The acknowledgement of a message from \<open>sa\<close> to \<open>ta\<close>.\<close>

definition ack_msg :: "taf_doip_Config \<Rightarrow> u16 \<Rightarrow> u16 \<Rightarrow> byte list" where
  "ack_msg cfg sa ta = frame_bytes cfg (TYPE_DIAGNOSTIC_POSITIVE_ACK, be16 ta @ be16 sa @ [0])"

text \<open>The target is the entity itself.\<close>

definition own_address :: "doip_state \<Rightarrow> u16 \<Rightarrow> bool" where
  "own_address st ta \<longleftrightarrow> GetEntityLogicalAddr (Some (ds_cfg st)) = Inr ta
     \<and> \<not> IsFunctionalAddress (Some (ds_cfg st)) ta"

lemma of_be16_append: "of_be16 (be16 w @ xs) = w"
  using of_be16_be16 [of w] by (simp add: of_be16_def be16_def)

lemma rdn_prefix:
  assumes "take n d = be16 sa @ be16 ta @ uds" "n = 4 + length uds" "n \<le> length d"
  shows "rdn d 0 2 = Inr (be16 sa)" "rdn d 2 2 = Inr (be16 ta)"
proof -
  have d: "d = be16 sa @ be16 ta @ uds @ drop n d"
    using append_take_drop_id [of n d] assms(1) by simp
  show "rdn d 0 2 = Inr (be16 sa)" "rdn d 2 2 = Inr (be16 ta)"
    by (subst d, simp add: rdn_def)+
qed

lemma delivery_accepted:
  assumes "udsBuf (conn_of st c) = Some (blk, d)" "take (udsTotalLen (conn_of st c)) d = be16 sa @ be16 ta @ uds"
    and "udsTotalLen (conn_of st c) = 4 + length uds" "uds \<noteq> []" "udsTotalLen (conn_of st c) \<le> length d"
    and "connState (conn_of st c) = STATE_ROUTING_ACTIVE" "testerSA (conn_of st c) = sa"
    and "4 + length uds \<le> mds_of st" "4 + length uds \<le> ds_udsSize st" "own_address st ta"
    and "FindConnectionBySocket st (cliSockRef (conn_of st c)) = Some c"
  shows "DiagnosticMsgSvrSecondHandler E c st = Inr (TAF_DOIP_RESULT_OK,
     let ind = EvQueueIndication sa ta TA_PHYSICAL (localIface (conn_of st c)) blk (be16 sa @ be16 ta @ uds) in
     logged (ind # tcp_events E c (ack_msg (ds_cfg st) sa ta) (logged [ind] st))
       (modc c (\<lambda>k. k\<lparr>udsTotalLen := 0, udsReceived := 0, udsBuf := None\<rparr>) st))"
proof -
  let ?k = "conn_of st c"
  let ?ind = "EvQueueIndication sa ta TA_PHYSICAL (localIface ?k) blk (be16 sa @ be16 ta @ uds)"
  let ?st2 = "modc c (\<lambda>k. k\<lparr>udsTotalLen := 0, udsReceived := 0, udsBuf := None\<rparr>) (logged [?ind] st)"
  have inf: "InformUdsMessage E sa ta (blk, d) (udsTotalLen ?k) (localIface ?k) st = (TAF_DOIP_RESULT_OK, logged [?ind] st)"
    using assms(2,3,10) by (simp add: InformUdsMessage_def own_address_def emit_logged)
  have f: "FindConnectionBySocket ?st2 (cliSockRef (conn_of ?st2 c)) = Some c"
    using assms(11) by (simp add: find_sock_modc)
  have ack: "perform E (DiagPositiveACK (ds_cfg ?st2) (tcp_link (cliSockRef (conn_of ?st2 c))) ta sa) ?st2
      = logged (tcp_events E c (ack_msg (ds_cfg st) sa ta) (logged [?ind] st)) ?st2"
    unfolding tcp_responses by (subst perform_frame [OF f]) (simp_all add: ack_msg_def tcp_events_modc)
  have r: "rdn d 0 2 = Inr (be16 sa)" "rdn d 2 2 = Inr (be16 ta)"
    using rdn_prefix [OF assms(2)] assms(3,5) by simp_all
  have n: "\<not> udsTotalLen ?k \<le> TAF_DOIP_LOGICAL_ADDRESS_LENGTH * 2" "\<not> udsTotalLen ?k > mds_of st"
    "\<not> udsTotalLen ?k > ds_udsSize st"
    using assms(3,4,8,9) by (cases uds; simp)+
  show ?thesis
    unfolding DiagnosticMsgSvrSecondHandler_def Let_def if_not_P [OF n(1)] assms(1) option.case snd_conv r mbind_simps
      of_be16_be16
    using assms(6,7) n(2,3) inf ack
    by (simp add: modc_logged logged_append)
qed

section \<open>The first part of a message\<close>

text \<open>The state after the first \<open>rlen\<close> bytes of a message of \<open>plen\<close> bytes went to a new block.\<close>

definition first_part :: "conn \<Rightarrow> byte list \<Rightarrow> nat \<Rightarrow> nat \<Rightarrow> doip_state \<Rightarrow> doip_state" where
  "first_part c d plen rlen st =
     modc c (\<lambda>k. k\<lparr>udsBuf := Some (ds_blocks st, d), udsTotalLen := plen, udsReceived := rlen\<rparr>)
       (logged [EvAllocUds (ds_blocks st)] (st\<lparr>ds_blocks := ds_blocks st + 1\<rparr>))"

lemma first_part_sel [simp]:
  "ds_cfg (first_part c d n r st) = ds_cfg st" "ds_box (first_part c d n r st) = ds_box st"
  "ds_sessions (first_part c d n r st) = ds_sessions st" "ds_udsSize (first_part c d n r st) = ds_udsSize st"
  "ds_trace (first_part c d n r st) = ds_trace st @ [EvAllocUds (ds_blocks st)]"
  "ds_conns (first_part c d n r st) = (ds_conns st)(c := (ds_conns st c)\<lparr>udsBuf := Some (ds_blocks st, d),
      udsTotalLen := n, udsReceived := r\<rparr>)"
  by (simp_all add: first_part_def)

lemma alloc_uds_new:
  assumes "udsBuf (conn_of st c) = None" "ev_try_alloc E (ds_trace st) = Some content"
  shows "\<exists>d. length d = ds_udsSize st \<and> alloc_uds E c st = Some (first_part c d 0 0 st)"
proof -
  let ?d = "take (ds_udsSize st) (content @ replicate (ds_udsSize st) 0)"
  have "alloc_uds E c st = Some (first_part c ?d 0 0 st)"
    using assms by (simp add: alloc_uds_def Let_def first_part_def emit_logged)
  then show ?thesis by (intro exI [of _ ?d]) simp
qed

lemma first_handler:
  assumes "udsBuf (conn_of st c) = None" "ev_try_alloc E (ds_trace st) = Some content"
    and "payload + rlen \<le> length buf" "rlen \<le> ds_udsSize st"
  shows "\<exists>d. length d = ds_udsSize st \<and> take (min plen rlen) d = take (min plen rlen) (drop payload buf)
     \<and> DiagnosticMsgFirstHandler E c buf payload plen rlen st =
        (if plen \<le> rlen \<or> rlen = ds_udsSize st
         then DiagnosticMsgSecondHandler E c (first_part c d plen rlen st)
         else Inr (TAF_DOIP_RESULT_OK, first_part c d plen rlen st))"
proof -
  obtain d0 where d0: "length d0 = ds_udsSize st" "alloc_uds E c st = Some (first_part c d0 0 0 st)"
    using alloc_uds_new [OF assms(1,2)] by blast
  have m: "(if plen > rlen then rlen else plen) = min plen rlen" by simp
  let ?bs = "take (min plen rlen) (drop payload buf)"
  have r: "rdn buf payload (min plen rlen) = Inr ?bs" using assms(3) by (simp add: rdn_def)
  have lbs: "length ?bs = min plen rlen" using assms(3) by simp
  then have le: "length ?bs \<le> length d0" using assms(4) d0(1) by linarith
  let ?d = "?bs @ drop (length ?bs) d0"
  have w: "wrn d0 0 ?bs = Inr ?d" using le by (simp add: wrn_def)
  have fp: "modc c (\<lambda>k. k\<lparr>udsBuf := Some (ds_blocks st, ?d), udsTotalLen := plen, udsReceived := rlen\<rparr>)
      (first_part c d0 0 0 st) = first_part c ?d plen rlen st"
    by (simp add: first_part_def modc_modc)
  have ub: "udsBuf (conn_of (first_part c d0 0 0 st) c) = Some (ds_blocks st, d0)" by simp
  have "DiagnosticMsgFirstHandler E c buf payload plen rlen st =
        (if plen \<le> rlen \<or> rlen = ds_udsSize st
         then DiagnosticMsgSecondHandler E c (first_part c ?d plen rlen st)
         else Inr (TAF_DOIP_RESULT_OK, first_part c ?d plen rlen st))"
    unfolding DiagnosticMsgFirstHandler_def d0(2) option.case ub prod.case m r mbind_simps w Let_def fp
    by simp
  moreover have "length ?d = ds_udsSize st" using le d0(1) by simp
  moreover have "take (min plen rlen) ?d = ?bs" using lbs by simp
  ultimately show ?thesis by blast
qed

text \<open>The connection \<open>c\<close> is ready for diagnostic messages from \<open>sa\<close>.\<close>

definition diag_ready :: "doip_state \<Rightarrow> conn \<Rightarrow> u16 \<Rightarrow> u16 \<Rightarrow> bool" where
  "diag_ready st c sa ta \<longleftrightarrow> wf st \<and> c \<in> set (ds_box st) \<and> connState (conn_of st c) = STATE_ROUTING_ACTIVE
     \<and> testerSA (conn_of st c) = sa \<and> own_address st ta"

lemma diag_ready_sel:
  assumes "diag_ready st c sa ta"
  shows "wf st" "c \<in> set (ds_box st)" "connState (conn_of st c) = STATE_ROUTING_ACTIVE"
    "testerSA (conn_of st c) = sa" "own_address st ta" "connType (conn_of st c) = TYPE_SVR"
    "FindConnectionBySocket st (cliSockRef (conn_of st c)) = Some c" "1500 \<le> ds_udsSize st"
  using assms FindConnectionBySocket_box [of st c] wf_conn [of st c]
  by (auto simp: diag_ready_def conn_ok_def wf_box wf_in_box wf_usize)

text \<open>The events of a delivery, and the connection behind it.\<close>

definition delivery_events :: "doip_env \<Rightarrow> conn \<Rightarrow> block \<Rightarrow> u16 \<Rightarrow> u16 \<Rightarrow> byte list \<Rightarrow> doip_state \<Rightarrow> doip_event list" where
  "delivery_events E c blk sa ta uds st =
     (let ind = EvQueueIndication sa ta TA_PHYSICAL (localIface (conn_of st c)) blk (be16 sa @ be16 ta @ uds) in
      ind # tcp_events E c (ack_msg (ds_cfg st) sa ta) (logged [ind] st))"

lemma mds_of_lt: "mds_of st < 2 ^ 32"
  using unsigned_less [of "case GetMaxDataSize (Some (ds_cfg st)) of Inr m \<Rightarrow> m | Inl e \<Rightarrow> (TAF_DOIP_MDS_DEFAULT :: u32)"]
  by (simp add: mds_of_def)

lemma complete_block_delivered:
  assumes "diag_ready st c sa ta" "uds \<noteq> []" "4 + length uds \<le> mds_of st" "4 + length uds \<le> ds_udsSize st"
    and "udsBuf (conn_of st c) = Some (blk, d)" "length d = ds_udsSize st"
    and "udsTotalLen (conn_of st c) = 4 + length uds" "take (4 + length uds) d = be16 sa @ be16 ta @ uds"
  shows "DiagnosticMsgSecondHandler E c st = Inr (TAF_DOIP_RESULT_OK,
     logged (delivery_events E c blk sa ta uds st)
       (modc c (\<lambda>k. k\<lparr>udsTotalLen := 0, udsReceived := 0, udsBuf := None\<rparr>) st))"
  unfolding DiagnosticMsgSecondHandler_def diag_ready_sel(6) [OF assms(1)] delivery_events_def Let_def
  using delivery_accepted [OF assms(5), of sa ta uds E] diag_ready_sel [OF assms(1)] assms(2-8)
  by (simp add: Let_def)

section \<open>One message in the reception buffer\<close>

lemma diag_ready_cong:
  assumes "diag_ready st c sa ta" "wf s" "ds_box s = ds_box st" "ds_cfg s = ds_cfg st"
    and "connState (conn_of s c) = connState (conn_of st c)" "testerSA (conn_of s c) = testerSA (conn_of st c)"
  shows "diag_ready s c sa ta"
  using assms by (simp add: diag_ready_def own_address_def)

lemma diag_ready_first_part:
  assumes "diag_ready st c sa ta" "length d = ds_udsSize st" "r \<le> ds_udsSize st"
  shows "diag_ready (first_part c d n r st) c sa ta"
proof (rule diag_ready_cong [OF assms(1)])
  note w = diag_ready_sel(1) [OF assms(1)]
  let ?s = "logged [EvAllocUds (ds_blocks st)] (st\<lparr>ds_blocks := ds_blocks st + 1\<rparr>)"
  have "safe_step st ?s" unfolding emit_logged [symmetric] using safe_refl [OF w] by (simp add: safe_blocks)
  then have "safe_step st (first_part c d n r st)"
    unfolding first_part_def
    by (rule store_uds_safe(1)) (use assms(2,3) wf_in_box [OF w diag_ready_sel(2) [OF assms(1)]] in \<open>simp_all add: logged_def\<close>)
  then show "wf (first_part c d n r st)" by (simp add: safe_step_def)
qed simp_all

text \<open>The buffer holds \<open>xs\<close> as its unread data.\<close>

definition unread :: "taf_doip_Buffer \<Rightarrow> byte list" where
  "unread b = take (buf_dataSize b) (drop (buf_dataPos b) (buf_data b))"

lemma unread_length: "buf_ok b \<Longrightarrow> length (unread b) = buf_dataSize b"
  by (auto simp: unread_def buf_ok_def)

definition diag_frame :: "taf_doip_Config \<Rightarrow> u16 \<Rightarrow> u16 \<Rightarrow> byte list \<Rightarrow> byte list" where
  "diag_frame cfg sa ta uds = frame_bytes cfg (TYPE_DIAGNOSTIC_MESSAGE, be16 sa @ be16 ta @ uds)"

lemma diag_frame_at:
  assumes "unread b = take n (diag_frame cfg sa ta uds)" "8 \<le> n" "buf_ok b" "n \<le> 12 + length uds"
  shows "UnpackHeaderStruct (buf_data b) (buf_dataPos b) =
      Inr (peer_header cfg TYPE_DIAGNOSTIC_MESSAGE (of_nat (4 + length uds)))"
    and "take (n - 8) (drop (buf_dataPos b + 8) (buf_data b)) = take (n - 8) (be16 sa @ be16 ta @ uds)"
    and "buf_dataSize b = n"
proof -
  have f: "diag_frame cfg sa ta uds = PackGenericHeader cfg TYPE_DIAGNOSTIC_MESSAGE (of_nat (4 + length uds)) @ be16 sa @ be16 ta @ uds"
    by (simp add: diag_frame_def frame_bytes_def)
  show n: "buf_dataSize b = n"
    using unread_length [OF assms(3)] assms(1,4) by (simp add: f)
  have "take 8 (unread b) = PackGenericHeader cfg TYPE_DIAGNOSTIC_MESSAGE (of_nat (4 + length uds))"
    using assms(1,2) by (simp add: f min_def)
  then have "take 8 (drop (buf_dataPos b) (buf_data b)) = PackGenericHeader cfg TYPE_DIAGNOSTIC_MESSAGE (of_nat (4 + length uds))"
    using n assms(2) by (simp add: unread_def min_def)
  then show "UnpackHeaderStruct (buf_data b) (buf_dataPos b) =
      Inr (peer_header cfg TYPE_DIAGNOSTIC_MESSAGE (of_nat (4 + length uds)))" by (rule Unpack_at)
  have "drop 8 (unread b) = take (n - 8) (be16 sa @ be16 ta @ uds)"
    using assms(1,2) by (simp add: f drop_take)
  then show "take (n - 8) (drop (buf_dataPos b + 8) (buf_data b)) = take (n - 8) (be16 sa @ be16 ta @ uds)"
    using n by (simp add: unread_def drop_take add.commute)
qed

lemma diag_header_passes:
  assumes "diag_ready st c sa ta" "12 + length uds \<le> mds_of st"
  shows "CheckDoipHeader E c (peer_header cfg TYPE_DIAGNOSTIC_MESSAGE (of_nat (4 + length uds))) k st
      = Inr (TAF_DOIP_RESULT_OK, st)"
    and "unat (of_nat (4 + length uds) :: u32) = 4 + length uds"
proof -
  show u: "unat (of_nat (4 + length uds) :: u32) = 4 + length uds"
    unfolding unat_of_nat using assms(2) mds_of_lt [of st] by simp
  show "CheckDoipHeader E c (peer_header cfg TYPE_DIAGNOSTIC_MESSAGE (of_nat (4 + length uds))) k st
      = Inr (TAF_DOIP_RESULT_OK, st)"
    by (rule peer_header_accepted) (use diag_ready_sel [OF assms(1)] assms(2) mds_of_lt u in simp_all)
qed

lemma ProcessDoipMessage_diag:
  assumes "inBuf (conn_of st c) = Some b" "12 \<le> buf_dataSize b"
    and "DiagnosticMsgFirstHandler E c (buf_data b) (buf_dataPos b + 8) plen (buf_dataSize b - 8) st
      = Inr (TAF_DOIP_RESULT_OK, st1)"
    and "inBuf (conn_of st1 c) = Some b1"
  shows "ProcessDoipMessage E c TYPE_DIAGNOSTIC_MESSAGE plen st
     = Inr (TAF_DOIP_RESULT_OK, set_buffer c (advance_buffer plen b1) st1)"
  using assms by (simp add: ProcessDoipMessage_def the_buffer_def)

text \<open>A pass of the loop over a diagnostic message that empties the buffer.\<close>

lemma consume_diag:
  assumes "inBuf (conn_of st c) = Some b" "8 \<le> buf_dataSize b"
    and "UnpackHeaderStruct (buf_data b) (buf_dataPos b) = Inr hdr" "payloadType hdr = TYPE_DIAGNOSTIC_MESSAGE"
    and "CheckDoipHeader E c hdr (buf_dataSize b) st = Inr (TAF_DOIP_RESULT_OK, st)"
    and "ProcessDoipMessage E c TYPE_DIAGNOSTIC_MESSAGE (unat (payloadLen hdr)) st
       = Inr (TAF_DOIP_RESULT_OK, set_buffer c b2 st1)"
    and "buf_dataSize b2 = 0"
    and "FindConnectionBySocket st s = Some c" "connState (conn_of st c) \<noteq> STATE_FINALIZE"
  shows "ConsumeTCPData E s st = Inr (stop_consuming c (set_buffer c (b2\<lparr>buf_dataPos := 0\<rparr>) st1))"
proof -
  have b2: "inBuf (conn_of (set_buffer c b2 st1) c) = Some b2" by (simp add: set_buffer_def)
  have one: "consume_one E c b st = Inr (Return, stop_consuming c (set_buffer c (b2\<lparr>buf_dataPos := 0\<rparr>) (set_buffer c b2 st1)))"
    using assms(3-7) b2 by (simp add: consume_one_def is_diag_type_def)
  have fold: "set_buffer c b' (set_buffer c b2 st1) = set_buffer c b' st1" for b'
    by (simp add: set_buffer_def modc_modc)
  have "consume_loop 5 E c st = Inr (False, stop_consuming c (set_buffer c (b2\<lparr>buf_dataPos := 0\<rparr>) st1))"
    using one assms(1,2,9) by (subst consume_loop.simps) (simp add: fold numeral_eq_Suc)
  then show ?thesis using assms(1,8) by (simp add: ConsumeTCPData_def)
qed

lemma advance_all: "u32n (plen + 8) \<ge> buf_dataSize b \<Longrightarrow> advance_buffer plen b = reset_buffer b"
  by (simp add: advance_buffer_def reset_buffer_def Let_def)

lemma reset_buffer_sel [simp]: "buf_dataSize (reset_buffer b) = 0" "(reset_buffer b)\<lparr>buf_dataPos := 0\<rparr> = reset_buffer b"
  by (simp_all add: reset_buffer_def)

text \<open>
  C13: a diagnostic message for the entity that lies complete in the reception buffer of a connection
  with active routing, from the tester address of the connection, reaches the application unchanged:
  one pass queues exactly its bytes, then acknowledges it to the tester, releases nothing else,
  and leaves an empty buffer. No other connection is touched.
\<close>

theorem diag_message_delivered:
  assumes "diag_ready st c sa ta" "inBuf (conn_of st c) = Some b" "unread b = diag_frame cfg sa ta uds"
    and "uds \<noteq> []" "12 + length uds \<le> mds_of st"
    and "udsBuf (conn_of st c) = None" "ev_try_alloc E (ds_trace st) = Some content"
  shows "\<exists>st'. ConsumeTCPData E (cliSockRef (conn_of st c)) st = Inr st'
     \<and> ds_trace st' = ds_trace st @ EvAllocUds (ds_blocks st)
         # delivery_events E c (ds_blocks st) sa ta uds (logged [EvAllocUds (ds_blocks st)] st)
     \<and> conn_of st' c = (conn_of st c)\<lparr>inBuf := Some (reset_buffer b), isConsuming := False,
         udsTotalLen := 0, udsReceived := 0\<rparr>
     \<and> (\<forall>d. d \<noteq> c \<longrightarrow> conn_of st' d = conn_of st d) \<and> ds_box st' = ds_box st"
proof -
  note ready = diag_ready_sel [OF assms(1)]
  have bok: "buf_ok b" using wf_conn [OF ready(1) wf_in_box [OF ready(1,2)]] assms(2) by (simp add: conn_ok_def)
  have fl: "length (diag_frame cfg sa ta uds) = 12 + length uds"
    by (simp add: diag_frame_def length_frame_bytes)
  have un: "unread b = take (12 + length uds) (diag_frame cfg sa ta uds)" using assms(3) fl by simp
  note at = diag_frame_at [OF un _ bok]
  have size: "buf_dataSize b = 12 + length uds" using at(3) by simp
  have fits: "12 + length uds \<le> 1500" using bok size by (simp add: buf_ok_def)
  let ?n = "4 + length uds"
  note hdr = diag_header_passes [OF assms(1,5)]
  have "buf_dataPos b + 8 + ?n \<le> length (buf_data b)" "?n \<le> ds_udsSize st"
    using bok size fits ready(8) by (simp_all add: buf_ok_def)
  then obtain d where d: "length d = ds_udsSize st"
      "take ?n d = take ?n (drop (buf_dataPos b + 8) (buf_data b))"
      "DiagnosticMsgFirstHandler E c (buf_data b) (buf_dataPos b + 8) ?n ?n st
        = DiagnosticMsgSecondHandler E c (first_part c d ?n ?n st)"
    using first_handler [OF assms(6,7), of "buf_dataPos b + 8" ?n "buf_data b" ?n] by auto
  let ?fp = "first_part c d ?n ?n st"
  have rdy: "diag_ready ?fp c sa ta"
    by (rule diag_ready_first_part [OF assms(1) d(1)]) (use \<open>?n \<le> ds_udsSize st\<close> in simp)
  have pay: "take ?n d = be16 sa @ be16 ta @ uds" using d(2) at(2) by simp
  define ev where "ev = delivery_events E c (ds_blocks st) sa ta uds ?fp"
  have ev: "ev = delivery_events E c (ds_blocks st) sa ta uds (logged [EvAllocUds (ds_blocks st)] st)"
    by (simp add: ev_def delivery_events_def tcp_events_def Let_def)
  let ?st1 = "logged ev (modc c (\<lambda>k. k\<lparr>udsTotalLen := 0, udsReceived := 0, udsBuf := None\<rparr>) ?fp)"
  have "DiagnosticMsgSecondHandler E c ?fp = Inr (TAF_DOIP_RESULT_OK, ?st1)"
    unfolding ev_def
    by (rule complete_block_delivered [OF rdy assms(4), where d = d])
      (use assms(5) \<open>?n \<le> ds_udsSize st\<close> d(1) pay mds_of_cong [of ?fp st] in simp_all)
  then have "ProcessDoipMessage E c TYPE_DIAGNOSTIC_MESSAGE ?n st
      = Inr (TAF_DOIP_RESULT_OK, set_buffer c (advance_buffer ?n b) ?st1)"
    using assms(2) d(3) size by (intro ProcessDoipMessage_diag [where b = b]) simp_all
  moreover have "advance_buffer ?n b = reset_buffer b" by (rule advance_all) (use size fits in simp)
  ultimately have proc: "ProcessDoipMessage E c TYPE_DIAGNOSTIC_MESSAGE ?n st
      = Inr (TAF_DOIP_RESULT_OK, set_buffer c (reset_buffer b) ?st1)" by simp
  have "ConsumeTCPData E (cliSockRef (conn_of st c)) st = Inr (stop_consuming c (set_buffer c ((reset_buffer b)\<lparr>buf_dataPos := 0\<rparr>) ?st1))"
    by (rule consume_diag [OF assms(2) _ at(1) _ hdr(1)])
      (use size fits proc hdr(2) ready(3,7) in \<open>simp_all add: peer_header_def\<close>)
  then show ?thesis
    using assms(6) by (simp add: stop_consuming_def set_buffer_def ev)
qed

text \<open>A message for the entity in the buffer of the first example connection.\<close>

abbreviation example_buf :: taf_doip_Buffer where
  "example_buf \<equiv> \<lparr>buf_data = diag_frame example_config 0xE80 0x201 [0x3E, 0] @ replicate 1486 0,
     buf_dataSize = 14, buf_dataPos = 0\<rparr>"

definition example_pending :: doip_state where
  "example_pending = set_buffer 0 example_buf (example_two False)"

lemma length_diag_frame [simp]: "length (diag_frame cfg sa ta uds) = 12 + length uds"
  by (simp add: diag_frame_def length_frame_bytes)

lemma example_pending_ready: "diag_ready example_pending 0 0xE80 0x201"
proof -
  have "safe_step (example_two False) example_pending"
    unfolding example_pending_def
    by (rule set_buffer_safe [OF safe_refl [OF wf_example_two]]) (simp_all add: example_two_sel buf_ok_def)
  then have "wf example_pending" by (simp add: safe_step_def)
  then show ?thesis
    by (simp add: diag_ready_def example_pending_def set_buffer_def example_two_sel own_address_def
        GetEntityLogicalAddr_def parsed_def IsFunctionalAddress_def)
qed

theorem diag_message_delivered_witness:
  "\<exists>st'. ConsumeTCPData example_env 7 example_pending = Inr st'
     \<and> EvQueueIndication 0xE80 0x201 TA_PHYSICAL [0x65] 0 (be16 0xE80 @ be16 0x201 @ [0x3E, 0]) \<in> set (ds_trace st')"
proof -
  have c: "conn_of example_pending 0 = (conn_of (example_two False) 0)\<lparr>inBuf := Some example_buf\<rparr>"
      "ds_trace example_pending = []" "ds_blocks example_pending = 0"
    by (simp_all add: example_pending_def set_buffer_def example_two_def)
  have m: "mds_of example_pending = 65536"
    by (simp add: mds_of_def example_pending_def set_buffer_def example_two_sel GetMaxDataSize_def parsed_def)
  show ?thesis
    using diag_message_delivered [OF example_pending_ready, of example_buf example_config "[0x3E, 0]" example_env "[]"]
    by (auto simp: c m example_two_sel new_Connection_def unread_def delivery_events_def Let_def)
qed

section \<open>A message in two parts\<close>

lemma delivery_events_cong:
  assumes "cliSockRef (conn_of s c) = cliSockRef (conn_of t c)" "localIface (conn_of s c) = localIface (conn_of t c)"
    and "ds_cfg s = ds_cfg t" "ds_trace s = ds_trace t"
  shows "delivery_events E c blk sa ta uds s = delivery_events E c blk sa ta uds t"
  using assms by (simp add: delivery_events_def tcp_events_def Let_def)

lemma ReceiveDiagMessage_part:
  assumes "udsBuf (conn_of st c) = Some (blk, d)" "udsReceived (conn_of st c) < udsTotalLen (conn_of st c)"
    and "udsTotalLen (conn_of st c) \<le> ds_udsSize st"
    and "ev_read E (ds_trace st @ [EvTimerRestart c GeneralTimer]) (cliSockRef (conn_of st c))
           (udsTotalLen (conn_of st c) - udsReceived (conn_of st c)) = Some bs"
    and "wrn d (udsReceived (conn_of st c)) bs = Inr d'"
  shows "ReceiveDiagMessage E c st = diag_received E c
     (modc c (\<lambda>k. k\<lparr>udsBuf := Some (blk, d'), udsReceived := u32n (udsReceived k + length bs)\<rparr>)
       (logged [EvTimerRestart c GeneralTimer,
          EvRead (cliSockRef (conn_of st c)) (udsTotalLen (conn_of st c) - udsReceived (conn_of st c))] st))"
proof -
  have w: "(if udsTotalLen (conn_of st c) > ds_udsSize st then (ds_udsSize st + 2 ^ 64 - udsReceived (conn_of st c)) mod 2 ^ 64
      else udsTotalLen (conn_of st c) - udsReceived (conn_of st c)) = udsTotalLen (conn_of st c) - udsReceived (conn_of st c)"
    using assms(3) by simp
  show ?thesis
    unfolding ReceiveDiagMessage_def Let_def conns.emit usize.emit w if_P [OF assms(2)] assms(1) option.case prod.case
      emit_trace assms(4) mbind_simps assms(5)
    by (simp add: emit_logged logged_append)
qed

text \<open>The rest of a message arrives for a connection whose block holds the first \<open>r\<close> bytes of its payload.\<close>

lemma rest_delivered:
  assumes "diag_ready st c sa ta" "udsBuf (conn_of st c) = Some (blk, d)" "length d = ds_udsSize st"
    and total: "udsTotalLen (conn_of st c) = 4 + length uds" "udsReceived (conn_of st c) = r" "4 \<le> r" "r < 4 + length uds"
    and small: "4 + length uds \<le> mds_of st" "4 + length uds \<le> ds_udsSize st"
    and stored: "take r d = take r (be16 sa @ be16 ta @ uds)"
    and rest: "rest = drop r (be16 sa @ be16 ta @ uds)" "es = [EvTimerRestart c GeneralTimer, EvRead (cliSockRef (conn_of st c)) (length rest)]"
    and rd: "ev_read E (ds_trace st @ [EvTimerRestart c GeneralTimer]) (cliSockRef (conn_of st c)) (length rest) = Some rest"
  shows "\<exists>st2. SocketEventCallback E (cliSockRef (conn_of st c)) POLLIN st = Inr st2
     \<and> ds_trace st2 = ds_trace st @ es @ delivery_events E c blk sa ta uds (logged es st)
     \<and> udsBuf (conn_of st2 c) = None \<and> ds_box st2 = ds_box st"
proof -
  note ready = diag_ready_sel [OF assms(1)]
  let ?N = "4 + length uds"
  have lrest: "length rest = ?N - r" "r + length rest = ?N" using total(4) by (simp_all add: rest(1))
  let ?d' = "take r d @ rest @ drop ?N d"
  have w: "wrn d r rest = Inr ?d'" using lrest small(2) assms(3) by (simp add: wrn_def)
  have pay: "take ?N ?d' = be16 sa @ be16 ta @ uds"
  proof -
    have "take ?N ?d' = take r d @ rest" using lrest small(2) assms(3) by simp
    then show ?thesis unfolding stored rest(1) by (simp only: append_take_drop_id)
  qed
  have ld: "length ?d' = ds_udsSize st" using lrest small(2) assms(3) by simp
  let ?st1 = "modc c (\<lambda>k. k\<lparr>udsBuf := Some (blk, ?d'), udsReceived := u32n (udsReceived k + length rest)\<rparr>) (logged es st)"
  have rc: "u32n (r + length rest) = ?N" using lrest(2) small(1) mds_of_lt [of st] by simp
  have rcv: "ReceiveDiagMessage E c st = diag_received E c ?st1"
    using ReceiveDiagMessage_part [OF assms(2), of E rest ?d'] rd w lrest total small(2) rest(2) by simp
  have rdy1: "diag_ready ?st1 c sa ta"
  proof (rule diag_ready_cong [OF assms(1)])
    have "safe_step st (logged es st)"
      using safe_refl [OF ready(1)] by (simp add: safe_step_def logged_def wf.untraced keeps.untraced)
    then have "safe_step st ?st1"
      by (rule store_uds_safe(2)) (use wf_in_box [OF ready(1,2)] ld rc total(2) small(2) in simp_all)
    then show "wf ?st1" by (simp add: safe_step_def)
  qed simp_all
  let ?ev = "delivery_events E c blk sa ta uds ?st1"
  have "DiagnosticMsgSecondHandler E c ?st1 = Inr (TAF_DOIP_RESULT_OK,
     logged ?ev (modc c (\<lambda>k. k\<lparr>udsTotalLen := 0, udsReceived := 0, udsBuf := None\<rparr>) ?st1))"
    by (rule complete_block_delivered [OF rdy1, where d = ?d'])
      (use total small pay ld mds_of_cong [of ?st1 st] in auto)
  then have fin: "diag_received E c ?st1 = Inr (TAF_DOIP_RESULT_OK,
     logged ?ev (modc c (\<lambda>k. k\<lparr>udsTotalLen := 0, udsReceived := 0, udsBuf := None\<rparr>) ?st1))"
    unfolding diag_received_def using rc total(1,2) by simp
  have ev: "?ev = delivery_events E c blk sa ta uds (logged es st)"
    by (rule delivery_events_cong) simp_all
  have "SocketEventCallback E (cliSockRef (conn_of st c)) POLLIN st = Inr
     (logged ?ev (modc c (\<lambda>k. k\<lparr>udsTotalLen := 0, udsReceived := 0, udsBuf := None\<rparr>) ?st1))"
    using ready(7) rcv fin total by (simp add: SocketEventCallback_def Let_def)
  then show ?thesis unfolding ev by simp
qed

text \<open>The first part of a message: one pass stores it and empties the buffer.\<close>

lemma first_part_consumed:
  assumes "diag_ready st c sa ta" "inBuf (conn_of st c) = Some b" "unread b = take n (diag_frame cfg sa ta uds)"
    and "12 \<le> n" "n < 12 + length uds" "12 + length uds \<le> mds_of st"
    and "udsBuf (conn_of st c) = None" "ev_try_alloc E (ds_trace st) = Some content"
  shows "\<exists>d. length d = ds_udsSize st \<and> take (n - 8) d = take (n - 8) (be16 sa @ be16 ta @ uds)
     \<and> ConsumeTCPData E (cliSockRef (conn_of st c)) st = Inr
         (stop_consuming c (set_buffer c (reset_buffer b) (first_part c d (4 + length uds) (n - 8) st)))
     \<and> diag_ready (stop_consuming c (set_buffer c (reset_buffer b) (first_part c d (4 + length uds) (n - 8) st))) c sa ta"
proof -
  note ready = diag_ready_sel [OF assms(1)]
  have bok: "buf_ok b" using wf_conn [OF ready(1) wf_in_box [OF ready(1,2)]] assms(2) by (simp add: conn_ok_def)
  have n8: "8 \<le> n" "n \<le> 12 + length uds" using assms(4,5) by simp_all
  note at = diag_frame_at [OF assms(3) n8(1) bok n8(2)]
  have fits: "n \<le> 1500" using bok at(3) by (simp add: buf_ok_def)
  let ?N = "4 + length uds" and ?r = "n - 8"
  note hdr = diag_header_passes [OF assms(1,6)]
  have "buf_dataPos b + 8 + ?r \<le> length (buf_data b)" "?r \<le> ds_udsSize st" "?r < ?N" "?r \<noteq> ds_udsSize st"
    using bok at(3) n8(1) fits ready(8) assms(5) by (auto simp: buf_ok_def)
  then obtain d where d: "length d = ds_udsSize st"
      "take ?r d = take ?r (drop (buf_dataPos b + 8) (buf_data b))"
      "DiagnosticMsgFirstHandler E c (buf_data b) (buf_dataPos b + 8) ?N ?r st
        = Inr (TAF_DOIP_RESULT_OK, first_part c d ?N ?r st)"
    using first_handler [OF assms(7,8), of "buf_dataPos b + 8" ?r "buf_data b" ?N] by auto
  let ?fp = "first_part c d ?N ?r st"
  have rdy: "diag_ready ?fp c sa ta" by (rule diag_ready_first_part [OF assms(1) d(1)]) fact
  have adv: "advance_buffer ?N b = reset_buffer b"
    by (rule advance_all) (use at(3) assms(5,6) mds_of_lt [of st] in simp)
  have proc: "ProcessDoipMessage E c TYPE_DIAGNOSTIC_MESSAGE ?N st
      = Inr (TAF_DOIP_RESULT_OK, set_buffer c (reset_buffer b) ?fp)"
    using ProcessDoipMessage_diag [OF assms(2), of E ?N ?fp b] assms(2,4) d(3) at(3) adv by simp
  have "ConsumeTCPData E (cliSockRef (conn_of st c)) st =
      Inr (stop_consuming c (set_buffer c ((reset_buffer b)\<lparr>buf_dataPos := 0\<rparr>) ?fp))"
    by (rule consume_diag [OF assms(2) _ at(1) _ hdr(1)])
      (use at(3) n8 proc hdr(2) ready(3,7) in \<open>simp_all add: peer_header_def\<close>)
  then have st1: "ConsumeTCPData E (cliSockRef (conn_of st c)) st =
      Inr (stop_consuming c (set_buffer c (reset_buffer b) ?fp))" by simp
  have "diag_ready (stop_consuming c (set_buffer c (reset_buffer b) ?fp)) c sa ta"
  proof (rule diag_ready_cong [OF rdy])
    have c: "c < ds_next ?fp" by (rule wf_in_box [OF diag_ready_sel(1,2) [OF rdy]])
    have 1: "safe_step ?fp (set_buffer c (reset_buffer b) ?fp)"
      by (rule set_buffer_safe [OF safe_refl [OF diag_ready_sel(1) [OF rdy]] c buf_ok_reset [OF bok]])
    have "safe_step ?fp (stop_consuming c (set_buffer c (reset_buffer b) ?fp))"
      by (rule stop_consuming_safe [OF 1]) (use c in simp)
    then show "wf (stop_consuming c (set_buffer c (reset_buffer b) ?fp))" by (simp add: safe_step_def)
  qed (simp_all add: stop_consuming_def set_buffer_def)
  then show ?thesis using d(1,2) at(2) st1 by auto
qed

text \<open>
  C14: the delivery does not depend on how TCP cuts the message: when the buffer holds its first
  bytes, twelve or more, one pass stores them in a block and waits; when the rest has been read, the
  application gets the same bytes and the tester the same acknowledgement.
\<close>

theorem diag_message_in_parts:
  assumes "diag_ready st c sa ta" "inBuf (conn_of st c) = Some b" "unread b = take n (diag_frame cfg sa ta uds)"
    and "12 \<le> n" "n < 12 + length uds" "12 + length uds \<le> mds_of st" "4 + length uds \<le> ds_udsSize st"
    and "udsBuf (conn_of st c) = None" "ev_try_alloc E (ds_trace st) = Some content"
  shows "\<exists>st1. ConsumeTCPData E (cliSockRef (conn_of st c)) st = Inr st1
     \<and> ds_trace st1 = ds_trace st @ [EvAllocUds (ds_blocks st)] \<and> inBuf (conn_of st1 c) = Some (reset_buffer b)
     \<and> (let s = cliSockRef (conn_of st c); rest = drop n (diag_frame cfg sa ta uds);
            es = [EvTimerRestart c GeneralTimer, EvRead s (length rest)] in
        ev_read E (ds_trace st1 @ [EvTimerRestart c GeneralTimer]) s (length rest) = Some rest \<longrightarrow>
        (\<exists>st2. SocketEventCallback E s POLLIN st1 = Inr st2
           \<and> ds_trace st2 = ds_trace st1 @ es
               @ delivery_events E c (ds_blocks st) sa ta uds (logged (EvAllocUds (ds_blocks st) # es) st)
           \<and> udsBuf (conn_of st2 c) = None \<and> ds_box st2 = ds_box st))"
proof -
  obtain d where d: "length d = ds_udsSize st" "take (n - 8) d = take (n - 8) (be16 sa @ be16 ta @ uds)"
    "ConsumeTCPData E (cliSockRef (conn_of st c)) st = Inr
         (stop_consuming c (set_buffer c (reset_buffer b) (first_part c d (4 + length uds) (n - 8) st)))"
    "diag_ready (stop_consuming c (set_buffer c (reset_buffer b) (first_part c d (4 + length uds) (n - 8) st))) c sa ta"
    using first_part_consumed [OF assms(1-6,8,9)] by blast
  let ?st1 = "stop_consuming c (set_buffer c (reset_buffer b) (first_part c d (4 + length uds) (n - 8) st))"
  have frame: "drop n (diag_frame cfg sa ta uds) = drop (n - 8) (be16 sa @ be16 ta @ uds)"
    using assms(4) by (simp add: diag_frame_def frame_bytes_def)
  have sel: "ds_trace ?st1 = ds_trace st @ [EvAllocUds (ds_blocks st)]" "ds_box ?st1 = ds_box st"
    "inBuf (conn_of ?st1 c) = Some (reset_buffer b)" "udsBuf (conn_of ?st1 c) = Some (ds_blocks st, d)"
    "udsTotalLen (conn_of ?st1 c) = 4 + length uds" "udsReceived (conn_of ?st1 c) = n - 8"
    "cliSockRef (conn_of ?st1 c) = cliSockRef (conn_of st c)" "ds_udsSize ?st1 = ds_udsSize st"
    by (simp_all add: stop_consuming_def set_buffer_def)
  have m: "mds_of ?st1 = mds_of st" by (rule mds_of_cong) (simp add: stop_consuming_def set_buffer_def)
  have ev: "delivery_events E c (ds_blocks st) sa ta uds (logged es ?st1)
      = delivery_events E c (ds_blocks st) sa ta uds (logged (EvAllocUds (ds_blocks st) # es) st)" for es
    by (rule delivery_events_cong) (simp_all add: stop_consuming_def set_buffer_def)
  note rest = rest_delivered [OF d(4) sel(4) _ sel(5,6), where E = E, unfolded sel(7,8) m ev]
  show ?thesis
    unfolding d(3) Let_def frame using rest [OF d(1) _ _ _ assms(7) d(2) refl refl] assms(4-6) sel by simp
qed

text \<open>The message of the example, of which twelve bytes have arrived.\<close>

abbreviation example_part :: taf_doip_Buffer where
  "example_part \<equiv> \<lparr>buf_data = diag_frame example_config 0xE80 0x201 [0x3E, 0] @ replicate 1486 0,
     buf_dataSize = 12, buf_dataPos = 0\<rparr>"

definition example_half :: doip_state where
  "example_half = set_buffer 0 example_part (example_two False)"

theorem diag_message_in_parts_witness:
  "\<exists>st1 st2. ConsumeTCPData (example_env\<lparr>ev_read := \<lambda>t s n. Some [0x3E, 0]\<rparr>) 7 example_half = Inr st1
     \<and> SocketEventCallback (example_env\<lparr>ev_read := \<lambda>t s n. Some [0x3E, 0]\<rparr>) 7 POLLIN st1 = Inr st2
     \<and> EvQueueIndication 0xE80 0x201 TA_PHYSICAL [0x65] 0 (be16 0xE80 @ be16 0x201 @ [0x3E, 0]) \<in> set (ds_trace st2)"
proof -
  let ?E = "example_env\<lparr>ev_read := \<lambda>t s n. Some [0x3E, 0]\<rparr>"
  have "safe_step (example_two False) example_half"
    unfolding example_half_def
    by (rule set_buffer_safe [OF safe_refl [OF wf_example_two]]) (simp_all add: example_two_sel buf_ok_def)
  then have r: "diag_ready example_half 0 0xE80 0x201"
    by (simp add: safe_step_def diag_ready_def example_half_def set_buffer_def example_two_sel own_address_def
        GetEntityLogicalAddr_def parsed_def IsFunctionalAddress_def)
  have c: "conn_of example_half 0 = (conn_of (example_two False) 0)\<lparr>inBuf := Some example_part\<rparr>"
      "ds_trace example_half = []" "ds_blocks example_half = 0" "ds_udsSize example_half = 65536"
    by (simp_all add: example_half_def set_buffer_def example_two_def)
  have m: "mds_of example_half = 65536"
    by (simp add: mds_of_def example_half_def set_buffer_def example_two_sel GetMaxDataSize_def parsed_def)
  have rest: "drop 12 (diag_frame example_config 0xE80 0x201 [0x3E, 0]) = [0x3E, 0]"
    by (simp add: diag_frame_def frame_bytes_def)
  show ?thesis
    using diag_message_in_parts [OF r, of example_part 12 example_config "[0x3E, 0]" ?E "[]"] rest
    by (auto simp: c m example_two_sel new_Connection_def unread_def delivery_events_def Let_def)
qed

end
