(* ===== verification/Doip_Faults.thy ===== *)
theory Doip_Faults
  imports Doip_Delivery
begin

text \<open>
  The other side of the diagnostic messages: what is sent to a tester, messages for an unknown
  target, the discarding of input, and an input on which the entity uses released memory.
\<close>

section \<open>Discarding input\<close>

text \<open>Successful reads make progress.\<close>

definition reads_progress :: "doip_env \<Rightarrow> bool" where
  "reads_progress E \<longleftrightarrow> (\<forall>t s n bs. ev_read E t s n = Some bs \<longrightarrow> bs \<noteq> [])"

lemma discard_loop_ends:
  "reads_progress E \<Longrightarrow> 0 < len \<Longrightarrow> len \<le> n \<Longrightarrow> \<exists>st'. discard_loop n E s len st = Inr st'"
proof (induction n arbitrary: len st)
  case (Suc n)
  let ?want = "if len > TAF_DOIP_MAX_BUFFER_SIZE then TAF_DOIP_MAX_BUFFER_SIZE else len"
  show ?case
  proof (cases "ev_read E (ds_trace st) s ?want")
    case None
    then show ?thesis by (simp add: Let_def)
  next
    case (Some bs)
    then have "bs \<noteq> []" using Suc.prems(1) unfolding reads_progress_def by blast
    then have "len - length bs \<le> n" using Suc.prems(2,3) by (cases bs) auto
    then show ?thesis using Suc.IH [of "len - length bs"] Suc.prems(1) Some by (simp add: Let_def)
  qed
qed simp

lemma discard_loop_spins:
  "(\<And>t s n. ev_read E t s n = Some []) \<Longrightarrow> 0 < len \<Longrightarrow> discard_loop n E s len st = Inl OutOfFuel"
  by (induction n arbitrary: st) (simp_all add: Let_def)

text \<open>
  C37: \<open>ReadAndDiscardMsg\<close> ends within 1500 reads, whatever length a peer announced, if every
  successful read yields data; against a socket whose reads succeed with nothing it never ends.
\<close>

theorem discard_ends:
  assumes "1500 \<le> ev_fuel E"
  shows "(reads_progress E \<longrightarrow> (\<exists>st'. ReadAndDiscardMsg E c len st = Inr st'))
     \<and> ((\<forall>t s n. ev_read E t s n = Some []) \<longrightarrow> 0 < len \<longrightarrow> ReadAndDiscardMsg E c len st = Inl OutOfFuel)"
  using assms discard_loop_ends [of E _ "ev_fuel E" "cliSockRef (conn_of st c)" st]
    discard_loop_spins [of E _ "ev_fuel E" "cliSockRef (conn_of st c)" st]
  by (auto simp: ReadAndDiscardMsg_def Let_def)

theorem discard_ends_witness:
  "ReadAndDiscardMsg example_env 0 100 example_accept = Inl OutOfFuel
     \<and> (\<exists>st'. ReadAndDiscardMsg (example_env\<lparr>ev_read := \<lambda>t s n. Some [0]\<rparr>) 0 100 example_accept = Inr st')"
  using discard_ends [of example_env 0 100 example_accept]
    discard_ends [of "example_env\<lparr>ev_read := \<lambda>t s n. Some [0]\<rparr>" 0 100 example_accept]
  by (simp add: reads_progress_def)

section \<open>A malformed alive check response\<close>

text \<open>
  An alive check response whose length is not two makes the entity use its reception buffer
  after releasing it, on any connection and in any state of the routing: the handler finalizes the
  connection, and \<open>ProcessDoipMessage\<close> goes on with the buffer.
\<close>

theorem alive_response_use_after_release:
  assumes "wf st" "FindConnectionBySocket st s = Some c" "inBuf (conn_of st c) = Some b"
    and "take 8 (unread b) = PackGenericHeader cfg TYPE_ALIVE_CHECK_RESPONSE n" "8 \<le> buf_dataSize b"
    and "unat n \<noteq> 2" "unat n + 8 \<le> mds_of st" "unat n \<le> 1492"
  shows "ConsumeTCPData E s st = Inl UseAfterRelease"
proof -
  have c: "c \<in> set (ds_box st)" using FindConnectionBySocket_Some [OF assms(2)] by simp
  have k: "connType (conn_of st c) = TYPE_SVR" "connState (conn_of st c) \<noteq> STATE_FINALIZE"
    using wf_conn [OF assms(1) wf_in_box [OF assms(1) c]] wf_live [OF assms(1) c]
    by (simp_all add: conn_ok_def live_def)
  have "take 8 (drop (buf_dataPos b) (buf_data b)) = PackGenericHeader cfg TYPE_ALIVE_CHECK_RESPONSE n"
    using assms(4,5) by (simp add: unread_def min_def)
  note hdr = Unpack_at [OF this]
  have ok: "CheckDoipHeader E c (peer_header cfg TYPE_ALIVE_CHECK_RESPONSE n) (buf_dataSize b) st
      = Inr (TAF_DOIP_RESULT_OK, st)"
    by (rule peer_header_accepted) (use k assms(7,8) mds_of_lt [of st] in simp_all)
  have "ProcessDoipMessage E c TYPE_ALIVE_CHECK_RESPONSE (unat n) st = Inl UseAfterRelease"
    using assms(3,6) by (simp add: ProcessDoipMessage_def the_buffer_def AliveCheckResHandler_def
        RespondHeaderNegativeACK_def Let_def)
  then have "consume_one E c b st = Inl UseAfterRelease"
    using hdr ok by (simp add: consume_one_def peer_header_def)
  then have "consume_loop 5 E c st = Inl UseAfterRelease"
    using assms(3,5) k(2) by (subst consume_loop.simps) (simp add: numeral_eq_Suc)
  then show ?thesis using assms(2,3) by (simp add: ConsumeTCPData_def)
qed

abbreviation malformed_buf :: taf_doip_Buffer where
  "malformed_buf \<equiv> \<lparr>buf_data = PackGenericHeader example_config TYPE_ALIVE_CHECK_RESPONSE 0 @ replicate 1492 0,
     buf_dataSize = 8, buf_dataPos = 0\<rparr>"

definition example_malformed :: doip_state where
  "example_malformed = set_buffer 0 malformed_buf (example_two False)"

theorem alive_response_use_after_release_witness:
  "ConsumeTCPData example_env 7 example_malformed = Inl UseAfterRelease"
proof (rule alive_response_use_after_release [where cfg = example_config and n = 0 and c = 0
      and b = malformed_buf])
  have "safe_step (example_two False) example_malformed"
    unfolding example_malformed_def
    by (rule set_buffer_safe [OF safe_refl [OF wf_example_two]]) (simp_all add: example_two_sel buf_ok_def)
  then show "wf example_malformed" by (simp add: safe_step_def)
  show "FindConnectionBySocket example_malformed 7 = Some 0"
    by (simp add: FindConnectionBySocket_def IsSocketRefMatch_def example_malformed_def set_buffer_def
        example_two_sel new_Connection_def)
  show "unat 0 + 8 \<le> mds_of example_malformed"
    by (simp add: mds_of_def example_malformed_def set_buffer_def example_two_sel GetMaxDataSize_def parsed_def)
qed (simp_all add: example_malformed_def set_buffer_def unread_def)

section \<open>A message for an unknown target\<close>

text \<open>
  A message for an address that is neither the entity's nor functional is refused with the code
  0x03 and the connection stays; but its block is released twice, by \<open>InformUdsMessage\<close> and again on
  the way out of the handler.
\<close>

theorem unknown_target_released_twice:
  assumes "diag_ready st c sa own" "udsBuf (conn_of st c) = Some (blk, d)" "length d = ds_udsSize st"
    and "udsTotalLen (conn_of st c) = 4 + length uds" "take (4 + length uds) d = be16 sa @ be16 ta @ uds"
    and "uds \<noteq> []" "4 + length uds \<le> mds_of st" "4 + length uds \<le> ds_udsSize st"
    and "ta \<noteq> own" "\<not> IsFunctionalAddress (Some (ds_cfg st)) ta"
  shows "let nack = frame_bytes (ds_cfg st) (TYPE_DIAGNOSTIC_NEGATIVE_ACK, be16 ta @ be16 sa @ [0x03]) in
     DiagnosticMsgSecondHandler E c st = Inr (TAF_DOIP_RESULT_UNKNOWN_TA,
       logged (EvReleaseUds blk # tcp_events E c nack (logged [EvReleaseUds blk] st) @ [EvReleaseUds blk])
         (modc c (\<lambda>k. k\<lparr>udsTotalLen := 0, udsReceived := 0, udsBuf := None\<rparr>) st))"
proof -
  note ready = diag_ready_sel [OF assms(1)]
  let ?st1 = "logged [EvReleaseUds blk] st"
  let ?nack = "frame_bytes (ds_cfg st) (TYPE_DIAGNOSTIC_NEGATIVE_ACK, be16 ta @ be16 sa @ [0x03])"
  have inf: "InformUdsMessage E sa ta (blk, d) (udsTotalLen (conn_of st c)) (localIface (conn_of st c)) st
      = (TAF_DOIP_RESULT_UNKNOWN_TA, ?st1)"
    using assms(4,9,10) ready(5) by (simp add: InformUdsMessage_def own_address_def emit_logged)
  have f: "FindConnectionBySocket ?st1 (cliSockRef (conn_of ?st1 c)) = Some c" using ready(7) by simp
  have nack: "perform E (DiagNegativeACK (ds_cfg ?st1) (tcp_link (cliSockRef (conn_of ?st1 c))) ta sa DIAGNOSTIC_NACK_UNKNOWN_TA) ?st1
      = logged (tcp_events E c ?nack ?st1) ?st1"
    unfolding tcp_responses by (subst perform_frame [OF f]) simp_all
  have r: "rdn d 0 2 = Inr (be16 sa)" "rdn d 2 2 = Inr (be16 ta)"
    using rdn_prefix [OF assms(5)] assms(3,8) by simp_all
  have n: "\<not> udsTotalLen (conn_of st c) \<le> TAF_DOIP_LOGICAL_ADDRESS_LENGTH * 2"
    using assms(4,6) by (cases uds) simp_all
  have err: "diag_errOut1 E c ta sa DIAGNOSTIC_NACK_UNKNOWN_TA TAF_DOIP_RESULT_UNKNOWN_TA ?st1
      = (TAF_DOIP_RESULT_UNKNOWN_TA, logged (EvReleaseUds blk # tcp_events E c ?nack ?st1 @ [EvReleaseUds blk])
         (modc c (\<lambda>k. k\<lparr>udsTotalLen := 0, udsReceived := 0, udsBuf := None\<rparr>) st))"
    unfolding diag_errOut1_def Let_def nack diag_errOut2_def release_uds_def
    using assms(2) by (simp add: emit_logged modc_logged modc_modc logged_append)
  show ?thesis
    unfolding DiagnosticMsgSecondHandler_def ready(6) DiagnosticMsgSvrSecondHandler_def Let_def if_not_P [OF n]
      assms(2) option.case snd_conv r mbind_simps of_be16_be16 inf prod.case
    using ready(3,4) assms(4,7,8) err by simp
qed

text \<open>The block of the first example connection holds a message for the address 0x0999.\<close>

definition example_block :: "byte list" where
  "example_block = be16 0xE80 @ be16 0x999 @ [0x3E] @ replicate 65531 0"

definition example_unknown :: doip_state where
  "example_unknown = modc 0 (\<lambda>k. k\<lparr>udsBuf := Some (0, example_block), udsTotalLen := 5, udsReceived := 5\<rparr>) (example_two False)"

theorem unknown_target_released_twice_witness:
  "\<exists>r st'. DiagnosticMsgSecondHandler example_env 0 example_unknown = Inr (r, st')
     \<and> filter (\<lambda>e. e = EvReleaseUds 0) (ds_trace st') = [EvReleaseUds 0, EvReleaseUds 0]"
proof -
  have len: "length example_block = 65536" unfolding example_block_def by simp
  have "safe_step (example_two False) example_unknown"
    unfolding example_unknown_def
    by (rule store_uds_safe(1) [OF safe_refl [OF wf_example_two]]) (simp_all add: example_two_sel len)
  then have r: "diag_ready example_unknown 0 0xE80 0x201"
    by (simp add: safe_step_def diag_ready_def example_unknown_def example_two_sel own_address_def
        GetEntityLogicalAddr_def parsed_def IsFunctionalAddress_def)
  have m: "mds_of example_unknown = 65536"
    by (simp add: mds_of_def example_unknown_def example_two_sel GetMaxDataSize_def parsed_def)
  have t: "take 5 example_block = be16 0xE80 @ be16 0x999 @ [0x3E]" by (simp add: example_block_def)
  have f: "\<not> IsFunctionalAddress (Some (ds_cfg example_unknown)) 0x999"
    by (simp add: example_unknown_def example_two_sel IsFunctionalAddress_def)
  show ?thesis
    using unknown_target_released_twice [OF r, of 0 example_block "[0x3E]" "0x999" example_env] m t f len
    by (simp add: example_unknown_def example_two_sel Let_def tcp_events_def)
      (simp add: example_two_def)
qed

section \<open>Messages to a tester\<close>

text \<open>
  \<open>TransUdsMessage\<close> queues the framed message, from the session's address, and the confirmation,
  when the message with its twelve bytes of header fits into a block; when it does not, it writes
  outside the block. The frame reads back as one diagnostic message.
\<close>

theorem trans_uds_frame:
  assumes "msg \<noteq> []" "FindDoipSession st sa \<noteq> None" "ev_try_alloc E (ds_trace st) = Some content"
    and "12 \<le> ds_udsSize st" "length msg + 4 < 2 ^ 32"
  shows "TransUdsMessage E sa ta ty msg st =
     (if 12 + length msg \<le> ds_udsSize st
      then Inr (TAF_DOIP_RESULT_OK, logged [EvAllocUds (ds_blocks st),
          EvQueueRequest sa ta (ds_blocks st) (diag_frame (ds_cfg st) sa ta msg), EvQueueConfirm sa ta ty]
          (st\<lparr>ds_blocks := ds_blocks st + 1\<rparr>))
      else Inl OutOfBounds)
    \<and> UnpackHeaderStruct (diag_frame (ds_cfg st) sa ta msg) 0
       = Inr (peer_header (ds_cfg st) TYPE_DIAGNOSTIC_MESSAGE (of_nat (4 + length msg)))"
proof
  define d where "d = take (ds_udsSize st) content @ replicate (ds_udsSize st - length content) (0::byte)"
  have len: "length d = ds_udsSize st" by (simp add: d_def)
  have dt: "take (ds_udsSize st) (content @ replicate (ds_udsSize st) 0) = d" by (simp add: d_def min_def)
  define head where "head = PackGenericHeader (ds_cfg st) TYPE_DIAGNOSTIC_MESSAGE (of_nat (length msg) + 4)"
  have hl: "length head = 8" by (simp add: head_def)
  let ?frame = "diag_frame (ds_cfg st) sa ta msg"
  have fr: "?frame = head @ be16 sa @ be16 ta @ msg"
    by (simp add: diag_frame_def frame_bytes_def head_def add.commute)
  have w1: "wrn d 0 head = Inr (head @ drop 8 d)" using assms(4) len hl by (simp add: wrn_def)
  have w2: "wrn (head @ drop 8 d) 8 (be16 sa) = Inr ((head @ be16 sa) @ drop 10 d)"
    using assms(4) len hl by (subst wrn_seq) simp_all
  have w3: "wrn ((head @ be16 sa) @ drop 10 d) 10 (be16 ta) = Inr (((head @ be16 sa) @ be16 ta) @ drop 12 d)"
    using assms(4) len hl by (subst wrn_seq) simp_all
  have w4: "wrn (((head @ be16 sa) @ be16 ta) @ drop 12 d) 12 msg =
      (if 12 + length msg \<le> ds_udsSize st then Inr (?frame @ drop (12 + length msg) d) else Inl OutOfBounds)"
    using assms(4) len hl by (auto simp: wrn_def fr add.commute)
  obtain s where s: "FindDoipSession st sa = Some s" using assms(2) by auto
  have eq: "TransUdsMessage E sa ta ty msg st =
     mbind (wrn (((head @ be16 sa) @ be16 ta) @ drop 12 d) 12 msg) (\<lambda>d4. Inr (TAF_DOIP_RESULT_OK,
       emit (EvQueueConfirm sa ta ty) (emit (EvQueueRequest sa ta (ds_blocks st) (take (12 + length msg) d4))
         (emit (EvAllocUds (ds_blocks st)) (st\<lparr>ds_blocks := ds_blocks st + 1\<rparr>)))))"
    using w1 w2 w3 by (simp add: TransUdsMessage_def assms(1,3) s Let_def dt head_def [symmetric] del: take_append)
  show "TransUdsMessage E sa ta ty msg st =
     (if 12 + length msg \<le> ds_udsSize st
      then Inr (TAF_DOIP_RESULT_OK, logged [EvAllocUds (ds_blocks st),
          EvQueueRequest sa ta (ds_blocks st) ?frame, EvQueueConfirm sa ta ty]
          (st\<lparr>ds_blocks := ds_blocks st + 1\<rparr>))
      else Inl OutOfBounds)"
    unfolding eq w4 using hl by (simp add: emit_logged logged_append fr)
  show "UnpackHeaderStruct ?frame 0 = Inr (peer_header (ds_cfg st) TYPE_DIAGNOSTIC_MESSAGE (of_nat (4 + length msg)))"
    by (rule Unpack_at) (simp add: diag_frame_def frame_bytes_def)
qed

theorem trans_uds_frame_witness:
  "\<exists>st'. TransUdsMessage example_env 0x201 0xE80 TA_PHYSICAL [0x7E, 0] example_accept = Inr (TAF_DOIP_RESULT_OK, st')"
  using trans_uds_frame [of "[0x7E, 0]" example_accept "0x201" example_env "[]" "0xE80" TA_PHYSICAL]
  by (simp add: example_accept_sel FindDoipSession_def)

text \<open>
  The queued message goes out only on the socket of a connection of the box whose routing is
  active and whose tester has the target address, and goes out unchanged; the block is released in
  any case.
\<close>

theorem request_uds_gate:
  assumes "reachable E st"
  shows "\<exists>es. ds_trace (RequestUdsMessage E ta b msg st) = ds_trace st @ es @ [EvReleaseUds b]
     \<and> (\<forall>s m. EvTcp s m \<in> set es \<longrightarrow> m = msg \<and> (\<exists>c\<in>set (ds_box st). cliSockRef (conn_of st c) = s
          \<and> connState (conn_of st c) = STATE_ROUTING_ACTIVE \<and> testerSA (conn_of st c) = ta))"
proof (cases "FindConnectionByLogicalAddr st ta")
  case None
  then show ?thesis by (simp add: RequestUdsMessage_def)
next
  case (Some c)
  note c = FindConnectionByLogicalAddr_Some [OF Some]
  have ty: "connType (conn_of st c) = TYPE_SVR"
    using wf_conn [OF reachable_wf [OF assms] wf_in_box [OF reachable_wf [OF assms]]] c by (auto simp: conn_ok_def)
  then have ta: "testerSA (conn_of st c) = ta" using c by (auto simp: IsLogicalAddressMatch_def split: if_splits)
  show ?thesis
  proof (cases "connState (conn_of st c) = STATE_ROUTING_ACTIVE \<and> msg \<noteq> []")
    case True
    have "snd (SendDiagMessage E c msg st) = logged (tcp_events E c msg st) st"
      using True SendDoipMessage_logged [of msg E c st] by (simp add: SendDiagMessage_def SendDoipMessage_def)
    then show ?thesis using True Some c ta by (auto simp: RequestUdsMessage_def tcp_events_def)
  next
    case False
    then have "snd (SendDiagMessage E c msg st) = st" by (auto simp: SendDiagMessage_def Connection_SendTCPData_def)
    then show ?thesis using Some by (simp add: RequestUdsMessage_def)
  qed
qed

theorem request_uds_gate_witness:
  "\<exists>es. ds_trace (RequestUdsMessage example_env 0xE80 0 [0x7E] example_accept)
     = ds_trace example_accept @ es @ [EvReleaseUds 0] \<and> EvTcp 7 [0x7E] \<notin> set es"
  using request_uds_gate [OF example_reachable, of "0xE80" 0 "[0x7E]"]
  by (fastforce simp: example_accept_sel)

end
