(* ===== verification/Doip_Stream.thy ===== *)
theory Doip_Stream
  imports Doip_Delivery
begin

text \<open>
  Several messages in the reception buffer: \<open>ConsumeTCPData\<close> finds their ends by the announced lengths
  and takes them out one after the other, at most five in one run.
\<close>

section \<open>One message of several\<close>

definition alive_frame :: "taf_doip_Config \<Rightarrow> byte list \<Rightarrow> byte list" where
  "alive_frame cfg p = frame_bytes cfg (TYPE_ALIVE_CHECK_REQUEST, p)"

text \<open>The response to an alive check request, with the address of the tester.\<close>

definition alive_answer :: "doip_state \<Rightarrow> conn \<Rightarrow> byte list" where
  "alive_answer st c = frame_bytes (ds_cfg st) (TYPE_ALIVE_CHECK_RESPONSE, be16 (testerSA (conn_of st c)))"

text \<open>What was sent on the sockets, in order.\<close>

definition tcp_sent :: "doip_event list \<Rightarrow> (sock \<times> byte list) list" where
  "tcp_sent es = concat (map (\<lambda>e. case e of EvTcp s m \<Rightarrow> [(s, m)] | _ \<Rightarrow> []) es)"

lemma tcp_sent_append [simp]: "tcp_sent (xs @ ys) = tcp_sent xs @ tcp_sent ys"
  by (simp add: tcp_sent_def)

lemma tcp_sent_events [simp]: "tcp_sent (tcp_events E c m st) = [(cliSockRef (conn_of st c), m)]"
  by (simp add: tcp_sent_def tcp_events_def)

lemma tcp_events_set: "set (tcp_events E c m st) \<subseteq> {EvTimerRestart c GeneralTimer, EvTcp (cliSockRef (conn_of st c)) m}"
  by (auto simp: tcp_events_def)

lemma advance_one:
  assumes "buf_ok b" "unread b = f @ rest" "length f = 8 + n"
  shows "buf_ok (advance_buffer n b)" "unread (advance_buffer n b) = rest"
proof -
  have size: "buf_dataSize b = 8 + n + length rest" using unread_length [OF assms(1)] assms(2,3) by simp
  have fits: "buf_dataPos b + buf_dataSize b \<le> 1500" "length (buf_data b) = 1500" using assms(1) by (simp_all add: buf_ok_def)
  have u: "u32n (n + 8) = n + 8" "u32n (buf_dataPos b + (n + 8)) = buf_dataPos b + (n + 8)"
    using fits size by simp_all
  have adv: "advance_buffer n b = (if rest = [] then b\<lparr>buf_dataSize := 0, buf_dataPos := 0\<rparr>
      else b\<lparr>buf_dataSize := length rest, buf_dataPos := buf_dataPos b + (n + 8)\<rparr>)"
    unfolding advance_buffer_def Let_def u using size by simp
  show "buf_ok (advance_buffer n b)" using fits size by (simp add: adv buf_ok_def)
  have "rest = drop (n + 8) (unread b)" using assms(2,3) by simp
  also have "\<dots> = take (length rest) (drop (buf_dataPos b + (n + 8)) (buf_data b))"
    unfolding unread_def size by (simp add: drop_take add.commute)
  finally show "unread (advance_buffer n b) = rest" unfolding adv by (simp add: unread_def)
qed

lemma set_buffer_sel [simp]:
  "ds_cfg (set_buffer c b st) = ds_cfg st" "ds_trace (set_buffer c b st) = ds_trace st"
  "FindConnectionBySocket (set_buffer c b st) s = FindConnectionBySocket st s"
  "conn_of (set_buffer c b st) c = (conn_of st c)\<lparr>inBuf := Some b\<rparr>"
  by (simp_all add: set_buffer_def find_sock_modc)

lemma set_buffer_same:
  assumes "inBuf (conn_of st c) = Some b"
  shows "set_buffer c b (logged [] st) = st"
proof -
  have "(conn_of st c)\<lparr>inBuf := Some b\<rparr> = conn_of st c" using assms by (cases "conn_of st c") simp
  then show ?thesis by (simp add: set_buffer_def modc_def logged_def)
qed

lemma set_buffer_twice: "set_buffer c b' (logged es (set_buffer c b st)) = set_buffer c b' (logged es st)"
  by (simp add: set_buffer_def modc_logged modc_modc)

lemma consume_alive:
  assumes "inBuf (conn_of st c) = Some b" "buf_ok b" "unread b = alive_frame cfg p @ rest"
    and "connType (conn_of st c) = TYPE_SVR" "8 + length p \<le> mds_of st"
    and "FindConnectionBySocket st (cliSockRef (conn_of st c)) = Some c"
  shows "consume_one E c b st =
    Inr (Again, set_buffer c (advance_buffer (length p) b) (logged (tcp_events E c (alive_answer st c) st) st))"
proof -
  have f: "alive_frame cfg p = PackGenericHeader cfg TYPE_ALIVE_CHECK_REQUEST (of_nat (length p)) @ p"
    by (simp add: alive_frame_def frame_bytes_def)
  have size: "buf_dataSize b = 8 + length p + length rest"
    using unread_length [OF assms(2)] assms(3) by (simp add: f)
  have fits: "length p \<le> 1492" using assms(2) size by (simp add: buf_ok_def)
  have n: "unat (of_nat (length p) :: u32) = length p" unfolding unat_of_nat using fits by simp
  have "take 8 (unread b) = PackGenericHeader cfg TYPE_ALIVE_CHECK_REQUEST (of_nat (length p))"
    using assms(3) by (simp add: f)
  then have "take 8 (drop (buf_dataPos b) (buf_data b)) = PackGenericHeader cfg TYPE_ALIVE_CHECK_REQUEST (of_nat (length p))"
    using size by (simp add: unread_def min_def)
  note h = Unpack_at [OF this]
  have ok: "CheckDoipHeader E c (peer_header cfg TYPE_ALIVE_CHECK_REQUEST (of_nat (length p))) k st
      = Inr (TAF_DOIP_RESULT_OK, st)" for k
    by (rule peer_header_accepted) (use assms(4,5) n fits mds_of_lt [of st] in simp_all)
  have send: "perform E (AliveCheckRes (ds_cfg st) (tcp_link (cliSockRef (conn_of st c))) (testerSA (conn_of st c))) st
      = logged (tcp_events E c (alive_answer st c) st) st"
    unfolding tcp_responses alive_answer_def by (rule perform_frame [OF assms(6)]) simp
  have proc: "ProcessDoipMessage E c TYPE_ALIVE_CHECK_REQUEST (length p) st = Inr (TAF_DOIP_RESULT_OK,
      set_buffer c (advance_buffer (length p) b) (logged (tcp_events E c (alive_answer st c) st) st))"
    using assms(1) send by (simp add: ProcessDoipMessage_def the_buffer_def)
  show ?thesis
    unfolding consume_one_def h mbind_simps ok prod.case
    using proc n by (simp add: peer_header_def is_diag_type_def)
qed

section \<open>A run over the buffer\<close>

lemma consume_alive_loop:
  assumes "inBuf (conn_of st c) = Some b" "buf_ok b" "unread b = concat (map (alive_frame cfg) ps)"
    and "connType (conn_of st c) = TYPE_SVR" "connState (conn_of st c) \<noteq> STATE_FINALIZE"
    and "\<And>p. p \<in> set ps \<Longrightarrow> 8 + length p \<le> mds_of st" "s = cliSockRef (conn_of st c)"
    and "FindConnectionBySocket st s = Some c"
  shows "\<exists>es b'. consume_loop n E c st = Inr (True, set_buffer c b' (logged es st)) \<and> buf_ok b'
     \<and> unread b' = concat (map (alive_frame cfg) (drop n ps))
     \<and> tcp_sent es = replicate (min n (length ps)) (s, alive_answer st c)
     \<and> set es \<subseteq> {EvTimerRestart c GeneralTimer, EvTcp s (alive_answer st c)}"
  using assms
proof (induction n arbitrary: st b ps)
  case 0
  note set_buffer_same [OF 0(1)]
  then show ?case
    using 0 by (subst consume_loop.simps) (auto simp: tcp_sent_def intro!: exI [of _ "[]"] exI [of _ b])
next
  case (Suc n)
  note same = set_buffer_same [OF Suc.prems(1)]
  show ?case
  proof (cases ps)
    case Nil
    then have "buf_dataSize b = 0" using unread_length [OF Suc.prems(2)] Suc.prems(3) by simp
    then show ?thesis
      using Suc.prems Nil same
      by (subst consume_loop.simps) (auto simp: tcp_sent_def intro!: exI [of _ "[]"] exI [of _ b])
  next
    case (Cons p qs)
    let ?es = "tcp_events E c (alive_answer st c) st" and ?b = "advance_buffer (length p) b"
    let ?st = "set_buffer c ?b (logged ?es st)"
    have un: "unread b = alive_frame cfg p @ concat (map (alive_frame cfg) qs)" using Suc.prems(3) Cons by simp
    have l: "length (alive_frame cfg p) = 8 + length p" by (simp add: alive_frame_def length_frame_bytes)
    note adv = advance_one [OF Suc.prems(2) un l]
    have size: "\<not> buf_dataSize b < 8" using unread_length [OF Suc.prems(2)] un l by simp
    have one: "consume_one E c b st = Inr (Again, ?st)"
      by (rule consume_alive [OF Suc.prems(1,2) un Suc.prems(4)]) (use Suc.prems Cons in simp_all)
    have ans: "alive_answer ?st c = alive_answer st c" by (simp add: alive_answer_def)
    have mds: "mds_of ?st = mds_of st" by (rule mds_of_cong) simp
    obtain es b' where IH: "consume_loop n E c ?st = Inr (True, set_buffer c b' (logged es ?st))" "buf_ok b'"
       "unread b' = concat (map (alive_frame cfg) (drop n qs))"
       "tcp_sent es = replicate (min n (length qs)) (s, alive_answer st c)"
       "set es \<subseteq> {EvTimerRestart c GeneralTimer, EvTcp s (alive_answer st c)}"
      using Suc.IH [of ?st ?b qs] adv Suc.prems Cons ans mds by auto
    have "consume_loop (Suc n) E c st = consume_loop n E c ?st"
      using Suc.prems(1,5) size one by (subst consume_loop.simps) simp
    then have "consume_loop (Suc n) E c st = Inr (True, set_buffer c b' (logged (?es @ es) st))"
      using IH(1) by (simp add: set_buffer_twice logged_append)
    then show ?thesis
      using IH Cons Suc.prems(7) tcp_events_set [of E c "alive_answer st c" st]
      by (intro exI [of _ "?es @ es"] exI [of _ b']) auto
  qed
qed

text \<open>
  C39: alive check requests of any payload that lie one behind the other in the reception buffer are
  told apart by their announced lengths. A run of \<open>ConsumeTCPData\<close> answers the first five of them, each
  by one message with the address of the tester, and sends nothing else; exactly the rest of
  the stream stays in the buffer. When messages are left the next run is queued, otherwise the
  connection stops consuming.
\<close>

theorem messages_in_batches:
  assumes "wf st" "c \<in> set (ds_box st)" "inBuf (conn_of st c) = Some b"
    and "unread b = concat (map (alive_frame cfg) ps)" "list_all (\<lambda>p. 8 + length p \<le> mds_of st) ps"
  shows "\<exists>st' b' es. ConsumeTCPData E (cliSockRef (conn_of st c)) st = Inr st'
     \<and> ds_trace st' = ds_trace st @ es @ (if 5 < length ps then [EvQueueConsume (cliSockRef (conn_of st c))] else [])
     \<and> tcp_sent es = replicate (min 5 (length ps)) (cliSockRef (conn_of st c), alive_answer st c)
     \<and> set es \<subseteq> {EvTimerRestart c GeneralTimer, EvTcp (cliSockRef (conn_of st c)) (alive_answer st c)}
     \<and> conn_of st' c = (conn_of st c)\<lparr>inBuf := Some b', isConsuming := (5 < length ps \<and> isConsuming (conn_of st c))\<rparr>
     \<and> unread b' = concat (map (alive_frame cfg) (drop 5 ps))
     \<and> (\<forall>d. d \<noteq> c \<longrightarrow> conn_of st' d = conn_of st d) \<and> ds_box st' = ds_box st"
proof -
  let ?s = "cliSockRef (conn_of st c)"
  have k: "conn_ok (ds_udsSize st) (conn_of st c)" using wf_conn [OF assms(1) wf_in_box [OF assms(1,2)]] .
  have find: "FindConnectionBySocket st ?s = Some c" by (rule FindConnectionBySocket_box [OF wf_box [OF assms(1)] assms(2)])
  have k': "buf_ok b" "connType (conn_of st c) = TYPE_SVR" "connState (conn_of st c) \<noteq> STATE_FINALIZE"
    using k assms(3) wf_live [OF assms(1,2)] by (simp_all add: conn_ok_def live_def)
  have small: "8 + length p \<le> mds_of st" if "p \<in> set ps" for p using assms(5) that by (simp add: list_all_iff)
  obtain es b' where L: "consume_loop 5 E c st = Inr (True, set_buffer c b' (logged es st))" "buf_ok b'"
       "unread b' = concat (map (alive_frame cfg) (drop 5 ps))"
       "tcp_sent es = replicate (min 5 (length ps)) (?s, alive_answer st c)"
       "set es \<subseteq> {EvTimerRestart c GeneralTimer, EvTcp ?s (alive_answer st c)}"
    using consume_alive_loop [OF assms(3) k'(1) assms(4) k'(2,3) small refl find] by blast
  have left: "8 \<le> buf_dataSize b' \<longleftrightarrow> 5 < length ps"
  proof (cases "drop 5 ps")
    case Nil
    then show ?thesis using unread_length [OF L(2)] L(3) by simp
  next
    case (Cons p qs)
    then have "5 < length ps" by (metis drop_eq_Nil list.distinct(1) not_le)
    moreover have "8 \<le> length (unread b')" unfolding L(3) Cons by (simp add: alive_frame_def length_frame_bytes)
    ultimately show ?thesis using unread_length [OF L(2)] by simp
  qed
  have eq: "ConsumeTCPData E ?s st = Inr (if 5 < length ps then emit (EvQueueConsume ?s) (set_buffer c b' (logged es st))
      else stop_consuming c (set_buffer c b' (logged es st)))"
    using find assms(3) L(1) left by (simp add: ConsumeTCPData_def)
  show ?thesis
    unfolding eq using L(3-5)
    by (intro exI [of _ "if 5 < length ps then emit (EvQueueConsume ?s) (set_buffer c b' (logged es st))
      else stop_consuming c (set_buffer c b' (logged es st))"] exI [of _ b'] exI [of _ es])
      (auto simp: emit_logged stop_consuming_def set_buffer_def modc_modc)
qed

text \<open>Seven requests in the buffer of the first example connection, with payloads of different lengths.\<close>

abbreviation example_payloads :: "byte list list" where
  "example_payloads \<equiv> [[], [1], [], [2, 3], [], [4], []]"

definition example_stream :: taf_doip_Buffer where
  "example_stream = \<lparr>buf_data = concat (map (alive_frame example_config) example_payloads) @ replicate 1440 0,
     buf_dataSize = 60, buf_dataPos = 0\<rparr>"

theorem messages_in_batches_witness:
  "\<exists>st' es. ConsumeTCPData example_env 7 (set_buffer 0 example_stream (example_two False)) = Inr st'
     \<and> ds_trace st' = ds_trace (example_two False) @ es @ [EvQueueConsume 7] \<and> length (tcp_sent es) = 5"
proof -
  let ?st = "set_buffer 0 example_stream (example_two False)"
  have len: "length (alive_frame example_config p) = 8 + length p" for p by (simp add: alive_frame_def length_frame_bytes)
  have buf: "length (buf_data example_stream) = 1500" "unread example_stream = concat (map (alive_frame example_config) example_payloads)"
    by (simp_all add: example_stream_def unread_def len)
  have w: "wf ?st"
  proof -
    have "safe_step (example_two False) ?st"
      by (rule set_buffer_safe [OF safe_refl [OF wf_example_two]])
        (use buf in \<open>simp_all add: example_two_sel buf_ok_def example_stream_def\<close>)
    then show ?thesis by (simp add: safe_step_def)
  qed
  have mds: "mds_of ?st = 65536" by (simp add: example_two_sel mds_of_def set_buffer_def GetMaxDataSize_def parsed_def)
  show ?thesis
    using messages_in_batches [OF w, of 0 example_stream example_config example_payloads example_env] buf(2) mds
    by (auto simp: example_two_sel set_buffer_def)
qed

end
