(* ===== verification/Doip_Discovery.thy ===== *)
theory Doip_Discovery
  imports Doip_Faults Doip_Udp
begin

text \<open>
  The requests over UDP, the states of the session and the vehicle announcement: what a datagram can
  cause, which requests are answered, and how often a vehicle announces itself.
\<close>

section \<open>Answers to a datagram\<close>

abbreviation discovery_sock :: "CommunicationMgr \<Rightarrow> sock" where
  "discovery_sock cm \<equiv> (case cm_udpDiscoverSockRef cm of None \<Rightarrow> 0 | Some s \<Rightarrow> s)"

lemma udp_reply_link: "udp_reply cm ip port = udp_link (discovery_sock cm) ip port"
  by (simp add: udp_reply_def udp_link_def)

text \<open>An operation that at most answers the sender of the datagram.\<close>

definition answers :: "CommunicationMgr \<Rightarrow> byte list \<Rightarrow> u16 \<Rightarrow> doip_state \<Rightarrow> doip_state \<Rightarrow> bool" where
  "answers cm ip port st st' \<longleftrightarrow>
     (\<exists>es. st' = logged es st \<and> length es \<le> 1 \<and> (\<forall>e\<in>set es. \<exists>m. e = EvUdp (discovery_sock cm) ip port m))"

lemma answers_refl [simp]: "answers cm ip port st st"
  unfolding answers_def by (intro exI [of _ "[]"]) (simp add: logged_def)

lemma answers_buffer: "answers (cm\<lparr>cm_udpDataBuffer := b, cm_udpDataLen := n\<rparr>) = answers cm"
  by (intro ext) (simp add: answers_def)

lemma answers_one: "answers cm ip port st (logged [EvUdp (discovery_sock cm) ip port m] st)"
  unfolding answers_def by auto

lemma perform_udp: "perform E [SendUDPTo s ip port m] st = logged [EvUdp s ip port m] st"
  by (simp add: emit_logged)

lemma identification_link:
  "VehicleAnnounceOrIdRes X c stk (udp_link s ip port) la fa = [SendUDPTo s ip port (PackGenericHeader c
     TYPE_VEHICLE_ID_RESPONSE 32 @ take TAF_DOIP_VIN_SIZE (case GetVin X (Some c) of Inr v \<Rightarrow> overlay (v @ [0]) stk | Inl e \<Rightarrow> stk)
     @ be16 la @ cfg_eid c @ cfg_gid c @ [fa])]"
  by (simp add: VehicleAnnounceOrIdRes_def udp_link_def SendDoIPMsg_def Let_def)

lemma answers_ops:
  "answers cm ip port st (RespondHeaderNegativeACK_udp E cm ip port nack st)"
  "answers cm ip port st (VehicleIdentifyReqHandler E cm ip port st)"
  "answers cm ip port st (EntityStatusReqHandler E cm ip port st)"
  "answers cm ip port st (PowerModeReqHandler E cm ip port st)"
  by (simp_all add: RespondHeaderNegativeACK_udp_def VehicleIdentifyReqHandler_def EntityStatusReqHandler_def
      PowerModeReqHandler_def udp_reply_link udp_responses identification_link perform_udp answers_one
      del: perform.simps split: sum.split)

lemma answers_process:
  assumes "length buf = TAF_DOIP_MAX_BUFFER_SIZE"
  shows "\<exists>st'. EntityProcessDoipMessageOverUdp E cm t buf 8 n ip port st = Inr st' \<and> answers cm ip port st st'"
proof -
  have "rdn buf 8 17 = Inr (take 17 (drop 8 buf))" "rdn buf 8 6 = Inr (take 6 (drop 8 buf))"
    using assms by (simp_all add: rdn_def)
  then show ?thesis
    by (auto simp: EntityProcessDoipMessageOverUdp_def VehicleIdentifyReqWithEidHandler_def Let_def
        VehicleIdentifyReqWithVinHandler_def answers_ops split: sum.split)
qed

lemma answers_check: "answers cm ip port st (snd (CheckDoipHeaderOverUdp E cm h ip port st))"
  by (simp add: CheckDoipHeaderOverUdp_def Let_def answers_ops)

lemma UnpackHeaderStruct_ok: "p + 8 \<le> length buf \<Longrightarrow> \<exists>h. UnpackHeaderStruct buf p = Inr h"
  by (simp add: UnpackHeaderStruct_def rd_def rdn_def)

text \<open>A check that passes sends nothing.\<close>

lemma check_ok_quiet:
  "CheckDoipHeaderOverUdp E cm h ip port st = (r, st1) \<Longrightarrow> r = TAF_DOIP_RESULT_OK \<Longrightarrow> st1 = st"
  by (auto simp: CheckDoipHeaderOverUdp_def Let_def split: if_splits)

abbreviation example_mgr :: CommunicationMgr where
  "example_mgr \<equiv> \<lparr>cm_state = DOIP_STATE_RUNNING, cm_instanceType = INSTANCE_NODE, cm_udpDiscoverSockRef = Some 3,
     cm_tcpDataSockRef = [Some 4], cm_udpEquipSockRef = [Some 5], cm_localIps = [],
     cm_udpDataBuffer = Some (replicate 1500 0), cm_udpDataLen = 0\<rparr>"

text \<open>
  C38: whatever a datagram of at most the size of the buffer holds, its reception touches no memory
  outside the buffer, leaves the TCP connections as they are and causes at most one message, which
  goes to the sender of the datagram.
\<close>

theorem udp_datagram_safe:
  assumes "cm_udpDataBuffer cm = Some old" "length old = TAF_DOIP_MAX_BUFFER_SIZE"
    and "length bs \<le> TAF_DOIP_MAX_BUFFER_SIZE"
  shows "\<exists>r buf cm' es. RecvUdpData E (Some (bs, ip, port)) cm st = Inr (r, cm', logged es st)
     \<and> cm_udpDataBuffer cm' = Some buf \<and> length buf = TAF_DOIP_MAX_BUFFER_SIZE \<and> length es \<le> 1
     \<and> (\<forall>e\<in>set es. \<exists>m. e = EvUdp (discovery_sock cm) ip port m)"
proof -
  define buf where "buf = bs @ drop (length bs) old"
  have w: "wrn old 0 bs = Inr buf" and len: "length buf = TAF_DOIP_MAX_BUFFER_SIZE"
    using assms by (simp_all add: wrn_def buf_def)
  obtain h where h: "UnpackHeaderStruct buf 0 = Inr h"
    using UnpackHeaderStruct_ok [of 0 buf] len by auto
  define cm2 where "cm2 = cm\<lparr>cm_udpDataBuffer := Some buf, cm_udpDataLen := length bs\<rparr>"
  obtain r st1 where chk: "CheckDoipHeaderOverUdp E cm2 h ip port st = (r, st1)" by fastforce
  have a1: "answers cm2 ip port st st1" using answers_check [of cm2 ip port st E h] chk by simp
  obtain st2 where p: "EntityProcessDoipMessageOverUdp E cm2 (payloadType h) buf 8 (unat (payloadLen h)) ip port st = Inr st2"
      and a2: "answers cm2 ip port st st2"
    using answers_process [OF len] by blast
  have "\<exists>r cm' st'. RecvUdpData E (Some (bs, ip, port)) cm st = Inr (r, cm', st') \<and> answers cm ip port st st'
      \<and> cm_udpDataBuffer cm' = Some buf"
    using assms(1) w h chk p a1 a2 check_ok_quiet [OF chk]
    by (cases "r = TAF_DOIP_RESULT_OK") (simp_all add: RecvUdpData_def Let_def cm2_def answers_buffer)
  then show ?thesis using len unfolding answers_def by blast
qed

theorem udp_datagram_safe_witness:
  "\<exists>r cm' st'. RecvUdpData example_env (Some (replicate 1500 0xFF, [0x31], 13400)) example_mgr example_accept
     = Inr (r, cm', st')"
  using udp_datagram_safe [of example_mgr "replicate 1500 0" "replicate 1500 0xFF" example_env "[0x31]" 13400 example_accept]
  by auto

section \<open>Which requests are answered\<close>

text \<open>A datagram with one well-formed request, from a foreign address.\<close>

definition request_from :: "CommunicationMgr \<Rightarrow> byte list \<Rightarrow> bool" where
  "request_from cm ip \<longleftrightarrow> ip \<notin> set (cm_localIps cm) \<and> ip \<noteq> zero_ip
     \<and> (\<exists>old. cm_udpDataBuffer cm = Some old \<and> length old = TAF_DOIP_MAX_BUFFER_SIZE) \<and> cm_instanceType cm \<noteq> INSTANCE_TESTER"

definition rx_buf :: "CommunicationMgr \<Rightarrow> byte list \<Rightarrow> byte list" where
  "rx_buf cm f = f @ drop (length f) (the (cm_udpDataBuffer cm))"

definition rx_cm :: "CommunicationMgr \<Rightarrow> byte list \<Rightarrow> CommunicationMgr" where
  "rx_cm cm f = cm\<lparr>cm_udpDataBuffer := Some (rx_buf cm f), cm_udpDataLen := length f\<rparr>"

lemma rx_cm_sel [simp]:
  "cm_udpDataLen (rx_cm cm f) = length f" "cm_instanceType (rx_cm cm f) = cm_instanceType cm"
  "cm_udpDiscoverSockRef (rx_cm cm f) = cm_udpDiscoverSockRef cm"
  by (simp_all add: rx_cm_def)

lemma example_request_from: "request_from example_mgr [0x31]"
  by (simp add: request_from_def)

lemma RecvUdpData_frame:
  assumes "request_from cm ip" "length p \<le> 1492" and f_def: "f = frame_bytes cfg (t, p)"
  shows "RecvUdpData E (Some (f, ip, port)) cm st =
       (case CheckDoipHeaderOverUdp E (rx_cm cm f) (peer_header cfg t (of_nat (length p))) ip port st of (r, st1) \<Rightarrow>
        if r \<noteq> TAF_DOIP_RESULT_OK then Inr (TAF_DOIP_RESULT_HDR_ERROR, rx_cm cm f, st1)
        else mbind (EntityProcessDoipMessageOverUdp E (rx_cm cm f) t (rx_buf cm f) 8 (length p) ip port st1) (\<lambda>st2.
          Inr (TAF_DOIP_RESULT_OK, rx_cm cm f, st2)))"
proof -
  obtain old where old: "cm_udpDataBuffer cm = Some old" "length old = TAF_DOIP_MAX_BUFFER_SIZE"
    using assms(1) unfolding request_from_def by auto
  have l: "length f = 8 + length p" by (simp add: f_def frame_bytes_def)
  have w: "wrn old 0 f = Inr (rx_buf cm f)" using old assms(2) l by (simp add: wrn_def rx_buf_def)
  have "take 8 (drop 0 (rx_buf cm f)) = PackGenericHeader cfg t (of_nat (length p))"
    by (simp add: rx_buf_def f_def frame_bytes_def)
  then have u: "UnpackHeaderStruct (rx_buf cm f) 0 = Inr (peer_header cfg t (of_nat (length p)))" by (rule Unpack_at)
  have n: "unat (of_nat (length p) :: u32) = length p"
    using assms(2) unfolding unat_of_nat by simp
  show ?thesis
    using assms(1) old w u n l
    by (simp add: RecvUdpData_def request_from_def rx_cm_def Let_def peer_header_def split: prod.split)
qed

lemma CheckDoipHeaderOverUdp_peer:
  assumes "cm_udpDataLen cm = 8 + n" "n \<le> mds_of st" "n \<le> 1492"
    and "t \<in> {TYPE_VEHICLE_IDENTIFY_REQUEST, TYPE_VEHICLE_IDENTIFY_REQUEST_VIN, TYPE_POWER_MODE_INFO_REQUEST}"
  shows "CheckDoipHeaderOverUdp E cm (peer_header cfg t (of_nat n)) ip port st = (TAF_DOIP_RESULT_OK, st)"
proof -
  have "unat (of_nat n :: u32) = n" using assms(3) unfolding unat_of_nat by simp
  then show ?thesis
    using assms by (auto simp: CheckDoipHeaderOverUdp_def peer_header_def supported_version_byte Let_def)
qed

text \<open>The answer to an identification request of a configured entity.\<close>

definition identification :: "doip_ext \<Rightarrow> taf_doip_Config \<Rightarrow> byte list \<Rightarrow> u16 \<Rightarrow> byte list" where
  "identification X cfg v la = PackGenericHeader cfg TYPE_VEHICLE_ID_RESPONSE 32 @ v @ be16 la
     @ cfg_eid cfg @ cfg_gid cfg @ [if GetAuthEnableStatus (Some cfg) then 0x10 else 0]"

lemma VehicleIdentifyReqHandler_eq:
  assumes "GetEntityLogicalAddr (Some (ds_cfg st)) = Inr la" "GetVin (ev_ext E) (Some (ds_cfg st)) = Inr v"
    and "length v = TAF_DOIP_VIN_SIZE"
  shows "VehicleIdentifyReqHandler E cm ip port st =
     logged [EvUdp (discovery_sock cm) ip port (identification (ev_ext E) (ds_cfg st) v la)] st"
  using assms
  by (simp add: VehicleIdentifyReqHandler_def udp_reply_link identification_link perform_udp overlay_def identification_def
      del: perform.simps)

text \<open>
  A request for the vehicle with a given VIN is answered exactly when it is the VIN of the
  configuration, with the identification of the entity, to the sender; otherwise nothing is sent.
\<close>

theorem vin_request:
  assumes "request_from cm ip" "length v = TAF_DOIP_VIN_SIZE" "TAF_DOIP_VIN_SIZE \<le> mds_of st"
    and "GetVin (ev_ext E) (Some (ds_cfg st)) = Inr own" "length own = TAF_DOIP_VIN_SIZE"
    and "GetEntityLogicalAddr (Some (ds_cfg st)) = Inr la"
  shows "\<exists>cm'. RecvUdpData E (Some (frame_bytes cfg (TYPE_VEHICLE_IDENTIFY_REQUEST_VIN, v), ip, port)) cm st =
     Inr (TAF_DOIP_RESULT_OK, cm', logged (if v = own
        then [EvUdp (discovery_sock cm) ip port (identification (ev_ext E) (ds_cfg st) own la)] else []) st)"
proof -
  let ?t = "TYPE_VEHICLE_IDENTIFY_REQUEST_VIN"
  let ?f = "frame_bytes cfg (?t, v)"
  have l: "length v \<le> 1492" using assms(2) by simp
  have f: "length ?f = 8 + length v" by (simp add: frame_bytes_def)
  have chk: "CheckDoipHeaderOverUdp E (rx_cm cm ?f) (peer_header cfg ?t (of_nat (length v))) ip port st = (TAF_DOIP_RESULT_OK, st)"
    by (rule CheckDoipHeaderOverUdp_peer) (use f assms(2,3) in simp_all)
  have r: "rdn (rx_buf cm ?f) 8 17 = Inr v"
    using assms(2) by (simp add: rdn_def rx_buf_def frame_bytes_def)
  have "EntityProcessDoipMessageOverUdp E (rx_cm cm ?f) ?t (rx_buf cm ?f) 8 (length v) ip port st =
      Inr (logged (if v = own then [EvUdp (discovery_sock cm) ip port (identification (ev_ext E) (ds_cfg st) own la)] else []) st)"
    using r assms(2,4,5) VehicleIdentifyReqHandler_eq [OF assms(6,4,5), of "rx_cm cm ?f" ip port]
    by (cases "v = own") (simp_all add: EntityProcessDoipMessageOverUdp_def VehicleIdentifyReqWithVinHandler_def
        overlay_def Let_def logged_def)
  then show ?thesis unfolding RecvUdpData_frame [OF assms(1) l refl] chk by simp
qed

theorem vin_request_witness:
  "\<exists>cm'. RecvUdpData example_env (Some (frame_bytes example_config (TYPE_VEHICLE_IDENTIFY_REQUEST_VIN, replicate 17 0x41),
       [0x31], 13400)) example_mgr example_accept = Inr (TAF_DOIP_RESULT_OK, cm', logged [] example_accept)"
  using vin_request [OF example_request_from, of "replicate 17 0x41" example_accept example_env "replicate 17 0x30" "0x201"]
  by (simp add: example_accept_sel mds_of_def GetMaxDataSize_def GetVin_def GetEntityLogicalAddr_def parsed_def)

text \<open>
  Requests with an entity identifier and for the entity status are refused with the code for an
  unknown payload type, whatever they carry, although handlers for them exist.
\<close>

theorem optional_requests_refused:
  assumes "request_from cm ip" "length p \<le> 1492" "t \<in> {TYPE_VEHICLE_IDENTIFY_REQUEST_EID, TYPE_ENTITY_STATUS_REQUEST}"
  shows "\<exists>cm'. RecvUdpData E (Some (frame_bytes cfg (t, p), ip, port)) cm st = Inr (TAF_DOIP_RESULT_HDR_ERROR, cm',
     logged [EvUdp (discovery_sock cm) ip port (frame_bytes (ds_cfg st) (TYPE_HEADER_NEGATIVE_ACK, [0x01]))] st)"
proof -
  let ?f = "frame_bytes cfg (t, p)"
  have "CheckDoipHeaderOverUdp E (rx_cm cm ?f) (peer_header cfg t (of_nat (length p))) ip port st = (TAF_DOIP_RESULT_HDR_ERROR,
      logged [EvUdp (discovery_sock cm) ip port (frame_bytes (ds_cfg st) (TYPE_HEADER_NEGATIVE_ACK, [0x01]))] st)"
    using assms(1,3)
    by (auto simp: request_from_def CheckDoipHeaderOverUdp_def peer_header_def supported_version_byte Let_def
        RespondHeaderNegativeACK_udp_def udp_reply_link udp_responses perform_udp simp del: perform.simps)
  then show ?thesis unfolding RecvUdpData_frame [OF assms(1,2) refl] by simp
qed

theorem optional_requests_refused_witness:
  "\<exists>cm'. RecvUdpData example_env (Some (frame_bytes example_config (TYPE_ENTITY_STATUS_REQUEST, []), [0x31], 13400))
       example_mgr example_accept = Inr (TAF_DOIP_RESULT_HDR_ERROR, cm',
     logged [EvUdp 3 [0x31] 13400 (frame_bytes example_config (TYPE_HEADER_NEGATIVE_ACK, [0x01]))] example_accept)"
  using optional_requests_refused [OF example_request_from, of "[]" TYPE_ENTITY_STATUS_REQUEST example_env example_config
      13400 example_accept]
  by (simp add: example_accept_sel)

section \<open>Starting and stopping\<close>

text \<open>The session after a sequence of starts (with what the monitoring answers) and stops.\<close>

datatype session_op = OpStart "sock \<Rightarrow> bool" | OpStop

fun session_run :: "session_op list \<Rightarrow> CommunicationMgr \<Rightarrow> CommunicationMgr" where
  "session_run [] cm = cm"
| "session_run (OpStart mon # ops) cm = session_run ops (snd (SessionStart mon cm))"
| "session_run (OpStop # ops) cm = session_run ops (snd (SessionStop cm))"

text \<open>The datagram buffer exists exactly while the session is started.\<close>

definition session_ok :: "CommunicationMgr \<Rightarrow> bool" where
  "session_ok cm \<longleftrightarrow> cm_state cm \<noteq> DOIP_STATE_FINAL
     \<and> (if cm_state cm = DOIP_STATE_START \<or> cm_state cm = DOIP_STATE_RUNNING
        then \<exists>b. cm_udpDataBuffer cm = Some b \<and> length b = TAF_DOIP_MAX_BUFFER_SIZE
        else cm_udpDataBuffer cm = None)"

lemma session_ok_start: "session_ok cm \<Longrightarrow> session_ok (snd (SessionStart mon cm))"
  by (cases "cm_state cm") (auto simp: session_ok_def SessionStart_def Let_def)

lemma session_ok_stop: "session_ok cm \<Longrightarrow> session_ok (snd (SessionStop cm))"
  by (cases "cm_state cm") (auto simp: session_ok_def SessionStop_def)

text \<open>
  Whatever sequence of starts, failed starts and stops a session goes through, its datagram
  buffer is allocated with its full size exactly while the session is started, and a stop leads back
  to a state from which a start with working sockets runs.
\<close>

theorem session_buffer:
  assumes "cm_state cm = DOIP_STATE_INIT" "cm_udpDataBuffer cm = None"
  shows "session_ok (session_run ops cm)
     \<and> (let cm' = snd (SessionStop (session_run ops cm)) in
        cm_state (snd (SessionStart (\<lambda>s. True) cm')) = DOIP_STATE_RUNNING)"
proof -
  have ok: "session_ok (session_run ops cm)" if "session_ok cm" for ops cm
    using that by (induction ops cm rule: session_run.induct) (simp_all add: session_ok_start session_ok_stop)
  have mon: "monitor_all (\<lambda>s. True) xs" for xs
    by (induction "\<lambda>s::sock. True" xs rule: monitor_all.induct) (auto split: option.split)
  have "session_ok cm" using assms by (simp add: session_ok_def)
  then have o: "session_ok (session_run ops cm)" by (rule ok)
  have "cm_state (snd (SessionStart (\<lambda>s. True) (snd (SessionStop cm')))) = DOIP_STATE_RUNNING" if "session_ok cm'" for cm'
    using that by (cases "cm_state cm'") (auto simp: session_ok_def SessionStart_def SessionStop_def Let_def mon split: option.split)
  then show ?thesis using o by (simp add: Let_def)
qed

theorem session_buffer_witness:
  "session_ok (session_run [OpStart (\<lambda>s. False), OpStop, OpStart (\<lambda>s. True)]
     (example_mgr\<lparr>cm_state := DOIP_STATE_INIT, cm_udpDataBuffer := None\<rparr>))"
  using session_buffer [of "example_mgr\<lparr>cm_state := DOIP_STATE_INIT, cm_udpDataBuffer := None\<rparr>"
      "[OpStart (\<lambda>s. False), OpStop, OpStart (\<lambda>s. True)]"] by (simp del: session_run.simps)

text \<open>
  A start that fails because the discovery socket cannot be monitored leaves the session in the
  state \<open>DOIP_STATE_START\<close>; a second start then reports success at once, without monitoring any
  socket, and the session never runs.
\<close>

theorem failed_start_sticks:
  assumes "cm_state cm = DOIP_STATE_INIT \<or> cm_state cm = DOIP_STATE_STOP"
    and "cm_udpDiscoverSockRef cm = Some s" "\<not> mon s"
  shows "case SessionStart mon cm of (r, cm1) \<Rightarrow> r = TAF_DOIP_RESULT_ERROR
     \<and> (\<forall>mon'. SessionStart mon' cm1 = (TAF_DOIP_RESULT_OK, cm1)) \<and> cm_state cm1 = DOIP_STATE_START"
  using assms by (auto simp: SessionStart_def Let_def)

theorem failed_start_sticks_witness:
  "fst (SessionStart (\<lambda>s. False) (example_mgr\<lparr>cm_state := DOIP_STATE_INIT\<rparr>)) = TAF_DOIP_RESULT_ERROR"
  using failed_start_sticks [of "example_mgr\<lparr>cm_state := DOIP_STATE_INIT\<rparr>" 3 "\<lambda>s. False"] by (auto split: prod.splits)

section \<open>The announcement of the vehicle\<close>

text \<open>The handler of the announcement timer runs once for each content of its uninitialised array.\<close>

fun announce_run ::
  "doip_ext \<Rightarrow> taf_doip_Config \<Rightarrow> sock \<Rightarrow> byte list list \<Rightarrow> VehicleDiscovery \<Rightarrow> VehicleDiscovery mem" where
  "announce_run X c s [] v = Inr v"
| "announce_run X c s (stk # stks) v =
     mbind (VehicleAnnounceTimerHandler X c stk 0 0 0 s v) (announce_run X c s stks)"

definition sent :: "VehicleDiscovery \<Rightarrow> doip_send list" where
  "sent v = concat (map (\<lambda>e. case e of VdSend m \<Rightarrow> [m] | _ \<Rightarrow> []) (vd_trace v))"

lemma sent_simps [simp]:
  "sent (v\<lparr>vd_announceCount := n\<rparr>) = sent v" "sent (v\<lparr>vd_waitTimerRef := w\<rparr>) = sent v"
  "sent (vd_emit (map VdSend ms) v) = sent v @ ms" "sent (vd_emit [VdInterval t, VdStart] v) = sent v"
  "sent (vd_emit [VdStop, VdDelete] v) = sent v"
  by (simp_all add: sent_def vd_emit_def) (induction ms; simp)

lemma vd_emit_sel [simp]:
  "vd_announceCount (vd_emit es v) = vd_announceCount v" "vd_waitTimerRef (vd_emit es v) = vd_waitTimerRef v"
  "vd_maxAnnounceCount (vd_emit es v) = vd_maxAnnounceCount v"
  by (simp_all add: vd_emit_def)

text \<open>One run of the handler, \<open>m\<close> announcements before the last.\<close>

lemma announce_step:
  assumes "vd_waitTimerRef v = VdCreated" "unat (vd_announceCount v) < unat (vd_maxAnnounceCount v)"
    and "GetVin X (Some c) = Inr own" "length own = TAF_DOIP_VIN_SIZE" "cfg_parseStatus c"
  shows "\<exists>v'. VehicleAnnounceTimerHandler X c stk 0 0 0 s v = Inr v'
     \<and> sent v' = sent v @ [SendUDPMulti s (identification X c own (ucast (cfg_entityLA c)))]
     \<and> vd_maxAnnounceCount v' = vd_maxAnnounceCount v
     \<and> (if Suc (unat (vd_announceCount v)) < unat (vd_maxAnnounceCount v)
        then vd_waitTimerRef v' = VdCreated \<and> unat (vd_announceCount v') = Suc (unat (vd_announceCount v))
        else vd_waitTimerRef v' = VdDeleted \<and> vd_announceCount v' = 0)"
proof -
  have lt: "Suc (unat (vd_announceCount v)) < 2 ^ 32"
    using assms(2) unsigned_less [of "vd_maxAnnounceCount v", where ?'a = nat] by simp
  have n: "unat (vd_announceCount v + 1) = Suc (unat (vd_announceCount v))"
    using lt by (simp add: unat_word_ariths)
  have less: "vd_announceCount v + 1 < vd_maxAnnounceCount v \<longleftrightarrow> Suc (unat (vd_announceCount v)) < unat (vd_maxAnnounceCount v)"
    unfolding word_less_nat_alt n ..
  have eq: "vd_announceCount v + 1 = vd_maxAnnounceCount v \<longleftrightarrow> Suc (unat (vd_announceCount v)) = unat (vd_maxAnnounceCount v)"
    by (metis n word_unat_eq_iff)
  have res: "VehicleAnnounceOrIdRes X c stk \<lparr>link_sockRef = s, link_ip = ip, link_port = p, link_commType = SOCKET_TYPE_UDP_MULTI\<rparr>
      (ucast (cfg_entityLA c)) (if GetAuthEnableStatus (Some c) then 0x10 else 0)
      = [SendUDPMulti s (identification X c own (ucast (cfg_entityLA c)))]" for ip p
    using assms(3,4) by (simp add: VehicleAnnounceOrIdRes_def SendDoIPMsg_def identification_def overlay_def Let_def)
  show ?thesis
    using assms(1,2,5) n less eq
    by (cases "Suc (unat (vd_announceCount v)) < unat (vd_maxAnnounceCount v)")
      (simp_all add: VehicleAnnounceTimerHandler_def Let_def GetEntityLogicalAddr_def parsed_def res del: list.map)
qed

text \<open>
  After its initialisation an entity announces itself exactly as often as the configuration says,
  every time with its identification; the last announcement deletes the timer but keeps the reference
  to it, so that announcing again uses a deleted timer.
\<close>

theorem announcements:
  assumes "GetVin X (Some c) = Inr own" "length own = TAF_DOIP_VIN_SIZE" "cfg_parseStatus c"
    and "vd_waitTimerRef v = VdCreated" "vd_announceCount v = 0" "vd_maxAnnounceCount v = cfg_maxAnnounceCount c"
    and "length stks \<le> unat (cfg_maxAnnounceCount c)" "cfg_maxAnnounceCount c \<noteq> 0"
  shows "\<exists>v'. announce_run X c s stks v = Inr v'
     \<and> sent v' = sent v @ replicate (length stks) (SendUDPMulti s (identification X c own (ucast (cfg_entityLA c))))
     \<and> (vd_waitTimerRef v' = VdDeleted \<longleftrightarrow> length stks = unat (cfg_maxAnnounceCount c))
     \<and> (length stks = unat (cfg_maxAnnounceCount c) \<longrightarrow>
         (\<forall>stk w. VehicleDiscoveryAnnounce X c stk 0 0 0 s w v' = Inl UseAfterRelease))"
proof -
  let ?m = "SendUDPMulti s (identification X c own (ucast (cfg_entityLA c)))"
  have run: "\<exists>v'. announce_run X c s stks v = Inr v' \<and> sent v' = sent v @ replicate (length stks) ?m
      \<and> vd_maxAnnounceCount v' = cfg_maxAnnounceCount c
      \<and> (vd_waitTimerRef v' = (if length stks = n then VdDeleted else VdCreated))"
    if "vd_waitTimerRef v = VdCreated" "vd_maxAnnounceCount v = cfg_maxAnnounceCount c"
      "length stks \<le> n" "0 < n" "unat (vd_announceCount v) + n = unat (cfg_maxAnnounceCount c)" for v n
    using that
  proof (induction stks arbitrary: v n)
    case (Cons stk stks)
    have lt: "unat (vd_announceCount v) < unat (vd_maxAnnounceCount v)" using Cons.prems by simp
    obtain v1 where v1: "VehicleAnnounceTimerHandler X c stk 0 0 0 s v = Inr v1" "sent v1 = sent v @ [?m]"
      "vd_maxAnnounceCount v1 = cfg_maxAnnounceCount c"
      "if Suc (unat (vd_announceCount v)) < unat (cfg_maxAnnounceCount c)
        then vd_waitTimerRef v1 = VdCreated \<and> unat (vd_announceCount v1) = Suc (unat (vd_announceCount v))
        else vd_waitTimerRef v1 = VdDeleted \<and> vd_announceCount v1 = 0"
      using announce_step [OF Cons.prems(1) lt assms(1-3), of stk s] Cons.prems(2) by auto
    show ?case
    proof (cases "n = 1")
      case True
      then show ?thesis using v1 Cons.prems by (auto split: if_splits)
    next
      case False
      then have "vd_waitTimerRef v1 = VdCreated" "unat (vd_announceCount v1) + (n - 1) = unat (cfg_maxAnnounceCount c)"
        using v1(4) Cons.prems by (auto split: if_splits)
      moreover have "length stks \<le> n - 1" "0 < n - 1" "(length stks = n - 1) = (length (stk # stks) = n)"
        using False Cons.prems(3,4) by auto
      ultimately show ?thesis
        using Cons.IH [OF _ v1(3), of "n - 1"] v1(1,2) by auto
    qed
  qed (auto simp: sent_def)
  have pos: "0 < unat (cfg_maxAnnounceCount c)" using assms(8) by (simp add: unat_gt_0)
  from run [OF assms(4,6,7) pos] assms(5) obtain v' where v': "announce_run X c s stks v = Inr v'"
    "sent v' = sent v @ replicate (length stks) ?m"
    "vd_waitTimerRef v' = (if length stks = unat (cfg_maxAnnounceCount c) then VdDeleted else VdCreated)"
    by auto
  have "VehicleDiscoveryAnnounce X c stk 0 0 0 s w v' = Inl UseAfterRelease"
    if "length stks = unat (cfg_maxAnnounceCount c)" for stk w
    using that v'(3) by (simp add: VehicleDiscoveryAnnounce_def VehicleAnnounceTimerHandler_def Let_def split: sum.split)
  with v' show ?thesis by auto
qed

theorem announcements_witness:
  "\<exists>v'. announce_run example_ext example_config 3 (replicate 3 (replicate 18 0))
       \<lparr>vd_waitTimerRef = VdCreated, vd_announceCount = 0, vd_maxAnnounceCount = 3, vd_trace = []\<rparr> = Inr v'
     \<and> length (sent v') = 3"
  using announcements [of example_ext example_config "replicate 17 0x30"
      "\<lparr>vd_waitTimerRef = VdCreated, vd_announceCount = 0, vd_maxAnnounceCount = 3, vd_trace = []\<rparr>"
      "replicate 3 (replicate 18 0)" 3]
  by (auto simp: GetVin_def sent_def)

end
