(* ===== verification/Uds_Security.thy ===== *)
theory Uds_Security
  imports Taf_Prelude
begin

unbundle bit_operations_syntax

text \<open>
  The security access service (0x27) of the UDS stack, \<open>tafUDSStack/tafSecurityAccess.cpp\<close>: one
  active object per interface with four states, driven by signals from the diagnostic tool, the
  application, the session management and a delay timer. Pointers to sessions are indices into the
  list of sessions, pointers to levels pairs of indices; \<open>None\<close> is the null pointer.
\<close>

section \<open>Signals, levels and sessions\<close>

datatype SecAccSignal = M_ENTRY_SIG | M_EXIT_SIG | M_INIT_SIG
  | REQUEST_SEED_SIG | SEND_KEY_SIG | REQUEST_SEED_RESPONSE_SIG | SEND_KEY_RESPONSE_SIG
  | DELAY_TIMER_EXPIRED_SIG | SESSION_CONTROL_SIG | SESSION_TIMEOUT_SIG | INVALID_SIG

text \<open>The ways in which the process ends: a null pointer, a failed \<open>SECACC_ASSERT_FATAL\<close>, a write
  outside the send buffer.\<close>

datatype sa_fault = SaNull | SaFatal | SaBounds

type_synonym 'a sa = "sa_fault + 'a"

record SecurityLevel =
  Security_Level :: u16
  Att_Cnt :: u32
  Att_Cnt_Limit :: u32
  Static_Seed :: u16
  Delay_Timer :: u16
  key_size :: u32
  seed_size :: u32
  request_seed_id :: u32

type_synonym level_ref = "nat \<times> nat"

record SecuritySession =
  session_id :: byte
  level_list :: "SecurityLevel list"
  active_level :: "level_ref option"
  unlocked_level :: "level_ref option"

datatype sa_state = State_LockedNoActiveSeed | State_LockedWaitingForKey
  | State_UnlockedNoActiveSeed | State_UnlockedWaitingForKey

text \<open>
  What an operation does to the outside: a negative response of the stack, the request passed to
  the application, a response with a seed of zeros, the NRC the manager is to send, a counter saved
  in the configuration tree, the delay timer, and the semaphore the manager waits for.
\<close>

datatype sa_event = SaNrc byte | SaToApp | SaZeroSeed "byte list" | SaSetNrc byte
  | SaSave byte u16 u32 | SaTimerStart u32 | SaTimerStop | SaPost

record AO_SecurityAccess =
  ao_state :: sa_state
  session_list :: "SecuritySession list"
  current_session :: "nat option"
  default_session :: nat
  last_pending_session_id :: byte
  last_pending_signal :: SecAccSignal
  delay_timer :: bool \<comment> \<open>\<open>le_timer_IsRunning\<close>\<close>
  ao_trace :: "sa_event list"

text \<open>What the handlers read of the UDS manager and of the report when the signal is dispatched.\<close>

record sa_report =
  rp_SessionType :: byte
  rp_recvSid :: byte
  rp_recvSubFunc :: byte
  rp_recvDataLen :: u16
  rp_nrcCode :: byte
  rp_sem :: bool \<comment> \<open>the report has a semaphore\<close>

abbreviation DEFAULT_SESSION :: byte where "DEFAULT_SESSION \<equiv> 0x01"
abbreviation SEC_ACC_DEFAULT_SESSION_ID :: byte where "SEC_ACC_DEFAULT_SESSION_ID \<equiv> 0xFF"
abbreviation UDS_MAX_DATA_SIZE :: nat where "UDS_MAX_DATA_SIZE \<equiv> 16400"

section \<open>Access to the object\<close>

definition sa_emit :: "sa_event \<Rightarrow> AO_SecurityAccess \<Rightarrow> AO_SecurityAccess" where
  "sa_emit e a = a\<lparr>ao_trace := ao_trace a @ [e]\<rparr>"

definition sess :: "AO_SecurityAccess \<Rightarrow> nat \<Rightarrow> SecuritySession" where
  "sess a i = session_list a ! i"

definition level_at :: "AO_SecurityAccess \<Rightarrow> level_ref \<Rightarrow> SecurityLevel" where
  "level_at a r = level_list (sess a (fst r)) ! snd r"

definition mod_sess :: "nat \<Rightarrow> (SecuritySession \<Rightarrow> SecuritySession) \<Rightarrow> AO_SecurityAccess \<Rightarrow> AO_SecurityAccess" where
  "mod_sess i f a = a\<lparr>session_list := (session_list a)[i := f (session_list a ! i)]\<rparr>"

definition set_Att_Cnt :: "level_ref \<Rightarrow> u32 \<Rightarrow> AO_SecurityAccess \<Rightarrow> AO_SecurityAccess" where
  "set_Att_Cnt r n a = mod_sess (fst r)
     (\<lambda>s. s\<lparr>level_list := (level_list s)[snd r := (level_list s ! snd r)\<lparr>Att_Cnt := n\<rparr>]\<rparr>) a"

text \<open>The pointers the handlers follow.\<close>

definition the_current :: "AO_SecurityAccess \<Rightarrow> nat sa" where
  "the_current a = (case current_session a of None \<Rightarrow> Inl SaNull | Some i \<Rightarrow> Inr i)"

definition the_active :: "AO_SecurityAccess \<Rightarrow> level_ref sa" where
  "the_active a = mbind (the_current a) (\<lambda>i.
     case active_level (sess a i) of None \<Rightarrow> Inl SaNull | Some r \<Rightarrow> Inr r)"

definition find_session :: "AO_SecurityAccess \<Rightarrow> byte \<Rightarrow> nat option" where
  "find_session a sid = find_index (\<lambda>s. session_id s = sid) (session_list a)"

definition find_level :: "SecuritySession \<Rightarrow> byte \<Rightarrow> nat option" where
  "find_level s sub = find_index (\<lambda>l. Security_Level l = ucast sub) (level_list s)"

section \<open>Responses\<close>

definition TryToPostSemaphore :: "sa_report \<Rightarrow> AO_SecurityAccess \<Rightarrow> AO_SecurityAccess" where
  "TryToPostSemaphore rp a = (if rp_sem rp then sa_emit SaPost a else a)"

text \<open>The subfunction without the bit that suppresses the response.\<close>

definition sub_function :: "sa_report \<Rightarrow> byte" where
  "sub_function rp = rp_recvSubFunc rp AND 0x7F"

definition seed_byte_size :: "u32 \<Rightarrow> nat" where
  "seed_byte_size bits = (if unat bits mod 8 \<noteq> 0 then unat bits div 8 + 1 else unat bits div 8)"

definition ResponseAllZeroSeed :: "sa_report \<Rightarrow> AO_SecurityAccess \<Rightarrow> AO_SecurityAccess sa" where
  "ResponseAllZeroSeed rp a =
     mbind (the_active a) (\<lambda>r.
     let n = seed_byte_size (seed_size (level_at a r)) in
     if 2 + n > UDS_MAX_DATA_SIZE then Inl SaBounds
     else Inr (TryToPostSemaphore rp
       (sa_emit (SaZeroSeed ([rp_recvSid rp + 0x40, sub_function rp] @ replicate n 0)) a)))"

definition ResponseNRC :: "sa_report \<Rightarrow> byte \<Rightarrow> AO_SecurityAccess \<Rightarrow> AO_SecurityAccess" where
  "ResponseNRC rp nrc a =
     TryToPostSemaphore rp (if nrc \<noteq> 0 then sa_emit (SaNrc nrc) a else sa_emit SaToApp a)"

definition SetResponseNRC :: "sa_report \<Rightarrow> byte \<Rightarrow> AO_SecurityAccess \<Rightarrow> AO_SecurityAccess" where
  "SetResponseNRC rp nrc a = TryToPostSemaphore rp (sa_emit (SaSetNrc nrc) a)"

section \<open>Checks\<close>

definition PreConditionIsNotFulfilled :: "sa_report \<Rightarrow> AO_SecurityAccess \<Rightarrow> bool" where
  "PreConditionIsNotFulfilled rp a =
     (if rp_SessionType rp = DEFAULT_SESSION then True
      else case find_session a (rp_SessionType rp) of
        None \<Rightarrow> True
      | Some i \<Rightarrow> find_level (sess a i) (sub_function rp) = None)"

definition MsgLengthIsNok :: "sa_report \<Rightarrow> SecAccSignal \<Rightarrow> AO_SecurityAccess \<Rightarrow> bool sa" where
  "MsgLengthIsNok rp s a =
     (if s = REQUEST_SEED_SIG then Inr (rp_recvDataLen rp < 2)
      else if s = SEND_KEY_SIG then
        (if rp_recvDataLen rp < 3 then Inr True
         else mbind (the_current a) (\<lambda>i.
           if active_level (sess a i) = None then Inl SaFatal else Inr False))
      else Inr False)"

text \<open>The first level, in the order of the lists, whose counter is at its limit.\<close>

fun limit_ref :: "nat \<Rightarrow> SecuritySession list \<Rightarrow> level_ref option" where
  "limit_ref i [] = None"
| "limit_ref i (s # ss) =
     (case find_index (\<lambda>l. Att_Cnt l = Att_Cnt_Limit l) (level_list s) of
        Some j \<Rightarrow> Some (i, j)
      | None \<Rightarrow> limit_ref (i + 1) ss)"

definition DelayTimerIsNotExpired :: "AO_SecurityAccess \<Rightarrow> bool \<times> AO_SecurityAccess" where
  "DelayTimerIsNotExpired a =
     (if delay_timer a then (True, a)
      else case limit_ref 0 (session_list a) of
        None \<Rightarrow> (False, a)
      | Some r \<Rightarrow>
          let a1 = sa_emit (SaTimerStart (of_nat (unat (Delay_Timer (level_at a r)) * 1000))) (a\<lparr>delay_timer := True\<rparr>);
              a2 = a1\<lparr>current_session := Some (fst r)\<rparr> in
          (True, mod_sess (fst r) (\<lambda>s. s\<lparr>active_level := Some r\<rparr>) a2))"

definition RequestedSubFunctionIsStaticSeed :: "sa_report \<Rightarrow> SecAccSignal \<Rightarrow> AO_SecurityAccess \<Rightarrow> bool sa" where
  "RequestedSubFunctionIsStaticSeed rp s a =
     (let sub = (if s = REQUEST_SEED_RESPONSE_SIG then sub_function rp
                 else if s = SEND_KEY_RESPONSE_SIG then sub_function rp - 1 else 0) in
      mbind (the_current a) (\<lambda>i.
      case find_level (sess a i) sub of
        None \<Rightarrow> Inr False
      | Some j \<Rightarrow> Inr (Static_Seed (level_list (sess a i) ! j) \<noteq> 0)))"

definition SecAccTypeIsNotActive :: "sa_report \<Rightarrow> AO_SecurityAccess \<Rightarrow> bool sa" where
  "SecAccTypeIsNotActive rp a =
     mbind (the_active a) (\<lambda>r. Inr (Security_Level (level_at a r) \<noteq> ucast (sub_function rp)))"

definition KeyIsNok :: "sa_report \<Rightarrow> bool" where
  "KeyIsNok rp \<longleftrightarrow> rp_nrcCode rp = 0x35"

definition RequestedLevelIsUnlocked :: "sa_report \<Rightarrow> AO_SecurityAccess \<Rightarrow> bool sa" where
  "RequestedLevelIsUnlocked rp a =
     mbind (the_current a) (\<lambda>i.
     case unlocked_level (sess a i) of
       None \<Rightarrow> Inr False
     | Some r \<Rightarrow> Inr (Security_Level (level_at a r) = ucast (sub_function rp)))"

section \<open>Changes of the object\<close>

text \<open>The level becomes active in the session that is current before the switch.\<close>

definition ActivateSubfunction :: "sa_report \<Rightarrow> AO_SecurityAccess \<Rightarrow> AO_SecurityAccess sa" where
  "ActivateSubfunction rp a =
     mbind (case find_session a (rp_SessionType rp) of
        None \<Rightarrow> Inr a
      | Some i \<Rightarrow>
          (case find_level (sess a i) (sub_function rp) of
             None \<Rightarrow> Inr (a\<lparr>current_session := Some i\<rparr>)
           | Some j \<Rightarrow>
               mbind (the_current a) (\<lambda>k.
                 Inr ((mod_sess k (\<lambda>s. s\<lparr>active_level := Some (i, j)\<rparr>) a)\<lparr>current_session := Some i\<rparr>)))) (\<lambda>a1.
     case current_session a1 of
       None \<Rightarrow> Inl SaFatal
     | Some k \<Rightarrow> if active_level (sess a1 k) = None then Inl SaFatal else Inr a1)"

definition SaveAttCntToTree :: "AO_SecurityAccess \<Rightarrow> AO_SecurityAccess sa" where
  "SaveAttCntToTree a =
     mbind (the_current a) (\<lambda>i.
     mbind (the_active a) (\<lambda>r.
       Inr (sa_emit (SaSave (session_id (sess a i)) (Security_Level (level_at a r)) (Att_Cnt (level_at a r))) a)))"

definition TriggerDelayTimer :: "AO_SecurityAccess \<Rightarrow> AO_SecurityAccess sa" where
  "TriggerDelayTimer a =
     (let a1 = (if delay_timer a then sa_emit SaTimerStop a else a) in
      mbind (the_active a1) (\<lambda>r.
        Inr (sa_emit (SaTimerStart (of_nat (unat (Delay_Timer (level_at a1 r)) * 1000))) (a1\<lparr>delay_timer := True\<rparr>))))"

definition UnlockCurrentSecLevel :: "AO_SecurityAccess \<Rightarrow> AO_SecurityAccess sa" where
  "UnlockCurrentSecLevel a =
     mbind (the_current a) (\<lambda>i. Inr (mod_sess i (\<lambda>s. s\<lparr>unlocked_level := active_level s\<rparr>) a))"

definition UnlockRequestedSecLevelAndLockOthers :: "AO_SecurityAccess \<Rightarrow> AO_SecurityAccess sa" where
  "UnlockRequestedSecLevelAndLockOthers a =
     mbind (the_current a) (\<lambda>i.
     if active_level (sess a i) = None \<or> unlocked_level (sess a i) = None then Inl SaFatal
     else if active_level (sess a i) \<noteq> unlocked_level (sess a i)
     then Inr (mod_sess i (\<lambda>s. s\<lparr>unlocked_level := active_level s, active_level := None\<rparr>) a)
     else Inr a)"

definition LockCurrentSession :: "AO_SecurityAccess \<Rightarrow> AO_SecurityAccess sa" where
  "LockCurrentSession a =
     mbind (the_current a) (\<lambda>i. Inr (mod_sess i (\<lambda>s. s\<lparr>unlocked_level := None\<rparr>) a))"

definition DeactivateAndLock :: "AO_SecurityAccess \<Rightarrow> AO_SecurityAccess sa" where
  "DeactivateAndLock a =
     mbind (the_current a) (\<lambda>i. LockCurrentSession (mod_sess i (\<lambda>s. s\<lparr>active_level := None\<rparr>) a))"

definition SwitchSessionBasedOnEvent :: "sa_report \<Rightarrow> AO_SecurityAccess \<Rightarrow> AO_SecurityAccess sa" where
  "SwitchSessionBasedOnEvent rp a =
     (if rp_SessionType rp = DEFAULT_SESSION then Inr (a\<lparr>current_session := Some (default_session a)\<rparr>)
      else case find_session a (rp_SessionType rp) of
        None \<Rightarrow> Inl SaFatal
      | Some i \<Rightarrow> Inr (a\<lparr>current_session := Some i\<rparr>))"

definition SwitchSessionAfterDelayTimerTimeout :: "AO_SecurityAccess \<Rightarrow> AO_SecurityAccess sa" where
  "SwitchSessionAfterDelayTimerTimeout a =
     mbind (if last_pending_session_id a = DEFAULT_SESSION then Inr (default_session a)
            else case find_session a (last_pending_session_id a) of
              None \<Rightarrow> Inl SaFatal
            | Some i \<Rightarrow> Inr i) (\<lambda>i.
     Inr (a\<lparr>current_session := Some i, last_pending_signal := INVALID_SIG,
            last_pending_session_id := SEC_ACC_DEFAULT_SESSION_ID\<rparr>))"

definition MarkLastPendingSession :: "sa_report \<Rightarrow> SecAccSignal \<Rightarrow> AO_SecurityAccess \<Rightarrow> AO_SecurityAccess sa" where
  "MarkLastPendingSession rp s a =
     (let a1 = a\<lparr>last_pending_signal := s\<rparr> in
      if s = SESSION_CONTROL_SIG then Inr (a1\<lparr>last_pending_session_id := rp_SessionType rp\<rparr>)
      else if s = SESSION_TIMEOUT_SIG then Inr (a1\<lparr>last_pending_session_id := SEC_ACC_DEFAULT_SESSION_ID\<rparr>)
      else Inl SaFatal)"

section \<open>The states\<close>

datatype MState = M_HANDLED | M_IGNORED | M_TRANSME

type_synonym sa_result = "(MState \<times> AO_SecurityAccess) sa"

definition M_Handled :: "AO_SecurityAccess \<Rightarrow> sa_result" where
  "M_Handled a = Inr (M_HANDLED, a)"

definition M_Translate :: "sa_state \<Rightarrow> AO_SecurityAccess \<Rightarrow> sa_result" where
  "M_Translate s a = Inr (M_TRANSME, a\<lparr>ao_state := s\<rparr>)"

text \<open>
  The delay timer has expired: the counter of the active level is cleared, and a session change that
  came in the meantime is made up for. The first component says whether there was one.
\<close>

definition delay_expired :: "AO_SecurityAccess \<Rightarrow> (bool \<times> AO_SecurityAccess) sa" where
  "delay_expired a =
     mbind (the_active a) (\<lambda>r.
     mbind (SaveAttCntToTree (set_Att_Cnt r 0 a)) (\<lambda>a1.
     if last_pending_signal a1 \<noteq> INVALID_SIG
     then mbind (DeactivateAndLock a1) (\<lambda>a2.
          mbind (SwitchSessionAfterDelayTimerTimeout a2) (\<lambda>a3. Inr (True, a3)))
     else Inr (False, a1)))"

definition handle_LockedNoActiveSeed :: "sa_report \<Rightarrow> SecAccSignal \<Rightarrow> AO_SecurityAccess \<Rightarrow> sa_result" where
  "handle_LockedNoActiveSeed rp s a =
     (case s of
        REQUEST_SEED_SIG \<Rightarrow>
          mbind (MsgLengthIsNok rp REQUEST_SEED_SIG a) (\<lambda>nok.
          if nok then M_Handled (ResponseNRC rp 0x13 a)
          else case DelayTimerIsNotExpired a of (delayed, a1) \<Rightarrow>
            if delayed then M_Handled (ResponseNRC rp 0x37 a1)
            else if PreConditionIsNotFulfilled rp a1 then M_Handled (ResponseNRC rp 0x22 a1)
            else M_Handled (ResponseNRC rp 0x00 a1))
      | REQUEST_SEED_RESPONSE_SIG \<Rightarrow>
          (if rp_nrcCode rp = 0x00
           then mbind (ActivateSubfunction rp a) (\<lambda>a1.
                M_Translate State_LockedWaitingForKey (SetResponseNRC rp 0x00 a1))
           else M_Handled (SetResponseNRC rp (rp_nrcCode rp) a))
      | SEND_KEY_SIG \<Rightarrow> M_Handled (ResponseNRC rp 0x24 a)
      | DELAY_TIMER_EXPIRED_SIG \<Rightarrow> mbind (delay_expired a) (\<lambda>(switched, a1). M_Handled a1)
      | SESSION_CONTROL_SIG \<Rightarrow>
          (case DelayTimerIsNotExpired a of (delayed, a1) \<Rightarrow>
           mbind (if delayed then MarkLastPendingSession rp SESSION_CONTROL_SIG a1
                  else mbind (DeactivateAndLock a1) (SwitchSessionBasedOnEvent rp)) (\<lambda>a2.
           M_Handled (TryToPostSemaphore rp a2)))
      | SESSION_TIMEOUT_SIG \<Rightarrow>
          (case DelayTimerIsNotExpired a of (delayed, a1) \<Rightarrow>
           mbind (if delayed then MarkLastPendingSession rp SESSION_TIMEOUT_SIG a1
                  else mbind (DeactivateAndLock a1) (\<lambda>a2. Inr (a2\<lparr>current_session := Some (default_session a2)\<rparr>))) (\<lambda>a2.
           M_Handled (TryToPostSemaphore rp a2)))
      | _ \<Rightarrow> Inr (M_IGNORED, a))"

text \<open>
  What the two states that wait for a key have in common; \<open>back\<close> is the state without a seed they
  return to. A seed response: with a static seed for the level that is active nothing changes.
\<close>

definition seed_response :: "sa_state \<Rightarrow> sa_report \<Rightarrow> AO_SecurityAccess \<Rightarrow> sa_result" where
  "seed_response back rp a =
     (if rp_nrcCode rp = 0x00
      then
        mbind (RequestedSubFunctionIsStaticSeed rp REQUEST_SEED_RESPONSE_SIG a) (\<lambda>static.
        if static
        then mbind (SecAccTypeIsNotActive rp a) (\<lambda>other.
             if other then mbind (ActivateSubfunction rp a) (\<lambda>a1. M_Handled (SetResponseNRC rp 0x00 a1))
             else M_Handled (SetResponseNRC rp 0x00 a))
        else mbind (ActivateSubfunction rp a) (\<lambda>a1. M_Handled (SetResponseNRC rp 0x00 a1)))
      else M_Translate back (SetResponseNRC rp (rp_nrcCode rp) a))"

definition send_key :: "sa_state \<Rightarrow> sa_report \<Rightarrow> AO_SecurityAccess \<Rightarrow> sa_result" where
  "send_key back rp a =
     mbind (MsgLengthIsNok rp SEND_KEY_SIG a) (\<lambda>nok.
     if nok then M_Translate back (ResponseNRC rp 0x13 a)
     else mbind (the_active a) (\<lambda>r.
       if unat (sub_function rp) \<noteq> unat (Security_Level (level_at a r)) + 1
       then M_Translate back (ResponseNRC rp 0x24 a)
       else M_Handled (ResponseNRC rp 0x00 a)))"

text \<open>A wrong key: the counter goes up, and at the limit the delay timer starts.\<close>

definition wrong_key :: "sa_state \<Rightarrow> sa_report \<Rightarrow> AO_SecurityAccess \<Rightarrow> sa_result" where
  "wrong_key back rp a =
     mbind (the_active a) (\<lambda>r.
     let l = level_at a r in
     if Att_Cnt l + 1 \<ge> Att_Cnt_Limit l
     then mbind (SaveAttCntToTree (set_Att_Cnt r (Att_Cnt_Limit l) a)) (\<lambda>a1.
          mbind (TriggerDelayTimer a1) (\<lambda>a2.
          M_Translate back (SetResponseNRC rp 0x36 a2)))
     else mbind (SaveAttCntToTree (set_Att_Cnt r (Att_Cnt l + 1) a)) (\<lambda>a1.
          M_Translate back (SetResponseNRC rp 0x35 a1)))"

definition clear_Att_Cnt :: "AO_SecurityAccess \<Rightarrow> AO_SecurityAccess sa" where
  "clear_Att_Cnt a =
     mbind (the_active a) (\<lambda>r.
     if Att_Cnt (level_at a r) \<noteq> 0 then SaveAttCntToTree (set_Att_Cnt r 0 a) else Inr a)"

definition leave_session :: "sa_report \<Rightarrow> SecAccSignal \<Rightarrow> AO_SecurityAccess \<Rightarrow> sa_result" where
  "leave_session rp s a =
     mbind (DeactivateAndLock a) (\<lambda>a1.
     mbind (if s = SESSION_CONTROL_SIG then SwitchSessionBasedOnEvent rp a1
            else Inr (a1\<lparr>current_session := Some (default_session a1)\<rparr>)) (\<lambda>a2.
     M_Translate State_LockedNoActiveSeed (TryToPostSemaphore rp a2)))"

definition handle_LockedWaitingForKey :: "sa_report \<Rightarrow> SecAccSignal \<Rightarrow> AO_SecurityAccess \<Rightarrow> sa_result" where
  "handle_LockedWaitingForKey rp s a =
     (case s of
        REQUEST_SEED_SIG \<Rightarrow>
          mbind (MsgLengthIsNok rp REQUEST_SEED_SIG a) (\<lambda>nok.
          if nok then M_Translate State_LockedNoActiveSeed (ResponseNRC rp 0x13 a)
          else M_Handled (ResponseNRC rp 0x00 a))
      | REQUEST_SEED_RESPONSE_SIG \<Rightarrow> seed_response State_LockedNoActiveSeed rp a
      | SEND_KEY_SIG \<Rightarrow> send_key State_LockedNoActiveSeed rp a
      | SEND_KEY_RESPONSE_SIG \<Rightarrow>
          (if KeyIsNok rp then wrong_key State_LockedNoActiveSeed rp a
           else if rp_nrcCode rp \<noteq> 0x00
           then M_Translate State_LockedNoActiveSeed (SetResponseNRC rp (rp_nrcCode rp) a)
           else
             mbind (clear_Att_Cnt a) (\<lambda>a1.
             mbind (UnlockCurrentSecLevel a1) (\<lambda>a2.
             mbind (RequestedSubFunctionIsStaticSeed rp SEND_KEY_RESPONSE_SIG a2) (\<lambda>static.
             M_Translate State_UnlockedNoActiveSeed (SetResponseNRC rp 0x00 a2)))))
      | SESSION_CONTROL_SIG \<Rightarrow> leave_session rp s a
      | SESSION_TIMEOUT_SIG \<Rightarrow> leave_session rp s a
      | _ \<Rightarrow> Inr (M_IGNORED, a))"

definition handle_UnlockedNoActiveSeed :: "sa_report \<Rightarrow> SecAccSignal \<Rightarrow> AO_SecurityAccess \<Rightarrow> sa_result" where
  "handle_UnlockedNoActiveSeed rp s a =
     (case s of
        REQUEST_SEED_SIG \<Rightarrow>
          mbind (MsgLengthIsNok rp REQUEST_SEED_SIG a) (\<lambda>nok.
          if nok then M_Handled (ResponseNRC rp 0x13 a)
          else if PreConditionIsNotFulfilled rp a then M_Handled (ResponseNRC rp 0x22 a)
          else case DelayTimerIsNotExpired a of (delayed, a1) \<Rightarrow>
            if delayed then M_Handled (ResponseNRC rp 0x37 a1)
            else mbind (RequestedLevelIsUnlocked rp a1) (\<lambda>unlocked.
              if unlocked then mbind (ResponseAllZeroSeed rp a1) M_Handled
              else M_Handled (ResponseNRC rp 0x00 a1)))
      | REQUEST_SEED_RESPONSE_SIG \<Rightarrow>
          (if rp_nrcCode rp = 0x00
           then mbind (ActivateSubfunction rp a) (\<lambda>a1.
                M_Translate State_UnlockedWaitingForKey (SetResponseNRC rp 0x00 a1))
           else M_Handled (SetResponseNRC rp (rp_nrcCode rp) a))
      | SEND_KEY_SIG \<Rightarrow> M_Handled (ResponseNRC rp 0x24 a)
      | DELAY_TIMER_EXPIRED_SIG \<Rightarrow>
          mbind (delay_expired a) (\<lambda>(switched, a1).
          if switched then M_Translate State_LockedNoActiveSeed a1 else M_Handled a1)
      | SESSION_CONTROL_SIG \<Rightarrow>
          (case DelayTimerIsNotExpired a of (delayed, a1) \<Rightarrow>
           if delayed
           then mbind (MarkLastPendingSession rp SESSION_CONTROL_SIG a1) (\<lambda>a2.
                mbind (LockCurrentSession a2) (\<lambda>a3. M_Handled (TryToPostSemaphore rp a3)))
           else leave_session rp SESSION_CONTROL_SIG a1)
      | SESSION_TIMEOUT_SIG \<Rightarrow>
          (case DelayTimerIsNotExpired a of (delayed, a1) \<Rightarrow>
           if delayed
           then mbind (MarkLastPendingSession rp SESSION_TIMEOUT_SIG a1) (\<lambda>a2.
                mbind (LockCurrentSession a2) (\<lambda>a3. M_Handled (TryToPostSemaphore rp a3)))
           else leave_session rp SESSION_TIMEOUT_SIG a1)
      | _ \<Rightarrow> Inr (M_IGNORED, a))"

definition handle_UnlockedWaitingForKey :: "sa_report \<Rightarrow> SecAccSignal \<Rightarrow> AO_SecurityAccess \<Rightarrow> sa_result" where
  "handle_UnlockedWaitingForKey rp s a =
     (case s of
        REQUEST_SEED_SIG \<Rightarrow>
          mbind (MsgLengthIsNok rp REQUEST_SEED_SIG a) (\<lambda>nok.
          if nok then M_Translate State_UnlockedNoActiveSeed (ResponseNRC rp 0x13 a)
          else mbind (RequestedLevelIsUnlocked rp a) (\<lambda>unlocked.
            if unlocked then mbind (ResponseAllZeroSeed rp a) (M_Translate State_UnlockedNoActiveSeed)
            else M_Handled (ResponseNRC rp 0x00 a)))
      | REQUEST_SEED_RESPONSE_SIG \<Rightarrow> seed_response State_UnlockedNoActiveSeed rp a
      | SEND_KEY_SIG \<Rightarrow> send_key State_UnlockedNoActiveSeed rp a
      | SEND_KEY_RESPONSE_SIG \<Rightarrow>
          (if KeyIsNok rp then wrong_key State_UnlockedNoActiveSeed rp a
           else if rp_nrcCode rp \<noteq> 0x00
           then M_Translate State_UnlockedNoActiveSeed (SetResponseNRC rp (rp_nrcCode rp) a)
           else
             mbind (clear_Att_Cnt a) (\<lambda>a1.
             mbind (UnlockRequestedSecLevelAndLockOthers a1) (\<lambda>a2.
             mbind (RequestedSubFunctionIsStaticSeed rp SEND_KEY_RESPONSE_SIG a2) (\<lambda>static.
             M_Translate State_UnlockedNoActiveSeed (SetResponseNRC rp 0x00 a2)))))
      | SESSION_CONTROL_SIG \<Rightarrow> leave_session rp s a
      | SESSION_TIMEOUT_SIG \<Rightarrow> leave_session rp s a
      | _ \<Rightarrow> Inr (M_IGNORED, a))"

definition state_fn :: "sa_state \<Rightarrow> sa_report \<Rightarrow> SecAccSignal \<Rightarrow> AO_SecurityAccess \<Rightarrow> sa_result" where
  "state_fn s = (case s of
       State_LockedNoActiveSeed \<Rightarrow> handle_LockedNoActiveSeed
     | State_LockedWaitingForKey \<Rightarrow> handle_LockedWaitingForKey
     | State_UnlockedNoActiveSeed \<Rightarrow> handle_UnlockedNoActiveSeed
     | State_UnlockedWaitingForKey \<Rightarrow> handle_UnlockedWaitingForKey)"

text \<open>The dispatcher: on a transition the old state gets the exit and the new one the entry signal.\<close>

definition MFsm_dispatch :: "sa_report \<Rightarrow> SecAccSignal \<Rightarrow> AO_SecurityAccess \<Rightarrow> AO_SecurityAccess sa" where
  "MFsm_dispatch rp s a =
     (let hdlr = state_fn (ao_state a) in
      mbind (hdlr rp s a) (\<lambda>(st, a1).
      if st = M_TRANSME
      then mbind (hdlr rp M_EXIT_SIG a1) (\<lambda>(st1, a2).
           mbind (state_fn (ao_state a2) rp M_ENTRY_SIG a2) (\<lambda>(st2, a3). Inr a3))
      else Inr a1))"

section \<open>Creation and queries\<close>

text \<open>
  A binding of the configuration: the session and its levels. The counters come from the
  configuration tree: \<open>tree sid lvl\<close> is the saved counter, if the node exists.
\<close>

record security_binding =
  sb_session_id :: byte
  sb_levels :: "SecurityLevel list"

definition GetDefaultSession :: SecuritySession where
  "GetDefaultSession = \<lparr>session_id = SEC_ACC_DEFAULT_SESSION_ID, level_list = [], active_level = None, unlocked_level = None\<rparr>"

definition AO_SecurityAccess_ctor :: "security_binding list \<Rightarrow> AO_SecurityAccess" where
  "AO_SecurityAccess_ctor bs =
     \<lparr>ao_state = State_LockedNoActiveSeed,
      session_list = map (\<lambda>b. \<lparr>session_id = sb_session_id b,
          level_list = map (\<lambda>l. l\<lparr>Att_Cnt := 0\<rparr>) (sb_levels b), active_level = None, unlocked_level = None\<rparr>) bs
        @ [GetDefaultSession],
      current_session = None, default_session = length bs,
      last_pending_session_id = SEC_ACC_DEFAULT_SESSION_ID, last_pending_signal = INVALID_SIG,
      delay_timer = False, ao_trace = []\<rparr>"

definition LoadAttCntAndDelayTimer :: "(byte \<Rightarrow> u16 \<Rightarrow> u32 option) \<Rightarrow> AO_SecurityAccess \<Rightarrow> AO_SecurityAccess" where
  "LoadAttCntAndDelayTimer tree a = a\<lparr>session_list := map (\<lambda>s. s\<lparr>level_list :=
     map (\<lambda>l. l\<lparr>Att_Cnt := (case tree (session_id s) (Security_Level l) of None \<Rightarrow> 0 | Some n \<Rightarrow> n)\<rparr>) (level_list s)\<rparr>)
     (session_list a)\<rparr>"

text \<open>\<open>State_initial\<close>, run by \<open>MFsm_init\<close> when the object is created.\<close>

definition State_initial :: "(byte \<Rightarrow> u16 \<Rightarrow> u32 option) \<Rightarrow> AO_SecurityAccess \<Rightarrow> AO_SecurityAccess" where
  "State_initial tree a =
     (let a1 = LoadAttCntAndDelayTimer tree a in
      a1\<lparr>current_session := Some (default_session a1), ao_state := State_LockedNoActiveSeed\<rparr>)"

definition SecurityAccess_CreateActiveObject ::
  "security_binding list \<Rightarrow> (byte \<Rightarrow> u16 \<Rightarrow> u32 option) \<Rightarrow> AO_SecurityAccess" where
  "SecurityAccess_CreateActiveObject bs tree = State_initial tree (AO_SecurityAccess_ctor bs)"

definition SecurityAccess_IsUnlocked :: "AO_SecurityAccess \<Rightarrow> bool sa" where
  "SecurityAccess_IsUnlocked a = mbind (the_current a) (\<lambda>i. Inr (unlocked_level (sess a i) \<noteq> None))"

definition SecurityAccess_IsLevelUnlocked :: "byte \<Rightarrow> AO_SecurityAccess \<Rightarrow> bool sa" where
  "SecurityAccess_IsLevelUnlocked lvl a =
     mbind (the_current a) (\<lambda>i. Inr (case unlocked_level (sess a i) of
        None \<Rightarrow> False
      | Some r \<Rightarrow> lvl = ucast (Security_Level (level_at a r))))"

end
