(* ===== verification/Uds_Manager.thy ===== *)
theory Uds_Manager
  imports Uds_Security Doip_Config
begin

unbundle bit_operations_syntax

text \<open>
  The manager of the UDS stack, \<open>tafUDSStack/tafUDSCommunicationMgr.cpp\<close>: its state, negative
  responses, timers and the checks of services and subfunctions. The configuration that the build
  generates and the calls into the DoIP stack are the parameter \<open>uds_cfg\<close>; in its functions \<open>None\<close> is
  an exception. Intervals are whole milliseconds. The optional feature A is not compiled in.
\<close>

section \<open>Configuration\<close>

record Access =
  ac_session :: "string list"
  ac_security_type :: byte
  ac_security_level :: "string list"

record DidRight = \<comment> \<open>the first entry of the map \<open>R\<close> or \<open>W\<close>\<close>
  dr_security :: bool
  dr_security_level :: "string list"

record DidEntry =
  de_read_did :: bool
  de_write_did :: bool
  de_diagnostic_session :: "string \<Rightarrow> (DidRight option \<times> DidRight option) option" \<comment> \<open>\<open>R\<close> and \<open>W\<close>\<close>
  de_read_role :: "string list"
  de_write_role :: "string list"
  de_did_size :: int

record IOEntry =
  io_session :: "string list"
  io_control_parameter :: "int list"
  io_did_size :: int
  io_role :: "string list"
  io_diagnostic_session :: "string \<Rightarrow> DidRight option"

record RoutineEntry =
  re_identifier :: int
  re_session :: "string list"
  re_security_level :: "string list"
  re_sub_function :: "int list"
  re_routine_role :: "string list"

record DiagSessionEntry =
  ds_short_name :: string
  ds_p2_server_ms :: nat
  ds_p2_star_ms :: nat

record CommonProps =
  cp_max_number_of_rcrrp :: nat
  cp_s3_ms :: nat
  cp_ignore_request_for_hardreset :: bool

text \<open>A service or subfunction: supported, and whether it needs authentication.\<close>

type_synonym entry_flags = "bool \<times> bool"

text \<open>The address of a diagnostic message.\<close>

record uds_addr =
  ad_sa :: u16
  ad_ta :: u16
  ad_functional :: bool
  ad_vlanId :: u16

datatype uds_ind = SERVICE_MSG_INDICATION | SET_STATE_AND_CANCEL | CANCEL_RESULT
  | AUTHENTICATION_EXPIRATION | SESSION_CHANGE

text \<open>
  What the manager does to the outside: a message given to the DoIP stack, a message delivered to the
  diagnostic service, a report to the intrusion detection, and values stored in the configuration tree.
\<close>

datatype uds_event = UeDiag uds_addr "byte list" | UeApp uds_addr "byte list" | UeIdps byte byte "byte list"
  | UeStoreAttCnt byte | UeStoreDelay u16

record uds_cfg =
  cfg_service :: "byte \<Rightarrow> entry_flags option"
  cfg_service_access :: "byte \<Rightarrow> Access option"
  cfg_subfunction :: "byte \<Rightarrow> byte \<Rightarrow> entry_flags option"
  cfg_subfunction_session :: "byte \<Rightarrow> byte \<Rightarrow> string list option"
  cfg_subfunction_access :: "byte \<Rightarrow> byte \<Rightarrow> Access option"
  cfg_session_map :: "(string \<times> byte) list" \<comment> \<open>the map of \<open>GetSessionMap\<close>\<close>
  cfg_security_level_id :: "string \<Rightarrow> byte option"
  cfg_diagnostic_session :: "byte \<Rightarrow> DiagSessionEntry option"
  cfg_common_props :: "CommonProps option"
  cfg_auth_roles :: "(string \<Rightarrow> 64 word option) option"
  cfg_auth_timeout :: "nat option"
  cfg_pattern_sessions :: "byte \<Rightarrow> byte list option"
  cfg_pattern_levels :: "byte \<Rightarrow> byte list option"
  cfg_service_functional :: "byte \<Rightarrow> bool"
  cfg_did_functional :: "u16 \<Rightarrow> bool"
  cfg_did_entry :: "u16 \<Rightarrow> DidEntry option"
  cfg_io_entry :: "u16 \<Rightarrow> IOEntry option"
  cfg_is_forbidden :: "u16 \<Rightarrow> byte list \<Rightarrow> bool option"
  cfg_io_mask_size :: "u16 \<Rightarrow> u16"
  cfg_routines :: "RoutineEntry list"
  cfg_session_id :: "string \<Rightarrow> int option" \<comment> \<open>\<open>diag_session\<close> of the root\<close>
  cfg_level_id :: "string \<Rightarrow> int option" \<comment> \<open>\<open>session_secur_level\<close> of the root\<close>
  cfg_routine_record :: "u16 \<Rightarrow> byte \<Rightarrow> string"
  cfg_routine_record_size :: "string \<Rightarrow> nat"
  cfg_validate_record :: "byte list \<Rightarrow> string \<Rightarrow> bool option"
  cfg_idps_available :: bool
  cfg_idps_supported :: "byte \<Rightarrow> bool"
  env_diag_request :: "uds_event list \<Rightarrow> bool" \<comment> \<open>\<open>taf_doip_DiagRequest\<close> returns \<open>LE_OK\<close>\<close>

section \<open>State\<close>

datatype taf_UDSAuthState = AUTH_STATE_DEAUTHENTICATED | AUTH_STATE_AUTHENTICATED | AUTH_STATE_UNKNOWN

datatype taf_UDSTimer_EventType = S3_TIMER_STOP | S3_TIMER_START | S3_TIMER_RESTART
  | P2STAR_TIMER_STOP | P2STAR_TIMER_START | AUTH_TIMER_STOP | AUTH_TIMER_START | AUTH_TIMER_RESTART
  | AUTH_DELAY_TIMER_STOP | AUTH_DELAY_TIMER_START | S3_TIMER_CHECK_TO_RESTART

text \<open>Timers that run, with their interval; \<open>UdsTimerEventReport\<close> queues events for their thread.\<close>

record uds_timers =
  tm_s3 :: "nat option"
  tm_p2star :: "(nat \<times> nat \<times> nat) option" \<comment> \<open>interval, repetitions, expiries so far\<close>
  tm_auth :: "nat option"
  tm_authDelay :: "nat option"

record uds_mgr =
  recvBuf :: "byte list"
  recvDataLen :: u16
  sendBuf :: "byte list"
  sendDataLen :: u16
  tpBuf :: "byte list"
  um_recvSid :: byte
  um_recvSubFunc :: byte
  nrcCode :: byte
  SessionType :: byte
  currentRoleVal :: "64 word"
  authState :: taf_UDSAuthState
  authPreSucReq :: byte
  authAttCnt :: byte
  authDelayTime :: u16
  readyToRecvData :: bool
  isPaused :: bool
  isXferActive :: bool
  isResetInProgress :: bool
  um_addrInfo :: uds_addr
  udsRespAddrInfo :: uds_addr
  cancelFileXferReqList :: "u16 list"
  mSecurityAccess :: AO_SecurityAccess
  um_timers :: uds_timers
  um_timerq :: "(taf_UDSTimer_EventType \<times> nat) list"
  um_indq :: "(uds_ind \<times> byte list) list" \<comment> \<open>\<open>udsIndMsgEventId\<close>\<close>
  um_p2q :: "(byte \<times> byte \<times> uds_addr) list" \<comment> \<open>contexts queued by \<open>P2StarTimeoutHandler\<close>\<close>
  um_secq :: nat \<comment> \<open>session timeouts reported to the security access thread\<close>
  um_vlanId :: u16
  um_handler :: bool \<comment> \<open>the diagnostic service has a handler\<close>
  um_trace :: "uds_event list"

text \<open>How the process or a thread ends: an uncaught fault, or a wait for a semaphore nobody posts.\<close>

datatype uds_fault = UdsBounds | UdsSec sa_fault | UdsWait | UdsFatal

type_synonym 'a uds = "uds_fault + 'a"

abbreviation UDS_DATA_SIZE :: nat where "UDS_DATA_SIZE \<equiv> 4095"
abbreviation UDS_CERT_MAX_LEN :: nat where "UDS_CERT_MAX_LEN \<equiv> 8192"
abbreviation UDS_P2_STAR_SERVER :: nat where "UDS_P2_STAR_SERVER \<equiv> 5000"
abbreviation UDS_P2_STAR_SERVER_MAX :: nat where "UDS_P2_STAR_SERVER_MAX \<equiv> 655350"
abbreviation UDS_P2_STAR_SERVER_CNT :: nat where "UDS_P2_STAR_SERVER_CNT \<equiv> 120"
abbreviation UDS_S3_SERVER :: nat where "UDS_S3_SERVER \<equiv> 5000"
abbreviation MAX_AUTH_TIME :: nat where "MAX_AUTH_TIME \<equiv> 30"
abbreviation AUTH_SUBFUNC_UNKNOWN :: byte where "AUTH_SUBFUNC_UNKNOWN \<equiv> 0xFF"

definition uemit :: "uds_event \<Rightarrow> uds_mgr \<Rightarrow> uds_mgr" where
  "uemit e m = m\<lparr>um_trace := um_trace m @ [e]\<rparr>"

text \<open>Messages for the diagnostic service are queued for the main thread.\<close>

definition ind_report :: "uds_ind \<Rightarrow> byte list \<Rightarrow> uds_mgr \<Rightarrow> uds_mgr" where
  "ind_report i bs m = m\<lparr>um_indq := um_indq m @ [(i, bs)]\<rparr>"

definition UdsTimerEventReport :: "taf_UDSTimer_EventType \<Rightarrow> nat \<Rightarrow> uds_mgr \<Rightarrow> uds_mgr" where
  "UdsTimerEventReport e n m = m\<lparr>um_timerq := um_timerq m @ [(e, n)]\<rparr>"

text \<open>A pointer or assertion fault of the security access object is one of the process.\<close>

definition usec :: "'a sa \<Rightarrow> 'a uds" where
  "usec r = (case r of Inl e \<Rightarrow> Inl (UdsSec e) | Inr a \<Rightarrow> Inr a)"

text \<open>Reading the receive buffer at a computed index.\<close>

definition urd :: "uds_mgr \<Rightarrow> nat \<Rightarrow> byte uds" where
  "urd m i = (if i < length (recvBuf m) then Inr (recvBuf m ! i) else Inl UdsBounds)"

section \<open>Timers\<close>

definition max_rcrrp :: "uds_cfg \<Rightarrow> nat" where
  "max_rcrrp c = (case cfg_common_props c of None \<Rightarrow> UDS_P2_STAR_SERVER_CNT | Some p \<Rightarrow> cp_max_number_of_rcrrp p)"

text \<open>
  The thread of the timers; \<open>remaining\<close> is what is left of the S3 timer. Starting a timer that runs has
  no effect in Legato.
\<close>

definition start_timer :: "'a \<Rightarrow> 'a option \<Rightarrow> 'a option" where
  "start_timer n t = (case t of None \<Rightarrow> Some n | Some k \<Rightarrow> Some k)"

definition UdsTimerHandler :: "uds_cfg \<Rightarrow> byte \<Rightarrow> nat \<Rightarrow> taf_UDSTimer_EventType \<times> nat \<Rightarrow> uds_timers \<Rightarrow> uds_timers" where
  "UdsTimerHandler c session remaining e t =
     (case fst e of
        S3_TIMER_STOP \<Rightarrow> t\<lparr>tm_s3 := None\<rparr>
      | S3_TIMER_START \<Rightarrow> t\<lparr>tm_s3 := Some (snd e)\<rparr>
      | S3_TIMER_RESTART \<Rightarrow> (if tm_s3 t \<noteq> None then t\<lparr>tm_s3 := Some (snd e)\<rparr> else t)
      | S3_TIMER_CHECK_TO_RESTART \<Rightarrow>
          (if tm_s3 t \<noteq> None then if remaining \<ge> snd e then t else t\<lparr>tm_s3 := Some (snd e)\<rparr> else t)
      | AUTH_TIMER_STOP \<Rightarrow> t\<lparr>tm_auth := None\<rparr>
      | AUTH_TIMER_START \<Rightarrow> t\<lparr>tm_auth := Some (snd e)\<rparr>
      | AUTH_TIMER_RESTART \<Rightarrow> t\<lparr>tm_auth := Some (snd e)\<rparr>
      | AUTH_DELAY_TIMER_STOP \<Rightarrow> t\<lparr>tm_authDelay := None\<rparr>
      | AUTH_DELAY_TIMER_START \<Rightarrow> t\<lparr>tm_authDelay := start_timer (snd e) (tm_authDelay t)\<rparr>
      | P2STAR_TIMER_STOP \<Rightarrow> t\<lparr>tm_p2star := None\<rparr>
      | P2STAR_TIMER_START \<Rightarrow>
          (let p2 = (case cfg_diagnostic_session c session of
                None \<Rightarrow> UDS_P2_STAR_SERVER
              | Some s \<Rightarrow> if ds_p2_star_ms s > UDS_P2_STAR_SERVER_MAX \<or> ds_p2_star_ms s < 1500
                  then UDS_P2_STAR_SERVER else ds_p2_star_ms s) in
           t\<lparr>tm_p2star := start_timer (p2 - 500, max_rcrrp c, 0) (tm_p2star t)\<rparr>))"

text \<open>The next queued timer event is handled.\<close>

definition uds_timer_step :: "uds_cfg \<Rightarrow> nat \<Rightarrow> uds_mgr \<Rightarrow> uds_mgr" where
  "uds_timer_step c remaining m = (case um_timerq m of
       [] \<Rightarrow> m
     | e # es \<Rightarrow> m\<lparr>um_timerq := es, um_timers := UdsTimerHandler c (SessionType m) remaining e (um_timers m)\<rparr>)"

definition p2star_interval :: "uds_cfg \<Rightarrow> byte \<Rightarrow> nat" where
  "p2star_interval c session = (case cfg_diagnostic_session c session of
       None \<Rightarrow> UDS_P2_STAR_SERVER
     | Some s \<Rightarrow> if ds_p2_star_ms s > UDS_P2_STAR_SERVER_MAX then UDS_P2_STAR_SERVER else ds_p2_star_ms s)"

definition CheckAndSendCancelFileXferEvent :: "uds_mgr \<Rightarrow> uds_mgr" where
  "CheckAndSendCancelFileXferEvent m = ind_report SET_STATE_AND_CANCEL [0xFC, 0] m"

text \<open>A request that was handled: the manager is ready again.\<close>

definition request_done :: "uds_mgr \<Rightarrow> uds_mgr" where
  "request_done m = (if \<not> readyToRecvData m
     then CheckAndSendCancelFileXferEvent (m\<lparr>readyToRecvData := True\<rparr>) else m)"

definition CheckAndRestartS3Timer :: "uds_cfg \<Rightarrow> byte \<Rightarrow> bool \<Rightarrow> uds_mgr \<Rightarrow> uds_mgr" where
  "CheckAndRestartS3Timer c serviceId isRespFromSvc m =
     (let m1 = (if isRespFromSvc then request_done (UdsTimerEventReport P2STAR_TIMER_STOP 0 m) else m);
          s3 = (case cfg_common_props c of None \<Rightarrow> UDS_S3_SERVER | Some p \<Rightarrow> cp_s3_ms p) in
      if s3 < p2star_interval c (SessionType m1) * max_rcrrp c
      then if \<not> isRespFromSvc then UdsTimerEventReport S3_TIMER_CHECK_TO_RESTART s3 m1
           else if serviceId \<noteq> 0x10 then UdsTimerEventReport S3_TIMER_RESTART s3 m1
           else m1
      else m1)"

section \<open>Sending\<close>

text \<open>The report to the intrusion detection: negative responses but 0x78, and positive ones.\<close>

definition SendIdpsIndMsg :: "uds_cfg \<Rightarrow> uds_mgr \<Rightarrow> uds_mgr" where
  "SendIdpsIndMsg c m =
     (if sendDataLen m < 1 \<or> recvDataLen m < 1 then m
      else
        let negative = sendBuf m ! 0 = 0x7F;
            sid = (if negative then sendBuf m ! 1 else sendBuf m ! 0 AND NOT 0x40);
            status = (if negative then sendBuf m ! 2 else 0) in
        if negative \<and> (sendDataLen m \<noteq> 3 \<or> status = 0x78) then m
        else if \<not> cfg_idps_supported c sid then m
        else uemit (UeIdps sid status (take (min (unat (recvDataLen m)) 32) (recvBuf m))) m)"

definition respond_addr :: "uds_addr \<Rightarrow> uds_addr" where
  "respond_addr a = a\<lparr>ad_sa := ad_ta a, ad_ta := ad_sa a\<rparr>"

definition SendData :: "uds_cfg \<Rightarrow> byte \<Rightarrow> byte \<Rightarrow> uds_addr \<Rightarrow> uds_mgr \<Rightarrow> uds_mgr" where
  "SendData c sid errorCode a m =
     (let msg = (if sid = 0x3E then tpBuf m else take (unat (sendDataLen m)) (sendBuf m));
          m1 = uemit (UeDiag (respond_addr a) msg) m in
      if env_diag_request c (um_trace m)
      then if errorCode \<noteq> 0x78 then CheckAndRestartS3Timer c sid False m1 else m1
      else m1)"

definition SetNRC :: "byte \<Rightarrow> byte \<Rightarrow> uds_mgr \<Rightarrow> uds_mgr" where
  "SetNRC sid errorCode m = m\<lparr>sendBuf := [0x7F, sid, errorCode] @ drop 3 (sendBuf m), sendDataLen := 3\<rparr>"

definition SendNRC :: "uds_cfg \<Rightarrow> byte \<Rightarrow> byte \<Rightarrow> uds_addr \<Rightarrow> uds_mgr \<Rightarrow> uds_mgr" where
  "SendNRC c sid errorCode a m =
     (if sid = 0x3E then SendData c sid errorCode a (m\<lparr>tpBuf := [0x7F, 0x3E, errorCode]\<rparr>)
      else
        let m1 = SendData c sid errorCode a (SetNRC sid errorCode m) in
        if errorCode = 0x78 then m1
        else if cfg_idps_available c then SendIdpsIndMsg c m1 else m1)"

section \<open>Checks of services\<close>

definition IsServiceIDSupported :: "uds_cfg \<Rightarrow> byte \<Rightarrow> bool" where
  "IsServiceIDSupported c sid = (case cfg_service c sid of None \<Rightarrow> False | Some f \<Rightarrow> fst f)"

definition IsAuthCheckOK :: "uds_cfg \<Rightarrow> byte \<Rightarrow> uds_mgr \<Rightarrow> bool" where
  "IsAuthCheckOK c sid m =
     (if sid = 0x29 then True
      else case cfg_service c sid of
        None \<Rightarrow> True
      | Some f \<Rightarrow> if snd f then authState m = AUTH_STATE_AUTHENTICATED else True)"

text \<open>The current session is one of the named ones; unknown names are ignored.\<close>

definition session_named :: "uds_cfg \<Rightarrow> string list \<Rightarrow> uds_mgr \<Rightarrow> bool" where
  "session_named c names m = list_ex (\<lambda>n. map_of (cfg_session_map c) n = Some (SessionType m)) names"

definition IsValidSvcActiveSession :: "uds_cfg \<Rightarrow> byte \<Rightarrow> uds_mgr \<Rightarrow> bool" where
  "IsValidSvcActiveSession c sid m =
     (if SessionType m = DEFAULT_SESSION \<and> sid \<in> {0x27, 0x2F, 0x36, 0x37, 0x38} then False
      else case cfg_service_access c sid of
        None \<Rightarrow> True
      | Some ac \<Rightarrow> if ac_session ac = [] then True else session_named c (ac_session ac) m)"

text \<open>
  Whether one of the named levels is unlocked. The search ends at the first one; an unknown name
  before it is the exception \<open>None\<close>.
\<close>

fun level_unlocked :: "uds_cfg \<Rightarrow> string list \<Rightarrow> uds_mgr \<Rightarrow> bool option uds" where
  "level_unlocked c [] m = Inr (Some False)"
| "level_unlocked c (n # ns) m =
     (case cfg_security_level_id c n of
        None \<Rightarrow> Inr None
      | Some l \<Rightarrow> mbind (usec (SecurityAccess_IsLevelUnlocked l (mSecurityAccess m))) (\<lambda>u.
          if u then Inr (Some True) else level_unlocked c ns m))"

text \<open>The part that services and subfunctions share: the server is unlocked at one of the levels.\<close>

definition access_unlocked :: "uds_cfg \<Rightarrow> Access \<Rightarrow> uds_mgr \<Rightarrow> bool uds" where
  "access_unlocked c ac m =
     (if ac_security_type ac = 0x27
      then mbind (usec (SecurityAccess_IsUnlocked (mSecurityAccess m))) (\<lambda>u.
        if \<not> u then Inr False
        else if ac_security_level ac = [] then Inr True
        else mbind (level_unlocked c (ac_security_level ac) m) (\<lambda>r.
          Inr (case r of None \<Rightarrow> True | Some b \<Rightarrow> b)))
      else Inr True)"

definition IsSvcSecAccessMatched :: "uds_cfg \<Rightarrow> byte \<Rightarrow> uds_mgr \<Rightarrow> bool uds" where
  "IsSvcSecAccessMatched c sid m =
     (if sid = 0x27 then Inr True
      else if SessionType m = DEFAULT_SESSION then Inr True
      else case cfg_service_access c sid of
        None \<Rightarrow> Inr True
      | Some ac \<Rightarrow> access_unlocked c ac m)"

text \<open>
  The checks that all services have in common; the first component says whether a negative response
  was sent.
\<close>

definition GeneralServerResp :: "uds_cfg \<Rightarrow> uds_addr \<Rightarrow> byte \<Rightarrow> uds_mgr \<Rightarrow> (bool \<times> uds_mgr) uds" where
  "GeneralServerResp c a sid m =
     (if \<not> IsServiceIDSupported c sid then Inr (True, SendNRC c sid 0x11 a m)
      else
        let m1 = (if authState m = AUTH_STATE_AUTHENTICATED
            then UdsTimerEventReport AUTH_TIMER_RESTART
              ((case cfg_auth_timeout c of None \<Rightarrow> MAX_AUTH_TIME | Some t \<Rightarrow> t) * 1000) m
            else m) in
        if \<not> IsAuthCheckOK c sid m1 then Inr (True, SendNRC c sid 0x34 a m1)
        else if \<not> IsValidSvcActiveSession c sid m1 then Inr (True, SendNRC c sid 0x7F a m1)
        else mbind (IsSvcSecAccessMatched c sid m1) (\<lambda>ok.
          if \<not> ok then Inr (True, SendNRC c sid 0x33 a m1) else Inr (False, m1)))"

section \<open>Checks of subfunctions\<close>

definition IsSubFuncSupported :: "uds_cfg \<Rightarrow> byte \<Rightarrow> byte \<Rightarrow> bool" where
  "IsSubFuncSupported c sid sub = (case cfg_subfunction c sid sub of None \<Rightarrow> False | Some f \<Rightarrow> fst f)"

definition IsSubFuncAuthCheckOK :: "uds_cfg \<Rightarrow> byte \<Rightarrow> byte \<Rightarrow> uds_mgr \<Rightarrow> bool" where
  "IsSubFuncAuthCheckOK c sid sub m =
     (case cfg_subfunction c sid sub of
        None \<Rightarrow> True
      | Some f \<Rightarrow> if snd f then authState m = AUTH_STATE_AUTHENTICATED else True)"

definition IsSubFuncSessTypeValid :: "uds_cfg \<Rightarrow> byte \<Rightarrow> byte \<Rightarrow> uds_mgr \<Rightarrow> bool" where
  "IsSubFuncSessTypeValid c sid sub m =
     (case cfg_subfunction_session c sid sub of
        None \<Rightarrow> True
      | Some names \<Rightarrow> if names = [] then True else session_named c names m)"

definition IsSubFuncSecAccessMatched :: "uds_cfg \<Rightarrow> byte \<Rightarrow> byte \<Rightarrow> uds_mgr \<Rightarrow> bool uds" where
  "IsSubFuncSecAccessMatched c sid sub m =
     (if SessionType m = DEFAULT_SESSION then Inr True
      else case cfg_subfunction_access c sid sub of
        None \<Rightarrow> Inr True
      | Some ac \<Rightarrow> access_unlocked c ac m)"

section \<open>Roles\<close>

definition IsAuthRoleMatchedImpl :: "uds_cfg \<Rightarrow> string list \<Rightarrow> uds_mgr \<Rightarrow> bool" where
  "IsAuthRoleMatchedImpl c roleNames m =
     (if roleNames = [] then True
      else case cfg_auth_roles c of
        None \<Rightarrow> False
      | Some roles \<Rightarrow>
          list_ex (\<lambda>n. case roles n of None \<Rightarrow> False | Some v \<Rightarrow> v AND currentRoleVal m \<noteq> 0) roleNames
          \<and> authState m = AUTH_STATE_AUTHENTICATED)"

end
