(* ===== verification/Uds_Requests.thy ===== *)
theory Uds_Requests
  imports Uds_Manager
begin

unbundle bit_operations_syntax

text \<open>
  The requests of the diagnostic tool: the checks of each service in the order of the code, which end
  in a negative response or pass the request to the diagnostic service. The first component of the
  outcome is \<open>isInternalHandle\<close>.
\<close>

type_synonym ind = "(bool \<times> uds_mgr) uds"

definition nrc_out :: "uds_cfg \<Rightarrow> uds_addr \<Rightarrow> byte \<Rightarrow> byte \<Rightarrow> uds_mgr \<Rightarrow> ind" where
  "nrc_out c a sid code m = Inr (True, SendNRC c sid code a m)"

definition pass_on :: "uds_mgr \<Rightarrow> ind" where
  "pass_on m = Inr (False, m)"

definition be_at :: "byte list \<Rightarrow> nat \<Rightarrow> u16" where
  "be_at buf i = ucast (buf ! i) * 256 + ucast (buf ! (i + 1))"

section \<open>Requests with a subfunction\<close>

text \<open>What most services check last: authentication, session and security of the subfunction.\<close>

definition subfunction_access :: "uds_cfg \<Rightarrow> uds_addr \<Rightarrow> byte \<Rightarrow> byte \<Rightarrow> uds_mgr \<Rightarrow> ind \<Rightarrow> ind" where
  "subfunction_access c a sid sub m next =
     (if \<not> IsSubFuncAuthCheckOK c sid sub m then nrc_out c a sid 0x34 m
      else if \<not> IsSubFuncSessTypeValid c sid sub m then nrc_out c a sid 0x7E m
      else mbind (IsSubFuncSecAccessMatched c sid sub m) (\<lambda>ok.
        if \<not> ok then nrc_out c a sid 0x33 m else next))"

definition PrecheckForSwitchingSession :: "uds_cfg \<Rightarrow> byte \<Rightarrow> byte \<Rightarrow> uds_mgr \<Rightarrow> bool uds" where
  "PrecheckForSwitchingSession c original targeted m =
     (case cfg_pattern_sessions c targeted of
        None \<Rightarrow> Inr True
      | Some sessions \<Rightarrow>
          if sessions = [] then Inr True
          else if original \<notin> set sessions then Inr False
          else case cfg_pattern_levels c targeted of
            None \<Rightarrow> Inr True
          | Some levels \<Rightarrow>
              if levels = [] then Inr True
              else foldr (\<lambda>l rest. mbind (usec (SecurityAccess_IsLevelUnlocked l (mSecurityAccess m)))
                     (\<lambda>u. if u then Inr True else rest)) levels (Inr False))"

definition IndicateSessionCtrlReq :: "uds_cfg \<Rightarrow> uds_addr \<Rightarrow> uds_mgr \<Rightarrow> ind" where
  "IndicateSessionCtrlReq c a m =
     (let sid = recvBuf m ! 0; sub = recvBuf m ! 1 AND 0x7F in
      if recvDataLen m < 2 then nrc_out c a sid 0x13 m
      else if \<not> IsSubFuncSupported c sid sub then nrc_out c a sid 0x12 m
      else if recvDataLen m \<noteq> 2 then nrc_out c a sid 0x13 m
      else subfunction_access c a sid sub m
        (mbind (PrecheckForSwitchingSession c (SessionType m) (recvBuf m ! 1) m) (\<lambda>ok.
           if \<not> ok then nrc_out c a sid 0x22 m else pass_on m)))"

definition IndicateECUResetReq :: "uds_cfg \<Rightarrow> uds_addr \<Rightarrow> uds_mgr \<Rightarrow> ind" where
  "IndicateECUResetReq c a m =
     (let sid = recvBuf m ! 0; sub = recvBuf m ! 1 AND 0x7F in
      if recvDataLen m < 2 then nrc_out c a sid 0x13 m
      else if \<not> IsSubFuncSupported c sid sub then nrc_out c a sid 0x12 m
      else if recvDataLen m \<noteq> 2 then nrc_out c a sid 0x13 m
      else subfunction_access c a sid sub m (pass_on m))"

text \<open>The mandatory length of a request for trouble codes; unknown subfunctions have none.\<close>

definition dtc_req_len :: "byte \<Rightarrow> u16 option" where
  "dtc_req_len sub =
     (if sub \<in> {0x01, 0x02} then Some 3
      else if sub = 0x03 then Some 2
      else if sub = 0x04 then Some 6
      else if sub = 0x05 then Some 3
      else if sub = 0x06 then Some 6
      else if sub \<in> {0x07, 0x08} then Some 4
      else if sub = 0x09 then Some 5
      else if sub \<in> {0x0A, 0x0B, 0x0C, 0x0D, 0x0E, 0x14, 0x15} then Some 2
      else if sub = 0x16 then Some 3
      else if sub = 0x17 then Some 4
      else if sub \<in> {0x18, 0x19} then Some 7
      else if sub = 0x1A then Some 3
      else if sub = 0x42 then Some 5
      else if sub = 0x55 then Some 3
      else if sub = 0x56 then Some 4
      else None)"

definition IndicateReadDTCInfoReq :: "uds_cfg \<Rightarrow> uds_addr \<Rightarrow> uds_mgr \<Rightarrow> ind" where
  "IndicateReadDTCInfoReq c a m =
     (let sid = recvBuf m ! 0; sub = recvBuf m ! 1 AND 0x7F in
      if unat (recvDataLen m) > UDS_DATA_SIZE then nrc_out c a sid 0x13 m
      else if recvDataLen m < 2 then nrc_out c a sid 0x13 m
      else if \<not> IsSubFuncSupported c sid sub then nrc_out c a sid 0x12 m
      else if (case dtc_req_len sub of None \<Rightarrow> False | Some n \<Rightarrow> recvDataLen m \<noteq> n) then nrc_out c a sid 0x13 m
      else subfunction_access c a sid sub m (pass_on m))"

definition IndicateClearDiagInfoReq :: "uds_cfg \<Rightarrow> uds_addr \<Rightarrow> uds_mgr \<Rightarrow> ind" where
  "IndicateClearDiagInfoReq c a m =
     (let sid = recvBuf m ! 0 in
      if recvDataLen m > 5 then nrc_out c a sid 0x13 m
      else if recvDataLen m < 4 then nrc_out c a sid 0x13 m
      else if recvDataLen m = 5 then nrc_out c a sid 0x13 m
      else pass_on m)"

definition IndicateCtrlDTCSettingReq :: "uds_cfg \<Rightarrow> uds_addr \<Rightarrow> uds_mgr \<Rightarrow> ind" where
  "IndicateCtrlDTCSettingReq c a m =
     (let sid = recvBuf m ! 0 in
      if SessionType m = DEFAULT_SESSION then nrc_out c a sid 0x22 m
      else if unat (recvDataLen m) > UDS_DATA_SIZE then nrc_out c a sid 0x13 m
      else if recvDataLen m < 2 then nrc_out c a sid 0x13 m
      else pass_on m)"

definition TesterPresentResp :: "uds_cfg \<Rightarrow> byte \<Rightarrow> u16 \<Rightarrow> uds_addr \<Rightarrow> uds_mgr \<Rightarrow> uds_mgr uds" where
  "TesterPresentResp c originSubFunc recvTpDataLen a m =
     (let sid = 0x3E; sub = originSubFunc AND 0x7F in
      if recvTpDataLen < 2 then Inr (SendNRC c sid 0x13 a m)
      else if \<not> IsSubFuncSupported c sid sub then Inr (SendNRC c sid 0x12 a m)
      else if recvTpDataLen \<noteq> 2 then Inr (SendNRC c sid 0x13 a m)
      else mbind (subfunction_access c a sid sub m
        (if originSubFunc AND 0x80 \<noteq> 0 then pass_on (CheckAndRestartS3Timer c sid False m)
         else pass_on (SendData c sid 0 a (m\<lparr>tpBuf := [0x7E, 0]\<rparr>)))) (\<lambda>(i, m1). Inr m1))"

section \<open>Authentication\<close>

definition IsAuthSubFuncSupported :: "byte \<Rightarrow> bool" where
  "IsAuthSubFuncSupported sub \<longleftrightarrow> sub \<in> {0x00, 0x01, 0x03, 0x04, 0x08}"

text \<open>The lengths that a certificate request names must add up to the length of the request.\<close>

definition IsAuthReqLenCorrect :: "byte \<Rightarrow> uds_mgr \<Rightarrow> bool uds" where
  "IsAuthReqLenCorrect sub m =
     (let len = unat (recvDataLen m) in
      if sub = 0x00 \<or> sub = 0x08 then Inr (len = 2)
      else if sub = 0x01 then
        (if len \<le> 7 then Inr False
         else
           let cert = unat (be_at (recvBuf m) 3) in
           if cert = 0 \<or> cert > UDS_CERT_MAX_LEN then Inr False
           else if len < 7 + cert then Inr False
           else mbind (urd m (cert + 5)) (\<lambda>hi. mbind (urd m (cert + 6)) (\<lambda>lo.
             let chal = unat hi * 256 + unat lo in
             if chal > UDS_CERT_MAX_LEN then Inr False
             else Inr (len = 7 + cert + chal))))
      else if sub = 0x02 then Inr (len \<ge> 9)
      else if sub = 0x03 then
        (if len \<le> 6 then Inr False
         else
           let pown = unat (be_at (recvBuf m) 2) in
           if len < 6 + pown then Inr False
           else if pown = 0 \<or> pown > UDS_CERT_MAX_LEN then Inr False
           else mbind (urd m (pown + 4)) (\<lambda>hi. mbind (urd m (pown + 5)) (\<lambda>lo.
             let key = unat hi * 256 + unat lo in
             if key > UDS_CERT_MAX_LEN then Inr False
             else Inr (len = 6 + pown + key))))
      else if sub = 0x04 then
        (if len \<le> 6 then Inr False
         else
           let cert = unat (be_at (recvBuf m) 4) in
           if cert = 0 \<or> cert > UDS_CERT_MAX_LEN then Inr False
           else Inr (len = 6 + cert))
      else if sub = 0x05 then Inr (len = 19)
      else if sub = 0x06 then Inr (len \<ge> 25)
      else if sub = 0x07 then Inr (len \<ge> 26)
      else Inr True)"

definition IndicateAuthReq :: "uds_cfg \<Rightarrow> uds_addr \<Rightarrow> uds_mgr \<Rightarrow> ind" where
  "IndicateAuthReq c a m =
     (let sid = recvBuf m ! 0; sub = recvBuf m ! 1 AND 0x7F in
      if unat (recvDataLen m) > UDS_MAX_DATA_SIZE then nrc_out c a sid 0x13 m
      else if recvDataLen m < 2 then nrc_out c a sid 0x13 m
      else if \<not> IsSubFuncSupported c sid sub then nrc_out c a sid 0x12 m
      else if \<not> IsAuthSubFuncSupported sub then nrc_out c a sid 0x12 m
      else mbind (IsAuthReqLenCorrect sub m) (\<lambda>len_ok.
        if \<not> len_ok then nrc_out c a sid 0x13 m
        else if \<not> IsSubFuncSessTypeValid c sid sub m then nrc_out c a sid 0x7E m
        else mbind (IsSubFuncSecAccessMatched c sid sub m) (\<lambda>ok.
          if \<not> ok then nrc_out c a sid 0x33 m
          else if tm_authDelay (um_timers m) \<noteq> None then nrc_out c a sid 0x37 m
          else if sub = 0x03 \<and> authPreSucReq m \<noteq> 0x01 then nrc_out c a sid 0x24 m
          else pass_on m)))"

section \<open>Response on event\<close>

definition IsROEReqLenCorrect :: "byte \<Rightarrow> uds_mgr \<Rightarrow> bool" where
  "IsROEReqLenCorrect sub m = (if sub = 0x01 then recvDataLen m \<ge> 7 else True)"

definition IsROESubFuncSupported :: "byte \<Rightarrow> bool" where
  "IsROESubFuncSupported sub \<longleftrightarrow> sub = 0x01"

text \<open>True when the request is in range.\<close>

definition IsROEReqOutOfRange :: "byte \<Rightarrow> uds_mgr \<Rightarrow> bool" where
  "IsROEReqOutOfRange sub m =
     (if sub = 0x01
      then \<not> (recvBuf m ! 2 = 0 \<or> recvBuf m ! 2 > 8)
        \<and> \<not> drop_bit 6 (recvBuf m ! 1) AND 1 = 1
        \<and> recvBuf m ! 5 AND 0x80 = 0
        \<and> recvBuf m ! 4 = 0x19
      else True)"

definition IndicateROEReq :: "uds_cfg \<Rightarrow> uds_addr \<Rightarrow> uds_mgr \<Rightarrow> ind" where
  "IndicateROEReq c a m =
     (let sid = recvBuf m ! 0; sub = recvBuf m ! 1 AND 0x3F in
      if unat (recvDataLen m) > UDS_MAX_DATA_SIZE then nrc_out c a sid 0x13 m
      else if recvDataLen m < 3 then nrc_out c a sid 0x13 m
      else if \<not> IsROEReqLenCorrect sub m then nrc_out c a sid 0x13 m
      else if \<not> IsSubFuncSupported c sid sub then nrc_out c a sid 0x12 m
      else if \<not> IsROESubFuncSupported sub then nrc_out c a sid 0x12 m
      else subfunction_access c a sid sub m
        (if \<not> IsROEReqOutOfRange sub m then nrc_out c a sid 0x31 m else pass_on m))"

section \<open>Data identifiers\<close>

text \<open>
  What one identifier of a read request leads to: it is left out, the request is refused, or its
  bytes are accepted.
\<close>

datatype did_result = DidSkip | DidRefuse byte | DidAccept

definition right_unlocked :: "uds_cfg \<Rightarrow> DidRight \<Rightarrow> uds_mgr \<Rightarrow> bool option uds" where
  "right_unlocked c r m =
     (if SessionType m = DEFAULT_SESSION \<or> \<not> dr_security r then Inr (Some True)
      else level_unlocked c (dr_security_level r) m)"

definition read_did :: "uds_cfg \<Rightarrow> u16 \<Rightarrow> uds_mgr \<Rightarrow> did_result uds" where
  "read_did c dataId m =
     (case cfg_did_entry c dataId of
        None \<Rightarrow> Inr DidSkip
      | Some d \<Rightarrow>
          if \<not> de_read_did d then Inr DidSkip
          else case cfg_diagnostic_session c (SessionType m) of
            None \<Rightarrow> Inr DidSkip
          | Some s \<Rightarrow> (case de_diagnostic_session d (ds_short_name s) of
              None \<Rightarrow> Inr DidSkip
            | Some rw \<Rightarrow> (case fst rw of
                None \<Rightarrow> Inr DidSkip
              | Some r \<Rightarrow>
                  if \<not> IsAuthRoleMatchedImpl c (de_read_role d) m then Inr (DidRefuse 0x34)
                  else mbind (right_unlocked c r m) (\<lambda>u.
                    Inr (case u of None \<Rightarrow> DidSkip | Some True \<Rightarrow> DidAccept | Some False \<Rightarrow> DidRefuse 0x33)))))"

text \<open>The loop over the identifiers: the bytes collected so far and the number of functional ones.\<close>

fun read_did_loop :: "uds_cfg \<Rightarrow> uds_addr \<Rightarrow> uds_mgr \<Rightarrow> nat list \<Rightarrow> byte list \<Rightarrow> nat \<Rightarrow> (byte + byte list \<times> nat) uds" where
  "read_did_loop c a m [] out k = Inr (Inr (out, k))"
| "read_did_loop c a m (i # is) out k =
     (let dataId = be_at (recvBuf m) (2 * i + 1) in
      if ad_functional a \<and> \<not> cfg_did_functional c dataId then read_did_loop c a m is out k
      else
        let k1 = (if ad_functional a then k + 1 else k) in
        mbind (read_did c dataId m) (\<lambda>r.
        case r of
          DidSkip \<Rightarrow> read_did_loop c a m is out k1
        | DidRefuse n \<Rightarrow> Inr (Inl n)
        | DidAccept \<Rightarrow> read_did_loop c a m is (out @ [recvBuf m ! (2 * i + 1), recvBuf m ! (2 * i + 2)]) k1))"

definition IndicateReadDIDReq :: "uds_cfg \<Rightarrow> uds_addr \<Rightarrow> uds_mgr \<Rightarrow> ind" where
  "IndicateReadDIDReq c a m =
     (let sid = recvBuf m ! 0; len = unat (recvDataLen m); didNum = (len - 1) div 2 in
      if len < 3 then nrc_out c a sid 0x13 m
      else if (len - 1) mod 2 \<noteq> 0 then nrc_out c a sid 0x13 m
      else if len > UDS_DATA_SIZE then nrc_out c a sid 0x13 m
      else if didNum > 10 then nrc_out c a sid 0x13 m
      else mbind (read_did_loop c a m [0..<didNum] [] 0) (\<lambda>r.
        case r of
          Inl n \<Rightarrow> nrc_out c a sid n m
        | Inr (out, k) \<Rightarrow>
            if ad_functional a \<and> k = 0 then Inr (True, m)
            else if out = [] then nrc_out c a sid 0x31 m
            else pass_on (m\<lparr>recvBuf := (sid # out) @ drop (Suc (length out)) (recvBuf m),
                            recvDataLen := of_nat (Suc (length out))\<rparr>)))"

definition IndicateWriteDIDReq :: "uds_cfg \<Rightarrow> uds_addr \<Rightarrow> uds_mgr \<Rightarrow> ind" where
  "IndicateWriteDIDReq c a m =
     (let sid = recvBuf m ! 0; len = unat (recvDataLen m); dataId = be_at (recvBuf m) 1 in
      if len < 4 then nrc_out c a sid 0x13 m
      else case cfg_did_entry c dataId of
        None \<Rightarrow> nrc_out c a sid 0x31 m
      | Some d \<Rightarrow>
          if \<not> de_write_did d then nrc_out c a sid 0x31 m
          else case cfg_diagnostic_session c (SessionType m) of
            None \<Rightarrow> nrc_out c a sid 0x31 m
          | Some s \<Rightarrow> (case de_diagnostic_session d (ds_short_name s) of
              None \<Rightarrow> nrc_out c a sid 0x31 m
            | Some rw \<Rightarrow> (case snd rw of
                None \<Rightarrow> nrc_out c a sid 0x31 m
              | Some w \<Rightarrow>
                  if len > UDS_DATA_SIZE then nrc_out c a sid 0x13 m
                  else if de_did_size d \<noteq> int len - 3 then nrc_out c a sid 0x13 m
                  else if \<not> IsAuthRoleMatchedImpl c (de_write_role d) m then nrc_out c a sid 0x34 m
                  else mbind (right_unlocked c w m) (\<lambda>u.
                    case u of
                      None \<Rightarrow> nrc_out c a sid 0x31 m
                    | Some False \<Rightarrow> nrc_out c a sid 0x33 m
                    | Some True \<Rightarrow>
                        if cfg_is_forbidden c dataId (take (len - 3) (drop 3 (recvBuf m))) = Some True
                        then nrc_out c a sid 0x31 m else pass_on m))))"

text \<open>Input and output control; 3 is the short term adjustment, which carries a control state.\<close>

definition IndicateIOCBIDReq :: "uds_cfg \<Rightarrow> uds_addr \<Rightarrow> uds_mgr \<Rightarrow> ind" where
  "IndicateIOCBIDReq c a m =
     (let sid = recvBuf m ! 0; len = unat (recvDataLen m); dataId = be_at (recvBuf m) 1; param = recvBuf m ! 3 in
      if len < 4 then nrc_out c a sid 0x13 m
      else if len > UDS_DATA_SIZE then nrc_out c a sid 0x13 m
      else case cfg_io_entry c dataId of
        None \<Rightarrow> nrc_out c a sid 0x31 m
      | Some io \<Rightarrow> (case cfg_diagnostic_session c (SessionType m) of
          None \<Rightarrow> nrc_out c a sid 0x31 m
        | Some s \<Rightarrow>
            if ds_short_name s \<notin> set (io_session io) then nrc_out c a sid 0x31 m
            else if uint param \<notin> set (io_control_parameter io) then nrc_out c a sid 0x31 m
            else
              let size = unat (word_of_int (io_did_size io) :: u16);
                  mask = unat (cfg_io_mask_size c dataId);
                  expected = (if param = 3 then size + mask + 4 else mask + 4) in
              if len \<noteq> expected then nrc_out c a sid 0x13 m
              else if param = 3 \<and> cfg_is_forbidden c dataId (take size (drop 4 (recvBuf m))) = Some True
              then nrc_out c a sid 0x31 m
              else if \<not> IsAuthRoleMatchedImpl c (io_role io) m then nrc_out c a sid 0x34 m
              else if SessionType m = DEFAULT_SESSION then pass_on m
              else case io_diagnostic_session io (ds_short_name s) of
                None \<Rightarrow> pass_on m
              | Some r \<Rightarrow>
                  mbind (right_unlocked c r m) (\<lambda>u.
                    if u = Some False then nrc_out c a sid 0x33 m else pass_on m)))"

section \<open>Routines\<close>

definition IsTotalLengthCheckValid :: "uds_cfg \<Rightarrow> u16 \<Rightarrow> byte \<Rightarrow> nat \<Rightarrow> bool" where
  "IsTotalLengthCheckValid c rid sub n =
     (let name = cfg_routine_record c rid sub in
      if name \<noteq> ''null'' then cfg_routine_record_size c name = n else n = 0)"

definition IsControlOptionRecordValid :: "uds_cfg \<Rightarrow> u16 \<Rightarrow> byte \<Rightarrow> byte list \<Rightarrow> bool" where
  "IsControlOptionRecordValid c rid sub bs =
     (let name = cfg_routine_record c rid sub in
      if name \<noteq> ''null'' then cfg_validate_record c bs name \<noteq> Some True else True)"

text \<open>The levels of a routine; names without a level are ignored.\<close>

fun routine_unlocked :: "uds_cfg \<Rightarrow> string list \<Rightarrow> uds_mgr \<Rightarrow> bool uds" where
  "routine_unlocked c [] m = Inr False"
| "routine_unlocked c (n # ns) m =
     (case cfg_level_id c n of
        None \<Rightarrow> routine_unlocked c ns m
      | Some l \<Rightarrow> mbind (usec (SecurityAccess_IsLevelUnlocked (word_of_int l) (mSecurityAccess m))) (\<lambda>u.
          if u then Inr True else routine_unlocked c ns m))"

definition IndicateRoutinrCtrlReq :: "uds_cfg \<Rightarrow> uds_addr \<Rightarrow> uds_mgr \<Rightarrow> ind" where
  "IndicateRoutinrCtrlReq c a m =
     (let sid = recvBuf m ! 0; len = unat (recvDataLen m); rid = be_at (recvBuf m) 2 in
      if len < 4 then nrc_out c a sid 0x13 m
      else case find (\<lambda>e. re_identifier e = uint rid) (cfg_routines c) of
        None \<Rightarrow> nrc_out c a sid 0x31 m
      | Some e \<Rightarrow>
          if re_session e \<noteq> [] \<and> \<not> list_ex (\<lambda>n. cfg_session_id c n = Some (uint (SessionType m))) (re_session e)
          then nrc_out c a sid 0x31 m
          else if \<not> IsAuthRoleMatchedImpl c (re_routine_role e) m then nrc_out c a sid 0x34 m
          else mbind (if re_security_level e = [] then Inr True else routine_unlocked c (re_security_level e) m) (\<lambda>ok.
            let sub = recvBuf m ! 1 AND 0x7F; n = len - 4 in
            if \<not> ok then nrc_out c a sid 0x33 m
            else if uint sub \<notin> set (re_sub_function e) then nrc_out c a sid 0x12 m
            else if len > UDS_DATA_SIZE then nrc_out c a sid 0x13 m
            else if \<not> IsTotalLengthCheckValid c rid sub n then nrc_out c a sid 0x13 m
            else if n > 0 \<and> \<not> IsControlOptionRecordValid c rid sub (take n (drop 4 (recvBuf m)))
            then nrc_out c a sid 0x31 m
            else pass_on m))"

section \<open>Transfers\<close>

definition IndicateRxXferDataReq :: "uds_cfg \<Rightarrow> uds_addr \<Rightarrow> uds_mgr \<Rightarrow> ind" where
  "IndicateRxXferDataReq c a m =
     (let sid = recvBuf m ! 0 in
      if recvDataLen m < 2 then nrc_out c a sid 0x13 (m\<lparr>isXferActive := False\<rparr>)
      else if unat (recvDataLen m) > UDS_DATA_SIZE then nrc_out c a sid 0x13 (m\<lparr>isXferActive := False\<rparr>)
      else if \<not> isXferActive m then nrc_out c a sid 0x24 m
      else pass_on m)"

definition IndicateRxXferExitReq :: "uds_cfg \<Rightarrow> uds_addr \<Rightarrow> uds_mgr \<Rightarrow> ind" where
  "IndicateRxXferExitReq c a m =
     (let sid = recvBuf m ! 0 in
      if recvDataLen m < 1 then nrc_out c a sid 0x13 m
      else if unat (recvDataLen m) > UDS_DATA_SIZE then nrc_out c a sid 0x13 m
      else if \<not> isXferActive m then nrc_out c a sid 0x24 m
      else pass_on m)"

definition IndicateRxReqDwnldReq :: "uds_cfg \<Rightarrow> uds_addr \<Rightarrow> uds_mgr \<Rightarrow> ind" where
  "IndicateRxReqDwnldReq c a m =
     (let sid = recvBuf m ! 0; fmt = recvBuf m ! 2 in
      if recvDataLen m < 3 then nrc_out c a sid 0x13 m
      else if unat (recvDataLen m) - 3 \<noteq> unat (fmt AND 0x0F) + unat (drop_bit 4 fmt AND 0x0F)
      then nrc_out c a sid 0x13 m
      else if isXferActive m then nrc_out c a sid 0x22 m
      else pass_on m)"

text \<open>The name must be ASCII; the loop includes the byte after it.\<close>

fun isAcsiiFormat :: "uds_mgr \<Rightarrow> nat \<Rightarrow> nat \<Rightarrow> bool uds" where
  "isAcsiiFormat m i 0 = mbind (urd m i) (\<lambda>b. Inr (b < 128))"
| "isAcsiiFormat m i (Suc n) = mbind (urd m i) (\<lambda>b. if b \<ge> 128 then Inr False else isAcsiiFormat m (i + 1) n)"

fun ValueOfFileSize :: "uds_mgr \<Rightarrow> nat \<Rightarrow> nat \<Rightarrow> u32 \<Rightarrow> u32 uds" where
  "ValueOfFileSize m i 0 v = Inr v"
| "ValueOfFileSize m i (Suc n) v = mbind (urd m i) (\<lambda>b. ValueOfFileSize m (i + 1) n (push_bit 8 v OR ucast b))"

text \<open>
  The checks that depend on the mode: the NRC, or none. \<open>n\<close> is the length of the file name, 4 the
  bytes before it.
\<close>

definition xfer_name_only :: "nat \<Rightarrow> uds_mgr \<Rightarrow> byte option uds" where
  "xfer_name_only n m =
     (let len = unat (recvDataLen m) in
      if n > UDS_DATA_SIZE - 4 \<or> n < 1 then Inr (Some 0x31)
      else if len > UDS_DATA_SIZE \<or> len \<noteq> 4 + n then Inr (Some 0x13)
      else Inr None)"

definition xfer_with_size :: "nat \<Rightarrow> uds_mgr \<Rightarrow> byte option uds" where
  "xfer_with_size n m =
     (let len = unat (recvDataLen m) in
      if n > UDS_DATA_SIZE - 6 \<or> n < 1 then Inr (Some 0x31)
      else if len > UDS_DATA_SIZE \<or> len < 6 + n then Inr (Some 0x13)
      else mbind (urd m (5 + n)) (\<lambda>fsl.
        if fsl > 4 \<or> fsl = 0 then Inr (Some 0x31)
        else if len \<noteq> 6 + n + unat fsl * 2 then Inr (Some 0x13)
        else mbind (urd m (4 + n)) (\<lambda>dfi.
          if dfi \<noteq> 0 then Inr (Some 0x31)
          else mbind (ValueOfFileSize m (6 + n) (unat fsl) 0) (\<lambda>uncompressed.
            mbind (ValueOfFileSize m (6 + n + unat fsl) (unat fsl) 0) (\<lambda>compressed.
            if compressed > uncompressed then Inr (Some 0x31)
            else if compressed \<noteq> uncompressed then Inr (Some 0x31)
            else Inr None)))))"

definition xfer_read_file :: "nat \<Rightarrow> uds_mgr \<Rightarrow> byte option uds" where
  "xfer_read_file n m =
     (let len = unat (recvDataLen m) in
      if n > UDS_DATA_SIZE - 5 \<or> n < 1 then Inr (Some 0x31)
      else if len > UDS_DATA_SIZE \<or> len \<noteq> 5 + n then Inr (Some 0x13)
      else mbind (urd m (4 + n)) (\<lambda>dfi. if dfi \<noteq> 0 then Inr (Some 0x31) else Inr None))"

definition IndicateRxFileXferReq :: "uds_cfg \<Rightarrow> uds_addr \<Rightarrow> uds_mgr \<Rightarrow> ind" where
  "IndicateRxFileXferReq c a m =
     (let sid = recvBuf m ! 0; moop = recvBuf m ! 1; n = unat (be_at (recvBuf m) 2) in
      if recvDataLen m < 5 then nrc_out c a sid 0x13 m
      else if moop < 1 \<or> moop > 6 then nrc_out c a sid 0x31 m
      else mbind (if moop = 2 \<or> moop = 5 then xfer_name_only n m
                  else if moop = 4 then xfer_read_file n m
                  else xfer_with_size n m) (\<lambda>r.
        case r of
          Some code \<Rightarrow> nrc_out c a sid code m
        | None \<Rightarrow> mbind (isAcsiiFormat m 4 n) (\<lambda>ascii.
            if \<not> ascii then nrc_out c a sid 0x31 m
            else if isXferActive m then nrc_out c a sid 0x22 m
            else pass_on m)))"

end
