(* ===== verification/Uds_Dispatch.thy ===== *)
theory Uds_Dispatch
  imports Uds_Requests
begin

unbundle bit_operations_syntax

text \<open>
  The reception of a diagnostic message: the security access request, which waits for the thread of
  the security access object, \<open>DiagIndicationHandler\<close> with its checks and the dispatch by service, and
  \<open>IndMsgHandler\<close>, which delivers to the diagnostic service in the main thread.
\<close>

section \<open>The security access object\<close>

definition sec_report :: "bool \<Rightarrow> uds_mgr \<Rightarrow> sa_report" where
  "sec_report sem m = \<lparr>rp_SessionType = SessionType m, rp_recvSid = um_recvSid m, rp_recvSubFunc = um_recvSubFunc m,
     rp_recvDataLen = recvDataLen m, rp_nrcCode = nrcCode m, rp_sem = sem\<rparr>"

text \<open>What the object does to the manager.\<close>

definition sec_effect :: "uds_cfg \<Rightarrow> sa_event \<Rightarrow> uds_mgr \<Rightarrow> uds_mgr" where
  "sec_effect c e m = (case e of
       SaNrc n \<Rightarrow> SendNRC c (um_recvSid m) n (udsRespAddrInfo m) m
     | SaZeroSeed bs \<Rightarrow> SendData c (um_recvSid m) 0 (udsRespAddrInfo m)
         (m\<lparr>sendBuf := bs @ drop (length bs) (sendBuf m), sendDataLen := of_nat (length bs)\<rparr>)
     | SaSetNrc n \<Rightarrow> m\<lparr>nrcCode := n\<rparr>
     | _ \<Rightarrow> m)"

definition sec_dispatch :: "uds_cfg \<Rightarrow> sa_report \<Rightarrow> SecAccSignal \<Rightarrow> uds_mgr \<Rightarrow> (sa_event list \<times> uds_mgr) uds" where
  "sec_dispatch c rp s m =
     mbind (usec (MFsm_dispatch rp s (mSecurityAccess m))) (\<lambda>a.
     let es = drop (length (ao_trace (mSecurityAccess m))) (ao_trace a) in
     Inr (es, fold (sec_effect c) es (m\<lparr>mSecurityAccess := a\<rparr>)))"

text \<open>The reports are handled in their order: first the session timeouts that were reported before.\<close>

fun sec_timeouts :: "uds_cfg \<Rightarrow> nat \<Rightarrow> uds_mgr \<Rightarrow> uds_mgr uds" where
  "sec_timeouts c 0 m = Inr m"
| "sec_timeouts c (Suc n) m =
     mbind (sec_dispatch c (sec_report False m) SESSION_TIMEOUT_SIG (m\<lparr>um_secq := n\<rparr>)) (\<lambda>(es, m1). sec_timeouts c n m1)"

definition sec_call :: "uds_cfg \<Rightarrow> SecAccSignal \<Rightarrow> uds_mgr \<Rightarrow> (sa_event list \<times> uds_mgr) uds" where
  "sec_call c s m = mbind (sec_timeouts c (um_secq m) m) (\<lambda>m1. sec_dispatch c (sec_report True m1) s m1)"

text \<open>A report whose semaphore is waited for without a limit.\<close>

definition sec_wait :: "uds_cfg \<Rightarrow> SecAccSignal \<Rightarrow> uds_mgr \<Rightarrow> (sa_event list \<times> uds_mgr) uds" where
  "sec_wait c s m = mbind (sec_call c s m) (\<lambda>(es, m1). if SaPost \<in> set es then Inr (es, m1) else Inl UdsWait)"

definition IndicateSecAccessReq :: "uds_cfg \<Rightarrow> uds_addr \<Rightarrow> uds_mgr \<Rightarrow> ind" where
  "IndicateSecAccessReq c a m0 =
     (let m = m0\<lparr>udsRespAddrInfo := a\<rparr>;
          sid = recvBuf m ! 0; sub = recvBuf m ! 1 AND 0x7F in
      if recvDataLen m < 2 then nrc_out c a sid 0x13 m
      else if \<not> IsSubFuncSupported c sid sub then nrc_out c a sid 0x12 m
      else if sub mod 2 = 1 \<and> recvDataLen m < 2 then nrc_out c a sid 0x13 m
      else if sub mod 2 = 0 \<and> recvDataLen m < 3 then nrc_out c a sid 0x13 m
      else if unat (recvDataLen m) > UDS_MAX_DATA_SIZE then nrc_out c a sid 0x13 m
      else if \<not> IsSubFuncAuthCheckOK c sid sub m then nrc_out c a sid 0x34 m
      else if \<not> IsSubFuncSessTypeValid c sid sub m then nrc_out c a sid 0x7E m
      else
        let m1 = m\<lparr>um_recvSid := recvBuf m ! 0, um_recvSubFunc := recvBuf m ! 1\<rparr> in
        mbind (sec_wait c (if recvBuf m ! 1 mod 2 = 1 then REQUEST_SEED_SIG else SEND_KEY_SIG) m1) (\<lambda>(es, m2).
        Inr (SaToApp \<notin> set es, m2)))"

section \<open>Reception\<close>

definition CheckAndSendInd :: "uds_cfg \<Rightarrow> byte \<Rightarrow> uds_addr \<Rightarrow> uds_mgr \<Rightarrow> uds_mgr" where
  "CheckAndSendInd c sid a m =
     ind_report SERVICE_MSG_INDICATION []
       ((UdsTimerEventReport P2STAR_TIMER_START 0 ((SendNRC c sid 0x78 a m)\<lparr>readyToRecvData := False\<rparr>))\<lparr>sendDataLen := 0\<rparr>)"

text \<open>The services that have checks of their own; the others are refused.\<close>

definition dispatch_service :: "uds_cfg \<Rightarrow> byte \<Rightarrow> uds_addr \<Rightarrow> uds_mgr \<Rightarrow> ind" where
  "dispatch_service c sid a m =
     (if sid = 0x10 then IndicateSessionCtrlReq c a m
      else if sid = 0x11 then IndicateECUResetReq c a m
      else if sid = 0x14 then IndicateClearDiagInfoReq c a m
      else if sid = 0x19 then IndicateReadDTCInfoReq c a m
      else if sid = 0x22 then IndicateReadDIDReq c a m
      else if sid = 0x27 then IndicateSecAccessReq c a m
      else if sid = 0x29 then IndicateAuthReq c a m
      else if sid = 0x2E then IndicateWriteDIDReq c a m
      else if sid = 0x2F then IndicateIOCBIDReq c a m
      else if sid = 0x31 then IndicateRoutinrCtrlReq c a m
      else if sid = 0x34 then IndicateRxReqDwnldReq c a m
      else if sid = 0x36 then IndicateRxXferDataReq c a m
      else if sid = 0x37 then IndicateRxXferExitReq c a m
      else if sid = 0x38 then IndicateRxFileXferReq c a m
      else if sid = 0x86 then IndicateROEReq c a m
      else nrc_out c a sid 0x11 m)"

text \<open>The S3 timer is started again; the configured interval is cut to whole seconds here.\<close>

definition s3_interval :: "uds_cfg \<Rightarrow> nat" where
  "s3_interval c = (case cfg_common_props c of None \<Rightarrow> UDS_S3_SERVER | Some p \<Rightarrow> cp_s3_ms p div 1000 * 1000)"

definition restart_s3 :: "uds_cfg \<Rightarrow> byte \<Rightarrow> bool \<Rightarrow> uds_mgr \<Rightarrow> uds_mgr" where
  "restart_s3 c sid isInternalHandle m =
     (if sid \<noteq> 0x10 \<and> SessionType m \<noteq> DEFAULT_SESSION
      then
        let p2 = p2star_interval c (SessionType m) * max_rcrrp c in
        UdsTimerEventReport S3_TIMER_START
          (if \<not> isInternalHandle \<and> s3_interval c < p2 then p2 else s3_interval c) m
      else m)"

text \<open>The tester's connection has ended; the security access object still sees the old session.\<close>

definition sa_deregistered :: "uds_cfg \<Rightarrow> uds_addr \<Rightarrow> uds_mgr \<Rightarrow> uds_mgr uds" where
  "sa_deregistered c a m0 =
     (let m1 = UdsTimerEventReport AUTH_TIMER_STOP 0 (UdsTimerEventReport P2STAR_TIMER_STOP 0
            (UdsTimerEventReport S3_TIMER_STOP 0 (m0\<lparr>um_addrInfo := a\<rparr>)));
          m2 = request_done (m1\<lparr>authState := AUTH_STATE_UNKNOWN\<rparr>);
          m3 = m2\<lparr>isXferActive := False, recvBuf := replicate UDS_MAX_DATA_SIZE 0, recvDataLen := 0, sendDataLen := 0\<rparr> in
      if SessionType m3 \<noteq> DEFAULT_SESSION
      then mbind (sec_wait c SESSION_CONTROL_SIG m3) (\<lambda>(es, m4).
        Inr (ind_report SESSION_CHANGE [0xFF, SessionType m4, DEFAULT_SESSION] (m4\<lparr>SessionType := DEFAULT_SESSION\<rparr>)))
      else Inr m3)"

text \<open>The request is copied; its length is cut to 16 bits.\<close>

definition receive_request :: "uds_addr \<Rightarrow> byte list \<Rightarrow> uds_mgr \<Rightarrow> uds_mgr" where
  "receive_request a msg m =
     (let n = min (length msg) UDS_MAX_DATA_SIZE in
      m\<lparr>um_addrInfo := a, recvBuf := take n msg @ drop n (recvBuf m),
        recvDataLen := of_nat (length msg), sendDataLen := 0\<rparr>)"

definition handle_request :: "uds_cfg \<Rightarrow> uds_addr \<Rightarrow> byte \<Rightarrow> uds_mgr \<Rightarrow> uds_mgr uds" where
  "handle_request c a sid m =
     mbind (GeneralServerResp c a sid m) (\<lambda>(refused, m1).
     if refused then Inr m1
     else mbind (dispatch_service c sid a m1) (\<lambda>(isInternalHandle, m2).
       let m3 = restart_s3 c sid isInternalHandle m2 in
       Inr (if \<not> isInternalHandle then CheckAndSendInd c sid a m3 else m3)))"

text \<open>A tester present request of one byte has no subfunction: the byte read after it is not used.\<close>

definition handle_tester_present :: "uds_cfg \<Rightarrow> uds_addr \<Rightarrow> byte list \<Rightarrow> uds_mgr \<Rightarrow> uds_mgr uds" where
  "handle_tester_present c a msg m =
     mbind (GeneralServerResp c a 0x3E m) (\<lambda>(refused, m1).
     if refused then Inr m1
     else TesterPresentResp c (if length msg < 2 then 0 else msg ! 1) (of_nat (length msg)) a m1)"

definition DiagIndicationHandler :: "uds_cfg \<Rightarrow> uds_addr \<Rightarrow> byte list \<Rightarrow> taf_doip_Result \<Rightarrow> uds_mgr \<Rightarrow> uds_mgr uds" where
  "DiagIndicationHandler c a msg result m =
     (if result = TAF_DOIP_RESULT_SA_REGISTERED then Inr m
      else if result = TAF_DOIP_RESULT_SA_DEREGISTERED then sa_deregistered c a m
      else if result \<noteq> TAF_DOIP_RESULT_OK then Inr m
      else case msg of
        [] \<Rightarrow> Inr m
      | sid # bs \<Rightarrow>
          if ad_functional a \<and> \<not> cfg_service_functional c sid then Inr m
          else if isResetInProgress m then Inr m
          else if sid = 0x3E then handle_tester_present c a msg m
          else if isPaused m then Inr (SendNRC c sid 0x22 a m)
          else if \<not> readyToRecvData m then Inr (SendNRC c sid 0x21 a m)
          else handle_request c a sid (receive_request a msg m))"

section \<open>Delivery to the diagnostic service\<close>

definition deliver :: "byte list \<Rightarrow> uds_mgr \<Rightarrow> uds_mgr" where
  "deliver bs m = uemit (UeApp (um_addrInfo m) bs) m"

definition IndMsgHandler :: "uds_ind \<times> byte list \<Rightarrow> uds_mgr \<Rightarrow> uds_mgr" where
  "IndMsgHandler e m =
     (if \<not> um_handler m then m
      else case fst e of
        SERVICE_MSG_INDICATION \<Rightarrow> deliver (take (unat (recvDataLen m)) (recvBuf m)) m
      | SET_STATE_AND_CANCEL \<Rightarrow>
          (if um_vlanId m \<in> set (cancelFileXferReqList m) \<and> readyToRecvData m
           then deliver (snd e) (m\<lparr>isXferActive := False,
                  cancelFileXferReqList := remove1 (um_vlanId m) (cancelFileXferReqList m)\<rparr>)
           else m)
      | _ \<Rightarrow> deliver (snd e) m)"

definition uds_ind_step :: "uds_mgr \<Rightarrow> uds_mgr" where
  "uds_ind_step m = (case um_indq m of [] \<Rightarrow> m | e # es \<Rightarrow> IndMsgHandler e (m\<lparr>um_indq := es\<rparr>))"

end
