(* ===== verification/Uds_Responses.thy ===== *)
theory Uds_Responses
  imports Uds_Dispatch
begin

unbundle bit_operations_syntax

text \<open>
  The responses of the diagnostic service, one function for each service as in the code, the
  timeouts, and the data the diagnostic service sets. The response data is \<open>None\<close> for a null pointer.
\<close>

datatype uds_result = UDS_OK | UDS_FAULT | UDS_BAD_PARAMETER | UDS_TIMEOUT | UDS_IN_PROGRESS

type_synonym resp = "(uds_result \<times> uds_mgr) uds"

definition data_len :: "byte list option \<Rightarrow> nat" where
  "data_len d = (case d of None \<Rightarrow> 0 | Some bs \<Rightarrow> length bs)"

definition data_bytes :: "byte list option \<Rightarrow> byte list" where
  "data_bytes d = (case d of None \<Rightarrow> [] | Some bs \<Rightarrow> bs)"

text \<open>The response is written into the send buffer.\<close>

definition put_response :: "byte list \<Rightarrow> uds_mgr \<Rightarrow> resp" where
  "put_response bs m = (if length bs > UDS_MAX_DATA_SIZE then Inl UdsBounds
     else Inr (UDS_OK, m\<lparr>sendBuf := bs @ drop (length bs) (sendBuf m), sendDataLen := of_nat (length bs)\<rparr>))"

definition neg_response :: "byte \<Rightarrow> byte \<Rightarrow> uds_mgr \<Rightarrow> resp" where
  "neg_response sid err m = Inr (UDS_OK, SetNRC sid err m)"

definition resp_error :: "uds_result \<Rightarrow> uds_mgr \<Rightarrow> resp" where
  "resp_error r m = Inr (r, m)"

section \<open>Session control and reset\<close>

definition p2_interval :: "uds_cfg \<Rightarrow> byte \<Rightarrow> nat" where
  "p2_interval c session = (case cfg_diagnostic_session c session of
       None \<Rightarrow> 50
     | Some s \<Rightarrow> if ds_p2_server_ms s > 65535 then 50 else ds_p2_server_ms s)"

definition be_bytes :: "nat \<Rightarrow> byte list" where
  "be_bytes n = [of_nat (n div 256 mod 256), of_nat (n mod 256)]"

text \<open>Session control is reported to the security access object, which is waited for for a limited time.\<close>

definition sec_timed :: "uds_cfg \<Rightarrow> SecAccSignal \<Rightarrow> uds_mgr \<Rightarrow> (bool \<times> uds_mgr) uds" where
  "sec_timed c s m = mbind (sec_call c s m) (\<lambda>(es, m1). Inr (SaPost \<in> set es, m1))"

definition session_positive :: "uds_cfg \<Rightarrow> uds_mgr \<Rightarrow> resp" where
  "session_positive c m =
     put_response ([0x50, recvBuf m ! 1 AND 0x7F] @ be_bytes (p2_interval c (SessionType m))
       @ be_bytes (p2star_interval c (SessionType m) div 10)) m"

definition SessionCtrlResp :: "uds_cfg \<Rightarrow> byte \<Rightarrow> byte \<Rightarrow> uds_mgr \<Rightarrow> resp" where
  "SessionCtrlResp c sid err m0 =
     (if err \<noteq> 0 then neg_response sid err m0
      else
        let new = recvBuf m0 ! 1 AND 0x7F; old = SessionType m0; m = m0\<lparr>SessionType := new\<rparr> in
        if old \<noteq> new then
          let m1 = (if new = DEFAULT_SESSION then UdsTimerEventReport S3_TIMER_STOP 0 m
                    else UdsTimerEventReport S3_TIMER_START (s3_interval c) m) in
          mbind (if list_ex (\<lambda>p. snd p = new) (cfg_session_map c) then sec_timed c SESSION_CONTROL_SIG m1
                 else Inr (True, m1)) (\<lambda>(posted, m2).
          if \<not> posted then resp_error UDS_TIMEOUT m2
          else session_positive c (ind_report SESSION_CHANGE [0xFF, old, SessionType m2] m2))
        else if new \<noteq> DEFAULT_SESSION then
          mbind (sec_timed c SESSION_CONTROL_SIG m) (\<lambda>(posted, m1).
          if \<not> posted then resp_error UDS_TIMEOUT m1 else session_positive c m1)
        else session_positive c m)"

definition ECUResetResp :: "uds_cfg \<Rightarrow> byte \<Rightarrow> byte \<Rightarrow> uds_mgr \<Rightarrow> resp" where
  "ECUResetResp c sid err m =
     (if err \<noteq> 0 then neg_response sid err m
      else
        let ignore = (case cfg_common_props c of None \<Rightarrow> False | Some p \<Rightarrow> cp_ignore_request_for_hardreset p);
            resetType = recvBuf m ! 1 AND 0x7F in
        put_response [0x51, resetType] (if ignore \<and> resetType = 1 then m\<lparr>isResetInProgress := True\<rparr> else m))"

section \<open>Data, routines and codes\<close>

definition ReadDIDResp :: "byte \<Rightarrow> byte list option \<Rightarrow> byte \<Rightarrow> uds_mgr \<Rightarrow> resp" where
  "ReadDIDResp sid d err m =
     (if err \<noteq> 0 then neg_response sid err m
      else if data_len d > UDS_MAX_DATA_SIZE - 1 \<or> data_len d < 3 then resp_error UDS_FAULT m
      else put_response (0x62 # data_bytes d) m)"

definition WriteDIDResp :: "byte \<Rightarrow> byte \<Rightarrow> uds_mgr \<Rightarrow> resp" where
  "WriteDIDResp sid err m =
     (if err \<noteq> 0 then neg_response sid err m
      else put_response [0x6E, recvBuf m ! 1, recvBuf m ! 2] m)"

definition SecurityAccessResp :: "uds_cfg \<Rightarrow> byte \<Rightarrow> byte list option \<Rightarrow> byte \<Rightarrow> uds_mgr \<Rightarrow> resp" where
  "SecurityAccessResp c sid d err m =
     (if data_len d > UDS_DATA_SIZE - 2 then resp_error UDS_FAULT m
      else mbind (sec_timed c (if (recvBuf m ! 1 AND 0x7F) mod 2 \<noteq> 0 then REQUEST_SEED_RESPONSE_SIG
                               else SEND_KEY_RESPONSE_SIG) m) (\<lambda>(posted, m1).
        if \<not> posted then resp_error UDS_TIMEOUT m1
        else if nrcCode m1 \<noteq> 0 then neg_response sid (nrcCode m1) m1
        else put_response ([0x67, recvBuf m1 ! 1 AND 0x7F] @ data_bytes d) m1))"

definition RoutineCtrlResp :: "byte \<Rightarrow> byte list option \<Rightarrow> byte \<Rightarrow> uds_mgr \<Rightarrow> resp" where
  "RoutineCtrlResp sid d err m =
     (if data_len d > UDS_MAX_DATA_SIZE - 4 then resp_error UDS_FAULT m
      else if err \<noteq> 0 then neg_response sid err m
      else put_response ([0x71, recvBuf m ! 1 AND 0x7F, recvBuf m ! 2, recvBuf m ! 3] @ data_bytes d) m)"

definition IOCBIDResp :: "byte \<Rightarrow> byte list option \<Rightarrow> byte \<Rightarrow> uds_mgr \<Rightarrow> resp" where
  "IOCBIDResp sid d err m =
     (if err \<noteq> 0 then neg_response sid err m
      else if data_len d > UDS_MAX_DATA_SIZE - 4 then resp_error UDS_FAULT m
      else put_response ([0x6F, recvBuf m ! 1, recvBuf m ! 2, recvBuf m ! 3] @ data_bytes d) m)"

definition ReadDTCInfoResp :: "byte \<Rightarrow> byte list option \<Rightarrow> byte \<Rightarrow> uds_mgr \<Rightarrow> resp" where
  "ReadDTCInfoResp sid d err m =
     (if data_len d > UDS_MAX_DATA_SIZE - 2 then resp_error UDS_FAULT m
      else if err \<noteq> 0 then neg_response sid err m
      else put_response ([0x59, recvBuf m ! 1 AND 0x7F] @ data_bytes d) m)"

definition ClearDiagInfoResp :: "byte \<Rightarrow> byte \<Rightarrow> uds_mgr \<Rightarrow> resp" where
  "ClearDiagInfoResp sid err m = (if err \<noteq> 0 then neg_response sid err m else put_response [0x54] m)"

definition CtrlDTCSettingResp :: "byte \<Rightarrow> byte \<Rightarrow> uds_mgr \<Rightarrow> resp" where
  "CtrlDTCSettingResp sid err m =
     (if err \<noteq> 0 then neg_response sid err m else put_response [0xC5, recvBuf m ! 1 AND 0x7F] m)"

definition ROEResp :: "byte \<Rightarrow> byte list option \<Rightarrow> byte \<Rightarrow> uds_mgr \<Rightarrow> resp" where
  "ROEResp sid d err m =
     (let sub = recvBuf m ! 1 AND 0x3F in
      if err \<noteq> 0 then neg_response sid err m
      else if data_len d > UDS_MAX_DATA_SIZE - 2 \<or> data_len d < (if sub = 0x04 then 1 else 2) then resp_error UDS_FAULT m
      else if d = None then resp_error UDS_FAULT m
      else put_response ([0xC6, sub] @ data_bytes d) m)"

section \<open>Authentication\<close>

definition StoreAttCntToTree :: "uds_mgr \<Rightarrow> uds_mgr" where
  "StoreAttCntToTree m = uemit (UeStoreAttCnt (authAttCnt m)) m"

definition StoreDelayTimeToTree :: "uds_mgr \<Rightarrow> uds_mgr" where
  "StoreDelayTimeToTree m = uemit (UeStoreDelay (authDelayTime m)) m"

text \<open>A failed proof: the attempts are counted, and at the tenth the delay timer starts.\<close>

definition auth_failed :: "byte \<Rightarrow> uds_mgr \<Rightarrow> uds_mgr" where
  "auth_failed sid m0 =
     (let m = (StoreAttCntToTree (m0\<lparr>authAttCnt := authAttCnt m0 + 1\<rparr>))\<lparr>authState := AUTH_STATE_DEAUTHENTICATED\<rparr> in
      if authAttCnt m \<ge> 10
      then
        let m1 = StoreAttCntToTree (m\<lparr>authAttCnt := 10\<rparr>) in
        if tm_authDelay (um_timers m1) = None
        then UdsTimerEventReport AUTH_DELAY_TIMER_START (unat (authDelayTime m1) * 1000) (SetNRC sid 0x36 m1)
        else m1
      else m)"

definition AuthenticationResp :: "uds_cfg \<Rightarrow> byte \<Rightarrow> byte list option \<Rightarrow> byte \<Rightarrow> uds_mgr \<Rightarrow> resp" where
  "AuthenticationResp c sid d err m =
     (let sub = recvBuf m ! 1 AND 0x7F in
      if err \<noteq> 0 then
        let m1 = (SetNRC sid err m)\<lparr>authPreSucReq := AUTH_SUBFUNC_UNKNOWN\<rparr> in
        Inr (UDS_OK, if sub = 0x01 \<or> sub = 0x03 then auth_failed sid m1 else m1)
      else if data_len d > UDS_MAX_DATA_SIZE - 2 \<or> data_len d < 1 then resp_error UDS_FAULT m
      else if d = None then resp_error UDS_FAULT m
      else
        let m1 = m\<lparr>authPreSucReq := AUTH_SUBFUNC_UNKNOWN\<rparr>;
            m2 = (if sub = 0x00 then UdsTimerEventReport AUTH_TIMER_STOP 0 (m1\<lparr>authState := AUTH_STATE_DEAUTHENTICATED\<rparr>)
                  else if sub = 0x01 then m1\<lparr>authPreSucReq := 0x01\<rparr>
                  else if sub = 0x03 then
                    StoreDelayTimeToTree (StoreAttCntToTree
                      ((UdsTimerEventReport AUTH_TIMER_START
                         ((case cfg_auth_timeout c of None \<Rightarrow> MAX_AUTH_TIME | Some t \<Rightarrow> t) * 1000)
                         (m1\<lparr>authState := AUTH_STATE_AUTHENTICATED\<rparr>))\<lparr>authAttCnt := 0, authDelayTime := 60\<rparr>))
                  else m1) in
        put_response ([0x69, sub] @ data_bytes d) m2)"

section \<open>Transfers\<close>

text \<open>The number of bits, counted by shifting, and from it the number of bytes.\<close>

function count_bits :: "u16 \<Rightarrow> byte" where
  "count_bits n = (if n = 0 then 0 else count_bits (drop_bit 1 n) + 1)"
  by auto
termination
proof (relation "measure unat")
  fix n :: u16 assume "n \<noteq> 0"
  then have "unat n \<noteq> 0" by (simp add: unat_eq_0)
  then show "(drop_bit 1 n, n) \<in> measure unat" by (simp add: unat_drop_bit_eq drop_bit_eq_div unat_div)
qed simp

declare count_bits.simps [simp del]

definition HowManyChars :: "u16 \<Rightarrow> byte" where
  "HowManyChars n = (count_bits n + 7) div 8"

abbreviation MAX_BLOCK_LEN :: nat where "MAX_BLOCK_LEN \<equiv> 4091"

definition XferDataResp :: "byte \<Rightarrow> byte list option \<Rightarrow> byte \<Rightarrow> uds_mgr \<Rightarrow> resp" where
  "XferDataResp sid d err m =
     (if data_len d > UDS_MAX_DATA_SIZE - 2 then resp_error UDS_FAULT m
      else if err \<noteq> 0 then neg_response sid err (m\<lparr>isXferActive := False\<rparr>)
      else put_response ([0x76, recvBuf m ! 1] @ data_bytes d) m)"

definition ReqXferExitResp :: "byte \<Rightarrow> byte \<Rightarrow> uds_mgr \<Rightarrow> resp" where
  "ReqXferExitResp sid err m =
     (if err \<noteq> 0 then neg_response sid err m else put_response [0x77] (m\<lparr>isXferActive := False\<rparr>))"

text \<open>The data of the diagnostic service is only checked for its length.\<close>

definition ReqDwnldResp :: "byte \<Rightarrow> byte list option \<Rightarrow> byte \<Rightarrow> uds_mgr \<Rightarrow> resp" where
  "ReqDwnldResp sid d err m =
     (if err \<noteq> 0 then neg_response sid err m
      else mbind (put_response ([sid + 0x40, push_bit 4 (HowManyChars (of_nat MAX_BLOCK_LEN) AND 0x0F)] @ be_bytes MAX_BLOCK_LEN) m)
        (\<lambda>(r, m1). if 4 + data_len d > UDS_MAX_DATA_SIZE then resp_error UDS_FAULT m1
                   else Inr (UDS_OK, m1\<lparr>isXferActive := True\<rparr>)))"

text \<open>The format byte that the request has after the file name is echoed.\<close>

definition file_xfer_header :: "byte \<Rightarrow> byte \<Rightarrow> uds_mgr \<Rightarrow> byte list" where
  "file_xfer_header sid dfi m =
     [sid + 0x40, recvBuf m ! 1, HowManyChars (of_nat MAX_BLOCK_LEN)] @ be_bytes MAX_BLOCK_LEN @ [dfi]"

definition ReqFileXferResp :: "byte \<Rightarrow> byte list option \<Rightarrow> byte \<Rightarrow> uds_mgr \<Rightarrow> resp" where
  "ReqFileXferResp sid d err m0 =
     (if err \<noteq> 0 then neg_response sid err m0
      else
        let moop = recvBuf m0 ! 1; n = unat (be_at (recvBuf m0) 2); m = m0\<lparr>isXferActive := True\<rparr> in
        if moop = 2 then put_response [sid + 0x40, moop] m0
        else if moop \<in> {1, 3, 6} then
          mbind (urd m (4 + n)) (\<lambda>dfi.
          mbind (put_response (file_xfer_header sid dfi m) m) (\<lambda>(r, m1).
          if 6 + data_len d > UDS_MAX_DATA_SIZE then resp_error UDS_FAULT m1
          else if d = None \<and> moop = 6 then Inl UdsFatal
          else put_response (file_xfer_header sid dfi m @ data_bytes d) m1))
        else if moop \<in> {4, 5} then
          mbind (if moop = 5 then Inr 0 else urd m (4 + n)) (\<lambda>dfi.
          mbind (put_response (file_xfer_header sid dfi m) m) (\<lambda>(r, m1).
          if d = None then Inl UdsFatal
          else if 6 + data_len d > UDS_MAX_DATA_SIZE then resp_error UDS_FAULT m1
          else put_response (file_xfer_header sid dfi m @ data_bytes d) m1))
        else Inr (UDS_OK, m0))"

section \<open>Sending a response\<close>

definition response_for :: "uds_cfg \<Rightarrow> byte \<Rightarrow> byte \<Rightarrow> byte list option \<Rightarrow> uds_mgr \<Rightarrow> resp" where
  "response_for c sid err d m =
     (if sid = 0x10 then SessionCtrlResp c sid err m
      else if sid = 0x11 then ECUResetResp c sid err m
      else if sid = 0x22 then ReadDIDResp sid d err m
      else if sid = 0x2E then WriteDIDResp sid err m
      else if sid = 0x27 then SecurityAccessResp c sid d err m
      else if sid = 0x29 then AuthenticationResp c sid d err m
      else if sid = 0x2F then IOCBIDResp sid d err m
      else if sid = 0x31 then RoutineCtrlResp sid d err m
      else if sid = 0x34 then ReqDwnldResp sid d err m
      else if sid = 0x36 then XferDataResp sid d err m
      else if sid = 0x37 then ReqXferExitResp sid err m
      else if sid = 0x38 then ReqFileXferResp sid d err m
      else if sid = 0x14 then ClearDiagInfoResp sid err m
      else if sid = 0x19 then ReadDTCInfoResp sid d err m
      else if sid = 0x85 then CtrlDTCSettingResp sid err m
      else if sid = 0x86 then ROEResp sid d err m
      else neg_response sid 0x11 m)"

definition SendUDSResp :: "uds_cfg \<Rightarrow> byte \<Rightarrow> byte \<Rightarrow> byte list option \<Rightarrow> uds_mgr \<Rightarrow> resp" where
  "SendUDSResp c sid err d m0 =
     (let m = m0\<lparr>nrcCode := err\<rparr> in
      if recvDataLen m = 0 then resp_error UDS_FAULT m
      else if sid \<noteq> recvBuf m ! 0 then resp_error UDS_BAD_PARAMETER m
      else if data_len d > UDS_MAX_DATA_SIZE then resp_error UDS_FAULT m
      else mbind (response_for c sid err d m) (\<lambda>(r, m1).
        if r \<noteq> UDS_OK then Inr (r, m1)
        else
          let m2 = uemit (UeDiag (udsRespAddrInfo m1) (take (unat (sendDataLen m1)) (sendBuf m1))) m1 in
          if env_diag_request c (um_trace m1)
          then Inr (UDS_OK, CheckAndRestartS3Timer c sid True (if cfg_idps_available c then SendIdpsIndMsg c m2 else m2))
          else Inr (UDS_OK, m2)))"

text \<open>
  The interface of the stack: the address of the response is the one given; the length has 16 bits.
  The model simplifies three things of the path: no data (\<open>None\<close>) has the length 0, so a null pointer with
  another length is not expressed; the stack has its DoIP entity, so the check for a missing one is
  left out; and the wait of up to three seconds for the security access object is the outcome of
  \<open>sec_timed\<close>, which times out when the object has posted nothing.
\<close>

definition taf_uds_SendDiagResp :: "uds_cfg \<Rightarrow> uds_addr \<Rightarrow> byte \<Rightarrow> byte \<Rightarrow> byte list option \<Rightarrow> uds_mgr \<Rightarrow> resp" where
  "taf_uds_SendDiagResp c a sid err d m =
     SendUDSResp c sid err (map_option (\<lambda>bs. take (length bs mod 65536) bs) d) (m\<lparr>udsRespAddrInfo := a\<rparr>)"

section \<open>Data set by the diagnostic service\<close>

definition addCancelFileXferReqInList :: "u16 \<Rightarrow> uds_mgr \<Rightarrow> uds_mgr" where
  "addCancelFileXferReqInList v m = m\<lparr>cancelFileXferReqList := cancelFileXferReqList m @ [v]\<rparr>"

definition IsCancelFileXferReqInList :: "u16 \<Rightarrow> uds_mgr \<Rightarrow> bool" where
  "IsCancelFileXferReqInList v m \<longleftrightarrow> v \<in> set (cancelFileXferReqList m)"

text \<open>The role: eight bytes, most significant first.\<close>

definition role_value :: "byte list \<Rightarrow> 64 word" where
  "role_value bs = foldl (\<lambda>v b. push_bit 8 v OR ucast b) 0 bs"

definition role_bytes :: "64 word \<Rightarrow> byte list" where
  "role_bytes v = map (\<lambda>i. ucast (drop_bit (8 * (7 - i)) v)) [0..<8]"

definition SetUDSData :: "byte \<Rightarrow> byte list \<Rightarrow> uds_mgr \<Rightarrow> uds_result \<times> uds_mgr" where
  "SetUDSData dataType bs m =
     (if bs = [] then (UDS_BAD_PARAMETER, m)
      else if dataType = 0 then
        (if length bs \<noteq> 8 then (UDS_FAULT, m) else (UDS_OK, m\<lparr>currentRoleVal := role_value bs\<rparr>))
      else if dataType = 1 then
        (if length bs \<noteq> 1 then (UDS_FAULT, m)
         else if IsCancelFileXferReqInList (um_vlanId m) m then (UDS_IN_PROGRESS, m)
         else if readyToRecvData m
         then (UDS_OK, ind_report CANCEL_RESULT [0xFC, 0] (m\<lparr>isXferActive := False\<rparr>))
         else (UDS_OK, addCancelFileXferReqInList (um_vlanId m) m))
      else if dataType = 2 then
        (if \<not> isPaused m
         then (if \<not> readyToRecvData m then (UDS_IN_PROGRESS, m\<lparr>isPaused := True\<rparr>) else (UDS_OK, m\<lparr>isPaused := True\<rparr>))
         else (UDS_OK, m))
      else if dataType = 3 then (UDS_OK, m\<lparr>isPaused := False\<rparr>)
      else (UDS_FAULT, m))"

section \<open>Timeouts\<close>

text \<open>The P2* timer expires in its thread; the negative response is sent later by the main thread.\<close>

definition P2StarTimeoutHandler :: "uds_cfg \<Rightarrow> uds_mgr \<Rightarrow> uds_mgr" where
  "P2StarTimeoutHandler c m = (case tm_p2star (um_timers m) of
       None \<Rightarrow> m
     | Some (iv, rep, n) \<Rightarrow>
         let code = (if n + 1 < max_rcrrp c then 0x78 else 0x10) in
         m\<lparr>um_timers := (um_timers m)\<lparr>tm_p2star := (if rep \<noteq> 0 \<and> n + 1 \<ge> rep then None else Some (iv, rep, n + 1))\<rparr>,
           um_p2q := um_p2q m @ [(recvBuf m ! 0, code, um_addrInfo m)]\<rparr>)"

definition P2StarSendNrcInMainThread :: "uds_cfg \<Rightarrow> byte \<times> byte \<times> uds_addr \<Rightarrow> uds_mgr \<Rightarrow> uds_mgr" where
  "P2StarSendNrcInMainThread c ctx m =
     (case ctx of (sid, errorCode, a) \<Rightarrow>
        let m1 = SendNRC c sid errorCode a m in
        if errorCode = 0x78 then m1
        else request_done (m1\<lparr>recvBuf := replicate UDS_MAX_DATA_SIZE 0, recvDataLen := 0, sendDataLen := 0\<rparr>))"

definition uds_p2_step :: "uds_cfg \<Rightarrow> uds_mgr \<Rightarrow> uds_mgr" where
  "uds_p2_step c m = (case um_p2q m of [] \<Rightarrow> m | x # xs \<Rightarrow> P2StarSendNrcInMainThread c x (m\<lparr>um_p2q := xs\<rparr>))"

definition AuthDelayTimeoutHandler :: "uds_mgr \<Rightarrow> uds_mgr" where
  "AuthDelayTimeoutHandler m =
     (let m1 = m\<lparr>um_timers := (um_timers m)\<lparr>tm_authDelay := None\<rparr>, authAttCnt := 0, authDelayTime := 2 * authDelayTime m\<rparr>;
          m2 = (if authDelayTime m1 > 16 * 60 then m1\<lparr>authDelayTime := 16 * 60\<rparr> else m1) in
      StoreDelayTimeToTree (StoreAttCntToTree m2))"

definition S3TimeoutHandler :: "uds_mgr \<Rightarrow> uds_mgr" where
  "S3TimeoutHandler m0 =
     (let m = m0\<lparr>um_timers := (um_timers m0)\<lparr>tm_s3 := None\<rparr>, um_secq := um_secq m0 + 1\<rparr> in
      if SessionType m = DEFAULT_SESSION then m
      else ind_report SESSION_CHANGE [0xFF, SessionType m, DEFAULT_SESSION] (m\<lparr>SessionType := DEFAULT_SESSION\<rparr>))"

definition AuthTimeoutHandler :: "uds_mgr \<Rightarrow> uds_mgr" where
  "AuthTimeoutHandler m =
     (ind_report AUTHENTICATION_EXPIRATION (0xFE # role_bytes (currentRoleVal m))
        (m\<lparr>um_timers := (um_timers m)\<lparr>tm_auth := None\<rparr>, authState := AUTH_STATE_DEAUTHENTICATED\<rparr>))\<lparr>currentRoleVal := 0\<rparr>"

section \<open>Creation\<close>

text \<open>
  The fields as declared, and \<open>InitAuthData\<close>: the saved counter and delay of the configuration tree,
  if there are any; at the limit the delay timer starts.
\<close>

definition InitAuthData :: "(int \<times> int) option \<Rightarrow> uds_mgr \<Rightarrow> uds_mgr" where
  "InitAuthData saved m = (case saved of
       Some (cnt, delay) \<Rightarrow>
         let m1 = m\<lparr>authAttCnt := word_of_int cnt, authDelayTime := word_of_int delay\<rparr> in
         if authAttCnt m1 \<ge> 10
         then UdsTimerEventReport AUTH_DELAY_TIMER_START (unat (authDelayTime m1) * 1000) m1 else m1
     | None \<Rightarrow> uemit (UeStoreDelay (authDelayTime m)) (uemit (UeStoreAttCnt (authAttCnt m)) m))"

text \<open>The buffers and the address have no initial value in the code: any of their size.\<close>

definition uds_mgr_ctor :: "byte list \<Rightarrow> byte list \<Rightarrow> byte list \<Rightarrow> uds_addr \<Rightarrow> u16 \<Rightarrow> AO_SecurityAccess \<Rightarrow> uds_mgr" where
  "uds_mgr_ctor rb sb tb a v sa =
     \<lparr>recvBuf = rb, recvDataLen = 0, sendBuf = sb, sendDataLen = 0, tpBuf = tb, um_recvSid = 0, um_recvSubFunc = 0,
      nrcCode = 0, SessionType = DEFAULT_SESSION, currentRoleVal = 0, authState = AUTH_STATE_UNKNOWN,
      authPreSucReq = AUTH_SUBFUNC_UNKNOWN, authAttCnt = 0, authDelayTime = 60, readyToRecvData = True, isPaused = False,
      isXferActive = False, isResetInProgress = False, um_addrInfo = a, udsRespAddrInfo = a, cancelFileXferReqList = [],
      mSecurityAccess = sa, um_timers = \<lparr>tm_s3 = None, tm_p2star = None, tm_auth = None, tm_authDelay = None\<rparr>,
      um_timerq = [], um_indq = [], um_p2q = [], um_secq = 0, um_vlanId = v, um_handler = False, um_trace = []\<rparr>"

end
