(* ===== verification/Uds_SecInv.thy ===== *)
theory Uds_SecInv
  imports Uds_Security
begin

text \<open>
  The lemmas on the security access object: how the operations act on sessions and levels, what they
  leave alone, and that a level is unlocked only by an accepted key.
\<close>

section \<open>Selectors\<close>

named_theorems sa_simps \<open>fields after an operation\<close>

lemma sa_emit_sel [sa_simps, simp]:
  "ao_state (sa_emit e a) = ao_state a" "session_list (sa_emit e a) = session_list a"
  "current_session (sa_emit e a) = current_session a" "default_session (sa_emit e a) = default_session a"
  "last_pending_session_id (sa_emit e a) = last_pending_session_id a"
  "last_pending_signal (sa_emit e a) = last_pending_signal a" "delay_timer (sa_emit e a) = delay_timer a"
  "ao_trace (sa_emit e a) = ao_trace a @ [e]"
  by (simp_all add: sa_emit_def)

lemma mod_sess_sel [sa_simps, simp]:
  "ao_state (mod_sess i f a) = ao_state a" "current_session (mod_sess i f a) = current_session a"
  "default_session (mod_sess i f a) = default_session a"
  "last_pending_session_id (mod_sess i f a) = last_pending_session_id a"
  "last_pending_signal (mod_sess i f a) = last_pending_signal a" "delay_timer (mod_sess i f a) = delay_timer a"
  "ao_trace (mod_sess i f a) = ao_trace a" "length (session_list (mod_sess i f a)) = length (session_list a)"
  by (simp_all add: mod_sess_def)

lemma sess_mod_sess [simp]:
  "sess (mod_sess i f a) k = (if k = i \<and> i < length (session_list a) then f (sess a i) else sess a k)"
  by (cases "i < length (session_list a)") (auto simp: sess_def mod_sess_def list_update_beyond not_less)

lemma sess_cong [simp]:
  "sess (sa_emit e a) = sess a" "sess (a\<lparr>ao_state := s\<rparr>) = sess a" "sess (a\<lparr>current_session := c\<rparr>) = sess a"
  "sess (a\<lparr>last_pending_session_id := p\<rparr>) = sess a" "sess (a\<lparr>last_pending_signal := g\<rparr>) = sess a"
  "sess (a\<lparr>delay_timer := t\<rparr>) = sess a"
  by (simp_all add: sess_def fun_eq_iff)

lemma level_at_cong [simp]:
  "level_at (sa_emit e a) = level_at a" "level_at (a\<lparr>ao_state := s\<rparr>) = level_at a"
  "level_at (a\<lparr>current_session := c\<rparr>) = level_at a" "level_at (a\<lparr>last_pending_session_id := p\<rparr>) = level_at a"
  "level_at (a\<lparr>last_pending_signal := g\<rparr>) = level_at a" "level_at (a\<lparr>delay_timer := t\<rparr>) = level_at a"
  by (simp_all add: level_at_def fun_eq_iff)

definition valid_ref :: "AO_SecurityAccess \<Rightarrow> level_ref \<Rightarrow> bool" where
  "valid_ref a r \<longleftrightarrow> fst r < length (session_list a) \<and> snd r < length (level_list (sess a (fst r)))"

text \<open>What no operation changes: the sessions with their identifiers, the levels but for the counters.\<close>

definition level_shape :: "SecurityLevel \<Rightarrow> SecurityLevel" where
  "level_shape l = l\<lparr>Att_Cnt := 0\<rparr>"

definition shape :: "AO_SecurityAccess \<Rightarrow> nat \<times> (byte \<times> SecurityLevel list) list" where
  "shape a = (default_session a, map (\<lambda>s. (session_id s, map level_shape (level_list s))) (session_list a))"

lemma map_update_same: "f y = f (xs ! i) \<Longrightarrow> map f (xs[i := y]) = map f xs"
  by (cases "i < length xs") (simp_all add: map_update list_update_same_conv list_update_beyond not_less)

lemma shape_mod_sess:
  assumes "\<And>s. session_id (f s) = session_id s" "\<And>s. map level_shape (level_list (f s)) = map level_shape (level_list s)"
  shows "shape (mod_sess i f a) = shape a"
  unfolding shape_def mod_sess_def by (simp add: assms map_update_same)

lemma shape_cong [simp]:
  "shape (sa_emit e a) = shape a" "shape (a\<lparr>ao_state := s\<rparr>) = shape a" "shape (a\<lparr>current_session := c\<rparr>) = shape a"
  "shape (a\<lparr>last_pending_session_id := p\<rparr>) = shape a" "shape (a\<lparr>last_pending_signal := g\<rparr>) = shape a"
  "shape (a\<lparr>delay_timer := t\<rparr>) = shape a"
  by (simp_all add: shape_def)

lemma shape_mod_simps [simp]:
  "shape (mod_sess i (\<lambda>s. s\<lparr>active_level := g s\<rparr>) a) = shape a"
  "shape (mod_sess i (\<lambda>s. s\<lparr>unlocked_level := g s\<rparr>) a) = shape a"
  "shape (mod_sess i (\<lambda>s. s\<lparr>unlocked_level := g s, active_level := h s\<rparr>) a) = shape a"
  "shape (set_Att_Cnt r n a) = shape a"
  by (simp_all add: shape_mod_sess set_Att_Cnt_def map_update_same level_shape_def)

text \<open>Lookups and validity depend on the shape only.\<close>

lemma find_index_map: "find_index P (map f xs) = find_index (\<lambda>x. P (f x)) xs"
  by (induction xs) simp_all

lemma find_session_shape: "find_session a sid = find_index (\<lambda>p. fst p = sid) (snd (shape a))"
  by (simp add: find_session_def shape_def find_index_map)

lemma find_level_shape:
  "i < length (session_list a) \<Longrightarrow>
   find_level (sess a i) sub = find_index (\<lambda>l. Security_Level l = ucast sub) (snd (snd (shape a) ! i))"
  by (simp add: find_level_def shape_def find_index_map level_shape_def sess_def)

lemma valid_ref_shape:
  "valid_ref a r \<longleftrightarrow> fst r < length (snd (shape a)) \<and> snd r < length (snd (snd (shape a) ! fst r))"
  by (auto simp: valid_ref_def shape_def sess_def)

lemma length_sessions_shape: "length (session_list a) = length (snd (shape a))"
  by (simp add: shape_def)

lemma Att_Cnt_Limit_shape:
  "valid_ref a r \<Longrightarrow> Att_Cnt_Limit (level_at a r) = Att_Cnt_Limit (snd (snd (shape a) ! fst r) ! snd r)"
  "valid_ref a r \<Longrightarrow> Security_Level (level_at a r) = Security_Level (snd (snd (shape a) ! fst r) ! snd r)"
  "valid_ref a r \<Longrightarrow> seed_size (level_at a r) = seed_size (snd (snd (shape a) ! fst r) ! snd r)"
  by (simp_all add: valid_ref_def level_at_def shape_def level_shape_def sess_def)

lemma session_id_shape: "i < length (session_list a) \<Longrightarrow> session_id (sess a i) = fst (snd (shape a) ! i)"
  by (simp add: shape_def sess_def)

lemma default_session_shape: "default_session a = fst (shape a)"
  by (simp add: shape_def)

lemma level_at_set_Att_Cnt:
  "level_at (set_Att_Cnt r n a) q = (if q = r \<and> valid_ref a r then (level_at a r)\<lparr>Att_Cnt := n\<rparr> else level_at a q)"
  by (cases q; cases r) (auto simp: level_at_def set_Att_Cnt_def valid_ref_def nth_list_update list_update_beyond not_less)

lemma set_Att_Cnt_sel [simp]:
  "ao_state (set_Att_Cnt r n a) = ao_state a" "current_session (set_Att_Cnt r n a) = current_session a"
  "default_session (set_Att_Cnt r n a) = default_session a"
  "last_pending_session_id (set_Att_Cnt r n a) = last_pending_session_id a"
  "last_pending_signal (set_Att_Cnt r n a) = last_pending_signal a" "delay_timer (set_Att_Cnt r n a) = delay_timer a"
  "ao_trace (set_Att_Cnt r n a) = ao_trace a"
  "active_level (sess (set_Att_Cnt r n a) i) = active_level (sess a i)"
  "unlocked_level (sess (set_Att_Cnt r n a) i) = unlocked_level (sess a i)"
  "session_id (sess (set_Att_Cnt r n a) i) = session_id (sess a i)"
  by (simp_all add: set_Att_Cnt_def)

lemma level_at_mod_sess [simp]:
  "level_at (mod_sess i (\<lambda>s. s\<lparr>active_level := g s\<rparr>) a) = level_at a"
  "level_at (mod_sess i (\<lambda>s. s\<lparr>unlocked_level := g s\<rparr>) a) = level_at a"
  "level_at (mod_sess i (\<lambda>s. s\<lparr>unlocked_level := g s, active_level := h s\<rparr>) a) = level_at a"
  by (simp_all add: level_at_def fun_eq_iff)

section \<open>The levels at their limit\<close>

definition at_limit :: "AO_SecurityAccess \<Rightarrow> level_ref \<Rightarrow> bool" where
  "at_limit a r \<longleftrightarrow> valid_ref a r \<and> Att_Cnt (level_at a r) = Att_Cnt_Limit (level_at a r)"

lemma limit_ref_None_aux:
  "limit_ref i ss = None \<longleftrightarrow> (\<forall>s\<in>set ss. \<forall>l\<in>set (level_list s). Att_Cnt l \<noteq> Att_Cnt_Limit l)"
proof (induction i ss rule: limit_ref.induct)
  case (2 i s ss)
  show ?case
  proof (cases "find_index (\<lambda>l. Att_Cnt l = Att_Cnt_Limit l) (level_list s)")
    case None
    then have "\<forall>l\<in>set (level_list s). Att_Cnt l \<noteq> Att_Cnt_Limit l" by (simp add: find_index_None)
    with 2 None show ?thesis by simp
  next
    case (Some j)
    with find_index_Some [OF Some] show ?thesis by (auto dest: nth_mem)
  qed
qed simp

lemma limit_ref_Some_aux:
  "limit_ref i ss = Some r \<Longrightarrow> i \<le> fst r \<and> fst r - i < length ss \<and> snd r < length (level_list (ss ! (fst r - i)))
     \<and> Att_Cnt (level_list (ss ! (fst r - i)) ! snd r) = Att_Cnt_Limit (level_list (ss ! (fst r - i)) ! snd r)"
proof (induction i ss rule: limit_ref.induct)
  case (2 i s ss)
  show ?case
  proof (cases "find_index (\<lambda>l. Att_Cnt l = Att_Cnt_Limit l) (level_list s)")
    case None
    with 2 have "limit_ref (i + 1) ss = Some r" by simp
    from 2(1) [OF None this] have "Suc i \<le> fst r" by simp
    then have "fst r - i = Suc (fst r - (i + 1))" by arith
    then show ?thesis using 2(1) [OF None \<open>limit_ref (i + 1) ss = Some r\<close>] by simp
  next
    case (Some j)
    with 2 find_index_Some [OF Some] show ?thesis by auto
  qed
qed simp

lemma limit_ref_None: "limit_ref 0 (session_list a) = None \<longleftrightarrow> (\<forall>r. \<not> at_limit a r)"
proof -
  have "(\<forall>s\<in>set (session_list a). \<forall>l\<in>set (level_list s). Att_Cnt l \<noteq> Att_Cnt_Limit l) \<longleftrightarrow>
      (\<forall>i j. i < length (session_list a) \<longrightarrow> j < length (level_list (session_list a ! i))
        \<longrightarrow> Att_Cnt (level_list (session_list a ! i) ! j) \<noteq> Att_Cnt_Limit (level_list (session_list a ! i) ! j))"
    by (metis in_set_conv_nth)
  then show ?thesis
    unfolding limit_ref_None_aux by (auto simp: at_limit_def valid_ref_def level_at_def sess_def)
qed

lemma limit_ref_Some: "limit_ref 0 (session_list a) = Some r \<Longrightarrow> at_limit a r"
  using limit_ref_Some_aux [of 0 "session_list a" r] by (simp add: at_limit_def valid_ref_def level_at_def sess_def)

section \<open>What the operations leave alone\<close>

text \<open>A response with a seed fits into the send buffer.\<close>

definition ev_ok :: "sa_event \<Rightarrow> bool" where
  "ev_ok e = (case e of SaZeroSeed bs \<Rightarrow> length bs \<le> UDS_MAX_DATA_SIZE | _ \<Rightarrow> True)"

lemma ev_ok_simps [simp]:
  "ev_ok (SaNrc n)" "ev_ok SaToApp" "ev_ok (SaSetNrc n)" "ev_ok (SaSave b w c)" "ev_ok (SaTimerStart t)" "ev_ok SaTimerStop"
  "ev_ok SaPost" "ev_ok (SaZeroSeed bs) \<longleftrightarrow> length bs \<le> UDS_MAX_DATA_SIZE"
  by (simp_all add: ev_ok_def)

text \<open>
  A relation between an object and a later one that is kept by every change of a field but the
  unlocking of a level. It is used for the shape, for the unlocked levels and for the events.
\<close>

locale sa_frame =
  fixes R :: "AO_SecurityAccess \<Rightarrow> AO_SecurityAccess \<Rightarrow> bool"
  assumes refl [simp]: "R a a"
    and emit [simp]: "ev_ok e \<Longrightarrow> R a b \<Longrightarrow> R a (sa_emit e b)"
    and state [simp]: "R a b \<Longrightarrow> R a (b\<lparr>ao_state := s\<rparr>)"
    and current [simp]: "R a b \<Longrightarrow> R a (b\<lparr>current_session := c\<rparr>)"
    and pending_id [simp]: "R a b \<Longrightarrow> R a (b\<lparr>last_pending_session_id := p\<rparr>)"
    and pending_sig [simp]: "R a b \<Longrightarrow> R a (b\<lparr>last_pending_signal := g\<rparr>)"
    and timer [simp]: "R a b \<Longrightarrow> R a (b\<lparr>delay_timer := t\<rparr>)"
    and activate [simp]: "R a b \<Longrightarrow> R a (mod_sess i (\<lambda>s. s\<lparr>active_level := h s\<rparr>) b)"
    and lock [simp]: "R a b \<Longrightarrow> R a (mod_sess i (\<lambda>s. s\<lparr>unlocked_level := None\<rparr>) b)"
    and count [simp]: "R a b \<Longrightarrow> R a (set_Att_Cnt r n b)"
begin

lemma post [simp]: "R a b \<Longrightarrow> R a (TryToPostSemaphore rp b)"
  by (simp add: TryToPostSemaphore_def)

lemma response [simp]: "R a b \<Longrightarrow> R a (ResponseNRC rp nrc b)" "R a b \<Longrightarrow> R a (SetResponseNRC rp nrc b)"
  by (simp_all add: ResponseNRC_def SetResponseNRC_def)

lemma delay [simp]: "R a b \<Longrightarrow> R a (snd (DelayTimerIsNotExpired b))"
  by (simp add: DelayTimerIsNotExpired_def Let_def split: option.split)

lemma delay_pair: "DelayTimerIsNotExpired b = (d, b') \<Longrightarrow> R a b \<Longrightarrow> R a b'"
  using delay [of a b] by simp

text \<open>The same for operations that may fail: whenever they end, they end in a related object.\<close>

definition ends :: "AO_SecurityAccess \<Rightarrow> AO_SecurityAccess sa \<Rightarrow> bool" where
  "ends a m \<longleftrightarrow> (\<forall>b. m = Inr b \<longrightarrow> R a b)"

definition ends2 :: "AO_SecurityAccess \<Rightarrow> ('x \<times> AO_SecurityAccess) sa \<Rightarrow> bool" where
  "ends2 a m \<longleftrightarrow> (\<forall>x b. m = Inr (x, b) \<longrightarrow> R a b)"

lemma ends_Inr [simp]: "ends a (Inr b) \<longleftrightarrow> R a b" "ends a (Inl e)" "ends2 a (Inr (x, b)) \<longleftrightarrow> R a b" "ends2 a (Inl e)"
  by (simp_all add: ends_def ends2_def)

lemma ends_M [simp]: "R a b \<Longrightarrow> ends2 a (M_Handled b)" "R a b \<Longrightarrow> ends2 a (M_Translate s b)"
  by (simp_all add: M_Handled_def M_Translate_def)

lemma bind:
  "ends a m \<Longrightarrow> (\<And>b. R a b \<Longrightarrow> ends a (f b)) \<Longrightarrow> ends a (mbind m f)"
  "ends a m \<Longrightarrow> (\<And>b. R a b \<Longrightarrow> ends2 a (g b)) \<Longrightarrow> ends2 a (mbind m g)"
  "ends2 a n \<Longrightarrow> (\<And>x b. R a b \<Longrightarrow> ends2 a (h x b)) \<Longrightarrow> ends2 a (mbind n (\<lambda>(x, b). h x b))"
  by (auto simp: ends_def ends2_def)

lemma bind_query:
  "(\<And>r. ends a (f r)) \<Longrightarrow> ends a (mbind (m :: level_ref sa) f)"
  "(\<And>i. ends a (g i)) \<Longrightarrow> ends a (mbind (n :: nat sa) g)"
  "(\<And>r. ends2 a (f2 r)) \<Longrightarrow> ends2 a (mbind (m :: level_ref sa) f2)"
  "(\<And>q. ends2 a (h2 q)) \<Longrightarrow> ends2 a (mbind (p :: bool sa) h2)"
  by (auto simp: ends_def ends2_def)

lemma ops:
  assumes "R a b"
  shows "ends a (ResponseAllZeroSeed rp b)" "ends a (SaveAttCntToTree b)" "ends a (TriggerDelayTimer b)"
    "ends a (LockCurrentSession b)" "ends a (SwitchSessionBasedOnEvent rp b)"
    "ends a (SwitchSessionAfterDelayTimerTimeout b)" "ends a (MarkLastPendingSession rp s b)"
  using assms
  by (auto simp: ends_def ResponseAllZeroSeed_def SaveAttCntToTree_def TriggerDelayTimer_def LockCurrentSession_def
      SwitchSessionBasedOnEvent_def SwitchSessionAfterDelayTimerTimeout_def MarkLastPendingSession_def Let_def
      split: if_splits option.splits)

lemma activation: "R a b \<Longrightarrow> ends a (ActivateSubfunction rp b)"
  unfolding ActivateSubfunction_def
  by (rule bind(1)) (auto intro!: bind_query split: option.split)

lemma deactivation: "R a b \<Longrightarrow> ends a (DeactivateAndLock b)"
  unfolding DeactivateAndLock_def by (intro bind_query ops(4)) simp

lemma counting: "R a b \<Longrightarrow> ends a (clear_Att_Cnt b)"
  unfolding clear_Att_Cnt_def by (intro bind_query) (simp add: ops)

lemma expired: "R a b \<Longrightarrow> ends2 a (delay_expired b)"
  unfolding delay_expired_def
  by (intro bind_query bind ops) (auto intro!: bind ops activation deactivation split: if_splits)

lemma wrong: "R a b \<Longrightarrow> ends2 a (wrong_key back rp b)"
  unfolding wrong_key_def Let_def by (intro bind_query) (auto intro!: bind ops)

lemma shared:
  assumes "R a b"
  shows "ends2 a (seed_response back rp b)" "ends2 a (send_key back rp b)" "ends2 a (leave_session rp s b)"
  using assms unfolding seed_response_def send_key_def leave_session_def
  by (auto intro!: bind_query bind ops activation deactivation split: if_splits)

lemma handle:
  assumes "R a b" "s \<noteq> SEND_KEY_RESPONSE_SIG \<or> rp_nrcCode rp \<noteq> 0"
  shows "ends2 a (state_fn st rp s b)"
proof -
  obtain d b1 where d: "DelayTimerIsNotExpired b = (d, b1)" and r: "R a b1"
    using delay [OF assms(1)] by (metis prod.collapse)
  show ?thesis
  proof (cases st)
    case State_LockedNoActiveSeed
    then show ?thesis using assms d r
      by (cases s) (auto simp: state_fn_def handle_LockedNoActiveSeed_def
          intro!: bind_query bind ops activation deactivation expired)
  next
    case State_LockedWaitingForKey
    then show ?thesis using assms
      by (cases s) (auto simp: state_fn_def handle_LockedWaitingForKey_def KeyIsNok_def intro!: bind_query bind ops shared wrong)
  next
    case State_UnlockedNoActiveSeed
    then show ?thesis using assms d r
      by (cases s) (auto simp: state_fn_def handle_UnlockedNoActiveSeed_def
          intro!: bind_query bind ops activation shared expired)
  next
    case State_UnlockedWaitingForKey
    then show ?thesis using assms
      by (cases s) (auto simp: state_fn_def handle_UnlockedWaitingForKey_def KeyIsNok_def intro!: bind_query bind ops shared wrong)
  qed
qed

end

definition same_shape :: "AO_SecurityAccess \<Rightarrow> AO_SecurityAccess \<Rightarrow> bool" where
  "same_shape a b \<longleftrightarrow> shape b = shape a"

definition no_new_unlock :: "AO_SecurityAccess \<Rightarrow> AO_SecurityAccess \<Rightarrow> bool" where
  "no_new_unlock a b \<longleftrightarrow> (\<forall>i r. unlocked_level (sess b i) = Some r \<longrightarrow> unlocked_level (sess a i) = Some r)"

definition events_ok :: "AO_SecurityAccess \<Rightarrow> AO_SecurityAccess \<Rightarrow> bool" where
  "events_ok a b \<longleftrightarrow> (\<exists>es. ao_trace b = ao_trace a @ es \<and> (\<forall>e\<in>set es. ev_ok e))"

interpretation no_unlock: sa_frame no_new_unlock
  by unfold_locales (auto simp: no_new_unlock_def)

section \<open>Dispatching\<close>

lemma state_fn_private: "state_fn st rp M_EXIT_SIG a = Inr (M_IGNORED, a)" "state_fn st rp M_ENTRY_SIG a = Inr (M_IGNORED, a)"
  by (cases st; simp add: state_fn_def handle_LockedNoActiveSeed_def handle_LockedWaitingForKey_def
      handle_UnlockedNoActiveSeed_def handle_UnlockedWaitingForKey_def)+

lemma MFsm_dispatch_eq: "MFsm_dispatch rp s a = mbind (state_fn (ao_state a) rp s a) (\<lambda>(m, b). Inr b)"
  by (cases "state_fn (ao_state a) rp s a") (simp_all add: MFsm_dispatch_def Let_def state_fn_private split: prod.split)

lemma dispatch_Inr: "MFsm_dispatch rp s a = Inr b \<longleftrightarrow> (\<exists>m. state_fn (ao_state a) rp s a = Inr (m, b))"
  by (auto simp: MFsm_dispatch_eq)

text \<open>The accepted key.\<close>

lemma clear_Att_Cnt_sel:
  assumes "clear_Att_Cnt a = Inr b"
  shows "current_session b = current_session a" "active_level (sess b i) = active_level (sess a i)"
    "unlocked_level (sess b i) = unlocked_level (sess a i)" "delay_timer b = delay_timer a" "ao_state b = ao_state a"
    "last_pending_signal b = last_pending_signal a" "last_pending_session_id b = last_pending_session_id a"
  using assms by (auto simp: clear_Att_Cnt_def SaveAttCntToTree_def split: if_splits)

lemma key_accepted:
  assumes "state_fn st rp SEND_KEY_RESPONSE_SIG a = Inr (m, b)" "rp_nrcCode rp = 0"
  shows "(st \<in> {State_LockedNoActiveSeed, State_UnlockedNoActiveSeed} \<and> b = a)
     \<or> (\<exists>a1 i r. clear_Att_Cnt a = Inr a1 \<and> current_session a = Some i \<and> active_level (sess a i) = Some r
        \<and> ao_state b = State_UnlockedNoActiveSeed
        \<and> ((st = State_LockedWaitingForKey
              \<and> b = (SetResponseNRC rp 0 (mod_sess i (\<lambda>s. s\<lparr>unlocked_level := active_level s\<rparr>) a1))\<lparr>ao_state := State_UnlockedNoActiveSeed\<rparr>)
          \<or> (st = State_UnlockedWaitingForKey \<and> unlocked_level (sess a i) \<noteq> None
              \<and> b = (SetResponseNRC rp 0 (if unlocked_level (sess a i) = Some r then a1
                   else mod_sess i (\<lambda>s. s\<lparr>unlocked_level := active_level s, active_level := None\<rparr>) a1))\<lparr>ao_state := State_UnlockedNoActiveSeed\<rparr>)))"
proof (cases "st = State_LockedWaitingForKey \<or> st = State_UnlockedWaitingForKey")
  case False
  then show ?thesis using assms
    by (cases st) (auto simp: state_fn_def handle_LockedNoActiveSeed_def handle_UnlockedNoActiveSeed_def)
next
  case True
  then obtain a1 where a1: "clear_Att_Cnt a = Inr a1" using assms
    by (auto simp: state_fn_def handle_LockedWaitingForKey_def handle_UnlockedWaitingForKey_def KeyIsNok_def)
  note sel = clear_Att_Cnt_sel [OF a1]
  obtain i r where ir: "current_session a = Some i" "active_level (sess a i) = Some r"
    using a1 by (auto simp: clear_Att_Cnt_def the_active_def the_current_def split: option.splits)
  show ?thesis
  proof (cases "st = State_LockedWaitingForKey")
    case True
    then have "b = (SetResponseNRC rp 0 (mod_sess i (\<lambda>s. s\<lparr>unlocked_level := active_level s\<rparr>) a1))\<lparr>ao_state := State_UnlockedNoActiveSeed\<rparr>"
      using assms a1 ir sel
      by (auto simp: state_fn_def handle_LockedWaitingForKey_def KeyIsNok_def UnlockCurrentSecLevel_def
          the_current_def M_Translate_def)
    then show ?thesis using True a1 ir by auto
  next
    case False
    with \<open>st = State_LockedWaitingForKey \<or> st = State_UnlockedWaitingForKey\<close> have st: "st = State_UnlockedWaitingForKey" by simp
    obtain a2 where a2: "UnlockRequestedSecLevelAndLockOthers a1 = Inr a2"
      and b: "b = (SetResponseNRC rp 0 a2)\<lparr>ao_state := State_UnlockedNoActiveSeed\<rparr>"
      using assms a1 unfolding st
      by (auto simp: state_fn_def handle_UnlockedWaitingForKey_def KeyIsNok_def M_Translate_def)
    have u: "unlocked_level (sess a i) \<noteq> None"
      using a2 ir sel by (auto simp: UnlockRequestedSecLevelAndLockOthers_def the_current_def split: if_splits)
    have "a2 = (if unlocked_level (sess a i) = Some r then a1
        else mod_sess i (\<lambda>s. s\<lparr>unlocked_level := active_level s, active_level := None\<rparr>) a1)"
      using a2 ir sel u by (simp add: UnlockRequestedSecLevelAndLockOthers_def the_current_def split: if_splits)
    then have "b = (SetResponseNRC rp 0 (if unlocked_level (sess a i) = Some r then a1
        else mod_sess i (\<lambda>s. s\<lparr>unlocked_level := active_level s, active_level := None\<rparr>) a1))\<lparr>ao_state := State_UnlockedNoActiveSeed\<rparr>"
      using b by simp
    then show ?thesis using st a1 ir u b by (intro disjI2 exI [of _ a1] exI [of _ i] exI [of _ r]) simp
  qed
qed

text \<open>A relation that the unlocking keeps too is kept by every signal.\<close>

locale sa_total_frame = sa_frame +
  assumes unlock [simp]: "R a b \<Longrightarrow> R a (mod_sess i (\<lambda>s. s\<lparr>unlocked_level := active_level s\<rparr>) b)"
    and unlock_other [simp]: "R a b \<Longrightarrow> R a (mod_sess i (\<lambda>s. s\<lparr>unlocked_level := active_level s, active_level := None\<rparr>) b)"
begin

lemma dispatch:
  assumes "MFsm_dispatch rp s a = Inr b"
  shows "R a b"
proof (cases "s \<noteq> SEND_KEY_RESPONSE_SIG \<or> rp_nrcCode rp \<noteq> 0")
  case True
  then show ?thesis using handle [OF refl True, of a "ao_state a"] assms
    by (auto simp: dispatch_Inr ends2_def)
next
  case False
  have c: "R a a1" if "clear_Att_Cnt a = Inr a1" for a1
    using counting [OF refl, of a] that by (simp add: ends_def)
  obtain m where "state_fn (ao_state a) rp SEND_KEY_RESPONSE_SIG a = Inr (m, b)" using assms False by (auto simp: dispatch_Inr)
  from key_accepted [OF this] False show ?thesis
    by (auto dest!: c)
qed

end

text \<open>Every signal keeps the sessions and levels, and only adds events to the trace, with seeds that fit.\<close>

interpretation shapes: sa_total_frame same_shape
  by unfold_locales (simp_all add: same_shape_def)

interpretation events: sa_total_frame events_ok
  by unfold_locales (auto simp: events_ok_def)

lemmas dispatch_shape = shapes.dispatch [unfolded same_shape_def]

lemmas dispatch_events = events.dispatch

text \<open>
  C19: a level becomes unlocked in no other way than by a positive answer of the application to the
  key, in a state that waits for a key, and it is the level that is active in the current session:
  no other signal, no other state and no negative answer unlocks anything.
\<close>

theorem unlock_needs_key:
  assumes "MFsm_dispatch rp s a = Inr b"
    and "unlocked_level (sess b i) = Some r" "unlocked_level (sess a i) \<noteq> Some r"
  shows "s = SEND_KEY_RESPONSE_SIG \<and> rp_nrcCode rp = 0 \<and> current_session a = Some i \<and> active_level (sess a i) = Some r
     \<and> ao_state a \<in> {State_LockedWaitingForKey, State_UnlockedWaitingForKey}"
proof -
  obtain m where m: "state_fn (ao_state a) rp s a = Inr (m, b)" using assms(1) by (auto simp: dispatch_Inr)
  have key: "s = SEND_KEY_RESPONSE_SIG \<and> rp_nrcCode rp = 0"
  proof (rule ccontr)
    assume "\<not> ?thesis"
    then have "no_unlock.ends2 a (state_fn (ao_state a) rp s a)" by (intro no_unlock.handle) auto
    then show False using m assms(2,3) unfolding no_unlock.ends2_def no_new_unlock_def by blast
  qed
  with m have k: "state_fn (ao_state a) rp SEND_KEY_RESPONSE_SIG a = Inr (m, b)" "rp_nrcCode rp = 0" by simp_all
  from key_accepted [OF this] consider "b = a"
    | a1 j q where "clear_Att_Cnt a = Inr a1" "current_session a = Some j" "active_level (sess a j) = Some q"
        "ao_state a = State_LockedWaitingForKey"
        "b = (SetResponseNRC rp 0 (mod_sess j (\<lambda>s. s\<lparr>unlocked_level := active_level s\<rparr>) a1))\<lparr>ao_state := State_UnlockedNoActiveSeed\<rparr>"
    | a1 j q where "clear_Att_Cnt a = Inr a1" "current_session a = Some j" "active_level (sess a j) = Some q"
        "ao_state a = State_UnlockedWaitingForKey"
        "b = (SetResponseNRC rp 0 (if unlocked_level (sess a j) = Some q then a1
             else mod_sess j (\<lambda>s. s\<lparr>unlocked_level := active_level s, active_level := None\<rparr>) a1))\<lparr>ao_state := State_UnlockedNoActiveSeed\<rparr>"
    by blast
  then show ?thesis
  proof cases
    case 1
    then show ?thesis using assms(2,3) by simp
  next
    case 2
    note sel = clear_Att_Cnt_sel [OF 2(1)]
    show ?thesis using 2 key assms(2,3) sel
      by (auto simp: SetResponseNRC_def TryToPostSemaphore_def split: if_splits)
  next
    case 3
    note sel = clear_Att_Cnt_sel [OF 3(1)]
    show ?thesis using 3 key assms(2,3) sel
      by (auto simp: SetResponseNRC_def TryToPostSemaphore_def split: if_splits)
  qed
qed

end
