(* ===== verification/Uds_MgrFrame.thy ===== *)
theory Uds_MgrFrame
  imports Uds_Responses Uds_SecInv
begin

unbundle bit_operations_syntax

text \<open>
  What the operations of the manager leave alone. Sending a message touches the send buffers, the
  timer queue and the trace only; the checks of a request touch a few fields more. Both are
  equalities of the state with those fields masked, so that they compose by transitivity.
\<close>

declare split_paired_All [simp del] split_paired_Ex [simp del]

section \<open>Sending\<close>

definition bufs_ok :: "uds_mgr \<Rightarrow> bool" where
  "bufs_ok m \<longleftrightarrow> length (sendBuf m) = UDS_MAX_DATA_SIZE \<and> unat (sendDataLen m) \<le> UDS_MAX_DATA_SIZE"

definition quiet_part :: "uds_mgr \<Rightarrow> uds_mgr" where
  "quiet_part m = m\<lparr>sendBuf := [], sendDataLen := 0, tpBuf := [], um_timerq := [], um_trace := []\<rparr>"

definition quiet :: "uds_mgr \<Rightarrow> uds_mgr \<Rightarrow> bool" where
  "quiet m m' \<longleftrightarrow> quiet_part m' = quiet_part m \<and> (bufs_ok m \<longrightarrow> bufs_ok m')"

definition calm_part :: "uds_mgr \<Rightarrow> uds_mgr" where
  "calm_part m = (quiet_part m)\<lparr>isXferActive := False, udsRespAddrInfo := um_addrInfo m, um_recvSid := 0, um_recvSubFunc := 0,
     mSecurityAccess := undefined, nrcCode := 0, um_secq := 0\<rparr>"

definition calm :: "uds_mgr \<Rightarrow> uds_mgr \<Rightarrow> bool" where
  "calm m m' \<longleftrightarrow> calm_part m' = calm_part m \<and> (bufs_ok m \<longrightarrow> bufs_ok m')"

lemma quiet_refl [simp]: "quiet m m"
  by (simp add: quiet_def)

lemma quiet_trans: "quiet m m1 \<Longrightarrow> quiet m1 m2 \<Longrightarrow> quiet m m2"
  by (simp add: quiet_def)

lemma calm_refl [simp]: "calm m m"
  by (simp add: calm_def)

lemma calm_trans: "calm m m1 \<Longrightarrow> calm m1 m2 \<Longrightarrow> calm m m2"
  by (simp add: calm_def)

lemma quiet_part_sel: "um_addrInfo (quiet_part m) = um_addrInfo m"
  by (simp add: quiet_part_def)

lemma quiet_calm: "quiet m m' \<Longrightarrow> calm m m'"
  using quiet_part_sel [of m] quiet_part_sel [of m'] by (simp add: quiet_def calm_def calm_part_def)

lemma quiet_sel:
  assumes "quiet m m'"
  shows "recvBuf m' = recvBuf m" "recvDataLen m' = recvDataLen m" "um_recvSid m' = um_recvSid m"
    "um_recvSubFunc m' = um_recvSubFunc m" "nrcCode m' = nrcCode m" "SessionType m' = SessionType m"
    "currentRoleVal m' = currentRoleVal m" "authState m' = authState m" "authPreSucReq m' = authPreSucReq m"
    "authAttCnt m' = authAttCnt m" "authDelayTime m' = authDelayTime m" "readyToRecvData m' = readyToRecvData m"
    "isPaused m' = isPaused m" "isXferActive m' = isXferActive m" "isResetInProgress m' = isResetInProgress m"
    "um_addrInfo m' = um_addrInfo m" "udsRespAddrInfo m' = udsRespAddrInfo m"
    "cancelFileXferReqList m' = cancelFileXferReqList m" "mSecurityAccess m' = mSecurityAccess m"
    "um_timers m' = um_timers m" "um_indq m' = um_indq m" "um_p2q m' = um_p2q m" "um_secq m' = um_secq m"
    "um_vlanId m' = um_vlanId m" "um_handler m' = um_handler m"
  using assms by (cases m; cases m'; simp add: quiet_def quiet_part_def)+

lemma calm_sel:
  assumes "calm m m'"
  shows "recvBuf m' = recvBuf m" "recvDataLen m' = recvDataLen m" "SessionType m' = SessionType m"
    "currentRoleVal m' = currentRoleVal m" "authState m' = authState m" "authPreSucReq m' = authPreSucReq m"
    "authAttCnt m' = authAttCnt m" "authDelayTime m' = authDelayTime m" "readyToRecvData m' = readyToRecvData m"
    "isPaused m' = isPaused m" "isResetInProgress m' = isResetInProgress m"
    "um_addrInfo m' = um_addrInfo m" "cancelFileXferReqList m' = cancelFileXferReqList m"
    "um_timers m' = um_timers m" "um_indq m' = um_indq m" "um_p2q m' = um_p2q m"
    "um_vlanId m' = um_vlanId m" "um_handler m' = um_handler m"
  using assms by (cases m; cases m'; simp add: calm_def calm_part_def quiet_part_def)+

named_theorems quiet_ops \<open>operations that only send\<close>

lemma quiet_emit [quiet_ops, simp]: "quiet m (uemit e m)" "quiet m (UdsTimerEventReport t n m)" "quiet m (m\<lparr>tpBuf := b\<rparr>)"
  by (simp_all add: quiet_def quiet_part_def bufs_ok_def uemit_def UdsTimerEventReport_def)

lemma quiet_put: "length bs \<le> UDS_MAX_DATA_SIZE \<Longrightarrow>
   quiet m (m\<lparr>sendBuf := bs @ drop (length bs) (sendBuf m), sendDataLen := of_nat (length bs)\<rparr>)"
  by (simp add: quiet_def quiet_part_def bufs_ok_def unat_of_nat)

lemma quiet_SetNRC [quiet_ops, simp]: "quiet m (SetNRC sid n m)"
  using quiet_put [of "[0x7F, sid, n]" m] by (simp add: SetNRC_def numeral_3_eq_3)

lemma quiet_S3 [quiet_ops, simp]: "quiet m (CheckAndRestartS3Timer c sid False m)" "quiet m (restart_s3 c sid i m)"
  by (simp_all add: CheckAndRestartS3Timer_def restart_s3_def Let_def split: option.split)

lemma quiet_Idps [quiet_ops, simp]: "quiet m (SendIdpsIndMsg c m)"
  by (simp add: SendIdpsIndMsg_def Let_def)

lemma quiet_SendData [quiet_ops, simp]: "quiet m (SendData c sid n a m)"
  unfolding SendData_def Let_def by (auto intro: quiet_trans [OF quiet_emit(1) quiet_S3(1)])

lemma quiet_SendNRC [quiet_ops, simp]: "quiet m (SendNRC c sid n a m)"
  unfolding SendNRC_def Let_def
  by (auto intro: quiet_trans [OF quiet_emit(3) quiet_SendData] quiet_trans [OF quiet_SetNRC quiet_SendData]
      quiet_trans [OF quiet_trans [OF quiet_SetNRC quiet_SendData] quiet_Idps])

lemma calm_fields [simp]:
  "calm m (m\<lparr>isXferActive := b\<rparr>)" "calm m (m\<lparr>udsRespAddrInfo := a\<rparr>)" "calm m (m\<lparr>mSecurityAccess := s\<rparr>)"
  "calm m (m\<lparr>nrcCode := n\<rparr>)" "calm m (m\<lparr>um_secq := q\<rparr>)" "calm m (m\<lparr>um_recvSid := x, um_recvSubFunc := y\<rparr>)"
  by (simp_all add: calm_def calm_part_def quiet_part_def bufs_ok_def)

lemmas calm_SendNRC = quiet_calm [OF quiet_SendNRC]

section \<open>The security access object\<close>

lemma calm_effect: "ev_ok e \<Longrightarrow> calm m (sec_effect c e m)"
proof (cases e)
  case (SaZeroSeed bs)
  assume "ev_ok e"
  then show ?thesis using SaZeroSeed
    by (simp add: sec_effect_def quiet_calm [OF quiet_trans [OF quiet_put quiet_SendData]])
qed (simp_all add: sec_effect_def calm_SendNRC)

lemma calm_effects: "\<forall>e\<in>set es. ev_ok e \<Longrightarrow> calm m (fold (sec_effect c) es m)"
  by (induction es arbitrary: m) (auto intro: calm_trans [OF calm_effect])

lemma usec_Inr [simp]: "usec r = Inr x \<longleftrightarrow> r = Inr x"
  by (simp add: usec_def split: sum.split)

lemma calm_sec_dispatch:
  assumes "sec_dispatch c rp s m = Inr (es, m')"
  shows "calm m m'"
proof -
  obtain b where b: "MFsm_dispatch rp s (mSecurityAccess m) = Inr b"
    and es: "es = drop (length (ao_trace (mSecurityAccess m))) (ao_trace b)"
    and m': "m' = fold (sec_effect c) es (m\<lparr>mSecurityAccess := b\<rparr>)"
    using assms by (auto simp: sec_dispatch_def Let_def)
  have "\<forall>e\<in>set es. ev_ok e" using dispatch_events [OF b] es by (auto simp: events_ok_def)
  then show ?thesis unfolding m' by (intro calm_trans [OF calm_fields(3) calm_effects])
qed

lemma calm_sec_timeouts: "sec_timeouts c n m = Inr m' \<Longrightarrow> calm m m'"
proof (induction c n m arbitrary: m' rule: sec_timeouts.induct)
  case (2 c n m)
  then obtain es m1 where m1: "sec_dispatch c (sec_report False m) SESSION_TIMEOUT_SIG (m\<lparr>um_secq := n\<rparr>) = Inr (es, m1)"
    and "sec_timeouts c n m1 = Inr m'" by auto
  then have "calm m1 m'" using 2(1) by blast
  moreover have "calm m m1" using calm_trans [OF calm_fields(5) calm_sec_dispatch [OF m1]] .
  ultimately show ?case using calm_trans by blast
qed simp

lemma calm_sec_call: "sec_call c s m = Inr (es, m') \<Longrightarrow> calm m m'"
  by (auto simp: sec_call_def intro: calm_trans [OF calm_sec_timeouts calm_sec_dispatch])

lemma calm_sec_wait: "sec_wait c s m = Inr (es, m') \<Longrightarrow> calm m m'"
  by (auto simp: sec_wait_def split: if_splits dest: calm_sec_call)

section \<open>Requests\<close>

text \<open>
  The outcome of the checks of a request: handled, with nothing changed but what \<open>calm\<close> allows, or
  passed on, with the request as it is then in the receive buffer.
\<close>

definition ind_post :: "(bool \<Rightarrow> uds_mgr \<Rightarrow> bool) \<Rightarrow> ind \<Rightarrow> bool" where
  "ind_post P r \<longleftrightarrow> (\<forall>i m'. r = Inr (i, m') \<longrightarrow> P i m')"

lemma ind_post_simps [simp]:
  "ind_post P (Inl e)" "ind_post P (Inr (i, m)) \<longleftrightarrow> P i m" "ind_post P (nrc_out c a sid n m) \<longleftrightarrow> P True (SendNRC c sid n a m)"
  "ind_post P (pass_on m) \<longleftrightarrow> P False m" "ind_post P (mbind r f) \<longleftrightarrow> (\<forall>x. r = Inr x \<longrightarrow> ind_post P (f x))"
  by (auto simp: ind_post_def nrc_out_def pass_on_def)

definition handled :: "(uds_mgr \<Rightarrow> bool) \<Rightarrow> uds_mgr \<Rightarrow> bool \<Rightarrow> uds_mgr \<Rightarrow> bool" where
  "handled F m i m' \<longleftrightarrow> (if i then calm m m' else F m')"

lemma handled_simps [simp]:
  "handled F m True (SendNRC c sid n a m)" "handled F m True m" "handled F m False m' \<longleftrightarrow> F m'"
  by (simp_all add: handled_def calm_SendNRC)

definition file_request_ok :: "uds_mgr \<Rightarrow> bool" where
  "file_request_ok m \<longleftrightarrow> recvBuf m ! 1 \<in> {1, 2, 3, 4, 5, 6} \<and> 4 + unat (be_at (recvBuf m) 2) \<le> unat (recvDataLen m)
     \<and> unat (recvDataLen m) \<le> UDS_DATA_SIZE"

definition forwarded :: "uds_mgr \<Rightarrow> uds_mgr \<Rightarrow> bool" where
  "forwarded m m' \<longleftrightarrow> calm m m' \<and> recvDataLen m \<noteq> 0 \<and> unat (recvDataLen m) \<le> UDS_MAX_DATA_SIZE"

lemma forwarded_self [simp]: "forwarded m m \<longleftrightarrow> recvDataLen m \<noteq> 0 \<and> unat (recvDataLen m) \<le> UDS_MAX_DATA_SIZE"
  by (simp add: forwarded_def)

lemma len_small: "(n :: u16) < 17 \<Longrightarrow> unat n \<le> 16400" "\<not> n < k \<Longrightarrow> k \<noteq> 0 \<Longrightarrow> n \<noteq> 0"
  by (auto simp: word_less_nat_alt unat_eq_0 word_not_simps)

lemma post_subfunction:
  "ind_post P (subfunction_access c a sid sub m next) \<longleftrightarrow>
     (if \<not> IsSubFuncAuthCheckOK c sid sub m then P True (SendNRC c sid 0x34 a m)
      else if \<not> IsSubFuncSessTypeValid c sid sub m then P True (SendNRC c sid 0x7E a m)
      else (\<forall>ok. IsSubFuncSecAccessMatched c sid sub m = Inr ok \<longrightarrow>
        (if ok then ind_post P next else P True (SendNRC c sid 0x33 a m))))"
  by (auto simp: subfunction_access_def)

lemma post_short:
  "ind_post (handled (forwarded m) m) (IndicateSessionCtrlReq c a m)"
  "ind_post (handled (forwarded m) m) (IndicateECUResetReq c a m)"
  "ind_post (handled (forwarded m) m) (IndicateClearDiagInfoReq c a m)"
  "ind_post (handled (forwarded m) m) (IndicateReadDTCInfoReq c a m)"
  "ind_post (handled (forwarded m) m) (IndicateAuthReq c a m)"
  "ind_post (handled (forwarded m) m) (IndicateROEReq c a m)"
  by (auto simp: IndicateSessionCtrlReq_def IndicateECUResetReq_def IndicateClearDiagInfoReq_def IndicateReadDTCInfoReq_def
      IndicateAuthReq_def IndicateROEReq_def Let_def post_subfunction word_less_nat_alt word_le_nat_alt unat_eq_0)

end
