(* ===== verification/Uds_MgrReq.thy ===== *)
theory Uds_MgrReq
  imports Uds_MgrFrame
begin

unbundle bit_operations_syntax

text \<open>
  What the checks of each service leave when they pass a request on: a complete request of a known
  service in the receive buffer, and everything else as \<open>calm\<close> allows.
\<close>

declare split_paired_All [simp del] split_paired_Ex [simp del]

lemma post_options: "(\<And>x. e = Some x \<Longrightarrow> ind_post P (f x)) \<Longrightarrow> (e = None \<Longrightarrow> ind_post P z) \<Longrightarrow>
   ind_post P (case e of None \<Rightarrow> z | Some x \<Rightarrow> f x)"
  by (cases e) simp_all

lemma post_data:
  "ind_post (handled (forwarded m) m) (IndicateWriteDIDReq c a m)"
  "ind_post (handled (forwarded m) m) (IndicateIOCBIDReq c a m)"
  "ind_post (handled (forwarded m) m) (IndicateRoutinrCtrlReq c a m)"
  unfolding IndicateWriteDIDReq_def IndicateIOCBIDReq_def IndicateRoutinrCtrlReq_def Let_def
  by (auto simp: unat_eq_0 intro!: post_options split: option.split bool.split)

lemma nibble: "unat ((x :: byte) AND 15) \<le> 15"
proof -
  have "x AND 15 \<le> 15" by (rule word_and_le1)
  then show ?thesis by (simp add: word_le_nat_alt)
qed

lemma post_transfer:
  "ind_post (handled (forwarded m) m) (IndicateRxXferDataReq c a m)"
  "ind_post (handled (forwarded m) m) (IndicateRxXferExitReq c a m)"
  "ind_post (handled (forwarded m) m) (IndicateRxReqDwnldReq c a m)"
proof -
  show "ind_post (handled (forwarded m) m) (IndicateRxXferDataReq c a m)"
    "ind_post (handled (forwarded m) m) (IndicateRxXferExitReq c a m)"
    by (auto simp: IndicateRxXferDataReq_def IndicateRxXferExitReq_def Let_def handled_def word_less_nat_alt unat_eq_0 calm_SendNRC
       intro: calm_trans [OF calm_fields(1) calm_SendNRC])
  have "unat (recvBuf m ! 2 AND 15) + unat (drop_bit 4 (recvBuf m ! 2) AND 15) \<le> 30"
    using nibble [of "recvBuf m ! 2"] nibble [of "drop_bit 4 (recvBuf m ! 2)"] by linarith
  then show "ind_post (handled (forwarded m) m) (IndicateRxReqDwnldReq c a m)"
    by (auto simp: IndicateRxReqDwnldReq_def Let_def word_less_nat_alt unat_eq_0)
qed

lemma xfer_lengths:
  "xfer_name_only n m = Inr None \<Longrightarrow> unat (recvDataLen m) = 4 + n \<and> unat (recvDataLen m) \<le> UDS_DATA_SIZE"
  "xfer_read_file n m = Inr None \<Longrightarrow> unat (recvDataLen m) = 5 + n \<and> unat (recvDataLen m) \<le> UDS_DATA_SIZE"
  "xfer_with_size n m = Inr None \<Longrightarrow> 6 + n \<le> unat (recvDataLen m) \<and> unat (recvDataLen m) \<le> UDS_DATA_SIZE"
  by (auto simp: xfer_name_only_def xfer_read_file_def xfer_with_size_def Let_def split: if_splits)

lemma moops: "\<not> ((x :: byte) < 1 \<or> 6 < x) \<longleftrightarrow> x \<in> {1, 2, 3, 4, 5, 6}"
proof -
  have "\<not> (x < 1 \<or> 6 < x) \<longleftrightarrow> unat x \<in> {1, 2, 3, 4, 5, 6}"
    by (auto simp: word_less_nat_alt)
  also have "\<dots> \<longleftrightarrow> x \<in> unat -` {1, 2, 3, 4, 5, 6}" by simp
  also have "\<dots> \<longleftrightarrow> x \<in> {1, 2, 3, 4, 5, 6}" by (auto simp: word_unat_eq_iff)
  finally show ?thesis .
qed

lemma post_file:
  "ind_post (handled (\<lambda>m'. forwarded m m' \<and> file_request_ok m') m) (IndicateRxFileXferReq c a m)"
proof -
  define X where "X = (if recvBuf m ! 1 = 2 \<or> recvBuf m ! 1 = 5 then xfer_name_only (unat (be_at (recvBuf m) 2)) m
        else if recvBuf m ! 1 = 4 then xfer_read_file (unat (be_at (recvBuf m) 2)) m
        else xfer_with_size (unat (be_at (recvBuf m) 2)) m)"
  have len: "4 + unat (be_at (recvBuf m) 2) \<le> unat (recvDataLen m) \<and> unat (recvDataLen m) \<le> UDS_DATA_SIZE" if "X = Inr None"
    using that xfer_lengths [of "unat (be_at (recvBuf m) 2)" m] by (auto simp: X_def split: if_splits)
  have pass: "forwarded m m \<and> file_request_ok m" if "X = Inr None" "\<not> (recvBuf m ! 1 < 1 \<or> 6 < recvBuf m ! 1)"
    using len [OF that(1)] that(2) unfolding moops by (auto simp: file_request_ok_def)
  show ?thesis
    unfolding IndicateRxFileXferReq_def Let_def X_def [symmetric]
    using pass by (auto simp del: forwarded_self split: option.split)
qed

section \<open>Identifiers\<close>

lemma read_did_loop_len:
  "read_did_loop c a m is out k = Inr (Inr (out', k')) \<Longrightarrow> length out' \<le> length out + 2 * length is"
proof (induction "is" arbitrary: out k)
  case (Cons i is')
  then obtain out1 k1 where "read_did_loop c a m is' out1 k1 = Inr (Inr (out', k'))" "length out1 \<le> length out + 2"
    by (auto simp: Let_def split: if_splits did_result.splits) (metis did_result.exhaust)+
  then show ?case using Cons.IH [of out1 k1] by simp
qed simp

text \<open>The request that is passed on may be shorter than the one received.\<close>

definition passed_on :: "uds_mgr \<Rightarrow> uds_mgr \<Rightarrow> bool" where
  "passed_on m m' \<longleftrightarrow> calm m (m'\<lparr>recvBuf := recvBuf m, recvDataLen := recvDataLen m\<rparr>)
     \<and> recvDataLen m' \<noteq> 0 \<and> unat (recvDataLen m') \<le> UDS_MAX_DATA_SIZE
     \<and> recvBuf m' ! 0 = recvBuf m ! 0 \<and> length (recvBuf m') = length (recvBuf m)"

lemma forwarded_passed_on:
  assumes "forwarded m m'"
  shows "passed_on m m'"
proof -
  have c: "calm m m'" using assms by (simp add: forwarded_def)
  have "m'\<lparr>recvBuf := recvBuf m', recvDataLen := recvDataLen m'\<rparr> = m'" by simp
  then have u: "m'\<lparr>recvBuf := recvBuf m, recvDataLen := recvDataLen m\<rparr> = m'" by (simp only: calm_sel(1,2) [OF c])
  show ?thesis unfolding passed_on_def u using assms c by (simp add: forwarded_def calm_sel(1,2) [OF c])
qed

lemma post_read:
  assumes "length (recvBuf m) = UDS_MAX_DATA_SIZE"
  shows "ind_post (handled (passed_on m) m) (IndicateReadDIDReq c a m)"
proof -
  have *: "passed_on m (m\<lparr>recvBuf := recvBuf m ! 0 # out @ drop (Suc (length out)) (recvBuf m),
       recvDataLen := of_nat (Suc (length out))\<rparr>)"
    if "length out \<le> 20" for out
    using that assms by (simp add: passed_on_def unat_of_nat unat_eq_0 [symmetric] del: of_nat_Suc)
  have l: "length out \<le> 20" if "read_did_loop c a m [0..<(unat (recvDataLen m) - Suc 0) div 2] [] 0 = Inr (Inr (out, k))"
    "\<not> 10 < (unat (recvDataLen m) - Suc 0) div 2" for out k
    using read_did_loop_len [OF that(1)] that(2) by simp
  show ?thesis
    unfolding IndicateReadDIDReq_def Let_def
    by (auto split: sum.split intro!: * intro: l simp del: of_nat_Suc simp flip: of_nat_Suc)
qed

section \<open>Dispatch\<close>

lemma post_sec: "ind_post (handled (forwarded m) m) (IndicateSecAccessReq c a m)"
proof -
  let ?m = "m\<lparr>udsRespAddrInfo := a\<rparr>"
  have n: "calm m (SendNRC c sid n b ?m)" for sid n b
    by (rule calm_trans [OF calm_fields(2) calm_SendNRC])
  have w: "calm m m'" if "sec_wait c s (?m\<lparr>um_recvSid := x, um_recvSubFunc := y\<rparr>) = Inr (es, m')" for s x y es m'
    by (rule calm_trans [OF calm_trans [OF calm_fields(2) calm_fields(6)] calm_sec_wait [OF that]])
  show ?thesis
    unfolding IndicateSecAccessReq_def Let_def
    by (auto simp: handled_def forwarded_def n word_less_nat_alt unat_eq_0 dest: w)
qed

definition services :: "byte set" where
  "services = {0x10, 0x11, 0x14, 0x19, 0x22, 0x27, 0x29, 0x2E, 0x2F, 0x31, 0x34, 0x36, 0x37, 0x38, 0x86}"

lemma handled_mono: "ind_post (handled F m) r \<Longrightarrow> (\<And>m'. F m' \<Longrightarrow> G m') \<Longrightarrow> ind_post (handled G m) r"
  by (auto simp: ind_post_def handled_def)

lemma post_dispatch:
  assumes "length (recvBuf m) = UDS_MAX_DATA_SIZE"
  shows "ind_post (handled (\<lambda>m'. passed_on m m' \<and> sid \<in> services \<and> (sid = 0x38 \<longrightarrow> file_request_ok m')) m) (dispatch_service c sid a m)"
  unfolding dispatch_service_def
  by (auto simp: services_def post_read [OF assms, THEN handled_mono]
      post_short [THEN handled_mono] post_data [THEN handled_mono] post_transfer [THEN handled_mono] post_sec [THEN handled_mono]
      post_file [THEN handled_mono] forwarded_passed_on)

end
