(* ===== verification/Uds_SecSystem.thy ===== *)
theory Uds_SecSystem
  imports Uds_SecInv
begin

text \<open>
  The security access object among its partners: the UDS manager, which handles one request at a
  time and answers it when the application does, the session management and the delay timer. The
  invariant of the reachable states gives the bound on the attempts and the absence of crashes.
\<close>

section \<open>The system\<close>

text \<open>\<open>sy_waiting\<close> is the request that was passed to the application and is not yet answered.\<close>

record sa_system =
  sy_ao :: AO_SecurityAccess
  sy_session :: byte \<comment> \<open>\<open>SessionType\<close> of the manager\<close>
  sy_waiting :: "(SecAccSignal \<times> byte) option"

definition passed :: "AO_SecurityAccess \<Rightarrow> AO_SecurityAccess \<Rightarrow> bool" where
  "passed a b \<longleftrightarrow> SaToApp \<in> set (drop (length (ao_trace a)) (ao_trace b))"

definition answer_to :: "SecAccSignal \<Rightarrow> SecAccSignal" where
  "answer_to s = (if s = REQUEST_SEED_SIG then REQUEST_SEED_RESPONSE_SIG else SEND_KEY_RESPONSE_SIG)"

text \<open>
  \<open>sa_input st rp s a sid\<close>: in \<open>st\<close> the signal \<open>s\<close> can be dispatched with the report \<open>rp\<close> on the
  object \<open>a\<close>, after which \<open>sid\<close> is the session of the manager. The delay timer fires only while it runs;
  the end of the tool's connection reports the old session. Two inputs that can occur are left out,
  since no invariant survives them: the change to a session without a binding, and a signal that is
  handled after the delay timer has fired and before its expiry is. \<open>sa_signal\<close> of \<open>Uds_SecProps\<close> has them,
  with what they lead to.
\<close>

inductive sa_input :: "sa_system \<Rightarrow> sa_report \<Rightarrow> SecAccSignal \<Rightarrow> AO_SecurityAccess \<Rightarrow> byte \<Rightarrow> bool" where
  request: "sy_waiting st = None \<Longrightarrow> rp_SessionType rp = sy_session st \<Longrightarrow> s = REQUEST_SEED_SIG \<or> s = SEND_KEY_SIG
     \<Longrightarrow> sa_input st rp s (sy_ao st) (sy_session st)"
| answer: "sy_waiting st = Some (q, rp_recvSubFunc rp) \<Longrightarrow> rp_SessionType rp = sy_session st
     \<Longrightarrow> s = answer_to q \<Longrightarrow> sa_input st rp s (sy_ao st) (sy_session st)"
| control: "sy_waiting st = None
     \<Longrightarrow> rp_SessionType rp = DEFAULT_SESSION \<or> find_session (sy_ao st) (rp_SessionType rp) \<noteq> None
     \<Longrightarrow> sa_input st rp SESSION_CONTROL_SIG (sy_ao st) (rp_SessionType rp)"
| disconnect: "sy_session st \<noteq> DEFAULT_SESSION \<Longrightarrow> rp_SessionType rp = sy_session st
     \<Longrightarrow> sa_input st rp SESSION_CONTROL_SIG (sy_ao st) DEFAULT_SESSION"
| timeout: "sy_waiting st = None \<Longrightarrow> sa_input st rp SESSION_TIMEOUT_SIG (sy_ao st) DEFAULT_SESSION"
| expired: "delay_timer (sy_ao st)
     \<Longrightarrow> sa_input st rp DELAY_TIMER_EXPIRED_SIG (sy_ao st\<lparr>delay_timer := False\<rparr>) (sy_session st)"

definition sa_next :: "sa_report \<Rightarrow> SecAccSignal \<Rightarrow> AO_SecurityAccess \<Rightarrow> byte \<Rightarrow> AO_SecurityAccess \<Rightarrow> sa_system" where
  "sa_next rp s a sid b = \<lparr>sy_ao = b, sy_session = sid,
     sy_waiting = (if (s = REQUEST_SEED_SIG \<or> s = SEND_KEY_SIG) \<and> passed a b then Some (s, rp_recvSubFunc rp) else None)\<rparr>"

inductive sa_step :: "sa_system \<Rightarrow> sa_system \<Rightarrow> bool" where
  "sa_input st rp s a sid \<Longrightarrow> MFsm_dispatch rp s a = Inr b \<Longrightarrow> sa_step st (sa_next rp s a sid b)"

text \<open>
  A configuration with limits, with seeds that fit into the send buffer, and with saved counters of
  which at most one is at its limit.
\<close>

definition sa_config_ok :: "AO_SecurityAccess \<Rightarrow> bool" where
  "sa_config_ok a \<longleftrightarrow> (\<forall>r. valid_ref a r \<longrightarrow> Att_Cnt_Limit (level_at a r) \<noteq> 0
       \<and> Att_Cnt (level_at a r) \<le> Att_Cnt_Limit (level_at a r)
       \<and> 2 + seed_byte_size (seed_size (level_at a r)) \<le> UDS_MAX_DATA_SIZE)
     \<and> (\<forall>r q. at_limit a r \<longrightarrow> at_limit a q \<longrightarrow> r = q)"

text \<open>The manager gives a request up when the application does not answer in time.\<close>

inductive sa_reachable :: "sa_system \<Rightarrow> bool" where
  start: "a = SecurityAccess_CreateActiveObject bs tree \<Longrightarrow> sa_config_ok a
     \<Longrightarrow> sa_reachable \<lparr>sy_ao = a, sy_session = DEFAULT_SESSION, sy_waiting = None\<rparr>"
| step: "sa_reachable st \<Longrightarrow> sa_step st st' \<Longrightarrow> sa_reachable st'"
| given_up: "sa_reachable st \<Longrightarrow> sa_reachable (st\<lparr>sy_waiting := None\<rparr>)"

section \<open>Lookups after an operation\<close>

lemma find_session_cong [simp]:
  "find_session (sa_emit e a) = find_session a" "find_session (a\<lparr>ao_state := s\<rparr>) = find_session a"
  "find_session (a\<lparr>current_session := c\<rparr>) = find_session a" "find_session (a\<lparr>last_pending_session_id := p\<rparr>) = find_session a"
  "find_session (a\<lparr>last_pending_signal := g\<rparr>) = find_session a" "find_session (a\<lparr>delay_timer := t\<rparr>) = find_session a"
  "find_session (mod_sess i (\<lambda>s. s\<lparr>active_level := h s\<rparr>) a) = find_session a"
  "find_session (mod_sess i (\<lambda>s. s\<lparr>unlocked_level := h s\<rparr>) a) = find_session a"
  "find_session (mod_sess i (\<lambda>s. s\<lparr>unlocked_level := h s, active_level := k s\<rparr>) a) = find_session a"
  "find_session (set_Att_Cnt r n a) = find_session a"
  by (simp_all add: find_session_shape fun_eq_iff)

lemma valid_ref_cong [simp]:
  "valid_ref (sa_emit e a) = valid_ref a" "valid_ref (a\<lparr>ao_state := s\<rparr>) = valid_ref a"
  "valid_ref (a\<lparr>current_session := c\<rparr>) = valid_ref a" "valid_ref (a\<lparr>last_pending_session_id := p\<rparr>) = valid_ref a"
  "valid_ref (a\<lparr>last_pending_signal := g\<rparr>) = valid_ref a" "valid_ref (a\<lparr>delay_timer := t\<rparr>) = valid_ref a"
  "valid_ref (mod_sess i (\<lambda>s. s\<lparr>active_level := h s\<rparr>) a) = valid_ref a"
  "valid_ref (mod_sess i (\<lambda>s. s\<lparr>unlocked_level := h s\<rparr>) a) = valid_ref a"
  "valid_ref (mod_sess i (\<lambda>s. s\<lparr>unlocked_level := h s, active_level := k s\<rparr>) a) = valid_ref a"
  "valid_ref (set_Att_Cnt r n a) = valid_ref a"
  by (simp_all add: valid_ref_shape fun_eq_iff)

lemma at_limit_cong [simp]:
  "at_limit (sa_emit e a) = at_limit a" "at_limit (a\<lparr>ao_state := s\<rparr>) = at_limit a"
  "at_limit (a\<lparr>current_session := c\<rparr>) = at_limit a" "at_limit (a\<lparr>last_pending_session_id := p\<rparr>) = at_limit a"
  "at_limit (a\<lparr>last_pending_signal := g\<rparr>) = at_limit a" "at_limit (a\<lparr>delay_timer := t\<rparr>) = at_limit a"
  "at_limit (mod_sess i (\<lambda>s. s\<lparr>active_level := h s\<rparr>) a) = at_limit a"
  "at_limit (mod_sess i (\<lambda>s. s\<lparr>unlocked_level := h s\<rparr>) a) = at_limit a"
  "at_limit (mod_sess i (\<lambda>s. s\<lparr>unlocked_level := h s, active_level := k s\<rparr>) a) = at_limit a"
  by (simp_all add: at_limit_def fun_eq_iff)

lemma at_limit_set: "at_limit (set_Att_Cnt r n a) q \<longleftrightarrow>
     (if q = r then valid_ref a r \<and> n = Att_Cnt_Limit (level_at a r) else at_limit a q)"
  by (auto simp: at_limit_def level_at_set_Att_Cnt)

lemma find_level_cong [simp]:
  "find_level (s\<lparr>active_level := x\<rparr>) = find_level s" "find_level (s\<lparr>unlocked_level := x\<rparr>) = find_level s"
  by (simp_all add: find_level_def fun_eq_iff)

lemma find_session_Some: "find_session a sid = Some i \<Longrightarrow> i < length (session_list a)"
  by (auto simp: find_session_def dest: find_index_Some)

lemma find_level_Some: "find_level (sess a i) sub = Some j \<Longrightarrow> i < length (session_list a) \<Longrightarrow> valid_ref a (i, j)"
  by (auto simp: find_level_def valid_ref_def dest: find_index_Some)

section \<open>The invariant\<close>

definition in_sync :: "AO_SecurityAccess \<Rightarrow> byte \<Rightarrow> bool" where
  "in_sync a sid \<longleftrightarrow> sid \<noteq> DEFAULT_SESSION \<and> current_session a = find_session a sid"

text \<open>The part on the object alone: pointers, limits, and what each state means.\<close>

definition level_refs :: "AO_SecurityAccess \<Rightarrow> bool" where
  "level_refs a \<longleftrightarrow> (\<forall>i r. i < length (session_list a) \<longrightarrow>
       (active_level (sess a i) = Some r \<longrightarrow> valid_ref a r \<and> fst r = i)
     \<and> (unlocked_level (sess a i) = Some r \<longrightarrow> valid_ref a r \<and> fst r = i))"

definition others_locked :: "AO_SecurityAccess \<Rightarrow> bool" where
  "others_locked a \<longleftrightarrow> (\<forall>i. i < length (session_list a) \<longrightarrow> current_session a \<noteq> Some i \<longrightarrow> unlocked_level (sess a i) = None)"

definition ao_ok :: "AO_SecurityAccess \<Rightarrow> bool" where
  "ao_ok a \<longleftrightarrow>
     (\<exists>i. current_session a = Some i \<and> i < length (session_list a))
   \<and> default_session a < length (session_list a) \<and> find_session a SEC_ACC_DEFAULT_SESSION_ID \<noteq> None
   \<and> level_refs a \<and> others_locked a
   \<and> sa_config_ok a"

definition cur_active :: "AO_SecurityAccess \<Rightarrow> level_ref option" where
  "cur_active a = (case current_session a of None \<Rightarrow> None | Some i \<Rightarrow> active_level (sess a i))"

definition cur_unlocked :: "AO_SecurityAccess \<Rightarrow> level_ref option" where
  "cur_unlocked a = (case current_session a of None \<Rightarrow> None | Some i \<Rightarrow> unlocked_level (sess a i))"

definition no_limit :: "AO_SecurityAccess \<Rightarrow> bool" where
  "no_limit a \<longleftrightarrow> (\<forall>r. \<not> at_limit a r)"

text \<open>
  The part on the delay: while the timer runs, the object is in a state without a seed, and the
  active level is the one at its limit; without the timer a level is at its limit only before the
  first session change. A pending session change is one the timer waits for.
\<close>

definition delay_ok :: "AO_SecurityAccess \<Rightarrow> byte \<Rightarrow> bool" where
  "delay_ok a sid \<longleftrightarrow>
     (delay_timer a \<longrightarrow> ao_state a \<in> {State_LockedNoActiveSeed, State_UnlockedNoActiveSeed}
        \<and> (\<exists>r. cur_active a = Some r \<and> at_limit a r))
   \<and> (\<not> delay_timer a \<longrightarrow> \<not> no_limit a \<longrightarrow> ao_state a = State_LockedNoActiveSeed \<and> sid = DEFAULT_SESSION)
   \<and> (last_pending_signal a \<noteq> INVALID_SIG \<longrightarrow> delay_timer a
        \<and> (last_pending_session_id a = DEFAULT_SESSION \<or> find_session a (last_pending_session_id a) \<noteq> None)
        \<and> (sid = DEFAULT_SESSION \<or> last_pending_session_id a = sid))"

definition states_ok :: "AO_SecurityAccess \<Rightarrow> byte \<Rightarrow> bool" where
  "states_ok a sid \<longleftrightarrow>
     (ao_state a \<in> {State_LockedNoActiveSeed, State_LockedWaitingForKey} \<longrightarrow> cur_unlocked a = None)
   \<and> (ao_state a \<in> {State_LockedWaitingForKey, State_UnlockedWaitingForKey} \<longrightarrow> cur_active a \<noteq> None \<and> in_sync a sid)
   \<and> (ao_state a \<in> {State_UnlockedNoActiveSeed, State_UnlockedWaitingForKey} \<longrightarrow> last_pending_signal a = INVALID_SIG
        \<longrightarrow> cur_unlocked a \<noteq> None)
   \<and> (cur_unlocked a \<noteq> None \<longrightarrow> last_pending_signal a = INVALID_SIG \<and> in_sync a sid)
   \<and> (sid \<noteq> DEFAULT_SESSION \<longrightarrow> last_pending_signal a = INVALID_SIG \<longrightarrow> in_sync a sid)"

text \<open>What holds while the application has the request \<open>q\<close> with subfunction \<open>sub\<close>.\<close>

definition wait_ok :: "AO_SecurityAccess \<Rightarrow> byte \<Rightarrow> SecAccSignal \<Rightarrow> byte \<Rightarrow> bool" where
  "wait_ok a sid q sub \<longleftrightarrow> \<not> delay_timer a \<and> no_limit a \<and> in_sync a sid
     \<and> (q = REQUEST_SEED_SIG \<and> (ao_state a \<in> {State_LockedNoActiveSeed, State_UnlockedNoActiveSeed} \<longrightarrow>
           (\<forall>i. current_session a = Some i \<longrightarrow> find_level (sess a i) (sub AND 0x7F) \<noteq> None))
        \<or> q = SEND_KEY_SIG \<and> ao_state a \<in> {State_LockedWaitingForKey, State_UnlockedWaitingForKey})"

definition waiting_ok :: "sa_system \<Rightarrow> bool" where
  "waiting_ok st \<longleftrightarrow> (case sy_waiting st of None \<Rightarrow> True
     | Some w \<Rightarrow> wait_ok (sy_ao st) (sy_session st) (fst w) (snd w))"

definition sa_inv :: "sa_system \<Rightarrow> bool" where
  "sa_inv st \<longleftrightarrow> ao_ok (sy_ao st) \<and> delay_ok (sy_ao st) (sy_session st) \<and> states_ok (sy_ao st) (sy_session st)
     \<and> waiting_ok st"

end
