(* ===== verification/Uds_MgrInv.thy ===== *)
theory Uds_MgrInv
  imports Uds_MgrReq Uds_SecSystem
begin

unbundle bit_operations_syntax

text \<open>
  The manager among its partners as a step relation, and the invariant of its reachable states: the
  buffers, the bounds of the authentication counters, and a request that the diagnostic service has
  is a complete one in the receive buffer.
\<close>

declare split_paired_All [simp del] split_paired_Ex [simp del]

section \<open>The system\<close>

text \<open>
  The DoIP stack, the diagnostic service and the threads for the timers and for security access, in any
  order. A timer expires only while it runs. \<open>d\<close> is for partners that keep to the discipline the
  code relies on: the diagnostic service answers only a request it has, and the S3 timer, which is
  started with an interval that covers all responses pending when a request is passed on, does not
  expire before that request is answered.
\<close>

inductive uds_step :: "uds_cfg \<Rightarrow> bool \<Rightarrow> uds_mgr \<Rightarrow> uds_mgr \<Rightarrow> bool" for c d where
  doip: "DiagIndicationHandler c a msg result m = Inr m' \<Longrightarrow> uds_step c d m m'"
| response: "d \<longrightarrow> \<not> readyToRecvData m \<Longrightarrow> taf_uds_SendDiagResp c a sid err dat m = Inr (r, m') \<Longrightarrow> uds_step c d m m'"
| data: "uds_step c d m (snd (SetUDSData dataType bs m))"
| handler: "uds_step c d m (m\<lparr>um_handler := b\<rparr>)"
| indication: "uds_step c d m (uds_ind_step m)"
| timer_event: "uds_step c d m (uds_timer_step c remaining m)"
| p2_expired: "tm_p2star (um_timers m) \<noteq> None \<Longrightarrow> uds_step c d m (P2StarTimeoutHandler c m)"
| p2_nrc: "uds_step c d m (uds_p2_step c m)"
| s3_expired: "tm_s3 (um_timers m) \<noteq> None \<Longrightarrow> d \<longrightarrow> readyToRecvData m \<Longrightarrow> uds_step c d m (S3TimeoutHandler m)"
| auth_expired: "tm_auth (um_timers m) \<noteq> None \<Longrightarrow> uds_step c d m (AuthTimeoutHandler m)"
| auth_delay_expired: "tm_authDelay (um_timers m) \<noteq> None \<Longrightarrow> uds_step c d m (AuthDelayTimeoutHandler m)"
| sec_timeout: "um_secq m > 0
     \<Longrightarrow> sec_dispatch c (sec_report False m) SESSION_TIMEOUT_SIG (m\<lparr>um_secq := um_secq m - 1\<rparr>) = Inr (es, m') \<Longrightarrow> uds_step c d m m'"
| sec_delay: "delay_timer (mSecurityAccess m)
     \<Longrightarrow> sec_dispatch c (sec_report False m) DELAY_TIMER_EXPIRED_SIG
           (m\<lparr>mSecurityAccess := (mSecurityAccess m)\<lparr>delay_timer := False\<rparr>\<rparr>) = Inr (es, m') \<Longrightarrow> uds_step c d m m'"

text \<open>
  An instance starts with the values the configuration tree has, which are values the code stored.
\<close>

definition saved_ok :: "(int \<times> int) option \<Rightarrow> bool" where
  "saved_ok saved \<longleftrightarrow> (case saved of None \<Rightarrow> True | Some (cnt, delay) \<Rightarrow> 0 \<le> cnt \<and> cnt \<le> 10 \<and> 60 \<le> delay \<and> delay \<le> 960)"

text \<open>Every session that can be asked for is known, and has a binding of the security access object.\<close>

definition sessions_bound :: "uds_cfg \<Rightarrow> AO_SecurityAccess \<Rightarrow> bool" where
  "sessions_bound c a \<longleftrightarrow> (\<forall>s. IsSubFuncSupported c 0x10 s \<longrightarrow> list_ex (\<lambda>p. snd p = s) (cfg_session_map c)
     \<and> (s = DEFAULT_SESSION \<or> find_session a s \<noteq> None))"

inductive uds_runs :: "uds_cfg \<Rightarrow> bool \<Rightarrow> uds_mgr \<Rightarrow> bool" for c d where
  start: "length rb = UDS_MAX_DATA_SIZE \<Longrightarrow> length sb = UDS_MAX_DATA_SIZE \<Longrightarrow> saved_ok saved
     \<Longrightarrow> ao = SecurityAccess_CreateActiveObject bs tree \<Longrightarrow> d \<longrightarrow> sa_config_ok ao \<and> sessions_bound c ao
     \<Longrightarrow> uds_runs c d (InitAuthData saved (uds_mgr_ctor rb sb tb a v ao))"
| step: "uds_runs c d m \<Longrightarrow> uds_step c d m m' \<Longrightarrow> uds_runs c d m'"

abbreviation uds_reachable :: "uds_cfg \<Rightarrow> uds_mgr \<Rightarrow> bool" where
  "uds_reachable c \<equiv> uds_runs c False"

section \<open>The invariant\<close>

definition auth_ok :: "uds_mgr \<Rightarrow> bool" where
  "auth_ok m \<longleftrightarrow> unat (authAttCnt m) \<le> 10 \<and> 60 \<le> unat (authDelayTime m) \<and> unat (authDelayTime m) \<le> 960"

definition pending_ok :: "uds_mgr \<Rightarrow> bool" where
  "pending_ok m \<longleftrightarrow> recvDataLen m \<noteq> 0 \<and> unat (recvDataLen m) \<le> UDS_MAX_DATA_SIZE \<and> recvBuf m ! 0 \<in> services
     \<and> (recvBuf m ! 0 = 0x38 \<longrightarrow> file_request_ok m)"

definition uds_inv :: "uds_mgr \<Rightarrow> bool" where
  "uds_inv m \<longleftrightarrow> length (recvBuf m) = UDS_MAX_DATA_SIZE \<and> bufs_ok m \<and> auth_ok m \<and> (\<not> readyToRecvData m \<longrightarrow> pending_ok m)"

lemma file_request_cong: "recvBuf m' = recvBuf m \<Longrightarrow> recvDataLen m' = recvDataLen m \<Longrightarrow> file_request_ok m' = file_request_ok m"
  by (simp add: file_request_ok_def)

lemma uds_inv_calm: "calm m m' \<Longrightarrow> uds_inv m \<Longrightarrow> uds_inv m'"
  using calm_sel [of m m'] file_request_cong [of m' m] by (simp add: uds_inv_def auth_ok_def pending_ok_def calm_def)

lemmas uds_inv_quiet = uds_inv_calm [OF quiet_calm]

text \<open>Fields the invariant does not mention.\<close>

lemma uds_inv_fields [simp]:
  "uds_inv (m\<lparr>um_timers := t\<rparr>) = uds_inv m" "uds_inv (m\<lparr>um_indq := q\<rparr>) = uds_inv m" "uds_inv (m\<lparr>um_p2q := p\<rparr>) = uds_inv m"
  "uds_inv (m\<lparr>um_secq := n\<rparr>) = uds_inv m" "uds_inv (m\<lparr>SessionType := s\<rparr>) = uds_inv m" "uds_inv (m\<lparr>authState := x\<rparr>) = uds_inv m"
  "uds_inv (m\<lparr>currentRoleVal := r\<rparr>) = uds_inv m" "uds_inv (m\<lparr>isPaused := b\<rparr>) = uds_inv m" "uds_inv (m\<lparr>isXferActive := b\<rparr>) = uds_inv m"
  "uds_inv (m\<lparr>um_addrInfo := a\<rparr>) = uds_inv m" "uds_inv (m\<lparr>udsRespAddrInfo := a\<rparr>) = uds_inv m"
  "uds_inv (m\<lparr>cancelFileXferReqList := l\<rparr>) = uds_inv m" "uds_inv (m\<lparr>um_handler := h\<rparr>) = uds_inv m"
  "uds_inv (m\<lparr>mSecurityAccess := sa\<rparr>) = uds_inv m" "uds_inv (m\<lparr>nrcCode := k\<rparr>) = uds_inv m" "uds_inv (m\<lparr>um_timerq := tq\<rparr>) = uds_inv m"
  "uds_inv (m\<lparr>um_trace := tr\<rparr>) = uds_inv m" "uds_inv (m\<lparr>isResetInProgress := b\<rparr>) = uds_inv m" "uds_inv (m\<lparr>authPreSucReq := s8\<rparr>) = uds_inv m"
  by (simp_all add: uds_inv_def bufs_ok_def auth_ok_def pending_ok_def file_request_ok_def)

lemma uds_inv_ready [simp]: "uds_inv m \<Longrightarrow> uds_inv (m\<lparr>readyToRecvData := True\<rparr>)"
  by (simp add: uds_inv_def bufs_ok_def auth_ok_def)

lemma uds_inv_ops [simp]:
  "uds_inv (ind_report i bs m) = uds_inv m" "uds_inv (uemit e m) = uds_inv m" "uds_inv (UdsTimerEventReport t n m) = uds_inv m"
  by (simp_all add: ind_report_def uemit_def UdsTimerEventReport_def)

lemma uds_inv_done: "uds_inv m \<Longrightarrow> uds_inv (request_done m)"
  by (simp add: request_done_def CheckAndSendCancelFileXferEvent_def)

lemma ready_done [simp]: "readyToRecvData (request_done m)" "recvBuf (request_done m) = recvBuf m"
  "recvDataLen (request_done m) = recvDataLen m" "SessionType (request_done m) = SessionType m"
  by (simp_all add: request_done_def CheckAndSendCancelFileXferEvent_def ind_report_def)

text \<open>The buffers are cleared when the manager is ready or becomes so.\<close>

lemma uds_inv_clear:
  assumes "uds_inv m" "readyToRecvData m"
  shows "uds_inv (m\<lparr>recvBuf := replicate UDS_MAX_DATA_SIZE 0, recvDataLen := 0, sendDataLen := 0\<rparr>)"
  using assms by (simp add: uds_inv_def bufs_ok_def auth_ok_def)

section \<open>Reception\<close>

lemma inv_deregistered:
  assumes "sa_deregistered c a m = Inr m'" "uds_inv m"
  shows "uds_inv m'"
proof -
  define m2 where "m2 = request_done ((UdsTimerEventReport AUTH_TIMER_STOP 0 (UdsTimerEventReport P2STAR_TIMER_STOP 0
      (UdsTimerEventReport S3_TIMER_STOP 0 (m\<lparr>um_addrInfo := a\<rparr>))))\<lparr>authState := AUTH_STATE_UNKNOWN\<rparr>)"
  have m2: "uds_inv m2" "readyToRecvData m2" using assms(2) by (simp_all add: m2_def uds_inv_done)
  define m3 where "m3 = m2\<lparr>isXferActive := False, recvBuf := replicate UDS_MAX_DATA_SIZE 0, recvDataLen := 0, sendDataLen := 0\<rparr>"
  have "uds_inv m3" using uds_inv_clear [of "m2\<lparr>isXferActive := False\<rparr>"] m2 by (simp add: m3_def)
  then show ?thesis
    using assms(1) unfolding sa_deregistered_def Let_def m2_def [symmetric] m3_def [symmetric]
    by (auto split: if_splits dest: uds_inv_calm [OF calm_sec_wait])
qed

lemma general_quiet: "GeneralServerResp c a sid m = Inr (b, m') \<Longrightarrow> quiet m m'"
  by (auto simp: GeneralServerResp_def Let_def split: if_splits option.splits
      intro: quiet_trans [OF quiet_emit(2) quiet_SendNRC])

lemma tester_quiet: "handle_tester_present c a msg m = Inr m' \<Longrightarrow> quiet m m'"
proof -
  assume "handle_tester_present c a msg m = Inr m'"
  then obtain b m1 where g: "GeneralServerResp c a 0x3E m = Inr (b, m1)"
    and t: "m1 = m' \<or> TesterPresentResp c (if length msg < 2 then 0 else msg ! 1) (of_nat (length msg)) a m1 = Inr m'"
    by (auto simp: handle_tester_present_def split: if_splits)
  have "quiet m1 m'" if "TesterPresentResp c x n a m1 = Inr m'" for x n
    using that by (auto simp: TesterPresentResp_def Let_def subfunction_access_def nrc_out_def pass_on_def split: if_splits
        intro: quiet_trans [OF quiet_emit(3) quiet_SendData])
  then show ?thesis using general_quiet [OF g] t quiet_trans by blast
qed

lemma inv_receive:
  assumes "uds_inv m" "readyToRecvData m"
  shows "uds_inv (receive_request a msg m)" "readyToRecvData (receive_request a msg m)"
  using assms by (simp_all add: receive_request_def Let_def uds_inv_def bufs_ok_def auth_ok_def)

lemma inv_passed:
  assumes "passed_on m m'" "uds_inv m" "readyToRecvData m" "sid = recvBuf m ! 0" "sid \<in> services" "sid = 0x38 \<Longrightarrow> file_request_ok m'"
  shows "uds_inv (CheckAndSendInd c sid a (restart_s3 c sid i m'))"
proof -
  let ?u = "m'\<lparr>recvBuf := recvBuf m, recvDataLen := recvDataLen m\<rparr>"
  have c: "calm m ?u" using assms(1) by (simp add: passed_on_def)
  have "uds_inv ?u" using uds_inv_calm [OF c assms(2)] .
  moreover have "readyToRecvData m'" using calm_sel(9) [OF c] assms(3) by simp
  ultimately have "uds_inv m'" using assms(1,2) by (simp add: uds_inv_def passed_on_def bufs_ok_def auth_ok_def)
  moreover have "pending_ok m'" using assms by (simp add: pending_ok_def passed_on_def)
  moreover define m1 where "m1 = SendNRC c sid 0x78 a (restart_s3 c sid i m')"
  moreover have q: "quiet m' m1" unfolding m1_def by (rule quiet_trans [OF quiet_S3(2) quiet_SendNRC])
  ultimately have "uds_inv m1" "pending_ok m1"
    using uds_inv_quiet quiet_sel(1,2) [OF q] file_request_cong [of m1 m'] by (auto simp: pending_ok_def)
  then show ?thesis
    unfolding CheckAndSendInd_def m1_def [symmetric]
    by (simp add: uds_inv_def bufs_ok_def auth_ok_def pending_ok_def UdsTimerEventReport_def ind_report_def file_request_ok_def)
qed

lemma inv_request:
  assumes "handle_request c a sid m = Inr m'" "uds_inv m" "readyToRecvData m" "sid = recvBuf m ! 0"
  shows "uds_inv m'"
proof -
  obtain b m1 where g: "GeneralServerResp c a sid m = Inr (b, m1)"
    and t: "if b then m' = m1 else \<exists>i m2. dispatch_service c sid a m1 = Inr (i, m2)
        \<and> m' = (if \<not> i then CheckAndSendInd c sid a (restart_s3 c sid i m2) else restart_s3 c sid i m2)"
    using assms(1) by (auto simp: handle_request_def Let_def split: if_splits)
  note q = general_quiet [OF g]
  have i1: "uds_inv m1" "readyToRecvData m1" "sid = recvBuf m1 ! 0" "length (recvBuf m1) = UDS_MAX_DATA_SIZE"
    using uds_inv_quiet [OF q assms(2)] quiet_sel [OF q] assms(3,4) by (simp_all add: uds_inv_def)
  show ?thesis
  proof (cases b)
    case False
    with t obtain i m2 where d: "dispatch_service c sid a m1 = Inr (i, m2)"
      and m': "m' = (if \<not> i then CheckAndSendInd c sid a (restart_s3 c sid i m2) else restart_s3 c sid i m2)" by auto
    have "handled (\<lambda>m'. passed_on m1 m' \<and> sid \<in> services \<and> (sid = 0x38 \<longrightarrow> file_request_ok m')) m1 i m2"
      using post_dispatch [OF i1(4), of sid c a] d by (simp add: ind_post_def)
    then show ?thesis
      using m' inv_passed [OF _ i1(1-3)] uds_inv_quiet [OF quiet_S3(2)] uds_inv_calm i1(1)
      by (auto simp: handled_def split: if_splits)
  qed (use t i1 in simp)
qed

lemma inv_doip:
  assumes "DiagIndicationHandler c a msg result m = Inr m'" "uds_inv m"
  shows "uds_inv m'"
proof -
  have r: "sid = recvBuf (receive_request a (sid # bs) m) ! 0" for sid bs
    by (simp add: receive_request_def Let_def min_def take_Cons')
  show ?thesis
    using assms inv_deregistered inv_request [OF _ inv_receive r] uds_inv_quiet [OF tester_quiet] uds_inv_quiet [OF quiet_SendNRC]
    by (auto simp: DiagIndicationHandler_def split: if_splits list.splits)
qed

section \<open>Responses\<close>

definition resp_post :: "(uds_mgr \<Rightarrow> bool) \<Rightarrow> resp \<Rightarrow> bool" where
  "resp_post P r \<longleftrightarrow> (\<forall>x m'. r = Inr (x, m') \<longrightarrow> P m')"

lemma resp_post_simps [simp]:
  "resp_post P (Inl e)" "resp_post P (Inr (x, m)) \<longleftrightarrow> P m" "resp_post P (neg_response sid n m) \<longleftrightarrow> P (SetNRC sid n m)"
  "resp_post P (resp_error y m) \<longleftrightarrow> P m" "resp_post P (mbind r f) \<longleftrightarrow> (\<forall>x. r = Inr x \<longrightarrow> resp_post P (f x))"
  by (auto simp: resp_post_def neg_response_def resp_error_def)

text \<open>What a response keeps of the request that is outstanding.\<close>

definition resp_keeps :: "uds_mgr \<Rightarrow> uds_mgr \<Rightarrow> bool" where
  "resp_keeps m m' \<longleftrightarrow> recvBuf m' = recvBuf m \<and> recvDataLen m' = recvDataLen m \<and> readyToRecvData m' = readyToRecvData m
     \<and> (bufs_ok m \<longrightarrow> bufs_ok m') \<and> (auth_ok m \<longrightarrow> auth_ok m')"

lemma resp_keeps_refl [simp]: "resp_keeps m m"
  by (simp add: resp_keeps_def)

lemma resp_keeps_trans: "resp_keeps m m1 \<Longrightarrow> resp_keeps m1 m2 \<Longrightarrow> resp_keeps m m2"
  by (simp add: resp_keeps_def)

lemma resp_keeps_inv: "resp_keeps m m' \<Longrightarrow> uds_inv m \<Longrightarrow> uds_inv m'"
  using file_request_cong [of m' m] by (simp add: resp_keeps_def uds_inv_def pending_ok_def)

lemma calm_resp: "calm m m' \<Longrightarrow> resp_keeps m m'"
  using calm_sel [of m m'] by (simp add: resp_keeps_def auth_ok_def calm_def)

lemmas quiet_resp = calm_resp [OF quiet_calm]

lemma keeps_fields [simp]:
  "resp_keeps m (m'\<lparr>SessionType := s\<rparr>) = resp_keeps m m'" "resp_keeps m (m'\<lparr>isResetInProgress := b\<rparr>) = resp_keeps m m'"
  "resp_keeps m (m'\<lparr>isXferActive := b\<rparr>) = resp_keeps m m'" "resp_keeps m (m'\<lparr>authState := x\<rparr>) = resp_keeps m m'"
  "resp_keeps m (m'\<lparr>authPreSucReq := p\<rparr>) = resp_keeps m m'" "resp_keeps m (m'\<lparr>um_indq := q\<rparr>) = resp_keeps m m'"
  "resp_keeps m (m'\<lparr>nrcCode := n\<rparr>) = resp_keeps m m'" "resp_keeps m (m'\<lparr>udsRespAddrInfo := a\<rparr>) = resp_keeps m m'"
  "resp_keeps m (m'\<lparr>um_timerq := tq\<rparr>) = resp_keeps m m'" "resp_keeps m (m'\<lparr>um_trace := tr\<rparr>) = resp_keeps m m'"
  by (simp_all add: resp_keeps_def bufs_ok_def auth_ok_def)

lemma keeps_ops [simp]:
  "resp_keeps m (UdsTimerEventReport t n m') = resp_keeps m m'" "resp_keeps m (ind_report i bs m') = resp_keeps m m'"
  "resp_keeps m (uemit e m') = resp_keeps m m'"
  by (simp_all add: UdsTimerEventReport_def ind_report_def uemit_def)

lemma keeps_SetNRC [simp]: "resp_keeps m m' \<Longrightarrow> resp_keeps m (SetNRC sid n m')"
  using resp_keeps_trans [OF _ quiet_resp [OF quiet_SetNRC]] .

lemma keeps_put: "resp_keeps m m' \<Longrightarrow> resp_post (resp_keeps m) (put_response bs m')"
  using resp_keeps_trans [OF _ quiet_resp [OF quiet_put]] by (auto simp: put_response_def)

lemma keeps_timed: "sec_timed c s m' = Inr (b, m1) \<Longrightarrow> resp_keeps m m' \<Longrightarrow> resp_keeps m m1"
  using resp_keeps_trans [OF _ calm_resp [OF calm_sec_call]] by (auto simp: sec_timed_def)

lemma keeps_session:
  "resp_post (resp_keeps m) (SessionCtrlResp c sid err m)" "resp_post (resp_keeps m) (ECUResetResp c sid err m)"
proof -
  have t: "sec_timed c s (UdsTimerEventReport e n (m\<lparr>SessionType := x\<rparr>)) = Inr (b, m1) \<Longrightarrow> resp_keeps m m1"
    "sec_timed c s (m\<lparr>SessionType := x\<rparr>) = Inr (b, m1) \<Longrightarrow> resp_keeps m m1" for s e n x b m1
    by (erule keeps_timed, simp)+
  show "resp_post (resp_keeps m) (SessionCtrlResp c sid err m)" "resp_post (resp_keeps m) (ECUResetResp c sid err m)"
    unfolding SessionCtrlResp_def ECUResetResp_def session_positive_def Let_def
    by (auto intro!: keeps_put dest!: t split: if_splits)
qed

lemma keeps_data:
  "resp_post (resp_keeps m) (ReadDIDResp sid d err m)" "resp_post (resp_keeps m) (WriteDIDResp sid err m)"
  "resp_post (resp_keeps m) (RoutineCtrlResp sid d err m)" "resp_post (resp_keeps m) (IOCBIDResp sid d err m)"
  "resp_post (resp_keeps m) (ReadDTCInfoResp sid d err m)" "resp_post (resp_keeps m) (ClearDiagInfoResp sid err m)"
  "resp_post (resp_keeps m) (CtrlDTCSettingResp sid err m)" "resp_post (resp_keeps m) (ROEResp sid d err m)"
  "resp_post (resp_keeps m) (XferDataResp sid d err m)" "resp_post (resp_keeps m) (ReqXferExitResp sid err m)"
  by (auto simp: ReadDIDResp_def WriteDIDResp_def RoutineCtrlResp_def IOCBIDResp_def ReadDTCInfoResp_def ClearDiagInfoResp_def
      CtrlDTCSettingResp_def ROEResp_def XferDataResp_def ReqXferExitResp_def Let_def intro!: keeps_put)

lemma keeps_security: "resp_post (resp_keeps m) (SecurityAccessResp c sid d err m)"
  unfolding SecurityAccessResp_def
  by (auto intro!: keeps_put keeps_SetNRC intro: keeps_timed [OF _ resp_keeps_refl] split: if_splits)

lemma keeps_put_bind:
  "resp_keeps m m' \<Longrightarrow> (\<And>m1. resp_keeps m m1 \<Longrightarrow> resp_post (resp_keeps m) (f m1)) \<Longrightarrow>
   resp_post (resp_keeps m) (mbind (put_response bs m') (\<lambda>(r, m1). f m1))"
  using keeps_put [of m m' bs] by (auto simp: resp_post_def)

lemma keeps_transfer:
  "resp_post (resp_keeps m) (ReqDwnldResp sid d err m)" "resp_post (resp_keeps m) (ReqFileXferResp sid d err m)"
proof -
  show "resp_post (resp_keeps m) (ReqDwnldResp sid d err m)"
    unfolding ReqDwnldResp_def by (auto intro!: keeps_put_bind simp del: resp_post_simps(5))
  have u: "resp_post (resp_keeps m) (mbind (r :: byte uds) f)" if "\<And>x. resp_post (resp_keeps m) (f x)" for r f
    using that by simp
  show "resp_post (resp_keeps m) (ReqFileXferResp sid d err m)"
    unfolding ReqFileXferResp_def Let_def
    by (auto intro!: keeps_put keeps_put_bind u simp del: resp_post_simps(5))
qed

lemma keeps_failed:
  assumes "resp_keeps m m'"
  shows "resp_keeps m (auth_failed sid m')"
proof -
  have a: "auth_ok (m1\<lparr>authAttCnt := 10\<rparr>) = (60 \<le> unat (authDelayTime m1) \<and> unat (authDelayTime m1) \<le> 960)" for m1
    by (simp add: auth_ok_def)
  have s: "unat (authAttCnt m' + 1) \<le> 10" if "\<not> 10 \<le> authAttCnt m' + 1" 
    using that by (simp add: word_le_nat_alt)
  show ?thesis
    using assms a s unfolding auth_failed_def Let_def
    by (auto simp: resp_keeps_def StoreAttCntToTree_def uemit_def UdsTimerEventReport_def SetNRC_def auth_ok_def bufs_ok_def)
qed

lemma keeps_auth: "resp_post (resp_keeps m) (AuthenticationResp c sid d err m)"
proof -
  have p: "resp_keeps m (StoreDelayTimeToTree (StoreAttCntToTree
      ((UdsTimerEventReport e n (m\<lparr>authPreSucReq := x, authState := y\<rparr>))\<lparr>authAttCnt := 0, authDelayTime := 60\<rparr>)))" for e n x y
    by (simp add: resp_keeps_def StoreAttCntToTree_def StoreDelayTimeToTree_def uemit_def UdsTimerEventReport_def auth_ok_def bufs_ok_def)
  show ?thesis
    unfolding AuthenticationResp_def Let_def
    by (auto intro!: keeps_put keeps_failed p split: if_splits)
qed

lemma keeps_response: "resp_post (resp_keeps m) (response_for c sid err d m)"
  unfolding response_for_def
  by (simp add: keeps_session keeps_data keeps_security keeps_transfer keeps_auth)

lemma S3_done:
  assumes "uds_inv m"
  shows "uds_inv (CheckAndRestartS3Timer c sid True m)" "readyToRecvData (CheckAndRestartS3Timer c sid True m)"
  using uds_inv_done [of "UdsTimerEventReport P2STAR_TIMER_STOP 0 m"] assms
  by (auto simp: CheckAndRestartS3Timer_def Let_def UdsTimerEventReport_def [of _ _ "request_done _"] split: option.split)

lemma inv_response:
  assumes "SendUDSResp c sid err d m = Inr (r, m')" "uds_inv m"
  shows "uds_inv m'"
proof -
  have k: "uds_inv m1" if "response_for c s err d (m\<lparr>nrcCode := err\<rparr>) = Inr (x, m1)" for s x m1
    using keeps_response [of "m\<lparr>nrcCode := err\<rparr>" c s err d] that assms(2) resp_keeps_inv
    by (auto simp: resp_post_def)
  show ?thesis
    using assms unfolding SendUDSResp_def Let_def
    by (auto simp: resp_error_def split: if_splits dest!: k intro!: S3_done uds_inv_quiet [OF quiet_Idps])
qed

section \<open>Every step\<close>

lemma inv_data: "uds_inv m \<Longrightarrow> uds_inv (snd (SetUDSData t bs m))"
  by (simp add: SetUDSData_def addCancelFileXferReqInList_def)

lemma inv_indication: "uds_inv m \<Longrightarrow> uds_inv (uds_ind_step m)"
  by (auto simp: uds_ind_step_def IndMsgHandler_def deliver_def split: list.split uds_ind.split)

lemma inv_timer_event: "uds_inv m \<Longrightarrow> uds_inv (uds_timer_step c n m)"
  by (auto simp: uds_timer_step_def split: list.split)

lemma inv_p2:
  assumes "uds_inv m"
  shows "uds_inv (P2StarTimeoutHandler c m)" "uds_inv (P2StarSendNrcInMainThread c x m)" "uds_inv (uds_p2_step c m)"
proof -
  show "uds_inv (P2StarTimeoutHandler c m)" using assms by (auto simp: P2StarTimeoutHandler_def Let_def split: option.split)
  have s: "uds_inv (P2StarSendNrcInMainThread c x m)" if "uds_inv m" for x m
  proof -
    obtain sid code a where x: "x = (sid, code, a)" by (cases x)
    let ?m = "SendNRC c sid code a m"
    have i: "uds_inv ?m" using that uds_inv_quiet [OF quiet_SendNRC] by blast
    then have "uds_inv (request_done (?m\<lparr>recvBuf := replicate UDS_MAX_DATA_SIZE 0, recvDataLen := 0, sendDataLen := 0\<rparr>))"
      by (simp add: request_done_def CheckAndSendCancelFileXferEvent_def ind_report_def uds_inv_def bufs_ok_def auth_ok_def)
    then show ?thesis using i by (cases "code = 0x78") (simp_all add: P2StarSendNrcInMainThread_def x Let_def)
  qed
  show "uds_inv (P2StarSendNrcInMainThread c x m)" "uds_inv (uds_p2_step c m)"
    using assms s by (auto simp: uds_p2_step_def split: list.split)
qed

lemma inv_timeouts:
  assumes "uds_inv m"
  shows "uds_inv (S3TimeoutHandler m)" "uds_inv (AuthTimeoutHandler m)" "uds_inv (AuthDelayTimeoutHandler m)"
proof -
  show "uds_inv (S3TimeoutHandler m)" "uds_inv (AuthTimeoutHandler m)" using assms
    by (simp_all add: S3TimeoutHandler_def AuthTimeoutHandler_def Let_def)
  have "unat (2 * authDelayTime m) = 2 * unat (authDelayTime m)" using assms
    by (simp add: uds_inv_def auth_ok_def unat_mult_lem [THEN iffD1])
  then show "uds_inv (AuthDelayTimeoutHandler m)" using assms
    by (auto simp: AuthDelayTimeoutHandler_def Let_def StoreDelayTimeToTree_def StoreAttCntToTree_def uemit_def uds_inv_def
        auth_ok_def bufs_ok_def pending_ok_def file_request_ok_def word_less_nat_alt)
qed

lemma uds_step_inv: "uds_step c d m m' \<Longrightarrow> uds_inv m \<Longrightarrow> uds_inv m'"
proof (induction rule: uds_step.induct)
  case (response m a sid err dat r m')
  then show ?case using inv_response [of c sid err _ "m\<lparr>udsRespAddrInfo := a\<rparr>" r m'] by (simp add: taf_uds_SendDiagResp_def)
next
  case (sec_timeout m es m')
  then show ?case using uds_inv_calm [OF calm_sec_dispatch [OF sec_timeout(2)]] by simp
next
  case (sec_delay m es m')
  then show ?case using uds_inv_calm [OF calm_sec_dispatch [OF sec_delay(2)]] by simp
qed (simp_all add: inv_doip inv_data inv_indication inv_timer_event inv_p2 inv_timeouts)

lemma uds_inv_start:
  assumes "length rb = UDS_MAX_DATA_SIZE" "length sb = UDS_MAX_DATA_SIZE" "saved_ok saved"
  shows "uds_inv (InitAuthData saved (uds_mgr_ctor rb sb tb a v sa))"
proof -
  let ?m = "uds_mgr_ctor rb sb tb a v sa"
  have "uds_inv ?m" using assms by (simp add: uds_mgr_ctor_def uds_inv_def bufs_ok_def auth_ok_def)
  moreover have "uds_inv (?m\<lparr>authAttCnt := word_of_int n, authDelayTime := word_of_int k\<rparr>)"
    if "0 \<le> n" "n \<le> 10" "60 \<le> k" "k \<le> 960" for n k
    using assms that by (simp add: uds_mgr_ctor_def uds_inv_def bufs_ok_def auth_ok_def unat_eq_nat_uint uint_word_of_int nat_le_iff le_nat_iff)
  ultimately show ?thesis using assms(3)
    by (auto simp: InitAuthData_def Let_def saved_ok_def split: option.splits)
qed

lemma uds_reachable_inv: "uds_runs c d m \<Longrightarrow> uds_inv m"
  by (induction rule: uds_runs.induct) (simp_all add: uds_inv_start uds_step_inv)

end
