(* ===== verification/Uds_SecSafe.thy ===== *)
theory Uds_SecSafe
  imports Uds_SecSystem
begin

text \<open>
  Every dispatch from a state of the invariant ends in one, or is the one request that crashes.
\<close>

declare split_paired_All [simp del] split_paired_Ex [simp del]

lemma emit_current [simp]: "(sa_emit e a)\<lparr>current_session := c\<rparr> = sa_emit e (a\<lparr>current_session := c\<rparr>)"
  by (simp add: sa_emit_def)

section \<open>The object part under the elementary changes\<close>

definition core :: "AO_SecurityAccess \<Rightarrow> byte \<Rightarrow> bool" where
  "core a sid \<longleftrightarrow> ao_ok a \<and> delay_ok a sid \<and> states_ok a sid"

lemma sa_config_ok_cong [simp]:
  "sa_config_ok (sa_emit e a) = sa_config_ok a" "sa_config_ok (a\<lparr>ao_state := s\<rparr>) = sa_config_ok a"
  "sa_config_ok (a\<lparr>current_session := c\<rparr>) = sa_config_ok a" "sa_config_ok (a\<lparr>last_pending_session_id := p\<rparr>) = sa_config_ok a"
  "sa_config_ok (a\<lparr>last_pending_signal := g\<rparr>) = sa_config_ok a" "sa_config_ok (a\<lparr>delay_timer := t\<rparr>) = sa_config_ok a"
  "sa_config_ok (mod_sess i (\<lambda>s. s\<lparr>active_level := h s\<rparr>) a) = sa_config_ok a"
  "sa_config_ok (mod_sess i (\<lambda>s. s\<lparr>unlocked_level := h s\<rparr>) a) = sa_config_ok a"
  "sa_config_ok (mod_sess i (\<lambda>s. s\<lparr>unlocked_level := h s, active_level := k s\<rparr>) a) = sa_config_ok a"
  by (simp_all add: sa_config_ok_def)

lemma no_limit_cong [simp]:
  "no_limit (sa_emit e a) = no_limit a" "no_limit (a\<lparr>ao_state := s\<rparr>) = no_limit a"
  "no_limit (a\<lparr>current_session := c\<rparr>) = no_limit a" "no_limit (a\<lparr>last_pending_session_id := p\<rparr>) = no_limit a"
  "no_limit (a\<lparr>last_pending_signal := g\<rparr>) = no_limit a" "no_limit (a\<lparr>delay_timer := t\<rparr>) = no_limit a"
  "no_limit (mod_sess i (\<lambda>s. s\<lparr>active_level := h s\<rparr>) a) = no_limit a"
  "no_limit (mod_sess i (\<lambda>s. s\<lparr>unlocked_level := h s\<rparr>) a) = no_limit a"
  "no_limit (mod_sess i (\<lambda>s. s\<lparr>unlocked_level := h s, active_level := k s\<rparr>) a) = no_limit a"
  by (simp_all add: no_limit_def)

lemma cur_cong [simp]:
  "cur_active (sa_emit e a) = cur_active a" "cur_active (a\<lparr>ao_state := s\<rparr>) = cur_active a"
  "cur_active (a\<lparr>last_pending_session_id := p\<rparr>) = cur_active a"
  "cur_active (a\<lparr>last_pending_signal := g\<rparr>) = cur_active a" "cur_active (a\<lparr>delay_timer := t\<rparr>) = cur_active a"
  "cur_active (set_Att_Cnt r n a) = cur_active a"
  "cur_active (mod_sess i (\<lambda>s. s\<lparr>unlocked_level := h s\<rparr>) a) = cur_active a"
  "cur_unlocked (sa_emit e a) = cur_unlocked a" "cur_unlocked (a\<lparr>ao_state := s\<rparr>) = cur_unlocked a"
  "cur_unlocked (a\<lparr>last_pending_session_id := p\<rparr>) = cur_unlocked a"
  "cur_unlocked (a\<lparr>last_pending_signal := g\<rparr>) = cur_unlocked a" "cur_unlocked (a\<lparr>delay_timer := t\<rparr>) = cur_unlocked a"
  "cur_unlocked (set_Att_Cnt r n a) = cur_unlocked a"
  "cur_unlocked (mod_sess i (\<lambda>s. s\<lparr>active_level := h s\<rparr>) a) = cur_unlocked a"
  by (simp_all add: cur_active_def cur_unlocked_def split: option.splits)

lemma in_sync_cong [simp]:
  "in_sync (sa_emit e a) = in_sync a" "in_sync (a\<lparr>ao_state := s\<rparr>) = in_sync a"
  "in_sync (a\<lparr>last_pending_session_id := p\<rparr>) = in_sync a"
  "in_sync (a\<lparr>last_pending_signal := g\<rparr>) = in_sync a" "in_sync (a\<lparr>delay_timer := t\<rparr>) = in_sync a"
  "in_sync (set_Att_Cnt r n a) = in_sync a"
  "in_sync (mod_sess i (\<lambda>s. s\<lparr>active_level := h s\<rparr>) a) = in_sync a"
  "in_sync (mod_sess i (\<lambda>s. s\<lparr>unlocked_level := h s\<rparr>) a) = in_sync a"
  "in_sync (mod_sess i (\<lambda>s. s\<lparr>unlocked_level := h s, active_level := k s\<rparr>) a) = in_sync a"
  by (simp_all add: in_sync_def fun_eq_iff)

lemma cur_unlocked_respond [simp]:
  "cur_unlocked (TryToPostSemaphore rp a) = cur_unlocked a"
  by (simp add: TryToPostSemaphore_def)

lemma ao_ok_current:
  assumes "ao_ok a"
  obtains i where "current_session a = Some i" "i < length (session_list a)"
  using assms by (auto simp: ao_ok_def)

lemma ao_ok_active: "ao_ok a \<Longrightarrow> cur_active a = Some r \<Longrightarrow> valid_ref a r \<and> current_session a = Some (fst r)"
  by (auto simp: ao_ok_def cur_active_def level_refs_def)

lemma all_locked: "ao_ok a \<Longrightarrow> cur_unlocked a = None \<Longrightarrow> i < length (session_list a) \<Longrightarrow> unlocked_level (sess a i) = None"
  by (auto simp: ao_ok_def cur_unlocked_def others_locked_def)

lemma refs_locked_cong [simp]:
  "level_refs (sa_emit e a) = level_refs a" "level_refs (a\<lparr>ao_state := s\<rparr>) = level_refs a"
  "level_refs (a\<lparr>current_session := c\<rparr>) = level_refs a" "level_refs (a\<lparr>last_pending_session_id := p\<rparr>) = level_refs a"
  "level_refs (a\<lparr>last_pending_signal := g\<rparr>) = level_refs a" "level_refs (a\<lparr>delay_timer := t\<rparr>) = level_refs a"
  "level_refs (set_Att_Cnt r n a) = level_refs a"
  "others_locked (sa_emit e a) = others_locked a" "others_locked (a\<lparr>ao_state := s\<rparr>) = others_locked a"
  "others_locked (a\<lparr>last_pending_session_id := p\<rparr>) = others_locked a"
  "others_locked (a\<lparr>last_pending_signal := g\<rparr>) = others_locked a" "others_locked (a\<lparr>delay_timer := t\<rparr>) = others_locked a"
  "others_locked (set_Att_Cnt r n a) = others_locked a"
  "others_locked (mod_sess i (\<lambda>s. s\<lparr>active_level := h s\<rparr>) a) = others_locked a"
  by (auto simp: level_refs_def others_locked_def length_sessions_shape)

lemma ao_ok_cong [simp]:
  "ao_ok (sa_emit e a) = ao_ok a" "ao_ok (a\<lparr>ao_state := s\<rparr>) = ao_ok a"
  "ao_ok (a\<lparr>last_pending_session_id := p\<rparr>) = ao_ok a"
  "ao_ok (a\<lparr>last_pending_signal := g\<rparr>) = ao_ok a" "ao_ok (a\<lparr>delay_timer := t\<rparr>) = ao_ok a"
  by (simp_all add: ao_ok_def)

lemma ao_ok_switch:
  assumes "ao_ok a" "cur_unlocked a = None" "i < length (session_list a)"
  shows "ao_ok (a\<lparr>current_session := Some i\<rparr>)"
proof -
  have "others_locked (a\<lparr>current_session := Some i\<rparr>)"
    using all_locked [OF assms(1,2)] by (simp add: others_locked_def)
  then show ?thesis using assms by (simp add: ao_ok_def)
qed

lemma ao_ok_activate:
  assumes "ao_ok a" "\<forall>r. x = Some r \<longrightarrow> valid_ref a r \<and> fst r = i"
  shows "ao_ok (mod_sess i (\<lambda>s. s\<lparr>active_level := x\<rparr>) a)"
proof -
  have "level_refs (mod_sess i (\<lambda>s. s\<lparr>active_level := x\<rparr>) a)"
    using assms by (auto simp: ao_ok_def level_refs_def)
  then show ?thesis using assms by (simp add: ao_ok_def)
qed

lemma level_refs_unlock:
  assumes "level_refs a"
  shows "level_refs (mod_sess i (\<lambda>s. s\<lparr>unlocked_level := active_level s, active_level := None\<rparr>) a)"
    "level_refs (mod_sess i (\<lambda>s. s\<lparr>unlocked_level := active_level s\<rparr>) a)"
    "level_refs (mod_sess i (\<lambda>s. s\<lparr>unlocked_level := None\<rparr>) a)"
  using assms by (auto simp: level_refs_def)

lemma others_locked_unlock:
  assumes "others_locked a" "current_session a = Some i"
  shows "others_locked (mod_sess i (\<lambda>s. s\<lparr>unlocked_level := h s\<rparr>) a)"
    "others_locked (mod_sess i (\<lambda>s. s\<lparr>unlocked_level := h s, active_level := k s\<rparr>) a)"
  using assms by (simp_all add: others_locked_def)

lemma ao_ok_unlock:
  assumes "ao_ok a" "current_session a = Some i"
  shows "ao_ok (mod_sess i (\<lambda>s. s\<lparr>unlocked_level := active_level s, active_level := None\<rparr>) a)"
    "ao_ok (mod_sess i (\<lambda>s. s\<lparr>unlocked_level := active_level s\<rparr>) a)"
    "ao_ok (mod_sess i (\<lambda>s. s\<lparr>unlocked_level := None\<rparr>) a)"
  using assms by (simp_all add: ao_ok_def level_refs_unlock others_locked_unlock)

lemma core_emit [simp]: "core (sa_emit e a) = core a" "core (sa_emit e a\<lparr>ao_state := s\<rparr>) = core (a\<lparr>ao_state := s\<rparr>)"
  by (simp_all add: core_def delay_ok_def states_ok_def fun_eq_iff)

lemma core_respond [simp]:
  "core (TryToPostSemaphore rp a) = core a" "core (ResponseNRC rp n a) = core a" "core (SetResponseNRC rp n a) = core a"
  "core ((TryToPostSemaphore rp a)\<lparr>ao_state := s\<rparr>) = core (a\<lparr>ao_state := s\<rparr>)"
  "core ((ResponseNRC rp n a)\<lparr>ao_state := s\<rparr>) = core (a\<lparr>ao_state := s\<rparr>)"
  "core ((SetResponseNRC rp n a)\<lparr>ao_state := s\<rparr>) = core (a\<lparr>ao_state := s\<rparr>)"
  by (simp_all add: TryToPostSemaphore_def ResponseNRC_def SetResponseNRC_def)

lemma level_at_count [simp]:
  "Att_Cnt_Limit (level_at (set_Att_Cnt r n a) q) = Att_Cnt_Limit (level_at a q)"
  "seed_size (level_at (set_Att_Cnt r n a) q) = seed_size (level_at a q)"
  by (simp_all add: level_at_set_Att_Cnt)

lemma ao_ok_count:
  assumes "ao_ok a" "n \<le> Att_Cnt_Limit (level_at a r)" "n = Att_Cnt_Limit (level_at a r) \<Longrightarrow> no_limit a"
  shows "ao_ok (set_Att_Cnt r n a)"
proof -
  have l: "length (session_list (set_Att_Cnt r n a)) = length (session_list a)" by (simp add: set_Att_Cnt_def)
  have c: "sa_config_ok a" using assms(1) by (simp add: ao_ok_def)
  have eq: "q = q'" if "at_limit (set_Att_Cnt r n a) q" "at_limit (set_Att_Cnt r n a) q'" for q q'
  proof (cases "n = Att_Cnt_Limit (level_at a r)")
    case True
    with that assms(3) show ?thesis by (simp add: at_limit_set no_limit_def split: if_splits)
  next
    case False
    with that have "at_limit a q" "at_limit a q'" by (simp_all add: at_limit_set split: if_splits)
    with c show ?thesis unfolding sa_config_ok_def by blast
  qed
  have "Att_Cnt (level_at (set_Att_Cnt r n a) q) \<le> Att_Cnt_Limit (level_at a q)" if "valid_ref a q" for q
    using c assms(2) that by (simp add: sa_config_ok_def level_at_set_Att_Cnt)
  with c eq have "sa_config_ok (set_Att_Cnt r n a)"
    by (simp add: sa_config_ok_def)
  then show ?thesis using assms(1) l by (auto simp: ao_ok_def)
qed

section \<open>Outcomes\<close>

definition ends_in :: "('b \<Rightarrow> bool) \<Rightarrow> ('x \<times> 'b) sa \<Rightarrow> bool" where
  "ends_in Q m \<longleftrightarrow> (\<exists>x b. m = Inr (x, b) \<and> Q b)"

lemma ends_in_simps [simp]:
  "ends_in Q (M_Handled b) = Q b" "ends_in Q (M_Translate s b) = Q (b\<lparr>ao_state := s\<rparr>)"
  "ends_in Q (Inr (x, b)) = Q b" "\<not> ends_in Q (Inl e)"
  by (simp_all add: ends_in_def M_Handled_def M_Translate_def)

lemma DEFAULT_found: "ao_ok a \<Longrightarrow> find_session a SEC_ACC_DEFAULT_SESSION_ID \<noteq> None"
  by (simp add: ao_ok_def)

lemma core_ao: "core a sid \<Longrightarrow> ao_ok a"
  by (simp add: core_def)

lemma core_current:
  assumes "core a sid"
  obtains i where "current_session a = Some i" "i < length (session_list a)"
  using ao_ok_current [OF core_ao [OF assms]] by blast

lemma core_back:
  "core a sid \<Longrightarrow> ao_state a = State_LockedWaitingForKey \<Longrightarrow> core (a\<lparr>ao_state := State_LockedNoActiveSeed\<rparr>) sid"
  "core a sid \<Longrightarrow> ao_state a = State_UnlockedWaitingForKey \<Longrightarrow> core (a\<lparr>ao_state := State_UnlockedNoActiveSeed\<rparr>) sid"
  by (auto simp: core_def delay_ok_def states_ok_def)

lemma waiting_for_key:
  assumes "core a sid" "ao_state a \<in> {State_LockedWaitingForKey, State_UnlockedWaitingForKey}"
  shows "\<not> delay_timer a" "no_limit a" "last_pending_signal a = INVALID_SIG" "in_sync a sid" "cur_active a \<noteq> None"
proof -
  have d: "delay_ok a sid" and t: "states_ok a sid" using assms(1) by (simp_all add: core_def)
  show nt: "\<not> delay_timer a" using d assms(2) by (cases "ao_state a") (simp_all add: delay_ok_def)
  then show "no_limit a" using d assms(2) by (cases "ao_state a") (simp_all add: delay_ok_def)
  show "last_pending_signal a = INVALID_SIG" using d nt by (simp add: delay_ok_def)
  show "in_sync a sid" "cur_active a \<noteq> None" using t assms(2) by (cases "ao_state a"; simp add: states_ok_def)+
qed

lemma core_session:
  assumes "core a sid" "sid \<noteq> DEFAULT_SESSION"
  shows "find_session a sid \<noteq> None"
  using assms core_current [OF assms(1)]
  by (cases "last_pending_signal a = INVALID_SIG") (auto simp: core_def delay_ok_def states_ok_def in_sync_def)

text \<open>The check of the delay timer; at boot it starts the timer of a level at its limit.\<close>

lemma core_delay:
  assumes c: "core a sid" and d: "DelayTimerIsNotExpired a = (d, b)"
  shows "core b sid \<and> (if d then delay_timer b \<and> ao_state b = ao_state a else b = a \<and> \<not> delay_timer a \<and> no_limit a)"
proof (cases "delay_timer a")
  case True
  then show ?thesis using c d by (simp add: DelayTimerIsNotExpired_def)
next
  case False
  show ?thesis
  proof (cases "limit_ref 0 (session_list a)")
    case None
    then have "no_limit a" using limit_ref_None [of a] by (simp add: no_limit_def)
    with None show ?thesis using c d False by (simp add: DelayTimerIsNotExpired_def)
  next
    case (Some r)
    note lim = limit_ref_Some [OF Some]
    have b: "b = mod_sess (fst r) (\<lambda>s. s\<lparr>active_level := Some r\<rparr>)
        (sa_emit (SaTimerStart (of_nat (unat (Delay_Timer (level_at a r)) * 1000))) (a\<lparr>delay_timer := True\<rparr>)\<lparr>current_session := Some (fst r)\<rparr>)"
      and dT: "d" using d False Some by (auto simp: DelayTimerIsNotExpired_def Let_def)
    have st: "ao_state a = State_LockedNoActiveSeed" "sid = DEFAULT_SESSION" "last_pending_signal a = INVALID_SIG"
    proof -
      have "\<not> no_limit a" using lim unfolding no_limit_def by blast
      then show "ao_state a = State_LockedNoActiveSeed" "sid = DEFAULT_SESSION" "last_pending_signal a = INVALID_SIG"
        using c False by (simp_all add: core_def delay_ok_def)
    qed
    then have ul: "cur_unlocked a = None" using c by (simp add: core_def states_ok_def)
    have v: "valid_ref a r" "fst r < length (session_list a)" using lim by (auto simp: at_limit_def valid_ref_def)
    have "ao_ok (a\<lparr>current_session := Some (fst r)\<rparr>)" by (rule ao_ok_switch [OF core_ao [OF c] ul v(2)])
    then have "ao_ok (a\<lparr>delay_timer := True\<rparr>\<lparr>current_session := Some (fst r)\<rparr>)"
      using ao_ok_cong(5) [of True "a\<lparr>current_session := Some (fst r)\<rparr>"] by (cases a) simp
    then have "ao_ok b" unfolding b using v by (intro ao_ok_activate) simp_all
    moreover have "cur_active b = Some r" "cur_unlocked b = None" "at_limit b r" "delay_timer b" "ao_state b = ao_state a"
      "last_pending_signal b = INVALID_SIG"
      using v lim st all_locked [OF core_ao [OF c] ul] by (simp_all add: b cur_active_def cur_unlocked_def)
    ultimately show ?thesis using st dT by (simp add: core_def delay_ok_def states_ok_def no_limit_def)
  qed
qed

text \<open>A session change while the timer runs is only noted, and nothing stays unlocked.\<close>

lemma core_mark:
  assumes "core a sid" "delay_timer a" "g \<noteq> INVALID_SIG" "p = DEFAULT_SESSION \<or> find_session a p \<noteq> None"
    "sid' = DEFAULT_SESSION \<or> p = sid'"
    and b: "ao_ok b" "ao_state b = ao_state a" "cur_active b = cur_active a" "at_limit b = at_limit a" "delay_timer b"
      "find_session b = find_session a" "last_pending_signal b = g" "last_pending_session_id b = p" "cur_unlocked b = None"
  shows "core b sid'"
proof -
  have "delay_ok a sid" "states_ok a sid" using assms(1) by (simp_all add: core_def)
  then show ?thesis using assms(2-14)
    by (cases "ao_state a"; cases "sid' = DEFAULT_SESSION") (simp_all add: core_def delay_ok_def states_ok_def)
qed

text \<open>The session change: everything locked, nothing active.\<close>

definition left_for :: "nat \<Rightarrow> nat \<Rightarrow> AO_SecurityAccess \<Rightarrow> AO_SecurityAccess" where
  "left_for i k a = mod_sess i (\<lambda>s. s\<lparr>unlocked_level := None\<rparr>) (mod_sess i (\<lambda>s. s\<lparr>active_level := None\<rparr>) a)
     \<lparr>current_session := Some k\<rparr>"

lemma left_for_pending: "(left_for i k a)\<lparr>last_pending_signal := g, last_pending_session_id := p\<rparr>
     = left_for i k (a\<lparr>last_pending_signal := g, last_pending_session_id := p\<rparr>)"
  by (cases a) (simp add: left_for_def mod_sess_def)

lemma core_left:
  assumes "ao_ok a" "current_session a = Some i" "\<not> delay_timer a" "no_limit a" "last_pending_signal a = INVALID_SIG"
    "k < length (session_list a)" "sid \<noteq> DEFAULT_SESSION \<longrightarrow> find_session a sid = Some k"
  shows "core ((left_for i k a)\<lparr>ao_state := State_LockedNoActiveSeed\<rparr>) sid"
proof -
  let ?b = "mod_sess i (\<lambda>s. s\<lparr>unlocked_level := None\<rparr>) (mod_sess i (\<lambda>s. s\<lparr>active_level := None\<rparr>) a)"
  have i: "i < length (session_list a)" using assms(1,2) by (auto simp: ao_ok_def)
  have "ao_ok ?b" using assms by (intro ao_ok_unlock(3) ao_ok_activate) simp_all
  moreover have u: "cur_unlocked ?b = None" using assms i by (simp add: cur_unlocked_def)
  ultimately have ok: "ao_ok (?b\<lparr>current_session := Some k\<rparr>)" using assms(6) by (intro ao_ok_switch) simp_all
  have "cur_unlocked (?b\<lparr>current_session := Some k\<rparr>) = None"
    using all_locked [OF \<open>ao_ok ?b\<close> u, of k] assms(6) by (simp add: cur_unlocked_def)
  then show ?thesis using ok assms(3-5,7)
    by (simp add: left_for_def core_def delay_ok_def states_ok_def in_sync_def)
qed


lemma the_current_Some [simp]: "current_session a = Some i \<Longrightarrow> the_current a = Inr i"
  by (simp add: the_current_def)

lemma the_active_eq: "cur_active a = Some r \<Longrightarrow> the_active a = Inr r"
  by (auto simp: the_active_def the_current_def cur_active_def split: option.splits)

lemma SaveAttCnt_eq:
  "cur_active a = Some r \<Longrightarrow> \<exists>e. SaveAttCntToTree a = Inr (sa_emit e a) \<and> e \<noteq> SaToApp"
  using the_active_eq [of a r]
  by (auto simp: SaveAttCntToTree_def the_current_def cur_active_def split: option.splits)

text \<open>The counter of the level that alone is at its limit is cleared.\<close>

lemma no_limit_cleared:
  assumes "ao_ok a" "valid_ref a r" "at_limit a r \<or> no_limit a"
  shows "no_limit (set_Att_Cnt r 0 a)" "ao_ok (set_Att_Cnt r 0 a)"
proof -
  have l: "Att_Cnt_Limit (level_at a r) \<noteq> 0" using assms(1,2) by (simp add: ao_ok_def sa_config_ok_def)
  have u: "at_limit a q \<Longrightarrow> q = r" for q
    using assms(1,3) unfolding ao_ok_def sa_config_ok_def no_limit_def by blast
  show "no_limit (set_Att_Cnt r 0 a)" unfolding no_limit_def at_limit_set using l u by auto
  show "ao_ok (set_Att_Cnt r 0 a)" using assms(1) l by (intro ao_ok_count) auto
qed

lemma DeactivateAndLock_eq:
  "current_session a = Some i \<Longrightarrow> DeactivateAndLock a =
     Inr (mod_sess i (\<lambda>s. s\<lparr>unlocked_level := None\<rparr>) (mod_sess i (\<lambda>s. s\<lparr>active_level := None\<rparr>) a))"
  by (simp add: DeactivateAndLock_def LockCurrentSession_def)

lemma core_expired:
  assumes c: "core a sid" and t: "delay_timer a"
  shows "ends_in (\<lambda>b. core b sid \<and> \<not> delay_timer b)
     (mbind (delay_expired (a\<lparr>delay_timer := False\<rparr>)) (\<lambda>(sw, b).
        if sw then M_Translate State_LockedNoActiveSeed b else M_Handled b))"
    "ao_state a = State_LockedNoActiveSeed \<Longrightarrow> ends_in (\<lambda>b. core b sid \<and> \<not> delay_timer b)
     (mbind (delay_expired (a\<lparr>delay_timer := False\<rparr>)) (\<lambda>(sw, b). M_Handled b))"
proof -
  have dl: "delay_ok a sid" and st: "states_ok a sid" using c by (simp_all add: core_def)
  obtain r where r: "cur_active a = Some r" "at_limit a r" and nw: "ao_state a \<in> {State_LockedNoActiveSeed, State_UnlockedNoActiveSeed}"
    using dl t unfolding delay_ok_def by blast
  have v: "valid_ref a r" using r by (simp add: at_limit_def)
  define a0 where "a0 = a\<lparr>delay_timer := False\<rparr>"
  have a0: "cur_active a0 = Some r" "the_active a0 = Inr r" using r the_active_eq [of a0 r] by (simp_all add: a0_def)
  define a1 where "a1 = set_Att_Cnt r 0 a0"
  obtain e where e: "SaveAttCntToTree a1 = Inr (sa_emit e a1)"
    using SaveAttCnt_eq [of a1 r] a0 by (auto simp: a1_def)
  have ok: "no_limit a1" "ao_ok a1" using no_limit_cleared [of a0 r] c v r(2) by (simp_all add: a0_def a1_def core_def)
  have sel: "ao_state a1 = ao_state a" "\<not> delay_timer a1" "last_pending_signal a1 = last_pending_signal a"
      "last_pending_session_id a1 = last_pending_session_id a" "cur_active a1 = cur_active a" "cur_unlocked a1 = cur_unlocked a"
      "in_sync a1 = in_sync a" "find_session a1 = find_session a" "default_session a1 = default_session a"
    by (simp_all add: a1_def a0_def)
  have "(\<exists>b. delay_expired a0 = Inr (True, b) \<and> core (b\<lparr>ao_state := State_LockedNoActiveSeed\<rparr>) sid \<and> \<not> delay_timer b
           \<and> (ao_state a = State_LockedNoActiveSeed \<longrightarrow> core b sid))
      \<or> (\<exists>b. delay_expired a0 = Inr (False, b) \<and> core b sid \<and> \<not> delay_timer b)"
  proof (cases "last_pending_signal a = INVALID_SIG")
    case True
    have "core (sa_emit e a1) sid"
      using ok sel True nw st by (cases "ao_state a") (simp_all add: core_def delay_ok_def states_ok_def)
    moreover have "delay_expired a0 = Inr (False, sa_emit e a1)"
      using a0 e True sel by (simp add: delay_expired_def a1_def [symmetric])
    ultimately show ?thesis using sel by simp
  next
    case False
    obtain i where i: "current_session a1 = Some i" "i < length (session_list a1)" using ao_ok_current [OF ok(2)] by blast
    define p where "p = last_pending_session_id a"
    have p: "p = DEFAULT_SESSION \<or> find_session a p \<noteq> None" "sid = DEFAULT_SESSION \<or> p = sid"
      using dl False by (simp_all add: delay_ok_def p_def)
    define k where "k = (if p = DEFAULT_SESSION then default_session a1 else the (find_session a1 p))"
    have k: "k < length (session_list a1)" "sid \<noteq> DEFAULT_SESSION \<longrightarrow> find_session a1 sid = Some k"
      using p ok(2) sel find_session_Some [of a1 p] by (auto simp: k_def ao_ok_def)
    define b where "b = (left_for i k (sa_emit e a1))\<lparr>last_pending_signal := INVALID_SIG,
       last_pending_session_id := SEC_ACC_DEFAULT_SESSION_ID\<rparr>"
    have "delay_expired a0 = Inr (True, b)"
      using a0 e False sel i p by (auto simp: delay_expired_def a1_def [symmetric] DeactivateAndLock_eq
          SwitchSessionAfterDelayTimerTimeout_def b_def left_for_def k_def p_def)
    moreover have "core (b\<lparr>ao_state := State_LockedNoActiveSeed\<rparr>) sid"
      using core_left [of "sa_emit e a1\<lparr>last_pending_signal := INVALID_SIG, last_pending_session_id := SEC_ACC_DEFAULT_SESSION_ID\<rparr>" i k sid]
        ok i k sel by (simp add: b_def left_for_pending)
    moreover have "\<not> delay_timer b" "ao_state b = ao_state a" using sel by (simp_all add: b_def left_for_def)
    ultimately show ?thesis by (intro disjI1 exI [of _ b]) (metis AO_SecurityAccess.surjective AO_SecurityAccess.update_convs(1))
  qed
  then show "ends_in (\<lambda>b. core b sid \<and> \<not> delay_timer b)
     (mbind (delay_expired (a\<lparr>delay_timer := False\<rparr>)) (\<lambda>(sw, b).
        if sw then M_Translate State_LockedNoActiveSeed b else M_Handled b))"
    "ao_state a = State_LockedNoActiveSeed \<Longrightarrow> ends_in (\<lambda>b. core b sid \<and> \<not> delay_timer b)
     (mbind (delay_expired (a\<lparr>delay_timer := False\<rparr>)) (\<lambda>(sw, b). M_Handled b))"
    unfolding a0_def by auto
qed

end
