(* ===== verification/Uds_SecLive.thy ===== *)
theory Uds_SecLive
  imports Uds_SecSafe
begin

text \<open>
  The dispatch of every signal in a state of the invariant, the reachable states, and the properties
  of the security access service that follow.
\<close>

declare split_paired_All [simp del] split_paired_Ex [simp del]

section \<open>Activation\<close>

lemma current_self: "current_session a = Some i \<Longrightarrow> a\<lparr>current_session := Some i\<rparr> = a"
  by (cases a) simp

lemma activate_in_sync:
  assumes ok: "ao_ok a" and sy: "in_sync a (rp_SessionType rp)"
    and lv: "cur_active a \<noteq> None \<or> (\<forall>i. current_session a = Some i \<longrightarrow> find_level (sess a i) (sub_function rp) \<noteq> None)"
  obtains b where "ActivateSubfunction rp a = Inr b" "ao_ok b" "cur_active b \<noteq> None" "cur_unlocked b = cur_unlocked a"
    "ao_state b = ao_state a" "in_sync b = in_sync a" "delay_timer b = delay_timer a"
    "last_pending_signal b = last_pending_signal a" "no_limit b = no_limit a" "find_session b = find_session a"
    "last_pending_session_id b = last_pending_session_id a"
proof -
  obtain i where i: "current_session a = Some i" "i < length (session_list a)" using ao_ok_current [OF ok] by blast
  with sy have f: "find_session a (rp_SessionType rp) = Some i" by (simp add: in_sync_def)
  note self = current_self [OF i(1)]
  show ?thesis
  proof (cases "find_level (sess a i) (sub_function rp)")
    case None
    with lv i have "cur_active a \<noteq> None" by simp
    moreover from this have "ActivateSubfunction rp a = Inr a"
      using i f None self by (simp add: ActivateSubfunction_def cur_active_def)
    ultimately show ?thesis using ok by (intro that [of a]) simp_all
  next
    case (Some j)
    define b where "b = mod_sess i (\<lambda>s. s\<lparr>active_level := Some (i, j)\<rparr>) a"
    have v: "valid_ref a (i, j)" using find_level_Some [OF Some i(2)] .
    have self: "b\<lparr>current_session := Some i\<rparr> = b" using i by (intro current_self) (simp add: b_def)
    have "ActivateSubfunction rp a = Inr b"
      using i f Some self by (simp add: ActivateSubfunction_def b_def [symmetric]) (simp add: b_def)
    moreover have "ao_ok b" unfolding b_def using ok v by (intro ao_ok_activate) simp_all
    moreover have "cur_active b \<noteq> None" using i by (simp add: b_def cur_active_def)
    ultimately show ?thesis by (intro that [of b]) (simp_all add: b_def)
  qed
qed

lemma core_same:
  assumes "core a sid" "ao_ok b" "cur_active b \<noteq> None" "cur_unlocked b = cur_unlocked a"
    "in_sync b = in_sync a" "delay_timer b = delay_timer a" "last_pending_signal b = last_pending_signal a"
    "no_limit b = no_limit a" "find_session b = find_session a" "last_pending_session_id b = last_pending_session_id a"
    "\<not> delay_timer a" "no_limit a" "in_sync a sid"
    "s = ao_state a \<or> s = State_LockedWaitingForKey \<and> ao_state a = State_LockedNoActiveSeed
       \<or> s = State_UnlockedWaitingForKey \<and> ao_state a = State_UnlockedNoActiveSeed"
  shows "core (b\<lparr>ao_state := s\<rparr>) sid"
proof -
  have p: "last_pending_signal a = INVALID_SIG" using assms(1,11) by (simp add: core_def delay_ok_def)
  have st: "states_ok a sid" using assms(1) by (simp add: core_def)
  show ?thesis using assms(2-14) p st
    by (cases "ao_state a"; cases s) (simp_all add: core_def delay_ok_def states_ok_def)
qed

section \<open>Keys\<close>

lemma core_wrong_key:
  assumes c: "core a sid" and w: "ao_state a \<in> {State_LockedWaitingForKey, State_UnlockedWaitingForKey}"
    and bk: "back = (if ao_state a = State_LockedWaitingForKey then State_LockedNoActiveSeed else State_UnlockedNoActiveSeed)"
  shows "ends_in (\<lambda>b. core b sid) (wrong_key back rp a)"
proof -
  note k = waiting_for_key [OF c w]
  from k(5) obtain r where r: "cur_active a = Some r" by blast
  have v: "valid_ref a r" and cs: "current_session a = Some (fst r)" using ao_ok_active [OF core_ao [OF c] r] by simp_all
  have st: "states_ok a sid" using c by (simp add: core_def)
  let ?n = "Att_Cnt (level_at a r)" and ?m = "Att_Cnt_Limit (level_at a r)"
  have lt: "?n < ?m"
    using c v k(2) by (auto simp: core_def ao_ok_def sa_config_ok_def no_limit_def at_limit_def order_le_less)
  show ?thesis
  proof (cases "?n + 1 \<ge> ?m")
    case True
    define a1 where "a1 = set_Att_Cnt r ?m a"
    have ok: "ao_ok a1" unfolding a1_def using core_ao [OF c] k(2) by (intro ao_ok_count) simp_all
    have lim: "at_limit a1 r" using v by (simp add: a1_def at_limit_set)
    have ca: "cur_active a1 = Some r" using r by (simp add: a1_def)
    obtain e where e: "SaveAttCntToTree a1 = Inr (sa_emit e a1)" using SaveAttCnt_eq [OF ca] by blast
    have dt: "\<not> delay_timer a1" using k(1) by (simp add: a1_def)
    have ca': "cur_active (sa_emit e a1) = Some r" using ca by simp
    obtain t where t: "TriggerDelayTimer (sa_emit e a1) = Inr (sa_emit t (sa_emit e a1\<lparr>delay_timer := True\<rparr>))"
      using the_active_eq [OF ca'] dt by (simp add: TriggerDelayTimer_def)
    have "core (a1\<lparr>delay_timer := True, ao_state := back\<rparr>) sid"
      using ok lim ca k st w bk by (simp add: core_def delay_ok_def states_ok_def a1_def split: if_splits) 
    moreover have "wrong_key back rp a = M_Translate back (SetResponseNRC rp 0x36 (sa_emit t (sa_emit e a1\<lparr>delay_timer := True\<rparr>)))"
      using the_active_eq [OF r] True e t by (simp add: wrong_key_def Let_def a1_def [symmetric])
    moreover have "sa_emit e a1\<lparr>delay_timer := True\<rparr> = sa_emit e (a1\<lparr>delay_timer := True\<rparr>)" by (simp add: sa_emit_def)
    ultimately show ?thesis by simp
  next
    case False
    define a1 where "a1 = set_Att_Cnt r (?n + 1) a"
    have ok: "ao_ok a1" unfolding a1_def using core_ao [OF c] False by (intro ao_ok_count) auto
    have nl: "no_limit a1" using k(2) False by (auto simp: no_limit_def a1_def at_limit_set)
    have ca: "cur_active a1 = Some r" using r by (simp add: a1_def)
    obtain e where e: "SaveAttCntToTree a1 = Inr (sa_emit e a1)" using SaveAttCnt_eq [OF ca] by blast
    have "core (a1\<lparr>ao_state := back\<rparr>) sid"
      using ok nl ca k st w bk by (simp add: core_def delay_ok_def states_ok_def a1_def split: if_splits)
    moreover have "wrong_key back rp a = M_Translate back (SetResponseNRC rp 0x35 (sa_emit e a1))"
      using the_active_eq [OF r] False e by (simp add: wrong_key_def Let_def a1_def [symmetric])
    ultimately show ?thesis by simp
  qed
qed

lemma core_clear:
  assumes c: "core a sid" and w: "ao_state a \<in> {State_LockedWaitingForKey, State_UnlockedWaitingForKey}"
  obtains b where "clear_Att_Cnt a = Inr b" "core b sid"
proof -
  note k = waiting_for_key [OF c w]
  from k(5) obtain r where r: "cur_active a = Some r" by blast
  have v: "valid_ref a r" using ao_ok_active [OF core_ao [OF c] r] by simp
  show ?thesis
  proof (cases "Att_Cnt (level_at a r) = 0")
    case True
    then show ?thesis using the_active_eq [OF r] c by (intro that [of a]) (simp_all add: clear_Att_Cnt_def)
  next
    case False
    define a1 where "a1 = set_Att_Cnt r 0 a"
    have ok: "no_limit a1" "ao_ok a1" unfolding a1_def using no_limit_cleared [of a r] core_ao [OF c] v k(2) by simp_all
    have ca: "cur_active a1 = Some r" using r by (simp add: a1_def)
    obtain e where e: "SaveAttCntToTree a1 = Inr (sa_emit e a1)" using SaveAttCnt_eq [OF ca] by blast
    have "core (sa_emit e a1) sid" using c ok k by (simp add: core_def delay_ok_def states_ok_def a1_def)
    then show ?thesis using the_active_eq [OF r] False e
      by (intro that [of "sa_emit e a1"]) (simp_all add: clear_Att_Cnt_def a1_def)
  qed
qed

lemma core_unlocked:
  assumes c: "core a sid" and w: "ao_state a \<in> {State_LockedWaitingForKey, State_UnlockedWaitingForKey}"
    and s: "rp_nrcCode rp = 0"
  shows "ends_in (\<lambda>b. core b sid) (state_fn (ao_state a) rp SEND_KEY_RESPONSE_SIG a)"
proof -
  obtain a1 where a1: "clear_Att_Cnt a = Inr a1" "core a1 sid" by (rule core_clear [OF c w])
  have w1: "ao_state a1 \<in> {State_LockedWaitingForKey, State_UnlockedWaitingForKey}" and same: "ao_state a1 = ao_state a"
    using w clear_Att_Cnt_sel(5) [OF a1(1)] by simp_all
  note k = waiting_for_key [OF a1(2) w1]
  obtain i where i: "current_session a1 = Some i" "i < length (session_list a1)" by (rule core_current [OF a1(2)])
  obtain r where r: "active_level (sess a1 i) = Some r" using k(5) i by (auto simp: cur_active_def)
  have st: "states_ok a1 sid" using a1(2) by (simp add: core_def)
  define u where "u = mod_sess i (\<lambda>s. s\<lparr>unlocked_level := active_level s\<rparr>) a1"
  define v where "v = mod_sess i (\<lambda>s. s\<lparr>unlocked_level := active_level s, active_level := None\<rparr>) a1"
  have un: "cur_unlocked u = Some r" "cur_unlocked v = Some r" using i r by (simp_all add: u_def v_def cur_unlocked_def)
  have ok: "ao_ok u" "ao_ok v" unfolding u_def v_def using ao_ok_unlock [OF core_ao [OF a1(2)] i(1)] by simp_all
  have uv: "core (u\<lparr>ao_state := State_UnlockedNoActiveSeed\<rparr>) sid" "core (v\<lparr>ao_state := State_UnlockedNoActiveSeed\<rparr>) sid"
    using ok un k st by (simp_all add: core_def delay_ok_def states_ok_def u_def v_def)
  have q: "\<exists>x. RequestedSubFunctionIsStaticSeed rp SEND_KEY_RESPONSE_SIG b = Inr x" if "current_session b = Some i" for b
    using that by (simp add: RequestedSubFunctionIsStaticSeed_def Let_def split: option.split) blast
  show ?thesis
  proof (cases "ao_state a = State_LockedWaitingForKey")
    case True
    have "UnlockCurrentSecLevel a1 = Inr u" using i by (simp add: UnlockCurrentSecLevel_def u_def)
    moreover obtain x where "RequestedSubFunctionIsStaticSeed rp SEND_KEY_RESPONSE_SIG u = Inr x"
      using q [of u] i by (auto simp: u_def)
    ultimately show ?thesis
      using True a1(1) s uv(1) by (simp add: state_fn_def handle_LockedWaitingForKey_def KeyIsNok_def)
  next
    case False
    then have f: "ao_state a = State_UnlockedWaitingForKey" using w by simp
    obtain y where y: "unlocked_level (sess a1 i) = Some y"
      using st f same k(3) i by (auto simp: states_ok_def cur_unlocked_def)
    obtain b where b: "UnlockRequestedSecLevelAndLockOthers a1 = Inr b" "b = v \<or> b = a1"
      using i r y by (cases "r = y") (auto simp: UnlockRequestedSecLevelAndLockOthers_def v_def)
    have "core (a1\<lparr>ao_state := State_UnlockedNoActiveSeed\<rparr>) sid" using core_back(2) [OF a1(2)] f same by simp
    moreover obtain x where "RequestedSubFunctionIsStaticSeed rp SEND_KEY_RESPONSE_SIG b = Inr x"
      using q [of b] i b(2) by (auto simp: v_def)
    ultimately show ?thesis using f a1(1) s uv(2) b
      by (auto simp: state_fn_def handle_UnlockedWaitingForKey_def KeyIsNok_def)
  qed
qed

section \<open>Session changes\<close>

lemma core_leave:
  assumes "core a sid" "\<not> delay_timer a" "no_limit a"
    and "s = SESSION_CONTROL_SIG \<Longrightarrow> rp_SessionType rp = DEFAULT_SESSION \<or> find_session a (rp_SessionType rp) \<noteq> None"
    and "sid' = DEFAULT_SESSION \<or> s = SESSION_CONTROL_SIG \<and> sid' = rp_SessionType rp"
  obtains i k where "current_session a = Some i"
    "mbind (DeactivateAndLock a) (\<lambda>a1. if s = SESSION_CONTROL_SIG then SwitchSessionBasedOnEvent rp a1
       else Inr (a1\<lparr>current_session := Some (default_session a1)\<rparr>)) = Inr (left_for i k a)"
    "core ((left_for i k a)\<lparr>ao_state := State_LockedNoActiveSeed\<rparr>) sid'"
proof -
  obtain i where i: "current_session a = Some i" "i < length (session_list a)" by (rule core_current [OF assms(1)])
  have ok: "ao_ok a" using assms(1) by (simp add: core_def)
  then have d: "default_session a < length (session_list a)" by (simp add: ao_ok_def)
  have p: "last_pending_signal a = INVALID_SIG" using assms(1,2) by (simp add: core_def delay_ok_def)
  define k where "k = (if s = SESSION_CONTROL_SIG \<and> rp_SessionType rp \<noteq> DEFAULT_SESSION
      then the (find_session a (rp_SessionType rp)) else default_session a)"
  have k: "k < length (session_list a)" "sid' \<noteq> DEFAULT_SESSION \<longrightarrow> find_session a sid' = Some k"
    using assms(4,5) d find_session_Some [of a "rp_SessionType rp"] by (auto simp: k_def)
  have "mbind (DeactivateAndLock a) (\<lambda>a1. if s = SESSION_CONTROL_SIG then SwitchSessionBasedOnEvent rp a1
       else Inr (a1\<lparr>current_session := Some (default_session a1)\<rparr>)) = Inr (left_for i k a)"
    using i assms(4) by (auto simp: DeactivateAndLock_eq SwitchSessionBasedOnEvent_def left_for_def k_def)
  then show ?thesis using i core_left [OF ok i(1) assms(2,3) p k] by (intro that [of i k]) simp_all
qed

section \<open>Requests\<close>

lemma passed_simps [simp]:
  "passed a (ResponseNRC rp n a) \<longleftrightarrow> n = 0" "passed a (b\<lparr>ao_state := s\<rparr>) = passed a b"
  "passed a (TryToPostSemaphore rp (sa_emit (SaZeroSeed x) a)) \<longleftrightarrow> False"
  by (auto simp: passed_def ResponseNRC_def TryToPostSemaphore_def)

lemma delay_not_passed:
  "DelayTimerIsNotExpired a = (True, b) \<Longrightarrow> n \<noteq> 0 \<Longrightarrow> \<not> passed a (ResponseNRC rp n b)"
  by (auto simp: DelayTimerIsNotExpired_def Let_def passed_def ResponseNRC_def TryToPostSemaphore_def
      split: if_splits option.splits)

lemma respond_cong [simp]:
  "delay_timer (ResponseNRC rp n a) = delay_timer a" "no_limit (ResponseNRC rp n a) = no_limit a"
  "in_sync (ResponseNRC rp n a) = in_sync a" "ao_state (ResponseNRC rp n a) = ao_state a"
  "current_session (ResponseNRC rp n a) = current_session a" "sess (ResponseNRC rp n a) = sess a"
  by (simp_all add: ResponseNRC_def TryToPostSemaphore_def)

text \<open>The seed of zeros needs the active level; its size is bounded by the configuration.\<close>

lemma zero_seed:
  assumes "ao_ok a" "cur_active a = Some r"
  shows "\<exists>x. ResponseAllZeroSeed rp a = Inr (TryToPostSemaphore rp (sa_emit (SaZeroSeed x) a))"
proof -
  have "valid_ref a r" using ao_ok_active [OF assms] by simp
  then have "2 + seed_byte_size (seed_size (level_at a r)) \<le> UDS_MAX_DATA_SIZE"
    using assms(1) by (simp add: ao_ok_def sa_config_ok_def)
  then show ?thesis using the_active_eq [OF assms(2)] by (auto simp: ResponseAllZeroSeed_def Let_def)
qed

lemma core_precondition:
  assumes "core a (rp_SessionType rp)" "\<not> delay_timer a" "\<not> PreConditionIsNotFulfilled rp a"
  obtains i where "in_sync a (rp_SessionType rp)" "current_session a = Some i"
    "find_level (sess a i) (sub_function rp) \<noteq> None"
proof -
  have "rp_SessionType rp \<noteq> DEFAULT_SESSION" using assms(3) by (auto simp: PreConditionIsNotFulfilled_def)
  then have "in_sync a (rp_SessionType rp)" using assms(1,2) by (simp add: core_def delay_ok_def states_ok_def)
  then show ?thesis using assms(3) that
    by (auto simp: PreConditionIsNotFulfilled_def in_sync_def split: if_splits option.splits)
qed

lemma request_seed_step:
  assumes c: "core a sid" and sid: "rp_SessionType rp = sid"
  shows "ends_in (\<lambda>b. core b sid \<and> (passed a b \<longrightarrow> wait_ok b sid REQUEST_SEED_SIG (rp_recvSubFunc rp)))
       (state_fn (ao_state a) rp REQUEST_SEED_SIG a)
     \<or> ao_state a = State_UnlockedNoActiveSeed \<and> cur_active a = None
       \<and> MFsm_dispatch rp REQUEST_SEED_SIG a = Inl SaNull"
proof -
  obtain d b where d: "DelayTimerIsNotExpired a = (d, b)" by (cases "DelayTimerIsNotExpired a")
  note cd = core_delay [OF c d]
  have pre: "wait_ok (ResponseNRC rp 0 a) sid REQUEST_SEED_SIG (rp_recvSubFunc rp)"
    if q: "\<not> PreConditionIsNotFulfilled rp a" "\<not> delay_timer a" "no_limit a"
  proof -
    obtain i where "in_sync a sid" "current_session a = Some i" "find_level (sess a i) (sub_function rp) \<noteq> None"
      using core_precondition [of a rp] c sid q by blast
    then show ?thesis using q(2,3) by (simp add: wait_ok_def sub_function_def [symmetric])
  qed
  have wk: "wait_ok (ResponseNRC rp 0 a) sid REQUEST_SEED_SIG (rp_recvSubFunc rp)"
    if "ao_state a \<in> {State_LockedWaitingForKey, State_UnlockedWaitingForKey}"
    using waiting_for_key [OF c that] that by (auto simp: wait_ok_def)
  obtain i where i: "current_session a = Some i" by (rule core_current [OF c])
  obtain u where u: "RequestedLevelIsUnlocked rp a = Inr u"
    using i by (cases "unlocked_level (sess a i)") (auto simp: RequestedLevelIsUnlocked_def)
  have zs: "\<exists>x. ResponseAllZeroSeed rp a = Inr (TryToPostSemaphore rp (sa_emit (SaZeroSeed x) a))" if "cur_active a \<noteq> None"
    using that zero_seed [OF core_ao [OF c]] by blast
  show ?thesis
  proof (cases "ao_state a")
    case State_LockedNoActiveSeed
    then show ?thesis using c d cd pre delay_not_passed [of a b "0x37" rp]
      by (cases d) (auto simp: state_fn_def handle_LockedNoActiveSeed_def MsgLengthIsNok_def)
  next
    case State_LockedWaitingForKey
    then show ?thesis using c wk core_back(1) [OF c]
      by (auto simp: state_fn_def handle_LockedWaitingForKey_def MsgLengthIsNok_def)
  next
    case State_UnlockedNoActiveSeed
    have "ends_in (\<lambda>b. core b sid \<and> (passed a b \<longrightarrow> wait_ok b sid REQUEST_SEED_SIG (rp_recvSubFunc rp)))
       (state_fn (ao_state a) rp REQUEST_SEED_SIG a)" if "\<not> (\<not> d \<and> u \<and> cur_active a = None \<and> \<not> rp_recvDataLen rp < 2 \<and> \<not> PreConditionIsNotFulfilled rp a)"
      using State_UnlockedNoActiveSeed c d cd pre zs u that delay_not_passed [of a b "0x37" rp]
      by (cases d) (auto simp: state_fn_def handle_UnlockedNoActiveSeed_def MsgLengthIsNok_def)
    moreover have "MFsm_dispatch rp REQUEST_SEED_SIG a = Inl SaNull"
      if "\<not> d \<and> u \<and> cur_active a = None \<and> \<not> rp_recvDataLen rp < 2 \<and> \<not> PreConditionIsNotFulfilled rp a"
      using State_UnlockedNoActiveSeed that d cd u i
      by (auto simp: MFsm_dispatch_eq state_fn_def handle_UnlockedNoActiveSeed_def MsgLengthIsNok_def
          ResponseAllZeroSeed_def the_active_def cur_active_def)
    ultimately show ?thesis using State_UnlockedNoActiveSeed by blast
  next
    case State_UnlockedWaitingForKey
    then show ?thesis using c wk core_back(2) [OF c] zs u waiting_for_key(5) [OF c]
      by (auto simp: state_fn_def handle_UnlockedWaitingForKey_def MsgLengthIsNok_def)
  qed
qed

lemma send_key_step:
  assumes c: "core a sid"
  shows "ends_in (\<lambda>b. core b sid \<and> (passed a b \<longrightarrow> wait_ok b sid SEND_KEY_SIG (rp_recvSubFunc rp)))
       (state_fn (ao_state a) rp SEND_KEY_SIG a)"
proof (cases "ao_state a \<in> {State_LockedWaitingForKey, State_UnlockedWaitingForKey}")
  case True
  note k = waiting_for_key [OF c True]
  obtain r where r: "cur_active a = Some r" using k(5) by blast
  obtain i where i: "current_session a = Some i" "active_level (sess a i) = Some r"
    using r by (auto simp: cur_active_def split: option.splits)
  have w: "wait_ok (ResponseNRC rp 0 a) sid SEND_KEY_SIG (rp_recvSubFunc rp)"
    using True k by (auto simp: wait_ok_def)
  show ?thesis using True c core_back [OF c] w i the_active_eq [OF r]
    by (auto simp: state_fn_def handle_LockedWaitingForKey_def handle_UnlockedWaitingForKey_def send_key_def MsgLengthIsNok_def)
next
  case False
  then show ?thesis using c
    by (cases "ao_state a") (simp_all add: state_fn_def handle_LockedNoActiveSeed_def handle_UnlockedNoActiveSeed_def)
qed

section \<open>Answers\<close>

lemma seed_answer_step:
  assumes c: "core a (rp_SessionType rp)" and w: "wait_ok a (rp_SessionType rp) REQUEST_SEED_SIG (rp_recvSubFunc rp)"
  shows "ends_in (\<lambda>b. core b (rp_SessionType rp)) (state_fn (ao_state a) rp REQUEST_SEED_RESPONSE_SIG a)"
proof -
  let ?sid = "rp_SessionType rp"
  have k: "\<not> delay_timer a" "no_limit a" "in_sync a ?sid" using w by (simp_all add: wait_ok_def)
  have lv: "cur_active a \<noteq> None \<or> (\<forall>i. current_session a = Some i \<longrightarrow> find_level (sess a i) (sub_function rp) \<noteq> None)"
  proof (cases "ao_state a \<in> {State_LockedWaitingForKey, State_UnlockedWaitingForKey}")
    case True
    then show ?thesis using waiting_for_key(5) [OF c] by simp
  next
    case False
    then show ?thesis using w by (cases "ao_state a") (simp_all add: wait_ok_def sub_function_def)
  qed
  obtain b where b: "ActivateSubfunction rp a = Inr b"
    and same: "\<And>s. s = ao_state a \<or> s = State_LockedWaitingForKey \<and> ao_state a = State_LockedNoActiveSeed
       \<or> s = State_UnlockedWaitingForKey \<and> ao_state a = State_UnlockedNoActiveSeed \<Longrightarrow> core (b\<lparr>ao_state := s\<rparr>) ?sid"
    and st: "ao_state b = ao_state a"
  proof (rule activate_in_sync [OF core_ao [OF c] k(3) lv])
    fix b assume b: "ActivateSubfunction rp a = Inr b" "ao_ok b" "cur_active b \<noteq> None" "cur_unlocked b = cur_unlocked a"
      "ao_state b = ao_state a" "in_sync b = in_sync a" "delay_timer b = delay_timer a"
      "last_pending_signal b = last_pending_signal a" "no_limit b = no_limit a" "find_session b = find_session a"
      "last_pending_session_id b = last_pending_session_id a"
    show thesis by (rule that [OF b(1) core_same [OF c b(2-4) b(6-11) k] b(5)])
  qed
  have "core (b\<lparr>ao_state := ao_state a\<rparr>) ?sid" by (rule same) simp
  then have cb: "core b ?sid" using st by (cases b) simp
  have other: "\<exists>x. SecAccTypeIsNotActive rp a = Inr x" "\<exists>x. RequestedSubFunctionIsStaticSeed rp REQUEST_SEED_RESPONSE_SIG a = Inr x"
    if q: "ao_state a \<in> {State_LockedWaitingForKey, State_UnlockedWaitingForKey}"
  proof -
    obtain r where r: "cur_active a = Some r" using waiting_for_key(5) [OF c q] by blast
    obtain i where i: "current_session a = Some i" by (rule core_current [OF c])
    show "\<exists>x. SecAccTypeIsNotActive rp a = Inr x" using the_active_eq [OF r] by (simp add: SecAccTypeIsNotActive_def)
    show "\<exists>x. RequestedSubFunctionIsStaticSeed rp REQUEST_SEED_RESPONSE_SIG a = Inr x"
      using i by (cases "find_level (sess a i) (sub_function rp)") (auto simp: RequestedSubFunctionIsStaticSeed_def Let_def)
  qed
  show ?thesis
  proof (cases "ao_state a")
    case State_LockedNoActiveSeed
    then show ?thesis using c b same by (simp add: state_fn_def handle_LockedNoActiveSeed_def)
  next
    case State_LockedWaitingForKey
    then show ?thesis using c b cb other core_back(1) [OF c]
      by (auto simp: state_fn_def handle_LockedWaitingForKey_def seed_response_def)
  next
    case State_UnlockedNoActiveSeed
    then show ?thesis using c b same by (simp add: state_fn_def handle_UnlockedNoActiveSeed_def)
  next
    case State_UnlockedWaitingForKey
    then show ?thesis using c b cb other core_back(2) [OF c]
      by (auto simp: state_fn_def handle_UnlockedWaitingForKey_def seed_response_def)
  qed
qed

lemma key_answer_step:
  assumes c: "core a sid" and w: "wait_ok a sid SEND_KEY_SIG sub"
  shows "ends_in (\<lambda>b. core b sid) (state_fn (ao_state a) rp SEND_KEY_RESPONSE_SIG a)"
proof -
  have st: "ao_state a \<in> {State_LockedWaitingForKey, State_UnlockedWaitingForKey}" using w by (simp add: wait_ok_def)
  show ?thesis
  proof (cases "rp_nrcCode rp = 0")
    case True
    then show ?thesis by (rule core_unlocked [OF c st])
  next
    case False
    then show ?thesis using st core_back [OF c] core_wrong_key [OF c st refl, of rp]
      by (auto simp: state_fn_def handle_LockedWaitingForKey_def handle_UnlockedWaitingForKey_def)
  qed
qed

section \<open>Sessions and the timer\<close>

lemma session_step:
  assumes c: "core a sid" and s: "s = SESSION_CONTROL_SIG \<or> s = SESSION_TIMEOUT_SIG"
    and f: "s = SESSION_CONTROL_SIG \<Longrightarrow> rp_SessionType rp = DEFAULT_SESSION \<or> find_session a (rp_SessionType rp) \<noteq> None"
    and n: "sid' = DEFAULT_SESSION \<or> s = SESSION_CONTROL_SIG \<and> sid' = rp_SessionType rp"
  shows "ends_in (\<lambda>b. core b sid' \<and> cur_unlocked b = None) (state_fn (ao_state a) rp s a)"
proof -
  obtain d b where d: "DelayTimerIsNotExpired a = (d, b)" by (cases "DelayTimerIsNotExpired a")
  note cd = core_delay [OF c d]
  have shape: "find_session b = find_session a"
    using d by (auto simp: DelayTimerIsNotExpired_def Let_def split: if_splits option.splits)
  have left: "cur_unlocked (left_for i k a\<lparr>ao_state := State_LockedNoActiveSeed\<rparr>) = None"
    if "core (left_for i k a\<lparr>ao_state := State_LockedNoActiveSeed\<rparr>) sid'" for i k
    using that by (simp add: core_def states_ok_def)
  have leave: "ends_in (\<lambda>b. core b sid' \<and> cur_unlocked b = None) (leave_session rp s a)"
    if q: "\<not> delay_timer a" "no_limit a"
  proof -
    from core_leave [OF c q f n] obtain i k where "current_session a = Some i"
      and m: "mbind (DeactivateAndLock a) (\<lambda>a1. if s = SESSION_CONTROL_SIG then SwitchSessionBasedOnEvent rp a1
         else Inr (a1\<lparr>current_session := Some (default_session a1)\<rparr>)) = Inr (left_for i k a)"
      and l: "core ((left_for i k a)\<lparr>ao_state := State_LockedNoActiveSeed\<rparr>) sid'" by blast
    then show ?thesis using left [OF l] by (auto simp: leave_session_def)
  qed
  define p where "p = (if s = SESSION_CONTROL_SIG then rp_SessionType rp else SEC_ACC_DEFAULT_SESSION_ID)"
  define m where "m = b\<lparr>last_pending_signal := s, last_pending_session_id := p\<rparr>"
  have mark: "MarkLastPendingSession rp s b = Inr m"
    using s by (auto simp: MarkLastPendingSession_def m_def p_def)
  obtain i where i: "current_session b = Some i" "i < length (session_list b)" using cd by (auto intro: core_current)
  define l where "l = mod_sess i (\<lambda>s. s\<lparr>unlocked_level := None\<rparr>) m"
  have lock: "LockCurrentSession m = Inr l" using i by (simp add: LockCurrentSession_def m_def l_def)
  have b: "ao_ok b" "states_ok b sid" using cd by (simp_all add: core_def)
  have p: "p = DEFAULT_SESSION \<or> find_session b p \<noteq> None" "sid' = DEFAULT_SESSION \<or> p = sid'" "s \<noteq> INVALID_SIG"
    using f n s shape DEFAULT_found [OF b(1)] by (auto simp: p_def)
  have marked: "core m sid' \<and> cur_unlocked m = None" if q: "d" "ao_state a = State_LockedNoActiveSeed"
  proof -
    have "cur_unlocked m = None" using b(2) q cd by (simp add: m_def states_ok_def)
    moreover have "core b sid" "delay_timer b" using cd q by simp_all
    ultimately show ?thesis using b(1) by (intro conjI core_mark [OF _ _ p(3,1,2)]) (simp_all add: m_def)
  qed
  have locked: "core l sid' \<and> cur_unlocked l = None" if q: "d"
  proof -
    have "cur_unlocked l = None" using i by (simp add: l_def m_def cur_unlocked_def)
    moreover have "ao_ok l" unfolding l_def using b(1) i by (intro ao_ok_unlock) (simp_all add: m_def)
    moreover have "core b sid" "delay_timer b" using cd q by simp_all
    ultimately show ?thesis by (intro conjI core_mark [OF _ _ p(3,1,2)]) (simp_all add: l_def m_def)
  qed
  show ?thesis
  proof (cases "ao_state a")
    case State_LockedNoActiveSeed
    show ?thesis
    proof (cases d)
      case True
      then show ?thesis using State_LockedNoActiveSeed s d mark marked by (auto simp: state_fn_def handle_LockedNoActiveSeed_def)
    next
      case False
      with cd have q: "\<not> delay_timer a" "no_limit a" and ba: "b = a" by simp_all
      from core_leave [OF c q f n] obtain i k where
          m: "mbind (DeactivateAndLock a) (\<lambda>a1. if s = SESSION_CONTROL_SIG then SwitchSessionBasedOnEvent rp a1
           else Inr (a1\<lparr>current_session := Some (default_session a1)\<rparr>)) = Inr (left_for i k a)"
        and l: "core ((left_for i k a)\<lparr>ao_state := State_LockedNoActiveSeed\<rparr>) sid'" by blast
      have "(left_for i k a)\<lparr>ao_state := State_LockedNoActiveSeed\<rparr> = left_for i k a"
        using State_LockedNoActiveSeed by (cases a) (simp add: left_for_def mod_sess_def)
      with l left [OF l] have "core (left_for i k a) sid'" "cur_unlocked (left_for i k a) = None" by simp_all
      then show ?thesis using State_LockedNoActiveSeed s d False m ba
        by (auto simp: state_fn_def handle_LockedNoActiveSeed_def)
    qed
  next
    case State_LockedWaitingForKey
    then show ?thesis using waiting_for_key [OF c] leave s by (auto simp: state_fn_def handle_LockedWaitingForKey_def)
  next
    case State_UnlockedNoActiveSeed
    then show ?thesis using s d mark lock locked leave cd
      by (cases d) (auto simp: state_fn_def handle_UnlockedNoActiveSeed_def)
  next
    case State_UnlockedWaitingForKey
    then show ?thesis using waiting_for_key [OF c] leave s by (auto simp: state_fn_def handle_UnlockedWaitingForKey_def)
  qed
qed

lemma expired_step:
  assumes c: "core a sid" and t: "delay_timer a"
  shows "ends_in (\<lambda>b. core b sid \<and> \<not> delay_timer b)
     (state_fn (ao_state (a\<lparr>delay_timer := False\<rparr>)) rp DELAY_TIMER_EXPIRED_SIG (a\<lparr>delay_timer := False\<rparr>))"
proof -
  have "ao_state a = State_LockedNoActiveSeed \<or> ao_state a = State_UnlockedNoActiveSeed"
    using c t by (simp add: core_def delay_ok_def)
  then show ?thesis using core_expired [OF c t]
    by (auto simp: state_fn_def handle_LockedNoActiveSeed_def handle_UnlockedNoActiveSeed_def)
qed

section \<open>The invariant\<close>

lemma ends_in_dispatch: "ends_in Q (state_fn (ao_state a) rp s a) \<longleftrightarrow> (\<exists>b. MFsm_dispatch rp s a = Inr b \<and> Q b)"
  by (auto simp: ends_in_def dispatch_Inr) 

lemma sa_inv_core: "sa_inv st \<longleftrightarrow> core (sy_ao st) (sy_session st) \<and> waiting_ok st"
  by (simp add: sa_inv_def core_def)

lemma sa_inv_next:
  "sa_inv (sa_next rp s a sid b) \<longleftrightarrow> core b sid
     \<and> (s = REQUEST_SEED_SIG \<or> s = SEND_KEY_SIG \<longrightarrow> passed a b \<longrightarrow> wait_ok b sid s (rp_recvSubFunc rp))"
  by (auto simp: sa_inv_core sa_next_def waiting_ok_def)

lemma sa_dispatch:
  assumes inv: "sa_inv st" and i: "sa_input st rp s a sid"
  shows "(\<exists>b. MFsm_dispatch rp s a = Inr b \<and> sa_inv (sa_next rp s a sid b))
     \<or> s = REQUEST_SEED_SIG \<and> ao_state a = State_UnlockedNoActiveSeed \<and> cur_active a = None
       \<and> MFsm_dispatch rp s a = Inl SaNull"
proof -
  have c: "core (sy_ao st) (sy_session st)" and w: "waiting_ok st" using inv by (simp_all add: sa_inv_core)
  show ?thesis using i
  proof cases
    case request
    then consider "s = REQUEST_SEED_SIG" | "s = SEND_KEY_SIG" by blast
    then show ?thesis
    proof cases
      case 1
      then show ?thesis using request request_seed_step [OF c, of rp] unfolding ends_in_dispatch sa_inv_next by auto
    next
      case 2
      then show ?thesis using request send_key_step [OF c, of rp] unfolding ends_in_dispatch sa_inv_next by auto
    qed
  next
    case (answer q)
    have wk: "wait_ok (sy_ao st) (sy_session st) q (rp_recvSubFunc rp)" using w answer by (simp add: waiting_ok_def)
    then consider "q = REQUEST_SEED_SIG" | "q = SEND_KEY_SIG" by (auto simp: wait_ok_def)
    then show ?thesis
    proof cases
      case 1
      then show ?thesis using answer seed_answer_step [of "sy_ao st" rp] c wk
        unfolding ends_in_dispatch sa_inv_next by (auto simp: answer_to_def)
    next
      case 2
      then show ?thesis using answer key_answer_step [of "sy_ao st" "sy_session st"] c wk
        unfolding ends_in_dispatch sa_inv_next by (auto simp: answer_to_def)
    qed
  next
    case control
    then show ?thesis using session_step [OF c, of s rp sid] unfolding ends_in_dispatch sa_inv_next by auto
  next
    case disconnect
    then show ?thesis using session_step [OF c, of s rp sid] core_session [OF c]
      unfolding ends_in_dispatch sa_inv_next by auto
  next
    case timeout
    then show ?thesis using session_step [OF c, of s rp sid] unfolding ends_in_dispatch sa_inv_next by auto
  next
    case expired
    then show ?thesis using expired_step [OF c, of rp] unfolding ends_in_dispatch sa_inv_next by auto
  qed
qed

end
