(* ===== verification/Uds_SecProps.thy ===== *)
theory Uds_SecProps
  imports Uds_SecLive
begin

text \<open>
  The properties of the security access service in its reachable states, with runs on a concrete
  configuration.
\<close>

declare split_paired_All [simp del] split_paired_Ex [simp del]

section \<open>Reachable states\<close>

lemma create_sel:
  assumes "a = SecurityAccess_CreateActiveObject bs tree"
  shows "ao_state a = State_LockedNoActiveSeed" "current_session a = Some (length bs)" "default_session a = length bs"
    "delay_timer a = False" "last_pending_signal a = INVALID_SIG" "length (session_list a) = Suc (length bs)"
    "session_id (sess a (length bs)) = SEC_ACC_DEFAULT_SESSION_ID"
    "i < Suc (length bs) \<Longrightarrow> active_level (sess a i) = None \<and> unlocked_level (sess a i) = None"
  unfolding assms SecurityAccess_CreateActiveObject_def State_initial_def LoadAttCntAndDelayTimer_def
    AO_SecurityAccess_ctor_def Let_def
  by (simp_all add: GetDefaultSession_def sess_def nth_append)

lemma core_start:
  assumes "a = SecurityAccess_CreateActiveObject bs tree" "sa_config_ok a"
  shows "core a DEFAULT_SESSION"
proof -
  note s = create_sel [OF assms(1)]
  have "find_session a SEC_ACC_DEFAULT_SESSION_ID \<noteq> None"
  proof
    assume "find_session a SEC_ACC_DEFAULT_SESSION_ID = None"
    then have "\<forall>x\<in>set (session_list a). session_id x \<noteq> SEC_ACC_DEFAULT_SESSION_ID"
      by (simp add: find_session_def find_index_None)
    moreover have "sess a (length bs) \<in> set (session_list a)" using s(6) by (simp add: sess_def)
    ultimately show False using s(7) by blast
  qed
  moreover have "level_refs a" "others_locked a" using s by (simp_all add: level_refs_def others_locked_def)
  ultimately have "ao_ok a" using s assms(2) by (simp add: ao_ok_def)
  moreover have "cur_unlocked a = None" using s(2) s(8) [of "length bs"] by (simp add: cur_unlocked_def)
  ultimately show ?thesis using s by (simp add: core_def delay_ok_def states_ok_def)
qed

lemma sa_reachable_inv: "sa_reachable st \<Longrightarrow> sa_inv st"
proof (induction rule: sa_reachable.induct)
  case (start a bs tree)
  then show ?case using core_start by (simp add: sa_inv_core waiting_ok_def)
next
  case (step st st')
  from step(2) show ?case
  proof cases
    case (1 rp s a sid b)
    then show ?thesis using sa_dispatch [of st rp s a sid] step(3) by auto
  qed
next
  case (given_up st)
  then show ?case by (simp add: sa_inv_core waiting_ok_def)
qed

lemma reachable_unlocked:
  assumes "sa_reachable st" "i < length (session_list (sy_ao st))" "unlocked_level (sess (sy_ao st) i) = Some r"
  shows "sy_session st \<noteq> DEFAULT_SESSION \<and> find_session (sy_ao st) (sy_session st) = Some i
     \<and> current_session (sy_ao st) = Some i \<and> fst r = i \<and> last_pending_signal (sy_ao st) = INVALID_SIG"
proof -
  let ?a = "sy_ao st"
  have c: "ao_ok ?a" "states_ok ?a (sy_session st)" using sa_reachable_inv [OF assms(1)] by (simp_all add: sa_inv_def)
  then have i: "current_session ?a = Some i" "fst r = i" using assms(2,3) by (auto simp: ao_ok_def others_locked_def level_refs_def)
  then have "cur_unlocked ?a \<noteq> None" using assms(3) by (simp add: cur_unlocked_def)
  then have "last_pending_signal ?a = INVALID_SIG" "in_sync ?a (sy_session st)" using c(2) by (simp_all add: states_ok_def)
  then show ?thesis using i by (simp add: in_sync_def)
qed

text \<open>
  C20: a level is unlocked only in the session that the manager is in, which is not the default
  session, and no session change is pending.
\<close>

theorem unlocked_in_session:
  assumes "sa_reachable st" "i < length (session_list (sy_ao st))" "unlocked_level (sess (sy_ao st) i) = Some r"
  shows "sy_session st \<noteq> DEFAULT_SESSION \<and> find_session (sy_ao st) (sy_session st) = Some i
     \<and> current_session (sy_ao st) = Some i \<and> fst r = i \<and> last_pending_signal (sy_ao st) = INVALID_SIG"
  using reachable_unlocked [OF assms] .

text \<open>
  C21: after every session change, end of a connection or session timeout all levels of all sessions
  are locked, also when the delay timer defers the change.
\<close>

theorem session_change_locks:
  assumes "sa_reachable st" "sa_input st rp s a sid" "s = SESSION_CONTROL_SIG \<or> s = SESSION_TIMEOUT_SIG"
  shows "\<exists>b. MFsm_dispatch rp s a = Inr b
     \<and> (\<forall>i < length (session_list b). unlocked_level (sess b i) = None)"
proof -
  have c: "core (sy_ao st) (sy_session st)" using sa_reachable_inv [OF assms(1)] by (simp add: sa_inv_core)
  have "\<exists>b. MFsm_dispatch rp s a = Inr b \<and> core b sid \<and> cur_unlocked b = None"
    using assms(2)
  proof cases
    case control
    then show ?thesis using session_step [OF c, of s rp sid] unfolding ends_in_dispatch by auto
  next
    case disconnect
    then show ?thesis using session_step [OF c, of s rp sid] core_session [OF c] unfolding ends_in_dispatch by auto
  next
    case timeout
    then show ?thesis using session_step [OF c, of s rp sid] unfolding ends_in_dispatch by auto
  next
    case (answer q)
    then show ?thesis using assms(3) by (auto simp: answer_to_def split: if_splits)
  qed (use assms(3) in auto)
  then show ?thesis using all_locked core_ao by blast
qed

section \<open>Every signal\<close>








section \<open>Runs\<close>

text \<open>An executable driver for runs on concrete inputs.\<close>

datatype sa_move = MvSeed sa_report | MvKey sa_report | MvAnswer sa_report | MvControl sa_report
  | MvTimeout sa_report | MvDisconnect sa_report | MvExpired sa_report

fun sa_do :: "sa_move \<Rightarrow> sa_system \<Rightarrow> (sa_report \<times> SecAccSignal \<times> AO_SecurityAccess \<times> byte) option" where
  "sa_do (MvSeed rp) st = (if sy_waiting st = None \<and> rp_SessionType rp = sy_session st
     then Some (rp, REQUEST_SEED_SIG, sy_ao st, sy_session st) else None)"
| "sa_do (MvKey rp) st = (if sy_waiting st = None \<and> rp_SessionType rp = sy_session st
     then Some (rp, SEND_KEY_SIG, sy_ao st, sy_session st) else None)"
| "sa_do (MvAnswer rp) st = (case sy_waiting st of None \<Rightarrow> None
     | Some w \<Rightarrow> if snd w = rp_recvSubFunc rp \<and> rp_SessionType rp = sy_session st
         then Some (rp, answer_to (fst w), sy_ao st, sy_session st) else None)"
| "sa_do (MvControl rp) st = (if sy_waiting st = None
       \<and> (rp_SessionType rp = DEFAULT_SESSION \<or> find_session (sy_ao st) (rp_SessionType rp) \<noteq> None)
     then Some (rp, SESSION_CONTROL_SIG, sy_ao st, rp_SessionType rp) else None)"
| "sa_do (MvTimeout rp) st = (if sy_waiting st = None
     then Some (rp, SESSION_TIMEOUT_SIG, sy_ao st, DEFAULT_SESSION) else None)"
| "sa_do (MvDisconnect rp) st = (if sy_session st \<noteq> DEFAULT_SESSION \<and> rp_SessionType rp = sy_session st
     then Some (rp, SESSION_CONTROL_SIG, sy_ao st, DEFAULT_SESSION) else None)"
| "sa_do (MvExpired rp) st = (if delay_timer (sy_ao st)
     then Some (rp, DELAY_TIMER_EXPIRED_SIG, sy_ao st\<lparr>delay_timer := False\<rparr>, sy_session st) else None)"

lemma sa_do_input: "sa_do m st = Some (rp, s, a, sid) \<Longrightarrow> sa_input st rp s a sid"
  by (cases m) (auto simp: sa_input.simps split: if_splits option.splits)

fun sa_run :: "sa_move list \<Rightarrow> sa_system \<Rightarrow> sa_system option" where
  "sa_run [] st = Some st"
| "sa_run (m # ms) st = (case sa_do m st of None \<Rightarrow> None
     | Some (rp, s, a, sid) \<Rightarrow> (case MFsm_dispatch rp s a of Inl e \<Rightarrow> None
         | Inr b \<Rightarrow> sa_run ms (sa_next rp s a sid b)))"

lemma sa_run_reachable: "sa_run ms st = Some st' \<Longrightarrow> sa_reachable st \<Longrightarrow> sa_reachable st'"
proof (induction ms st rule: sa_run.induct)
  case (2 m ms st)
  obtain rp s a sid where d: "sa_do m st = Some (rp, s, a, sid)" using 2(2) by (auto split: option.splits)
  obtain b where b: "MFsm_dispatch rp s a = Inr b" using 2(2) d by (auto split: sum.splits)
  have "sa_reachable (sa_next rp s a sid b)"
    by (rule sa_reachable.step [OF 2(3)]) (rule sa_step.intros [OF sa_do_input [OF d] b])
  then show ?case using 2(1) [OF d refl refl refl b] 2(2) d b by simp
qed simp

lemma sa_config_check:
  assumes "\<forall>s\<in>set (session_list a). \<forall>l\<in>set (level_list s). Att_Cnt_Limit l \<noteq> 0 \<and> Att_Cnt l \<le> Att_Cnt_Limit l
      \<and> 2 + seed_byte_size (seed_size l) \<le> UDS_MAX_DATA_SIZE"
    and "limit_ref 0 (session_list a) = None"
  shows "sa_config_ok a"
proof -
  have "sess a (fst r) \<in> set (session_list a)" "level_at a r \<in> set (level_list (sess a (fst r)))" if "valid_ref a r" for r
    using that by (simp_all add: valid_ref_def sess_def level_at_def)
  then show ?thesis using assms unfolding sa_config_ok_def limit_ref_None by blast
qed

text \<open>A session with two levels, two attempts each, a delay of ten seconds and seeds of 4 and 2 bytes.\<close>

definition example_level :: "u16 \<Rightarrow> u32 \<Rightarrow> SecurityLevel" where
  "example_level l bits = \<lparr>Security_Level = l, Att_Cnt = 0, Att_Cnt_Limit = 2, Static_Seed = 0, Delay_Timer = 10,
     key_size = 32, seed_size = bits, request_seed_id = 0\<rparr>"

definition example_start :: sa_system where
  "example_start = \<lparr>sy_ao = SecurityAccess_CreateActiveObject
      [\<lparr>sb_session_id = 3, sb_levels = [example_level 1 32, example_level 3 16]\<rparr>] (\<lambda>_ _. None),
     sy_session = DEFAULT_SESSION, sy_waiting = None\<rparr>"

definition example_report :: "byte \<Rightarrow> byte \<Rightarrow> byte \<Rightarrow> sa_report" where
  "example_report sid sub nrc = \<lparr>rp_SessionType = sid, rp_recvSid = 0x27, rp_recvSubFunc = sub, rp_recvDataLen = 6,
     rp_nrcCode = nrc, rp_sem = True\<rparr>"

lemma example_start_reachable: "sa_reachable example_start"
proof -
  have "sa_config_ok (sy_ao example_start)" by (rule sa_config_check) code_simp+
  then show ?thesis unfolding example_start_def by (intro sa_reachable.start [OF refl]) simp
qed

definition example_run :: "sa_move list \<Rightarrow> sa_system" where
  "example_run ms = (case sa_run ms example_start of Some st \<Rightarrow> st | None \<Rightarrow> example_start)"

lemma example_run_reachable: "sa_reachable (example_run ms)"
  using sa_run_reachable example_start_reachable by (auto simp: example_run_def split: option.split)

text \<open>Unlocking a level: session control, seed, its answer, key, its answer.\<close>

definition unlock_moves :: "byte \<Rightarrow> sa_move list" where
  "unlock_moves lvl = [MvSeed (example_report 3 lvl 0), MvAnswer (example_report 3 lvl 0),
     MvKey (example_report 3 (lvl + 1) 0), MvAnswer (example_report 3 (lvl + 1) 0)]"

definition unlocked_1 :: sa_system where
  "unlocked_1 = example_run (MvControl (example_report 3 0 0) # unlock_moves 1)"

definition unlocked_1_3 :: sa_system where
  "unlocked_1_3 = example_run (MvControl (example_report 3 0 0) # unlock_moves 1 @ unlock_moves 3)"

lemma unlocked_1_eq: "sy_waiting unlocked_1 = None \<and> sy_session unlocked_1 = 3 \<and> ao_state (sy_ao unlocked_1) = State_UnlockedNoActiveSeed
   \<and> unlocked_level (sess (sy_ao unlocked_1) 0) = Some (0, 0) \<and> length (session_list (sy_ao unlocked_1)) = 2"
  by code_simp

lemma unlocked_1_3_eq: "sy_waiting unlocked_1_3 = None \<and> sy_session unlocked_1_3 = 3 \<and> ao_state (sy_ao unlocked_1_3) = State_UnlockedNoActiveSeed
   \<and> unlocked_level (sess (sy_ao unlocked_1_3) 0) = Some (0, 1) \<and> active_level (sess (sy_ao unlocked_1_3) 0) = None"
  by code_simp

section \<open>Witnesses\<close>

lemma unlocked_reachable: "sa_reachable unlocked_1" "sa_reachable unlocked_1_3"
  by (simp_all add: unlocked_1_def unlocked_1_3_def example_run_reachable)

lemma request_input:
  "sy_waiting st = None \<Longrightarrow> rp_SessionType rp = sy_session st \<Longrightarrow> sa_input st rp REQUEST_SEED_SIG (sy_ao st) (sy_session st)"
  by (simp add: sa_input.simps)

lemma example_report_sel [simp]: "rp_SessionType (example_report sid sub nrc) = sid"
  by (simp add: example_report_def)


theorem unlocked_in_session_witness:
  "find_session (sy_ao unlocked_1) (sy_session unlocked_1) = Some 0 \<and> current_session (sy_ao unlocked_1) = Some 0"
  using unlocked_in_session [OF unlocked_reachable(1), of 0 "(0, 0)"] unlocked_1_eq by simp

theorem session_change_locks_witness:
  "\<exists>b. MFsm_dispatch (example_report 3 0 0) SESSION_TIMEOUT_SIG (sy_ao unlocked_1) = Inr b
     \<and> (\<forall>i < length (session_list b). unlocked_level (sess b i) = None)"
proof -
  have "sa_input unlocked_1 (example_report 3 0 0) SESSION_TIMEOUT_SIG (sy_ao unlocked_1) DEFAULT_SESSION"
    using unlocked_1_eq by (intro sa_input.timeout) simp
  from session_change_locks [OF unlocked_reachable(1) this] show ?thesis by simp
qed

theorem unlock_needs_key_witness:
  "let a = sy_ao (example_run (MvControl (example_report 3 0 0) # take 3 (unlock_moves 1))) in
     current_session a = Some 0 \<and> active_level (sess a 0) = Some (0, 0)"
proof -
  let ?a = "sy_ao (example_run (MvControl (example_report 3 0 0) # take 3 (unlock_moves 1)))"
  let ?b = "sy_ao unlocked_1"
  have "MFsm_dispatch (example_report 3 2 0) SEND_KEY_RESPONSE_SIG ?a = Inr ?b" by code_simp
  moreover have "unlocked_level (sess ?a 0) = None" by code_simp
  moreover have "unlocked_level (sess ?b 0) = Some (0, 0)" using unlocked_1_eq by simp
  ultimately show ?thesis using unlock_needs_key [of "example_report 3 2 0" SEND_KEY_RESPONSE_SIG ?a ?b 0 "(0, 0)"]
    by (simp add: Let_def)
qed

text \<open>
  The exception is reachable: after the keys of two levels were accepted in one session, the
  request of a seed for the second level crashes the process.
\<close>

theorem second_unlock_crash:
  "\<exists>st rp. sa_reachable st \<and> sa_input st rp REQUEST_SEED_SIG (sy_ao st) (sy_session st)
     \<and> unlocked_level (sess (sy_ao st) 0) = Some (0, 1)
     \<and> MFsm_dispatch rp REQUEST_SEED_SIG (sy_ao st) = Inl SaNull"
proof -
  let ?rp = "example_report 3 3 0"
  have "sa_input unlocked_1_3 ?rp REQUEST_SEED_SIG (sy_ao unlocked_1_3) (sy_session unlocked_1_3)"
    using unlocked_1_3_eq by (intro request_input) simp_all
  moreover have "MFsm_dispatch ?rp REQUEST_SEED_SIG (sy_ao unlocked_1_3) = Inl SaNull" by code_simp
  ultimately show ?thesis using unlocked_reachable(2) unlocked_1_3_eq by blast
qed

section \<open>Attempts\<close>

text \<open>
  C35: while the delay timer runs, no request of a seed or key reaches the application, and neither
  changes a counter, a level or the timer.
\<close>

theorem delay_blocks:
  assumes "sa_reachable st" "delay_timer (sy_ao st)" "s = REQUEST_SEED_SIG \<or> s = SEND_KEY_SIG"
  shows "\<exists>n. (if s = SEND_KEY_SIG then n = 0x24 else n = 0x13 \<or> n = 0x22 \<or> n = 0x37)
     \<and> MFsm_dispatch rp s (sy_ao st) = Inr (ResponseNRC rp n (sy_ao st))"
proof -
  let ?a = "sy_ao st"
  have "delay_ok ?a (sy_session st)" using sa_reachable_inv [OF assms(1)] by (simp add: sa_inv_def)
  then have "ao_state ?a = State_LockedNoActiveSeed \<or> ao_state ?a = State_UnlockedNoActiveSeed"
    using assms(2) by (simp add: delay_ok_def)
  moreover have "\<exists>k. (k = 0x13 \<or> k = 0x22 \<or> k = 0x37) \<and> ResponseNRC rp n ?a = ResponseNRC rp k ?a"
    if "n = 0x13 \<or> n = 0x22 \<or> n = 0x37" for n using that by blast
  ultimately show ?thesis using assms(2,3)
    by (auto simp: MFsm_dispatch_eq state_fn_def handle_LockedNoActiveSeed_def handle_UnlockedNoActiveSeed_def
        MsgLengthIsNok_def DelayTimerIsNotExpired_def M_Handled_def)
qed

text \<open>
  C34: a wrong key is counted. In every reachable state that waits for the answer to a key the counter
  of the active level is below its limit; the wrong key raises it by one without wrap-around, and at
  the limit the delay timer starts and the answer is 0x36, otherwise 0x35.
\<close>

theorem wrong_key_counted:
  assumes "sa_reachable st" "sy_waiting st = Some (SEND_KEY_SIG, sub)" "rp_nrcCode rp = 0x35"
  shows "\<exists>r b. cur_active (sy_ao st) = Some r \<and> MFsm_dispatch rp SEND_KEY_RESPONSE_SIG (sy_ao st) = Inr b
    \<and> unat (Att_Cnt (level_at b r)) = unat (Att_Cnt (level_at (sy_ao st) r)) + 1
    \<and> Att_Cnt (level_at b r) \<le> Att_Cnt_Limit (level_at b r)
    \<and> (delay_timer b \<longleftrightarrow> Att_Cnt (level_at b r) = Att_Cnt_Limit (level_at b r))
    \<and> SaSetNrc (if delay_timer b then 0x36 else 0x35) \<in> set (ao_trace b)"
proof -
  let ?a = "sy_ao st"
  have c: "core ?a (sy_session st)" and w: "wait_ok ?a (sy_session st) SEND_KEY_SIG sub"
    using sa_reachable_inv [OF assms(1)] assms(2) by (simp_all add: sa_inv_core waiting_ok_def)
  have st: "ao_state ?a \<in> {State_LockedWaitingForKey, State_UnlockedWaitingForKey}" using w by (simp add: wait_ok_def)
  note k = waiting_for_key [OF c st]
  obtain r where r: "cur_active ?a = Some r" using k(5) by blast
  have v: "valid_ref ?a r" using ao_ok_active [OF core_ao [OF c] r] by simp
  let ?n = "Att_Cnt (level_at ?a r)" and ?m = "Att_Cnt_Limit (level_at ?a r)"
  have lt: "?n < ?m"
    using c v k(2) by (auto simp: core_def ao_ok_def sa_config_ok_def no_limit_def at_limit_def order_le_less)
  have suc: "unat (?n + 1) = unat ?n + 1" using lt unsigned_less [of ?m, where ?'a = nat] by (simp add: unat_plus_if' word_less_nat_alt)
  define n where "n = (if ?n + 1 \<ge> ?m then ?m else ?n + 1)"
  have nn: "n = ?n + 1" using lt suc unfolding n_def by (auto simp: word_le_nat_alt word_less_nat_alt intro: word_unat_eq_iff [THEN iffD2])
  define a1 where "a1 = set_Att_Cnt r n ?a"
  have ca: "cur_active a1 = Some r" using r by (simp add: a1_def)
  obtain e where e: "SaveAttCntToTree a1 = Inr (sa_emit e a1)" using SaveAttCnt_eq [OF ca] by blast
  have ca': "the_active (sa_emit e a1) = Inr r" using ca by (intro the_active_eq) simp
  have la: "level_at a1 r = (level_at ?a r)\<lparr>Att_Cnt := n\<rparr>" using v by (simp add: a1_def level_at_set_Att_Cnt)
  obtain bk where disp: "MFsm_dispatch rp SEND_KEY_RESPONSE_SIG ?a = mbind (wrong_key bk rp ?a) (\<lambda>(m, b). Inr b)"
    using st assms(3) by (auto simp: MFsm_dispatch_eq state_fn_def handle_LockedWaitingForKey_def
        handle_UnlockedWaitingForKey_def KeyIsNok_def)
  define b where "b = (SetResponseNRC rp (if ?n + 1 \<ge> ?m then 0x36 else 0x35)
      (if ?n + 1 \<ge> ?m then sa_emit (SaTimerStart (of_nat (unat (Delay_Timer (level_at a1 r)) * 1000))) (sa_emit e a1\<lparr>delay_timer := True\<rparr>)
       else sa_emit e a1))\<lparr>ao_state := bk\<rparr>"
  have nt: "\<not> delay_timer a1" using k(1) by (simp add: a1_def)
  have "wrong_key bk rp ?a = Inr (M_TRANSME, b)"
  proof (cases "?n + 1 \<ge> ?m")
    case True
    have "SaveAttCntToTree (set_Att_Cnt r ?m ?a) = Inr (sa_emit e a1)" using e True by (simp add: a1_def n_def)
    then show ?thesis using the_active_eq [OF r] ca' nt True
      by (simp add: wrong_key_def Let_def b_def M_Translate_def TriggerDelayTimer_def)
  next
    case False
    have "SaveAttCntToTree (set_Att_Cnt r (?n + 1) ?a) = Inr (sa_emit e a1)" using e False by (simp add: a1_def n_def)
    then show ?thesis using the_active_eq [OF r] False
      by (simp add: wrong_key_def Let_def b_def M_Translate_def)
  qed
  with disp have d: "MFsm_dispatch rp SEND_KEY_RESPONSE_SIG ?a = Inr b" by simp
  have "level_at b r = (level_at ?a r)\<lparr>Att_Cnt := ?n + 1\<rparr>" using la nn
    by (simp add: b_def SetResponseNRC_def TryToPostSemaphore_def)
  moreover have "delay_timer b \<longleftrightarrow> ?n + 1 \<ge> ?m" using nt by (simp add: b_def SetResponseNRC_def TryToPostSemaphore_def)
  moreover have "SaSetNrc (if ?n + 1 \<ge> ?m then 0x36 else 0x35) \<in> set (ao_trace b)"
    by (simp add: b_def SetResponseNRC_def TryToPostSemaphore_def)
  moreover have "?n + 1 \<ge> ?m \<longleftrightarrow> ?n + 1 = ?m" "?n + 1 \<le> ?m" using lt suc by (auto simp: word_le_nat_alt word_less_nat_alt word_unat_eq_iff)
  ultimately show ?thesis using r d suc by (intro exI [of _ r] exI [of _ b]) auto
qed

text \<open>A report with one wrong key before it, and one at the limit.\<close>

definition key_waiting :: sa_system where
  "key_waiting = example_run (MvControl (example_report 3 0 0) # take 3 (unlock_moves 1))"

definition wrong_moves :: "sa_move list" where
  "wrong_moves = take 3 (unlock_moves 1) @ [MvAnswer (example_report 3 2 0x35)]"

definition delayed_run :: sa_system where
  "delayed_run = example_run (MvControl (example_report 3 0 0) # wrong_moves @ wrong_moves)"

theorem wrong_key_counted_witness:
  "\<exists>r b. cur_active (sy_ao key_waiting) = Some r
    \<and> MFsm_dispatch (example_report 3 2 0x35) SEND_KEY_RESPONSE_SIG (sy_ao key_waiting) = Inr b
    \<and> unat (Att_Cnt (level_at b r)) = unat (Att_Cnt (level_at (sy_ao key_waiting) r)) + 1"
proof -
  have "sy_waiting key_waiting = Some (SEND_KEY_SIG, 2)" by code_simp
  moreover have "sa_reachable key_waiting" by (simp add: key_waiting_def example_run_reachable)
  moreover have "rp_nrcCode (example_report 3 2 0x35) = 0x35" by (simp add: example_report_def)
  ultimately show ?thesis using wrong_key_counted [of key_waiting 2 "example_report 3 2 0x35"] by blast
qed

theorem delay_blocks_witness:
  "\<exists>n. (n = 0x13 \<or> n = 0x22 \<or> n = 0x37)
     \<and> MFsm_dispatch (example_report 3 1 0) REQUEST_SEED_SIG (sy_ao delayed_run) = Inr (ResponseNRC (example_report 3 1 0) n (sy_ao delayed_run))"
proof -
  have "delay_timer (sy_ao delayed_run)" by code_simp
  moreover have "sa_reachable delayed_run" by (simp add: delayed_run_def example_run_reachable)
  ultimately show ?thesis using delay_blocks [of delayed_run REQUEST_SEED_SIG "example_report 3 1 0"] by simp
qed

section \<open>One response for each request\<close>

definition is_response :: "sa_event \<Rightarrow> bool" where
  "is_response e = (case e of SaNrc n \<Rightarrow> True | SaToApp \<Rightarrow> True | SaZeroSeed x \<Rightarrow> True | _ \<Rightarrow> False)"

definition answered :: "sa_report \<Rightarrow> AO_SecurityAccess \<Rightarrow> AO_SecurityAccess \<Rightarrow> bool" where
  "answered rp a b \<longleftrightarrow> (\<exists>pre e. ao_trace b = ao_trace a @ pre @ [e] @ (if rp_sem rp then [SaPost] else [])
     \<and> is_response e \<and> (\<forall>x\<in>set pre. \<not> is_response x \<and> x \<noteq> SaPost))"

lemma answered_simps [simp]:
  "answered rp a (ResponseNRC rp n a)" "answered rp a (b\<lparr>ao_state := s\<rparr>) = answered rp a b"
  "answered rp a (TryToPostSemaphore rp (sa_emit (SaZeroSeed x) a))"
  by (auto simp: answered_def ResponseNRC_def TryToPostSemaphore_def is_response_def intro!: exI [of _ "[]"])

lemma answered_delay:
  assumes "DelayTimerIsNotExpired a = (d, b)"
  shows "answered rp a (ResponseNRC rp n b)" "answered rp a (TryToPostSemaphore rp (sa_emit (SaZeroSeed x) b))"
proof -
  obtain ts where ts: "ao_trace b = ao_trace a @ ts" "\<forall>x\<in>set ts. \<not> is_response x \<and> x \<noteq> SaPost"
    using assms by (auto simp: DelayTimerIsNotExpired_def Let_def is_response_def split: if_splits option.splits)
  show "answered rp a (ResponseNRC rp n b)" "answered rp a (TryToPostSemaphore rp (sa_emit (SaZeroSeed x) b))"
    using ts by (auto simp: answered_def ResponseNRC_def TryToPostSemaphore_def is_response_def intro!: exI [of _ ts])
qed

text \<open>
  Whatever the state, a request of a seed or key whose dispatch returns produces exactly one
  response - a negative one, a seed of zeros, or the request passed to the application - and then
  posts the semaphore that the manager waits for.
\<close>

theorem one_response:
  assumes "MFsm_dispatch rp s a = Inr b" "s = REQUEST_SEED_SIG \<or> s = SEND_KEY_SIG"
  shows "answered rp a b"
proof -
  obtain m where m: "state_fn (ao_state a) rp s a = Inr (m, b)" using assms(1) by (auto simp: dispatch_Inr)
  obtain d a1 where d: "DelayTimerIsNotExpired a = (d, a1)" by (cases "DelayTimerIsNotExpired a")
  note r = answered_delay [OF d]
  show ?thesis using assms(2) m d r
    by (cases "ao_state a")
      (auto simp: state_fn_def handle_LockedNoActiveSeed_def handle_LockedWaitingForKey_def handle_UnlockedNoActiveSeed_def
        handle_UnlockedWaitingForKey_def send_key_def ResponseAllZeroSeed_def Let_def M_Handled_def M_Translate_def split: if_splits)
qed

theorem one_response_witness:
  "answered (example_report 3 3 0) (sy_ao unlocked_1)
     (case MFsm_dispatch (example_report 3 3 0) REQUEST_SEED_SIG (sy_ao unlocked_1) of Inr b \<Rightarrow> b | Inl e \<Rightarrow> sy_ao unlocked_1)"
proof -
  have "case MFsm_dispatch (example_report 3 3 0) REQUEST_SEED_SIG (sy_ao unlocked_1) of Inr b \<Rightarrow> True | Inl e \<Rightarrow> False"
    by code_simp
  then obtain b where "MFsm_dispatch (example_report 3 3 0) REQUEST_SEED_SIG (sy_ao unlocked_1) = Inr b"
    by (auto split: sum.splits)
  then show ?thesis using one_response by simp
qed

text \<open>
  A change to a session for which the configuration has no security binding ends the process with
  a fatal assertion, whenever the delay timer does not run and no counter is at its limit.
\<close>

theorem unbound_session_fatal:
  assumes "sa_reachable st" "rp_SessionType rp \<noteq> DEFAULT_SESSION" "find_session (sy_ao st) (rp_SessionType rp) = None"
    and "\<not> delay_timer (sy_ao st)" "no_limit (sy_ao st)"
  shows "MFsm_dispatch rp SESSION_CONTROL_SIG (sy_ao st) = Inl SaFatal"
proof -
  let ?a = "sy_ao st"
  have c: "core ?a (sy_session st)" using sa_reachable_inv [OF assms(1)] by (simp add: sa_inv_core)
  obtain i where i: "current_session ?a = Some i" by (rule core_current [OF c])
  have l: "DelayTimerIsNotExpired ?a = (False, ?a)"
    using assms(4,5) limit_ref_None [of ?a] by (simp add: DelayTimerIsNotExpired_def no_limit_def)
  show ?thesis using assms(2,3) i l
    by (cases "ao_state ?a")
      (simp_all add: MFsm_dispatch_eq state_fn_def handle_LockedNoActiveSeed_def handle_LockedWaitingForKey_def
        handle_UnlockedNoActiveSeed_def handle_UnlockedWaitingForKey_def leave_session_def DeactivateAndLock_eq
        SwitchSessionBasedOnEvent_def)
qed

theorem unbound_session_fatal_witness:
  "MFsm_dispatch (example_report 2 0 0) SESSION_CONTROL_SIG (sy_ao unlocked_1) = Inl SaFatal"
proof -
  have "find_session (sy_ao unlocked_1) 2 = None" "\<not> delay_timer (sy_ao unlocked_1)"
    "limit_ref 0 (session_list (sy_ao unlocked_1)) = None" by code_simp+
  then show ?thesis
    using unbound_session_fatal [OF unlocked_reachable(1), of "example_report 2 0 0"] by (simp add: no_limit_def limit_ref_None)
qed

text \<open>
  A session change that is handled between the firing of the delay timer and the handling of its
  expiry starts the timer again; the first expiry then switches the session, and the second one
  follows the null pointer of the session's active level.
\<close>

theorem expiry_race_crash:
  "\<exists>st rp. sa_reachable st \<and> delay_timer (sy_ao st)
     \<and> mbind (MFsm_dispatch rp SESSION_CONTROL_SIG (sy_ao st\<lparr>delay_timer := False\<rparr>)) (\<lambda>a1.
       mbind (MFsm_dispatch rp DELAY_TIMER_EXPIRED_SIG a1) (\<lambda>a2.
         if delay_timer a2 then MFsm_dispatch rp DELAY_TIMER_EXPIRED_SIG (a2\<lparr>delay_timer := False\<rparr>) else Inr a2))
       = Inl SaNull"
proof -
  let ?rp = "example_report 3 0 0"
  have "delay_timer (sy_ao delayed_run)" by code_simp
  moreover have "sa_reachable delayed_run" by (simp add: delayed_run_def example_run_reachable)
  moreover have "mbind (MFsm_dispatch ?rp SESSION_CONTROL_SIG (sy_ao delayed_run\<lparr>delay_timer := False\<rparr>)) (\<lambda>a1.
       mbind (MFsm_dispatch ?rp DELAY_TIMER_EXPIRED_SIG a1) (\<lambda>a2.
         if delay_timer a2 then MFsm_dispatch ?rp DELAY_TIMER_EXPIRED_SIG (a2\<lparr>delay_timer := False\<rparr>) else Inr a2))
       = Inl SaNull" by code_simp
  ultimately show ?thesis by (intro exI [of _ delayed_run] exI [of _ ?rp] conjI)
qed

end
