(* ===== verification/Uds_MgrProps.thy ===== *)
theory Uds_MgrProps
  imports Uds_MgrInv Uds_SecProps
begin

unbundle bit_operations_syntax

text \<open>
  The properties of the manager: which requests reach the diagnostic service, how requests and
  timeouts are answered, and what the reachable states guarantee for the responses.
\<close>

declare split_paired_All [simp del] split_paired_Ex [simp del]

section \<open>Reachable states\<close>

text \<open>
  C22: in every reachable state the buffers have their size and the lengths are in range, the counter and
  the delay of failed authentications are in their bounds, and a request that the diagnostic service
  has is complete in the receive buffer: its length is not zero, its service is one that is passed on,
  and the name in a file transfer lies within it.
\<close>

theorem manager_invariant:
  assumes "uds_reachable c m"
  shows "length (recvBuf m) = UDS_MAX_DATA_SIZE \<and> length (sendBuf m) = UDS_MAX_DATA_SIZE \<and> unat (sendDataLen m) \<le> UDS_MAX_DATA_SIZE
     \<and> unat (authAttCnt m) \<le> 10 \<and> 60 \<le> unat (authDelayTime m) \<and> unat (authDelayTime m) \<le> 960
     \<and> (\<not> readyToRecvData m \<longrightarrow> recvDataLen m \<noteq> 0 \<and> unat (recvDataLen m) \<le> UDS_MAX_DATA_SIZE \<and> recvBuf m ! 0 \<in> services
          \<and> (recvBuf m ! 0 = 0x38 \<longrightarrow> 4 + unat (be_at (recvBuf m) 2) \<le> unat (recvDataLen m)))"
  using uds_reachable_inv [OF assms] by (auto simp: uds_inv_def bufs_ok_def auth_ok_def pending_ok_def file_request_ok_def)

section \<open>Requests that reach the diagnostic service\<close>

lemma GeneralServerResp_passed:
  assumes "GeneralServerResp c a sid m = Inr (False, m')"
  shows "IsServiceIDSupported c sid" "IsAuthCheckOK c sid m" "IsValidSvcActiveSession c sid m"
    "IsSvcSecAccessMatched c sid m = Inr True"
proof -
  define m1 where "m1 = (if authState m = AUTH_STATE_AUTHENTICATED
      then UdsTimerEventReport AUTH_TIMER_RESTART ((case cfg_auth_timeout c of None \<Rightarrow> MAX_AUTH_TIME | Some t \<Rightarrow> t) * 1000) m else m)"
  have q: "quiet m m1" by (simp add: m1_def)
  have l: "level_unlocked c ns m1 = level_unlocked c ns m" for ns
    by (induction ns) (simp_all add: quiet_sel [OF q] cong: if_cong split: option.split)
  have "IsServiceIDSupported c sid" "IsAuthCheckOK c sid m1" "IsValidSvcActiveSession c sid m1"
    "IsSvcSecAccessMatched c sid m1 = Inr True"
    using assms unfolding GeneralServerResp_def m1_def [symmetric] by (auto simp: Let_def split: if_splits)
  moreover have "IsAuthCheckOK c sid m1 = IsAuthCheckOK c sid m" "IsValidSvcActiveSession c sid m1 = IsValidSvcActiveSession c sid m"
    "IsSvcSecAccessMatched c sid m1 = IsSvcSecAccessMatched c sid m"
    unfolding IsAuthCheckOK_def IsValidSvcActiveSession_def IsSvcSecAccessMatched_def access_unlocked_def
      session_named_def quiet_sel [OF q] l by (rule refl)+
  ultimately show "IsServiceIDSupported c sid" "IsAuthCheckOK c sid m" "IsValidSvcActiveSession c sid m"
    "IsSvcSecAccessMatched c sid m = Inr True" by simp_all
qed

text \<open>The manager was ready and now has a request that the diagnostic service must answer.\<close>

definition forwards :: "uds_cfg \<Rightarrow> uds_addr \<Rightarrow> byte list \<Rightarrow> uds_mgr \<Rightarrow> uds_mgr \<Rightarrow> bool" where
  "forwards c a msg m m' \<longleftrightarrow> DiagIndicationHandler c a msg TAF_DOIP_RESULT_OK m = Inr m'
     \<and> readyToRecvData m \<and> \<not> readyToRecvData m'"

lemma receive_sel [simp]:
  "SessionType (receive_request a msg m) = SessionType m" "authState (receive_request a msg m) = authState m"
  "mSecurityAccess (receive_request a msg m) = mSecurityAccess m" "readyToRecvData (receive_request a msg m) = readyToRecvData m"
  "currentRoleVal (receive_request a msg m) = currentRoleVal m"
  by (simp_all add: receive_request_def Let_def)

lemma forwards_request:
  assumes "forwards c a msg m m'" "length (recvBuf m) = UDS_MAX_DATA_SIZE"
  obtains sid bs m1 m2 where "msg = sid # bs" "sid \<noteq> 0x3E" "\<not> isPaused m" "\<not> isResetInProgress m"
    "ad_functional a \<Longrightarrow> cfg_service_functional c sid"
    "GeneralServerResp c a sid (receive_request a msg m) = Inr (False, m1)"
    "dispatch_service c sid a m1 = Inr (False, m2)"
    "m' = CheckAndSendInd c sid a (restart_s3 c sid False m2)"
proof -
  have d: "DiagIndicationHandler c a msg TAF_DOIP_RESULT_OK m = Inr m'" and r: "readyToRecvData m" "\<not> readyToRecvData m'"
    using assms by (simp_all add: forwards_def)
  have n: "readyToRecvData (SendNRC c sid x a m) = readyToRecvData m" for sid x
    by (rule quiet_sel(12) [OF quiet_SendNRC])
  obtain sid bs where msg: "msg = sid # bs" using d r by (cases msg) (auto simp: DiagIndicationHandler_def)
  have p: "\<not> (ad_functional a \<and> \<not> cfg_service_functional c sid)" "\<not> isResetInProgress m" "sid \<noteq> 0x3E" "\<not> isPaused m"
    using d r n quiet_sel(12) [OF tester_quiet, of c a "0x3E # bs" m m'] unfolding msg
    by (auto simp: DiagIndicationHandler_def split: if_splits)
  have h: "handle_request c a sid (receive_request a msg m) = Inr m'"
    using d r p unfolding msg by (simp add: DiagIndicationHandler_def)
  obtain b m1 where g: "GeneralServerResp c a sid (receive_request a msg m) = Inr (b, m1)"
    and t: "if b then m' = m1 else \<exists>i m2. dispatch_service c sid a m1 = Inr (i, m2)
        \<and> m' = (if \<not> i then CheckAndSendInd c sid a (restart_s3 c sid i m2) else restart_s3 c sid i m2)"
    using h by (auto simp: handle_request_def Let_def split: if_splits)
  have r1: "readyToRecvData m1" using quiet_sel(12) [OF general_quiet [OF g]] r(1) by simp
  then have b: "\<not> b" using t r(2) by (auto split: if_splits)
  then obtain i m2 where d2: "dispatch_service c sid a m1 = Inr (i, m2)"
    and m': "m' = (if \<not> i then CheckAndSendInd c sid a (restart_s3 c sid i m2) else restart_s3 c sid i m2)"
    using t by auto
  have "length (recvBuf m1) = UDS_MAX_DATA_SIZE"
    using assms(2) quiet_sel(1) [OF general_quiet [OF g]] by (simp add: receive_request_def Let_def)
  from post_dispatch [OF this, of sid c a] d2 have "i \<Longrightarrow> calm m1 m2"
    by (auto simp: ind_post_def handled_def)
  then have "\<not> i" using m' r(2) r1 calm_sel(9) [of m1 m2] quiet_sel(12) [OF quiet_S3(2) [of m2 c sid i]] by auto
  then show ?thesis using that msg p g b d2 m' by simp
qed

lemma level_unlocked_True:
  assumes "level_unlocked c ns m = Inr x" "x \<noteq> Some False"
  shows "\<exists>n\<in>set ns. cfg_security_level_id c n = None
    \<or> (\<exists>l. cfg_security_level_id c n = Some l \<and> SecurityAccess_IsLevelUnlocked l (mSecurityAccess m) = Inr True)"
  using assms by (induction ns) (auto split: option.splits if_splits)

lemma IsLevelUnlocked_True:
  "SecurityAccess_IsLevelUnlocked l a = Inr True \<longleftrightarrow> (\<exists>i r. current_session a = Some i \<and> unlocked_level (sess a i) = Some r
     \<and> l = ucast (Security_Level (level_at a r)))"
  by (auto simp: SecurityAccess_IsLevelUnlocked_def the_current_def split: option.splits)

lemma IsUnlocked_True:
  "SecurityAccess_IsUnlocked a = Inr True \<longleftrightarrow> (\<exists>i r. current_session a = Some i \<and> unlocked_level (sess a i) = Some r)"
  by (auto simp: SecurityAccess_IsUnlocked_def the_current_def split: option.splits)

lemma forwarded_checks:
  assumes "forwards c a (sid # bs) m m'" "length (recvBuf m) = UDS_MAX_DATA_SIZE"
  shows "\<not> isPaused m \<and> \<not> isResetInProgress m \<and> (ad_functional a \<longrightarrow> cfg_service_functional c sid)
     \<and> (\<exists>auth. cfg_service c sid = Some (True, auth) \<and> (auth \<and> sid \<noteq> 0x29 \<longrightarrow> authState m = AUTH_STATE_AUTHENTICATED))
     \<and> (SessionType m = DEFAULT_SESSION \<longrightarrow> sid \<notin> {0x27, 0x2F, 0x36, 0x37, 0x38})
     \<and> (\<forall>ac. cfg_service_access c sid = Some ac \<longrightarrow>
          (ac_session ac \<noteq> [] \<longrightarrow> (\<exists>n\<in>set (ac_session ac). map_of (cfg_session_map c) n = Some (SessionType m)))
        \<and> (ac_security_type ac = 0x27 \<and> sid \<noteq> 0x27 \<and> SessionType m \<noteq> DEFAULT_SESSION \<longrightarrow>
           (\<exists>i r. current_session (mSecurityAccess m) = Some i \<and> unlocked_level (sess (mSecurityAccess m) i) = Some r
            \<and> (ac_security_level ac \<noteq> [] \<longrightarrow> (\<exists>n\<in>set (ac_security_level ac). cfg_security_level_id c n = None
                 \<or> cfg_security_level_id c n = Some (ucast (Security_Level (level_at (mSecurityAccess m) r))))))))"
proof -
  obtain m1 where p: "\<not> isPaused m" "\<not> isResetInProgress m" "ad_functional a \<Longrightarrow> cfg_service_functional c sid"
    and g: "GeneralServerResp c a sid (receive_request a (sid # bs) m) = Inr (False, m1)"
    using assms by (rule forwards_request) simp
  note g = GeneralServerResp_passed [OF g]
  have supp: "\<exists>auth. cfg_service c sid = Some (True, auth) \<and> (auth \<and> sid \<noteq> 0x29 \<longrightarrow> authState m = AUTH_STATE_AUTHENTICATED)"
    using g(1,2) by (auto simp: IsServiceIDSupported_def IsAuthCheckOK_def split: option.splits if_splits)
  have sess: "SessionType m = DEFAULT_SESSION \<longrightarrow> sid \<notin> {0x27, 0x2F, 0x36, 0x37, 0x38}"
    "\<exists>n\<in>set (ac_session ac). map_of (cfg_session_map c) n = Some (SessionType m)"
    if "cfg_service_access c sid = Some ac" "ac_session ac \<noteq> []" for ac
    using g(3) that by (auto simp: IsValidSvcActiveSession_def session_named_def list_ex_iff split: if_splits option.splits)
  have sess1: "SessionType m = DEFAULT_SESSION \<longrightarrow> sid \<notin> {0x27, 0x2F, 0x36, 0x37, 0x38}"
    using g(3) by (auto simp: IsValidSvcActiveSession_def split: if_splits)
  have unl: "\<exists>i r. current_session (mSecurityAccess m) = Some i \<and> unlocked_level (sess (mSecurityAccess m) i) = Some r
      \<and> (ac_security_level ac \<noteq> [] \<longrightarrow> (\<exists>n\<in>set (ac_security_level ac). cfg_security_level_id c n = None
           \<or> cfg_security_level_id c n = Some (ucast (Security_Level (level_at (mSecurityAccess m) r)))))"
    if "cfg_service_access c sid = Some ac" "ac_security_type ac = 0x27" "sid \<noteq> 0x27" "SessionType m \<noteq> DEFAULT_SESSION" for ac
  proof -
    note t = that
    have "access_unlocked c ac (receive_request a (sid # bs) m) = Inr True"
      using g(4) that by (simp add: IsSvcSecAccessMatched_def)
    then obtain i r where ir: "current_session (mSecurityAccess m) = Some i" "unlocked_level (sess (mSecurityAccess m) i) = Some r"
      and l: "ac_security_level ac = [] \<or> (\<exists>x. level_unlocked c (ac_security_level ac) (receive_request a (sid # bs) m) = Inr x \<and> x \<noteq> Some False)"
      using t(2) by (auto simp: access_unlocked_def IsUnlocked_True split: if_splits option.splits) blast
    then show ?thesis
      using level_unlocked_True [of c "ac_security_level ac" "receive_request a (sid # bs) m"]
      by (fastforce simp: IsLevelUnlocked_True)
  qed
  show ?thesis using p supp sess sess1 unl by blast
qed

text \<open>
  C6: a request reaches the diagnostic service only when its service is supported, allowed in the
  session, authenticated when the configuration asks for that, and, outside the default session,
  when a security level is unlocked that the configuration names for the service - or when the
  configuration names a level that does not exist. Nothing gets through while the service is paused
  or a reset is in progress.
\<close>

theorem forwarded_is_authorised:
  assumes "forwards c a (sid # bs) m m'" "length (recvBuf m) = UDS_MAX_DATA_SIZE"
  shows "\<not> isPaused m \<and> \<not> isResetInProgress m \<and> (ad_functional a \<longrightarrow> cfg_service_functional c sid)
     \<and> (\<exists>auth. cfg_service c sid = Some (True, auth) \<and> (auth \<and> sid \<noteq> 0x29 \<longrightarrow> authState m = AUTH_STATE_AUTHENTICATED))
     \<and> (SessionType m = DEFAULT_SESSION \<longrightarrow> sid \<notin> {0x27, 0x2F, 0x36, 0x37, 0x38})
     \<and> (\<forall>ac. cfg_service_access c sid = Some ac \<longrightarrow>
          (ac_session ac \<noteq> [] \<longrightarrow> (\<exists>n\<in>set (ac_session ac). map_of (cfg_session_map c) n = Some (SessionType m)))
        \<and> (ac_security_type ac = 0x27 \<and> sid \<noteq> 0x27 \<and> SessionType m \<noteq> DEFAULT_SESSION \<longrightarrow>
           (\<exists>i r. current_session (mSecurityAccess m) = Some i \<and> unlocked_level (sess (mSecurityAccess m) i) = Some r
            \<and> (ac_security_level ac \<noteq> [] \<longrightarrow> (\<exists>n\<in>set (ac_security_level ac). cfg_security_level_id c n = None
                 \<or> cfg_security_level_id c n = Some (ucast (Security_Level (level_at (mSecurityAccess m) r))))))))"
  using forwarded_checks [OF assms] .

end
