(* ===== verification/Uds_MgrAnswers.thy ===== *)
theory Uds_MgrAnswers
  imports Uds_MgrInv
begin

unbundle bit_operations_syntax

text \<open>
  What the manager answers: negative responses while a request is outstanding, and the end of a
  request nobody answers.
\<close>

declare split_paired_All [simp del] split_paired_Ex [simp del]

section \<open>Messages\<close>

definition diag_msgs :: "uds_mgr \<Rightarrow> (uds_addr \<times> byte list) list" where
  "diag_msgs m = List.map_filter (\<lambda>e. case e of UeDiag a bs \<Rightarrow> Some (a, bs) | _ \<Rightarrow> None) (um_trace m)"

lemma diag_emit [simp]:
  "diag_msgs (uemit e m) = diag_msgs m @ (case e of UeDiag a bs \<Rightarrow> [(a, bs)] | _ \<Rightarrow> [])"
  by (cases e) (simp_all add: diag_msgs_def uemit_def map_filter_def)

lemma diag_cong [simp]:
  "diag_msgs (UdsTimerEventReport t k m) = diag_msgs m" "diag_msgs (ind_report i bs m) = diag_msgs m"
  "diag_msgs (SetNRC sid n m) = diag_msgs m" "diag_msgs (CheckAndRestartS3Timer c sid False m) = diag_msgs m"
  "diag_msgs (SendIdpsIndMsg c m) = diag_msgs m" "diag_msgs (m\<lparr>tpBuf := b\<rparr>) = diag_msgs m"
  "diag_msgs (request_done m) = diag_msgs m"
  "diag_msgs (m\<lparr>recvBuf := r, recvDataLen := l, sendDataLen := s\<rparr>) = diag_msgs m"
  "diag_msgs (m\<lparr>um_timers := ts\<rparr>) = diag_msgs m" "diag_msgs (m\<lparr>um_p2q := q\<rparr>) = diag_msgs m"
proof -
  show a: "diag_msgs (UdsTimerEventReport t k m) = diag_msgs m" for t k m by (simp add: diag_msgs_def UdsTimerEventReport_def)
  show b: "diag_msgs (ind_report i bs m) = diag_msgs m" for m by (simp add: diag_msgs_def ind_report_def)
  show "diag_msgs (CheckAndRestartS3Timer c sid False m) = diag_msgs m"
    by (simp add: CheckAndRestartS3Timer_def Let_def a split: option.split)
  show "diag_msgs (SendIdpsIndMsg c m) = diag_msgs m" by (simp add: SendIdpsIndMsg_def Let_def)
  show "diag_msgs (request_done m) = diag_msgs m"
    by (simp add: request_done_def CheckAndSendCancelFileXferEvent_def diag_msgs_def ind_report_def)
qed (simp_all add: diag_msgs_def SetNRC_def)

lemma diag_SendData: "sid \<noteq> 0x3E \<Longrightarrow>
   diag_msgs (SendData c sid n a m) = diag_msgs m @ [(respond_addr a, take (unat (sendDataLen m)) (sendBuf m))]"
  by (simp add: SendData_def Let_def)

lemma diag_SendNRC [simp]: "sid \<noteq> 0x3E \<Longrightarrow> diag_msgs (SendNRC c sid n a m) = diag_msgs m @ [(respond_addr a, [0x7F, sid, n])]"
  by (simp add: SendNRC_def Let_def diag_SendData) (simp add: SetNRC_def)

section \<open>One request at a time\<close>

text \<open>
  While the diagnostic service has a request, every other request but tester present is answered
  with busy - repeat request, and the outstanding one is untouched.
\<close>

theorem busy_refused:
  assumes "\<not> readyToRecvData m" "sid \<noteq> 0x3E" "\<not> isPaused m" "\<not> isResetInProgress m"
    "ad_functional a \<longrightarrow> cfg_service_functional c sid"
  shows "\<exists>m'. DiagIndicationHandler c a (sid # bs) TAF_DOIP_RESULT_OK m = Inr m'
     \<and> diag_msgs m' = diag_msgs m @ [(respond_addr a, [0x7F, sid, 0x21])]
     \<and> recvBuf m' = recvBuf m \<and> recvDataLen m' = recvDataLen m \<and> um_addrInfo m' = um_addrInfo m
     \<and> \<not> readyToRecvData m' \<and> mSecurityAccess m' = mSecurityAccess m \<and> um_indq m' = um_indq m"
  using assms quiet_sel [OF quiet_SendNRC [of m c sid "0x21" a]] by (auto simp: DiagIndicationHandler_def)

section \<open>A request nobody answers\<close>

text \<open>The P2* timer expires and the main thread handles the expiry.\<close>

definition p2_round :: "uds_cfg \<Rightarrow> uds_mgr \<Rightarrow> uds_mgr" where
  "p2_round c m = uds_p2_step c (P2StarTimeoutHandler c m)"

lemma p2_round_pending:
  assumes "tm_p2star (um_timers m) = Some (iv, k, j)" "um_p2q m = []" "recvBuf m ! 0 \<noteq> 0x3E" "j + 1 < k" "k = max_rcrrp c"
  shows "let m' = p2_round c m in tm_p2star (um_timers m') = Some (iv, k, j + 1) \<and> um_p2q m' = [] \<and> recvBuf m' = recvBuf m
     \<and> um_addrInfo m' = um_addrInfo m
     \<and> diag_msgs m' = diag_msgs m @ [(respond_addr (um_addrInfo m), [0x7F, recvBuf m ! 0, 0x78])]"
proof -
  let ?m = "m\<lparr>um_timers := (um_timers m)\<lparr>tm_p2star := Some (iv, k, j + 1)\<rparr>, um_p2q := []\<rparr>"
  have r: "p2_round c m = SendNRC c (recvBuf m ! 0) 0x78 (um_addrInfo m) ?m"
    using assms by (simp add: p2_round_def P2StarTimeoutHandler_def uds_p2_step_def P2StarSendNrcInMainThread_def)
  note q = quiet_sel(1,16,20,22) [OF quiet_SendNRC [of ?m c "recvBuf m ! 0" "0x78" "um_addrInfo m"]]
  show ?thesis unfolding Let_def r q using assms(3) by simp
qed

lemma p2_rounds_pending:
  assumes "tm_p2star (um_timers m) = Some (iv, k, 0)" "um_p2q m = []" "recvBuf m ! 0 \<noteq> 0x3E" "k = max_rcrrp c" "j < k"
  shows "let m' = (p2_round c ^^ j) m in tm_p2star (um_timers m') = Some (iv, k, j) \<and> um_p2q m' = [] \<and> recvBuf m' = recvBuf m
     \<and> um_addrInfo m' = um_addrInfo m
     \<and> diag_msgs m' = diag_msgs m @ replicate j (respond_addr (um_addrInfo m), [0x7F, recvBuf m ! 0, 0x78])"
  using assms(5)
proof (induction j)
  case 0
  then show ?case using assms by simp
next
  case (Suc j)
  then show ?case using p2_round_pending [of "(p2_round c ^^ j) m" iv k j c] assms
    by (auto simp: Let_def replicate_append_same [symmetric])
qed

text \<open>
  C23: a request that the diagnostic service never answers ends: after as many expiries of the P2* timer
  as are configured the tester has got that many responses less one saying that the response is
  pending, then a general reject, and the manager takes the next request.
\<close>

theorem unanswered_request_ends:
  assumes "tm_p2star (um_timers m) = Some (iv, k, 0)" "um_p2q m = []" "recvBuf m ! 0 \<noteq> 0x3E" "k = max_rcrrp c" "k > 0"
  shows "let m' = (p2_round c ^^ k) m; to = respond_addr (um_addrInfo m) in
     readyToRecvData m' \<and> recvDataLen m' = 0 \<and> tm_p2star (um_timers m') = None
     \<and> diag_msgs m' = diag_msgs m @ replicate (k - 1) (to, [0x7F, recvBuf m ! 0, 0x78]) @ [(to, [0x7F, recvBuf m ! 0, 0x10])]"
proof -
  define j where "j = k - 1"
  let ?m = "(p2_round c ^^ j) m"
  let ?u = "?m\<lparr>um_timers := (um_timers ?m)\<lparr>tm_p2star := None\<rparr>, um_p2q := []\<rparr>"
  let ?s = "SendNRC c (recvBuf ?m ! 0) 0x10 (um_addrInfo ?m) ?u"
  have p: "tm_p2star (um_timers ?m) = Some (iv, k, j)" "um_p2q ?m = []" "recvBuf ?m = recvBuf m" "um_addrInfo ?m = um_addrInfo m"
    "diag_msgs ?m = diag_msgs m @ replicate j (respond_addr (um_addrInfo m), [0x7F, recvBuf m ! 0, 0x78])"
    using p2_rounds_pending [OF assms(1-4), of j] assms(5) by (simp_all add: Let_def j_def)
  have r: "p2_round c ?m = request_done (?s\<lparr>recvBuf := replicate UDS_MAX_DATA_SIZE 0, recvDataLen := 0, sendDataLen := 0\<rparr>)"
    using p(1,2) assms(4,5)
    by (simp add: p2_round_def P2StarTimeoutHandler_def uds_p2_step_def P2StarSendNrcInMainThread_def j_def)
  have t: "um_timers (request_done x) = um_timers x" for x
    by (simp add: request_done_def CheckAndSendCancelFileXferEvent_def ind_report_def)
  have k: "k = Suc j" using assms(5) by (simp add: j_def)
  have d: "diag_msgs ?s = diag_msgs m @ replicate j (respond_addr (um_addrInfo m), [0x7F, recvBuf m ! 0, 0x78])
      @ [(respond_addr (um_addrInfo m), [0x7F, recvBuf m ! 0, 0x10])]"
    using p(3-5) assms(3) by simp
  have "um_timers ?s = (um_timers ?m)\<lparr>tm_p2star := None\<rparr>"
    unfolding quiet_sel(20) [OF quiet_SendNRC] by simp
  moreover have "(p2_round c ^^ k) m = p2_round c ?m" by (simp add: k)
  ultimately show ?thesis unfolding Let_def j_def [symmetric] using d by (simp add: r t)
qed

end
