(* ===== verification/Uds_MgrResp.thy ===== *)
theory Uds_MgrResp
  imports Uds_MgrProps Uds_MgrAnswers
begin

unbundle bit_operations_syntax

text \<open>
  The responses of the diagnostic service: that they fit the buffers, what goes out, and what the
  answers to a session change and a role that was set say. For this, the security access object is
  shown to send nothing of its own unless it handles a request.
\<close>

declare split_paired_All [simp del] split_paired_Ex [simp del]

section \<open>Signals without a message\<close>

text \<open>The events of one kind that the object has emitted; no change of its state adds to them.\<close>

locale event_filter =
  fixes P :: "sa_event \<Rightarrow> bool"
  assumes internal [simp]: "\<not> P (SaSave x y z)" "\<not> P (SaTimerStart t)" "\<not> P SaTimerStop"
begin

definition seen :: "AO_SecurityAccess \<Rightarrow> sa_event list" where
  "seen a = filter P (ao_trace a)"

lemma fields [simp]:
  "seen (a\<lparr>ao_state := s\<rparr>) = seen a" "seen (a\<lparr>current_session := x\<rparr>) = seen a"
  "seen (a\<lparr>last_pending_signal := p\<rparr>) = seen a" "seen (a\<lparr>last_pending_session_id := q\<rparr>) = seen a"
  "seen (a\<lparr>delay_timer := t\<rparr>) = seen a" "seen (mod_sess i f a) = seen a" "seen (set_Att_Cnt r n a) = seen a"
  "seen (sa_emit e a) = seen a @ (if P e then [e] else [])"
  by (simp_all add: seen_def mod_sess_def set_Att_Cnt_def sa_emit_def)

lemma delay: "DelayTimerIsNotExpired a = (d, b) \<Longrightarrow> seen b = seen a"
  by (auto simp: DelayTimerIsNotExpired_def Let_def split: if_splits option.splits)

lemma changes:
  "ActivateSubfunction rp a = Inr b \<Longrightarrow> seen b = seen a"
  "SaveAttCntToTree a = Inr b \<Longrightarrow> seen b = seen a"
  "TriggerDelayTimer a = Inr b \<Longrightarrow> seen b = seen a"
  "UnlockCurrentSecLevel a = Inr b \<Longrightarrow> seen b = seen a"
  "UnlockRequestedSecLevelAndLockOthers a = Inr b \<Longrightarrow> seen b = seen a"
  "LockCurrentSession a = Inr b \<Longrightarrow> seen b = seen a"
  "DeactivateAndLock a = Inr b \<Longrightarrow> seen b = seen a"
  "SwitchSessionBasedOnEvent rp a = Inr b \<Longrightarrow> seen b = seen a"
  "SwitchSessionAfterDelayTimerTimeout a = Inr b \<Longrightarrow> seen b = seen a"
  "MarkLastPendingSession rp s a = Inr b \<Longrightarrow> seen b = seen a"
  "clear_Att_Cnt a = Inr b \<Longrightarrow> seen b = seen a"
  by (auto simp: ActivateSubfunction_def SaveAttCntToTree_def TriggerDelayTimer_def UnlockCurrentSecLevel_def Let_def
      UnlockRequestedSecLevelAndLockOthers_def LockCurrentSession_def DeactivateAndLock_def SwitchSessionBasedOnEvent_def
      SwitchSessionAfterDelayTimerTimeout_def MarkLastPendingSession_def clear_Att_Cnt_def split: if_splits option.splits)

lemma expired: "delay_expired a = Inr (x, b) \<Longrightarrow> seen b = seen a"
  by (auto simp: delay_expired_def split: if_splits dest!: changes)

lemma new_events:
  assumes "MFsm_dispatch rp s a = Inr b" "seen b = seen a @ es"
  shows "filter P (drop (length (ao_trace a)) (ao_trace b)) = es"
  using dispatch_events [OF assms(1)] assms(2) by (auto simp: events_ok_def seen_def)

end

lemma is_response_simps [simp]:
  "is_response (SaNrc n)" "is_response SaToApp" "is_response (SaZeroSeed bs)" "\<not> is_response (SaSetNrc n)"
  "\<not> is_response (SaSave x y z)" "\<not> is_response (SaTimerStart t)" "\<not> is_response SaTimerStop" "\<not> is_response SaPost"
  by (simp_all add: is_response_def)

interpretation responses: event_filter is_response
  by unfold_locales simp_all

interpretation posts: event_filter "\<lambda>e. e = SaPost"
  by unfold_locales simp_all

lemma responses_ops [simp]:
  "responses.seen (TryToPostSemaphore rp a) = responses.seen a" "responses.seen (SetResponseNRC rp n a) = responses.seen a"
  by (simp_all add: TryToPostSemaphore_def SetResponseNRC_def)

lemma responses_parts:
  "seed_response back rp a = Inr (st, b) \<Longrightarrow> responses.seen b = responses.seen a"
  "wrong_key back rp a = Inr (st, b) \<Longrightarrow> responses.seen b = responses.seen a"
  "leave_session rp s a = Inr (st, b) \<Longrightarrow> responses.seen b = responses.seen a"
  by (auto simp: seed_response_def wrong_key_def leave_session_def Let_def M_Handled_def M_Translate_def
      split: if_splits dest!: responses.changes)

lemma responses_handler:
  assumes "state_fn q rp s a = Inr (st, b)" "s \<noteq> REQUEST_SEED_SIG" "s \<noteq> SEND_KEY_SIG"
  shows "responses.seen b = responses.seen a"
proof -
  obtain d a1 where d: "DelayTimerIsNotExpired a = (d, a1)" by (cases "DelayTimerIsNotExpired a")
  show ?thesis
    using assms d responses.delay [OF d]
    by (cases q; cases s)
      (auto simp: state_fn_def handle_LockedNoActiveSeed_def handle_LockedWaitingForKey_def handle_UnlockedNoActiveSeed_def
        handle_UnlockedWaitingForKey_def M_Handled_def M_Translate_def split: if_splits
        dest!: responses.changes responses.expired responses_parts)
qed

lemma dispatch_silent:
  assumes "MFsm_dispatch rp s a = Inr b" "s \<noteq> REQUEST_SEED_SIG" "s \<noteq> SEND_KEY_SIG"
  shows "\<forall>e\<in>set (drop (length (ao_trace a)) (ao_trace b)). \<not> is_response e"
proof -
  obtain m where m: "state_fn (ao_state a) rp s a = Inr (m, b)" using assms(1) by (auto simp: dispatch_Inr)
  show ?thesis
    using responses.new_events [OF assms(1), of "[]"] responses_handler [OF m assms(2,3)] by (simp add: filter_empty_conv)
qed

text \<open>The answer of the application to a request is always followed by the semaphore.\<close>

lemma posts_ops [simp]:
  "rp_sem rp \<Longrightarrow> posts.seen (SetResponseNRC rp n a) = posts.seen a @ [SaPost]"
  by (simp add: TryToPostSemaphore_def SetResponseNRC_def)

lemma answer_posts:
  assumes "MFsm_dispatch rp s a = Inr b" "rp_sem rp"
    "s = REQUEST_SEED_RESPONSE_SIG \<or> s = SEND_KEY_RESPONSE_SIG \<and> ao_state a \<in> {State_LockedWaitingForKey, State_UnlockedWaitingForKey}"
  shows "SaPost \<in> set (drop (length (ao_trace a)) (ao_trace b))"
proof -
  obtain m where m: "state_fn (ao_state a) rp s a = Inr (m, b)" using assms(1) by (auto simp: dispatch_Inr)
  have "posts.seen b = posts.seen a @ [SaPost]"
    using assms(2,3) m
    by (cases "ao_state a")
      (auto simp: state_fn_def handle_LockedNoActiveSeed_def handle_LockedWaitingForKey_def handle_UnlockedNoActiveSeed_def
        handle_UnlockedWaitingForKey_def seed_response_def wrong_key_def M_Handled_def M_Translate_def Let_def
        split: if_splits dest!: posts.changes)
  then have "filter (\<lambda>e. e = SaPost) (drop (length (ao_trace a)) (ao_trace b)) = [SaPost]"
    by (rule posts.new_events [OF assms(1)])
  then show ?thesis by (metis (mono_tags, lifting) filter_eq_Cons_iff in_set_conv_decomp)
qed

text \<open>So the manager sees at most another negative response code.\<close>

lemma silent_effects:
  "\<forall>e\<in>set es. \<not> is_response e \<Longrightarrow> \<exists>n. fold (sec_effect c) es m = m\<lparr>nrcCode := n\<rparr>"
proof (induction es arbitrary: m)
  case Nil
  have "m = m\<lparr>nrcCode := nrcCode m\<rparr>" by simp
  then show ?case unfolding fold_Nil id_apply by blast
next
  case (Cons e es)
  have "\<exists>n. sec_effect c e m = m\<lparr>nrcCode := n\<rparr>"
  proof (cases e)
    case (SaSetNrc n)
    then show ?thesis by (auto simp: sec_effect_def)
  qed (use Cons(2) in \<open>simp_all add: sec_effect_def\<close>, (rule exI [of _ "nrcCode m"], simp)+)
  then obtain n where n: "sec_effect c e m = m\<lparr>nrcCode := n\<rparr>" by blast
  obtain k where "fold (sec_effect c) es (sec_effect c e m) = (sec_effect c e m)\<lparr>nrcCode := k\<rparr>"
    using Cons by fastforce
  then show ?case using n by auto
qed

definition sec_only :: "uds_mgr \<Rightarrow> uds_mgr \<Rightarrow> bool" where
  "sec_only m m' \<longleftrightarrow> (\<exists>a n q. m' = m\<lparr>mSecurityAccess := a, nrcCode := n, um_secq := q\<rparr>)"

lemma sec_onlyI [simp]: "sec_only m (m\<lparr>mSecurityAccess := a, nrcCode := n, um_secq := q\<rparr>)" "sec_only m m"
proof -
  show *: "sec_only m (m\<lparr>mSecurityAccess := a, nrcCode := n, um_secq := q\<rparr>)" for a n q
    unfolding sec_only_def by blast
  show "sec_only m m" using * [where a = "mSecurityAccess m" and n = "nrcCode m" and q = "um_secq m"] by simp
qed

lemma sec_only_trans: "sec_only m m1 \<Longrightarrow> sec_only m1 m2 \<Longrightarrow> sec_only m m2"
  unfolding sec_only_def [of m m1] sec_only_def [of m1 m2] by (elim exE) simp

lemma sec_only_sel:
  assumes "sec_only m m'"
  shows "recvBuf m' = recvBuf m" "SessionType m' = SessionType m" "udsRespAddrInfo m' = udsRespAddrInfo m"
    "um_trace m' = um_trace m" "sendBuf m' = sendBuf m" "recvDataLen m' = recvDataLen m" "readyToRecvData m' = readyToRecvData m"
  using assms by (auto simp: sec_only_def)

lemma dispatch_only:
  assumes "sec_dispatch c rp s m = Inr (es, m')" "s \<noteq> REQUEST_SEED_SIG" "s \<noteq> SEND_KEY_SIG"
  shows "sec_only m m'"
proof -
  obtain b where b: "MFsm_dispatch rp s (mSecurityAccess m) = Inr b"
    and es: "es = drop (length (ao_trace (mSecurityAccess m))) (ao_trace b)"
    and m': "m' = fold (sec_effect c) es (m\<lparr>mSecurityAccess := b\<rparr>)"
    using assms(1) by (auto simp: sec_dispatch_def Let_def)
  obtain n where "m' = m\<lparr>mSecurityAccess := b, nrcCode := n\<rparr>"
    using silent_effects [OF dispatch_silent [OF b assms(2,3)]] m' es by blast
  then have "m' = m\<lparr>mSecurityAccess := b, nrcCode := n, um_secq := um_secq m\<rparr>" by simp
  then show ?thesis unfolding sec_only_def by blast
qed

lemma timeouts_only: "sec_timeouts c n m = Inr m' \<Longrightarrow> sec_only m m'"
proof (induction c n m arbitrary: m' rule: sec_timeouts.induct)
  case (1 c m)
  then show ?case by simp
next
  case (2 c n m)
  then obtain es m1 where m1: "sec_dispatch c (sec_report False m) SESSION_TIMEOUT_SIG (m\<lparr>um_secq := n\<rparr>) = Inr (es, m1)"
    and "sec_timeouts c n m1 = Inr m'" by auto
  then have "sec_only m1 m'" using 2(1) by blast
  moreover have "sec_only (m\<lparr>um_secq := n\<rparr>) m1" using dispatch_only [OF m1] by simp
  ultimately have "sec_only (m\<lparr>um_secq := n\<rparr>) m'" using sec_only_trans by blast
  then show ?case unfolding sec_only_def [of "m\<lparr>um_secq := n\<rparr>"] by (elim exE) simp
qed

lemma timed_only:
  assumes "sec_timed c s m = Inr (b, m')" "s \<noteq> REQUEST_SEED_SIG" "s \<noteq> SEND_KEY_SIG"
  shows "sec_only m m'"
  using assms by (auto simp: sec_timed_def sec_call_def intro: sec_only_trans [OF timeouts_only dispatch_only])

section \<open>Responses fit the buffers\<close>

definition resp_safe :: "'a uds \<Rightarrow> bool" where
  "resp_safe r \<longleftrightarrow> (\<forall>e. r = Inl e \<longrightarrow> (\<exists>f. e = UdsSec f))"

lemma resp_safe_simps [simp]:
  "resp_safe (Inr x)" "resp_safe (usec r)" "resp_safe (neg_response sid n m)" "resp_safe (resp_error y m)"
  "resp_safe (put_response bs m) \<longleftrightarrow> length bs \<le> UDS_MAX_DATA_SIZE"
  "resp_safe (urd m i) \<longleftrightarrow> i < length (recvBuf m)"
  by (auto simp: resp_safe_def usec_def neg_response_def resp_error_def put_response_def urd_def split: sum.splits)

lemma resp_safe_bind: "resp_safe r \<Longrightarrow> (\<And>x. r = Inr x \<Longrightarrow> resp_safe (f x)) \<Longrightarrow> resp_safe (mbind r f)"
  by (cases r) (auto simp: resp_safe_def)

lemma safe_timeouts: "resp_safe (sec_timeouts c n m)"
  by (induction c n m rule: sec_timeouts.induct) (auto simp: sec_dispatch_def Let_def intro!: resp_safe_bind)

lemma safe_timed: "resp_safe (sec_timed c s m)"
  by (auto simp: sec_timed_def sec_call_def sec_dispatch_def Let_def safe_timeouts intro!: resp_safe_bind)

lemma data_len_bytes [simp]: "length (data_bytes d) = data_len d"
  by (simp add: data_bytes_def data_len_def split: option.split)

lemma be_bytes_len [simp]: "length (be_bytes n) = 2"
  by (simp add: be_bytes_def)

lemma safe_file:
  assumes "file_request_ok m" "length (recvBuf m) = UDS_MAX_DATA_SIZE" "d \<noteq> None"
  shows "resp_safe (ReqFileXferResp sid d err m)"
proof -
  have n: "4 + unat (be_at (recvBuf m) 2) \<le> UDS_DATA_SIZE" using assms(1) by (auto simp: file_request_ok_def)
  show ?thesis
    unfolding ReqFileXferResp_def Let_def
    using n assms(2,3) by (auto simp: file_xfer_header_def intro!: resp_safe_bind)
qed

lemma safe_response:
  assumes "sid = 0x38 \<Longrightarrow> file_request_ok m \<and> d \<noteq> None" "length (recvBuf m) = UDS_MAX_DATA_SIZE"
  shows "resp_safe (response_for c sid err d m)"
proof -
  have a: "resp_safe (SessionCtrlResp c sid err m)" "resp_safe (ECUResetResp c sid err m)" "resp_safe (SecurityAccessResp c sid d err m)"
    unfolding SessionCtrlResp_def ECUResetResp_def SecurityAccessResp_def session_positive_def Let_def
    by (auto simp: safe_timed intro!: resp_safe_bind split: prod.split)
  have b: "resp_safe (ReadDIDResp sid d err m)" "resp_safe (WriteDIDResp sid err m)" "resp_safe (RoutineCtrlResp sid d err m)"
    "resp_safe (IOCBIDResp sid d err m)" "resp_safe (ReadDTCInfoResp sid d err m)" "resp_safe (ClearDiagInfoResp sid err m)"
    "resp_safe (CtrlDTCSettingResp sid err m)" "resp_safe (ROEResp sid d err m)" "resp_safe (XferDataResp sid d err m)"
    "resp_safe (ReqXferExitResp sid err m)"
    by (auto simp: ReadDIDResp_def WriteDIDResp_def RoutineCtrlResp_def IOCBIDResp_def ReadDTCInfoResp_def ClearDiagInfoResp_def
        CtrlDTCSettingResp_def ROEResp_def XferDataResp_def ReqXferExitResp_def Let_def)
  have c: "resp_safe (AuthenticationResp c sid d err m)" "resp_safe (ReqDwnldResp sid d err m)"
    unfolding AuthenticationResp_def ReqDwnldResp_def Let_def by (auto intro!: resp_safe_bind)
  show ?thesis unfolding response_for_def using a b c safe_file [of m d sid err] assms by auto
qed

text \<open>
  C8: a response to the outstanding request, whatever its data, is written within the send buffer and
  reads within the request; the process can only be stopped by a fault of the security access object.
  A file transfer must come with data.
\<close>

theorem outstanding_response_fits:
  assumes "uds_reachable c m" "\<not> readyToRecvData m" "d = None \<longrightarrow> sid \<noteq> 0x38"
  shows "\<exists>f r m'. taf_uds_SendDiagResp c a sid err d m \<in> {Inl (UdsSec f), Inr (r, m')}"
proof -
  let ?m = "m\<lparr>udsRespAddrInfo := a, nrcCode := err\<rparr>"
  let ?d = "map_option (\<lambda>bs. take (length bs mod 65536) bs) d"
  have i: "uds_inv m" using uds_reachable_inv [OF assms(1)] .
  have "resp_safe (response_for c sid err ?d ?m)" if "sid = recvBuf m ! 0"
    using i assms(2,3) that by (intro safe_response) (auto simp: uds_inv_def pending_ok_def file_request_ok_def)
  then have "resp_safe (taf_uds_SendDiagResp c a sid err d m)"
    by (auto simp: taf_uds_SendDiagResp_def SendUDSResp_def Let_def intro!: resp_safe_bind split: prod.split)
  then show ?thesis
    by (cases "taf_uds_SendDiagResp c a sid err d m") (auto simp: resp_safe_def)
qed

section \<open>What is sent\<close>

definition outgoing :: "uds_mgr \<Rightarrow> byte list" where
  "outgoing m = take (unat (sendDataLen m)) (sendBuf m)"

lemma outgoing_fields [simp]:
  "outgoing (m\<lparr>authState := x\<rparr>) = outgoing m" "outgoing (m\<lparr>authPreSucReq := p\<rparr>) = outgoing m"
  "outgoing (m\<lparr>authAttCnt := k\<rparr>) = outgoing m" "outgoing (m\<lparr>isXferActive := b\<rparr>) = outgoing m"
  "outgoing (uemit e m) = outgoing m" "outgoing (UdsTimerEventReport t j m) = outgoing m"
  "outgoing (SetNRC sid n m) = [0x7F, sid, n]"
  by (simp_all add: outgoing_def uemit_def UdsTimerEventReport_def SetNRC_def)

lemma diag_fields [simp]:
  "diag_msgs (m\<lparr>authState := x\<rparr>) = diag_msgs m" "diag_msgs (m\<lparr>authPreSucReq := p\<rparr>) = diag_msgs m"
  "diag_msgs (m\<lparr>authAttCnt := k\<rparr>) = diag_msgs m" "diag_msgs (m\<lparr>isXferActive := b\<rparr>) = diag_msgs m"
  "diag_msgs (m\<lparr>SessionType := s\<rparr>) = diag_msgs m" "diag_msgs (m\<lparr>isResetInProgress := r\<rparr>) = diag_msgs m"
  "diag_msgs (m\<lparr>sendBuf := sb, sendDataLen := sl\<rparr>) = diag_msgs m" "diag_msgs (m\<lparr>authAttCnt := k, authDelayTime := dt\<rparr>) = diag_msgs m"
  "diag_msgs (m\<lparr>udsRespAddrInfo := a, nrcCode := nc\<rparr>) = diag_msgs m"
  by (simp_all add: diag_msgs_def)

text \<open>The form of a response, and what the functions leave alone.\<close>

definition response_form :: "byte \<Rightarrow> byte \<Rightarrow> byte list \<Rightarrow> bool" where
  "response_form sid err bs \<longleftrightarrow>
     (if sid = 0x27 then (\<exists>n. n \<noteq> 0 \<and> bs = [0x7F, sid, n]) \<or> (\<exists>rest. bs = 0x67 # rest)
      else if err = 0 then \<exists>rest. bs = (sid + 0x40) # rest
      else bs = [0x7F, sid, err] \<or> sid = 0x29 \<and> bs = [0x7F, sid, 0x36])"

definition sends :: "byte \<Rightarrow> byte \<Rightarrow> uds_mgr \<Rightarrow> resp \<Rightarrow> bool" where
  "sends sid err m r \<longleftrightarrow> (\<forall>m'. r = Inr (UDS_OK, m') \<longrightarrow>
     diag_msgs m' = diag_msgs m \<and> udsRespAddrInfo m' = udsRespAddrInfo m \<and> response_form sid err (outgoing m'))"

lemma sends_simps [simp]:
  "sends sid err m (Inl e)" "r \<noteq> UDS_OK \<Longrightarrow> sends sid err m (resp_error r m1)"
  "sends sid err m (neg_response sid n m1) \<longleftrightarrow>
     diag_msgs m1 = diag_msgs m \<and> udsRespAddrInfo m1 = udsRespAddrInfo m \<and> response_form sid err [0x7F, sid, n]"
  by (auto simp: sends_def resp_error_def neg_response_def SetNRC_def)
    (simp_all add: outgoing_def)

lemma sends_put [simp]:
  "diag_msgs m1 = diag_msgs m \<Longrightarrow> udsRespAddrInfo m1 = udsRespAddrInfo m \<Longrightarrow> response_form sid err bs \<Longrightarrow>
   sends sid err m (put_response bs m1)"
  by (auto simp: sends_def put_response_def outgoing_def unat_of_nat)

lemma sends_bind: "(\<And>x. r = Inr x \<Longrightarrow> sends sid err m (f x)) \<Longrightarrow> sends sid err m (mbind r f)"
  by (cases r) simp_all

lemma addr_ops [simp]:
  "udsRespAddrInfo (UdsTimerEventReport t j m) = udsRespAddrInfo m" "udsRespAddrInfo (ind_report i bs m) = udsRespAddrInfo m"
  "udsRespAddrInfo (uemit e m) = udsRespAddrInfo m" "udsRespAddrInfo (SetNRC sid n m) = udsRespAddrInfo m"
  by (simp_all add: UdsTimerEventReport_def ind_report_def uemit_def SetNRC_def)

lemma timed_same:
  assumes "sec_timed c s m = Inr (b, m')" "s \<noteq> REQUEST_SEED_SIG" "s \<noteq> SEND_KEY_SIG"
  shows "diag_msgs m' = diag_msgs m \<and> udsRespAddrInfo m' = udsRespAddrInfo m"
  using sec_only_sel [OF timed_only [OF assms]] by (simp add: diag_msgs_def)

lemma form_simps [simp]:
  "response_form 0x27 err (0x67 # rest)" "n \<noteq> 0 \<Longrightarrow> response_form 0x27 err [0x7F, 0x27, n]"
  "err \<noteq> 0 \<Longrightarrow> response_form sid err [0x7F, sid, err] \<longleftrightarrow> True"
  "sid \<noteq> 0x27 \<Longrightarrow> response_form sid 0 (b # rest) \<longleftrightarrow> b = sid + 0x40"
  by (auto simp: response_form_def)

lemma sends_session: "sends 0x10 err m (SessionCtrlResp c 0x10 err m)"
proof -
  have p: "sends 0x10 0 m (session_positive c m1)" if "diag_msgs m1 = diag_msgs m" "udsRespAddrInfo m1 = udsRespAddrInfo m" for m1
    using that by (simp add: session_positive_def)
  note t = timed_same [where s = SESSION_CONTROL_SIG, simplified]
  show ?thesis
  proof (cases "err = 0")
    case True
    then show ?thesis
      unfolding SessionCtrlResp_def Let_def by (auto intro!: sends_bind p dest!: t split: if_splits)
  qed (simp add: SessionCtrlResp_def)
qed

lemma sends_short:
  "sends 0x11 err m (ECUResetResp c 0x11 err m)" "sends 0x22 err m (ReadDIDResp 0x22 d err m)"
  "sends 0x2E err m (WriteDIDResp 0x2E err m)" "sends 0x31 err m (RoutineCtrlResp 0x31 d err m)"
  "sends 0x2F err m (IOCBIDResp 0x2F d err m)" "sends 0x19 err m (ReadDTCInfoResp 0x19 d err m)"
  "sends 0x14 err m (ClearDiagInfoResp 0x14 err m)" "sends 0x85 err m (CtrlDTCSettingResp 0x85 err m)"
  "sends 0x86 err m (ROEResp 0x86 d err m)" "sends 0x36 err m (XferDataResp 0x36 d err m)" "sends 0x37 err m (ReqXferExitResp 0x37 err m)"
  by (cases "err = 0"; simp add: ECUResetResp_def ReadDIDResp_def WriteDIDResp_def RoutineCtrlResp_def IOCBIDResp_def
      ReadDTCInfoResp_def ClearDiagInfoResp_def CtrlDTCSettingResp_def ROEResp_def XferDataResp_def ReqXferExitResp_def Let_def)+

lemma sends_security: "sends 0x27 err m (SecurityAccessResp c 0x27 d err m)"
  unfolding SecurityAccessResp_def
  by (auto intro!: sends_bind dest: timed_same split: if_splits prod.splits)

lemma sends_auth: "sends 0x29 err m (AuthenticationResp c 0x29 d err m)"
proof (cases "err = 0")
  case False
  then have "outgoing (auth_failed 0x29 (SetNRC 0x29 err m\<lparr>authPreSucReq := 0xFF\<rparr>)) \<in> {[0x7F, 0x29, err], [0x7F, 0x29, 0x36]}"
    "diag_msgs (auth_failed 0x29 (SetNRC 0x29 err m\<lparr>authPreSucReq := 0xFF\<rparr>)) = diag_msgs m"
    "udsRespAddrInfo (auth_failed 0x29 (SetNRC 0x29 err m\<lparr>authPreSucReq := 0xFF\<rparr>)) = udsRespAddrInfo m"
    by (simp_all add: auth_failed_def Let_def StoreAttCntToTree_def)
  then show ?thesis using False
    by (auto simp: AuthenticationResp_def Let_def sends_def response_form_def)
qed (simp add: AuthenticationResp_def Let_def StoreAttCntToTree_def StoreDelayTimeToTree_def)

lemma sends_put_bind:
  assumes "\<And>m1. diag_msgs m1 = diag_msgs m \<Longrightarrow> udsRespAddrInfo m1 = udsRespAddrInfo m \<Longrightarrow> outgoing m1 = bs \<Longrightarrow> sends sid err m (f m1)"
    "diag_msgs m0 = diag_msgs m" "udsRespAddrInfo m0 = udsRespAddrInfo m"
  shows "sends sid err m (mbind (put_response bs m0) (\<lambda>(r, m1). f m1))"
  using assms by (auto simp: put_response_def outgoing_def unat_of_nat intro!: assms(1))

lemma sends_transfer:
  "sends 0x34 err m (ReqDwnldResp 0x34 d err m)"
  "recvBuf m ! 1 \<in> {1, 2, 3, 4, 5, 6} \<Longrightarrow> sends 0x38 err m (ReqFileXferResp 0x38 d err m)"
proof -
  have e: "sends sid 0 m (Inr (UDS_OK, m1\<lparr>isXferActive := True\<rparr>))"
    if "diag_msgs m1 = diag_msgs m" "udsRespAddrInfo m1 = udsRespAddrInfo m" "response_form sid 0 (outgoing m1)" for sid m1
    using that by (simp add: sends_def)
  show "sends 0x34 err m (ReqDwnldResp 0x34 d err m)"
    by (cases "err = 0") (auto simp: ReqDwnldResp_def intro!: sends_put_bind e)
  have u: "sends sid e m (mbind (r :: byte uds) f)" if "\<And>x. sends sid e m (f x)" for sid e r f
    using that by (rule sends_bind)
  assume "recvBuf m ! 1 \<in> {1, 2, 3, 4, 5, 6}"
  then show "sends 0x38 err m (ReqFileXferResp 0x38 d err m)"
    by (cases "err = 0") (auto simp: ReqFileXferResp_def Let_def file_xfer_header_def intro!: u sends_put_bind)
qed

lemma sends_response:
  assumes "recvBuf m ! 0 \<in> services" "recvBuf m ! 0 = 0x38 \<longrightarrow> file_request_ok m"
  shows "sends (recvBuf m ! 0) err m (response_for c (recvBuf m ! 0) err d m)"
proof -
  have f: "recvBuf m ! 0 = 0x38 \<Longrightarrow> sends 0x38 err m (ReqFileXferResp 0x38 d err m)"
    using assms(2) by (intro sends_transfer(2)) (simp add: file_request_ok_def)
  show ?thesis
    using assms(1) f unfolding response_for_def services_def
    by (elim insertE emptyE) (simp_all add: sends_session sends_short sends_security sends_auth sends_transfer(1))
qed

text \<open>
  C7: a response to the outstanding request that the interface reports as sent is exactly one message
  to the address given: positive with the service identifier plus 0x40, or negative with the code
  given; security access and the last failed authentication decide on the code themselves. When the
  DoIP stack takes the message the manager is ready for the next request.
\<close>

theorem response_sent:
  assumes "uds_reachable c m" "\<not> readyToRecvData m" "taf_uds_SendDiagResp c a sid err d m = Inr (UDS_OK, m')"
  shows "\<exists>bs. diag_msgs m' = diag_msgs m @ [(a, bs)] \<and> response_form sid err bs \<and> sid = recvBuf m ! 0
     \<and> ((\<forall>t. env_diag_request c t) \<longrightarrow> readyToRecvData m')"
proof -
  let ?m = "m\<lparr>udsRespAddrInfo := a, nrcCode := err\<rparr>"
  let ?d = "map_option (\<lambda>bs. take (length bs mod 65536) bs) d"
  have i: "uds_inv m" using uds_reachable_inv [OF assms(1)] .
  obtain m1 where sid: "sid = recvBuf m ! 0" and r: "response_for c sid err ?d ?m = Inr (UDS_OK, m1)"
    and m': "let m2 = uemit (UeDiag (udsRespAddrInfo m1) (outgoing m1)) m1 in
      m' = (if env_diag_request c (um_trace m1)
        then CheckAndRestartS3Timer c sid True (if cfg_idps_available c then SendIdpsIndMsg c m2 else m2) else m2)"
    using assms(3) by (auto simp: taf_uds_SendDiagResp_def SendUDSResp_def resp_error_def outgoing_def Let_def split: if_splits)
  have "sends sid err ?m (response_for c sid err ?d ?m)"
    using sends_response [of ?m err c ?d] i assms(2) sid by (simp add: uds_inv_def pending_ok_def file_request_ok_def)
  then have s: "diag_msgs m1 = diag_msgs m" "udsRespAddrInfo m1 = a" "response_form sid err (outgoing m1)"
    using r by (auto simp: sends_def)
  have k: "diag_msgs (CheckAndRestartS3Timer c sid True x) = diag_msgs x" for x
    by (simp add: CheckAndRestartS3Timer_def Let_def split: option.split)
  have "diag_msgs m' = diag_msgs m @ [(a, outgoing m1)]" using m' s by (simp add: k Let_def)
  moreover have "readyToRecvData m'" if "\<forall>t. env_diag_request c t"
    using m' that by (auto simp: CheckAndRestartS3Timer_def Let_def UdsTimerEventReport_def [of _ _ "request_done _"] split: option.splits)
  ultimately show ?thesis using s(3) sid by blast
qed

end
