(* ===== verification/Uds_MgrEffects.thy ===== *)
theory Uds_MgrEffects
  imports Uds_MgrResp
begin

unbundle bit_operations_syntax

text \<open>
  What the operations of the manager do to its state: the parameters of a session change, the role of
  the tester, the end of the connection, and the limit on failed authentications.
\<close>

declare split_paired_All [simp del] split_paired_Ex [simp del]

section \<open>Session change\<close>

lemma be_bytes_value: "n < 65536 \<Longrightarrow> \<exists>h l. be_bytes n = [h, l] \<and> unat h * 256 + unat l = n"
  by (simp add: be_bytes_def unat_of_nat)

lemma session_intervals: "p2_interval c s < 65536" "p2star_interval c s div 10 < 65536"
proof -
  show "p2_interval c s < 65536" by (simp add: p2_interval_def split: option.split)
  have "p2star_interval c s \<le> 655350" by (simp add: p2star_interval_def split: option.split)
  then show "p2star_interval c s div 10 < 65536" by simp
qed

text \<open>
  The positive response to a session change carries the new session and its two response times, as
  they are configured, which the tester can read back; the long one is given in units of ten
  milliseconds. Every new session is reported to the diagnostic service.
\<close>

theorem session_response:
  assumes "SessionCtrlResp c 0x10 0 m = Inr (UDS_OK, m')"
  shows "let new = recvBuf m ! 1 AND 0x7F in SessionType m' = new
     \<and> (\<exists>h l hs ls. outgoing m' = [0x50, new, h, l, hs, ls]
          \<and> unat h * 256 + unat l = p2_interval c new
          \<and> unat hs * 256 + unat ls = p2star_interval c new div 10)
     \<and> um_indq m' = um_indq m @ (if SessionType m = new then [] else [(SESSION_CHANGE, [0xFF, SessionType m, new])])"
proof -
  let ?new = "recvBuf m ! 1 AND 0x7F"
  obtain h l where p2: "be_bytes (p2_interval c ?new) = [h, l]" "unat h * 256 + unat l = p2_interval c ?new"
    using be_bytes_value [OF session_intervals(1)] by blast
  obtain hs ls where ps: "be_bytes (p2star_interval c ?new div 10) = [hs, ls]"
    "unat hs * 256 + unat ls = p2star_interval c ?new div 10"
    using be_bytes_value [OF session_intervals(2)] by blast
  have pos: "SessionType m2 = ?new \<and> outgoing m2 = [0x50, ?new, h, l, hs, ls] \<and> um_indq m2 = um_indq m1"
    if "session_positive c m1 = Inr (UDS_OK, m2)" "recvBuf m1 = recvBuf m" "SessionType m1 = ?new" for m1 m2
    using that p2(1) ps(1) by (auto simp: session_positive_def put_response_def outgoing_def)
  have t: "recvBuf m2 = recvBuf m1 \<and> SessionType m2 = SessionType m1 \<and> um_indq m2 = um_indq m1"
    if "sec_timed c SESSION_CONTROL_SIG m1 = Inr (b, m2)" for b m1 m2
    using timed_only [OF that] by (auto simp: sec_only_def)
  show ?thesis
    using assms p2(2) ps(2) unfolding SessionCtrlResp_def Let_def
    by (fastforce simp: resp_error_def ind_report_def UdsTimerEventReport_def split: if_splits dest!: t pos)
qed

section \<open>The role of the tester\<close>

lemma byte_bit: "8 \<le> n \<Longrightarrow> \<not> bit (b :: byte) n"
  using bit_imp_le_length [of b n] by auto

lemma role_value_bytes: "length bs = 8 \<Longrightarrow> role_bytes (role_value bs) = bs"
proof -
  assume "length bs = 8"
  then obtain a b c d e f g h where bs: "bs = [a, b, c, d, e, f, g, h]"
    by (auto simp: numeral_eq_Suc length_Suc_conv)
  have r: "[0..<8] = [0, 1, 2, 3, 4, 5, 6, 7 :: nat]" by (simp add: upt_rec)
  show ?thesis
    by (simp add: role_bytes_def role_value_def bs r) (intro conjI; rule bit_word_eqI; simp add: bit_simps byte_bit)
qed

text \<open>
  When the authentication expires the diagnostic service gets back the eight bytes of the role it
  had set, and the role is gone.
\<close>

theorem expired_role:
  assumes "length bs = 8"
  shows "let m' = AuthTimeoutHandler (snd (SetUDSData 0 bs m)) in
     um_indq m' = um_indq m @ [(AUTHENTICATION_EXPIRATION, 0xFE # bs)] \<and> currentRoleVal m' = 0
     \<and> authState m' = AUTH_STATE_DEAUTHENTICATED"
  using assms role_value_bytes [OF assms]
  by (auto simp: SetUDSData_def AuthTimeoutHandler_def Let_def ind_report_def)

section \<open>Failed authentications\<close>

lemma delayed_auth_refused:
  assumes "tm_authDelay (um_timers m) \<noteq> None" "IndicateAuthReq c a m = Inr r"
  shows "fst r"
  using assms unfolding IndicateAuthReq_def Let_def nrc_out_def pass_on_def by (auto split: if_splits)

text \<open>
  The tenth failed proof in a row is answered with exceeded number of attempts and starts the
  delay; from when the timer runs until it expires no authentication request reaches the diagnostic
  service.
\<close>

theorem tenth_failure_locks:
  assumes "authAttCnt m = 9" "tm_authDelay (um_timers m) = None" "recvBuf m ! 1 AND 0x7F = 0x03" "err \<noteq> 0" "um_timerq m = []"
  shows "\<exists>m'. AuthenticationResp c 0x29 d err m = Inr (UDS_OK, m') \<and> outgoing m' = [0x7F, 0x29, 0x36]
     \<and> authAttCnt m' = 10 \<and> authState m' = AUTH_STATE_DEAUTHENTICATED
     \<and> (let t = uds_timer_step c n m' in tm_authDelay (um_timers t) = Some (unat (authDelayTime m) * 1000)
        \<and> (\<forall>rb k b m''. IndicateAuthReq c a (t\<lparr>recvBuf := rb, recvDataLen := k\<rparr>) = Inr (b, m'') \<longrightarrow> b))"
proof -
  define m' where "m' = auth_failed 0x29 ((SetNRC 0x29 err m)\<lparr>authPreSucReq := AUTH_SUBFUNC_UNKNOWN\<rparr>)"
  define t where "t = uds_timer_step c n m'"
  have r: "AuthenticationResp c 0x29 d err m = Inr (UDS_OK, m')" using assms(3,4) by (simp add: AuthenticationResp_def m'_def)
  have f: "outgoing m' = [0x7F, 0x29, 0x36]" "authAttCnt m' = 10" "authState m' = AUTH_STATE_DEAUTHENTICATED"
    "um_timerq m' = [(AUTH_DELAY_TIMER_START, unat (authDelayTime m) * 1000)]" "um_timers m' = um_timers m"
    using assms unfolding m'_def auth_failed_def Let_def
    by (simp_all add: StoreAttCntToTree_def uemit_def UdsTimerEventReport_def SetNRC_def outgoing_def)
  have t: "tm_authDelay (um_timers t) = Some (unat (authDelayTime m) * 1000)"
    unfolding t_def uds_timer_step_def f by (simp add: UdsTimerHandler_def start_timer_def assms(2))
  have "b" if "IndicateAuthReq c a (t\<lparr>recvBuf := rb, recvDataLen := k\<rparr>) = Inr (b, m'')" for rb k b m''
    using delayed_auth_refused [OF _ that] t by simp
  then show ?thesis using r f(1-3) t unfolding t_def Let_def by blast
qed

lemma delay_doubles:
  assumes "unat (authDelayTime m) \<le> 960"
  shows "unat (authDelayTime (AuthDelayTimeoutHandler m)) = min (2 * unat (authDelayTime m)) 960"
    "authAttCnt (AuthDelayTimeoutHandler m) = 0"
proof -
  have "unat (2 * authDelayTime m) = 2 * unat (authDelayTime m)" using assms by (simp add: unat_mult_lem [THEN iffD1])
  then show "unat (authDelayTime (AuthDelayTimeoutHandler m)) = min (2 * unat (authDelayTime m)) 960"
    "authAttCnt (AuthDelayTimeoutHandler m) = 0"
    by (auto simp: AuthDelayTimeoutHandler_def Let_def StoreDelayTimeToTree_def StoreAttCntToTree_def uemit_def word_less_nat_alt)
qed

text \<open>
  Every time the delay expires without a successful authentication the next one is twice as long,
  up to sixteen minutes; the attempts start again from zero.
\<close>

theorem delay_backs_off:
  assumes "uds_reachable c m" "k > 0"
  shows "unat (authDelayTime ((AuthDelayTimeoutHandler ^^ k) m)) = min (2 ^ k * unat (authDelayTime m)) 960
     \<and> authAttCnt ((AuthDelayTimeoutHandler ^^ k) m) = 0"
proof -
  have d: "unat (authDelayTime m) \<le> 960" using uds_reachable_inv [OF assms(1)] by (simp add: uds_inv_def auth_ok_def)
  have "unat (authDelayTime ((AuthDelayTimeoutHandler ^^ k) m)) = min (2 ^ k * unat (authDelayTime m)) 960" for k
  proof (induction k)
    case 0
    then show ?case using d by simp
  next
    case (Suc k)
    let ?x = "2 ^ k * unat (authDelayTime m)"
    have "2 ^ Suc k * unat (authDelayTime m) = 2 * ?x" by simp
    moreover have "unat (authDelayTime ((AuthDelayTimeoutHandler ^^ Suc k) m)) = min (2 * min ?x 960) 960"
      using delay_doubles(1) [of "(AuthDelayTimeoutHandler ^^ k) m"] Suc by simp
    ultimately show ?case by linarith
  qed
  moreover have "authAttCnt ((AuthDelayTimeoutHandler ^^ k) m) = 0"
  proof -
    obtain j where "k = Suc j" using assms(2) by (cases k) auto
    then show ?thesis
      by (simp add: AuthDelayTimeoutHandler_def Let_def StoreDelayTimeToTree_def StoreAttCntToTree_def uemit_def)
  qed
  ultimately show ?thesis by blast
qed

section \<open>The end of a connection\<close>

lemma wait_only:
  assumes "sec_wait c s m = Inr (es, m')" "s \<noteq> REQUEST_SEED_SIG" "s \<noteq> SEND_KEY_SIG"
  shows "sec_only m m'"
  using assms by (auto simp: sec_wait_def sec_call_def split: if_splits intro: sec_only_trans [OF timeouts_only dispatch_only])

text \<open>
  C24: when the connection of the tester ends nothing of it is left: the default session, no
  authentication, no transfer and no request; the tester gets no message, and an answer that the
  diagnostic service still gives is refused.
\<close>

theorem disconnect_resets:
  assumes "DiagIndicationHandler c a msg TAF_DOIP_RESULT_SA_DEREGISTERED m = Inr m'"
  shows "readyToRecvData m' \<and> SessionType m' = DEFAULT_SESSION \<and> authState m' = AUTH_STATE_UNKNOWN \<and> \<not> isXferActive m'
     \<and> recvDataLen m' = 0 \<and> diag_msgs m' = diag_msgs m
     \<and> (\<forall>b sid err d. \<exists>m''. taf_uds_SendDiagResp c b sid err d m' = Inr (UDS_FAULT, m'') \<and> diag_msgs m'' = diag_msgs m)"
proof -
  define m2 where "m2 = request_done ((UdsTimerEventReport AUTH_TIMER_STOP 0 (UdsTimerEventReport P2STAR_TIMER_STOP 0
      (UdsTimerEventReport S3_TIMER_STOP 0 (m\<lparr>um_addrInfo := a\<rparr>))))\<lparr>authState := AUTH_STATE_UNKNOWN\<rparr>)"
  define m3 where "m3 = m2\<lparr>isXferActive := False, recvBuf := replicate UDS_MAX_DATA_SIZE 0, recvDataLen := 0, sendDataLen := 0\<rparr>"
  have t: "um_trace m2 = um_trace m" "authState m2 = AUTH_STATE_UNKNOWN"
    by (simp_all add: m2_def request_done_def CheckAndSendCancelFileXferEvent_def ind_report_def UdsTimerEventReport_def)
  have r: "readyToRecvData m3" "authState m3 = AUTH_STATE_UNKNOWN" "\<not> isXferActive m3" "recvDataLen m3 = 0" "um_trace m3 = um_trace m"
    using t by (simp_all add: m3_def) (simp add: m2_def)
  have "readyToRecvData m' \<and> SessionType m' = DEFAULT_SESSION \<and> authState m' = AUTH_STATE_UNKNOWN \<and> \<not> isXferActive m'
     \<and> recvDataLen m' = 0 \<and> um_trace m' = um_trace m"
    using assms r unfolding DiagIndicationHandler_def sa_deregistered_def Let_def m2_def [symmetric] m3_def [symmetric]
    by (auto simp: ind_report_def sec_only_def split: if_splits dest!: wait_only)
  then show ?thesis
    by (simp add: taf_uds_SendDiagResp_def SendUDSResp_def resp_error_def diag_msgs_def)
qed

section \<open>A late expiry\<close>

text \<open>
  The last expiry of the timer for a request is handled by the main thread later. When the request
  was answered in between and another one is outstanding, it is that one which is given up: the
  tester gets the general reject of the old one, and no answer to the new one is sent.
\<close>

theorem stale_reject_discards_request:
  assumes "\<not> readyToRecvData m" "um_p2q m = (sid, 0x10, b) # q" "sid \<noteq> 0x3E"
  shows "let m' = uds_p2_step c m in readyToRecvData m' \<and> recvDataLen m' = 0
     \<and> diag_msgs m' = diag_msgs m @ [(respond_addr b, [0x7F, sid, 0x10])]
     \<and> (\<forall>a sid err d. \<exists>m''. taf_uds_SendDiagResp c a sid err d m' = Inr (UDS_FAULT, m'') \<and> diag_msgs m'' = diag_msgs m')"
  using assms
  by (simp add: uds_p2_step_def P2StarSendNrcInMainThread_def Let_def taf_uds_SendDiagResp_def SendUDSResp_def resp_error_def)

section \<open>Reading identifiers\<close>

definition did_bytes :: "uds_mgr \<Rightarrow> nat \<Rightarrow> byte list" where
  "did_bytes m i = [recvBuf m ! (2 * i + 1), recvBuf m ! (2 * i + 2)]"

definition did_permitted :: "uds_cfg \<Rightarrow> uds_addr \<Rightarrow> uds_mgr \<Rightarrow> nat \<Rightarrow> bool" where
  "did_permitted c a m i \<longleftrightarrow> (let did = be_at (recvBuf m) (2 * i + 1) in
     (ad_functional a \<longrightarrow> cfg_did_functional c did) \<and> read_did c did m = Inr DidAccept)"

lemma read_did_loop_filter:
  "read_did_loop c a m is out k = Inr (Inr (out', k')) \<Longrightarrow> out' = out @ concat (map (did_bytes m) (filter (did_permitted c a m) is))"
proof (induction "is" arbitrary: out k)
  case (Cons i js)
  show ?case
  proof (cases "ad_functional a \<and> \<not> cfg_did_functional c (be_at (recvBuf m) (2 * i + 1))")
    case True
    then show ?thesis using Cons by (simp add: did_permitted_def Let_def)
  next
    case False
    then obtain r where r: "read_did c (be_at (recvBuf m) (2 * i + 1)) m = Inr r"
      using Cons(2) by (auto simp: Let_def)
    then have "(r = DidAccept) = did_permitted c a m i" using False by (auto simp: did_permitted_def)
    then show ?thesis using Cons(2) False r
      by (cases r) (auto simp: Let_def did_bytes_def dest!: Cons(1))
  qed
qed simp

text \<open>
  A request to read identifiers reaches the diagnostic service cut down to the identifiers that are
  configured, readable in the session and unlocked, in the order of the request; their number is at
  most ten, and one that needs a role or a level that is missing stops the whole request.
\<close>

theorem read_request_filtered:
  assumes "IndicateReadDIDReq c a m = Inr (False, m')"
  shows "let n = (unat (recvDataLen m) - 1) div 2;
       out = concat (map (did_bytes m) (filter (did_permitted c a m) [0..<n])) in
     n \<le> 10 \<and> out \<noteq> [] \<and> take (unat (recvDataLen m')) (recvBuf m') = recvBuf m ! 0 # out
     \<and> unat (recvDataLen m') = Suc (length out)"
proof -
  let ?n = "(unat (recvDataLen m) - 1) div 2"
  obtain out k where l: "read_did_loop c a m [0..<?n] [] 0 = Inr (Inr (out, k))" "?n \<le> 10" "out \<noteq> []"
    and m': "m' = m\<lparr>recvBuf := recvBuf m ! 0 # out @ drop (Suc (length out)) (recvBuf m), recvDataLen := of_nat (Suc (length out))\<rparr>"
  proof (cases "read_did_loop c a m [0..<?n] [] 0")
    case (Inr r)
    then show ?thesis using assms that unfolding IndicateReadDIDReq_def Let_def nrc_out_def pass_on_def
      by (cases r) (auto split: if_splits)
  qed (use assms in \<open>auto simp: IndicateReadDIDReq_def nrc_out_def Let_def split: if_splits\<close>)
  have out: "out = concat (map (did_bytes m) (filter (did_permitted c a m) [0..<?n]))"
    using read_did_loop_filter [OF l(1)] by simp
  have "length out \<le> 20" using read_did_loop_len [OF l(1)] l(2) by simp
  then have "unat (recvDataLen m') = Suc (length out)" unfolding m' by (simp add: unat_of_nat del: of_nat_Suc)
  then show ?thesis unfolding Let_def out [symmetric] using l(2,3) by (simp add: m')
qed

section \<open>Suppressed responses\<close>

text \<open>
  The conditions for a session change are looked up with the byte of the request as it came. With
  the bit that suppresses the response no configured session is found, and the change is passed on
  from every session, without the level it needs.
\<close>

theorem suppress_bit_skips_conditions:
  assumes "\<And>s. s \<ge> 0x80 \<Longrightarrow> cfg_pattern_sessions c s = None" "recvBuf m ! 1 \<ge> 0x80"
    "recvDataLen m = 2" "IsSubFuncSupported c (recvBuf m ! 0) (recvBuf m ! 1 AND 0x7F)"
  shows "IndicateSessionCtrlReq c a m = subfunction_access c a (recvBuf m ! 0) (recvBuf m ! 1 AND 0x7F) m (pass_on m)"
  using assms by (simp add: IndicateSessionCtrlReq_def Let_def PrecheckForSwitchingSession_def)

end
