(* ===== verification/Uds_MgrSecurity.thy ===== *)
theory Uds_MgrSecurity
  imports Uds_MgrEffects
begin

unbundle bit_operations_syntax

text \<open>
  The manager implements the system of \<open>Uds_SecSystem\<close>: with partners that keep to the discipline of
  \<open>Uds_MgrInv\<close>, what it does to the security access object is a run of that system, whose properties
  then hold for the manager.
\<close>

declare split_paired_All [simp del] split_paired_Ex [simp del]

section \<open>The relation\<close>

text \<open>
  What the relation depends on: the object, the timeouts that are reported and not yet handled, the
  session, and the first two bytes of the outstanding request.
\<close>

definition sec_view :: "uds_mgr \<Rightarrow> nat \<times> byte \<times> byte \<times> (byte \<times> byte) option" where
  "sec_view m = (um_secq m, SessionType m, um_recvSubFunc m, if readyToRecvData m then None else Some (recvBuf m ! 0, recvBuf m ! 1))"

definition waits_for :: "byte \<Rightarrow> (byte \<times> byte) option \<Rightarrow> (SecAccSignal \<times> byte) option" where
  "waits_for sub out = (case out of None \<Rightarrow> None
     | Some (sid, b) \<Rightarrow> if sid = 0x27 then Some (if sub mod 2 = 1 then REQUEST_SEED_SIG else SEND_KEY_SIG, sub) else None)"

definition asked_ok :: "uds_cfg \<Rightarrow> byte \<Rightarrow> (byte \<times> byte) option \<Rightarrow> bool" where
  "asked_ok c sub out \<longleftrightarrow> (case out of None \<Rightarrow> True
     | Some (sid, b) \<Rightarrow> (sid = 0x27 \<longrightarrow> b = sub) \<and> (sid = 0x10 \<longrightarrow> IsSubFuncSupported c 0x10 (b AND 0x7F)))"

definition sec_rel :: "uds_cfg \<Rightarrow> AO_SecurityAccess \<Rightarrow> nat \<times> byte \<times> byte \<times> (byte \<times> byte) option \<Rightarrow> sa_system \<Rightarrow> bool" where
  "sec_rel c a v st \<longleftrightarrow> (case v of (n, session, sub, out) \<Rightarrow>
     sa_reachable st \<and> sy_ao st = a \<and> sessions_bound c a \<and> asked_ok c sub out \<and> sy_waiting st = waits_for sub out
     \<and> (if n = 0 then sy_session st = session else session = DEFAULT_SESSION \<and> waits_for sub out = None))"

definition sec_ok :: "uds_cfg \<Rightarrow> uds_mgr \<Rightarrow> bool" where
  "sec_ok c m \<longleftrightarrow> (\<exists>st. sec_rel c (mSecurityAccess m) (sec_view m) st)"

lemma sec_ok_same: "sec_view m' = sec_view m \<Longrightarrow> mSecurityAccess m' = mSecurityAccess m \<Longrightarrow> sec_ok c m' = sec_ok c m"
  by (simp add: sec_ok_def)

lemma sec_ok_quiet: "quiet m m' \<Longrightarrow> sec_ok c m' = sec_ok c m"
  using quiet_sel [of m m'] by (intro sec_ok_same) (simp_all add: sec_view_def)

lemma sec_ok_ready:
  assumes "sec_ok c m" "readyToRecvData m'" "mSecurityAccess m' = mSecurityAccess m" "um_secq m' = um_secq m" "SessionType m' = SessionType m"
  shows "sec_ok c m'"
proof -
  obtain st where r: "sec_rel c (mSecurityAccess m) (sec_view m) st" using assms(1) by (auto simp: sec_ok_def)
  have "sec_rel c (mSecurityAccess m) (sec_view m') (st\<lparr>sy_waiting := None\<rparr>)"
    using r assms(2-5) by (auto simp: sec_rel_def sec_view_def waits_for_def asked_ok_def intro: sa_reachable.given_up split: if_splits)
  then show ?thesis using assms(3) unfolding sec_ok_def by auto
qed

section \<open>Signals\<close>

definition sec_base :: "uds_mgr \<Rightarrow> byte \<times> byte \<times> bool \<times> byte list" where
  "sec_base m = (SessionType m, um_recvSubFunc m, readyToRecvData m, recvBuf m)"

lemma effect_base: "sec_base (sec_effect c e m) = sec_base m \<and> mSecurityAccess (sec_effect c e m) = mSecurityAccess m
    \<and> um_secq (sec_effect c e m) = um_secq m"
proof -
  have q: "sec_base m' = sec_base m \<and> mSecurityAccess m' = mSecurityAccess m \<and> um_secq m' = um_secq m" if "quiet m m'" for m m'
    using quiet_sel [OF that] by (simp add: sec_base_def)
  show ?thesis
  proof (cases e)
    case (SaZeroSeed bs)
    have "quiet_part (SendData c sid n a (m\<lparr>sendBuf := b, sendDataLen := k\<rparr>)) = quiet_part (m\<lparr>sendBuf := b, sendDataLen := k\<rparr>)" for sid n a b k
      using quiet_SendData [of "m\<lparr>sendBuf := b, sendDataLen := k\<rparr>"] by (simp add: quiet_def)
    then show ?thesis using SaZeroSeed q [OF quiet_SendData] by (simp add: sec_effect_def) (simp add: sec_base_def)
  qed (simp_all add: sec_effect_def q, simp_all add: sec_base_def)
qed

lemma effects_base: "sec_base (fold (sec_effect c) es m) = sec_base m
    \<and> mSecurityAccess (fold (sec_effect c) es m) = mSecurityAccess m \<and> um_secq (fold (sec_effect c) es m) = um_secq m"
  by (induction es arbitrary: m) (simp_all add: effect_base)

lemma dispatch_view:
  assumes "sec_dispatch c rp s m = Inr (es, m')"
  shows "MFsm_dispatch rp s (mSecurityAccess m) = Inr (mSecurityAccess m')" "sec_base m' = sec_base m" "um_secq m' = um_secq m"
    "es = drop (length (ao_trace (mSecurityAccess m))) (ao_trace (mSecurityAccess m'))"
  using assms by (auto simp: sec_dispatch_def Let_def effects_base) (simp_all add: sec_base_def)

lemma bound_dispatch: "MFsm_dispatch rp s a = Inr b \<Longrightarrow> sessions_bound c a \<Longrightarrow> sessions_bound c b"
  using dispatch_shape [of rp s a b] by (simp add: sessions_bound_def find_session_shape)

text \<open>A dispatch that the system has as an input.\<close>

lemma sec_ok_dispatch:
  assumes "MFsm_dispatch rp s a = Inr b" "sa_reachable st" "sa_input st rp s a sid"
  shows "sa_reachable (sa_next rp s a sid b)"
  using assms by (blast intro: sa_reachable.step sa_step.intros)

lemma timeouts_flushed:
  assumes "sec_timeouts c n m = Inr m'" "n = um_secq m" "sa_reachable st" "sy_ao st = mSecurityAccess m"
    "n = 0 \<or> sy_waiting st = None" "sessions_bound c (mSecurityAccess m)"
  shows "\<exists>st'. sa_reachable st' \<and> sy_ao st' = mSecurityAccess m' \<and> um_secq m' = 0 \<and> sec_base m' = sec_base m
     \<and> sessions_bound c (mSecurityAccess m') \<and> sy_waiting st' = sy_waiting st
     \<and> sy_session st' = (if n = 0 then sy_session st else DEFAULT_SESSION)"
  using assms
proof (induction c n m arbitrary: m' st rule: sec_timeouts.induct)
  case (2 c n m)
  obtain es m1 where m1: "sec_dispatch c (sec_report False m) SESSION_TIMEOUT_SIG (m\<lparr>um_secq := n\<rparr>) = Inr (es, m1)"
    and t: "sec_timeouts c n m1 = Inr m'" using 2(2) by auto
  note v = dispatch_view [OF m1, simplified]
  let ?st = "sa_next (sec_report False m) SESSION_TIMEOUT_SIG (sy_ao st) DEFAULT_SESSION (mSecurityAccess m1)"
  have "sa_reachable ?st"
    using v(1) 2(4-6) sa_input.timeout [of st "sec_report False m"] by (intro sec_ok_dispatch [where st = st]) simp_all
  moreover have "um_secq m1 = n" "sy_ao ?st = mSecurityAccess m1" "sy_waiting ?st = None" "sy_session ?st = DEFAULT_SESSION"
    "sec_base m1 = sec_base m" "sessions_bound c (mSecurityAccess m1)"
    using v bound_dispatch [OF v(1)] 2(7) by (simp_all add: sa_next_def sec_base_def)
  ultimately show ?case using 2(1) [OF m1 refl t, of ?st] 2(6) by (auto split: if_splits)
qed auto

text \<open>A call of the object from the main thread: the timeouts reported before, then the signal.\<close>

lemma sec_call_run:
  assumes "sec_call c s m = Inr (es, m')" "sa_reachable st" "sy_ao st = mSecurityAccess m" "um_secq m = 0 \<or> sy_waiting st = None"
    "sessions_bound c (mSecurityAccess m)"
  obtains st1 a1 rp where "sa_reachable st1" "sy_ao st1 = a1" "sy_waiting st1 = sy_waiting st"
    "sy_session st1 = (if um_secq m = 0 then sy_session st else DEFAULT_SESSION)"
    "MFsm_dispatch rp s a1 = Inr (mSecurityAccess m')" "es = drop (length (ao_trace a1)) (ao_trace (mSecurityAccess m'))"
    "rp_SessionType rp = SessionType m" "rp_recvSubFunc rp = um_recvSubFunc m" "rp_sem rp"
    "sec_base m' = sec_base m" "um_secq m' = 0" "sessions_bound c a1" "sessions_bound c (mSecurityAccess m')"
proof -
  obtain m1 where t: "sec_timeouts c (um_secq m) m = Inr m1" and d: "sec_dispatch c (sec_report True m1) s m1 = Inr (es, m')"
    using assms(1) by (auto simp: sec_call_def)
  obtain st1 where st1: "sa_reachable st1" "sy_ao st1 = mSecurityAccess m1" "um_secq m1 = 0" "sec_base m1 = sec_base m"
    "sessions_bound c (mSecurityAccess m1)" "sy_waiting st1 = sy_waiting st"
    "sy_session st1 = (if um_secq m = 0 then sy_session st else DEFAULT_SESSION)"
    using timeouts_flushed [OF t refl assms(2-5)] by blast
  note v = dispatch_view [OF d]
  show thesis
    by (rule that [OF st1(1,2,6,7) v(1,4)]) (use st1 v bound_dispatch [OF v(1)] in \<open>simp_all add: sec_report_def sec_base_def\<close>)
qed

section \<open>Requests\<close>

text \<open>What the checks of the other services leave alone.\<close>

definition sec_same :: "uds_mgr \<Rightarrow> uds_mgr \<Rightarrow> bool" where
  "sec_same m m' \<longleftrightarrow> mSecurityAccess m' = mSecurityAccess m \<and> um_secq m' = um_secq m \<and> SessionType m' = SessionType m
     \<and> readyToRecvData m' = readyToRecvData m"

lemma sec_same_simps [simp]:
  "sec_same m m" "sec_same m (m\<lparr>isXferActive := b\<rparr>)" "sec_same m (m\<lparr>recvBuf := r, recvDataLen := n\<rparr>)"
  by (simp_all add: sec_same_def)

lemma sec_same_quiet: "quiet m m' \<Longrightarrow> sec_same m0 m' = sec_same m0 m"
  using quiet_sel [of m m'] by (simp add: sec_same_def)

lemmas sec_same_NRC [simp] = sec_same_quiet [OF quiet_SendNRC]

abbreviation frame_post :: "uds_mgr \<Rightarrow> ind \<Rightarrow> bool" where
  "frame_post m \<equiv> ind_post (\<lambda>i. sec_same m)"

lemma frame_requests:
  "frame_post m (IndicateSessionCtrlReq c a m)" "frame_post m (IndicateECUResetReq c a m)" "frame_post m (IndicateClearDiagInfoReq c a m)"
  "frame_post m (IndicateReadDTCInfoReq c a m)" "frame_post m (IndicateAuthReq c a m)" "frame_post m (IndicateROEReq c a m)"
  "frame_post m (IndicateRxXferDataReq c a m)" "frame_post m (IndicateRxXferExitReq c a m)" "frame_post m (IndicateRxReqDwnldReq c a m)"
  unfolding IndicateSessionCtrlReq_def IndicateECUResetReq_def IndicateReadDTCInfoReq_def IndicateClearDiagInfoReq_def
    IndicateAuthReq_def IndicateROEReq_def IndicateRxXferDataReq_def IndicateRxXferExitReq_def IndicateRxReqDwnldReq_def Let_def
  by (auto simp: post_subfunction)

lemma frame_data:
  "frame_post m (IndicateReadDIDReq c a m)" "frame_post m (IndicateWriteDIDReq c a m)" "frame_post m (IndicateIOCBIDReq c a m)"
  "frame_post m (IndicateRoutinrCtrlReq c a m)" "frame_post m (IndicateRxFileXferReq c a m)"
  unfolding IndicateReadDIDReq_def IndicateWriteDIDReq_def IndicateIOCBIDReq_def IndicateRoutinrCtrlReq_def IndicateRxFileXferReq_def Let_def
  by (auto intro!: post_options split: sum.split option.split bool.split)

lemma frame_dispatch: "sid \<noteq> 0x27 \<Longrightarrow> frame_post m (dispatch_service c sid a m)"
  by (simp add: dispatch_service_def frame_requests frame_data)

lemma session_supported:
  "IndicateSessionCtrlReq c a m = Inr (False, m') \<Longrightarrow> m' = m \<and> IsSubFuncSupported c (recvBuf m ! 0) (recvBuf m ! 1 AND 0x7F)"
  by (auto simp: IndicateSessionCtrlReq_def Let_def nrc_out_def pass_on_def subfunction_access_def split: if_splits)

lemma sec_ok_relE:
  assumes "sec_ok c m"
  obtains st where "sa_reachable st" "sy_ao st = mSecurityAccess m" "sessions_bound c (mSecurityAccess m)"
    "sy_waiting st = waits_for (um_recvSubFunc m) (if readyToRecvData m then None else Some (recvBuf m ! 0, recvBuf m ! 1))"
    "um_secq m = 0 \<Longrightarrow> sy_session st = SessionType m" "um_secq m \<noteq> 0 \<Longrightarrow> SessionType m = DEFAULT_SESSION \<and> sy_waiting st = None"
  using assms by (auto simp: sec_ok_def sec_rel_def sec_view_def split: if_splits)

lemma sec_ok_relI:
  assumes "sa_reachable st" "sy_ao st = mSecurityAccess m" "sessions_bound c (mSecurityAccess m)"
    "sy_waiting st = waits_for (um_recvSubFunc m) (if readyToRecvData m then None else Some (recvBuf m ! 0, recvBuf m ! 1))"
    "asked_ok c (um_recvSubFunc m) (if readyToRecvData m then None else Some (recvBuf m ! 0, recvBuf m ! 1))"
    "um_secq m = 0" "sy_session st = SessionType m"
  shows "sec_ok c m"
  using assms unfolding sec_ok_def sec_rel_def sec_view_def by (intro exI [of _ st]) simp

lemma waits_None [simp]: "waits_for sub None = None" "asked_ok c sub None"
  by (simp_all add: waits_for_def asked_ok_def)

lemma sec_ok_security:
  assumes "IndicateSecAccessReq c a m = Inr (i, m')" "sec_ok c m" "readyToRecvData m" "recvBuf m ! 0 = 0x27"
  shows "sec_ok c (if i then m' else m'\<lparr>readyToRecvData := False\<rparr>)"
proof -
  let ?m = "m\<lparr>udsRespAddrInfo := a\<rparr>"
  let ?s = "if recvBuf m ! 1 mod 2 = 1 then REQUEST_SEED_SIG else SEND_KEY_SIG"
  let ?m1 = "?m\<lparr>um_recvSid := recvBuf m ! 0, um_recvSubFunc := recvBuf m ! 1\<rparr>"
  have r: "sec_ok c (SendNRC c sid n b ?m)" for sid n b
    using assms(2,3) quiet_sel [OF quiet_SendNRC [of ?m c sid n b]] by (intro sec_ok_ready [OF assms(2)]) simp_all
  consider (refused) sid n where "i" "m' = SendNRC c sid n a ?m"
    | (call) es where "sec_wait c ?s ?m1 = Inr (es, m')" "i = (SaToApp \<notin> set es)"
    using assms(1) unfolding IndicateSecAccessReq_def Let_def nrc_out_def by (auto split: if_splits)
  then show ?thesis
  proof cases
    case call
    then have t: "sec_call c ?s ?m1 = Inr (es, m')" by (auto simp: sec_wait_def split: if_splits)
    obtain st where st: "sa_reachable st" "sy_ao st = mSecurityAccess m" "sessions_bound c (mSecurityAccess m)" "sy_waiting st = None"
      "um_secq m = 0 \<Longrightarrow> sy_session st = SessionType m" "um_secq m \<noteq> 0 \<Longrightarrow> SessionType m = DEFAULT_SESSION"
      by (rule sec_ok_relE [OF assms(2)]) (use assms(3) that in simp)
    obtain st1 a1 rp where s1: "sa_reachable st1" "sy_ao st1 = a1" "sy_waiting st1 = None" "sy_session st1 = SessionType m"
      and d: "MFsm_dispatch rp ?s a1 = Inr (mSecurityAccess m')" "es = drop (length (ao_trace a1)) (ao_trace (mSecurityAccess m'))"
      and rp: "rp_SessionType rp = SessionType m" "rp_recvSubFunc rp = recvBuf m ! 1"
      and b: "sec_base m' = sec_base ?m1" "um_secq m' = 0" "sessions_bound c (mSecurityAccess m')"
      by (rule sec_call_run [OF t st(1)]) (use st in \<open>auto split: if_splits\<close>)
    let ?st = "sa_next rp ?s a1 (SessionType m) (mSecurityAccess m')"
    have "sa_input st1 rp ?s a1 (SessionType m)"
      using sa_input.request [of st1 rp ?s] s1 rp by simp
    then have "sa_reachable ?st" using sec_ok_dispatch [OF d(1) s1(1)] by blast
    moreover have "sy_waiting ?st = (if i then None else Some (?s, recvBuf m ! 1))"
      using call(2) d(2) rp(2) by (auto simp: sa_next_def passed_def)
    ultimately show ?thesis
      using b assms(3,4) by (intro sec_ok_relI [of ?st]) (auto simp: sec_base_def sa_next_def waits_for_def asked_ok_def)
  qed (simp add: r)
qed

lemma sec_ok_passed: "sec_ok c (CheckAndSendInd c sid a (restart_s3 c sid i m)) = sec_ok c (m\<lparr>readyToRecvData := False\<rparr>)"
proof -
  let ?u = "SendNRC c sid 0x78 a (restart_s3 c sid i m)"
  have q: "quiet m ?u" by (rule quiet_trans [OF quiet_S3(2) quiet_SendNRC])
  show ?thesis unfolding CheckAndSendInd_def
    by (rule sec_ok_same) (simp_all add: sec_view_def ind_report_def UdsTimerEventReport_def quiet_sel(1,4,6,19,23) [OF q])
qed

lemma sec_ok_request:
  assumes "handle_request c a sid m = Inr m'" "sec_ok c m" "readyToRecvData m" "sid = recvBuf m ! 0" "length (recvBuf m) = UDS_MAX_DATA_SIZE"
  shows "sec_ok c m'"
proof -
  obtain b m1 where g: "GeneralServerResp c a sid m = Inr (b, m1)"
    and t: "if b then m' = m1 else \<exists>i m2. dispatch_service c sid a m1 = Inr (i, m2)
        \<and> m' = (if \<not> i then CheckAndSendInd c sid a (restart_s3 c sid i m2) else restart_s3 c sid i m2)"
    using assms(1) by (auto simp: handle_request_def Let_def split: if_splits)
  note q = general_quiet [OF g]
  have s1: "sec_ok c m1" "readyToRecvData m1" "sid = recvBuf m1 ! 0" "length (recvBuf m1) = UDS_MAX_DATA_SIZE"
    using sec_ok_quiet [OF q] quiet_sel(1,12) [OF q] assms(2-5) by simp_all
  show ?thesis
  proof (cases b)
    case False
    with t obtain i m2 where d: "dispatch_service c sid a m1 = Inr (i, m2)"
      and m': "m' = (if \<not> i then CheckAndSendInd c sid a (restart_s3 c sid i m2) else restart_s3 c sid i m2)" by auto
    have "sec_ok c (if i then m2 else m2\<lparr>readyToRecvData := False\<rparr>)"
    proof (cases "sid = 0x27")
      case True
      then show ?thesis using sec_ok_security [of c a m1 i m2] d s1 by (simp add: dispatch_service_def)
    next
      case False
      then have f: "mSecurityAccess m2 = mSecurityAccess m1" "um_secq m2 = um_secq m1" "SessionType m2 = SessionType m1" "readyToRecvData m2"
        using frame_dispatch [of sid m1 c a] d s1(2) by (auto simp: ind_post_def sec_same_def)
      then have r2: "sec_ok c m2" by (intro sec_ok_ready [OF s1(1)]) simp_all
      have "recvBuf m2 ! 0 = sid" if "\<not> i"
        using post_dispatch [OF s1(4), of sid c a] d s1(3) that by (auto simp: ind_post_def handled_def passed_on_def)
      moreover have "IsSubFuncSupported c 0x10 (recvBuf m2 ! 1 AND 0x7F)" if "\<not> i" "sid = 0x10"
        using session_supported [of c a m1 m2] d s1(3) that by (simp add: dispatch_service_def)
      ultimately show ?thesis
        using r2 f(4) False by (auto simp: sec_ok_def sec_rel_def sec_view_def waits_for_def asked_ok_def split: if_splits)
    qed
    then show ?thesis using m' sec_ok_quiet [OF quiet_S3(2)] sec_ok_passed by (auto split: if_splits)
  qed (use t s1 in simp)
qed

section \<open>The end of a connection\<close>

lemma sec_ok_deregistered:
  assumes "sa_deregistered c a m = Inr m'" "sec_ok c m"
  shows "sec_ok c m'"
proof -
  define m2 where "m2 = request_done ((UdsTimerEventReport AUTH_TIMER_STOP 0 (UdsTimerEventReport P2STAR_TIMER_STOP 0
      (UdsTimerEventReport S3_TIMER_STOP 0 (m\<lparr>um_addrInfo := a\<rparr>))))\<lparr>authState := AUTH_STATE_UNKNOWN\<rparr>)"
  define m3 where "m3 = m2\<lparr>isXferActive := False, recvBuf := replicate UDS_MAX_DATA_SIZE 0, recvDataLen := 0, sendDataLen := 0\<rparr>"
  have m2: "readyToRecvData m2" "mSecurityAccess m2 = mSecurityAccess m" "um_secq m2 = um_secq m" "SessionType m2 = SessionType m"
    unfolding m2_def by simp (simp_all add: request_done_def CheckAndSendCancelFileXferEvent_def ind_report_def UdsTimerEventReport_def)
  have s3: "sec_ok c m3" "readyToRecvData m3" using m2 by (auto simp: m3_def intro: sec_ok_ready [OF assms(2)])
  show ?thesis
  proof (cases "SessionType m3 = DEFAULT_SESSION")
    case True
    then show ?thesis
      using assms(1) s3(1) unfolding sa_deregistered_def Let_def m2_def [symmetric] m3_def [symmetric] by simp
  next
    case False
    then obtain es m4 where w: "sec_wait c SESSION_CONTROL_SIG m3 = Inr (es, m4)"
      and m': "m' = ind_report SESSION_CHANGE [0xFF, SessionType m4, DEFAULT_SESSION] (m4\<lparr>SessionType := DEFAULT_SESSION\<rparr>)"
      using assms(1) unfolding sa_deregistered_def Let_def m2_def [symmetric] m3_def [symmetric] by auto
    then have t: "sec_call c SESSION_CONTROL_SIG m3 = Inr (es, m4)" by (auto simp: sec_wait_def split: if_splits)
    obtain st where st: "sa_reachable st" "sy_ao st = mSecurityAccess m3" "sessions_bound c (mSecurityAccess m3)" "sy_waiting st = None"
      "um_secq m3 = 0" "sy_session st = SessionType m3"
      by (rule sec_ok_relE [OF s3(1)]) (use s3(2) False that in auto)
    obtain st1 a1 rp where s1: "sa_reachable st1" "sy_ao st1 = a1" "sy_session st1 = SessionType m3"
      and d: "MFsm_dispatch rp SESSION_CONTROL_SIG a1 = Inr (mSecurityAccess m4)"
      and rp: "rp_SessionType rp = SessionType m3" and b: "sec_base m4 = sec_base m3" "um_secq m4 = 0" "sessions_bound c (mSecurityAccess m4)"
      by (rule sec_call_run [OF t st(1,2)]) (use st in \<open>auto split: if_splits\<close>)
    have "sa_input st1 rp SESSION_CONTROL_SIG a1 DEFAULT_SESSION"
      using sa_input.disconnect [of st1 rp] s1 rp False by simp
    then have "sa_reachable (sa_next rp SESSION_CONTROL_SIG a1 DEFAULT_SESSION (mSecurityAccess m4))"
      using sec_ok_dispatch [OF d s1(1)] by blast
    then show ?thesis unfolding m'
      by (rule sec_ok_relI) (use b s3(2) in \<open>simp_all add: ind_report_def sec_base_def sa_next_def\<close>)
  qed
qed

section \<open>Responses\<close>

lemma low_bit: "((x :: byte) AND 0x7F) mod 2 \<noteq> 0 \<longleftrightarrow> x mod 2 = 1"
proof -
  have "((x AND 0x7F) AND 1) = x AND 1" by (simp add: and.assoc)
  then have "(x AND 0x7F) mod 2 = x mod 2" by (simp add: and_one_eq)
  moreover have "x mod 2 = 0 \<or> x mod 2 = 1" by (simp add: mod2_eq_if)
  ultimately show ?thesis by auto
qed

text \<open>What the responses of the other services leave alone.\<close>

definition view_kept :: "uds_mgr \<Rightarrow> uds_mgr \<Rightarrow> bool" where
  "view_kept m m' \<longleftrightarrow> sec_view m' = sec_view m \<and> mSecurityAccess m' = mSecurityAccess m"

lemma view_kept_ok: "view_kept m m' \<Longrightarrow> sec_ok c m' = sec_ok c m"
  by (rule sec_ok_same) (simp_all add: view_kept_def)

lemma view_kept_cong:
  "sec_view m2 = sec_view m1 \<Longrightarrow> mSecurityAccess m2 = mSecurityAccess m1 \<Longrightarrow> view_kept m m2 = view_kept m m1"
  by (simp add: view_kept_def)

lemma view_kept_refl [simp]: "view_kept m m"
  by (simp add: view_kept_def)

lemma view_kept_NRC [simp]: "view_kept m (SetNRC sid n m') = view_kept m m'"
  using quiet_sel [OF quiet_SetNRC] by (intro view_kept_cong) (simp_all only: sec_view_def)

lemma view_kept_simps [simp]:
  "view_kept m (m'\<lparr>isResetInProgress := b\<rparr>) = view_kept m m'"
  "view_kept m (m'\<lparr>isXferActive := b\<rparr>) = view_kept m m'" "view_kept m (m'\<lparr>authState := x\<rparr>) = view_kept m m'"
  "view_kept m (m'\<lparr>authPreSucReq := p\<rparr>) = view_kept m m'" "view_kept m (UdsTimerEventReport t ms m') = view_kept m m'"
  "view_kept m (uemit e m') = view_kept m m'" "view_kept m (ind_report i bs m') = view_kept m m'"
  "view_kept m (m'\<lparr>authAttCnt := k\<rparr>) = view_kept m m'" "view_kept m (m'\<lparr>authAttCnt := k, authDelayTime := j\<rparr>) = view_kept m m'"
  "view_kept m (m'\<lparr>nrcCode := c8\<rparr>) = view_kept m m'" "view_kept m (m'\<lparr>udsRespAddrInfo := ra\<rparr>) = view_kept m m'"
  "view_kept m (m'\<lparr>um_timers := tm\<rparr>) = view_kept m m'" "view_kept m (m'\<lparr>um_p2q := pq\<rparr>) = view_kept m m'"
  "view_kept m (m'\<lparr>currentRoleVal := rv\<rparr>) = view_kept m m'" "view_kept m (m'\<lparr>isPaused := pb\<rparr>) = view_kept m m'"
  "view_kept m (m'\<lparr>cancelFileXferReqList := cl\<rparr>) = view_kept m m'" "view_kept m (m'\<lparr>um_handler := hb\<rparr>) = view_kept m m'"
  "view_kept m (m'\<lparr>um_indq := iq\<rparr>) = view_kept m m'" "view_kept m (m'\<lparr>um_timerq := tq\<rparr>) = view_kept m m'"
  "view_kept m (m'\<lparr>authDelayTime := j\<rparr>) = view_kept m m'"
  by (rule view_kept_cong; simp add: sec_view_def UdsTimerEventReport_def uemit_def ind_report_def)+

lemma view_put [simp]: "view_kept m m' \<Longrightarrow> resp_post (view_kept m) (put_response bs m')"
  by (auto simp: put_response_def view_kept_def sec_view_def)

lemma view_put_bind:
  "view_kept m m' \<Longrightarrow> (\<And>m1. view_kept m m1 \<Longrightarrow> resp_post (view_kept m) (f m1)) \<Longrightarrow>
   resp_post (view_kept m) (mbind (put_response bs m') (\<lambda>(r, m1). f m1))"
  using view_put [of m m' bs] by (auto simp: resp_post_def)

lemma view_responses:
  assumes "sid \<noteq> 0x10" "sid \<noteq> 0x27"
  shows "resp_post (view_kept m) (response_for c sid err d m)"
proof -
  have u: "resp_post (view_kept m) (mbind (r :: byte uds) f)" if "\<And>x. resp_post (view_kept m) (f x)" for r f
    using that by simp
  have "resp_post (view_kept m) (ECUResetResp c sid err m)" "resp_post (view_kept m) (ReadDIDResp sid d err m)"
    "resp_post (view_kept m) (WriteDIDResp sid err m)" "resp_post (view_kept m) (RoutineCtrlResp sid d err m)"
    "resp_post (view_kept m) (IOCBIDResp sid d err m)" "resp_post (view_kept m) (ReadDTCInfoResp sid d err m)"
    "resp_post (view_kept m) (ClearDiagInfoResp sid err m)" "resp_post (view_kept m) (CtrlDTCSettingResp sid err m)"
    "resp_post (view_kept m) (ROEResp sid d err m)" "resp_post (view_kept m) (XferDataResp sid d err m)"
    "resp_post (view_kept m) (ReqXferExitResp sid err m)" for sid
    by (simp_all add: ECUResetResp_def ReadDIDResp_def WriteDIDResp_def RoutineCtrlResp_def IOCBIDResp_def ReadDTCInfoResp_def
        ClearDiagInfoResp_def CtrlDTCSettingResp_def ROEResp_def XferDataResp_def ReqXferExitResp_def Let_def)
  moreover have "resp_post (view_kept m) (AuthenticationResp c sid d err m)" for sid
    by (simp add: AuthenticationResp_def auth_failed_def StoreAttCntToTree_def StoreDelayTimeToTree_def Let_def)
  moreover have "resp_post (view_kept m) (ReqDwnldResp sid d err m)" "resp_post (view_kept m) (ReqFileXferResp sid d err m)" for sid
    unfolding ReqDwnldResp_def ReqFileXferResp_def Let_def
    by (auto intro!: view_put_bind u simp del: resp_post_simps(5))
  ultimately show ?thesis using assms by (simp add: response_for_def)
qed

lemma sec_ok_control:
  assumes "sec_timed c SESSION_CONTROL_SIG m = Inr (b, m')" "sa_reachable st" "sy_ao st = mSecurityAccess m" "sy_waiting st = None"
    "sessions_bound c (mSecurityAccess m)" "\<not> readyToRecvData m" "recvBuf m ! 0 = 0x10" "IsSubFuncSupported c 0x10 (recvBuf m ! 1 AND 0x7F)"
    "SessionType m = recvBuf m ! 1 AND 0x7F"
  shows "sec_ok c m'"
proof -
  obtain es where t: "sec_call c SESSION_CONTROL_SIG m = Inr (es, m')" using assms(1) by (auto simp: sec_timed_def)
  obtain st1 a1 rp where s1: "sa_reachable st1" "sy_ao st1 = a1" "sy_waiting st1 = None"
    and d: "MFsm_dispatch rp SESSION_CONTROL_SIG a1 = Inr (mSecurityAccess m')"
    and rp: "rp_SessionType rp = SessionType m" and b: "sec_base m' = sec_base m" "um_secq m' = 0" "sessions_bound c (mSecurityAccess m')"
    and a1: "sessions_bound c a1"
    by (rule sec_call_run [OF t assms(2,3) _ assms(5)]) (use assms(4) in auto)
  have "SessionType m = DEFAULT_SESSION \<or> find_session a1 (SessionType m) \<noteq> None"
    using a1 assms(8,9) unfolding sessions_bound_def by metis
  then have "sa_input st1 rp SESSION_CONTROL_SIG a1 (SessionType m)"
    using sa_input.control [of st1 rp] s1 rp by simp
  then have "sa_reachable (sa_next rp SESSION_CONTROL_SIG a1 (SessionType m) (mSecurityAccess m'))"
    using sec_ok_dispatch [OF d s1(1)] by blast
  then show ?thesis
    by (rule sec_ok_relI) (use b assms(6-8) in \<open>simp_all add: sec_base_def sa_next_def waits_for_def asked_ok_def\<close>)
qed

lemma sec_ok_session:
  assumes "SessionCtrlResp c 0x10 err m = Inr (r, m')" "sec_ok c m" "\<not> readyToRecvData m" "recvBuf m ! 0 = 0x10"
  shows "sec_ok c m'"
proof -
  let ?new = "recvBuf m ! 1 AND 0x7F"
  obtain st where st: "sa_reachable st" "sy_ao st = mSecurityAccess m" "sessions_bound c (mSecurityAccess m)" "sy_waiting st = None"
    by (rule sec_ok_relE [OF assms(2)]) (use assms(3,4) that in \<open>simp add: waits_for_def\<close>)
  have sup: "IsSubFuncSupported c 0x10 ?new"
    using assms(2-4) by (auto simp: sec_ok_def sec_rel_def sec_view_def asked_ok_def)
  then have known: "list_ex (\<lambda>p. snd p = ?new) (cfg_session_map c)" using st(3) by (simp add: sessions_bound_def)
  have p: "view_kept m1 m2" if "session_positive c m1 = Inr (x, m2)" for m1 m2 x
    using view_put [of m1 m1] that by (auto simp: session_positive_def resp_post_def)
  have t: "sec_ok c m2" if "sec_timed c SESSION_CONTROL_SIG m1 = Inr (b, m2)" "mSecurityAccess m1 = mSecurityAccess m"
    "readyToRecvData m1 = readyToRecvData m" "recvBuf m1 = recvBuf m" "SessionType m1 = ?new" for b m1 m2
    using sec_ok_control [OF that(1) st(1)] that st assms(3,4) sup by simp
  let ?m = "m\<lparr>SessionType := ?new\<rparr>"
  let ?m1 = "if ?new = DEFAULT_SESSION then UdsTimerEventReport S3_TIMER_STOP 0 ?m else UdsTimerEventReport S3_TIMER_START (s3_interval c) ?m"
  have m1: "mSecurityAccess ?m1 = mSecurityAccess m" "readyToRecvData ?m1 = readyToRecvData m" "recvBuf ?m1 = recvBuf m" "SessionType ?m1 = ?new"
    by (simp_all add: UdsTimerEventReport_def)
  have d: "sec_ok c m'" if "view_kept m2 m'" "sec_ok c m2" for m2
    using that view_kept_ok by blast
  consider "err \<noteq> 0" | "err = 0" "SessionType m \<noteq> ?new" | "err = 0" "SessionType m = ?new" by blast
  then show ?thesis
  proof cases
    case 1
    then show ?thesis using assms(1,2) d [of m] by (auto simp: SessionCtrlResp_def neg_response_def)
  next
    case 2
    then obtain b m2 where c: "sec_timed c SESSION_CONTROL_SIG ?m1 = Inr (b, m2)"
      and r: "if \<not> b then m' = m2 else session_positive c (ind_report SESSION_CHANGE [0xFF, SessionType m, SessionType m2] m2) = Inr (r, m')"
      using assms(1) known unfolding SessionCtrlResp_def Let_def by (auto simp: resp_error_def split: if_splits)
    have "sec_ok c m2" using t [OF c m1] .
    moreover have "view_kept m2 m'"
    proof (cases b)
      case True
      then have "view_kept (ind_report SESSION_CHANGE [0xFF, SessionType m, SessionType m2] m2) m'" using r p by simp
      then show ?thesis by (simp add: view_kept_def sec_view_def ind_report_def)
    qed (use r in simp)
    ultimately show ?thesis using d by blast
  next
    case 3
    then have "?m = m" by simp
    then have ok: "sec_ok c ?m" using assms(2) by simp
    show ?thesis
    proof (cases "?new = DEFAULT_SESSION")
      case True
      then have "session_positive c ?m = Inr (r, m')" using assms(1) 3 by (simp add: SessionCtrlResp_def Let_def)
      then show ?thesis using d [OF p ok] by blast
    next
      case False
      then obtain b m2 where c: "sec_timed c SESSION_CONTROL_SIG ?m = Inr (b, m2)"
        and r: "if \<not> b then m' = m2 else session_positive c m2 = Inr (r, m')"
        using assms(1) 3 unfolding SessionCtrlResp_def Let_def by (auto simp: resp_error_def split: if_splits)
      have "sec_ok c m2" using t [OF c] by simp
      then show ?thesis using r d p by (cases b) auto
    qed
  qed
qed

text \<open>The answer to a security access request is always sent, and then the object waits for nothing.\<close>

lemma sec_ok_answer:
  assumes "SecurityAccessResp c 0x27 d err m = Inr (r, m')" "sec_ok c m" "\<not> readyToRecvData m" "recvBuf m ! 0 = 0x27"
    "length (data_bytes d) \<le> UDS_MAX_DATA_SIZE"
  shows "if r = UDS_OK then sec_ok c (m'\<lparr>readyToRecvData := True\<rparr>) else sec_ok c m'"
proof (cases "data_len d > UDS_DATA_SIZE - 2")
  case True
  then show ?thesis using assms(1,2) by (auto simp: SecurityAccessResp_def resp_error_def)
next
  case False
  let ?s = "if (recvBuf m ! 1 AND 0x7F) mod 2 \<noteq> 0 then REQUEST_SEED_RESPONSE_SIG else SEND_KEY_RESPONSE_SIG"
  obtain st where st: "sa_reachable st" "sy_ao st = mSecurityAccess m" "sessions_bound c (mSecurityAccess m)"
    "sy_waiting st = Some (if um_recvSubFunc m mod 2 = 1 then REQUEST_SEED_SIG else SEND_KEY_SIG, um_recvSubFunc m)"
    "um_secq m = 0" "sy_session st = SessionType m"
    by (rule sec_ok_relE [OF assms(2)]) (use assms(3,4) that in \<open>auto simp: waits_for_def\<close>)
  have sub: "recvBuf m ! 1 = um_recvSubFunc m"
    using assms(2-4) by (auto simp: sec_ok_def sec_rel_def sec_view_def asked_ok_def)
  obtain b m1 where t: "sec_timed c ?s m = Inr (b, m1)"
    using assms(1) False by (auto simp: SecurityAccessResp_def)
  then obtain es where call: "sec_call c ?s m = Inr (es, m1)" and b: "b = (SaPost \<in> set es)" by (auto simp: sec_timed_def)
  obtain st1 a1 rp where s1: "sa_reachable st1" "sy_ao st1 = a1" "sy_waiting st1 = sy_waiting st" "sy_session st1 = SessionType m"
    and d: "MFsm_dispatch rp ?s a1 = Inr (mSecurityAccess m1)" "es = drop (length (ao_trace a1)) (ao_trace (mSecurityAccess m1))"
    and rp: "rp_SessionType rp = SessionType m" "rp_recvSubFunc rp = um_recvSubFunc m" "rp_sem rp"
    and v: "sec_base m1 = sec_base m" "um_secq m1 = 0" "sessions_bound c (mSecurityAccess m1)"
    by (rule sec_call_run [OF call st(1,2) _ st(3)]) (use st in auto)
  let ?q = "if um_recvSubFunc m mod 2 = 1 then REQUEST_SEED_SIG else SEND_KEY_SIG"
  have s: "?s = answer_to ?q" using low_bit [of "recvBuf m ! 1"] sub by (simp add: answer_to_def)
  have i: "sa_input st1 rp ?s a1 (SessionType m)"
    using sa_input.answer [of st1 ?q rp ?s] s1 rp s st(4) by simp
  have w: "wait_ok a1 (SessionType m) ?q (um_recvSubFunc m)"
    using sa_reachable_inv [OF s1(1)] s1 st(4) by (simp add: sa_inv_def waiting_ok_def)
  have "SaPost \<in> set es" unfolding d(2)
    by (rule answer_posts [OF d(1) rp(3)]) (use w s in \<open>auto simp: wait_ok_def answer_to_def split: if_splits\<close>)
  then have r: "r = UDS_OK \<and> view_kept m1 m'"
    using assms(1,5) t b False unfolding SecurityAccessResp_def
    by (auto simp: neg_response_def put_response_def view_kept_def sec_view_def SetNRC_def split: if_splits)
  let ?st = "sa_next rp ?s a1 (SessionType m) (mSecurityAccess m1)"
  have n: "sa_reachable ?st" using sec_ok_dispatch [OF d(1) s1(1) i] .
  have w: "sy_waiting ?st = None" unfolding s by (simp add: sa_next_def answer_to_def)
  have "sec_ok c (m1\<lparr>readyToRecvData := True\<rparr>)"
    by (rule sec_ok_relI [OF n]) (use v w in \<open>simp_all add: sa_next_def sec_base_def\<close>)
  then have "sec_ok c (m'\<lparr>readyToRecvData := True\<rparr>)"
    by (rule sec_ok_ready) (use r in \<open>auto simp: view_kept_def sec_view_def\<close>)
  then show ?thesis using r by simp
qed

lemma sec_ok_response:
  assumes "SendUDSResp c sid err d m = Inr (r, m')" "sec_ok c m" "\<not> readyToRecvData m" "\<And>t. env_diag_request c t"
  shows "sec_ok c m'"
proof -
  let ?m = "m\<lparr>nrcCode := err\<rparr>"
  have m: "sec_ok c ?m" "\<not> readyToRecvData ?m" using assms(2,3) by (simp_all add: sec_ok_def sec_view_def)
  have other: "sec_ok c m1" if "response_for c sid err d ?m = Inr (x, m1)" "sid \<noteq> 0x10" "sid \<noteq> 0x27" for x m1
    using view_responses [OF that(2,3), of ?m c err d] that(1) m(1) view_kept_ok [of ?m m1 c] by (auto simp: resp_post_def)
  have session: "sec_ok c m1" if "response_for c sid err d ?m = Inr (x, m1)" "sid = 0x10" "sid = recvBuf m ! 0" for x m1
    using sec_ok_session [of c err ?m x m1] that m by (simp add: response_for_def)
  have answer: "if x = UDS_OK then sec_ok c (m1\<lparr>readyToRecvData := True\<rparr>) else sec_ok c m1"
    if "response_for c sid err d ?m = Inr (x, m1)" "sid = 0x27" "sid = recvBuf m ! 0" "data_len d \<le> UDS_MAX_DATA_SIZE" for x m1
    using sec_ok_answer [of c d err ?m x m1] that m by (simp add: response_for_def)
  consider (refused) "m' = ?m"
    | (kept) m1 where "sid = recvBuf m ! 0" "data_len d \<le> UDS_MAX_DATA_SIZE" "response_for c sid err d ?m = Inr (r, m1)" "r \<noteq> UDS_OK" "m' = m1"
    | (sent) m1 where "sid = recvBuf m ! 0" "data_len d \<le> UDS_MAX_DATA_SIZE" "response_for c sid err d ?m = Inr (UDS_OK, m1)"
        "m' = CheckAndRestartS3Timer c sid True
           (let m2 = uemit (UeDiag (udsRespAddrInfo m1) (take (unat (sendDataLen m1)) (sendBuf m1))) m1 in
            if cfg_idps_available c then SendIdpsIndMsg c m2 else m2)"
    using assms(1,4) unfolding SendUDSResp_def Let_def
    by (auto simp: resp_error_def not_less split: if_splits)
  then show ?thesis
  proof cases
    case kept
    then show ?thesis using other [OF kept(3)] session [OF kept(3)] answer [OF kept(3)] by auto
  next
    case sent
    let ?m2 = "uemit (UeDiag (udsRespAddrInfo m1) (take (unat (sendDataLen m1)) (sendBuf m1))) m1"
    let ?m3 = "if cfg_idps_available c then SendIdpsIndMsg c ?m2 else ?m2"
    have q: "quiet m1 ?m3" by (auto intro: quiet_trans [OF quiet_emit(1) quiet_Idps])
    have m': "m' = CheckAndRestartS3Timer c sid True ?m3" using sent(4) by (simp add: Let_def)
    have "readyToRecvData m'" "mSecurityAccess m' = mSecurityAccess ?m3" "um_secq m' = um_secq ?m3" "SessionType m' = SessionType ?m3"
      unfolding m' CheckAndRestartS3Timer_def Let_def
      by (auto simp: request_done_def CheckAndSendCancelFileXferEvent_def ind_report_def UdsTimerEventReport_def split: option.split)
    then have e: "readyToRecvData m'" "mSecurityAccess m' = mSecurityAccess m1" "um_secq m' = um_secq m1" "SessionType m' = SessionType m1"
      using quiet_sel(6,19,23) [OF q] by simp_all
    have "sec_ok c m1 \<or> sec_ok c (m1\<lparr>readyToRecvData := True\<rparr>)"
      using other [OF sent(3)] session [OF sent(3)] answer [OF sent(3)] sent(1,2) by auto
    then show ?thesis
      using sec_ok_ready [of c m1 m'] sec_ok_ready [of c "m1\<lparr>readyToRecvData := True\<rparr>" m'] e by auto
  qed (use m in simp)
qed

section \<open>Every step\<close>

lemma sec_ok_doip:
  assumes "DiagIndicationHandler c a msg result m = Inr m'" "sec_ok c m" "length (recvBuf m) = UDS_MAX_DATA_SIZE"
  shows "sec_ok c m'"
proof -
  have r: "sid = recvBuf (receive_request a (sid # bs) m) ! 0" "length (recvBuf (receive_request a (sid # bs) m)) = UDS_MAX_DATA_SIZE" for sid bs
    using assms(3) by (simp_all add: receive_request_def Let_def min_def take_Cons')
  have ok: "sec_ok c (receive_request a (sid # bs) m)" "readyToRecvData (receive_request a (sid # bs) m)" if "readyToRecvData m" for sid bs
    using that by (auto simp: receive_request_def Let_def intro: sec_ok_ready [OF assms(2)])
  show ?thesis
    using assms(1,2) sec_ok_deregistered sec_ok_request [OF _ ok r] sec_ok_quiet [OF tester_quiet] sec_ok_quiet [OF quiet_SendNRC]
    by (auto simp: DiagIndicationHandler_def split: if_splits list.splits)
qed

lemma sec_ok_p2:
  assumes "sec_ok c m"
  shows "sec_ok c (uds_p2_step c m)"
proof -
  have s: "sec_ok c (P2StarSendNrcInMainThread c x m)" if "sec_ok c m" for x m
  proof -
    obtain sid code a where x: "x = (sid, code, a)" by (cases x)
    let ?m = "SendNRC c sid code a m"
    have i: "sec_ok c ?m" using that sec_ok_quiet [OF quiet_SendNRC] by blast
    then have "sec_ok c (request_done (?m\<lparr>recvBuf := replicate UDS_MAX_DATA_SIZE 0, recvDataLen := 0, sendDataLen := 0\<rparr>))"
      by (rule sec_ok_ready) (simp_all, simp_all add: request_done_def CheckAndSendCancelFileXferEvent_def ind_report_def)
    then show ?thesis using i by (cases "code = 0x78") (simp_all add: P2StarSendNrcInMainThread_def x Let_def)
  qed
  have "sec_ok c (m\<lparr>um_p2q := xs\<rparr>)" for xs using assms view_kept_ok [of m "m\<lparr>um_p2q := xs\<rparr>"] by simp
  then show ?thesis using assms s by (auto simp: uds_p2_step_def split: list.split)
qed

lemma sec_ok_s3:
  assumes "sec_ok c m" "readyToRecvData m"
  shows "sec_ok c (S3TimeoutHandler m)"
  using assms
  by (auto simp: sec_ok_def sec_rel_def sec_view_def S3TimeoutHandler_def Let_def ind_report_def split: if_splits)

lemma sec_ok_timeout:
  assumes "sec_dispatch c (sec_report False m) SESSION_TIMEOUT_SIG (m\<lparr>um_secq := um_secq m - 1\<rparr>) = Inr (es, m')" "um_secq m > 0" "sec_ok c m"
  shows "sec_ok c m'"
proof -
  note v = dispatch_view [OF assms(1), simplified]
  obtain st where st: "sa_reachable st" "sy_ao st = mSecurityAccess m" "sessions_bound c (mSecurityAccess m)" "sy_waiting st = None"
      "SessionType m = DEFAULT_SESSION"
    by (rule sec_ok_relE [OF assms(3)]) (use assms(2) that in auto)
  let ?st = "sa_next (sec_report False m) SESSION_TIMEOUT_SIG (mSecurityAccess m) DEFAULT_SESSION (mSecurityAccess m')"
  have "sa_input st (sec_report False m) SESSION_TIMEOUT_SIG (mSecurityAccess m) DEFAULT_SESSION"
    using sa_input.timeout [of st "sec_report False m"] st by simp
  then have "sa_reachable ?st" using sec_ok_dispatch [OF v(1) st(1)] by blast
  moreover have "sessions_bound c (mSecurityAccess m')" using bound_dispatch [OF v(1) st(3)] .
  ultimately show ?thesis
    using assms(2,3) v st(5) by (auto simp: sec_ok_def sec_rel_def sec_view_def sec_base_def sa_next_def intro!: exI [of _ ?st] split: if_splits)
qed

lemma sec_ok_delay:
  assumes "sec_dispatch c (sec_report False m) DELAY_TIMER_EXPIRED_SIG (m\<lparr>mSecurityAccess := (mSecurityAccess m)\<lparr>delay_timer := False\<rparr>\<rparr>) = Inr (es, m')"
    "delay_timer (mSecurityAccess m)" "sec_ok c m"
  shows "sec_ok c m'"
proof -
  note v = dispatch_view [OF assms(1), simplified]
  obtain st where st: "sec_rel c (mSecurityAccess m) (sec_view m) st" using assms(3) by (auto simp: sec_ok_def)
  then have s: "sa_reachable st" "sy_ao st = mSecurityAccess m" "sessions_bound c (mSecurityAccess m)"
    by (auto simp: sec_rel_def split: prod.splits)
  let ?a = "(mSecurityAccess m)\<lparr>delay_timer := False\<rparr>"
  have "sa_input st (sec_report False m) DELAY_TIMER_EXPIRED_SIG ?a (sy_session st)"
    using sa_input.expired [of st "sec_report False m"] s(2) assms(2) by simp
  then have r: "sa_reachable (sa_next (sec_report False m) DELAY_TIMER_EXPIRED_SIG ?a (sy_session st) (mSecurityAccess m'))" (is "sa_reachable ?st")
    using sec_ok_dispatch [OF v(1) s(1)] by blast
  have "sessions_bound c ?a" using s(3) by (simp add: sessions_bound_def)
  then have b: "sessions_bound c (mSecurityAccess m')" using bound_dispatch [OF v(1)] by blast
  have "sy_waiting st = None"
  proof (rule ccontr)
    assume "sy_waiting st \<noteq> None"
    then have "\<not> delay_timer (sy_ao st)" using sa_reachable_inv [OF s(1)] by (auto simp: sa_inv_def waiting_ok_def wait_ok_def)
    then show False using s(2) assms(2) by simp
  qed
  then have "sec_rel c (mSecurityAccess m') (sec_view m) ?st"
    using st r b by (auto simp: sec_rel_def sa_next_def split: prod.splits)
  moreover have "sec_view m' = sec_view m" using v by (simp add: sec_view_def sec_base_def)
  ultimately show ?thesis by (auto simp: sec_ok_def)
qed

lemma sec_ok_step:
  assumes "uds_step c True m m'" "sec_ok c m" "\<And>t. env_diag_request c t" "uds_inv m"
  shows "sec_ok c m'"
  using assms(1,2,4)
proof (induction rule: uds_step.induct)
  case (response m a sid err dat r m')
  have "sec_ok c (m\<lparr>udsRespAddrInfo := a\<rparr>)" using response(3) view_kept_ok [of m "m\<lparr>udsRespAddrInfo := a\<rparr>"] by simp
  then show ?case
    using response(1,2) sec_ok_response [of c sid err "map_option (\<lambda>bs. take (length bs mod 65536) bs) dat" "m\<lparr>udsRespAddrInfo := a\<rparr>" r m'] assms(3)
    by (simp add: taf_uds_SendDiagResp_def)
next
  case (data m dataType bs)
  have "view_kept m (m\<lparr>isXferActive := False\<rparr>)" by simp
  then show ?case using data view_kept_ok [of m "snd (SetUDSData dataType bs m)" c]
    by (simp add: SetUDSData_def addCancelFileXferReqInList_def)
next
  case (handler m b)
  then show ?case using view_kept_ok [of m "m\<lparr>um_handler := b\<rparr>" c] by simp
next
  case (indication m)
  have "view_kept m (uds_ind_step m)"
    by (auto simp: uds_ind_step_def IndMsgHandler_def deliver_def split: list.split uds_ind.split)
  then show ?case using indication view_kept_ok by blast
next
  case (timer_event m remaining)
  have "view_kept m (uds_timer_step c remaining m)" by (auto simp: uds_timer_step_def split: list.split)
  then show ?case using timer_event view_kept_ok by blast
next
  case (p2_expired m)
  have "view_kept m (P2StarTimeoutHandler c m)" by (auto simp: P2StarTimeoutHandler_def Let_def split: option.split)
  then show ?case using p2_expired view_kept_ok by blast
next
  case (auth_expired m)
  have "view_kept m (AuthTimeoutHandler m)" by (simp add: AuthTimeoutHandler_def)
  then show ?case using auth_expired view_kept_ok by blast
next
  case (auth_delay_expired m)
  have "view_kept m (AuthDelayTimeoutHandler m)"
    by (simp add: AuthDelayTimeoutHandler_def Let_def StoreDelayTimeToTree_def StoreAttCntToTree_def)
  then show ?case using auth_delay_expired view_kept_ok by blast
qed (simp_all add: sec_ok_doip sec_ok_p2 sec_ok_s3 sec_ok_timeout sec_ok_delay uds_inv_def)

lemma sec_ok_runs:
  assumes "uds_runs c True m" "\<And>t. env_diag_request c t"
  shows "sec_ok c m"
  using assms(1)
proof (induction rule: uds_runs.induct)
  case (start rb sb saved ao bs tree tb a v)
  let ?m = "InitAuthData saved (uds_mgr_ctor rb sb tb a v ao)"
  have "mSecurityAccess ?m = ao" "sec_view ?m = (0, DEFAULT_SESSION, 0, None)"
    by (auto simp: InitAuthData_def uds_mgr_ctor_def sec_view_def Let_def UdsTimerEventReport_def uemit_def split: option.split)
  moreover have "sa_reachable \<lparr>sy_ao = ao, sy_session = DEFAULT_SESSION, sy_waiting = None\<rparr>"
    using start by (intro sa_reachable.start) auto
  ultimately show ?case using start unfolding sec_ok_def by (intro exI) (auto simp: sec_rel_def)
next
  case (step m m')
  then show ?case using sec_ok_step [OF _ _ assms(2)] uds_reachable_inv [OF step(1)] by blast
qed

section \<open>Properties\<close>

text \<open>
  C1: the manager implements the system of the security access object: when the diagnostic service
  answers only requests it has, the DoIP stack takes every message and every session that can be asked
  for has a binding, the object is at any time in a state that this system reaches, in the session of
  the manager, and waits for an answer exactly when the diagnostic service has a security access
  request. While session timeouts are not yet handled the manager is in the default session.
\<close>

theorem manager_refines_security:
  assumes "uds_runs c True m" "\<And>t. env_diag_request c t"
  shows "\<exists>st. sa_reachable st \<and> sy_ao st = mSecurityAccess m
     \<and> (sy_waiting st \<noteq> None \<longleftrightarrow> \<not> readyToRecvData m \<and> recvBuf m ! 0 = 0x27)
     \<and> (if um_secq m = 0 then sy_session st = SessionType m else SessionType m = DEFAULT_SESSION)"
proof -
  have k: "sec_ok c m" using sec_ok_runs [OF assms] .
  show ?thesis
    by (rule sec_ok_relE [OF k]) (auto simp: waits_for_def split: if_splits)
qed

text \<open>
  C2: outside the default session, a service that the configuration protects by security access
  reaches the diagnostic service only when a level of the current session is unlocked; when levels are
  named for the service it is one of them, unless a name is unknown to the configuration. In the default
  session the code does not look at the levels and forwards the service. The other conditions are those
  under which the manager runs the system of the object: the diagnostic service answers only
  requests it has and every session that can be asked for has a binding (the runs \<open>uds_runs c True\<close>), and
  the DoIP stack takes every message (\<open>env_diag_request\<close>). Service 0x27 itself is exempt.
\<close>

theorem protected_service_unlocked:
  assumes "uds_runs c True m" "\<And>t. env_diag_request c t" "forwards c a (sid # bs) m m'"
    "SessionType m \<noteq> DEFAULT_SESSION" "sid \<noteq> 0x27" "cfg_service_access c sid = Some ac" "ac_security_type ac = 0x27"
  shows "\<exists>i r. find_session (mSecurityAccess m) (SessionType m) = Some i \<and> current_session (mSecurityAccess m) = Some i
     \<and> unlocked_level (sess (mSecurityAccess m) i) = Some r \<and> fst r = i \<and> valid_ref (mSecurityAccess m) r
     \<and> (ac_security_level ac \<noteq> [] \<longrightarrow> (\<exists>n\<in>set (ac_security_level ac). cfg_security_level_id c n = None
          \<or> cfg_security_level_id c n = Some (ucast (Security_Level (level_at (mSecurityAccess m) r)))))"
proof -
  let ?a = "mSecurityAccess m"
  have "length (recvBuf m) = UDS_MAX_DATA_SIZE" using uds_reachable_inv [OF assms(1)] by (simp add: uds_inv_def)
  then obtain i r where u: "current_session ?a = Some i" "unlocked_level (sess ?a i) = Some r"
    and n: "ac_security_level ac \<noteq> [] \<longrightarrow> (\<exists>n\<in>set (ac_security_level ac). cfg_security_level_id c n = None
          \<or> cfg_security_level_id c n = Some (ucast (Security_Level (level_at ?a r))))"
    using forwarded_checks [OF assms(3)] assms(4-7) by blast
  obtain st where st: "sa_reachable st" "sy_ao st = ?a" "sy_session st = SessionType m"
    by (rule sec_ok_relE [OF sec_ok_runs [OF assms(1,2)]]) (use assms(4) that in auto)
  have ok: "ao_ok ?a" using sa_reachable_inv [OF st(1)] st(2) by (simp add: sa_inv_def)
  then have l: "i < length (session_list ?a)" using u(1) by (auto simp: ao_ok_def)
  then have "valid_ref ?a r" "fst r = i" using ok u by (auto simp: ao_ok_def level_refs_def)
  moreover have "find_session ?a (SessionType m) = Some i"
    using reachable_unlocked [OF st(1), of i r] st l u by simp
  ultimately show ?thesis using u n by blast
qed

end
