(* ===== verification/Uds_MgrRuns.thy ===== *)
theory Uds_MgrRuns
  imports Uds_MgrSecurity
begin

unbundle bit_operations_syntax

text \<open>
  Runs of the manager on a concrete configuration: the inputs at which the properties apply.
\<close>

declare split_paired_All [simp del] split_paired_Ex [simp del]

section \<open>A configuration\<close>

text \<open>
  Clearing trouble codes is protected by the first security level; the programming session 2 may only be
  entered from session 3.
\<close>

definition example_did :: DidEntry where
  "example_did = \<lparr>de_read_did = True, de_write_did = False, de_diagnostic_session = (\<lambda>n. Some (Some \<lparr>dr_security = False, dr_security_level = []\<rparr>, None)),
     de_read_role = [], de_write_role = [], de_did_size = 2\<rparr>"

definition example_cfg :: uds_cfg where
  "example_cfg = \<lparr>cfg_service = (\<lambda>sid. if sid \<in> services then Some (True, False) else None),
     cfg_service_access = (\<lambda>sid. if sid = 0x14
       then Some \<lparr>ac_session = [''extended''], ac_security_type = 0x27, ac_security_level = [''level 1'']\<rparr> else None),
     cfg_subfunction = (\<lambda>sid sub. if sid = 0x10 \<and> sub \<in> {1, 3} \<or> sid = 0x27 \<and> sub \<in> {1, 2, 3, 4} \<or> sid \<in> {0x11, 0x29} \<and> sub \<in> {1, 3}
       then Some (True, False) else None),
     cfg_subfunction_session = (\<lambda>sid sub. None), cfg_subfunction_access = (\<lambda>sid sub. None),
     cfg_session_map = [(''default'', 1), (''extended'', 3)],
     cfg_security_level_id = (\<lambda>n. if n = ''level 1'' then Some 1 else None),
     cfg_diagnostic_session = (\<lambda>s. Some \<lparr>ds_short_name = ''any'', ds_p2_server_ms = 50, ds_p2_star_ms = 5000\<rparr>),
     cfg_common_props = Some \<lparr>cp_max_number_of_rcrrp = 3, cp_s3_ms = 5000, cp_ignore_request_for_hardreset = True\<rparr>,
     cfg_auth_roles = None, cfg_auth_timeout = None,
     cfg_pattern_sessions = (\<lambda>s. if s = 2 then Some [3] else None), cfg_pattern_levels = (\<lambda>s. None),
     cfg_service_functional = (\<lambda>sid. sid = 0x3E), cfg_did_functional = (\<lambda>d. False),
     cfg_did_entry = (\<lambda>d. if d = 0xF190 then Some example_did else None),
     cfg_io_entry = (\<lambda>d. None), cfg_is_forbidden = (\<lambda>d bs. None), cfg_io_mask_size = (\<lambda>d. 0), cfg_routines = [],
     cfg_session_id = (\<lambda>n. None), cfg_level_id = (\<lambda>n. None), cfg_routine_record = (\<lambda>r s. ''null''),
     cfg_routine_record_size = (\<lambda>n. 0), cfg_validate_record = (\<lambda>bs n. None), cfg_idps_available = False,
     cfg_idps_supported = (\<lambda>sid. False), env_diag_request = (\<lambda>t. True)\<rparr>"

definition tester :: uds_addr where
  "tester = \<lparr>ad_sa = 0x0E00, ad_ta = 0x1000, ad_functional = False, ad_vlanId = 0\<rparr>"

definition fresh :: "byte list \<Rightarrow> byte list \<Rightarrow> uds_mgr" where
  "fresh rb sb = InitAuthData None (uds_mgr_ctor rb sb [] tester 0 (sy_ao example_start))"

section \<open>Moves\<close>

definition receive :: "byte list \<Rightarrow> uds_mgr \<Rightarrow> uds_mgr" where
  "receive msg m = (case DiagIndicationHandler example_cfg tester msg TAF_DOIP_RESULT_OK m of Inr m' \<Rightarrow> m' | Inl e \<Rightarrow> m)"

definition respond :: "byte \<Rightarrow> byte list option \<Rightarrow> uds_mgr \<Rightarrow> uds_mgr" where
  "respond sid d m = (if readyToRecvData m then m
     else case taf_uds_SendDiagResp example_cfg tester sid 0 d m of Inr (r, m') \<Rightarrow> m' | Inl e \<Rightarrow> m)"


text \<open>What of the state the moves depend on: session, object, and the outstanding request.\<close>

definition stands :: "uds_mgr \<Rightarrow> byte \<Rightarrow> AO_SecurityAccess \<Rightarrow> byte list option \<Rightarrow> bool" where
  "stands m s a msg \<longleftrightarrow> SessionType m = s \<and> mSecurityAccess m = a \<and> um_secq m = 0 \<and> authState m = AUTH_STATE_UNKNOWN
     \<and> \<not> isPaused m \<and> \<not> isResetInProgress m \<and> readyToRecvData m = (msg = None)
     \<and> (case msg of None \<Rightarrow> True | Some bs \<Rightarrow> take (length bs) (recvBuf m) = bs \<and> recvDataLen m = of_nat (length bs)
        \<and> (hd bs = 0x27 \<longrightarrow> um_recvSid m = 0x27 \<and> um_recvSubFunc m = bs ! 1))"

lemma receive_plain:
  assumes "stands m s a None" "msg = sid # bs" "length msg \<le> UDS_MAX_DATA_SIZE" "sid \<noteq> 0x27" "sid \<noteq> 0x3E"
    "GeneralServerResp example_cfg tester sid (receive_request tester msg m) = Inr (False, receive_request tester msg m)"
    "dispatch_service example_cfg sid tester (receive_request tester msg m) = Inr (False, receive_request tester msg m)"
  shows "stands (receive msg m) s a (Some msg)" "forwards example_cfg tester msg m (receive msg m)"
proof -
  let ?m = "receive_request tester msg m"
  let ?u = "SendNRC example_cfg sid 0x78 tester (restart_s3 example_cfg sid False ?m)"
  have q: "quiet ?m ?u" by (rule quiet_trans [OF quiet_S3(2) quiet_SendNRC])
  have d: "DiagIndicationHandler example_cfg tester msg TAF_DOIP_RESULT_OK m
      = Inr (CheckAndSendInd example_cfg sid tester (restart_s3 example_cfg sid False ?m))"
    using assms by (simp add: DiagIndicationHandler_def handle_request_def stands_def tester_def)
  then have r: "receive msg m = CheckAndSendInd example_cfg sid tester (restart_s3 example_cfg sid False ?m)"
    by (simp add: receive_def)
  have "stands (receive msg m) s a (Some msg) = stands (?u\<lparr>readyToRecvData := False\<rparr>) s a (Some msg)"
    unfolding r CheckAndSendInd_def by (simp add: stands_def ind_report_def UdsTimerEventReport_def)
  also have "\<dots>" using assms(1-4) quiet_sel [OF q]
    by (simp add: stands_def receive_request_def Let_def)
  finally show st: "stands (receive msg m) s a (Some msg)" .
  show "forwards example_cfg tester msg m (receive msg m)"
    using assms(1) st d unfolding r by (simp add: forwards_def stands_def)
qed

text \<open>The objects of the run that unlocks the first level.\<close>

definition ao_at :: "nat \<Rightarrow> AO_SecurityAccess" where
  "ao_at k = sy_ao (example_run (take k (MvControl (example_report 3 0 0) # unlock_moves 1)))"

definition new_events :: "nat \<Rightarrow> sa_event list" where
  "new_events k = drop (length (ao_trace (ao_at k))) (ao_trace (ao_at (Suc k)))"

lemma run_dispatch:
  "MFsm_dispatch \<lparr>rp_SessionType = 3, rp_recvSid = x, rp_recvSubFunc = y, rp_recvDataLen = n, rp_nrcCode = k, rp_sem = True\<rparr>
     SESSION_CONTROL_SIG (ao_at 0) = Inr (ao_at 1)"
  "MFsm_dispatch \<lparr>rp_SessionType = 3, rp_recvSid = 0x27, rp_recvSubFunc = 1, rp_recvDataLen = 2, rp_nrcCode = k, rp_sem = True\<rparr>
     REQUEST_SEED_SIG (ao_at 1) = Inr (ao_at 2)"
  "MFsm_dispatch \<lparr>rp_SessionType = 3, rp_recvSid = 0x27, rp_recvSubFunc = 1, rp_recvDataLen = n, rp_nrcCode = 0, rp_sem = True\<rparr>
     REQUEST_SEED_RESPONSE_SIG (ao_at 2) = Inr (ao_at 3)"
  "MFsm_dispatch \<lparr>rp_SessionType = 3, rp_recvSid = 0x27, rp_recvSubFunc = 2, rp_recvDataLen = 6, rp_nrcCode = k, rp_sem = True\<rparr>
     SEND_KEY_SIG (ao_at 3) = Inr (ao_at 4)"
  "MFsm_dispatch \<lparr>rp_SessionType = 3, rp_recvSid = 0x27, rp_recvSubFunc = 2, rp_recvDataLen = n, rp_nrcCode = 0, rp_sem = True\<rparr>
     SEND_KEY_RESPONSE_SIG (ao_at 4) = Inr (ao_at 5)"
  by code_simp+

lemma run_events:
  "new_events 0 = [SaPost]" "new_events 1 = [SaToApp, SaPost]" "new_events 2 = [SaSetNrc 0, SaPost]"
  "new_events 3 = [SaToApp, SaPost]" "new_events 4 = [SaSetNrc 0, SaPost]"
  by code_simp+

lemma ao_at_start: "sy_ao example_start = ao_at 0"
  by code_simp

lemma unlocked_at_5: "current_session (ao_at 5) = Some 0 \<and> unlocked_level (sess (ao_at 5) 0) = Some (0, 0)
    \<and> Security_Level (level_at (ao_at 5) (0, 0)) = 1"
  by code_simp

lemma run_call:
  assumes "um_secq m = 0" "mSecurityAccess m = ao_at k" "MFsm_dispatch (sec_report True m) s (ao_at k) = Inr (ao_at (Suc k))"
  shows "sec_call c s m = Inr (new_events k, fold (sec_effect c) (new_events k) (m\<lparr>mSecurityAccess := ao_at (Suc k)\<rparr>))"
  using assms by (simp add: sec_call_def sec_dispatch_def new_events_def sec_report_def Let_def)

lemma receive_security:
  assumes "stands m 3 (ao_at k) None" "msg = 0x27 # sub # bs" "length msg \<le> 10" "sub \<in> {1, 2}" "sub = 2 \<longrightarrow> bs \<noteq> []"
    "new_events k = [SaToApp, SaPost]"
    "\<And>m1. sec_report True m1 = \<lparr>rp_SessionType = 3, rp_recvSid = 0x27, rp_recvSubFunc = sub, rp_recvDataLen = of_nat (length msg),
        rp_nrcCode = nrcCode m1, rp_sem = True\<rparr> \<Longrightarrow>
      MFsm_dispatch (sec_report True m1) (if sub = 1 then REQUEST_SEED_SIG else SEND_KEY_SIG) (ao_at k) = Inr (ao_at (Suc k))"
  shows "stands (receive msg m) 3 (ao_at (Suc k)) (Some msg)"
proof -
  let ?m = "receive_request tester msg m"
  let ?m1 = "?m\<lparr>udsRespAddrInfo := tester, um_recvSid := 0x27, um_recvSubFunc := sub\<rparr>"
  let ?s = "if sub = 1 then REQUEST_SEED_SIG else SEND_KEY_SIG"
  let ?m2 = "?m1\<lparr>mSecurityAccess := ao_at (Suc k)\<rparr>"
  let ?u = "SendNRC example_cfg 0x27 0x78 tester (restart_s3 example_cfg 0x27 False ?m2)"
  have m: "recvBuf ?m ! 0 = 0x27" "recvBuf ?m ! 1 = sub" "recvDataLen ?m = of_nat (length msg)" "SessionType ?m = 3" "mSecurityAccess ?m = ao_at k"
    "um_secq ?m = 0" "take (length msg) (recvBuf ?m) = msg"
    using assms(1-3) by (simp_all add: stands_def receive_request_def Let_def)
  have g: "GeneralServerResp example_cfg tester 0x27 ?m = Inr (False, ?m)"
    using assms(1) by (simp add: GeneralServerResp_def IsServiceIDSupported_def IsAuthCheckOK_def IsValidSvcActiveSession_def IsSvcSecAccessMatched_def
        example_cfg_def services_def stands_def receive_request_def Let_def)
  have "sec_call example_cfg ?s ?m1 = Inr (new_events k, ?m2)"
    using run_call [of ?m1 k ?s example_cfg] m assms(6) assms(7) [of ?m1] by (simp add: sec_report_def sec_effect_def)
  then have w: "sec_wait example_cfg ?s ?m1 = Inr (new_events k, ?m2)" using assms(6) by (simp add: sec_wait_def)
  have n: "unat (of_nat (length msg) :: u16) = length msg" using assms(3) by (simp add: unat_of_nat)
  have "dispatch_service example_cfg 0x27 tester ?m = Inr (False, ?m2)"
    using w m n assms(2-6)
    by (auto simp: dispatch_service_def IndicateSecAccessReq_def Let_def IsSubFuncSupported_def IsSubFuncAuthCheckOK_def
        IsSubFuncSessTypeValid_def example_cfg_def word_less_nat_alt)
  then have r: "receive msg m = CheckAndSendInd example_cfg 0x27 tester (restart_s3 example_cfg 0x27 False ?m2)"
    using assms(1,2) g by (simp add: receive_def DiagIndicationHandler_def handle_request_def stands_def tester_def)
  have q: "quiet ?m2 ?u" by (rule quiet_trans [OF quiet_S3(2) quiet_SendNRC])
  have "stands (receive msg m) 3 (ao_at (Suc k)) (Some msg) = stands (?u\<lparr>readyToRecvData := False\<rparr>) 3 (ao_at (Suc k)) (Some msg)"
    unfolding r CheckAndSendInd_def by (simp add: stands_def ind_report_def UdsTimerEventReport_def)
  also have "\<dots>" using assms(1-3) m quiet_sel [OF q]
    by (simp add: stands_def) (simp add: receive_request_def Let_def stands_def)
  finally show ?thesis .
qed

lemma respond_stands:
  assumes "stands m s a (Some msg)" "msg \<noteq> []" "hd msg = sid" "length msg \<le> 10" "data_len d \<le> 10"
    "\<And>m1. stands m1 s a (Some msg) \<Longrightarrow> \<exists>m2. response_for example_cfg sid 0 d (m1\<lparr>nrcCode := 0\<rparr>) = Inr (UDS_OK, m2)
       \<and> stands (m2\<lparr>readyToRecvData := True\<rparr>) s' b None"
  shows "stands (respond sid d m) s' b None"
proof -
  let ?m = "m\<lparr>udsRespAddrInfo := tester\<rparr>"
  let ?d = "map_option (\<lambda>bs. take (length bs mod 65536) bs) d"
  have d: "?d = d" using assms(5) by (cases d) (simp_all add: data_len_def)
  have st: "stands ?m s a (Some msg)" using assms(1) by (simp add: stands_def)
  then obtain m2 where m2: "response_for example_cfg sid 0 d (?m\<lparr>nrcCode := 0\<rparr>) = Inr (UDS_OK, m2)"
    "stands (m2\<lparr>readyToRecvData := True\<rparr>) s' b None" using assms(6) by blast
  have "take (length msg) (recvBuf m) ! 0 = msg ! 0" using assms(1) by (simp add: stands_def)
  then have "recvBuf m ! 0 = hd msg" using assms(2) by (simp add: hd_conv_nth)
  moreover have "recvDataLen m \<noteq> 0" using assms(1,2,4) by (auto simp: stands_def unat_eq_0 [symmetric] unat_of_nat)
  ultimately have r: "respond sid d m = CheckAndRestartS3Timer example_cfg sid True
      (uemit (UeDiag (udsRespAddrInfo m2) (take (unat (sendDataLen m2)) (sendBuf m2))) m2)"
    using st m2(1) assms(3,5) d
    by (simp add: respond_def taf_uds_SendDiagResp_def SendUDSResp_def Let_def stands_def) (simp add: example_cfg_def)
  show ?thesis using m2(2) unfolding r
    by (auto simp: stands_def CheckAndRestartS3Timer_def Let_def request_done_def CheckAndSendCancelFileXferEvent_def
        ind_report_def UdsTimerEventReport_def uemit_def split: option.split)
qed

lemma respond_session:
  assumes "stands m 1 (ao_at 0) (Some [0x10, 3])"
  shows "stands (respond 0x10 None m) 3 (ao_at 1) None"
proof (rule respond_stands [OF assms])
  fix m1 assume m1: "stands m1 1 (ao_at 0) (Some [0x10, 3])"
  have b: "recvBuf m1 ! 1 = 3" using m1 by (cases "recvBuf m1"; cases "tl (recvBuf m1)") (auto simp: stands_def)
  let ?m = "UdsTimerEventReport S3_TIMER_START (s3_interval example_cfg) (m1\<lparr>nrcCode := 0, SessionType := 3\<rparr>)"
  have "sec_call example_cfg SESSION_CONTROL_SIG ?m = Inr (new_events 0, fold (sec_effect example_cfg) (new_events 0) (?m\<lparr>mSecurityAccess := ao_at 1\<rparr>))"
    using run_call [of ?m 0 SESSION_CONTROL_SIG example_cfg] m1 run_dispatch(1)
    by (simp add: stands_def sec_report_def UdsTimerEventReport_def)
  then have t: "sec_timed example_cfg SESSION_CONTROL_SIG ?m = Inr (True, ?m\<lparr>mSecurityAccess := ao_at 1\<rparr>)"
    by (simp add: sec_timed_def run_events sec_effect_def)
  show "\<exists>m2. response_for example_cfg 0x10 0 None (m1\<lparr>nrcCode := 0\<rparr>) = Inr (UDS_OK, m2)
     \<and> stands (m2\<lparr>readyToRecvData := True\<rparr>) 3 (ao_at 1) None"
    using b t m1
    by (simp add: response_for_def SessionCtrlResp_def Let_def session_positive_def put_response_def)
      (simp add: example_cfg_def stands_def UdsTimerEventReport_def ind_report_def)
qed (simp_all add: data_len_def)

lemma respond_security:
  assumes "stands m 3 (ao_at k) (Some (0x27 # sub # bs))" "sub \<in> {1, 2}" "length bs \<le> 8" "length d \<le> 10" "new_events k = [SaSetNrc 0, SaPost]"
    "\<And>m1. sec_report True m1 = \<lparr>rp_SessionType = 3, rp_recvSid = 0x27, rp_recvSubFunc = sub, rp_recvDataLen = recvDataLen m1,
        rp_nrcCode = 0, rp_sem = True\<rparr> \<Longrightarrow>
      MFsm_dispatch (sec_report True m1) (if sub = 1 then REQUEST_SEED_RESPONSE_SIG else SEND_KEY_RESPONSE_SIG) (ao_at k) = Inr (ao_at (Suc k))"
  shows "stands (respond 0x27 (Some d) m) 3 (ao_at (Suc k)) None"
proof (rule respond_stands [OF assms(1)])
  fix m1 assume m1: "stands m1 3 (ao_at k) (Some (0x27 # sub # bs))"
  let ?s = "if sub = 1 then REQUEST_SEED_RESPONSE_SIG else SEND_KEY_RESPONSE_SIG"
  let ?m = "m1\<lparr>nrcCode := 0\<rparr>"
  have b: "recvBuf m1 ! 1 = sub" "recvBuf m1 ! 0 = 0x27"
    using m1 by (cases "recvBuf m1"; cases "tl (recvBuf m1)"; auto simp: stands_def)+
  have "sec_call example_cfg ?s ?m = Inr (new_events k, fold (sec_effect example_cfg) (new_events k) (?m\<lparr>mSecurityAccess := ao_at (Suc k)\<rparr>))"
    using run_call [of ?m k ?s example_cfg] m1 assms(6) [of ?m] by (simp add: stands_def sec_report_def)
  then have t: "sec_timed example_cfg ?s ?m = Inr (True, ?m\<lparr>mSecurityAccess := ao_at (Suc k)\<rparr>)"
    by (simp add: sec_timed_def assms(5) sec_effect_def)
  have p: "((sub AND 0x7F) mod 2 \<noteq> 0) = (sub = 1)" using assms(2) by auto
  show "\<exists>m2. response_for example_cfg 0x27 0 (Some d) ?m = Inr (UDS_OK, m2) \<and> stands (m2\<lparr>readyToRecvData := True\<rparr>) 3 (ao_at (Suc k)) None"
    using b t m1 assms(4) p
    by (simp add: response_for_def SecurityAccessResp_def put_response_def data_len_def data_bytes_def) (simp add: stands_def)
qed (use assms in \<open>simp_all add: data_len_def\<close>)

section \<open>Runs\<close>

definition session_asked :: "byte list \<Rightarrow> byte list \<Rightarrow> uds_mgr" where
  "session_asked rb sb = receive [0x10, 3] (fresh rb sb)"

definition in_session :: "byte list \<Rightarrow> byte list \<Rightarrow> uds_mgr" where
  "in_session rb sb = respond 0x10 None (session_asked rb sb)"

definition unlocked :: "byte list \<Rightarrow> byte list \<Rightarrow> uds_mgr" where
  "unlocked rb sb = respond 0x27 (Some []) (receive [0x27, 2, 1, 2, 3, 4] (respond 0x27 (Some [5, 6, 7, 8]) (receive [0x27, 1] (in_session rb sb))))"

lemma fresh_stands: "stands (fresh rb sb) 1 (ao_at 0) None"
  by (simp add: stands_def fresh_def InitAuthData_def uds_mgr_ctor_def ao_at_start uemit_def)

lemma session_asked_stands: "stands (session_asked rb sb) 1 (ao_at 0) (Some [0x10, 3])"
  unfolding session_asked_def
proof (rule receive_plain(1) [OF fresh_stands refl])
  let ?m = "receive_request tester [0x10, 3] (fresh rb sb)"
  have m: "recvBuf ?m ! 0 = 0x10" "recvBuf ?m ! 1 = 3" "recvDataLen ?m = 2" "SessionType ?m = 1"
    using fresh_stands [of rb sb] by (simp_all add: receive_request_def Let_def stands_def)
  show "GeneralServerResp example_cfg tester 0x10 ?m = Inr (False, ?m)"
    using fresh_stands [of rb sb]
    by (simp add: GeneralServerResp_def IsServiceIDSupported_def IsAuthCheckOK_def IsValidSvcActiveSession_def IsSvcSecAccessMatched_def
        example_cfg_def services_def stands_def receive_request_def Let_def)
  show "dispatch_service example_cfg 0x10 tester ?m = Inr (False, ?m)"
    using m by (simp add: dispatch_service_def IndicateSessionCtrlReq_def Let_def subfunction_access_def IsSubFuncSupported_def
        IsSubFuncAuthCheckOK_def IsSubFuncSessTypeValid_def IsSubFuncSecAccessMatched_def PrecheckForSwitchingSession_def pass_on_def)
      (simp add: example_cfg_def ex_bool_eq)
qed simp_all

lemma in_session_stands: "stands (in_session rb sb) 3 (ao_at 1) None"
  unfolding in_session_def by (rule respond_session [OF session_asked_stands])

lemma unlocked_stands: "stands (unlocked rb sb) 3 (ao_at 5) None"
proof -
  have 1: "stands (receive [0x27, 1] (in_session rb sb)) 3 (ao_at 2) (Some [0x27, 1])"
    using receive_security [OF in_session_stands, of "[0x27, 1]" 1 "[]"] run_events(2) run_dispatch(2) by (simp add: numeral_2_eq_2)
  then have 2: "stands (respond 0x27 (Some [5, 6, 7, 8]) (receive [0x27, 1] (in_session rb sb))) 3 (ao_at 3) None"
    using respond_security [OF 1, of "[5, 6, 7, 8]"] run_events(3) run_dispatch(3) by (simp add: eval_nat_numeral)
  then have 3: "stands (receive [0x27, 2, 1, 2, 3, 4] (respond 0x27 (Some [5, 6, 7, 8]) (receive [0x27, 1] (in_session rb sb)))) 3 (ao_at 4)
      (Some [0x27, 2, 1, 2, 3, 4])"
    using receive_security [OF 2, of "[0x27, 2, 1, 2, 3, 4]" 2 "[1, 2, 3, 4]"] run_events(4) run_dispatch(4) by (simp add: eval_nat_numeral)
  show ?thesis unfolding unlocked_def
    using respond_security [OF 3, of "[]"] run_events(5) run_dispatch(5) by (simp add: eval_nat_numeral)
qed

section \<open>Reachability\<close>

definition zeros :: "byte list" where
  "zeros = replicate UDS_MAX_DATA_SIZE 0"

lemma example_config: "sa_config_ok (sy_ao example_start)" "sessions_bound example_cfg (sy_ao example_start)"
proof -
  show "sa_config_ok (sy_ao example_start)" by (rule sa_config_check) code_simp+
  have "find_session (sy_ao example_start) 3 \<noteq> None" by code_simp
  then show "sessions_bound example_cfg (sy_ao example_start)"
    by (auto simp: sessions_bound_def IsSubFuncSupported_def example_cfg_def split: if_splits)
qed

lemma fresh_runs: "uds_runs example_cfg d (fresh zeros zeros)"
proof -
  have "sy_ao example_start = SecurityAccess_CreateActiveObject
      [\<lparr>sb_session_id = 3, sb_levels = [example_level 1 32, example_level 3 16]\<rparr>] (\<lambda>_ _. None)"
    by (simp add: example_start_def)
  then show ?thesis unfolding fresh_def
    by (rule uds_runs.start [rotated 3]) (use example_config in \<open>simp_all add: zeros_def saved_ok_def\<close>)
qed

lemma receive_runs: "uds_runs example_cfg d m \<Longrightarrow> uds_runs example_cfg d (receive msg m)"
  by (auto simp: receive_def split: sum.split intro: uds_runs.step uds_step.doip)

lemma respond_runs: "uds_runs example_cfg d m \<Longrightarrow> uds_runs example_cfg d (respond sid dat m)"
  by (auto simp: respond_def split: sum.split intro: uds_runs.step uds_step.response)

lemma run_reached:
  "uds_runs example_cfg d (session_asked zeros zeros)" "uds_runs example_cfg d (unlocked zeros zeros)"
  unfolding session_asked_def unlocked_def in_session_def
  by (intro receive_runs respond_runs fresh_runs)+

lemma always_sent: "env_diag_request example_cfg t"
  by (simp add: example_cfg_def)

text \<open>With the level unlocked the protected service is passed on.\<close>

lemma clear_forwarded:
  "forwards example_cfg tester [0x14, 1, 2, 3] (unlocked rb sb) (receive [0x14, 1, 2, 3] (unlocked rb sb))"
proof (rule receive_plain(2) [OF unlocked_stands refl])
  let ?m = "receive_request tester [0x14, 1, 2, 3] (unlocked rb sb)"
  have m: "recvBuf ?m ! 0 = 0x14" "recvDataLen ?m = 4" "SessionType ?m = 3" "mSecurityAccess ?m = ao_at 5"
    using unlocked_stands [of rb sb] by (simp_all add: receive_request_def Let_def stands_def)
  have u: "SecurityAccess_IsUnlocked (ao_at 5) = Inr True" "SecurityAccess_IsLevelUnlocked 1 (ao_at 5) = Inr True"
    using unlocked_at_5 by (simp_all add: SecurityAccess_IsUnlocked_def SecurityAccess_IsLevelUnlocked_def)
  show "GeneralServerResp example_cfg tester 0x14 ?m = Inr (False, ?m)"
    using unlocked_stands [of rb sb] m u
    by (simp add: GeneralServerResp_def IsServiceIDSupported_def IsAuthCheckOK_def IsValidSvcActiveSession_def IsSvcSecAccessMatched_def
        access_unlocked_def session_named_def example_cfg_def services_def stands_def usec_def)
  show "dispatch_service example_cfg 0x14 tester ?m = Inr (False, ?m)"
    using m by (simp add: dispatch_service_def IndicateClearDiagInfoReq_def Let_def pass_on_def)
qed simp_all

section \<open>Witnesses\<close>

theorem manager_invariant_witness: "length (recvBuf (session_asked zeros zeros)) = UDS_MAX_DATA_SIZE \<and> recvBuf (session_asked zeros zeros) ! 0 \<in> services"
  using manager_invariant [OF run_reached(1)] session_asked_stands [of zeros zeros] by (auto simp: stands_def)

theorem manager_refines_security_witness:
  "\<exists>st. sa_reachable st \<and> sy_ao st = ao_at 5 \<and> sy_waiting st = None \<and> sy_session st = 3"
  using manager_refines_security [OF run_reached(2) always_sent] unlocked_stands [of zeros zeros]
  by (auto simp: stands_def)

theorem protected_service_unlocked_witness:
  "find_session (ao_at 5) 3 = Some 0 \<and> unlocked_level (sess (ao_at 5) 0) = Some (0, 0)"
proof -
  let ?m = "unlocked zeros zeros"
  obtain ac where ac: "cfg_service_access example_cfg 0x14 = Some ac" "ac_security_type ac = 0x27" by (simp add: example_cfg_def)
  have s: "SessionType ?m = 3" "mSecurityAccess ?m = ao_at 5" using unlocked_stands [of zeros zeros] by (simp_all add: stands_def)
  obtain i where "find_session (mSecurityAccess ?m) (SessionType ?m) = Some i" "current_session (mSecurityAccess ?m) = Some i"
    using protected_service_unlocked [OF run_reached(2) always_sent clear_forwarded _ _ ac] s(1) by auto
  then show ?thesis using s unlocked_at_5 by simp
qed

theorem forwarded_is_authorised_witness:
  "\<not> isPaused (unlocked zeros zeros) \<and> (\<exists>auth. cfg_service example_cfg 0x14 = Some (True, auth))"
proof -
  have "length (recvBuf (unlocked zeros zeros)) = UDS_MAX_DATA_SIZE"
    using uds_reachable_inv [OF run_reached(2)] by (simp add: uds_inv_def)
  then show ?thesis using forwarded_is_authorised [OF clear_forwarded] by blast
qed

theorem outstanding_response_fits_witness:
  "\<exists>f r m'. taf_uds_SendDiagResp example_cfg tester 0x10 0 None (session_asked zeros zeros) \<in> {Inl (UdsSec f), Inr (r, m')}"
  using outstanding_response_fits [OF run_reached(1), of None "0x10" tester 0] session_asked_stands [of zeros zeros]
  by (simp add: stands_def)

theorem busy_refused_witness:
  "\<exists>m'. DiagIndicationHandler example_cfg tester [0x22, 0xF1, 0x90] TAF_DOIP_RESULT_OK (session_asked zeros zeros) = Inr m'
     \<and> diag_msgs m' = diag_msgs (session_asked zeros zeros) @ [(respond_addr tester, [0x7F, 0x22, 0x21])]"
  using busy_refused [of "session_asked zeros zeros" "0x22" tester example_cfg "[0xF1, 0x90]"] session_asked_stands [of zeros zeros]
  by (auto simp: stands_def tester_def)

theorem unanswered_request_ends_witness:
  "let m = (fresh [0x22] [])\<lparr>um_timers := \<lparr>tm_s3 = None, tm_p2star = Some (4500, 3, 0), tm_auth = None, tm_authDelay = None\<rparr>\<rparr> in
   diag_msgs ((p2_round example_cfg ^^ 3) m) = replicate 2 (respond_addr tester, [0x7F, 0x22, 0x78]) @ [(respond_addr tester, [0x7F, 0x22, 0x10])]"
proof -
  let ?m = "(fresh [0x22] [])\<lparr>um_timers := \<lparr>tm_s3 = None, tm_p2star = Some (4500, 3, 0), tm_auth = None, tm_authDelay = None\<rparr>\<rparr>"
  have k: "3 = max_rcrrp example_cfg" by (simp add: max_rcrrp_def example_cfg_def)
  have f: "um_addrInfo (fresh rb sb) = tester" "recvBuf (fresh rb sb) = rb" "um_p2q (fresh rb sb) = []" "diag_msgs (fresh rb sb) = []" for rb sb
    by (simp_all add: fresh_def InitAuthData_def uds_mgr_ctor_def uemit_def diag_msgs_def map_filter_def)
  then show ?thesis using unanswered_request_ends [of ?m 4500 3 example_cfg] k by (simp add: Let_def)
qed

lemma negative_sent: "\<exists>m'. taf_uds_SendDiagResp example_cfg tester 0x10 0x22 None (session_asked zeros zeros) = Inr (UDS_OK, m')"
proof -
  let ?m = "session_asked zeros zeros"
  have "recvBuf ?m ! 0 = 0x10" "recvDataLen ?m = 2"
    using session_asked_stands [of zeros zeros] by (cases "recvBuf ?m"; simp add: stands_def)+
  then show ?thesis
    by (simp add: taf_uds_SendDiagResp_def SendUDSResp_def response_for_def SessionCtrlResp_def neg_response_def SetNRC_def data_len_def Let_def)
qed

theorem response_sent_witness:
  "\<exists>m'. taf_uds_SendDiagResp example_cfg tester 0x10 0x22 None (session_asked zeros zeros) = Inr (UDS_OK, m')
     \<and> diag_msgs m' = diag_msgs (session_asked zeros zeros) @ [(tester, [0x7F, 0x10, 0x22])]"
proof -
  obtain m' where m': "taf_uds_SendDiagResp example_cfg tester 0x10 0x22 None (session_asked zeros zeros) = Inr (UDS_OK, m')"
    using negative_sent by blast
  have "\<not> readyToRecvData (session_asked zeros zeros)" using session_asked_stands by (simp add: stands_def)
  from response_sent [OF run_reached(1) this m'] m' show ?thesis by (auto simp: response_form_def)
qed

theorem session_response_witness:
  "let m = (fresh [0x10, 1] (replicate 8 0))\<lparr>recvDataLen := 2\<rparr> in \<exists>m'. SessionCtrlResp example_cfg 0x10 0 m = Inr (UDS_OK, m')
     \<and> (\<exists>h l hs ls. outgoing m' = [0x50, 1, h, l, hs, ls] \<and> unat h * 256 + unat l = 50 \<and> unat hs * 256 + unat ls = 500)"
proof -
  let ?m = "(fresh [0x10, 1] (replicate 8 0))\<lparr>recvDataLen := 2\<rparr>"
  have f: "recvBuf ?m ! 1 = 1" "SessionType ?m = 1" by (simp_all add: fresh_def InitAuthData_def uds_mgr_ctor_def uemit_def)
  obtain m' where m': "SessionCtrlResp example_cfg 0x10 0 ?m = Inr (UDS_OK, m')"
    using f by (simp add: SessionCtrlResp_def session_positive_def put_response_def Let_def)
  have "p2_interval example_cfg 1 = 50" "p2star_interval example_cfg 1 = 5000"
    by (simp_all add: p2_interval_def p2star_interval_def example_cfg_def)
  then show ?thesis using session_response [OF m'] f m' by (simp add: Let_def)
qed

theorem expired_role_witness:
  "um_indq (AuthTimeoutHandler (snd (SetUDSData 0 [0, 0, 0, 0, 0, 0, 1, 2] (fresh [] [])))) = [(AUTHENTICATION_EXPIRATION, [0xFE, 0, 0, 0, 0, 0, 0, 1, 2])]"
proof -
  have "um_indq (fresh [] []) = []" by (simp add: fresh_def InitAuthData_def uds_mgr_ctor_def uemit_def)
  then show ?thesis using expired_role [of "[0, 0, 0, 0, 0, 0, 1, 2]" "fresh [] []"] by (simp add: Let_def)
qed

theorem tenth_failure_locks_witness:
  "\<exists>m'. AuthenticationResp example_cfg 0x29 None 0x35 ((fresh [0x29, 3] [])\<lparr>authAttCnt := 9\<rparr>) = Inr (UDS_OK, m')
     \<and> outgoing m' = [0x7F, 0x29, 0x36] \<and> tm_authDelay (um_timers (uds_timer_step example_cfg 0 m')) = Some 60000"
proof -
  let ?m = "(fresh [0x29, 3] [])\<lparr>authAttCnt := 9\<rparr>"
  have f: "recvBuf ?m ! 1 = 3" "tm_authDelay (um_timers ?m) = None" "um_timerq ?m = []" "authDelayTime ?m = 60"
    by (simp_all add: fresh_def InitAuthData_def uds_mgr_ctor_def uemit_def)
  then show ?thesis
    using tenth_failure_locks [where m = ?m and err = "0x35" and c = example_cfg and d = None and n = 0 and a = tester]
    by (auto simp: Let_def)
qed

theorem delay_backs_off_witness: "unat (authDelayTime ((AuthDelayTimeoutHandler ^^ 2) (fresh zeros zeros))) = 240"
proof -
  have "authDelayTime (fresh zeros zeros) = 60" by (simp add: fresh_def InitAuthData_def uds_mgr_ctor_def uemit_def)
  then show ?thesis using delay_backs_off [OF fresh_runs, of 2] by simp
qed

theorem disconnect_resets_witness:
  "\<exists>m'. DiagIndicationHandler example_cfg tester [] TAF_DOIP_RESULT_SA_DEREGISTERED (session_asked zeros zeros) = Inr m'
     \<and> readyToRecvData m' \<and> recvDataLen m' = 0"
proof -
  have "\<exists>m'. sa_deregistered example_cfg tester (session_asked zeros zeros) = Inr m'"
    using session_asked_stands [of zeros zeros]
    by (simp add: sa_deregistered_def Let_def stands_def) (simp add: UdsTimerEventReport_def)
  then obtain m' where "DiagIndicationHandler example_cfg tester [] TAF_DOIP_RESULT_SA_DEREGISTERED (session_asked zeros zeros) = Inr m'"
    by (auto simp: DiagIndicationHandler_def)
  then show ?thesis using disconnect_resets [of example_cfg tester "[]" "session_asked zeros zeros" m'] by blast
qed

theorem stale_reject_discards_request_witness:
  "let m' = uds_p2_step example_cfg ((session_asked zeros zeros)\<lparr>um_p2q := [(0x22, 0x10, tester)]\<rparr>) in readyToRecvData m' \<and> recvDataLen m' = 0"
  using stale_reject_discards_request [of "(session_asked zeros zeros)\<lparr>um_p2q := [(0x22, 0x10, tester)]\<rparr>" "0x22" tester "[]" example_cfg]
    session_asked_stands [of zeros zeros]
  by (simp add: Let_def stands_def)

theorem read_request_filtered_witness:
  "\<exists>m'. IndicateReadDIDReq example_cfg tester ((fresh [0x22, 0x12, 0x34, 0xF1, 0x90] [])\<lparr>recvDataLen := 5\<rparr>) = Inr (False, m')
     \<and> take (unat (recvDataLen m')) (recvBuf m') = [0x22, 0xF1, 0x90]"
proof -
  let ?m = "(fresh [0x22, 0x12, 0x34, 0xF1, 0x90] [])\<lparr>recvDataLen := 5\<rparr>"
  have f: "recvBuf ?m = [0x22, 0x12, 0x34, 0xF1, 0x90]" "SessionType ?m = 1"
    by (simp_all add: fresh_def InitAuthData_def uds_mgr_ctor_def uemit_def)
  have u: "[0..<2] = [0, 1 :: nat]" by (simp add: upt_rec)
  have r: "read_did example_cfg 0x1234 ?m = Inr DidSkip" "read_did example_cfg 0xF190 ?m = Inr DidAccept"
    using f by (simp_all add: read_did_def example_cfg_def example_did_def IsAuthRoleMatchedImpl_def right_unlocked_def)
  obtain m' where m': "IndicateReadDIDReq example_cfg tester ?m = Inr (False, m')"
    using f r u by (simp add: IndicateReadDIDReq_def Let_def be_at_def tester_def pass_on_def)
  have n: "(unat (recvDataLen ?m) - 1) div 2 = 2" by simp
  have c: "concat (map (did_bytes ?m) (filter (did_permitted example_cfg tester ?m) [0..<2])) = [0xF1, 0x90]"
    using f r u by (simp add: did_bytes_def did_permitted_def be_at_def tester_def Let_def)
  have "take (unat (recvDataLen m')) (recvBuf m') = recvBuf ?m ! 0 # [0xF1, 0x90]"
    using read_request_filtered [OF m', unfolded Let_def n c] by blast
  moreover have "recvBuf ?m ! 0 = 0x22" using f(1) by simp
  ultimately show ?thesis using m' by (metis (no_types))
qed

theorem suppress_bit_skips_conditions_witness:
  "let m = (fresh [0x10, 0x81] [])\<lparr>recvDataLen := 2\<rparr> in
     IndicateSessionCtrlReq example_cfg tester m = subfunction_access example_cfg tester 0x10 1 m (pass_on m)"
proof -
  let ?m = "(fresh [0x10, 0x81] [])\<lparr>recvDataLen := 2\<rparr>"
  have f: "recvBuf ?m ! 0 = 0x10" "recvBuf ?m ! 1 = 0x81"
    by (simp_all add: fresh_def InitAuthData_def uds_mgr_ctor_def uemit_def)
  have p: "cfg_pattern_sessions example_cfg s = None" if "s \<ge> 0x80" for s
    using that by (auto simp: example_cfg_def word_le_nat_alt)
  show ?thesis using suppress_bit_skips_conditions [OF p, of ?m tester] f
    by (simp add: Let_def IsSubFuncSupported_def) (simp add: example_cfg_def)
qed

end
