(* ===== verification/Dem_Store.thy ===== *)
theory Dem_Store
  imports Taf_Prelude
begin

unbundle bit_operations_syntax

text \<open>
  The storage of the diagnostic event manager: the tables of the database \<open>dem.db\<close> and the data
  access objects over them (\<open>tafDTCEntityDAO.cpp\<close>, \<open>tafEventEntityDAO.cpp\<close>,
  \<open>tafSnapshotEntityDAO.cpp\<close>) as far as the services use them.

  A table is the list of its rows. SQLite is not part of the repository; what the model uses of it
  is the meaning of the statements the code prepares: a row whose primary key is not bound gets
  the next number, an \<open>INSERT\<close> with a key that is present fails, an \<open>UPDATE\<close> or \<open>DELETE\<close> changes the
  rows of its key, and a statement may fail. Which statements fail is an input: \<open>io\<close> holds one
  entry for each statement to come, \<open>None\<close> for a statement that succeeds and \<open>Some k\<close> for one that
  fails after it has delivered \<open>k\<close> rows; when it is used up every statement succeeds. The rows of a
  query come in the order of the table, on which no result of the development depends. The columns
  that hold times are left out: nothing reads them but the entities that write them back.
\<close>

section \<open>Results\<close>

datatype le_res = le_OK | le_NOT_FOUND | le_NOT_POSSIBLE | le_FAULT | le_IO_ERROR
  | le_BAD_PARAMETER | le_UNSUPPORTED | le_UNAVAILABLE | le_NOT_PERMITTED | le_DUPLICATE
  | le_FORMAT_ERROR

section \<open>Tables\<close>

text \<open>
  Status, occurrence counter, activation and suppression are 32-bit columns that are only ever
  written from an \<open>uint8_t\<close>. The key of the DTC table is the 32-bit DTC code; -1 stands for a key
  that is not set.
\<close>

record DtcEntity =
  de_dtc :: u32
  de_status :: byte
  de_occurrence :: byte
  de_aging :: byte
  de_aged :: byte
  de_activation :: byte
  de_suppression :: byte

record EventEntity =
  ee_id :: int
  ee_name :: string
  ee_dtc :: u32
  ee_status :: byte
  ee_failed :: byte

record SnapshotEntity =
  se_id :: int
  se_dtc :: u32
  se_did :: u16
  se_value :: "byte list"
  se_record :: int

record dem =
  dtc_entity :: "DtcEntity list"
  event_entity :: "EventEntity list"
  snapshot_entity :: "SnapshotEntity list"
  io :: "nat option list"

section \<open>Statements\<close>

definition next_io :: "dem \<Rightarrow> nat option \<times> dem" where
  "next_io d = (case io d of [] \<Rightarrow> (None, d) | r # rs \<Rightarrow> (r, d\<lparr>io := rs\<rparr>))"

text \<open>A \<open>SELECT\<close>: the rows delivered before it ends or fails (\<open>ExecuteRowStep\<close> does not tell).\<close>

definition Query :: "(dem \<Rightarrow> 'r list) \<Rightarrow> ('r \<Rightarrow> bool) \<Rightarrow> dem \<Rightarrow> 'r list \<times> dem" where
  "Query tab P d = (let (r, d1) = next_io d; rows = filter P (tab d1) in
     (case r of None \<Rightarrow> rows | Some k \<Rightarrow> take k rows, d1))"

text \<open>
  \<open>SELECT count(*)\<close> delivers one row, or none when it fails, and then the column reads as 0.
\<close>

definition QueryCount :: "(dem \<Rightarrow> 'r list) \<Rightarrow> ('r \<Rightarrow> bool) \<Rightarrow> dem \<Rightarrow> nat \<times> dem" where
  "QueryCount tab P d = (let (r, d1) = next_io d in
     (if r = Some 0 then 0 else length (filter P (tab d1)), d1))"

text \<open>A statement that changes a table: \<open>f\<close> is its effect, \<open>None\<close> a violated constraint.\<close>

definition Execute :: "(dem \<Rightarrow> dem option) \<Rightarrow> dem \<Rightarrow> le_res \<times> dem" where
  "Execute f d = (let (r, d1) = next_io d in
     case r of Some _ \<Rightarrow> (le_IO_ERROR, d1)
     | None \<Rightarrow> (case f d1 of None \<Rightarrow> (le_IO_ERROR, d1) | Some d2 \<Rightarrow> (le_OK, d2)))"

definition next_id :: "int list \<Rightarrow> int" where
  "next_id ids = foldr max ids 0 + 1"

section \<open>The table of DTCs\<close>

definition DtcDao_QueryByKey :: "u32 \<Rightarrow> dem \<Rightarrow> (le_res + DtcEntity) \<times> dem" where
  "DtcDao_QueryByKey dtc d =
     (if dtc = - 1 then (Inl le_BAD_PARAMETER, d)
      else (case Query dtc_entity (\<lambda>e. de_dtc e = dtc) d of
              ([], d1) \<Rightarrow> (Inl le_NOT_FOUND, d1)
            | (e # _, d1) \<Rightarrow> (Inr e, d1)))"

definition DtcDao_Add :: "DtcEntity \<Rightarrow> dem \<Rightarrow> le_res \<times> dem" where
  "DtcDao_Add e = Execute (\<lambda>d.
     let e1 = (if de_dtc e = - 1
               then e\<lparr>de_dtc := word_of_int (next_id (map (uint \<circ> de_dtc) (dtc_entity d)))\<rparr> else e) in
     if de_dtc e1 \<in> set (map de_dtc (dtc_entity d)) then None
     else Some (d\<lparr>dtc_entity := dtc_entity d @ [e1]\<rparr>))"

definition DtcDao_Update :: "DtcEntity \<Rightarrow> dem \<Rightarrow> le_res \<times> dem" where
  "DtcDao_Update e = Execute (\<lambda>d. Some (d\<lparr>dtc_entity :=
     map (\<lambda>x. if de_dtc x = de_dtc e then e else x) (dtc_entity d)\<rparr>))"

text \<open>The row that is inserted for a DTC without one.\<close>

definition new_DtcEntity :: "u32 \<Rightarrow> DtcEntity" where
  "new_DtcEntity dtc = \<lparr>de_dtc = dtc, de_status = 0, de_occurrence = 0, de_aging = 0, de_aged = 0,
     de_activation = 1, de_suppression = 0\<rparr>"

text \<open>
  The writes have one shape: a row that is not found is inserted with the columns written and the
  others at their defaults, a row that is found is updated.
\<close>

definition DtcDao_Write :: "u32 \<Rightarrow> (DtcEntity \<Rightarrow> DtcEntity) \<Rightarrow> dem \<Rightarrow> le_res \<times> dem" where
  "DtcDao_Write dtc f d = (case DtcDao_QueryByKey dtc d of
     (Inl _, d1) \<Rightarrow> DtcDao_Add (f (new_DtcEntity dtc)) d1
   | (Inr e, d1) \<Rightarrow> DtcDao_Update (f e) d1)"

definition WriteStatusByDtc :: "u32 \<Rightarrow> byte \<Rightarrow> byte \<Rightarrow> dem \<Rightarrow> le_res \<times> dem" where
  "WriteStatusByDtc dtc status occurCounter =
     DtcDao_Write dtc (\<lambda>e. e\<lparr>de_status := status, de_occurrence := occurCounter\<rparr>)"

definition WriteActivationByDtc :: "u32 \<Rightarrow> byte \<Rightarrow> dem \<Rightarrow> le_res \<times> dem" where
  "WriteActivationByDtc dtc activation = DtcDao_Write dtc (\<lambda>e. e\<lparr>de_activation := activation\<rparr>)"

definition WriteSuppressionByDtc :: "u32 \<Rightarrow> byte \<Rightarrow> dem \<Rightarrow> le_res \<times> dem" where
  "WriteSuppressionByDtc dtc suppression =
     DtcDao_Write dtc (\<lambda>e. e\<lparr>de_suppression := suppression\<rparr>)"

definition WriteAllSuppression :: "byte \<Rightarrow> dem \<Rightarrow> le_res \<times> dem" where
  "WriteAllSuppression suppression = Execute (\<lambda>d. Some (d\<lparr>dtc_entity :=
     map (\<lambda>e. if de_suppression e \<noteq> suppression then e\<lparr>de_suppression := suppression\<rparr> else e)
       (dtc_entity d)\<rparr>))"

text \<open>A cleared row also gets the default activation and suppression.\<close>

definition ClearDtcRecord :: "u32 \<Rightarrow> dem \<Rightarrow> le_res \<times> dem" where
  "ClearDtcRecord dtc d = (case DtcDao_QueryByKey dtc d of
     (Inl _, d1) \<Rightarrow> (le_OK, d1)
   | (Inr e, d1) \<Rightarrow> DtcDao_Update (e\<lparr>de_dtc := dtc, de_status := 0, de_occurrence := 0, de_aging := 0,
       de_aged := 0, de_activation := 1, de_suppression := 0\<rparr>) d1)"

definition GetDTCWithUnsuppress :: "dem \<Rightarrow> u32 list \<times> dem" where
  "GetDTCWithUnsuppress d =
     (let (rows, d1) = Query dtc_entity (\<lambda>e. de_suppression e = 0) d in (map de_dtc rows, d1))"

definition ReadDtcCountByStatusWithSuppress :: "byte \<Rightarrow> dem \<Rightarrow> nat \<times> dem" where
  "ReadDtcCountByStatusWithSuppress status =
     QueryCount dtc_entity (\<lambda>e. de_status e AND status \<noteq> 0 \<and> de_suppression e \<noteq> 1)"

definition ReadDtcByStatus :: "byte \<Rightarrow> dem \<Rightarrow> (u32 \<times> byte) list \<times> dem" where
  "ReadDtcByStatus status d =
     (let (rows, d1) =
        Query dtc_entity (\<lambda>e. de_status e AND status \<noteq> 0 \<and> de_suppression e \<noteq> 1) d in
      (map (\<lambda>e. (de_dtc e, de_status e)) rows, d1))"

text \<open>A DTC that cannot be inserted is skipped.\<close>

primrec DtcDao_InitTableWithConfig :: "u32 list \<Rightarrow> dem \<Rightarrow> dem" where
  "DtcDao_InitTableWithConfig [] d = d"
| "DtcDao_InitTableWithConfig (dtc # dtcs) d =
     DtcDao_InitTableWithConfig dtcs (snd (DtcDao_Add (new_DtcEntity dtc) d))"

section \<open>The table of events\<close>

text \<open>The next two statements work on the key \<open>Event_ID\<close>, a number the database assigns.\<close>

definition EventDao_QueryByKey :: "int \<Rightarrow> dem \<Rightarrow> (le_res + EventEntity) \<times> dem" where
  "EventDao_QueryByKey eid d =
     (if eid = - 1 then (Inl le_BAD_PARAMETER, d)
      else (case Query event_entity (\<lambda>e. ee_id e = eid) d of
              ([], d1) \<Rightarrow> (Inl le_NOT_FOUND, d1)
            | (e # _, d1) \<Rightarrow> (Inr e, d1)))"

definition EventDao_Update :: "EventEntity \<Rightarrow> dem \<Rightarrow> le_res \<times> dem" where
  "EventDao_Update e = Execute (\<lambda>d. Some (d\<lparr>event_entity :=
     map (\<lambda>x. if ee_id x = ee_id e then e else x) (event_entity d)\<rparr>))"

definition EventDao_Add :: "EventEntity \<Rightarrow> dem \<Rightarrow> le_res \<times> dem" where
  "EventDao_Add e = Execute (\<lambda>d.
     let e1 = (if ee_id e = - 1 then e\<lparr>ee_id := next_id (map ee_id (event_entity d))\<rparr> else e) in
     if ee_id e1 \<in> set (map ee_id (event_entity d)) then None
     else Some (d\<lparr>event_entity := event_entity d @ [e1]\<rparr>))"

definition new_EventEntity :: "string \<Rightarrow> byte \<Rightarrow> EventEntity" where
  "new_EventEntity name status =
     \<lparr>ee_id = - 1, ee_name = name, ee_dtc = 0, ee_status = status, ee_failed = 0\<rparr>"

definition ReadEventStatusByName :: "string \<Rightarrow> dem \<Rightarrow> byte \<times> dem" where
  "ReadEventStatusByName name d =
     (let (rows, d1) = Query event_entity (\<lambda>e. ee_name e = name) d in
      (foldl (\<lambda>st e. st OR ee_status e) 0 rows, d1))"

text \<open>
  The loop over further rows of the same name writes the entity of the first row again: it never
  reads the row it stands on.
\<close>

primrec EventDao_repeat :: "EventEntity \<Rightarrow> EventEntity list \<Rightarrow> dem \<Rightarrow> dem" where
  "EventDao_repeat e [] d = d"
| "EventDao_repeat e (_ # rows) d = EventDao_repeat e rows (snd (EventDao_Update e d))"

definition WriteStatusAndDtcByEventName :: "string \<Rightarrow> byte \<Rightarrow> u32 \<Rightarrow> dem \<Rightarrow> le_res \<times> dem" where
  "WriteStatusAndDtcByEventName name status dtc d =
     (case Query event_entity (\<lambda>e. ee_name e = name) d of
        ([], d1) \<Rightarrow> EventDao_Add ((new_EventEntity name status)\<lparr>ee_dtc := dtc\<rparr>) d1
      | (e # rows, d1) \<Rightarrow>
          (let e1 = e\<lparr>ee_status := status, ee_dtc := dtc\<rparr>; (ret, d2) = EventDao_Update e1 d1 in
           if ret \<noteq> le_OK then (ret, d2) else (le_OK, EventDao_repeat e1 rows d2)))"

definition ClearEventRecord :: "int \<Rightarrow> dem \<Rightarrow> le_res \<times> dem" where
  "ClearEventRecord eid d = (case EventDao_QueryByKey eid d of
     (Inl _, d1) \<Rightarrow> (le_OK, d1)
   | (Inr e, d1) \<Rightarrow> EventDao_Update (e\<lparr>ee_status := 0\<rparr>) d1)"

primrec EventDao_InitTableWithConfig :: "(u16 \<times> string) list \<Rightarrow> dem \<Rightarrow> le_res \<times> dem" where
  "EventDao_InitTableWithConfig [] d = (le_OK, d)"
| "EventDao_InitTableWithConfig (p # ps) d =
     (let (ret, d1) = EventDao_Add (new_EventEntity (snd p) 0) d in
      if ret \<noteq> le_OK then (ret, d1) else EventDao_InitTableWithConfig ps d1)"

section \<open>The table of snapshots\<close>

definition DATA_ACCESS_DID_DATA_SIZE_MAX :: nat where "DATA_ACCESS_DID_DATA_SIZE_MAX = 128"

definition SnapshotDao_Remove :: "int \<Rightarrow> dem \<Rightarrow> le_res \<times> dem" where
  "SnapshotDao_Remove i = Execute (\<lambda>d. Some (d\<lparr>snapshot_entity :=
     filter (\<lambda>e. se_id e \<noteq> i) (snapshot_entity d)\<rparr>))"

definition SnapshotDao_Add :: "SnapshotEntity \<Rightarrow> dem \<Rightarrow> le_res \<times> dem" where
  "SnapshotDao_Add e = Execute (\<lambda>d.
     let e1 = (if se_id e = - 1 then e\<lparr>se_id := next_id (map se_id (snapshot_entity d))\<rparr> else e) in
     if se_id e1 \<in> set (map se_id (snapshot_entity d)) then None
     else Some (d\<lparr>snapshot_entity := snapshot_entity d @ [e1]\<rparr>))"

definition SnapshotDao_Update :: "SnapshotEntity \<Rightarrow> dem \<Rightarrow> le_res \<times> dem" where
  "SnapshotDao_Update e = Execute (\<lambda>d. Some (d\<lparr>snapshot_entity :=
     map (\<lambda>x. if se_id x = se_id e then e else x) (snapshot_entity d)\<rparr>))"

primrec SnapshotDao_remove_rows :: "SnapshotEntity list \<Rightarrow> dem \<Rightarrow> le_res \<times> dem" where
  "SnapshotDao_remove_rows [] d = (le_OK, d)"
| "SnapshotDao_remove_rows (e # rows) d =
     (let (ret, d1) = SnapshotDao_Remove (se_id e) d in
      if ret \<noteq> le_OK then (ret, d1) else SnapshotDao_remove_rows rows d1)"

definition ClearFFRecordByDtc :: "u32 \<Rightarrow> dem \<Rightarrow> le_res \<times> dem" where
  "ClearFFRecordByDtc dtc d =
     (let (rows, d1) = Query snapshot_entity (\<lambda>e. se_dtc e = dtc) d in
      SnapshotDao_remove_rows rows d1)"

definition ReadDIDCount :: "u32 \<Rightarrow> int \<Rightarrow> dem \<Rightarrow> nat \<times> dem" where
  "ReadDIDCount dtc recordNum =
     QueryCount snapshot_entity (\<lambda>e. se_dtc e = dtc \<and> se_record e = recordNum)"

definition GetDIDRecord :: "u32 \<Rightarrow> int \<Rightarrow> dem \<Rightarrow> (u16 \<times> byte list) list \<times> dem" where
  "GetDIDRecord dtc recordNum d =
     (let (rows, d1) =
        Query snapshot_entity (\<lambda>e. se_dtc e = dtc \<and> se_record e = recordNum) d in
      (map (\<lambda>e. (se_did e, se_value e)) rows, d1))"

text \<open>
  \<open>SetDidValue\<close> keeps at most 128 bytes and ignores an empty value. One entity serves every DID of
  the record: the key and the value an earlier DID left in it are still there for the next.
\<close>

definition SetDidValue :: "byte list \<Rightarrow> SnapshotEntity \<Rightarrow> SnapshotEntity" where
  "SetDidValue v e =
     (if v = [] then e else e\<lparr>se_value := take DATA_ACCESS_DID_DATA_SIZE_MAX v\<rparr>)"

primrec SnapshotDao_repeat :: "SnapshotEntity \<Rightarrow> SnapshotEntity list \<Rightarrow> dem \<Rightarrow> dem" where
  "SnapshotDao_repeat e [] d = d"
| "SnapshotDao_repeat e (_ # rows) d = SnapshotDao_repeat e rows (snd (SnapshotDao_Update e d))"

primrec SetDIDRecord_loop ::
  "u32 \<Rightarrow> int \<Rightarrow> (u16 \<times> byte list) list \<Rightarrow> SnapshotEntity \<Rightarrow> dem \<Rightarrow> le_res \<times> dem" where
  "SetDIDRecord_loop dtc recordNum [] entity d = (le_OK, d)"
| "SetDIDRecord_loop dtc recordNum (did # dids) entity d =
     (case Query snapshot_entity
             (\<lambda>e. se_dtc e = dtc \<and> se_record e = recordNum \<and> se_did e = fst did) d of
        ([], d1) \<Rightarrow>
          (let e1 = (SetDidValue (snd did) (entity\<lparr>se_dtc := dtc, se_did := fst did\<rparr>))
                      \<lparr>se_record := recordNum\<rparr>;
               (ret, d2) = SnapshotDao_Add e1 d1 in
           if ret \<noteq> le_OK then (ret, d2) else SetDIDRecord_loop dtc recordNum dids e1 d2)
      | (row # rows, d1) \<Rightarrow>
          (let e0 = (SetDidValue (se_value row) entity)
                      \<lparr>se_id := se_id row, se_dtc := se_dtc row, se_did := se_did row,
                       se_record := se_record row\<rparr>;
               e1 = (SetDidValue (snd did) (e0\<lparr>se_dtc := dtc, se_did := fst did\<rparr>))
                      \<lparr>se_record := recordNum\<rparr>;
               (ret, d2) = SnapshotDao_Update e1 d1 in
           if ret \<noteq> le_OK then (ret, d2)
           else SetDIDRecord_loop dtc recordNum dids e1 (SnapshotDao_repeat e1 rows d2)))"

definition new_SnapshotEntity :: SnapshotEntity where
  "new_SnapshotEntity = \<lparr>se_id = - 1, se_dtc = - 1, se_did = - 1, se_value = [], se_record = - 1\<rparr>"

definition SetDIDRecord ::
  "u32 \<Rightarrow> int \<Rightarrow> (u16 \<times> byte list) list \<Rightarrow> dem \<Rightarrow> le_res \<times> dem" where
  "SetDIDRecord dtc recordNum dids = SetDIDRecord_loop dtc recordNum dids new_SnapshotEntity"

text \<open>A row is listed when its DTC or record number differs from those of the row before it.\<close>

fun adjacent_records :: "(u32 \<times> int) option \<Rightarrow> (u32 \<times> int) list \<Rightarrow> (u32 \<times> int) list" where
  "adjacent_records pre [] = []"
| "adjacent_records pre (r # rs) =
     (if pre = Some r then adjacent_records pre rs else r # adjacent_records (Some r) rs)"

definition GetAllDTCRecord :: "dem \<Rightarrow> (u32 \<times> byte) list \<times> dem" where
  "GetAllDTCRecord d =
     (let (rows, d1) = Query snapshot_entity (\<lambda>_. True) d in
      (map (\<lambda>(dtc, rn). (dtc, word_of_int rn))
         (adjacent_records None (map (\<lambda>e. (se_dtc e, se_record e)) rows)), d1))"

end
