(* ===== verification/Dem_Handler.thy ===== *)
theory Dem_Handler
  imports Dem_Store
begin

unbundle bit_operations_syntax

text \<open>
  \<open>DemDataHandler\<close> (\<open>tafDataAccessCompImpl.cpp\<close>) and the checks of its C interface
  (\<open>tafDataAccessComp.cpp\<close>): the operations through which the diagnostic services read and write
  the store. What the generated configuration (\<open>cfg::\<close>) answers is the parameter \<open>dem_cfg\<close>; the
  record numbers of a DTC, which \<open>Load\<close> collects once, are functions of it.
\<close>

section \<open>Configuration\<close>

datatype Snapshot_Type = Snapshot_FirstOccurrence | Snapshot_LastOccurrence
  | Snapshot_LastDisappearance

text \<open>
  \<open>get_dtc_codes\<close>, \<open>get_event_idNames\<close>, \<open>get_event_ids\<close> (\<open>None\<close> where it throws), the freeze frames and
  extended data records named by each DTC, and the record numbers of those names.
\<close>

record dem_cfg =
  cfg_dtc_codes :: "u32 list"
  cfg_event_idNames :: "(u16 \<times> string) list"
  cfg_event_ids :: "u32 \<Rightarrow> u16 list option"
  cfg_dtc_entries :: "(u32 \<times> string list \<times> string list) list"
  cfg_freeze_frames :: "string \<Rightarrow> int option"
  cfg_extended_records :: "string \<Rightarrow> int option"

definition snapshot_type :: "string \<Rightarrow> Snapshot_Type option" where
  "snapshot_type name =
     (if name = ''firstOccurrence'' then Some Snapshot_FirstOccurrence
      else if name = ''lastOccurrence'' then Some Snapshot_LastOccurrence
      else if name = ''lastDisappearance'' then Some Snapshot_LastDisappearance
      else None)"

definition snapshotRnVec :: "dem_cfg \<Rightarrow> (int \<times> u32 \<times> Snapshot_Type) list" where
  "snapshotRnVec c = concat (map (\<lambda>(dtc, frames, _).
     concat (map (\<lambda>name. case cfg_freeze_frames c name of None \<Rightarrow> []
        | Some rn \<Rightarrow> (case snapshot_type name of None \<Rightarrow> [] | Some t \<Rightarrow> [(rn, dtc, t)])) frames))
     (cfg_dtc_entries c))"

definition extendedRnVec :: "dem_cfg \<Rightarrow> (int \<times> u32) list" where
  "extendedRnVec c = concat (map (\<lambda>(dtc, _, records).
     concat (map (\<lambda>name. case cfg_extended_records c name of None \<Rightarrow> []
        | Some rn \<Rightarrow> if name = ''OccurrenceCounter'' then [(rn, dtc)] else []) records))
     (cfg_dtc_entries c))"

definition CheckTableEmpty :: "(dem \<Rightarrow> 'r list) \<Rightarrow> dem \<Rightarrow> bool \<times> dem" where
  "CheckTableEmpty tab d = (let (r, d1) = next_io d in (r = Some 0 \<or> tab d1 = [], d1))"

definition DtcDao_Load :: "dem_cfg \<Rightarrow> dem \<Rightarrow> dem" where
  "DtcDao_Load c d = (let (empty, d1) = CheckTableEmpty dtc_entity d in
     if empty then DtcDao_InitTableWithConfig (cfg_dtc_codes c) d1 else d1)"

definition EventDao_Load :: "dem_cfg \<Rightarrow> dem \<Rightarrow> le_res \<times> dem" where
  "EventDao_Load c d = (let (empty, d1) = CheckTableEmpty event_entity d in
     if empty then EventDao_InitTableWithConfig (cfg_event_idNames c) d1 else (le_OK, d1))"

definition DemLoad :: "dem_cfg \<Rightarrow> dem \<Rightarrow> le_res \<times> dem" where
  "DemLoad c d = EventDao_Load c (DtcDao_Load c d)"

section \<open>Status and occurrence counter\<close>

definition DEM_DTC_AVAILABLE_MASK_DEF :: byte where "DEM_DTC_AVAILABLE_MASK_DEF = 0x7F"

definition DTC_FORMAT_IDENTIFIER_ISO_14229 :: byte where "DTC_FORMAT_IDENTIFIER_ISO_14229 = 1"

definition SetEventStatusByName :: "string \<Rightarrow> byte \<Rightarrow> dem \<Rightarrow> le_res \<times> dem" where
  "SetEventStatusByName name status = WriteStatusAndDtcByEventName name status 0"

definition GetEventStatusByName :: "string \<Rightarrow> dem \<Rightarrow> byte \<times> dem" where
  "GetEventStatusByName = ReadEventStatusByName"

definition SetDTCStatus :: "u32 \<Rightarrow> byte \<Rightarrow> byte \<Rightarrow> dem \<Rightarrow> le_res \<times> dem" where
  "SetDTCStatus = WriteStatusByDtc"

text \<open>The reads of one column of a DTC's row, with the value for a row that is not found.\<close>

definition DtcDao_Read :: "(DtcEntity \<Rightarrow> byte) \<Rightarrow> byte \<Rightarrow> u32 \<Rightarrow> dem \<Rightarrow> byte \<times> dem" where
  "DtcDao_Read col dflt dtc d = (case DtcDao_QueryByKey dtc d of
     (Inl _, d1) \<Rightarrow> (dflt, d1) | (Inr e, d1) \<Rightarrow> (col e, d1))"

definition GetDTCStatus :: "u32 \<Rightarrow> dem \<Rightarrow> byte \<times> dem" where
  "GetDTCStatus = DtcDao_Read de_status 0"

definition GetDTCOccurrenceCounter :: "u32 \<Rightarrow> dem \<Rightarrow> byte \<times> dem" where
  "GetDTCOccurrenceCounter = DtcDao_Read de_occurrence 0"

definition GetActivation :: "u32 \<Rightarrow> dem \<Rightarrow> byte \<times> dem" where
  "GetActivation = DtcDao_Read de_activation 1"

definition GetSuppression :: "u32 \<Rightarrow> dem \<Rightarrow> byte \<times> dem" where
  "GetSuppression = DtcDao_Read de_suppression 0"

text \<open>The interface refuses a suppression other than 0 and 1.\<close>

definition SetDTCActivation :: "u32 \<Rightarrow> byte \<Rightarrow> dem \<Rightarrow> le_res \<times> dem" where
  "SetDTCActivation = WriteActivationByDtc"

definition SetDTCSuppression_store :: "u32 \<Rightarrow> byte \<Rightarrow> dem \<Rightarrow> le_res \<times> dem" where
  "SetDTCSuppression_store dtc suppression d =
     (if suppression \<noteq> 0 \<and> suppression \<noteq> 1 then (le_BAD_PARAMETER, d)
      else WriteSuppressionByDtc dtc suppression d)"

definition SetAllDTCSuppression_store :: "byte \<Rightarrow> dem \<Rightarrow> le_res \<times> dem" where
  "SetAllDTCSuppression_store suppression d =
     (if suppression \<noteq> 0 \<and> suppression \<noteq> 1 then (le_BAD_PARAMETER, d)
      else WriteAllSuppression suppression d)"

section \<open>Deleting the data of a DTC\<close>

primrec clear_event_ids :: "u16 list \<Rightarrow> dem \<Rightarrow> le_res \<times> dem" where
  "clear_event_ids [] d = (le_OK, d)"
| "clear_event_ids (eid # eids) d =
     (let (ret, d1) = ClearEventRecord (uint eid) d in
      if ret \<noteq> le_OK then (ret, d1) else clear_event_ids eids d1)"

definition DeleteData :: "dem_cfg \<Rightarrow> u32 \<Rightarrow> dem \<Rightarrow> le_res \<times> dem" where
  "DeleteData c dtc d =
     (let (suppression, d1) = GetSuppression dtc d in
      if suppression \<noteq> 0 then (le_UNAVAILABLE, d1)
      else let (ret, d2) = ClearDtcRecord dtc d1 in
      if ret \<noteq> le_OK then (ret, d2)
      else let (ret, d3) = (case cfg_event_ids c dtc of None \<Rightarrow> (le_OK, d2)
             | Some eids \<Rightarrow> clear_event_ids eids d2) in
      if ret \<noteq> le_OK then (ret, d3) else ClearFFRecordByDtc dtc d3)"

primrec delete_dtcs :: "dem_cfg \<Rightarrow> u32 list \<Rightarrow> dem \<Rightarrow> le_res \<times> dem" where
  "delete_dtcs c [] d = (le_OK, d)"
| "delete_dtcs c (dtc # dtcs) d =
     (let (ret, d1) = DeleteData c dtc d in
      if ret \<noteq> le_OK then (ret, d1) else delete_dtcs c dtcs d1)"

definition DeleteAllData :: "dem_cfg \<Rightarrow> dem \<Rightarrow> le_res \<times> dem" where
  "DeleteAllData c d = (let (dtcs, d1) = GetDTCWithUnsuppress d in delete_dtcs c dtcs d1)"

section \<open>Reports\<close>

definition GetNumOfDtcByStatusMask_store :: "byte \<Rightarrow> dem \<Rightarrow> (byte \<times> byte \<times> u16) \<times> dem" where
  "GetNumOfDtcByStatusMask_store statusMask d =
     (let (count, d1) =
        ReadDtcCountByStatusWithSuppress (statusMask AND DEM_DTC_AVAILABLE_MASK_DEF) d in
      ((DEM_DTC_AVAILABLE_MASK_DEF, DTC_FORMAT_IDENTIFIER_ISO_14229, of_nat count), d1))"

definition GetDtcByStatusMask_store :: "byte \<Rightarrow> dem \<Rightarrow> (byte \<times> (u32 \<times> byte) list) \<times> dem" where
  "GetDtcByStatusMask_store statusMask d =
     (let (recs, d1) = ReadDtcByStatus (statusMask AND DEM_DTC_AVAILABLE_MASK_DEF) d in
      ((DEM_DTC_AVAILABLE_MASK_DEF, recs), d1))"

primrec supported_dtcs :: "u32 list \<Rightarrow> dem \<Rightarrow> (u32 \<times> byte) list \<times> dem" where
  "supported_dtcs [] d = ([], d)"
| "supported_dtcs (dtc # dtcs) d = (case DtcDao_QueryByKey dtc d of
     (Inl _, d1) \<Rightarrow> (let (rs, d2) = supported_dtcs dtcs d1 in ((dtc, 0) # rs, d2))
   | (Inr e, d1) \<Rightarrow>
       (if de_suppression e \<noteq> 0 then supported_dtcs dtcs d1
        else let (rs, d2) = supported_dtcs dtcs d1 in
          ((dtc, de_status e AND DEM_DTC_AVAILABLE_MASK_DEF) # rs, d2)))"

definition GetSupportedDtc_store :: "dem_cfg \<Rightarrow> dem \<Rightarrow> (byte \<times> (u32 \<times> byte) list) \<times> dem" where
  "GetSupportedDtc_store c d = (let (rs, d1) = supported_dtcs (map fst (cfg_dtc_entries c)) d in
     ((DEM_DTC_AVAILABLE_MASK_DEF, rs), d1))"

primrec unsuppressed_records :: "(u32 \<times> byte) list \<Rightarrow> dem \<Rightarrow> (u32 \<times> byte) list \<times> dem" where
  "unsuppressed_records [] d = ([], d)"
| "unsuppressed_records (r # rs) d =
     (let (suppression, d1) = GetSuppression (fst r) d; (rs', d2) = unsuppressed_records rs d1 in
      (if suppression \<noteq> 0 then rs' else r # rs', d2))"

definition GetSnapshotIdentification_store :: "dem \<Rightarrow> (u32 \<times> byte) list \<times> dem" where
  "GetSnapshotIdentification_store d =
     (let (rs, d1) = GetAllDTCRecord d in unsuppressed_records rs d1)"

text \<open>
  A freeze frame of the report: its record number, the number of DIDs it announces and the DIDs.
  The array of DIDs has ten places; the announced number is cut to ten, the copying loop is not.
\<close>

definition DATA_ACCESS_FF_DID_SIZE_MAX :: nat where "DATA_ACCESS_FF_DID_SIZE_MAX = 10"

record SnapshotData =
  sd_recNumber :: byte
  sd_recDidSize :: byte
  sd_didSet :: "(u16 \<times> byte list) list"

definition GetSpecSnapshotRecByDtc ::
  "u32 \<Rightarrow> byte \<Rightarrow> dem \<Rightarrow> (SnapshotData option \<times> dem) mem" where
  "GetSpecSnapshotRecByDtc dtc recNumber d =
     (let (dids, d1) = GetDIDRecord dtc (uint recNumber) d in
      if dids = [] then Inr (None, d1)
      else if DATA_ACCESS_FF_DID_SIZE_MAX < length dids then Inl OutOfBounds
      else Inr (Some \<lparr>sd_recNumber = recNumber, sd_recDidSize = of_nat (length dids),
             sd_didSet = map (\<lambda>(did, v). (did, take DATA_ACCESS_DID_DATA_SIZE_MAX v)) dids\<rparr>, d1))"

primrec spec_records :: "u32 \<Rightarrow> int list \<Rightarrow> dem \<Rightarrow> (SnapshotData list \<times> dem) mem" where
  "spec_records dtc [] d = Inr ([], d)"
| "spec_records dtc (rn # rns) d =
     mbind (GetSpecSnapshotRecByDtc dtc (word_of_int rn) d) (\<lambda>(r, d1).
     mbind (spec_records dtc rns d1) (\<lambda>(rs, d2).
     Inr (case r of None \<Rightarrow> rs | Some x \<Rightarrow> x # rs, d2)))"

definition snapshot_rns :: "dem_cfg \<Rightarrow> u32 \<Rightarrow> int list" where
  "snapshot_rns c dtc = map fst (filter (\<lambda>(_, x, _). x = dtc) (snapshotRnVec c))"

definition GetSnapshotRecByDtc_store :: "dem_cfg \<Rightarrow> u32 \<Rightarrow> byte \<Rightarrow> dem \<Rightarrow>
    ((le_res + (byte \<times> SnapshotData list)) \<times> dem) mem" where
  "GetSnapshotRecByDtc_store c dtc recNumber d = (case DtcDao_QueryByKey dtc d of
     (Inl _, d1) \<Rightarrow> Inr (Inl le_NOT_FOUND, d1)
   | (Inr e, d1) \<Rightarrow>
       (if de_suppression e \<noteq> 0 then Inr (Inl le_UNAVAILABLE, d1)
        else if recNumber = 0xFF then
          mbind (spec_records dtc (snapshot_rns c dtc) d1) (\<lambda>(rs, d2).
          Inr (Inr (de_status e, rs), d2))
        else if uint recNumber \<notin> set (snapshot_rns c dtc) then Inr (Inl le_UNSUPPORTED, d1)
        else mbind (GetSpecSnapshotRecByDtc dtc recNumber d1) (\<lambda>(r, d2).
          Inr (Inr (de_status e, case r of None \<Rightarrow> [] | Some x \<Rightarrow> [x]), d2))))"

definition GetExtDataRecByDtc_store ::
  "u32 \<Rightarrow> byte \<Rightarrow> dem \<Rightarrow> (le_res + (byte \<times> (byte \<times> byte list) list)) \<times> dem" where
  "GetExtDataRecByDtc_store dtc recNumber d =
     (if recNumber \<noteq> 0xFE \<and> recNumber \<noteq> 0xFF \<and> recNumber \<noteq> 1 then (Inl le_BAD_PARAMETER, d)
      else let (suppression, d1) = GetSuppression dtc d in
      if suppression \<noteq> 0 then (Inl le_UNAVAILABLE, d1)
      else (case DtcDao_QueryByKey dtc d1 of
          (Inl ret, d2) \<Rightarrow> (if ret = le_NOT_FOUND then Inr (0, []) else Inl ret, d2)
        | (Inr e, d2) \<Rightarrow> (Inr (de_status e, [(1, [de_occurrence e])]), d2)))"

section \<open>Storing a snapshot\<close>

definition record_num :: "dem_cfg \<Rightarrow> u32 \<Rightarrow> Snapshot_Type \<Rightarrow> int option" where
  "record_num c dtc t =
     map_option fst (find (\<lambda>(_, x, y). x = dtc \<and> y = t) (snapshotRnVec c))"

text \<open>A record that has rows is only overwritten when it has as many as the new one.\<close>

definition count_mismatch :: "u32 \<Rightarrow> int \<Rightarrow> 'a list \<Rightarrow> dem \<Rightarrow> bool \<times> dem" where
  "count_mismatch dtc rn dids d = (let (count, d1) = ReadDIDCount dtc rn d in
     (count \<noteq> 0 \<and> count \<noteq> length dids, d1))"

definition SetFirst :: "u32 \<Rightarrow> int \<Rightarrow> (u16 \<times> byte list) list \<Rightarrow> dem \<Rightarrow> le_res \<times> dem" where
  "SetFirst dtc firstRn dids d =
     (let (bad, d1) = count_mismatch dtc firstRn dids d in
      if bad then (le_NOT_POSSIBLE, d1)
      else let (ret, d2) = SetDIDRecord dtc firstRn dids d1 in
      (if ret \<noteq> le_OK then le_FAULT else le_OK, d2))"

definition SetSnapshotData :: "dem_cfg \<Rightarrow> u32 \<Rightarrow> (u16 \<times> byte list) list \<Rightarrow> dem \<Rightarrow> le_res \<times> dem" where
  "SetSnapshotData c dtc dids d =
     (case record_num c dtc Snapshot_LastOccurrence of
        Some lastRn \<Rightarrow>
          (let (count, d1) = ReadDIDCount dtc lastRn d in
           if count \<noteq> 0 then
             (if count \<noteq> length dids then (le_NOT_POSSIBLE, d1) else SetDIDRecord dtc lastRn dids d1)
           else let (ret, d2) = (case record_num c dtc Snapshot_FirstOccurrence of
                   None \<Rightarrow> (le_OK, d1) | Some firstRn \<Rightarrow> SetFirst dtc firstRn dids d1) in
           if ret \<noteq> le_OK then (ret, d2)
           else let (ret, d3) = SetDIDRecord dtc lastRn dids d2 in
           (if ret \<noteq> le_OK then le_FAULT else le_OK, d3))
      | None \<Rightarrow> (case record_num c dtc Snapshot_FirstOccurrence of
           None \<Rightarrow> (le_OK, d) | Some firstRn \<Rightarrow> SetFirst dtc firstRn dids d))"

section \<open>All data of a DTC\<close>

datatype dtc_data_type = EXTENDED_DATA | SNAPSHOT_DATA

record DtcDataInfo =
  di_dtcCode :: u32
  di_recordNum :: byte
  di_type :: dtc_data_type
  di_dataId :: u16
  di_value :: "byte list"

primrec snapshot_data :: "u32 \<Rightarrow> int list \<Rightarrow> dem \<Rightarrow> DtcDataInfo list \<times> dem" where
  "snapshot_data dtc [] d = ([], d)"
| "snapshot_data dtc (rn # rns) d =
     (let (dids, d1) = GetDIDRecord dtc rn d; (infos, d2) = snapshot_data dtc rns d1 in
      (map (\<lambda>(did, v). \<lparr>di_dtcCode = dtc, di_recordNum = word_of_int rn, di_type = SNAPSHOT_DATA,
              di_dataId = did, di_value = v\<rparr>) dids @ infos, d2))"

definition GetDTCData :: "dem_cfg \<Rightarrow> u32 \<Rightarrow> dem \<Rightarrow> DtcDataInfo list \<times> dem" where
  "GetDTCData c dtc d =
     (let (ext, d1) = (case DtcDao_QueryByKey dtc d of
         (Inl _, d1) \<Rightarrow> ([], d1)
       | (Inr e, d1) \<Rightarrow> (case find (\<lambda>(_, x). x = dtc) (extendedRnVec c) of
            None \<Rightarrow> ([], d1)
          | Some (rn, _) \<Rightarrow> ([\<lparr>di_dtcCode = dtc, di_recordNum = word_of_int rn, di_type = EXTENDED_DATA,
               di_dataId = 0, di_value = [de_occurrence e]\<rparr>], d1)));
          (infos, d2) = snapshot_data dtc (snapshot_rns c dtc) d1 in
      (ext @ infos, d2))"

end
