(* ===== verification/Diag_Fdc.thy ===== *)
theory Diag_Fdc
  imports Complex_Main Taf_Prelude
begin

text \<open>
  The fault detection counter of an event is computed in single precision. A positive float is a
  pair \<open>(m, e)\<close> that stands for \<open>m * 2 ^ e\<close>, with 24 significant bits; division, multiplication and
  the conversion of an integer round to nearest, ties to even. The exponents that occur are far
  from the bounds of the format, so there is no overflow and no subnormal number.
\<close>

section \<open>Rounding to 24 bits\<close>

function bit_len :: "int \<Rightarrow> int" where
  "bit_len n = (if n \<le> 0 then 0 else 1 + bit_len (n div 2))"
  by pat_completeness auto
termination by (relation "measure nat") auto

declare bit_len.simps [simp del]

definition round_even :: "int \<Rightarrow> int \<Rightarrow> int" where
  "round_even n d = (let q = n div d; r = n mod d in
     if 2 * r < d \<or> 2 * r = d \<and> even q then q else q + 1)"

text \<open>The fraction \<open>n / d\<close> times \<open>2 ^ -e\<close>, again as a fraction.\<close>

definition scaled :: "int \<Rightarrow> int \<Rightarrow> int \<Rightarrow> int \<times> int" where
  "scaled n d e = (if 0 \<le> e then (n, push_bit (nat e) d) else (push_bit (nat (- e)) n, d))"

definition exp32 :: "int \<Rightarrow> int \<Rightarrow> int" where
  "exp32 n d = (let e = bit_len n - bit_len d - 24; (a, b) = scaled n d e in
     if a < push_bit 24 b then e else e + 1)"

definition fl32 :: "int \<Rightarrow> int \<Rightarrow> int \<times> int" where
  "fl32 n d = (if n = 0 then (0, 0)
     else let e = exp32 n d; (a, b) = scaled n d e in (round_even a b, e))"

text \<open>A float as a fraction, and the operations.\<close>

definition num_den :: "int \<times> int \<Rightarrow> int \<times> int" where
  "num_den x = (if 0 \<le> snd x then (push_bit (nat (snd x)) (fst x), 1)
     else (fst x, push_bit (nat (- snd x)) 1))"

definition fdiv32 :: "int \<times> int \<Rightarrow> int \<times> int \<Rightarrow> int \<times> int" where
  "fdiv32 x y = (let (a, b) = num_den x; (c, d) = num_den y in fl32 (a * d) (b * c))"

definition fmul32 :: "int \<times> int \<Rightarrow> int \<times> int \<Rightarrow> int \<times> int" where
  "fmul32 x y = (let (a, b) = num_den x; (c, d) = num_den y in fl32 (a * c) (b * d))"

definition of_int32 :: "int \<Rightarrow> int \<times> int" where
  "of_int32 n = fl32 n 1"

definition trunc32 :: "int \<times> int \<Rightarrow> int" where
  "trunc32 x = (let (a, b) = num_den x in a div b)"

text \<open>
  A float converted to \<open>uint8_t\<close>. C++ leaves the conversion of a number above 255 undefined: what
  the target makes of it is the parameter \<open>u8\<close>.
\<close>

definition to_u8 :: "(int \<Rightarrow> byte) \<Rightarrow> int \<times> int \<Rightarrow> byte" where
  "to_u8 u8 x = (if trunc32 x < 256 then word_of_int (trunc32 x) else u8 (trunc32 x))"

section \<open>The counters\<close>

definition CalcCounterBasedDebounceFDC :: "(int \<Rightarrow> byte) \<Rightarrow> int \<Rightarrow> int \<Rightarrow> byte" where
  "CalcCounterBasedDebounceFDC u8 counter failedThreshold =
     (if 0 < counter \<and> counter < failedThreshold
      then let ratio = fdiv32 (of_int32 127) (of_int32 failedThreshold) in
           to_u8 u8 (fmul32 (of_int32 counter) ratio)
      else 0)"

text \<open>The elapsed time is a \<open>uint64_t\<close>, cut to whole seconds.\<close>

definition CalcTimeBasedDebounceFDC ::
  "(int \<Rightarrow> byte) \<Rightarrow> bool \<Rightarrow> int \<Rightarrow> int \<Rightarrow> int \<Rightarrow> byte" where
  "CalcTimeBasedDebounceFDC u8 prefailedTimer curTime startTime failedThreshold =
     (if prefailedTimer then
        let elapsedTime = (curTime - startTime) mod 2 ^ 64 in
        if elapsedTime = 0 \<or> elapsedTime = failedThreshold then 0
        else let ratio = fdiv32 (of_int32 127000) (of_int32 failedThreshold) in
             to_u8 u8 (fmul32 (of_int32 (elapsedTime div 1000)) ratio)
      else 0)"

end
