(* ===== verification/Diag_Event.thy ===== *)
theory Diag_Event
  imports Dem_Handler Diag_Fdc
begin

unbundle bit_operations_syntax

text \<open>
  The diagnostic event service (\<open>tafEventSvrImpl.cpp\<close>, built without \<open>LE_CONFIG_DIAG_FEATURE_A\<close>):
  the contexts of events, DTCs and operation cycles, the debouncing of test results and the
  update of the UDS status bytes of an event and of its DTC.

  Contexts are never freed, so a pointer to an event context is its place in \<open>evs\<close> and a pointer to
  a DTC context is the DTC's code. References that clients hold (\<open>le_ref\<close>) are numbers, \<open>None\<close> is the
  null reference. A debounce timer of an event is a flag that says whether it runs, and the
  interval it was given; the clock is the state component \<open>clock\<close>, set by the environment. Event
  reports to clients, and requests to the snapshot service, are appended to \<open>outs\<close>.
\<close>

section \<open>Types\<close>

text \<open>The enumerations and status bits of the client API, and those of this service.\<close>

datatype StatusType = EV_UNKNOWN | EV_PASSED | EV_FAILED | EV_PREPASSED | EV_PREFAILED
  | EV_CONFIRMED | EV_TEST_NOT_COMPLETED

datatype DebounceReset = DEBOUNCE_FREEZE | DEBOUNCE_RESET

datatype DebounceType = DEBOUNCE_MONITOR_INTERNAL | DEBOUNCE_COUNTER_BASED | DEBOUNCE_TIME_BASED

datatype TimerType = TIMER_PREFAILED | TIMER_PREPASSED | TIMER_UNKNOWN

datatype OccCtr = PROCESS_OCCCTR_TF | PROCESS_OCCCTR_CDTC

datatype CycleState = CYCLE_START | CYCLE_STOP | CYCLE_RESTART

datatype ReqClient = DTOOL | APP | UNKNOWN_CLIENT

datatype SnapshotTrigger = ON_EVERY_TEST_FAILED | ON_FDC_THRESHOLD | ON_CONFIRMED | ON_PENDING
  | ON_TEST_FAILED | ON_TEST_FAILED_THIS_OPERATION_CYCLE

text \<open>The bits of a UDS status byte.\<close>

definition UDS_TF :: byte where "UDS_TF = 0x01"
definition UDS_TFTOC :: byte where "UDS_TFTOC = 0x02"
definition UDS_PDTC :: byte where "UDS_PDTC = 0x04"
definition UDS_CDTC :: byte where "UDS_CDTC = 0x08"
definition UDS_TNCSLC :: byte where "UDS_TNCSLC = 0x10"
definition UDS_TFSLC :: byte where "UDS_TFSLC = 0x20"
definition UDS_TNCTOC :: byte where "UDS_TNCTOC = 0x40"

lemmas uds_bits = UDS_TF_def UDS_TFTOC_def UDS_PDTC_def UDS_CDTC_def UDS_TNCSLC_def
  UDS_TFSLC_def UDS_TNCTOC_def

text \<open>The thresholds of a debounce algorithm; the counter thresholds are of type \<open>int16_t\<close>.\<close>

record CounterConfig =
  cc_decrementStepSize :: int
  cc_incrementStepSize :: int
  cc_failedThreshold :: int
  cc_passedThreshold :: int
  cc_jumpDown :: bool
  cc_jumpUp :: bool
  cc_jumpDownValue :: int
  cc_jumpUpValue :: int
  cc_fdcThreshold :: int

record TimeConfig =
  tc_failedThreshold :: int
  tc_passedThreshold :: int
  tc_fdcThreshold :: int

definition int16 :: "int \<Rightarrow> int" where "int16 x = sint (word_of_int x :: 16 word)"

definition MAX_FAULT_DETECTION_COUNTER :: int where "MAX_FAULT_DETECTION_COUNTER = 127"
definition MIN_FAULT_DETECTION_COUNTER :: int where "MIN_FAULT_DETECTION_COUNTER = - 128"
definition MAX_TEST_FAILURE_COUNTER :: byte where "MAX_TEST_FAILURE_COUNTER = 255"
definition MAX_OCCURRENCE_COUNTER :: byte where "MAX_OCCURRENCE_COUNTER = 255"

record EventCtx =
  ec_eventId :: u16
  ec_eventName :: string
  ec_dtcCode :: u32
  ec_dtcCtx :: "u32 option"
  ec_operationCycleId :: byte
  ec_enable :: bool
  ec_uds :: byte
  ec_failureCounter :: byte
  ec_confirmationThreshold :: byte
  ec_faultCode :: "byte list"
  ec_fault :: StatusType
  ec_debounceCounter :: int
  ec_fdcTrigger :: bool
  ec_behavior :: DebounceReset
  ec_debounceType :: DebounceType
  ec_counter :: CounterConfig
  ec_time :: TimeConfig
  ec_timerRuns :: bool
  ec_timerMs :: int
  ec_fdcTimerRuns :: bool
  ec_timerType :: TimerType
  ec_startTime :: int
  ec_sessions :: "nat list"
  ec_svcRef :: "nat option"

record DtcCtx =
  dc_code :: u32
  dc_status :: byte
  dc_processing :: OccCtr
  dc_occurrence :: byte
  dc_activation :: bool
  dc_suppression :: bool
  dc_reqClient :: ReqClient
  dc_events :: "u16 list"

record CycleCtx =
  oc_id :: byte
  oc_state :: CycleState
  oc_sessions :: "nat list"
  oc_ref :: "nat option"

text \<open>The context the DTC service (\<open>tafDTCSvrImpl.cpp\<close>) keeps for the same DTC.\<close>

record SvcDtcCtx =
  sv_code :: u32
  sv_suppression :: bool
  sv_sessions :: "nat list"
  sv_svcRef :: "nat option"

datatype diag_out =
    UdsStatusInd nat byte
  | EnableCondInd nat bool
  | OperCycleInd "nat option" CycleState
  | DtcStatusInd nat byte
  | AllDtcStatusInd u32 byte
  | ClearDtcInd nat ReqClient
  | ClearAllDtcInd ReqClient
  | ActStatusInd "nat option" bool
  | SnapshotReq u32 SnapshotTrigger "byte list"

text \<open>
  What the services take from their environment: the configuration, the enable conditions of an
  event (those that must all hold, and those of which one must hold), the size of the supplier
  fault code array, and the value the target gives a floating-point number that is too large for
  an \<open>uint8_t\<close>.
\<close>

record diag_cfg =
  dg_dem :: dem_cfg
  dg_enable :: "u16 \<Rightarrow> (byte list \<times> byte list) option"
  dg_faultCodeMax :: nat
  dg_u8 :: "int \<Rightarrow> byte"

record diag =
  evs :: "EventCtx list"
  dtcs :: "DtcCtx list"
  cycles :: "CycleCtx list"
  svcs :: "SvcDtcCtx list"
  svcRefs :: "(nat \<times> nat) list"
  cycleRefs :: "(nat \<times> byte) list"
  dtcRefs :: "(nat \<times> u32) list"
  allSessions :: "nat list"
  conds :: "(byte \<times> bool) list"
  store :: dem
  nextRef :: nat
  clock :: int
  outs :: "diag_out list"

section \<open>Access to the contexts\<close>

definition GetEventCtxById :: "u16 \<Rightarrow> diag \<Rightarrow> nat option" where
  "GetEventCtxById eid s = find_index (\<lambda>e. ec_eventId e = eid) (evs s)"

definition GetDtcCtxByCode :: "u32 \<Rightarrow> diag \<Rightarrow> DtcCtx option" where
  "GetDtcCtxByCode code s = find (\<lambda>d. dc_code d = code) (dtcs s)"

definition GetOperCycleCtxById :: "byte \<Rightarrow> diag \<Rightarrow> CycleCtx option" where
  "GetOperCycleCtxById i s = find (\<lambda>c. oc_id c = i) (cycles s)"

definition GetSvcDtcCtx :: "u32 \<Rightarrow> diag \<Rightarrow> SvcDtcCtx option" where
  "GetSvcDtcCtx code s = find (\<lambda>d. sv_code d = code) (svcs s)"

definition GetEventCtx :: "nat option \<Rightarrow> diag \<Rightarrow> nat option" where
  "GetEventCtx ref s = (case ref of None \<Rightarrow> None | Some r \<Rightarrow> map_of (svcRefs s) r)"

definition upd_ev :: "nat \<Rightarrow> (EventCtx \<Rightarrow> EventCtx) \<Rightarrow> diag \<Rightarrow> diag" where
  "upd_ev i f s = s\<lparr>evs := (evs s)[i := f (evs s ! i)]\<rparr>"

definition upd_dtc :: "u32 \<Rightarrow> (DtcCtx \<Rightarrow> DtcCtx) \<Rightarrow> diag \<Rightarrow> diag" where
  "upd_dtc code f s = s\<lparr>dtcs := map (\<lambda>d. if dc_code d = code then f d else d) (dtcs s)\<rparr>"

definition upd_cycle :: "byte \<Rightarrow> (CycleCtx \<Rightarrow> CycleCtx) \<Rightarrow> diag \<Rightarrow> diag" where
  "upd_cycle i f s = s\<lparr>cycles := map (\<lambda>c. if oc_id c = i then f c else c) (cycles s)\<rparr>"

definition out :: "diag_out list \<Rightarrow> diag \<Rightarrow> diag" where
  "out xs s = s\<lparr>outs := outs s @ xs\<rparr>"

definition on_store :: "(dem \<Rightarrow> 'a \<times> dem) \<Rightarrow> diag \<Rightarrow> 'a \<times> diag" where
  "on_store f s = (let (r, d) = f (store s) in (r, s\<lparr>store := d\<rparr>))"

section \<open>Reports\<close>

definition triggerSnapshot :: "nat \<Rightarrow> SnapshotTrigger \<Rightarrow> diag \<Rightarrow> diag" where
  "triggerSnapshot i t s =
     out [SnapshotReq (ec_dtcCode (evs s ! i)) t (ec_faultCode (evs s ! i))] s"

definition ReportEventUdsStatus :: "nat \<Rightarrow> diag \<Rightarrow> diag" where
  "ReportEventUdsStatus i s = (case ec_svcRef (evs s ! i) of None \<Rightarrow> s
     | Some r \<Rightarrow> out [UdsStatusInd r (ec_uds (evs s ! i))] s)"

definition ReportEnableCondState :: "nat \<Rightarrow> bool \<Rightarrow> diag \<Rightarrow> diag" where
  "ReportEnableCondState i state s = (case ec_svcRef (evs s ! i) of None \<Rightarrow> s
     | Some r \<Rightarrow> out [EnableCondInd r state] s)"

text \<open>\<open>ReportDtcStatus\<close>, with \<open>taf_DTCSvr::ReportDTCStatus\<close>.\<close>

definition ReportDtcStatus :: "u32 \<Rightarrow> byte \<Rightarrow> diag \<Rightarrow> diag" where
  "ReportDtcStatus code status s = (case GetSvcDtcCtx code s of None \<Rightarrow> s
     | Some v \<Rightarrow> (if sv_suppression v then s
         else out ((case sv_svcRef v of None \<Rightarrow> [] | Some r \<Rightarrow> [DtcStatusInd r status])
                   @ [AllDtcStatusInd code status]) s))"

definition StoreAndReportEventUdsStatus :: "nat \<Rightarrow> diag \<Rightarrow> le_res \<times> diag" where
  "StoreAndReportEventUdsStatus i s =
     (let (result, s1) =
        on_store (SetEventStatusByName (ec_eventName (evs s ! i)) (ec_uds (evs s ! i))) s in
      if result \<noteq> le_OK then (result, s1) else (le_OK, ReportEventUdsStatus i s1))"

definition StoreAndReportDTCStatus :: "DtcCtx \<Rightarrow> diag \<Rightarrow> le_res \<times> diag" where
  "StoreAndReportDTCStatus d s =
     (let (result, s1) = on_store (SetDTCStatus (dc_code d) (dc_status d) (dc_occurrence d)) s in
      if result \<noteq> le_OK then (result, s1)
      else (le_OK, ReportDtcStatus (dc_code d) (dc_status d) s1))"

definition bit_rises :: "byte \<Rightarrow> byte \<Rightarrow> byte \<Rightarrow> bool" where
  "bit_rises b old new \<longleftrightarrow> old AND b = 0 \<and> new AND b \<noteq> 0"

definition TriggerSnapshotData :: "byte \<Rightarrow> nat \<Rightarrow> diag \<Rightarrow> diag" where
  "TriggerSnapshotData old i s =
     (let new = ec_uds (evs s ! i);
          f = (\<lambda>b t s. if bit_rises b old new then triggerSnapshot i t s else s) in
      f UDS_TFTOC ON_TEST_FAILED_THIS_OPERATION_CYCLE (f UDS_TF ON_TEST_FAILED
        (f UDS_PDTC ON_PENDING (f UDS_CDTC ON_CONFIRMED s))))"

section \<open>Status of a DTC\<close>

text \<open>
  The status of a DTC joins the status bytes of its events; a DTC that has failed since it was
  cleared, or in this cycle, is not "test not completed" for that period.
\<close>

definition join_status :: "u16 list \<Rightarrow> diag \<Rightarrow> byte" where
  "join_status ids s = foldl (\<lambda>st eid. case GetEventCtxById eid s of None \<Rightarrow> st
     | Some i \<Rightarrow> st OR ec_uds (evs s ! i)) 0 ids"

definition mask_completed :: "byte \<Rightarrow> byte" where
  "mask_completed st0 =
     (let st1 = (if st0 AND UDS_TFSLC \<noteq> 0 then st0 AND NOT UDS_TNCSLC else st0) in
      if st1 AND UDS_TFTOC \<noteq> 0 then st1 AND NOT UDS_TNCTOC else st1)"

definition occurs :: "OccCtr \<Rightarrow> byte \<Rightarrow> byte \<Rightarrow> byte \<Rightarrow> byte" where
  "occurs p old new n =
     (if bit_rises UDS_TF old new \<and> (p = PROCESS_OCCCTR_CDTC \<longrightarrow> new AND UDS_CDTC \<noteq> 0) \<and>
         n < MAX_OCCURRENCE_COUNTER
      then n + 1 else n)"

definition UpdateDtcOnFailed :: "u32 option \<Rightarrow> diag \<Rightarrow> le_res \<times> diag" where
  "UpdateDtcOnFailed dtc s = (case Option.bind dtc (\<lambda>code. GetDtcCtxByCode code s) of
     None \<Rightarrow> (le_FAULT, s)
   | Some d \<Rightarrow>
      (let new = mask_completed (join_status (dc_events d) s);
           d1 = d\<lparr>dc_status := new,
                  dc_occurrence := occurs (dc_processing d) (dc_status d) new (dc_occurrence d)\<rparr>;
           s1 = upd_dtc (dc_code d) (\<lambda>_. d1) s in
       if dc_occurrence d \<noteq> dc_occurrence d1 \<or> new \<noteq> dc_status d then
         let (result, s2) = on_store (SetDTCStatus (dc_code d) new (dc_occurrence d1)) s1 in
         if result \<noteq> le_OK then (result, s2)
         else (le_OK, if new \<noteq> dc_status d then ReportDtcStatus (dc_code d) new s2 else s2)
       else (le_OK, s1)))"

definition UpdateDtcOnPassed :: "u32 option \<Rightarrow> diag \<Rightarrow> le_res \<times> diag" where
  "UpdateDtcOnPassed dtc s = (case Option.bind dtc (\<lambda>code. GetDtcCtxByCode code s) of
     None \<Rightarrow> (le_BAD_PARAMETER, s)
   | Some d \<Rightarrow>
      (let new = mask_completed (join_status (dc_events d) s);
           d1 = d\<lparr>dc_status := new\<rparr>;
           s1 = upd_dtc (dc_code d) (\<lambda>_. d1) s in
       if new \<noteq> dc_status d then StoreAndReportDTCStatus d1 s1 else (le_OK, s1)))"

section \<open>Status of an event\<close>

definition failed_status :: "byte \<Rightarrow> byte" where
  "failed_status st = (st OR UDS_TF OR UDS_TFTOC OR UDS_PDTC OR UDS_TFSLC) AND NOT UDS_TNCSLC
     AND NOT UDS_TNCTOC"

definition passed_status :: "byte \<Rightarrow> byte" where
  "passed_status st = st AND NOT UDS_TF AND NOT UDS_TNCSLC AND NOT UDS_TNCTOC"

text \<open>
  The failure counter counts at most one failure in an operation cycle; at the threshold the DTC
  is confirmed and the counter starts again.
\<close>

definition fail_event :: "EventCtx \<Rightarrow> EventCtx" where
  "fail_event e =
     (let n = (if ec_uds e AND UDS_TFTOC = 0 \<and> ec_failureCounter e < MAX_TEST_FAILURE_COUNTER
               then ec_failureCounter e + 1 else ec_failureCounter e);
          st = failed_status (ec_uds e) in
      if ec_confirmationThreshold e \<le> n
      then e\<lparr>ec_uds := st OR UDS_CDTC, ec_failureCounter := 0\<rparr>
      else e\<lparr>ec_uds := st, ec_failureCounter := n\<rparr>)"

definition UpdateEventOnFailed :: "nat \<Rightarrow> diag \<Rightarrow> le_res \<times> diag" where
  "UpdateEventOnFailed i s =
     (let old = ec_uds (evs s ! i); s1 = upd_ev i fail_event s in
      if old \<noteq> ec_uds (evs s1 ! i) then
        let (result, s2) = StoreAndReportEventUdsStatus i s1 in
        if result \<noteq> le_OK then (result, s2)
        else let s3 = TriggerSnapshotData old i s2 in UpdateDtcOnFailed (ec_dtcCtx (evs s3 ! i)) s3
      else UpdateDtcOnFailed (ec_dtcCtx (evs s1 ! i)) s1)"

definition UpdateEventOnPassed :: "nat \<Rightarrow> diag \<Rightarrow> le_res \<times> diag" where
  "UpdateEventOnPassed i s =
     (let old = ec_uds (evs s ! i);
          s1 = upd_ev i (\<lambda>e. e\<lparr>ec_uds := passed_status (ec_uds e)\<rparr>) s in
      if old \<noteq> ec_uds (evs s1 ! i) then
        let (result, s2) = StoreAndReportEventUdsStatus i s1 in
        if result \<noteq> le_OK then (result, s2)
        else UpdateDtcOnPassed (ec_dtcCtx (evs s2 ! i)) s2
      else UpdateDtcOnPassed (ec_dtcCtx (evs s1 ! i)) s1)"

section \<open>Debouncing\<close>

definition ResetDebounce :: "EventCtx \<Rightarrow> EventCtx" where
  "ResetDebounce e0 =
     (let e = e0\<lparr>ec_debounceCounter := 0\<rparr> in
      if ec_debounceType e = DEBOUNCE_TIME_BASED then
        let e1 = (if ec_timerRuns e then e\<lparr>ec_timerRuns := False, ec_timerType := TIMER_UNKNOWN\<rparr>
                  else e) in
        e1\<lparr>ec_fdcTimerRuns := False\<rparr>
      else e)"

definition ResetDebounceCounter :: "nat \<Rightarrow> diag \<Rightarrow> diag" where
  "ResetDebounceCounter i = upd_ev i ResetDebounce"

definition prepassed_counter :: "CounterConfig \<Rightarrow> int \<Rightarrow> int" where
  "prepassed_counter c n =
     (if cc_passedThreshold c < n then
        let n1 = (if cc_jumpDown c \<and> cc_jumpDownValue c < n then cc_jumpDownValue c else n) in
        if cc_passedThreshold c + cc_decrementStepSize c \<le> n1
        then int16 (n1 - cc_decrementStepSize c) else cc_passedThreshold c
      else n)"

definition prefailed_counter :: "CounterConfig \<Rightarrow> int \<Rightarrow> int" where
  "prefailed_counter c n =
     (let n1 = (if cc_jumpUp c \<and> n < cc_jumpUpValue c then cc_jumpUpValue c else n) in
      if n1 \<le> cc_failedThreshold c - cc_incrementStepSize c
      then int16 (n1 + cc_incrementStepSize c) else cc_failedThreshold c)"

text \<open>The fault status after the counter was moved by a report.\<close>

definition counter_fault :: "CounterConfig \<Rightarrow> int \<Rightarrow> StatusType \<Rightarrow> StatusType" where
  "counter_fault c n status =
     (if n \<le> cc_passedThreshold c then EV_PASSED
      else if cc_failedThreshold c \<le> n then EV_FAILED else status)"

definition set_counter :: "nat \<Rightarrow> int \<Rightarrow> diag \<Rightarrow> diag" where
  "set_counter i n = upd_ev i (\<lambda>e. e\<lparr>ec_debounceCounter := n\<rparr>)"

definition DebounceCounterBased :: "nat \<Rightarrow> StatusType \<Rightarrow> diag \<Rightarrow> le_res \<times> diag" where
  "DebounceCounterBased i status s =
     (let e = evs s ! i; c = ec_counter e; n = ec_debounceCounter e;
          finish = (\<lambda>s. (le_OK, upd_ev i (\<lambda>e. e\<lparr>ec_fault :=
             counter_fault c (ec_debounceCounter e) status\<rparr>) s)) in
      case status of
        EV_PASSED \<Rightarrow> finish (set_counter i (cc_passedThreshold c) s)
      | EV_FAILED \<Rightarrow> finish (set_counter i (cc_failedThreshold c) s)
      | EV_PREPASSED \<Rightarrow> finish (set_counter i (prepassed_counter c n) s)
      | EV_PREFAILED \<Rightarrow>
          (if n < cc_failedThreshold c then
             let s1 = set_counter i (prefailed_counter c n) s in
             finish (if \<not> ec_fdcTrigger (evs s1 ! i) \<and>
                        cc_fdcThreshold c \<le> ec_debounceCounter (evs s1 ! i)
                     then triggerSnapshot i ON_FDC_THRESHOLD
                            (upd_ev i (\<lambda>e. e\<lparr>ec_fdcTrigger := True\<rparr>) s1)
                     else s1)
           else finish s)
      | _ \<Rightarrow> (le_FAULT, s))"

text \<open>A debounce timer is given its interval and started; the counter is at 0 while it runs.\<close>

definition start_debounce_timer :: "TimerType \<Rightarrow> int \<Rightarrow> int \<Rightarrow> EventCtx \<Rightarrow> EventCtx" where
  "start_debounce_timer t ms now e = e\<lparr>ec_timerMs := ms, ec_timerType := t, ec_debounceCounter := 0,
     ec_timerRuns := True, ec_startTime := now\<rparr>"

definition time_report :: "StatusType \<Rightarrow> int \<Rightarrow> EventCtx \<Rightarrow> EventCtx option" where
  "time_report status now e = (case status of
     EV_PASSED \<Rightarrow> Some (e\<lparr>ec_debounceCounter := MIN_FAULT_DETECTION_COUNTER,
        ec_timerRuns := False, ec_fdcTimerRuns := False\<rparr>)
   | EV_FAILED \<Rightarrow> Some (e\<lparr>ec_debounceCounter := MAX_FAULT_DETECTION_COUNTER,
        ec_timerRuns := False, ec_fdcTimerRuns := False\<rparr>)
   | EV_PREPASSED \<Rightarrow>
       (let e1 = (if (if ec_timerRuns e then ec_timerType e \<noteq> TIMER_PREPASSED
                      else ec_debounceCounter e \<noteq> MIN_FAULT_DETECTION_COUNTER)
                  then start_debounce_timer TIMER_PREPASSED (tc_passedThreshold (ec_time e)) now e else e) in
        Some (e1\<lparr>ec_fdcTimerRuns := False\<rparr>))
   | EV_PREFAILED \<Rightarrow>
       (let e1 = (if (if ec_timerRuns e then ec_timerType e \<noteq> TIMER_PREFAILED
                      else ec_debounceCounter e \<noteq> MAX_FAULT_DETECTION_COUNTER)
                  then start_debounce_timer TIMER_PREFAILED (tc_failedThreshold (ec_time e)) now e else e) in
        Some (e1\<lparr>ec_fdcTimerRuns := True\<rparr>))
   | _ \<Rightarrow> None)"

definition time_fault :: "int \<Rightarrow> StatusType \<Rightarrow> StatusType" where
  "time_fault n status =
     (if n = MIN_FAULT_DETECTION_COUNTER then EV_PASSED
      else if n = MAX_FAULT_DETECTION_COUNTER then EV_FAILED else status)"

definition DebounceTimeBased :: "nat \<Rightarrow> StatusType \<Rightarrow> diag \<Rightarrow> le_res \<times> diag" where
  "DebounceTimeBased i status s = (case time_report status (clock s) (evs s ! i) of
     None \<Rightarrow> (le_FAULT, s)
   | Some e \<Rightarrow> (le_OK, upd_ev i (\<lambda>_. e\<lparr>ec_fault := time_fault (ec_debounceCounter e) status\<rparr>) s))"

definition DebounceEvent :: "nat \<Rightarrow> StatusType \<Rightarrow> diag \<Rightarrow> le_res \<times> diag" where
  "DebounceEvent i status s = (case ec_debounceType (evs s ! i) of
     DEBOUNCE_MONITOR_INTERNAL \<Rightarrow>
       (if status \<noteq> EV_PASSED \<and> status \<noteq> EV_FAILED then (le_FAULT, s)
        else (le_OK, upd_ev i (\<lambda>e. e\<lparr>ec_fault := status\<rparr>) s))
   | DEBOUNCE_COUNTER_BASED \<Rightarrow> DebounceCounterBased i status s
   | DEBOUNCE_TIME_BASED \<Rightarrow> DebounceTimeBased i status s)"

section \<open>A report of a test result\<close>

definition CheckEventCondition :: "EventCtx \<Rightarrow> diag \<Rightarrow> le_res" where
  "CheckEventCondition e s = (case GetOperCycleCtxById (ec_operationCycleId e) s of
     None \<Rightarrow> le_FAULT
   | Some c \<Rightarrow>
      (if oc_state c \<noteq> CYCLE_START then le_NOT_POSSIBLE
       else if \<not> ec_enable e then le_NOT_PERMITTED
       else (case Option.bind (ec_dtcCtx e) (\<lambda>code. GetDtcCtxByCode code s) of
               None \<Rightarrow> le_UNSUPPORTED
             | Some d \<Rightarrow> if \<not> dc_activation d then le_UNSUPPORTED else le_OK)))"

text \<open>The status of the event follows its fault status when that has changed.\<close>

definition apply_fault :: "StatusType \<Rightarrow> nat \<Rightarrow> diag \<Rightarrow> le_res \<times> diag" where
  "apply_fault old i s =
     (if old \<noteq> ec_fault (evs s ! i) then
        (case ec_fault (evs s ! i) of
           EV_FAILED \<Rightarrow> UpdateEventOnFailed i s
         | EV_PASSED \<Rightarrow> UpdateEventOnPassed i s
         | EV_PREFAILED \<Rightarrow> (le_OK, s)
         | EV_PREPASSED \<Rightarrow> (le_OK, s)
         | _ \<Rightarrow> (le_FAULT, s))
      else (le_OK, s))"

definition SetStatusWithSupplierFaultCode ::
  "diag_cfg \<Rightarrow> nat option \<Rightarrow> StatusType \<Rightarrow> byte list \<Rightarrow> diag \<Rightarrow> (le_res \<times> diag) mem" where
  "SetStatusWithSupplierFaultCode cf svcRef status code s =
     (if svcRef = None then Inr (le_BAD_PARAMETER, s)
      else if status = EV_UNKNOWN then Inr (le_FAULT, s)
      else case GetEventCtx svcRef s of None \<Rightarrow> Inr (le_FAULT, s)
      | Some i \<Rightarrow>
         (let old = ec_fault (evs s ! i); result = CheckEventCondition (evs s ! i) s in
          if result \<noteq> le_OK then Inr (result, s)
          else if dg_faultCodeMax cf < length code then Inl OutOfBounds
          else let s1 = upd_ev i (\<lambda>e. e\<lparr>ec_faultCode := code\<rparr>) s;
                   s2 = triggerSnapshot i ON_EVERY_TEST_FAILED s1;
                   (result, s3) = DebounceEvent i status s2 in
               if result \<noteq> le_OK then Inr (result, s3) else Inr (apply_fault old i s3)))"

definition SetStatus :: "diag_cfg \<Rightarrow> nat option \<Rightarrow> StatusType \<Rightarrow> diag \<Rightarrow> (le_res \<times> diag) mem" where
  "SetStatus cf svcRef status s =
     (if svcRef = None then Inr (le_BAD_PARAMETER, s)
      else SetStatusWithSupplierFaultCode cf svcRef status [] s)"

text \<open>
  The expiry of the timers. A timer that expires has stopped when its handler is called; the
  handler ignores the results of the updates.
\<close>

definition TimeBasedDebounceTimerHandler :: "nat \<Rightarrow> diag \<Rightarrow> diag" where
  "TimeBasedDebounceTimerHandler i s =
     (let e = evs s ! i;
          e1 = (case ec_timerType e of
              TIMER_PREFAILED \<Rightarrow> e\<lparr>ec_debounceCounter := MAX_FAULT_DETECTION_COUNTER,
                 ec_fault := EV_FAILED\<rparr>
            | TIMER_PREPASSED \<Rightarrow> e\<lparr>ec_debounceCounter := MIN_FAULT_DETECTION_COUNTER,
                 ec_fault := EV_PASSED\<rparr>
            | TIMER_UNKNOWN \<Rightarrow> e);
          s1 = upd_ev i (\<lambda>_. e1) s in
      if ec_fault e \<noteq> ec_fault e1 then
        (if ec_fault e1 = EV_FAILED then snd (UpdateEventOnFailed i s1)
         else if ec_fault e1 = EV_PASSED then snd (UpdateEventOnPassed i s1) else s1)
      else s1)"

definition debounce_expires :: "nat \<Rightarrow> diag \<Rightarrow> diag" where
  "debounce_expires i s =
     TimeBasedDebounceTimerHandler i (upd_ev i (\<lambda>e. e\<lparr>ec_timerRuns := False\<rparr>) s)"

definition FdcTimerHandler :: "nat \<Rightarrow> diag \<Rightarrow> diag" where
  "FdcTimerHandler i = triggerSnapshot i ON_FDC_THRESHOLD"

definition fdc_expires :: "nat \<Rightarrow> diag \<Rightarrow> diag" where
  "fdc_expires i s = FdcTimerHandler i (upd_ev i (\<lambda>e. e\<lparr>ec_fdcTimerRuns := False\<rparr>) s)"

end
