(* ===== verification/Diag_EventOps.thy ===== *)
theory Diag_EventOps
  imports Diag_Event
begin

unbundle bit_operations_syntax

text \<open>
  The remaining operations of the event service: operation cycles, enable conditions (with
  \<open>SetEnableCondition\<close> of \<open>tafDiagSvrImpl.cpp\<close>), clearing, disabling and suppressing DTCs, fault
  detection counters, the references clients hold, and the set-up from the configuration.
\<close>

section \<open>Operation cycles\<close>

text \<open>
  Starting a cycle and ending it visit the events in the order of their list and update the event
  and then its DTC; the first write to the store that fails ends the loop.
\<close>

definition cycle_start_event :: "EventCtx \<Rightarrow> EventCtx" where
  "cycle_start_event e =
     (let e1 = (ResetDebounce (e\<lparr>ec_fault := EV_UNKNOWN\<rparr>))\<lparr>ec_fdcTrigger := False\<rparr> in
      e1\<lparr>ec_uds := (ec_uds e1 AND NOT UDS_TFTOC) OR UDS_TNCTOC\<rparr>)"

definition cycle_start_status :: "byte \<Rightarrow> byte" where
  "cycle_start_status st = (st AND NOT UDS_TFTOC) OR UDS_TNCTOC"

definition set_dtc_status :: "DtcCtx \<Rightarrow> byte \<Rightarrow> diag \<Rightarrow> le_res \<times> diag" where
  "set_dtc_status d new s =
     (let s1 = upd_dtc (dc_code d) (\<lambda>x. x\<lparr>dc_status := new\<rparr>) s in
      if dc_status d \<noteq> new then StoreAndReportDTCStatus (d\<lparr>dc_status := new\<rparr>) s1 else (le_OK, s1))"

definition start_one :: "nat \<Rightarrow> diag \<Rightarrow> le_res \<times> diag" where
  "start_one i s =
     (let old = ec_uds (evs s ! i); s1 = upd_ev i cycle_start_event s;
          (result, s2) = (if old \<noteq> ec_uds (evs s1 ! i) then StoreAndReportEventUdsStatus i s1
                          else (le_OK, s1)) in
      if result \<noteq> le_OK then (result, s2)
      else case Option.bind (ec_dtcCtx (evs s2 ! i)) (\<lambda>code. GetDtcCtxByCode code s2) of
          None \<Rightarrow> (le_OK, s2)
        | Some d \<Rightarrow> set_dtc_status d (cycle_start_status (dc_status d)) s2)"

definition passed_cycle :: "byte \<Rightarrow> bool" where
  "passed_cycle st \<longleftrightarrow> st AND UDS_TNCTOC = 0 \<and> st AND UDS_TFTOC = 0"

definition stop_one :: "nat \<Rightarrow> diag \<Rightarrow> le_res \<times> diag" where
  "stop_one i s =
     (let st = ec_uds (evs s ! i);
          (result, s2) =
            (if passed_cycle st \<and> st AND UDS_PDTC \<noteq> 0
             then StoreAndReportEventUdsStatus i
                    (upd_ev i (\<lambda>e. e\<lparr>ec_uds := ec_uds e AND NOT UDS_PDTC\<rparr>) s)
             else (le_OK, s)) in
      if result \<noteq> le_OK then (result, s2)
      else case Option.bind (ec_dtcCtx (evs s2 ! i)) (\<lambda>code. GetDtcCtxByCode code s2) of
          None \<Rightarrow> (le_OK, s2)
        | Some d \<Rightarrow> (if passed_cycle (dc_status d) \<and> dc_status d AND UDS_PDTC \<noteq> 0
            then set_dtc_status d (dc_status d AND NOT UDS_PDTC) s2 else (le_OK, s2)))"

primrec visit :: "(nat \<Rightarrow> diag \<Rightarrow> le_res \<times> diag) \<Rightarrow> byte \<Rightarrow> nat list \<Rightarrow> diag \<Rightarrow> le_res \<times> diag" where
  "visit f cyc [] s = (le_OK, s)"
| "visit f cyc (i # is) s =
     (if ec_operationCycleId (evs s ! i) = cyc then
        let (result, s1) = f i s in
        if result \<noteq> le_OK then (result, s1) else visit f cyc is s1
      else visit f cyc is s)"

definition StartOperationCycle :: "byte \<Rightarrow> diag \<Rightarrow> le_res \<times> diag" where
  "StartOperationCycle cyc s = visit start_one cyc [0..<length (evs s)] s"

definition StopOperationCycle :: "byte \<Rightarrow> diag \<Rightarrow> le_res \<times> diag" where
  "StopOperationCycle cyc s = visit stop_one cyc [0..<length (evs s)] s"

definition ReportOperCycleState :: "CycleCtx \<Rightarrow> CycleState \<Rightarrow> diag \<Rightarrow> diag" where
  "ReportOperCycleState c state = out [OperCycleInd (oc_ref c) state]"

definition GetOperCycleCtx :: "nat option \<Rightarrow> diag \<Rightarrow> CycleCtx option" where
  "GetOperCycleCtx ref s = (case ref of None \<Rightarrow> None
     | Some r \<Rightarrow> Option.bind (map_of (cycleRefs s) r) (\<lambda>i. GetOperCycleCtxById i s))"

definition SetOperCycleState :: "nat option \<Rightarrow> CycleState \<Rightarrow> diag \<Rightarrow> le_res \<times> diag" where
  "SetOperCycleState ref state s =
     (if ref = None then (le_BAD_PARAMETER, s)
      else case GetOperCycleCtx ref s of None \<Rightarrow> (le_FAULT, s)
      | Some c \<Rightarrow> (case state of
          CYCLE_RESTART \<Rightarrow>
            (if oc_state c = CYCLE_START then
               let (result, s1) = StopOperationCycle (oc_id c) s in
               if result \<noteq> le_OK then (result, s1)
               else let (result, s2) = StartOperationCycle (oc_id c) s1 in
               if result \<noteq> le_OK then (result, s2)
               else (le_OK, ReportOperCycleState c CYCLE_RESTART s2)
             else (le_FAULT, s))
        | CYCLE_START \<Rightarrow>
            (if oc_state c \<noteq> CYCLE_START then
               let (result, s1) = StartOperationCycle (oc_id c) s in
               if result \<noteq> le_OK then (result, s1)
               else (le_OK, ReportOperCycleState c CYCLE_START
                      (upd_cycle (oc_id c) (\<lambda>c. c\<lparr>oc_state := CYCLE_START\<rparr>) s1))
             else (le_OK, s))
        | CYCLE_STOP \<Rightarrow>
            (if oc_state c \<noteq> CYCLE_STOP then
               let (result, s1) = StopOperationCycle (oc_id c) s in
               if result \<noteq> le_OK then (result, s1)
               else (le_OK, ReportOperCycleState c CYCLE_STOP
                      (upd_cycle (oc_id c) (\<lambda>c. c\<lparr>oc_state := CYCLE_STOP\<rparr>) s1))
             else (le_OK, s))))"

section \<open>Enable conditions\<close>

definition GetEnableConditionStatus :: "byte \<Rightarrow> diag \<Rightarrow> bool" where
  "GetEnableConditionStatus c s = (case find (\<lambda>p. fst p = c) (conds s) of
     None \<Rightarrow> False | Some p \<Rightarrow> snd p)"

text \<open>\<open>None\<close>: the event does not have the condition. The alternatives overrule the conjunction.\<close>

definition enable_status :: "byte list \<times> byte list \<Rightarrow> byte \<Rightarrow> diag \<Rightarrow> bool option" where
  "enable_status cs c s =
     (if c \<in> set (snd cs) then Some (list_ex (\<lambda>x. GetEnableConditionStatus x s) (snd cs))
      else if c \<in> set (fst cs) then Some (list_all (\<lambda>x. GetEnableConditionStatus x s) (fst cs))
      else None)"

definition enable_one :: "diag_cfg \<Rightarrow> byte \<Rightarrow> nat \<Rightarrow> diag \<Rightarrow> diag" where
  "enable_one cf c i s = (case dg_enable cf (ec_eventId (evs s ! i)) of
     None \<Rightarrow> s
   | Some cs \<Rightarrow> (case enable_status cs c s of
       None \<Rightarrow> s
     | Some new \<Rightarrow>
        (let s1 = (if new \<noteq> ec_enable (evs s ! i)
                   then upd_ev i (\<lambda>e. e\<lparr>ec_enable := new\<rparr>) (ReportEnableCondState i new s) else s) in
         if \<not> ec_enable (evs s1 ! i) \<and> ec_behavior (evs s1 ! i) = DEBOUNCE_RESET
         then ResetDebounceCounter i s1 else s1)))"

definition SetEventEnableStatus :: "diag_cfg \<Rightarrow> byte \<Rightarrow> diag \<Rightarrow> diag" where
  "SetEventEnableStatus cf c s = fold (enable_one cf c) [0..<length (evs s)] s"

definition set_cond :: "byte \<Rightarrow> bool \<Rightarrow> (byte \<times> bool) list \<Rightarrow> (byte \<times> bool) list" where
  "set_cond c v cs = (case find_index (\<lambda>p. fst p = c) cs of
     None \<Rightarrow> cs @ [(c, v)] | Some i \<Rightarrow> cs[i := (c, v)])"

definition SetEnableCondition :: "diag_cfg \<Rightarrow> byte \<Rightarrow> bool \<Rightarrow> diag \<Rightarrow> le_res \<times> diag" where
  "SetEnableCondition cf c v s =
     (le_OK, SetEventEnableStatus cf c (s\<lparr>conds := set_cond c v (conds s)\<rparr>))"

definition ResetDebounceStatus :: "nat option \<Rightarrow> DebounceReset \<Rightarrow> diag \<Rightarrow> le_res \<times> diag" where
  "ResetDebounceStatus ref status s =
     (if ref = None then (le_BAD_PARAMETER, s)
      else case GetEventCtx ref s of None \<Rightarrow> (le_FAULT, s)
      | Some i \<Rightarrow>
         (let s1 = upd_ev i (\<lambda>e. e\<lparr>ec_behavior := status\<rparr>) s in
          (le_OK, if status = DEBOUNCE_RESET \<and> \<not> ec_enable (evs s1 ! i)
                  then ResetDebounceCounter i s1 else s1)))"

section \<open>Clearing a DTC\<close>

definition cleared_status :: byte where "cleared_status = UDS_TNCSLC OR UDS_TNCTOC"

definition clear_event :: "nat \<Rightarrow> diag \<Rightarrow> diag" where
  "clear_event i s =
     (let old = ec_uds (evs s ! i); s1 = upd_ev i (\<lambda>e. e\<lparr>ec_uds := cleared_status\<rparr>) s;
          s2 = (if cleared_status \<noteq> old then ReportEventUdsStatus i s1 else s1);
          (_, s3) = on_store (SetEventStatusByName (ec_eventName (evs s2 ! i)) cleared_status) s2;
          s4 = upd_ev i (\<lambda>e. e\<lparr>ec_failureCounter := 0, ec_fault := EV_UNKNOWN\<rparr>) s3 in
      ResetDebounceCounter i s4)"

definition clear_event_id :: "u16 \<Rightarrow> diag \<Rightarrow> diag" where
  "clear_event_id eid s = (case GetEventCtxById eid s of None \<Rightarrow> s | Some i \<Rightarrow> clear_event i s)"

text \<open>Results of the store are only logged here.\<close>

definition ClearDTCAndEventData :: "u32 \<Rightarrow> diag \<Rightarrow> diag" where
  "ClearDTCAndEventData code s = (case GetDtcCtxByCode code s of None \<Rightarrow> s
   | Some d \<Rightarrow>
      (let s1 = upd_dtc code (\<lambda>d. d\<lparr>dc_occurrence := 0, dc_status := cleared_status\<rparr>) s;
           s2 = (if cleared_status \<noteq> dc_status d then ReportDtcStatus code cleared_status s1 else s1);
           (_, s3) = on_store (SetDTCStatus code cleared_status 0) s2 in
       fold clear_event_id (dc_events d) s3))"

definition ReportClearDtcStatus :: "u32 \<Rightarrow> diag \<Rightarrow> diag" where
  "ReportClearDtcStatus code s = (case (GetDtcCtxByCode code s, GetSvcDtcCtx code s) of
     (Some d, Some v) \<Rightarrow> (case sv_svcRef v of None \<Rightarrow> s | Some r \<Rightarrow> out [ClearDtcInd r (dc_reqClient d)] s)
   | _ \<Rightarrow> s)"

text \<open>The reference for all DTCs is created once and never deleted.\<close>

definition ReportClearAllDtcStatus :: "ReqClient \<Rightarrow> diag \<Rightarrow> diag" where
  "ReportClearAllDtcStatus client = out [ClearAllDtcInd client]"

definition ClearAllDTCAndEventData :: "ReqClient \<Rightarrow> diag \<Rightarrow> diag" where
  "ClearAllDTCAndEventData client s =
     ReportClearAllDtcStatus client (fold ClearDTCAndEventData (map dc_code (dtcs s)) s)"

definition ClearAllDtc :: "diag_cfg \<Rightarrow> ReqClient \<Rightarrow> diag \<Rightarrow> le_res \<times> diag" where
  "ClearAllDtc cf client s =
     (let (result, s1) = on_store (DeleteAllData (dg_dem cf)) s in
      if result \<noteq> le_OK then (result, s1)
      else if client = UNKNOWN_CLIENT then (le_UNAVAILABLE, s1)
      else (le_OK, ClearAllDTCAndEventData client s1))"

definition ClearSingleDtc :: "diag_cfg \<Rightarrow> u32 \<Rightarrow> ReqClient \<Rightarrow> diag \<Rightarrow> le_res \<times> diag" where
  "ClearSingleDtc cf code client s = (case GetDtcCtxByCode code s of
     None \<Rightarrow> (le_UNSUPPORTED, s)
   | Some d \<Rightarrow>
      (let s1 = upd_dtc code (\<lambda>d. d\<lparr>dc_reqClient := client\<rparr>) s in
       if dc_suppression d then (le_UNAVAILABLE, s1)
       else let (result, s2) = on_store (DeleteData (dg_dem cf) code) s1 in
       if result \<noteq> le_OK then (result, s2)
       else if client = UNKNOWN_CLIENT then (le_UNAVAILABLE, s2)
       else (le_OK, ReportClearDtcStatus code (ClearDTCAndEventData code s2))))"

definition ALL_DTC_GROUP :: u32 where "ALL_DTC_GROUP = 0xFFFFFF"

definition ClearDtc :: "diag_cfg \<Rightarrow> u32 \<Rightarrow> ReqClient \<Rightarrow> diag \<Rightarrow> le_res \<times> diag" where
  "ClearDtc cf code client s =
     (if code = ALL_DTC_GROUP then ClearAllDtc cf client s else ClearSingleDtc cf code client s)"

section \<open>Activation and suppression\<close>

definition DisableDTCSetting :: "u32 \<Rightarrow> diag \<Rightarrow> le_res \<times> diag" where
  "DisableDTCSetting code s = (case GetDtcCtxByCode code s of
     None \<Rightarrow> (le_UNSUPPORTED, s)
   | Some _ \<Rightarrow>
      (let (result, s1) = on_store (SetDTCActivation code 0) s in
       if result \<noteq> le_OK then (result, s1)
       else (le_OK, upd_dtc code (\<lambda>d. d\<lparr>dc_activation := False\<rparr>) s1)))"

definition EnableDTCSetting :: "u32 \<Rightarrow> diag \<Rightarrow> le_res \<times> diag" where
  "EnableDTCSetting code s = (case GetDtcCtxByCode code s of
     None \<Rightarrow> (le_UNSUPPORTED, s)
   | Some _ \<Rightarrow>
      (let (result, s1) = on_store (SetDTCActivation code 1) s in
       if result \<noteq> le_OK then (result, s1)
       else (le_OK, upd_dtc code (\<lambda>d. d\<lparr>dc_activation := True\<rparr>) s1)))"

definition SetDTCSuppression :: "u32 \<Rightarrow> bool \<Rightarrow> diag \<Rightarrow> le_res \<times> diag" where
  "SetDTCSuppression code v s = (case GetDtcCtxByCode code s of
     None \<Rightarrow> (le_UNSUPPORTED, s)
   | Some _ \<Rightarrow>
      (let (result, s1) = on_store (SetDTCSuppression_store code (of_bool v)) s in
       if result \<noteq> le_OK then (result, s1)
       else (le_OK, upd_dtc code (\<lambda>d. d\<lparr>dc_suppression := v\<rparr>) s1)))"

definition SetAllDTCSuppression :: "bool \<Rightarrow> diag \<Rightarrow> le_res \<times> diag" where
  "SetAllDTCSuppression v s =
     (let (result, s1) = on_store (SetAllDTCSuppression_store (of_bool v)) s in
      if result \<noteq> le_OK then (result, s1)
      else (le_OK, s1\<lparr>dtcs := map (\<lambda>d. d\<lparr>dc_suppression := v\<rparr>) (dtcs s1)\<rparr>))"

section \<open>Fault detection counters\<close>

definition counter_fdc :: "diag_cfg \<Rightarrow> EventCtx \<Rightarrow> byte" where
  "counter_fdc cf e = CalcCounterBasedDebounceFDC (dg_u8 cf) (ec_debounceCounter e)
     (cc_failedThreshold (ec_counter e))"

definition time_fdc :: "diag_cfg \<Rightarrow> EventCtx \<Rightarrow> diag \<Rightarrow> byte" where
  "time_fdc cf e s = CalcTimeBasedDebounceFDC (dg_u8 cf)
     (ec_timerRuns e \<and> ec_timerType e = TIMER_PREFAILED) (clock s) (ec_startTime e)
     (tc_failedThreshold (ec_time e))"

definition max_fdc :: "(EventCtx \<Rightarrow> byte) \<Rightarrow> u16 list \<Rightarrow> diag \<Rightarrow> byte" where
  "max_fdc f ids s = foldl (\<lambda>m eid. case GetEventCtxById eid s of None \<Rightarrow> m
     | Some i \<Rightarrow> (if m < f (evs s ! i) then f (evs s ! i) else m)) 0 ids"

text \<open>The service reads the counters of counter-based events only.\<close>

definition GetFaultDetectionCounter :: "diag_cfg \<Rightarrow> u32 \<Rightarrow> diag \<Rightarrow> le_res + byte" where
  "GetFaultDetectionCounter cf code s = (case GetDtcCtxByCode code s of
     None \<Rightarrow> Inl le_BAD_PARAMETER
   | Some d \<Rightarrow> (if dc_suppression d then Inl le_FAULT
      else Inr (max_fdc (\<lambda>e. if ec_debounceType e = DEBOUNCE_COUNTER_BASED then counter_fdc cf e
                             else 0) (dc_events d) s)))"

definition ReportDTCFaultDetectionCounter :: "diag_cfg \<Rightarrow> diag \<Rightarrow> (u32 \<times> byte) list" where
  "ReportDTCFaultDetectionCounter cf s = concat (map (\<lambda>d.
     if dc_suppression d then []
     else let fdc = max_fdc (\<lambda>e. case ec_debounceType e of
                 DEBOUNCE_MONITOR_INTERNAL \<Rightarrow> 0
               | DEBOUNCE_COUNTER_BASED \<Rightarrow> counter_fdc cf e
               | DEBOUNCE_TIME_BASED \<Rightarrow> time_fdc cf e s) (dc_events d) s in
          if 0 < fdc then [(dc_code d, fdc)] else []) (dtcs s))"

section \<open>References\<close>

text \<open>
  \<open>le_ref_CreateRef\<close> gives a reference that was not given before. The session of the client that
  calls is the argument \<open>c\<close>.
\<close>

definition add_session :: "nat \<Rightarrow> nat list \<Rightarrow> nat list" where
  "add_session c cs = (if c \<in> set cs then cs else cs @ [c])"

definition GetService :: "u16 \<Rightarrow> nat \<Rightarrow> diag \<Rightarrow> nat option \<times> diag" where
  "GetService eid c s = (case GetEventCtxById eid s of None \<Rightarrow> (None, s)
   | Some i \<Rightarrow>
      (let s1 = (case ec_svcRef (evs s ! i) of Some _ \<Rightarrow> s
           | None \<Rightarrow> upd_ev i (\<lambda>e. e\<lparr>ec_svcRef := Some (nextRef s), ec_sessions := []\<rparr>)
               (s\<lparr>svcRefs := svcRefs s @ [(nextRef s, i)], nextRef := nextRef s + 1\<rparr>));
           s2 = upd_ev i (\<lambda>e. e\<lparr>ec_sessions := add_session c (ec_sessions e)\<rparr>) s1 in
       (ec_svcRef (evs s2 ! i), s2)))"

definition GetOperCycle :: "byte \<Rightarrow> nat \<Rightarrow> diag \<Rightarrow> nat option \<times> diag" where
  "GetOperCycle cyc c s = (case GetOperCycleCtxById cyc s of None \<Rightarrow> (None, s)
   | Some x \<Rightarrow>
      (let r = (case oc_ref x of Some r \<Rightarrow> r | None \<Rightarrow> nextRef s);
           s1 = (case oc_ref x of Some _ \<Rightarrow> s
           | None \<Rightarrow> upd_cycle cyc (\<lambda>x. x\<lparr>oc_ref := Some (nextRef s), oc_sessions := []\<rparr>)
               (s\<lparr>cycleRefs := cycleRefs s @ [(nextRef s, cyc)], nextRef := nextRef s + 1\<rparr>)) in
       (Some r, upd_cycle cyc (\<lambda>x. x\<lparr>oc_sessions := add_session c (oc_sessions x)\<rparr>) s1)))"

text \<open>
  One step of the loop over a map of references: the session is removed from the context the
  reference stands for when \<open>mine\<close> says so, and a context without sessions loses its reference.
\<close>

definition drop_svc_ref :: "(nat \<Rightarrow> bool) \<Rightarrow> nat \<Rightarrow> nat \<times> nat \<Rightarrow> diag \<Rightarrow> diag" where
  "drop_svc_ref mine c p s =
     (let i = snd p;
          s1 = (if ec_svcRef (evs s ! i) \<noteq> None \<and> mine (the (ec_svcRef (evs s ! i)))
                then upd_ev i (\<lambda>e. e\<lparr>ec_sessions := remove1 c (ec_sessions e)\<rparr>) s else s) in
      if ec_sessions (evs s1 ! i) = []
      then upd_ev i (\<lambda>e. e\<lparr>ec_svcRef := None\<rparr>)
             (s1\<lparr>svcRefs := filter (\<lambda>q. fst q \<noteq> fst p) (svcRefs s1)\<rparr>)
      else s1)"

definition RemoveSvc :: "nat option \<Rightarrow> nat \<Rightarrow> diag \<Rightarrow> le_res \<times> diag" where
  "RemoveSvc ref c s = (case ref of None \<Rightarrow> (le_FAULT, s)
     | Some r \<Rightarrow> (le_OK, fold (drop_svc_ref (\<lambda>x. x = r) c) (svcRefs s) s))"

definition drop_cycle_ref :: "(nat \<Rightarrow> bool) \<Rightarrow> nat \<Rightarrow> nat \<times> byte \<Rightarrow> diag \<Rightarrow> diag" where
  "drop_cycle_ref mine c p s = (case GetOperCycleCtxById (snd p) s of None \<Rightarrow> s
   | Some x \<Rightarrow>
      (let sess = (if oc_ref x \<noteq> None \<and> mine (the (oc_ref x)) then remove1 c (oc_sessions x)
                   else oc_sessions x);
           s1 = upd_cycle (snd p) (\<lambda>x. x\<lparr>oc_sessions := sess\<rparr>) s in
       if sess = []
       then upd_cycle (snd p) (\<lambda>x. x\<lparr>oc_ref := None\<rparr>)
              (s1\<lparr>cycleRefs := filter (\<lambda>q. fst q \<noteq> fst p) (cycleRefs s1)\<rparr>)
       else s1))"

definition RemoveOperCycle :: "nat option \<Rightarrow> nat \<Rightarrow> diag \<Rightarrow> le_res \<times> diag" where
  "RemoveOperCycle ref c s = (case ref of None \<Rightarrow> (le_BAD_PARAMETER, s)
     | Some r \<Rightarrow> (le_OK, fold (drop_cycle_ref (\<lambda>x. x = r) c) (cycleRefs s) s))"

text \<open>A client that disconnects loses its session in every context.\<close>

definition OnClientDisconnection :: "nat \<Rightarrow> diag \<Rightarrow> diag" where
  "OnClientDisconnection c s =
     (let s1 = fold (drop_svc_ref (\<lambda>_. True) c) (svcRefs s) s in
      fold (drop_cycle_ref (\<lambda>_. True) c) (cycleRefs s1) s1)"

text \<open>The queries of a client.\<close>

definition ev_query :: "(EventCtx \<Rightarrow> 'a) \<Rightarrow> nat option \<Rightarrow> diag \<Rightarrow> le_res + 'a" where
  "ev_query f ref s = (if ref = None then Inl le_BAD_PARAMETER
     else case GetEventCtx ref s of None \<Rightarrow> Inl le_FAULT | Some i \<Rightarrow> Inr (f (evs s ! i)))"

definition GetId :: "nat option \<Rightarrow> diag \<Rightarrow> le_res + u16" where "GetId = ev_query ec_eventId"

definition GetOperationCycleId :: "nat option \<Rightarrow> diag \<Rightarrow> le_res + byte" where
  "GetOperationCycleId = ev_query ec_operationCycleId"

definition GetDTCCode :: "nat option \<Rightarrow> diag \<Rightarrow> le_res + u32" where
  "GetDTCCode = ev_query ec_dtcCode"

definition GetEnableCondState :: "nat option \<Rightarrow> diag \<Rightarrow> le_res + bool" where
  "GetEnableCondState = ev_query ec_enable"

definition GetUdsStatus :: "nat option \<Rightarrow> diag \<Rightarrow> le_res + byte" where
  "GetUdsStatus = ev_query ec_uds"

definition GetOperCycleState :: "nat option \<Rightarrow> diag \<Rightarrow> le_res + CycleState" where
  "GetOperCycleState ref s = (case GetOperCycleCtx ref s of
     None \<Rightarrow> Inl le_BAD_PARAMETER | Some c \<Rightarrow> Inr (oc_state c))"

definition GetOperCycleIdByRef :: "nat option \<Rightarrow> diag \<Rightarrow> le_res + byte" where
  "GetOperCycleIdByRef ref s = (case GetOperCycleCtx ref s of
     None \<Rightarrow> Inl le_BAD_PARAMETER | Some c \<Rightarrow> Inr (oc_id c))"

section \<open>Set-up\<close>

text \<open>
  An entry of the configuration. The parameters of the counter-based algorithm are of type \<open>int\<close>
  and are stored as \<open>int16_t\<close>; the times of the time-based one are given in milliseconds.
  The process ends when a time is outside of 1 ms to 1 h or the algorithm has no section in the
  configuration; such entries are not values of the type.
\<close>

datatype Algorithm = CounterBased CounterConfig | TimeBased TimeConfig | Custom

record EventEntry =
  en_id :: u16
  en_name :: string
  en_cycle :: byte
  en_confirmation :: byte
  en_algorithm :: Algorithm
  en_reset :: bool

definition MIN_COUNTER_BASED_PARAM_VALUE :: int where "MIN_COUNTER_BASED_PARAM_VALUE = - 32768"
definition MIDDLE_COUNTER_BASED_PARAM_VALUE :: int where "MIDDLE_COUNTER_BASED_PARAM_VALUE = 1"
definition MAX_COUNTER_BASED_PARAM_VALUE :: int where "MAX_COUNTER_BASED_PARAM_VALUE = 32768"

definition stored_counter :: "CounterConfig \<Rightarrow> CounterConfig" where
  "stored_counter c = \<lparr>cc_decrementStepSize = int16 (cc_decrementStepSize c),
     cc_incrementStepSize = int16 (cc_incrementStepSize c),
     cc_failedThreshold = int16 (cc_failedThreshold c),
     cc_passedThreshold = int16 (cc_passedThreshold c), cc_jumpDown = cc_jumpDown c,
     cc_jumpUp = cc_jumpUp c, cc_jumpDownValue = int16 (cc_jumpDownValue c),
     cc_jumpUpValue = int16 (cc_jumpUpValue c), cc_fdcThreshold = int16 (cc_fdcThreshold c)\<rparr>"

text \<open>The checks of the stored parameters; one that fails ends the process (\<open>LE_FATAL\<close>).\<close>

definition counter_checks :: "CounterConfig \<Rightarrow> bool" where
  "counter_checks c \<longleftrightarrow>
     (let lo = MIN_COUNTER_BASED_PARAM_VALUE; mid = MIDDLE_COUNTER_BASED_PARAM_VALUE;
          hi = MAX_COUNTER_BASED_PARAM_VALUE in
      \<not> (cc_decrementStepSize c < mid \<or> hi < cc_decrementStepSize c) \<and>
      \<not> (cc_incrementStepSize c < mid \<or> hi \<le> cc_incrementStepSize c) \<and>
      \<not> (cc_failedThreshold c < mid \<or> hi \<le> cc_failedThreshold c) \<and>
      \<not> (cc_passedThreshold c < lo \<or> 0 \<le> cc_passedThreshold c) \<and>
      \<not> (cc_jumpDownValue c < lo \<or> hi \<le> cc_jumpDownValue c) \<and>
      \<not> (cc_jumpUpValue c < lo \<or> hi \<le> cc_jumpUpValue c) \<and>
      \<not> (cc_fdcThreshold c < mid \<or> hi \<le> cc_fdcThreshold c))"

definition no_counter :: CounterConfig where
  "no_counter = \<lparr>cc_decrementStepSize = 0, cc_incrementStepSize = 0, cc_failedThreshold = 0,
     cc_passedThreshold = 0, cc_jumpDown = False, cc_jumpUp = False, cc_jumpDownValue = 0,
     cc_jumpUpValue = 0, cc_fdcThreshold = 0\<rparr>"

definition no_time :: TimeConfig where
  "no_time = \<lparr>tc_failedThreshold = 0, tc_passedThreshold = 0, tc_fdcThreshold = 0\<rparr>"

text \<open>
  A context of zeroes with the configured parts. An event without debouncing keeps the value 0 as
  its debounce behaviour (taken as freezing: it has no effect there) and as its timer type.
\<close>

definition new_event :: "u32 \<Rightarrow> EventEntry \<Rightarrow> byte \<Rightarrow> EventCtx" where
  "new_event code en st = \<lparr>ec_eventId = en_id en, ec_eventName = en_name en, ec_dtcCode = code,
     ec_dtcCtx = Some code, ec_operationCycleId = en_cycle en, ec_enable = False, ec_uds = st,
     ec_failureCounter = 0, ec_confirmationThreshold = en_confirmation en, ec_faultCode = [],
     ec_fault = EV_UNKNOWN, ec_debounceCounter = 0, ec_fdcTrigger = False,
     ec_behavior = (case en_algorithm en of Custom \<Rightarrow> DEBOUNCE_FREEZE
        | _ \<Rightarrow> if en_reset en then DEBOUNCE_RESET else DEBOUNCE_FREEZE),
     ec_debounceType = (case en_algorithm en of CounterBased _ \<Rightarrow> DEBOUNCE_COUNTER_BASED
        | TimeBased _ \<Rightarrow> DEBOUNCE_TIME_BASED | Custom \<Rightarrow> DEBOUNCE_MONITOR_INTERNAL),
     ec_counter = (case en_algorithm en of CounterBased c \<Rightarrow> stored_counter c | _ \<Rightarrow> no_counter),
     ec_time = (case en_algorithm en of TimeBased t \<Rightarrow> t | _ \<Rightarrow> no_time),
     ec_timerRuns = False, ec_timerMs = 0, ec_fdcTimerRuns = False,
     ec_timerType = (case en_algorithm en of TimeBased _ \<Rightarrow> TIMER_UNKNOWN | _ \<Rightarrow> TIMER_PREFAILED),
     ec_startTime = 0, ec_sessions = [], ec_svcRef = None\<rparr>"

definition new_DtcCtx :: "OccCtr \<Rightarrow> u32 \<Rightarrow> byte \<Rightarrow> byte \<Rightarrow> bool \<Rightarrow> bool \<Rightarrow> DtcCtx" where
  "new_DtcCtx p code st occ act supp = \<lparr>dc_code = code, dc_status = st, dc_processing = p,
     dc_occurrence = occ, dc_activation = act, dc_suppression = supp, dc_reqClient = DTOOL,
     dc_events = []\<rparr>"

definition InitDtcContext :: "OccCtr \<Rightarrow> u32 \<Rightarrow> diag \<Rightarrow> diag" where
  "InitDtcContext p code s =
     (let (st, s1) = on_store (GetDTCStatus code) s;
          (occ, s2) = on_store (GetDTCOccurrenceCounter code) s1;
          (act, s3) = on_store (GetActivation code) s2;
          (supp, s4) = on_store (GetSuppression code) s3 in
      s4\<lparr>dtcs := dtcs s4 @ [new_DtcCtx p code st occ (act \<noteq> 0) (supp \<noteq> 0)]\<rparr>)"

definition TAF_EVENT_NAME_MAX_LEN :: nat where "TAF_EVENT_NAME_MAX_LEN = 64"

text \<open>\<open>None\<close>: the process ends.\<close>

definition InitEventContext :: "OccCtr \<Rightarrow> u32 \<Rightarrow> EventEntry \<Rightarrow> diag \<Rightarrow> diag option" where
  "InitEventContext p code en s =
     (if (case en_algorithm en of CounterBased c \<Rightarrow> \<not> counter_checks (stored_counter c) | _ \<Rightarrow> False)
      then None
      else let s1 = (if GetDtcCtxByCode code s = None then InitDtcContext p code s else s) in
      if en_name en = [] \<or> TAF_EVENT_NAME_MAX_LEN \<le> length (en_name en) then None
      else let (st, s2) = on_store (GetEventStatusByName (en_name en)) s1;
               s3 = upd_dtc code (\<lambda>d. d\<lparr>dc_events := dc_events d @ [en_id en]\<rparr>) s2 in
      Some (s3\<lparr>evs := evs s3 @ [new_event code en st]\<rparr>))"

primrec init_events :: "OccCtr \<Rightarrow> u32 \<Rightarrow> EventEntry list \<Rightarrow> diag \<Rightarrow> diag option" where
  "init_events p code [] s = Some s"
| "init_events p code (en # ens) s = (if en_id en = 0 then None
     else Option.bind (InitEventContext p code en s) (init_events p code ens))"

primrec init_dtcs :: "OccCtr \<Rightarrow> (u32 \<times> EventEntry list) list \<Rightarrow> diag \<Rightarrow> diag option" where
  "init_dtcs p [] s = Some s"
| "init_dtcs p (x # xs) s = (if fst x AND 0xFF000000 \<noteq> 0 then None
     else Option.bind (init_events p (fst x) (snd x) s) (init_dtcs p xs))"

definition InitOperCycleContext :: "nat \<Rightarrow> diag \<Rightarrow> diag" where
  "InitOperCycleContext n s = s\<lparr>cycles := cycles s @ map (\<lambda>i. \<lparr>oc_id = of_nat i,
     oc_state = CYCLE_STOP, oc_sessions = [], oc_ref = None\<rparr>) [0..<n]\<rparr>"

definition EventConfiguration ::
  "OccCtr \<Rightarrow> (u32 \<times> EventEntry list) list \<Rightarrow> nat \<Rightarrow> diag \<Rightarrow> diag option" where
  "EventConfiguration p entries n s =
     map_option (InitOperCycleContext n) (init_dtcs p entries s)"

end
