(* ===== verification/Diag_Dtc.thy ===== *)
theory Diag_Dtc
  imports Diag_EventOps
begin

unbundle bit_operations_syntax

text \<open>
  The DTC service (\<open>tafDTCSvrImpl.cpp\<close>) as far as it works on the state of DTCs: the references of
  its clients, status, activation, suppression and clearing of one DTC and of all. The lists of
  stored data that a client walks are in \<open>Diag_DtcData\<close>.
\<close>

section \<open>References\<close>

definition GetDtcCtx :: "nat option \<Rightarrow> diag \<Rightarrow> SvcDtcCtx option" where
  "GetDtcCtx ref s = (case ref of None \<Rightarrow> None
     | Some r \<Rightarrow> Option.bind (map_of (dtcRefs s) r) (\<lambda>code. GetSvcDtcCtx code s))"

definition upd_svc :: "u32 \<Rightarrow> (SvcDtcCtx \<Rightarrow> SvcDtcCtx) \<Rightarrow> diag \<Rightarrow> diag" where
  "upd_svc code f s = s\<lparr>svcs := map (\<lambda>d. if sv_code d = code then f d else d) (svcs s)\<rparr>"

definition DTC_GetService :: "u32 \<Rightarrow> nat \<Rightarrow> diag \<Rightarrow> nat option \<times> diag" where
  "DTC_GetService code c s = (case GetSvcDtcCtx code s of None \<Rightarrow> (None, s)
   | Some v \<Rightarrow>
      (let r = (case sv_svcRef v of Some r \<Rightarrow> r | None \<Rightarrow> nextRef s);
           s1 = (case sv_svcRef v of Some _ \<Rightarrow> s
           | None \<Rightarrow> upd_svc code (\<lambda>v. v\<lparr>sv_svcRef := Some (nextRef s), sv_sessions := []\<rparr>)
               (s\<lparr>dtcRefs := dtcRefs s @ [(nextRef s, code)], nextRef := nextRef s + 1\<rparr>)) in
       (Some r, upd_svc code (\<lambda>v. v\<lparr>sv_sessions := add_session c (sv_sessions v)\<rparr>) s1)))"

definition drop_dtc_ref :: "(nat \<Rightarrow> bool) \<Rightarrow> nat \<Rightarrow> nat \<times> u32 \<Rightarrow> diag \<Rightarrow> diag" where
  "drop_dtc_ref mine c p s = (case GetSvcDtcCtx (snd p) s of None \<Rightarrow> s
   | Some v \<Rightarrow>
      (let sess = (if sv_svcRef v \<noteq> None \<and> mine (the (sv_svcRef v)) then remove1 c (sv_sessions v)
                   else sv_sessions v);
           s1 = upd_svc (snd p) (\<lambda>v. v\<lparr>sv_sessions := sess\<rparr>) s in
       if sess = []
       then upd_svc (snd p) (\<lambda>v. v\<lparr>sv_svcRef := None\<rparr>)
              (s1\<lparr>dtcRefs := filter (\<lambda>q. fst q \<noteq> fst p) (dtcRefs s1)\<rparr>)
       else s1))"

definition DTC_RemoveSvc :: "nat option \<Rightarrow> nat \<Rightarrow> diag \<Rightarrow> le_res \<times> diag" where
  "DTC_RemoveSvc ref c s = (case ref of None \<Rightarrow> (le_BAD_PARAMETER, s)
     | Some r \<Rightarrow> (le_OK, fold (drop_dtc_ref (\<lambda>x. x = r) c) (dtcRefs s) s))"

definition GetAllService :: "nat \<Rightarrow> diag \<Rightarrow> diag" where
  "GetAllService c s = s\<lparr>allSessions := add_session c (allSessions s)\<rparr>"

definition RemoveAllSvc :: "nat \<Rightarrow> diag \<Rightarrow> le_res \<times> diag" where
  "RemoveAllSvc c s = (le_OK, s\<lparr>allSessions := remove1 c (allSessions s)\<rparr>)"

definition DTC_OnClientDisconnection :: "nat \<Rightarrow> diag \<Rightarrow> diag" where
  "DTC_OnClientDisconnection c s =
     (let s1 = fold (drop_dtc_ref (\<lambda>_. True) c) (dtcRefs s) s in
      s1\<lparr>allSessions := remove1 c (allSessions s1)\<rparr>)"

section \<open>Operations on one DTC\<close>

definition GetCode :: "nat option \<Rightarrow> diag \<Rightarrow> le_res + u32" where
  "GetCode ref s = (if ref = None then Inl le_BAD_PARAMETER
     else case GetDtcCtx ref s of None \<Rightarrow> Inl le_UNSUPPORTED | Some v \<Rightarrow> Inr (sv_code v))"

definition DTC_GetFaultDetectionCounter :: "diag_cfg \<Rightarrow> nat option \<Rightarrow> diag \<Rightarrow> le_res + byte" where
  "DTC_GetFaultDetectionCounter cf ref s =
     mbind (GetCode ref s) (\<lambda>code. GetFaultDetectionCounter cf code s)"

definition ReadStatus :: "nat option \<Rightarrow> diag \<Rightarrow> (le_res + byte) \<times> diag" where
  "ReadStatus ref s =
     (if ref = None then (Inl le_BAD_PARAMETER, s)
      else case GetDtcCtx ref s of None \<Rightarrow> (Inl le_UNSUPPORTED, s)
      | Some v \<Rightarrow> (if sv_suppression v then (Inl le_UNAVAILABLE, s)
          else let (st, s1) = on_store (GetDTCStatus (sv_code v)) s in (Inr st, s1)))"

text \<open>The activation status is read from the store, not from the context of the event service.\<close>

definition GetActivationStatus :: "nat option \<Rightarrow> diag \<Rightarrow> (le_res + bool) \<times> diag" where
  "GetActivationStatus ref s =
     (if ref = None then (Inl le_BAD_PARAMETER, s)
      else case GetDtcCtx ref s of None \<Rightarrow> (Inl le_UNSUPPORTED, s)
      | Some v \<Rightarrow> (let (act, s1) = on_store (GetActivation (sv_code v)) s in (Inr (act = 1), s1)))"

definition SetActivationStatus :: "nat option \<Rightarrow> bool \<Rightarrow> diag \<Rightarrow> le_res \<times> diag" where
  "SetActivationStatus ref active s =
     (if ref = None then (le_BAD_PARAMETER, s)
      else case GetDtcCtx ref s of None \<Rightarrow> (le_UNSUPPORTED, s)
      | Some v \<Rightarrow> (case GetActivationStatus ref s of
          (Inl _, s1) \<Rightarrow> (le_FAULT, s1)
        | (Inr cur, s1) \<Rightarrow>
            (if cur = active then (le_OK, s1)
             else let (result, s2) = (if active then EnableDTCSetting (sv_code v) s1
                                      else DisableDTCSetting (sv_code v) s1) in
             (result, if result = le_OK then out [ActStatusInd (sv_svcRef v) active] s2 else s2))))"

definition SetSuppression :: "nat option \<Rightarrow> bool \<Rightarrow> diag \<Rightarrow> le_res \<times> diag" where
  "SetSuppression ref b s =
     (if ref = None then (le_BAD_PARAMETER, s)
      else case GetDtcCtx ref s of None \<Rightarrow> (le_UNSUPPORTED, s)
      | Some v \<Rightarrow>
         (let (result, s1) = SetDTCSuppression (sv_code v) b s in
          if result \<noteq> le_OK then (result, s1)
          else (le_OK, upd_svc (sv_code v) (\<lambda>v. v\<lparr>sv_suppression := b\<rparr>) s1)))"

definition DTC_GetSuppression :: "nat option \<Rightarrow> diag \<Rightarrow> le_res + bool" where
  "DTC_GetSuppression ref s = (if ref = None then Inl le_BAD_PARAMETER
     else case GetDtcCtx ref s of None \<Rightarrow> Inl le_UNSUPPORTED | Some v \<Rightarrow> Inr (sv_suppression v))"

definition ClearInfo :: "diag_cfg \<Rightarrow> nat option \<Rightarrow> ReqClient \<Rightarrow> diag \<Rightarrow> le_res \<times> diag" where
  "ClearInfo cf ref client s =
     (if ref = None then (le_BAD_PARAMETER, s)
      else case GetDtcCtx ref s of None \<Rightarrow> (le_UNSUPPORTED, s)
      | Some v \<Rightarrow> (if sv_suppression v then (le_UNAVAILABLE, s)
          else ClearDtc cf (sv_code v) client s))"

section \<open>Operations on all DTCs\<close>

definition ClearAllInfo :: "diag_cfg \<Rightarrow> ReqClient \<Rightarrow> diag \<Rightarrow> le_res \<times> diag" where
  "ClearAllInfo cf client = ClearDtc cf ALL_DTC_GROUP client"

definition SetAllSuppression :: "bool \<Rightarrow> diag \<Rightarrow> le_res \<times> diag" where
  "SetAllSuppression b s =
     (let (result, s1) = SetAllDTCSuppression b s in
      if result \<noteq> le_OK then (result, s1)
      else (le_OK, s1\<lparr>svcs := map (\<lambda>v. v\<lparr>sv_suppression := b\<rparr>) (svcs s1)\<rparr>))"

section \<open>Set-up\<close>

definition InitDtcCtx :: "u32 \<Rightarrow> diag \<Rightarrow> diag" where
  "InitDtcCtx code s = (let (supp, s1) = on_store (GetSuppression code) s in
     s1\<lparr>svcs := svcs s1 @ [\<lparr>sv_code = code, sv_suppression = (supp \<noteq> 0), sv_sessions = [],
        sv_svcRef = None\<rparr>]\<rparr>)"

primrec DtcConfiguration :: "u32 list \<Rightarrow> diag \<Rightarrow> diag option" where
  "DtcConfiguration [] s = Some s"
| "DtcConfiguration (code # codes) s = (if code AND 0xFF000000 \<noteq> 0 then None
     else DtcConfiguration codes (InitDtcCtx code s))"

end
