(* ===== verification/Diag_Inv.thy ===== *)
theory Diag_Inv
  imports Diag_Dtc
begin

unbundle bit_operations_syntax

text \<open>
  The well-formedness invariant of the event contexts: the UDS status byte is consistent, the
  debounce counter stays between its thresholds, a running debounce timer has a type, and the
  failure counter is below the confirmation threshold. The operations of a client, the timers and
  the clock are the inputs of \<open>diag_do\<close>; every one of them keeps the invariant.
\<close>

section \<open>Status bits\<close>

named_theorems status_simps \<open>the bits of a status byte\<close>

lemma bit_byte_less: "bit (st :: byte) n \<Longrightarrow> n < 8"
  using bit_imp_le_length by fastforce

lemma bit_lit: "bit (1 :: byte) n \<longleftrightarrow> n = 0" "bit (2 :: byte) n \<longleftrightarrow> n = 1"
  "bit (4 :: byte) n \<longleftrightarrow> n = 2" "bit (8 :: byte) n \<longleftrightarrow> n = 3" "bit (16 :: byte) n \<longleftrightarrow> n = 4"
  "bit (32 :: byte) n \<longleftrightarrow> n = 5" "bit (64 :: byte) n \<longleftrightarrow> n = 6"
proof -
  have "n < 8 \<Longrightarrow> n \<in> {0, 1, 2, 3, 4, 5, 6, 7}" by auto
  then show "bit (1 :: byte) n \<longleftrightarrow> n = 0" "bit (2 :: byte) n \<longleftrightarrow> n = 1"
    "bit (4 :: byte) n \<longleftrightarrow> n = 2" "bit (8 :: byte) n \<longleftrightarrow> n = 3" "bit (16 :: byte) n \<longleftrightarrow> n = 4"
    "bit (32 :: byte) n \<longleftrightarrow> n = 5" "bit (64 :: byte) n \<longleftrightarrow> n = 6"
    by (cases "n < 8"; auto dest: bit_byte_less)+
qed

lemma bit_uds [status_simps]: "bit UDS_TF n \<longleftrightarrow> n = 0" "bit UDS_TFTOC n \<longleftrightarrow> n = 1"
  "bit UDS_PDTC n \<longleftrightarrow> n = 2" "bit UDS_CDTC n \<longleftrightarrow> n = 3" "bit UDS_TNCSLC n \<longleftrightarrow> n = 4"
  "bit UDS_TFSLC n \<longleftrightarrow> n = 5" "bit UDS_TNCTOC n \<longleftrightarrow> n = 6"
  by (simp_all only: uds_bits bit_lit numeral_One)

lemma and_single:
  assumes b: "\<And>n. bit (b :: byte) n \<longleftrightarrow> n = k"
  shows "st AND b = 0 \<longleftrightarrow> \<not> bit st k"
proof
  assume "st AND b = 0"
  then have "\<not> bit (st AND b) k" by simp
  then show "\<not> bit st k" by (simp add: bit_and_iff b)
next
  assume "\<not> bit st k"
  then show "st AND b = 0" by (intro bit_word_eqI) (auto simp: bit_and_iff b)
qed

lemma and_uds [status_simps]:
  "st AND UDS_TF = 0 \<longleftrightarrow> \<not> bit st 0" "st AND UDS_TFTOC = 0 \<longleftrightarrow> \<not> bit st 1"
  "st AND UDS_PDTC = 0 \<longleftrightarrow> \<not> bit st 2" "st AND UDS_CDTC = 0 \<longleftrightarrow> \<not> bit st 3"
  "st AND UDS_TNCSLC = 0 \<longleftrightarrow> \<not> bit st 4" "st AND UDS_TFSLC = 0 \<longleftrightarrow> \<not> bit st 5"
  "st AND UDS_TNCTOC = 0 \<longleftrightarrow> \<not> bit st 6"
  by (rule and_single, simp add: bit_uds)+

lemma bit_not_byte [status_simps]: "bit (NOT (st :: byte)) n \<longleftrightarrow> n < 8 \<and> \<not> bit st n"
  by (simp add: bit_not_iff)

lemmas status_ops = failed_status_def passed_status_def cycle_start_status_def cleared_status_def
  mask_completed_def bit_and_iff bit_or_iff status_simps

definition status_ok :: "byte \<Rightarrow> bool" where
  "status_ok st \<longleftrightarrow> (bit st 0 \<longrightarrow> bit st 5) \<and> (bit st 1 \<longrightarrow> bit st 5 \<and> bit st 2 \<and> \<not> bit st 6) \<and>
     (bit st 2 \<longrightarrow> bit st 5) \<and> (bit st 3 \<longrightarrow> bit st 5) \<and> (bit st 5 \<longrightarrow> \<not> bit st 4) \<and> \<not> bit st 7"

lemma status_ok_ops:
  "status_ok st \<Longrightarrow> status_ok (failed_status st)"
  "status_ok st \<Longrightarrow> status_ok (failed_status st OR UDS_CDTC)"
  "status_ok st \<Longrightarrow> status_ok (passed_status st)"
  "status_ok st \<Longrightarrow> status_ok (cycle_start_status st)"
  "status_ok cleared_status"
  "status_ok 0"
  by (auto simp: status_ok_def status_ops)

lemma status_ok_unpend: "status_ok st \<Longrightarrow> passed_cycle st \<Longrightarrow> status_ok (st AND NOT UDS_PDTC)"
  by (auto simp: status_ok_def status_ops passed_cycle_def)

section \<open>Well-formed events\<close>

definition counter_ok :: "EventCtx \<Rightarrow> bool" where
  "counter_ok e \<longleftrightarrow> (case ec_debounceType e of
     DEBOUNCE_COUNTER_BASED \<Rightarrow> \<not> ec_timerRuns e \<and> counter_checks (ec_counter e) \<and>
       cc_passedThreshold (ec_counter e) \<le> ec_debounceCounter e \<and>
       ec_debounceCounter e \<le> cc_failedThreshold (ec_counter e)
   | DEBOUNCE_TIME_BASED \<Rightarrow>
       ec_debounceCounter e \<in> {MIN_FAULT_DETECTION_COUNTER, 0, MAX_FAULT_DETECTION_COUNTER} \<and>
       (ec_timerRuns e \<longrightarrow> ec_debounceCounter e = 0 \<and> ec_timerType e \<noteq> TIMER_UNKNOWN)
   | DEBOUNCE_MONITOR_INTERNAL \<Rightarrow> \<not> ec_timerRuns e)"

definition event_ok :: "EventCtx \<Rightarrow> bool" where
  "event_ok e \<longleftrightarrow> status_ok (ec_uds e) \<and> counter_ok e \<and>
     (ec_failureCounter e = 0 \<or> ec_failureCounter e < ec_confirmationThreshold e)"

definition evs_ok :: "diag \<Rightarrow> bool" where
  "evs_ok s \<longleftrightarrow> (\<forall>e\<in>set (evs s). event_ok e)"

lemma int16_id: "- 32768 \<le> x \<Longrightarrow> x < 32768 \<Longrightarrow> int16 x = x"
  unfolding int16_def by (simp add: sint_sbintrunc' signed_take_bit_int_eq_self)

lemmas counter_bounds = counter_checks_def MIN_COUNTER_BASED_PARAM_VALUE_def
  MIDDLE_COUNTER_BASED_PARAM_VALUE_def MAX_COUNTER_BASED_PARAM_VALUE_def Let_def

lemma counter_range:
  assumes "counter_checks c" "cc_passedThreshold c \<le> n" "n \<le> cc_failedThreshold c"
  shows "cc_passedThreshold c \<le> prepassed_counter c n"
    "prepassed_counter c n \<le> cc_failedThreshold c"
    "n < cc_failedThreshold c \<Longrightarrow> cc_passedThreshold c \<le> prefailed_counter c n"
    "n < cc_failedThreshold c \<Longrightarrow> prefailed_counter c n \<le> cc_failedThreshold c"
  using assms
  by (auto simp: prepassed_counter_def prefailed_counter_def counter_bounds int16_id)

lemma counter_zero: "counter_checks c \<Longrightarrow> cc_passedThreshold c < 0 \<and> 0 < cc_failedThreshold c"
  by (simp add: counter_bounds)

lemma event_ok_ResetDebounce: "event_ok e \<Longrightarrow> event_ok (ResetDebounce e)"
  by (auto simp: event_ok_def counter_ok_def ResetDebounce_def Let_def dest: counter_zero
      split: DebounceType.splits)

lemma event_ok_fail: "event_ok e \<Longrightarrow> event_ok (fail_event e)"
  by (auto simp: event_ok_def counter_ok_def fail_event_def Let_def status_ok_ops not_le
      split: DebounceType.splits)

lemma event_ok_update:
  "event_ok e \<Longrightarrow> status_ok st \<Longrightarrow> event_ok (e\<lparr>ec_uds := st\<rparr>)"
  "event_ok e \<Longrightarrow> event_ok (e\<lparr>ec_fault := f\<rparr>)"
  "event_ok e \<Longrightarrow> event_ok (e\<lparr>ec_faultCode := code\<rparr>)"
  "event_ok e \<Longrightarrow> event_ok (e\<lparr>ec_fdcTrigger := b\<rparr>)"
  "event_ok e \<Longrightarrow> event_ok (e\<lparr>ec_enable := b\<rparr>)"
  "event_ok e \<Longrightarrow> event_ok (e\<lparr>ec_behavior := r\<rparr>)"
  "event_ok e \<Longrightarrow> event_ok (e\<lparr>ec_failureCounter := 0\<rparr>)"
  "event_ok e \<Longrightarrow> event_ok (e\<lparr>ec_fdcTimerRuns := b\<rparr>)"
  "event_ok e \<Longrightarrow> event_ok (e\<lparr>ec_timerRuns := False\<rparr>)"
  "event_ok e \<Longrightarrow> event_ok (e\<lparr>ec_sessions := cs\<rparr>)"
  "event_ok e \<Longrightarrow> event_ok (e\<lparr>ec_svcRef := ref\<rparr>)"
  by (auto simp: event_ok_def counter_ok_def split: DebounceType.splits)

lemma event_ok_status: "event_ok e \<Longrightarrow> status_ok (ec_uds e)"
  by (simp add: event_ok_def)

lemma event_ok_start: "event_ok e \<Longrightarrow> event_ok (cycle_start_event e)"
  unfolding cycle_start_event_def Let_def
  by (rule event_ok_update(1), intro event_ok_update event_ok_ResetDebounce, assumption)
    (simp add: ResetDebounce_def Let_def event_ok_def status_ok_ops [unfolded cycle_start_status_def])

lemma event_ok_time:
  "event_ok e \<Longrightarrow> ec_debounceType e = DEBOUNCE_TIME_BASED \<Longrightarrow> time_report status now e = Some e' \<Longrightarrow>
   event_ok e'"
  by (auto simp: event_ok_def counter_ok_def time_report_def start_debounce_timer_def Let_def
      MIN_FAULT_DETECTION_COUNTER_def MAX_FAULT_DETECTION_COUNTER_def
      split: StatusType.splits if_splits)

section \<open>Events of a state\<close>

lemma evs_simps [simp]:
  "evs (out xs s) = evs s" "evs (upd_dtc code g s) = evs s" "evs (upd_cycle cyc h s) = evs s"
  "evs (triggerSnapshot i t s) = evs s" "evs (ReportEventUdsStatus i s) = evs s"
  "evs (ReportEnableCondState i b s) = evs s" "evs (ReportDtcStatus code st s) = evs s"
  "evs (snd (on_store op s)) = evs s" "evs (upd_svc code k s) = evs s"
  "evs (upd_ev i f s) = (evs s)[i := f (evs s ! i)]"
  by (simp_all add: out_def upd_dtc_def upd_cycle_def triggerSnapshot_def ReportEventUdsStatus_def
      ReportEnableCondState_def ReportDtcStatus_def on_store_def upd_svc_def upd_ev_def
      split: option.split prod.split)

lemma evs_store [simp]:
  "evs (snd (StoreAndReportEventUdsStatus i s)) = evs s"
  "evs (snd (StoreAndReportDTCStatus d s)) = evs s"
  "evs (TriggerSnapshotData old i s) = evs s"
  "evs (set_counter i n s) = (evs s)[i := (evs s ! i)\<lparr>ec_debounceCounter := n\<rparr>]"
  by (simp_all add: StoreAndReportEventUdsStatus_def StoreAndReportDTCStatus_def
      TriggerSnapshotData_def set_counter_def Let_def case_prod_beta)

lemma evs_dtc [simp]:
  "evs (snd (UpdateDtcOnFailed dtc s)) = evs s"
  "evs (snd (UpdateDtcOnPassed dtc s)) = evs s"
  "evs (snd (set_dtc_status d st s)) = evs s"
  by (simp_all add: UpdateDtcOnFailed_def UpdateDtcOnPassed_def set_dtc_status_def Let_def
      case_prod_beta split: option.split)

lemma evs_failed [simp]:
  "evs (snd (UpdateEventOnFailed i s)) = (evs s)[i := fail_event (evs s ! i)]"
  "evs (snd (UpdateEventOnPassed i s)) =
     (evs s)[i := (evs s ! i)\<lparr>ec_uds := passed_status (ec_uds (evs s ! i))\<rparr>]"
  by (simp_all add: UpdateEventOnFailed_def UpdateEventOnPassed_def Let_def case_prod_beta)

lemma evs_ok_nth: "evs_ok s \<Longrightarrow> i < length (evs s) \<Longrightarrow> event_ok (evs s ! i)"
  by (simp add: evs_ok_def)

lemma evs_okI:
  "evs_ok s \<Longrightarrow> evs s' = (evs s)[i := e] \<Longrightarrow> (i < length (evs s) \<Longrightarrow> event_ok (evs s ! i) \<Longrightarrow> event_ok e) \<Longrightarrow>
   evs_ok s'"
  by (cases "i < length (evs s)")
    (auto simp: evs_ok_def list_update_beyond dest: set_update_subset_insert [THEN subsetD])

lemma evs_ok_same: "evs_ok s \<Longrightarrow> evs s' = evs s \<Longrightarrow> evs_ok s'"
  by (simp add: evs_ok_def)

section \<open>Reports and timers\<close>

lemma event_ok_counter:
  "event_ok e \<Longrightarrow> ec_debounceType e = DEBOUNCE_COUNTER_BASED \<Longrightarrow>
   cc_passedThreshold (ec_counter e) \<le> n \<Longrightarrow> n \<le> cc_failedThreshold (ec_counter e) \<Longrightarrow>
   event_ok (e\<lparr>ec_debounceCounter := n\<rparr>)"
  by (simp add: event_ok_def counter_ok_def)

lemma event_ok_counterD:
  "event_ok e \<Longrightarrow> ec_debounceType e = DEBOUNCE_COUNTER_BASED \<Longrightarrow>
   counter_checks (ec_counter e) \<and> cc_passedThreshold (ec_counter e) \<le> ec_debounceCounter e \<and>
   ec_debounceCounter e \<le> cc_failedThreshold (ec_counter e)"
  by (simp add: event_ok_def counter_ok_def)

lemma evs_ok_upd: "evs_ok s \<Longrightarrow> (\<And>e. event_ok e \<Longrightarrow> event_ok (f e)) \<Longrightarrow> evs_ok (upd_ev i f s)"
  by (rule evs_okI [of s _ i "f (evs s ! i)"]) auto

lemma evs_ok_put: "evs_ok s \<Longrightarrow> event_ok e \<Longrightarrow> evs_ok (upd_ev i (\<lambda>_. e) s)"
  by (rule evs_ok_upd)

lemma evs_ok_set_counter:
  assumes "evs_ok s" "ec_debounceType (evs s ! i) = DEBOUNCE_COUNTER_BASED"
    "cc_passedThreshold (ec_counter (evs s ! i)) \<le> n" "n \<le> cc_failedThreshold (ec_counter (evs s ! i))"
  shows "evs_ok (set_counter i n s)"
  by (rule evs_okI [OF assms(1) evs_store(4)]) (rule event_ok_counter [OF _ assms(2-4)])

lemma evs_ok_CounterBased:
  assumes ok: "evs_ok s" and t: "ec_debounceType (evs s ! i) = DEBOUNCE_COUNTER_BASED"
    and i: "i < length (evs s)"
  shows "evs_ok (snd (DebounceCounterBased i status s))"
proof -
  let ?e = "evs s ! i"
  note c = event_ok_counterD [OF evs_ok_nth [OF ok i] t]
  note z = counter_zero [OF conjunct1 [OF c]]
  note r = counter_range [OF conjunct1 [OF c] conjunct1 [OF conjunct2 [OF c]]
      conjunct2 [OF conjunct2 [OF c]]]
  have f: "evs_ok x \<Longrightarrow> evs_ok (upd_ev i (\<lambda>e. e\<lparr>ec_fault := g e\<rparr>) x)"
    "evs_ok x \<Longrightarrow> evs_ok (upd_ev i (\<lambda>e. e\<lparr>ec_fdcTrigger := b\<rparr>) x)"
    "evs_ok x \<Longrightarrow> evs_ok (triggerSnapshot i tr x)" for x g b tr
    by (auto intro: evs_ok_upd event_ok_update simp: evs_ok_same [of x])
  note sc = evs_ok_set_counter [OF ok t]
  have p: "evs_ok (set_counter i (cc_passedThreshold (ec_counter ?e)) s)"
    "evs_ok (set_counter i (cc_failedThreshold (ec_counter ?e)) s)"
    "evs_ok (set_counter i (prepassed_counter (ec_counter ?e) (ec_debounceCounter ?e)) s)"
    using z r(1,2) by (auto intro: sc)
  have q: "evs_ok (set_counter i (prefailed_counter (ec_counter ?e) (ec_debounceCounter ?e)) s)"
    if "ec_debounceCounter ?e < cc_failedThreshold (ec_counter ?e)"
    using r(3,4) [OF that] by (auto intro: sc)
  show ?thesis
    by (cases status) (simp_all add: DebounceCounterBased_def Let_def f p q ok split del: if_split
        del: evs_simps evs_store split: if_split)
qed

lemma evs_ok_DebounceEvent:
  assumes "evs_ok s" "i < length (evs s)"
  shows "evs_ok (snd (DebounceEvent i status s))"
proof (cases "ec_debounceType (evs s ! i)")
  case DEBOUNCE_MONITOR_INTERNAL
  then show ?thesis using assms by (auto simp: DebounceEvent_def intro: evs_ok_upd event_ok_update)
next
  case DEBOUNCE_COUNTER_BASED
  then show ?thesis using evs_ok_CounterBased [OF assms(1) _ assms(2)] by (simp add: DebounceEvent_def)
next
  case DEBOUNCE_TIME_BASED
  then show ?thesis using assms evs_ok_nth [OF assms]
    by (auto simp: DebounceEvent_def DebounceTimeBased_def split: option.split
        intro: evs_ok_put event_ok_update(2) event_ok_time)
qed

lemma evs_ok_failed:
  "evs_ok s \<Longrightarrow> evs_ok (snd (UpdateEventOnFailed i s))"
  "evs_ok s \<Longrightarrow> evs_ok (snd (UpdateEventOnPassed i s))"
proof -
  assume ok: "evs_ok s"
  show "evs_ok (snd (UpdateEventOnFailed i s))"
    by (rule evs_okI [OF ok evs_failed(1) event_ok_fail])
  show "evs_ok (snd (UpdateEventOnPassed i s))"
    by (rule evs_okI [OF ok evs_failed(2)]) (simp add: event_ok_update(1) status_ok_ops(3) event_ok_status)
qed

lemma evs_ok_apply_fault: "evs_ok s \<Longrightarrow> evs_ok (snd (apply_fault old i s))"
  by (auto simp: apply_fault_def evs_ok_failed split: StatusType.split)

lemma evs_ok_report:
  assumes "evs_ok s" "i < length (evs s)"
  shows "evs_ok (triggerSnapshot i t (upd_ev i (\<lambda>e. e\<lparr>ec_faultCode := code\<rparr>) s))"
  using assms by (auto intro: evs_ok_same [OF evs_ok_upd [OF assms(1) event_ok_update(3)]])

definition refs_in :: "diag \<Rightarrow> bool" where
  "refs_in s \<longleftrightarrow> (\<forall>(r, i)\<in>set (svcRefs s). i < length (evs s))"

lemma GetEventCtx_less: "refs_in s \<Longrightarrow> GetEventCtx ref s = Some i \<Longrightarrow> i < length (evs s)"
  by (auto simp: GetEventCtx_def refs_in_def dest!: map_of_SomeD split: option.splits)

text \<open>A report that is answered either changes nothing or is debounced and then applied.\<close>

lemma SetStatus_result:
  assumes "SetStatusWithSupplierFaultCode cf ref status code s = Inr (x, s')"
  shows "s' = s \<or> (\<exists>i s3. GetEventCtx ref s = Some i \<and>
     s3 = snd (DebounceEvent i status (triggerSnapshot i ON_EVERY_TEST_FAILED
       (upd_ev i (\<lambda>e. e\<lparr>ec_faultCode := code\<rparr>) s))) \<and>
     (s' = s3 \<or> s' = snd (apply_fault (ec_fault (evs s ! i)) i s3)))"
proof (cases "GetEventCtx ref s")
  case (Some i)
  then show ?thesis
    using assms
    by (auto simp: SetStatusWithSupplierFaultCode_def Let_def case_prod_beta split: if_splits)
qed (use assms in \<open>auto simp: SetStatusWithSupplierFaultCode_def split: if_splits\<close>)

lemma evs_ok_SetStatus:
  assumes ok: "evs_ok s" and r: "refs_in s"
    and res: "SetStatusWithSupplierFaultCode cf ref status code s = Inr (x, s')"
  shows "evs_ok s'"
proof -
  have "evs_ok (snd (DebounceEvent i status (triggerSnapshot i ON_EVERY_TEST_FAILED
      (upd_ev i (\<lambda>e. e\<lparr>ec_faultCode := code\<rparr>) s))))" if "GetEventCtx ref s = Some i" for i
    using GetEventCtx_less [OF r that] by (intro evs_ok_DebounceEvent evs_ok_report ok) simp_all
  then show ?thesis
    using SetStatus_result [OF res] ok by (auto intro: evs_ok_apply_fault)
qed

lemma event_ok_timer:
  "event_ok e \<Longrightarrow> ec_timerRuns e \<Longrightarrow>
   event_ok (e\<lparr>ec_timerRuns := False, ec_debounceCounter := MAX_FAULT_DETECTION_COUNTER, ec_fault := EV_FAILED\<rparr>)"
  "event_ok e \<Longrightarrow> ec_timerRuns e \<Longrightarrow>
   event_ok (e\<lparr>ec_timerRuns := False, ec_debounceCounter := MIN_FAULT_DETECTION_COUNTER, ec_fault := EV_PASSED\<rparr>)"
  by (auto simp: event_ok_def counter_ok_def split: DebounceType.splits)

lemma evs_ok_debounce_expires:
  assumes "evs_ok s" "i < length (evs s)" "ec_timerRuns (evs s ! i)"
  shows "evs_ok (debounce_expires i s)"
proof -
  have "event_ok (evs s ! i)" using evs_ok_nth assms by blast
  note t = event_ok_timer [OF this assms(3)] event_ok_update(9) [OF this]
  show ?thesis
    using t assms
    by (cases "ec_timerType (evs s ! i)")
      (auto simp: debounce_expires_def TimeBasedDebounceTimerHandler_def Let_def
        intro!: evs_ok_failed intro: evs_okI [OF assms(1)])
qed

lemma evs_ok_fdc_expires: "evs_ok s \<Longrightarrow> evs_ok (fdc_expires i s)"
  unfolding fdc_expires_def FdcTimerHandler_def
  by (rule evs_ok_same [of "upd_ev i (\<lambda>e. e\<lparr>ec_fdcTimerRuns := False\<rparr>) s"])
    (auto intro: evs_ok_upd event_ok_update)

end
