(* ===== verification/Diag_Keeps.thy ===== *)
theory Diag_Keeps
  imports Diag_Inv
begin

unbundle bit_operations_syntax

text \<open>
  The remaining operations keep the contexts well-formed, and only the operations on references
  touch the references clients hold. \<open>dkeeps\<close> says both of a state and its successor; it is a
  preorder, so an operation is treated by the calls it makes.
\<close>

section \<open>The preorder\<close>

definition refs_view :: "diag \<Rightarrow> (nat \<times> nat) list \<times> nat \<times> (nat option \<times> nat list) list" where
  "refs_view s = (svcRefs s, nextRef s, map (\<lambda>e. (ec_svcRef e, ec_sessions e)) (evs s))"

definition dkeeps :: "diag \<Rightarrow> diag \<Rightarrow> bool" where
  "dkeeps s s' \<longleftrightarrow> (evs_ok s \<longrightarrow> evs_ok s') \<and> refs_view s' = refs_view s"

named_theorems dkeeps_intros \<open>operations that keep the contexts well-formed\<close>

lemma dkeeps_refl [dkeeps_intros]: "dkeeps s s"
  by (simp add: dkeeps_def)

lemma dkeeps_trans: "dkeeps a b \<Longrightarrow> dkeeps b c \<Longrightarrow> dkeeps a c"
  by (simp add: dkeeps_def)

text \<open>A fact \<open>dkeeps s (op s)\<close> is declared in this form, so that a chain of calls is peeled off.\<close>

lemma dkeeps_via: "dkeeps b c \<Longrightarrow> dkeeps a b \<Longrightarrow> dkeeps a c"
  by (rule dkeeps_trans)

lemma keepsD: "dkeeps s s' \<Longrightarrow> evs_ok s \<Longrightarrow> evs_ok s'"
  "dkeeps s s' \<Longrightarrow> length (evs s') = length (evs s)"
  by (auto simp: dkeeps_def refs_view_def dest: map_eq_imp_length_eq)

text \<open>The fields outside the events are not looked at; an operation on them is \<open>dkeeps_field\<close>.\<close>

lemma dkeeps_field:
  "evs s' = evs s \<Longrightarrow> svcRefs s' = svcRefs s \<Longrightarrow> nextRef s' = nextRef s \<Longrightarrow> dkeeps s s'"
  by (simp add: dkeeps_def refs_view_def evs_ok_def)

lemma map_list_update_same: "g y = g (xs ! i) \<Longrightarrow> map g (xs[i := y]) = map g xs"
  by (cases "i < length xs") (auto simp: map_update list_update_beyond intro: list_update_same_conv [THEN iffD2])

lemma dkeeps_upd_ev:
  assumes "event_ok (evs s ! i) \<Longrightarrow> event_ok (f (evs s ! i))"
    "ec_svcRef (f (evs s ! i)) = ec_svcRef (evs s ! i)"
    "ec_sessions (f (evs s ! i)) = ec_sessions (evs s ! i)"
  shows "dkeeps s (upd_ev i f s)"
  unfolding dkeeps_def
proof
  show "evs_ok s \<longrightarrow> evs_ok (upd_ev i f s)"
    using assms(1) by (auto intro: evs_okI [of s _ i "f (evs s ! i)"])
  show "refs_view (upd_ev i f s) = refs_view s"
    using assms(2,3) by (auto simp: refs_view_def upd_ev_def intro!: map_list_update_same)
qed

lemma dkeeps_upd_ok:
  "(\<And>e. event_ok e \<Longrightarrow> event_ok (f e)) \<Longrightarrow> (\<And>e. ec_svcRef (f e) = ec_svcRef e) \<Longrightarrow>
   (\<And>e. ec_sessions (f e) = ec_sessions e) \<Longrightarrow> dkeeps s (upd_ev i f s)"
  by (rule dkeeps_upd_ev)

lemma dkeeps_simple [THEN dkeeps_via, dkeeps_intros]:
  "dkeeps s (out xs s)" "dkeeps s (upd_dtc code g s)" "dkeeps s (upd_cycle cyc h s)"
  "dkeeps s (triggerSnapshot i t s)" "dkeeps s (ReportEventUdsStatus i s)"
  "dkeeps s (ReportEnableCondState i b s)" "dkeeps s (ReportDtcStatus code st s)"
  "dkeeps s (snd (on_store op s))" "dkeeps s (upd_svc code k s)"
  by (rule dkeeps_field;
      simp add: out_def upd_dtc_def upd_cycle_def triggerSnapshot_def ReportEventUdsStatus_def
        ReportEnableCondState_def ReportDtcStatus_def on_store_def upd_svc_def
        split: option.split prod.split)+

lemma dkeeps_store [THEN dkeeps_via, dkeeps_intros]:
  "dkeeps s (snd (StoreAndReportEventUdsStatus i s))" "dkeeps s (snd (StoreAndReportDTCStatus d s))"
  "dkeeps s (TriggerSnapshotData old i s)"
  unfolding StoreAndReportEventUdsStatus_def StoreAndReportDTCStatus_def TriggerSnapshotData_def Let_def
  by (auto simp: case_prod_beta intro!: dkeeps_intros)

lemma dkeeps_dtc [THEN dkeeps_via, dkeeps_intros]:
  "dkeeps s (snd (UpdateDtcOnFailed dtc s))" "dkeeps s (snd (UpdateDtcOnPassed dtc s))"
  "dkeeps s (snd (set_dtc_status d st s))"
  unfolding UpdateDtcOnFailed_def UpdateDtcOnPassed_def set_dtc_status_def Let_def
  by (auto simp: case_prod_beta split: option.split intro!: dkeeps_intros)

lemma dkeeps_failed [THEN dkeeps_via, dkeeps_intros]:
  "dkeeps s (snd (UpdateEventOnFailed i s))" "dkeeps s (snd (UpdateEventOnPassed i s))"
proof -
  have "dkeeps s (upd_ev i fail_event s)"
    by (rule dkeeps_upd_ok, erule event_ok_fail) (simp_all add: fail_event_def Let_def)
  then show "dkeeps s (snd (UpdateEventOnFailed i s))"
    by (auto simp: UpdateEventOnFailed_def Let_def case_prod_beta intro!: dkeeps_intros)
  have "dkeeps s (upd_ev i (\<lambda>e. e\<lparr>ec_uds := passed_status (ec_uds e)\<rparr>) s)"
    by (rule dkeeps_upd_ok) (auto intro: event_ok_update status_ok_ops event_ok_status)
  then show "dkeeps s (snd (UpdateEventOnPassed i s))"
    by (auto simp: UpdateEventOnPassed_def Let_def case_prod_beta intro!: dkeeps_intros)
qed

section \<open>Cycles\<close>

lemma dkeeps_start_one: "dkeeps s (snd (start_one i s))"
proof -
  have "dkeeps s (upd_ev i cycle_start_event s)"
    by (rule dkeeps_upd_ok, erule event_ok_start) (simp_all add: cycle_start_event_def ResetDebounce_def Let_def)
  then show ?thesis
    by (auto simp: start_one_def Let_def case_prod_beta split: option.split intro!: dkeeps_intros)
qed

lemma dkeeps_stop_one: "dkeeps s (snd (stop_one i s))"
proof -
  have "dkeeps s (upd_ev i (\<lambda>e. e\<lparr>ec_uds := ec_uds e AND NOT UDS_PDTC\<rparr>) s)"
    if "passed_cycle (ec_uds (evs s ! i))"
    using that by (intro dkeeps_upd_ev) (auto intro: event_ok_update status_ok_unpend event_ok_status)
  then show ?thesis
    by (auto simp: stop_one_def Let_def case_prod_beta split: option.split intro!: dkeeps_intros)
qed

lemma dkeeps_visit:
  assumes "\<And>i s. dkeeps s (snd (f i s))"
  shows "dkeeps s (snd (visit f cyc is s))"
  by (induction "is" arbitrary: s)
    (auto simp: Let_def case_prod_beta intro: dkeeps_refl dkeeps_trans [OF assms] assms)

lemma dkeeps_cycle [THEN dkeeps_via, dkeeps_intros]:
  "dkeeps s (snd (StartOperationCycle cyc s))" "dkeeps s (snd (StopOperationCycle cyc s))"
  by (auto simp: StartOperationCycle_def StopOperationCycle_def
      intro: dkeeps_visit dkeeps_start_one dkeeps_stop_one)

lemma dkeeps_report_cycle [THEN dkeeps_via, dkeeps_intros]: "dkeeps s (ReportOperCycleState c st s)"
  unfolding ReportOperCycleState_def by (intro dkeeps_intros)

lemma dkeeps_SetOperCycleState: "dkeeps s (snd (SetOperCycleState ref st s))"
  by (auto simp: SetOperCycleState_def Let_def case_prod_beta
      split: option.split CycleState.split intro!: dkeeps_intros)

section \<open>Enable conditions\<close>

lemma dkeeps_ResetDebounceCounter [THEN dkeeps_via, dkeeps_intros]: "dkeeps s (ResetDebounceCounter i s)"
  unfolding ResetDebounceCounter_def
  by (rule dkeeps_upd_ok, erule event_ok_ResetDebounce) (simp_all add: ResetDebounce_def Let_def)

lemma dkeeps_flag [THEN dkeeps_via, dkeeps_intros]:
  "dkeeps s (upd_ev i (\<lambda>e. e\<lparr>ec_enable := b\<rparr>) s)"
  "dkeeps s (upd_ev i (\<lambda>e. e\<lparr>ec_behavior := r\<rparr>) s)"
  "dkeeps s (upd_ev i (\<lambda>e. e\<lparr>ec_uds := cleared_status\<rparr>) s)"
  "dkeeps s (upd_ev i (\<lambda>e. e\<lparr>ec_failureCounter := 0, ec_fault := f\<rparr>) s)"
  "dkeeps s (upd_ev i (\<lambda>e. e\<lparr>ec_faultCode := code\<rparr>) s)"
  "dkeeps s (upd_ev i (\<lambda>e. e\<lparr>ec_fault := g e\<rparr>) s)"
  "dkeeps s (upd_ev i (\<lambda>e. e\<lparr>ec_fdcTrigger := b\<rparr>) s)"
  by (rule dkeeps_upd_ok; simp add: event_ok_update status_ok_ops)+

lemma dkeeps_fold: "(\<And>x s. dkeeps s (f x s)) \<Longrightarrow> dkeeps s (fold f xs s)"
  by (induction xs arbitrary: s) (auto intro: dkeeps_refl dkeeps_trans)

lemma dkeeps_enable_one: "dkeeps s (enable_one cf c i s)"
  by (auto simp: enable_one_def Let_def split: option.split intro!: dkeeps_intros)

lemma dkeeps_SetEnableCondition: "dkeeps s (snd (SetEnableCondition cf c v s))"
  unfolding SetEnableCondition_def SetEventEnableStatus_def snd_conv
  by (rule dkeeps_trans [OF dkeeps_field dkeeps_fold [OF dkeeps_enable_one]]) simp_all

lemma dkeeps_ResetDebounceStatus: "dkeeps s (snd (ResetDebounceStatus ref st s))"
  by (auto simp: ResetDebounceStatus_def Let_def split: option.split intro!: dkeeps_intros)

section \<open>Clearing, activation and suppression\<close>

lemma dkeeps_clear_event: "dkeeps s (clear_event i s)"
  by (auto simp: clear_event_def Let_def case_prod_beta intro!: dkeeps_intros)

lemma dkeeps_clear_event_id: "dkeeps s (clear_event_id eid s)"
  by (auto simp: clear_event_id_def dkeeps_clear_event dkeeps_refl split: option.split)

lemma dkeeps_clear_data [THEN dkeeps_via, dkeeps_intros]: "dkeeps s (ClearDTCAndEventData code s)"
  by (auto simp: ClearDTCAndEventData_def Let_def case_prod_beta split: option.split
      intro!: dkeeps_intros dkeeps_fold [THEN dkeeps_via] dkeeps_clear_event_id)

lemma dkeeps_clear_all_data [THEN dkeeps_via, dkeeps_intros]:
  "dkeeps s (ClearAllDTCAndEventData client s)"
  unfolding ClearAllDTCAndEventData_def ReportClearAllDtcStatus_def
  by (intro dkeeps_intros dkeeps_fold)

lemma dkeeps_report_clear [THEN dkeeps_via, dkeeps_intros]: "dkeeps s (ReportClearDtcStatus code s)"
  by (auto simp: ReportClearDtcStatus_def split: option.split intro!: dkeeps_intros)

lemma dkeeps_ClearDtc [THEN dkeeps_via, dkeeps_intros]: "dkeeps s (snd (ClearDtc cf code client s))"
  by (auto simp: ClearDtc_def ClearAllDtc_def ClearSingleDtc_def Let_def case_prod_beta
      split: option.split intro!: dkeeps_intros)

lemma dkeeps_setting [THEN dkeeps_via, dkeeps_intros]:
  "dkeeps s (snd (DisableDTCSetting code s))" "dkeeps s (snd (EnableDTCSetting code s))"
  "dkeeps s (snd (SetDTCSuppression code v s))"
  by (auto simp: DisableDTCSetting_def EnableDTCSetting_def SetDTCSuppression_def Let_def
      case_prod_beta split: option.split intro!: dkeeps_intros)

lemma dkeeps_dtcs [THEN dkeeps_via, dkeeps_intros]:
  "dkeeps s (s\<lparr>dtcs := ds\<rparr>)" "dkeeps s (s\<lparr>svcs := vs\<rparr>)"
  by (rule dkeeps_field; simp)+

lemma dkeeps_GetActivationStatus [THEN dkeeps_via, dkeeps_intros]:
  "dkeeps s (snd (GetActivationStatus ref s))"
  by (auto simp: GetActivationStatus_def Let_def case_prod_beta split: option.split
      intro!: dkeeps_intros)

lemma dkeeps_dtc_service:
  "dkeeps s (snd (SetActivationStatus ref b s))" "dkeeps s (snd (SetSuppression ref b s))"
  "dkeeps s (snd (ClearInfo cf ref client s))" "dkeeps s (snd (SetAllSuppression b s))"
  "dkeeps s (snd (ReadStatus ref s))"
  using dkeeps_GetActivationStatus [of s s ref, OF dkeeps_refl]
  by (auto simp: SetActivationStatus_def SetSuppression_def ClearInfo_def SetAllSuppression_def
      SetAllDTCSuppression_def ReadStatus_def Let_def case_prod_beta
      split: option.split sum.split prod.split intro!: dkeeps_intros)

end
