(* ===== verification/Diag_Refs.thy ===== *)
theory Diag_Refs
  imports Diag_Keeps
begin

unbundle bit_operations_syntax

text \<open>
  The references clients hold to events. \<open>refs_ok\<close>: a reference stands for one event and that event
  knows it; an event has a reference as long as a client has a session with it; references that
  will be given are new. The inputs of the services are the steps of \<open>diag_do\<close>, and
  \<open>diag_reachable\<close> are the states they lead to from the set-up.
\<close>

section \<open>Reports keep the references\<close>

lemma refs_view_upd_ev:
  "ec_svcRef (f (evs s ! i)) = ec_svcRef (evs s ! i) \<Longrightarrow>
   ec_sessions (f (evs s ! i)) = ec_sessions (evs s ! i) \<Longrightarrow> refs_view (upd_ev i f s) = refs_view s"
  by (auto simp: refs_view_def upd_ev_def intro!: map_list_update_same)

lemma refs_view_triggerSnapshot: "refs_view (triggerSnapshot i t s) = refs_view s"
  by (simp add: refs_view_def triggerSnapshot_def out_def)

lemma refs_view_time:
  "time_report status now e = Some e' \<Longrightarrow> ec_svcRef e' = ec_svcRef e \<and> ec_sessions e' = ec_sessions e"
  by (auto simp: time_report_def start_debounce_timer_def Let_def split: StatusType.splits if_splits)

lemma refs_view_Debounce: "refs_view (snd (DebounceEvent i status s)) = refs_view s"
proof -
  have "refs_view (snd (DebounceCounterBased i status s)) = refs_view s"
    by (cases status)
      (simp_all add: DebounceCounterBased_def Let_def set_counter_def refs_view_upd_ev
        refs_view_triggerSnapshot)
  moreover have "refs_view (snd (DebounceTimeBased i status s)) = refs_view s"
    by (auto simp: DebounceTimeBased_def split: option.split intro!: refs_view_upd_ev
        dest: refs_view_time)
  ultimately show ?thesis
    by (cases "ec_debounceType (evs s ! i)") (simp_all add: DebounceEvent_def refs_view_upd_ev)
qed

lemma dkeeps_SetStatus:
  assumes "refs_in s" "SetStatusWithSupplierFaultCode cf ref status code s = Inr (x, s')"
  shows "dkeeps s s'"
  unfolding dkeeps_def
proof
  show "evs_ok s \<longrightarrow> evs_ok s'" using evs_ok_SetStatus assms by blast
  have a: "dkeeps t (snd (apply_fault old i t))" for old i t
    by (auto simp: apply_fault_def split: StatusType.split intro!: dkeeps_intros)
  have "refs_view (snd (apply_fault old i t)) = refs_view t" for old i t
    using a [of t old i] by (simp add: dkeeps_def)
  then show "refs_view s' = refs_view s"
    using SetStatus_result [OF assms(2)]
    by (auto simp: refs_view_Debounce refs_view_upd_ev refs_view_triggerSnapshot)
qed

lemma dkeeps_expires:
  assumes "i < length (evs s)" "ec_timerRuns (evs s ! i)"
  shows "dkeeps s (debounce_expires i s)"
  unfolding dkeeps_def
proof
  show "evs_ok s \<longrightarrow> evs_ok (debounce_expires i s)" using evs_ok_debounce_expires assms by blast
  have u: "refs_view (snd (UpdateEventOnFailed j t)) = refs_view t"
    "refs_view (snd (UpdateEventOnPassed j t)) = refs_view t" for j t
    using dkeeps_failed [of t t j, OF dkeeps_refl] by (simp_all add: dkeeps_def)
  show "refs_view (debounce_expires i s) = refs_view s"
    using assms(1)
    by (cases "ec_timerType (evs s ! i)")
      (auto simp: debounce_expires_def TimeBasedDebounceTimerHandler_def Let_def u refs_view_upd_ev)
qed

lemma dkeeps_fdc_expires: "dkeeps s (fdc_expires i s)"
  unfolding fdc_expires_def FdcTimerHandler_def
  by (intro dkeeps_intros dkeeps_upd_ok) (simp_all add: event_ok_update)

section \<open>References of clients\<close>

definition refs_ok :: "diag \<Rightarrow> bool" where
  "refs_ok s \<longleftrightarrow> distinct (map fst (svcRefs s)) \<and>
     (\<forall>(r, i)\<in>set (svcRefs s). r < nextRef s \<and> i < length (evs s) \<and> ec_svcRef (evs s ! i) = Some r) \<and>
     (\<forall>i<length (evs s). distinct (ec_sessions (evs s ! i)) \<and>
        (ec_svcRef (evs s ! i) = None \<longleftrightarrow> ec_sessions (evs s ! i) = []) \<and>
        (\<forall>r. ec_svcRef (evs s ! i) = Some r \<longrightarrow> (r, i) \<in> set (svcRefs s)))"

lemma refs_okI:
  assumes "distinct (map fst (svcRefs s))"
    and "\<And>r i. (r, i) \<in> set (svcRefs s) \<Longrightarrow>
      r < nextRef s \<and> i < length (evs s) \<and> ec_svcRef (evs s ! i) = Some r"
    and "\<And>i. i < length (evs s) \<Longrightarrow> distinct (ec_sessions (evs s ! i)) \<and>
      (ec_svcRef (evs s ! i) = None \<longleftrightarrow> ec_sessions (evs s ! i) = []) \<and>
      (\<forall>r. ec_svcRef (evs s ! i) = Some r \<longrightarrow> (r, i) \<in> set (svcRefs s))"
  shows "refs_ok s"
  unfolding refs_ok_def using assms by blast

lemma refs_ok_in: "refs_ok s \<Longrightarrow> refs_in s"
  by (auto simp: refs_ok_def refs_in_def)

lemma refs_ok_view:
  assumes "refs_ok s" "refs_view s' = refs_view s" shows "refs_ok s'"
proof -
  have e: "svcRefs s' = svcRefs s" "nextRef s' = nextRef s"
    "map (\<lambda>e. (ec_svcRef e, ec_sessions e)) (evs s') = map (\<lambda>e. (ec_svcRef e, ec_sessions e)) (evs s)"
    using assms(2) by (auto simp: refs_view_def)
  have l: "length (evs s') = length (evs s)" using e(3) map_eq_imp_length_eq by blast
  have "ec_svcRef (evs s' ! i) = ec_svcRef (evs s ! i) \<and> ec_sessions (evs s' ! i) = ec_sessions (evs s ! i)"
    if "i < length (evs s)" for i
    using arg_cong [OF e(3), of "\<lambda>xs. xs ! i"] that l by simp
  then show ?thesis
    using assms(1) by (simp add: refs_ok_def case_prod_beta e(1,2) l cong: conj_cong imp_cong)
qed

lemma refs_ok_keeps: "dkeeps s s' \<Longrightarrow> refs_ok s \<Longrightarrow> refs_ok s'"
  by (auto simp: dkeeps_def intro: refs_ok_view)

lemma refs_ok_later: "refs_ok s \<Longrightarrow> nextRef s \<le> n \<Longrightarrow> refs_ok (s\<lparr>nextRef := n\<rparr>)"
  by (auto simp: refs_ok_def)

lemma GetEventCtxById_less: "GetEventCtxById eid s = Some i \<Longrightarrow> i < length (evs s)"
  by (auto simp: GetEventCtxById_def dest: find_index_Some)

lemma refs_okD:
  assumes "refs_ok s" "(r, i) \<in> set (svcRefs s)"
  shows "i < length (evs s)" "ec_svcRef (evs s ! i) = Some r" "r < nextRef s"
    "distinct (ec_sessions (evs s ! i))" "ec_sessions (evs s ! i) \<noteq> []"
proof -
  show a: "i < length (evs s)" "ec_svcRef (evs s ! i) = Some r" "r < nextRef s"
    using assms by (auto simp: refs_ok_def)
  show "distinct (ec_sessions (evs s ! i))" using assms(1) a(1) unfolding refs_ok_def by blast
  have "ec_svcRef (evs s ! i) = None \<longleftrightarrow> ec_sessions (evs s ! i) = []"
    using assms(1) a(1) unfolding refs_ok_def by blast
  then show "ec_sessions (evs s ! i) \<noteq> []" using a(2) by simp
qed

lemma refs_ok_event:
  assumes "refs_ok s" "i < length (evs s)"
  shows "distinct (ec_sessions (evs s ! i))"
    "ec_svcRef (evs s ! i) = None \<longleftrightarrow> ec_sessions (evs s ! i) = []"
    "ec_svcRef (evs s ! i) = Some r \<Longrightarrow> (r, i) \<in> set (svcRefs s)"
  using assms unfolding refs_ok_def by blast+

lemma refs_ok_inj: "refs_ok s \<Longrightarrow> (r, i) \<in> set (svcRefs s) \<Longrightarrow> (r', i) \<in> set (svcRefs s) \<Longrightarrow> r = r'"
  using refs_okD(2) [of s r i] refs_okD(2) [of s r' i] by simp

lemma refs_ok_inj': "refs_ok s \<Longrightarrow> (r, i) \<in> set (svcRefs s) \<Longrightarrow> (r, j) \<in> set (svcRefs s) \<Longrightarrow> i = j"
  by (auto simp: refs_ok_def dest: eq_key_imp_eq_value)

text \<open>One step of the loops that remove sessions.\<close>

definition sessions_left :: "(nat \<Rightarrow> bool) \<Rightarrow> nat \<Rightarrow> nat \<Rightarrow> nat list \<Rightarrow> nat list" where
  "sessions_left mine c r cs = (if mine r then remove1 c cs else cs)"

lemma drop_svc_ref_eq:
  assumes "refs_ok s" "(r, i) \<in> set (svcRefs s)" and cs: "cs = sessions_left mine c r (ec_sessions (evs s ! i))"
  shows "evs (drop_svc_ref mine c (r, i) s) =
      (evs s)[i := (evs s ! i)\<lparr>ec_sessions := cs, ec_svcRef := if cs = [] then None else Some r\<rparr>]"
    "svcRefs (drop_svc_ref mine c (r, i) s) =
      (if cs = [] then filter (\<lambda>q. fst q \<noteq> r) (svcRefs s) else svcRefs s)"
    "nextRef (drop_svc_ref mine c (r, i) s) = nextRef s"
proof -
  have e: "e\<lparr>ec_sessions := cs, ec_svcRef := Some r\<rparr> = e\<lparr>ec_sessions := cs\<rparr>"
    "e\<lparr>ec_svcRef := Some r\<rparr> = e" if "ec_svcRef e = Some r" for e :: EventCtx and cs
    using that by (cases e; simp)+
  show "evs (drop_svc_ref mine c (r, i) s) =
      (evs s)[i := (evs s ! i)\<lparr>ec_sessions := cs, ec_svcRef := if cs = [] then None else Some r\<rparr>]"
    "svcRefs (drop_svc_ref mine c (r, i) s) =
      (if cs = [] then filter (\<lambda>q. fst q \<noteq> r) (svcRefs s) else svcRefs s)"
    "nextRef (drop_svc_ref mine c (r, i) s) = nextRef s"
    using refs_okD [OF assms(1,2)] cs
    by (simp_all add: e [OF refs_okD(2) [OF assms(1,2)]] drop_svc_ref_def upd_ev_def Let_def sessions_left_def)
qed

lemma refs_ok_drop:
  assumes ok: "refs_ok s" and p: "(r, i) \<in> set (svcRefs s)"
  shows "refs_ok (drop_svc_ref mine c (r, i) s)"
proof -
  let ?s = "drop_svc_ref mine c (r, i) s"
  let ?cs = "sessions_left mine c r (ec_sessions (evs s ! i))"
  note eq = drop_svc_ref_eq [OF ok p refl, of mine c]
  note d = refs_okD [OF ok p]
  have i: "j = i" if "(r', j) \<in> set (svcRefs s)" "r' = r" for r' j
    using refs_ok_inj' [OF ok p] that by simp
  have j: "r' = r" if "(r', i) \<in> set (svcRefs s)" for r'
    using refs_ok_inj [OF ok p that] by simp
  have "distinct (map fst (svcRefs ?s))"
    using ok by (simp add: eq refs_ok_def distinct_map_filter)
  moreover have "r' < nextRef ?s \<and> k < length (evs ?s) \<and> ec_svcRef (evs ?s ! k) = Some r'"
    if "(r', k) \<in> set (svcRefs ?s)" for r' k
  proof -
    have q: "(r', k) \<in> set (svcRefs s)" using that by (simp add: eq split: if_splits)
    have "?cs \<noteq> []" if "k = i"
    proof
      assume "?cs = []"
      then have "r' \<noteq> r" using \<open>(r', k) \<in> set (svcRefs ?s)\<close> by (simp add: eq(2))
      then show False using j q that by simp
    qed
    then show ?thesis using refs_okD [OF ok q] d(1) j q by (auto simp: eq nth_list_update)
  qed
  moreover have "distinct (ec_sessions (evs ?s ! k)) \<and>
      (ec_svcRef (evs ?s ! k) = None \<longleftrightarrow> ec_sessions (evs ?s ! k) = []) \<and>
      (\<forall>r'. ec_svcRef (evs ?s ! k) = Some r' \<longrightarrow> (r', k) \<in> set (svcRefs ?s))"
    if "k < length (evs ?s)" for k
  proof (cases "k = i")
    case True
    then show ?thesis using d p by (simp add: eq sessions_left_def)
  next
    case False
    then have k: "evs ?s ! k = evs s ! k" "k < length (evs s)" using that by (simp_all add: eq)
    then show ?thesis
      using refs_ok_event [OF ok k(2)] i False by (auto simp: eq)
  qed
  ultimately show ?thesis by (rule refs_okI)
qed

text \<open>
  The loops visit the references there are when they start; each is still there when it is reached.
\<close>

lemma evs_ok_drop:
  "refs_ok s \<Longrightarrow> p \<in> set (svcRefs s) \<Longrightarrow> evs_ok s \<Longrightarrow> evs_ok (drop_svc_ref mine c p s)"
  by (cases p) (auto intro!: evs_okI [OF _ drop_svc_ref_eq(1) [OF _ _ refl]] event_ok_update(10,11))

lemma refs_ok_fold:
  assumes "refs_ok s" "set ps \<subseteq> set (svcRefs s)" "distinct ps"
    and s': "s' = fold (drop_svc_ref mine c) ps s"
  shows "refs_ok s' \<and> (evs_ok s \<longrightarrow> evs_ok s') \<and> length (evs s') = length (evs s) \<and>
    (\<forall>i<length (evs s). ec_sessions (evs s' ! i) =
      (if \<exists>r. (r, i) \<in> set ps \<and> mine r then remove1 c (ec_sessions (evs s ! i))
       else ec_sessions (evs s ! i)))"
  using assms(1-3) unfolding s'
proof (induction ps arbitrary: s)
  case (Cons p ps)
  obtain r i where p: "p = (r, i)" by (cases p)
  have ri: "(r, i) \<in> set (svcRefs s)" using Cons.prems p by simp
  let ?t = "drop_svc_ref mine c (r, i) s"
  note eq = drop_svc_ref_eq [OF Cons.prems(1) ri refl, of mine c]
  have o: "r' \<noteq> r \<and> j \<noteq> i" if "(r', j) \<in> set ps" for r' j
    using that Cons.prems p refs_ok_inj' [OF Cons.prems(1) ri, of j] refs_ok_inj [OF Cons.prems(1) ri, of r']
    by auto
  have "set ps \<subseteq> set (svcRefs ?t)" using Cons.prems(2) by (auto simp: eq(2) dest: o)
  then have IH: "refs_ok (fold (drop_svc_ref mine c) ps ?t) \<and>
      (evs_ok ?t \<longrightarrow> evs_ok (fold (drop_svc_ref mine c) ps ?t)) \<and>
      length (evs (fold (drop_svc_ref mine c) ps ?t)) = length (evs ?t) \<and>
      (\<forall>k<length (evs ?t). ec_sessions (evs (fold (drop_svc_ref mine c) ps ?t) ! k) =
        (if \<exists>r. (r, k) \<in> set ps \<and> mine r then remove1 c (ec_sessions (evs ?t ! k))
         else ec_sessions (evs ?t ! k)))"
    using Cons.prems by (intro Cons.IH refs_ok_drop ri) auto
  have n: "(r', i) \<notin> set ps" for r' using o by blast
  have i: "i < length (evs s)" using refs_okD(1) [OF Cons.prems(1) ri] .
  have ev: "ec_sessions (evs ?t ! k) =
      (if k = i then sessions_left mine c r (ec_sessions (evs s ! i)) else ec_sessions (evs s ! k))" for k
    using i by (simp add: eq(1) nth_list_update)
  have len: "length (evs ?t) = length (evs s)" by (simp add: eq(1))
  have "ec_sessions (evs (fold (drop_svc_ref mine c) ps ?t) ! k) =
      (if \<exists>r'. (r', k) \<in> set (p # ps) \<and> mine r' then remove1 c (ec_sessions (evs s ! k))
       else ec_sessions (evs s ! k))" if "k < length (evs s)" for k
  proof (cases "k = i")
    case True
    then have "ec_sessions (evs (fold (drop_svc_ref mine c) ps ?t) ! k) = ec_sessions (evs ?t ! k)"
      using IH that n len by simp
    then show ?thesis using True n by (simp add: ev sessions_left_def p)
  next
    case False
    then show ?thesis using IH that len by (auto simp: ev p)
  qed
  then show ?case
    using IH evs_ok_drop [OF Cons.prems(1) ri, of mine c] len by (simp add: p)
qed simp

lemma svcRefs_distinct: "refs_ok s \<Longrightarrow> distinct (svcRefs s)"
  by (auto simp: refs_ok_def distinct_map)

lemmas refs_ok_all = refs_ok_fold [OF _ subset_refl svcRefs_distinct]

text \<open>A client that asks for an event gets its reference, and a session with it.\<close>

lemma find_index_len: "find_index P xs = Some i \<Longrightarrow> i < length xs"
  by (drule find_index_Some) simp

lemma GetService_new:
  assumes "GetEventCtxById eid s = Some i" "ec_svcRef (evs s ! i) = None"
  shows "GetService eid c s = (Some (nextRef s),
    s\<lparr>svcRefs := svcRefs s @ [(nextRef s, i)], nextRef := nextRef s + 1,
      evs := (evs s)[i := (evs s ! i)\<lparr>ec_svcRef := Some (nextRef s), ec_sessions := [c]\<rparr>]\<rparr>)"
  using assms find_index_len [OF assms(1) [unfolded GetEventCtxById_def]]
  by (simp add: GetService_def upd_ev_def Let_def add_session_def)

lemma GetService_old:
  assumes "GetEventCtxById eid s = Some i" "ec_svcRef (evs s ! i) = Some r"
  shows "GetService eid c s = (Some r,
    upd_ev i (\<lambda>e. e\<lparr>ec_sessions := add_session c (ec_sessions e)\<rparr>) s)"
  using assms find_index_len [OF assms(1) [unfolded GetEventCtxById_def]]
  by (simp add: GetService_def upd_ev_def Let_def)

lemma refs_ok_GetService:
  assumes ok: "refs_ok s"
  shows "refs_ok (snd (GetService eid c s))"
proof (cases "GetEventCtxById eid s")
  case None
  then show ?thesis using ok by (simp add: GetService_def)
next
  case (Some i)
  then have i: "i < length (evs s)" by (rule GetEventCtxById_less)
  show ?thesis
  proof (cases "ec_svcRef (evs s ! i)")
    case None
    have n: "(r, i) \<notin> set (svcRefs s)" for r using refs_okD(2) [OF ok] None by fastforce
    have new: "(nextRef s, j) \<notin> set (svcRefs s)" for j using refs_okD(3) [OF ok] by fastforce
    show ?thesis
      unfolding GetService_new [OF Some None] snd_conv
    proof (rule refs_okI, goal_cases)
      case 1
      then show ?case using ok new by (auto simp: refs_ok_def)
    next
      case (2 r j)
      then show ?case using refs_okD [OF ok, of r j] n i by (auto simp: nth_list_update less_Suc_eq)
    next
      case (3 j)
      then show ?case using refs_ok_event [OF ok, of j] i by (auto simp: nth_list_update)
    qed
  next
    case (Some r)
    have e: "add_session c cs \<noteq> []" "distinct cs \<Longrightarrow> distinct (add_session c cs)" for cs
      by (auto simp: add_session_def)
    show ?thesis
      unfolding GetService_old [OF \<open>GetEventCtxById eid s = Some i\<close> Some] snd_conv
    proof (rule refs_okI, goal_cases)
      case 1
      then show ?case using ok by (simp add: refs_ok_def upd_ev_def)
    next
      case (2 r j)
      then show ?case using refs_okD [OF ok, of r j] i by (auto simp: upd_ev_def nth_list_update)
    next
      case (3 j)
      then show ?case using refs_ok_event [OF ok, of j] i Some e
        by (auto simp: upd_ev_def nth_list_update)
    qed
  qed
qed

lemma evs_ok_GetService: "evs_ok s \<Longrightarrow> evs_ok (snd (GetService eid c s))"
proof (cases "GetEventCtxById eid s")
  case (Some i)
  assume ok: "evs_ok s"
  show ?thesis
  proof (cases "ec_svcRef (evs s ! i)")
    case None
    show ?thesis
      unfolding GetService_new [OF Some None] snd_conv
      by (rule evs_okI [OF ok]) (simp, intro event_ok_update, assumption)
  next
    case (Some r)
    show ?thesis
      unfolding GetService_old [OF \<open>GetEventCtxById eid s = Some i\<close> Some] snd_conv
      by (rule evs_ok_upd [OF ok]) (rule event_ok_update)
  qed
qed (simp add: GetService_def)

end
