(* ===== verification/Diag_Run.thy ===== *)
theory Diag_Run
  imports Diag_Refs
begin

unbundle bit_operations_syntax

text \<open>
  The runs of the event service and the DTC service: their inputs, the states they lead to from the
  set-up, and the two invariants of these states.
\<close>

section \<open>Inputs\<close>

text \<open>Calls of clients (a number stands for the client's session) and of the UDS handler.\<close>

datatype diag_in =
    Report "nat option" StatusType "byte list"
  | Cycle "nat option" CycleState
  | Condition byte bool
  | DebounceMode "nat option" DebounceReset
  | GetEvent u16 nat
  | DropEvent "nat option" nat
  | GetCycle byte nat
  | DropCycle "nat option" nat
  | GetDtc u32 nat
  | DropDtc "nat option" nat
  | GetAllDtcs nat
  | DropAllDtcs nat
  | EventClientGone nat
  | DtcClientGone nat
  | ReadDtc "nat option"
  | Activate "nat option" bool
  | Suppress "nat option" bool
  | SuppressAll bool
  | Clear "nat option" ReqClient
  | ClearGroup u32 ReqClient

fun diag_do :: "diag_cfg \<Rightarrow> diag_in \<Rightarrow> diag \<Rightarrow> diag mem" where
  "diag_do cf (Report ref status code) s =
     map_sum id snd (SetStatusWithSupplierFaultCode cf ref status code s)"
| "diag_do cf (Cycle ref st) s = Inr (snd (SetOperCycleState ref st s))"
| "diag_do cf (Condition c v) s = Inr (snd (SetEnableCondition cf c v s))"
| "diag_do cf (DebounceMode ref st) s = Inr (snd (ResetDebounceStatus ref st s))"
| "diag_do cf (GetEvent eid c) s = Inr (snd (GetService eid c s))"
| "diag_do cf (DropEvent ref c) s = Inr (snd (RemoveSvc ref c s))"
| "diag_do cf (GetCycle cyc c) s = Inr (snd (GetOperCycle cyc c s))"
| "diag_do cf (DropCycle ref c) s = Inr (snd (RemoveOperCycle ref c s))"
| "diag_do cf (GetDtc code c) s = Inr (snd (DTC_GetService code c s))"
| "diag_do cf (DropDtc ref c) s = Inr (snd (DTC_RemoveSvc ref c s))"
| "diag_do cf (GetAllDtcs c) s = Inr (GetAllService c s)"
| "diag_do cf (DropAllDtcs c) s = Inr (snd (RemoveAllSvc c s))"
| "diag_do cf (EventClientGone c) s = Inr (OnClientDisconnection c s)"
| "diag_do cf (DtcClientGone c) s = Inr (DTC_OnClientDisconnection c s)"
| "diag_do cf (ReadDtc ref) s = Inr (snd (ReadStatus ref s))"
| "diag_do cf (Activate ref b) s = Inr (snd (SetActivationStatus ref b s))"
| "diag_do cf (Suppress ref b) s = Inr (snd (SetSuppression ref b s))"
| "diag_do cf (SuppressAll b) s = Inr (snd (SetAllSuppression b s))"
| "diag_do cf (Clear ref client) s = Inr (snd (ClearInfo cf ref client s))"
| "diag_do cf (ClearGroup code client) s = Inr (snd (ClearDtc cf code client s))"

text \<open>Between the calls timers expire and time passes.\<close>

inductive diag_step :: "diag_cfg \<Rightarrow> diag \<Rightarrow> diag \<Rightarrow> bool" for cf where
  call: "diag_do cf x s = Inr s' \<Longrightarrow> diag_step cf s s'"
| debounce: "i < length (evs s) \<Longrightarrow> ec_timerRuns (evs s ! i) \<Longrightarrow> diag_step cf s (debounce_expires i s)"
| fdc: "i < length (evs s) \<Longrightarrow> ec_fdcTimerRuns (evs s ! i) \<Longrightarrow> diag_step cf s (fdc_expires i s)"
| time: "diag_step cf s (s\<lparr>clock := t\<rparr>)"

section \<open>Set-up\<close>

definition diag_boot :: "dem \<Rightarrow> diag" where
  "diag_boot d = \<lparr>evs = [], dtcs = [], cycles = [], svcs = [], svcRefs = [], cycleRefs = [],
     dtcRefs = [], allSessions = [], conds = [], store = d, nextRef = 0, clock = 0, outs = []\<rparr>"

definition diag_start :: "OccCtr \<Rightarrow> (u32 \<times> EventEntry list) list \<Rightarrow> nat \<Rightarrow> dem \<Rightarrow> diag option" where
  "diag_start p entries n d =
     Option.bind (EventConfiguration p entries n (diag_boot d)) (DtcConfiguration (map fst entries))"

text \<open>A store the services can start from: one row for an event, with a consistent status.\<close>

definition store_ok :: "dem \<Rightarrow> bool" where
  "store_ok d \<longleftrightarrow> distinct (map ee_name (event_entity d)) \<and>
     (\<forall>e\<in>set (event_entity d). status_ok (ee_status e))"

inductive diag_reachable ::
  "diag_cfg \<Rightarrow> OccCtr \<Rightarrow> (u32 \<times> EventEntry list) list \<Rightarrow> nat \<Rightarrow> dem \<Rightarrow> diag \<Rightarrow> bool"
  for cf p entries n d where
  start: "diag_start p entries n d = Some s \<Longrightarrow> diag_reachable cf p entries n d s"
| step: "diag_reachable cf p entries n d s \<Longrightarrow> diag_step cf s s' \<Longrightarrow> diag_reachable cf p entries n d s'"

inductive_cases diag_stepE: "diag_step cf s s'"

section \<open>The set-up establishes the invariants\<close>

lemma next_io_event_entity [simp]: "event_entity (snd (next_io d)) = event_entity d"
  by (simp add: next_io_def split: list.split)

lemma filter_name_le1:
  assumes "distinct (map f xs)"
  shows "filter (\<lambda>x. f x = k) xs = [] \<or> (\<exists>y\<in>set xs. filter (\<lambda>x. f x = k) xs = [y])"
  using assms
proof (induction xs)
  case (Cons x xs)
  have "f x = k \<Longrightarrow> filter (\<lambda>x. f x = k) xs = []"
    using Cons.prems by (auto simp: filter_empty_conv image_iff)
  then show ?case using Cons by auto
qed simp

lemma store_ok_status:
  assumes "store_ok d"
  shows "status_ok (fst (GetEventStatusByName name d))"
proof -
  let ?rows = "filter (\<lambda>e. ee_name e = name) (event_entity d)"
  have "?rows = [] \<or> (\<exists>y\<in>set (event_entity d). ?rows = [y])"
    using assms by (intro filter_name_le1) (simp add: store_ok_def)
  then have "status_ok (foldl (\<lambda>st e. st OR ee_status e) 0 (case r of None \<Rightarrow> ?rows | Some k \<Rightarrow> take k ?rows))"
    for r
    using assms by (cases r) (auto simp: store_ok_def status_ok_ops take_Cons')
  from this [of "fst (next_io d)"] show ?thesis
    by (cases "fst (next_io d)")
      (simp_all add: GetEventStatusByName_def ReadEventStatusByName_def Query_def Let_def case_prod_beta)
qed

text \<open>The reads of the set-up leave the tables as they are.\<close>

lemma Query_event_entity [simp]: "event_entity (snd (Query tab P d)) = event_entity d"
  by (simp add: Query_def Let_def case_prod_beta)

lemma reads_event_entity [simp]:
  "event_entity (snd (DtcDao_QueryByKey dtc d)) = event_entity d"
  "event_entity (snd (GetEventStatusByName name d)) = event_entity d"
  using Query_event_entity [of dtc_entity "\<lambda>e. de_dtc e = dtc" d]
  by (auto simp: DtcDao_QueryByKey_def GetEventStatusByName_def ReadEventStatusByName_def Let_def
      case_prod_beta split: prod.split list.split)

lemma read_event_entity [simp]: "event_entity (snd (DtcDao_Read col dflt dtc d)) = event_entity d"
  using reads_event_entity(1) [of dtc d]
  by (cases "DtcDao_QueryByKey dtc d"; cases "fst (DtcDao_QueryByKey dtc d)") (simp_all add: DtcDao_Read_def)

definition boot_ok :: "diag \<Rightarrow> bool" where
  "boot_ok s \<longleftrightarrow> store_ok (store s) \<and> evs_ok s \<and> svcRefs s = [] \<and>
     (\<forall>e\<in>set (evs s). ec_svcRef e = None \<and> ec_sessions e = [])"

lemma boot_ok_same:
  "boot_ok s \<Longrightarrow> event_entity (store s') = event_entity (store s) \<Longrightarrow> evs s' = evs s \<Longrightarrow>
   svcRefs s' = svcRefs s \<Longrightarrow> boot_ok s'"
  by (simp add: boot_ok_def store_ok_def evs_ok_def)

lemma on_store_fields [simp]:
  "store (snd (on_store f s)) = snd (f (store s))" "svcRefs (snd (on_store f s)) = svcRefs s"
  "fst (on_store f s) = fst (f (store s))"
  by (simp_all add: on_store_def case_prod_beta)

lemma boot_ok_dtc:
  "boot_ok s \<Longrightarrow> boot_ok (InitDtcContext p code s)"
  "boot_ok s \<Longrightarrow> boot_ok (InitDtcCtx code s)"
  "boot_ok s \<Longrightarrow> boot_ok (InitOperCycleContext n s)"
  "boot_ok s \<Longrightarrow> boot_ok (upd_dtc code f s)"
  by (erule boot_ok_same;
      simp add: InitDtcContext_def InitDtcCtx_def InitOperCycleContext_def upd_dtc_def Let_def
        case_prod_beta GetDTCStatus_def GetDTCOccurrenceCounter_def GetActivation_def GetSuppression_def)+

lemma event_ok_new:
  assumes "status_ok st" "case en_algorithm en of CounterBased c \<Rightarrow> counter_checks (stored_counter c) | _ \<Rightarrow> True"
  shows "event_ok (new_event code en st)"
  using assms by (auto simp: event_ok_def counter_ok_def new_event_def dest: counter_zero split: Algorithm.splits)

lemma boot_ok_event:
  assumes ok: "boot_ok s" and res: "InitEventContext p code en s = Some s'"
  shows "boot_ok s'"
proof -
  define s1 where "s1 = (if GetDtcCtxByCode code s = None then InitDtcContext p code s else s)"
  define st where "st = fst (GetEventStatusByName (en_name en) (store s1))"
  define s2 where "s2 = upd_dtc code (\<lambda>d. d\<lparr>dc_events := dc_events d @ [en_id en]\<rparr>)
    (snd (on_store (GetEventStatusByName (en_name en)) s1))"
  have 1: "boot_ok s1" using ok by (simp add: s1_def boot_ok_dtc)
  then have "status_ok st" by (simp add: st_def boot_ok_def store_ok_status)
  moreover have 2: "boot_ok s2"
    unfolding s2_def by (rule boot_ok_dtc, rule boot_ok_same [OF 1]) simp_all
  moreover have s': "s' = s2\<lparr>evs := evs s2 @ [new_event code en st]\<rparr>"
    and "case en_algorithm en of CounterBased c \<Rightarrow> counter_checks (stored_counter c) | _ \<Rightarrow> True"
    using res by (auto simp: InitEventContext_def Let_def case_prod_beta s2_def st_def s1_def
        split: if_splits Algorithm.splits)
  ultimately have "event_ok (new_event code en st)" by (simp add: event_ok_new)
  then show ?thesis
    using 2 s' by (auto simp: boot_ok_def evs_ok_def new_event_def)
qed

lemma boot_ok_events: "boot_ok s \<Longrightarrow> init_events p code ens s = Some s' \<Longrightarrow> boot_ok s'"
  by (induction ens arbitrary: s)
    (auto split: if_splits simp: bind_eq_Some_conv intro: boot_ok_event)

lemma boot_ok_init_dtcs: "boot_ok s \<Longrightarrow> init_dtcs p xs s = Some s' \<Longrightarrow> boot_ok s'"
  by (induction xs arbitrary: s)
    (auto split: if_splits simp: bind_eq_Some_conv intro: boot_ok_events)

lemma boot_ok_codes: "boot_ok s \<Longrightarrow> DtcConfiguration codes s = Some s' \<Longrightarrow> boot_ok s'"
  by (induction codes arbitrary: s) (auto split: if_splits intro: boot_ok_dtc)

lemma boot_ok_start: "store_ok d \<Longrightarrow> diag_start p entries n d = Some s \<Longrightarrow> boot_ok s"
proof -
  assume d: "store_ok d" and s: "diag_start p entries n d = Some s"
  have b: "boot_ok (diag_boot d)" using d by (simp add: boot_ok_def diag_boot_def evs_ok_def)
  obtain t where t: "init_dtcs p entries (diag_boot d) = Some t"
    "DtcConfiguration (map fst entries) (InitOperCycleContext n t) = Some s"
    using s by (auto simp: diag_start_def EventConfiguration_def bind_eq_Some_conv)
  show ?thesis
    by (rule boot_ok_codes [OF boot_ok_dtc(3) [OF boot_ok_init_dtcs [OF b t(1)]] t(2)])
qed

lemma boot_ok_refs: "boot_ok s \<Longrightarrow> refs_ok s"
  by (rule refs_okI) (auto simp: boot_ok_def)

section \<open>Every step keeps the invariants\<close>

definition diag_ok :: "diag \<Rightarrow> bool" where
  "diag_ok s \<longleftrightarrow> evs_ok s \<and> refs_ok s"

lemma diag_ok_keeps: "dkeeps s s' \<Longrightarrow> diag_ok s \<Longrightarrow> diag_ok s'"
  by (auto simp: diag_ok_def intro: keepsD refs_ok_keeps)

lemma diag_ok_later:
  assumes "diag_ok s" "evs s' = evs s" "svcRefs s' = svcRefs s" "nextRef s \<le> nextRef s'"
  shows "diag_ok s'"
proof -
  have "refs_ok (s\<lparr>nextRef := nextRef s'\<rparr>)" using assms by (auto simp: diag_ok_def intro: refs_ok_later)
  then have "refs_ok s'" by (rule refs_ok_view) (simp add: refs_view_def assms)
  then show ?thesis using assms by (auto simp: diag_ok_def evs_ok_def)
qed

lemma dkeeps_drop_cycle_ref: "dkeeps s (drop_cycle_ref mine c p s)"
  by (auto simp: drop_cycle_ref_def upd_cycle_def Let_def split: option.split intro!: dkeeps_field)

lemma dkeeps_drop_dtc_ref: "dkeeps s (drop_dtc_ref mine c p s)"
  by (auto simp: drop_dtc_ref_def upd_svc_def Let_def split: option.split intro!: dkeeps_field)

lemma diag_ok_fold_svc:
  "diag_ok s \<Longrightarrow> diag_ok (fold (drop_svc_ref mine c) (svcRefs s) s)"
  using refs_ok_all [of s _ mine c] by (auto simp: diag_ok_def)

lemma diag_ok_refs:
  assumes ok: "diag_ok s"
  shows "diag_ok (snd (GetService eid c s))" "diag_ok (snd (RemoveSvc ref c s))"
    "diag_ok (snd (GetOperCycle cyc c s))" "diag_ok (snd (RemoveOperCycle ref c s))"
    "diag_ok (OnClientDisconnection c s)"
proof -
  show "diag_ok (snd (GetService eid c s))"
    using ok by (simp add: diag_ok_def refs_ok_GetService evs_ok_GetService)
  show "diag_ok (snd (RemoveSvc ref c s))"
    using ok by (auto simp: RemoveSvc_def diag_ok_fold_svc split: option.split)
  show "diag_ok (snd (GetOperCycle cyc c s))"
    by (rule diag_ok_later [OF ok])
      (auto simp: GetOperCycle_def upd_cycle_def Let_def split: option.split)
  show "diag_ok (snd (RemoveOperCycle ref c s))"
    using ok by (auto simp: RemoveOperCycle_def split: option.split
        intro: diag_ok_keeps [OF dkeeps_fold [OF dkeeps_drop_cycle_ref]])
  show "diag_ok (OnClientDisconnection c s)"
    unfolding OnClientDisconnection_def Let_def
    by (rule diag_ok_keeps [OF dkeeps_fold [OF dkeeps_drop_cycle_ref] diag_ok_fold_svc [OF ok]])
qed

lemma diag_ok_dtc_refs:
  assumes ok: "diag_ok s"
  shows "diag_ok (snd (DTC_GetService code c s))" "diag_ok (snd (DTC_RemoveSvc ref c s))"
    "diag_ok (GetAllService c s)" "diag_ok (snd (RemoveAllSvc c s))"
    "diag_ok (DTC_OnClientDisconnection c s)"
proof -
  have f: "diag_ok t \<Longrightarrow> diag_ok (t\<lparr>allSessions := xs\<rparr>)" for t xs
    by (erule diag_ok_later) simp_all
  have g: "diag_ok (fold (drop_dtc_ref mine c) xs s)" for mine xs
    by (rule diag_ok_keeps [OF dkeeps_fold [OF dkeeps_drop_dtc_ref] ok])
  show "diag_ok (snd (DTC_GetService code c s))"
    by (rule diag_ok_later [OF ok])
      (auto simp: DTC_GetService_def upd_svc_def Let_def split: option.split)
  show "diag_ok (snd (DTC_RemoveSvc ref c s))"
    using ok g by (auto simp: DTC_RemoveSvc_def split: option.split)
  show "diag_ok (GetAllService c s)" "diag_ok (snd (RemoveAllSvc c s))"
    "diag_ok (DTC_OnClientDisconnection c s)"
    using ok f g by (simp_all add: GetAllService_def RemoveAllSvc_def DTC_OnClientDisconnection_def Let_def)
qed

lemma diag_ok_do:
  assumes ok: "diag_ok s" and res: "diag_do cf x s = Inr s'"
  shows "diag_ok s'"
proof (cases x)
  case (Report ref status code)
  then obtain r where "SetStatusWithSupplierFaultCode cf ref status code s = Inr (r, s')"
    using res by (cases "SetStatusWithSupplierFaultCode cf ref status code s") auto
  then have "dkeeps s s'"
    using ok by (intro dkeeps_SetStatus) (simp_all add: diag_ok_def refs_ok_in)
  then show ?thesis using ok by (rule diag_ok_keeps)
next
  case (ClearGroup code client)
  then show ?thesis
    using res diag_ok_keeps [OF dkeeps_ClearDtc [OF dkeeps_refl] ok] by auto
qed (use ok res diag_ok_refs diag_ok_dtc_refs
  diag_ok_keeps [OF dkeeps_SetOperCycleState ok] diag_ok_keeps [OF dkeeps_SetEnableCondition ok]
  diag_ok_keeps [OF dkeeps_ResetDebounceStatus ok] diag_ok_keeps [OF dkeeps_dtc_service(1) ok]
  diag_ok_keeps [OF dkeeps_dtc_service(2) ok] diag_ok_keeps [OF dkeeps_dtc_service(3) ok]
  diag_ok_keeps [OF dkeeps_dtc_service(4) ok] diag_ok_keeps [OF dkeeps_dtc_service(5) ok]
  in \<open>auto\<close>)

lemma diag_ok_step: "diag_step cf s s' \<Longrightarrow> diag_ok s \<Longrightarrow> diag_ok s'"
proof (induction rule: diag_step.induct)
  case (call x s s')
  then show ?case by (blast intro: diag_ok_do)
next
  case (debounce i s)
  then show ?case by (blast intro: diag_ok_keeps dkeeps_expires)
next
  case (fdc i s)
  then show ?case by (blast intro: diag_ok_keeps dkeeps_fdc_expires)
next
  case (time s t)
  then show ?case by (rule diag_ok_later) simp_all
qed

lemma diag_ok_reachable:
  "diag_reachable cf p entries n d s \<Longrightarrow> store_ok d \<Longrightarrow> diag_ok s"
proof (induction rule: diag_reachable.induct)
  case (start s)
  then have "boot_ok s" by (blast intro: boot_ok_start)
  then show ?case using boot_ok_refs by (simp add: diag_ok_def) (simp add: boot_ok_def)
next
  case (step s s')
  then show ?case using diag_ok_step by blast
qed

end
