(* ===== verification/Diag_Samples.thy ===== *)
theory Diag_Samples
  imports Diag_Run
begin

unbundle bit_operations_syntax

text \<open>
  A small configuration: two DTCs, the first with a counter-based and a time-based event, the
  second with an event that is debounced by its monitor. The witnesses of the properties run on it.
\<close>

definition sample_counter :: CounterConfig where
  "sample_counter = \<lparr>cc_decrementStepSize = 1, cc_incrementStepSize = 3, cc_failedThreshold = 10,
     cc_passedThreshold = -5, cc_jumpDown = False, cc_jumpUp = False, cc_jumpDownValue = 0,
     cc_jumpUpValue = 0, cc_fdcThreshold = 8\<rparr>"

definition sample_time :: TimeConfig where
  "sample_time = \<lparr>tc_failedThreshold = 5000, tc_passedThreshold = 2000, tc_fdcThreshold = 3000\<rparr>"

definition sample_entries :: "(u32 \<times> EventEntry list) list" where
  "sample_entries =
     [(0x123456, [\<lparr>en_id = 1, en_name = ''counter'', en_cycle = 0, en_confirmation = 1,
         en_algorithm = CounterBased sample_counter, en_reset = True\<rparr>,
       \<lparr>en_id = 2, en_name = ''timer'', en_cycle = 0, en_confirmation = 2,
         en_algorithm = TimeBased sample_time, en_reset = False\<rparr>]),
      (0x00AB01, [\<lparr>en_id = 3, en_name = ''monitor'', en_cycle = 1, en_confirmation = 2,
         en_algorithm = Custom, en_reset = False\<rparr>])]"

definition sample_store :: dem where
  "sample_store = \<lparr>dtc_entity = [], event_entity = [], snapshot_entity = [], io = []\<rparr>"

definition sample_dem :: dem_cfg where
  "sample_dem = \<lparr>cfg_dtc_codes = [0x123456, 0x00AB01],
     cfg_event_idNames = [(1, ''counter''), (2, ''timer''), (3, ''monitor'')],
     cfg_event_ids = (\<lambda>_. None), cfg_dtc_entries = [(0x123456, [], []), (0x00AB01, [], [])],
     cfg_freeze_frames = (\<lambda>_. None), cfg_extended_records = (\<lambda>_. None)\<rparr>"

definition sample_cfg :: diag_cfg where
  "sample_cfg = \<lparr>dg_dem = sample_dem, dg_enable = (\<lambda>_. Some ([7], [])), dg_faultCodeMax = 10,
     dg_u8 = (\<lambda>_. 0)\<rparr>"

definition sample_start :: diag where
  "sample_start = the (diag_start PROCESS_OCCCTR_TF sample_entries 2 sample_store)"

lemma sample_started:
  "diag_start PROCESS_OCCCTR_TF sample_entries 2 sample_store = Some sample_start"
proof -
  have "diag_start PROCESS_OCCCTR_TF sample_entries 2 sample_store \<noteq> None" by code_simp
  then show ?thesis by (simp add: sample_start_def)
qed

end
