(* ===== verification/Diag_Safety.thy ===== *)
theory Diag_Safety
  imports Diag_Samples
begin

unbundle bit_operations_syntax

text \<open>
  What holds in every state the services reach, what a client that disconnects leaves behind, and
  when a report of a test result may change anything.
\<close>

section \<open>Well-formed contexts\<close>

text \<open>
  C4: In every state the event service reaches from its set-up, over a store with one consistent
  row per event, each event context is well-formed: its status byte never claims a failure that is
  not recorded as a failure since the last clear, never has both "failed" and "not completed" set
  for the same period and never uses the warning bit; its counter stays between its thresholds, a
  debounce timer runs only for an event that is debounced by time, with its counter at 0; and its
  failure counter stays below the confirmation threshold.
\<close>

theorem diag_events_wellformed:
  assumes "diag_reachable cf p entries n d s" "store_ok d" "e \<in> set (evs s)"
  shows "status_ok (ec_uds e) \<and> counter_ok e \<and>
    (ec_failureCounter e = 0 \<or> ec_failureCounter e < ec_confirmationThreshold e)"
  using diag_ok_reachable [OF assms(1,2)] assms(3) by (auto simp: diag_ok_def evs_ok_def event_ok_def)

lemma sample_reachable:
  "diag_reachable cf PROCESS_OCCCTR_TF sample_entries 2 sample_store sample_start"
  by (rule diag_reachable.start [OF sample_started])

lemma sample_store_ok: "store_ok sample_store"
  by (simp add: store_ok_def sample_store_def)

theorem diag_events_wellformed_witness:
  "status_ok (ec_uds (evs sample_start ! 0)) \<and> counter_ok (evs sample_start ! 0) \<and>
   (ec_failureCounter (evs sample_start ! 0) = 0 \<or>
    ec_failureCounter (evs sample_start ! 0) < ec_confirmationThreshold (evs sample_start ! 0))"
proof -
  have "length (evs sample_start) = 3" by code_simp
  then have "evs sample_start ! 0 \<in> set (evs sample_start)" by simp
  from diag_events_wellformed [OF sample_reachable sample_store_ok this] show ?thesis .
qed

section \<open>References\<close>

lemma drop_cycle_evs:
  "evs (fold (drop_cycle_ref mine c) ps s) = evs s"
  "svcRefs (fold (drop_cycle_ref mine c) ps s) = svcRefs s"
proof -
  have "evs (drop_cycle_ref mine c p s) = evs s" "svcRefs (drop_cycle_ref mine c p s) = svcRefs s" for p s
    by (simp_all add: drop_cycle_ref_def upd_cycle_def Let_def split: option.split)
  then show "evs (fold (drop_cycle_ref mine c) ps s) = evs s"
    "svcRefs (fold (drop_cycle_ref mine c) ps s) = svcRefs s"
    by (induction ps arbitrary: s) simp_all
qed

text \<open>
  C27: When a client disconnects from the event service in a reachable state, no event keeps a
  session of it, every reference that is left stands for exactly the event that knows it and is
  used by another client, and every other client keeps its sessions with each event.
\<close>

theorem event_client_gone:
  assumes "diag_reachable cf p entries n d s" "store_ok d"
  shows "(\<forall>i<length (evs s). c \<notin> set (ec_sessions (evs (OnClientDisconnection c s) ! i)) \<and>
      set (ec_sessions (evs s ! i)) - {c} \<subseteq> set (ec_sessions (evs (OnClientDisconnection c s) ! i))) \<and>
    (\<forall>(r, i)\<in>set (svcRefs (OnClientDisconnection c s)). GetEventCtx (Some r) (OnClientDisconnection c s) = Some i \<and>
      ec_svcRef (evs (OnClientDisconnection c s) ! i) = Some r \<and>
      (\<exists>c'. c' \<noteq> c \<and> c' \<in> set (ec_sessions (evs (OnClientDisconnection c s) ! i))))"
proof -
  have ok: "refs_ok s" using diag_ok_reachable [OF assms] by (simp add: diag_ok_def)
  define t where "t = fold (drop_svc_ref (\<lambda>_. True) c) (svcRefs s) s"
  define u where "u = OnClientDisconnection c s"
  have u: "evs u = evs t" "svcRefs u = svcRefs t"
    by (simp_all add: u_def t_def OnClientDisconnection_def Let_def drop_cycle_evs)
  have tok: "refs_ok t" and len: "length (evs t) = length (evs s)"
    and sess: "\<And>i. i < length (evs s) \<Longrightarrow> ec_sessions (evs t ! i) =
      (if \<exists>r. (r, i) \<in> set (svcRefs s) then remove1 c (ec_sessions (evs s ! i)) else ec_sessions (evs s ! i))"
    using refs_ok_all [OF ok ok t_def] by auto
  have gone: "c \<notin> set (ec_sessions (evs t ! i)) \<and>
      set (ec_sessions (evs s ! i)) - {c} \<subseteq> set (ec_sessions (evs t ! i))" if i: "i < length (evs s)" for i
    using refs_ok_event [OF ok i] by (cases "ec_svcRef (evs s ! i)") (auto simp: sess [OF i])
  have "GetEventCtx (Some r) u = Some i \<and> ec_svcRef (evs u ! i) = Some r \<and>
      (\<exists>c'. c' \<noteq> c \<and> c' \<in> set (ec_sessions (evs u ! i)))" if "(r, i) \<in> set (svcRefs u)" for r i
  proof -
    have ri: "(r, i) \<in> set (svcRefs t)" using that u by simp
    have "distinct (map fst (svcRefs t))" using tok by (simp add: refs_ok_def)
    then have "GetEventCtx (Some r) u = Some i" using ri u by (simp add: GetEventCtx_def)
    moreover obtain c' where "c' \<in> set (ec_sessions (evs t ! i))"
      using refs_okD(5) [OF tok ri] by (cases "ec_sessions (evs t ! i)") auto
    ultimately show ?thesis
      using gone [of i] refs_okD(1,2) [OF tok ri] len u by auto
  qed
  then show ?thesis using gone by (auto simp: u [unfolded u_def] u_def)
qed

definition sample_clients :: diag where
  "sample_clients = snd (GetService 1 6 (snd (GetService 1 5 sample_start)))"

lemma sample_clients_reachable:
  "diag_reachable sample_cfg PROCESS_OCCCTR_TF sample_entries 2 sample_store sample_clients"
  unfolding sample_clients_def
  by (rule diag_reachable.step [OF diag_reachable.step [OF sample_reachable]];
      rule diag_step.call; rule diag_do.simps)

theorem event_client_gone_witness:
  "GetEventCtx (Some 0) (OnClientDisconnection 5 sample_clients) = Some 0 \<and>
   5 \<notin> set (ec_sessions (evs (OnClientDisconnection 5 sample_clients) ! 0))"
proof -
  have l: "length (evs sample_clients) = 3" by code_simp
  have "(0, 0) \<in> set (svcRefs (OnClientDisconnection 5 sample_clients))" by code_simp
  then show ?thesis
    using event_client_gone [OF sample_clients_reachable sample_store_ok, of 5] l by auto
qed

section \<open>When a report counts\<close>

text \<open>
  C9: A report of a test result that changes anything at all came over a reference that stands for
  an event whose operation cycle is running, which is enabled, and whose DTC exists and is active;
  every other report leaves the whole state, the store included, as it was, and none of them is
  answered with \<open>LE_OK\<close>.
\<close>

theorem report_only_when_active:
  assumes "SetStatusWithSupplierFaultCode cf ref status code s = Inr (r, s')" "s' \<noteq> s \<or> r = le_OK"
  shows "\<exists>i c dc d. GetEventCtx ref s = Some i \<and>
    GetOperCycleCtxById (ec_operationCycleId (evs s ! i)) s = Some c \<and> oc_state c = CYCLE_START \<and>
    ec_enable (evs s ! i) \<and> ec_dtcCtx (evs s ! i) = Some dc \<and> GetDtcCtxByCode dc s = Some d \<and>
    dc_activation d \<and> status \<noteq> EV_UNKNOWN \<and> length code \<le> dg_faultCodeMax cf"
  using assms
  by (auto simp: SetStatusWithSupplierFaultCode_def CheckEventCondition_def Let_def bind_eq_Some_conv
      split: option.splits if_splits)

definition sample_active :: diag where
  "sample_active = snd (SetOperCycleState (Some 1) CYCLE_START
     (snd (GetOperCycle 0 5 (snd (SetEnableCondition sample_cfg 7 True (snd (GetService 1 5 sample_start)))))))"

theorem report_only_when_active_witness:
  "(\<exists>r s'. SetStatusWithSupplierFaultCode sample_cfg (Some 0) EV_FAILED [1, 2] sample_active = Inr (r, s') \<and>
     r = le_OK) \<and> ec_enable (evs sample_active ! 0)"
proof -
  obtain r s' where res: "SetStatusWithSupplierFaultCode sample_cfg (Some 0) EV_FAILED [1, 2] sample_active = Inr (r, s')"
    "r = le_OK"
  proof -
    have "map_sum id fst (SetStatusWithSupplierFaultCode sample_cfg (Some 0) EV_FAILED [1, 2] sample_active) =
        Inr le_OK" by code_simp
    then show ?thesis
      by (cases "SetStatusWithSupplierFaultCode sample_cfg (Some 0) EV_FAILED [1, 2] sample_active")
        (auto intro: that)
  qed
  have g: "GetEventCtx (Some 0) sample_active = Some 0" by code_simp
  show ?thesis using report_only_when_active [OF res(1)] res g by auto
qed

end
