(* ===== verification/Diag_Debounce.thy ===== *)
theory Diag_Debounce
  imports Diag_Safety
begin

unbundle bit_operations_syntax

text \<open>
  The debouncing of test results: what a run of reports does to a counter-based event, and what
  the expiry of its timer does to a time-based one, both through the interface of the service.
\<close>

section \<open>What a report leaves alone\<close>

text \<open>The part of the state that decides whether reports of an event are accepted.\<close>

definition act_ev :: "EventCtx \<Rightarrow> byte \<times> bool \<times> u32 option \<times> DebounceType \<times> CounterConfig \<times> TimeConfig" where
  "act_ev e = (ec_operationCycleId e, ec_enable e, ec_dtcCtx e, ec_debounceType e, ec_counter e, ec_time e)"

definition act_dtc :: "DtcCtx \<Rightarrow> u32 \<times> bool" where
  "act_dtc d = (dc_code d, dc_activation d)"

definition act_view :: "diag \<Rightarrow> _" where
  "act_view s = (svcRefs s, cycles s, map act_dtc (dtcs s), map act_ev (evs s))"

lemma act_upd_ev: "act_ev (f (evs s ! i)) = act_ev (evs s ! i) \<Longrightarrow> act_view (upd_ev i f s) = act_view s"
  by (simp add: act_view_def upd_ev_def map_list_update_same)

lemma act_upd_dtc: "(\<And>d. d \<in> set (dtcs s) \<Longrightarrow> dc_code d = code \<Longrightarrow> act_dtc (f d) = act_dtc d) \<Longrightarrow>
    act_view (upd_dtc code f s) = act_view s"
  by (auto simp: act_view_def upd_dtc_def)

lemma act_simple [simp]:
  "act_view (out xs s) = act_view s" "act_view (triggerSnapshot i t s) = act_view s"
  "act_view (ReportEventUdsStatus i s) = act_view s" "act_view (ReportDtcStatus code st s) = act_view s"
  "act_view (snd (on_store op s)) = act_view s" "act_view (TriggerSnapshotData old i s) = act_view s"
  by (simp_all add: act_view_def out_def triggerSnapshot_def ReportEventUdsStatus_def ReportDtcStatus_def
      on_store_def TriggerSnapshotData_def Let_def split: option.split prod.split)

lemma act_store [simp]:
  "act_view (snd (StoreAndReportEventUdsStatus i s)) = act_view s"
  "act_view (snd (StoreAndReportDTCStatus d s)) = act_view s"
  by (simp_all add: StoreAndReportEventUdsStatus_def StoreAndReportDTCStatus_def Let_def case_prod_beta)

definition dtcs_distinct :: "diag \<Rightarrow> bool" where
  "dtcs_distinct s \<longleftrightarrow> distinct (map dc_code (dtcs s))"

lemma GetDtcCtxByCode_Some: "GetDtcCtxByCode code s = Some d \<Longrightarrow> d \<in> set (dtcs s) \<and> dc_code d = code"
  by (auto simp: GetDtcCtxByCode_def find_Some_iff)

lemma GetDtcCtxByCode_unique:
  "dtcs_distinct s \<Longrightarrow> GetDtcCtxByCode code s = Some d \<Longrightarrow> d' \<in> set (dtcs s) \<Longrightarrow> dc_code d' = code \<Longrightarrow> d' = d"
  using GetDtcCtxByCode_Some [of code s d] by (auto simp: dtcs_distinct_def distinct_map inj_on_def)

lemma act_distinct: "act_view s' = act_view s \<Longrightarrow> dtcs_distinct s' = dtcs_distinct s"
proof -
  assume "act_view s' = act_view s"
  then have "map fst (map act_dtc (dtcs s')) = map fst (map act_dtc (dtcs s))"
    by (simp add: act_view_def)
  then show ?thesis by (simp add: dtcs_distinct_def act_dtc_def comp_def)
qed

lemma act_UpdateDtc:
  assumes "dtcs_distinct s"
  shows "act_view (snd (UpdateDtcOnFailed dtc s)) = act_view s"
    "act_view (snd (UpdateDtcOnPassed dtc s)) = act_view s"
proof -
  have u: "act_view (upd_dtc (dc_code d) (\<lambda>_. d') s) = act_view s"
    if "act_dtc d' = act_dtc d" "GetDtcCtxByCode code s = Some d" for code d d'
  proof (rule act_upd_dtc)
    fix x assume "x \<in> set (dtcs s)" "dc_code x = dc_code d"
    then have "x = d"
      using GetDtcCtxByCode_unique [OF assms that(2), of x] GetDtcCtxByCode_Some [OF that(2)] by simp
    then show "act_dtc d' = act_dtc x" using that(1) by simp
  qed
  show "act_view (snd (UpdateDtcOnFailed dtc s)) = act_view s"
    by (auto simp: UpdateDtcOnFailed_def Let_def case_prod_beta bind_eq_Some_conv act_dtc_def
        split: option.split intro!: u)
  show "act_view (snd (UpdateDtcOnPassed dtc s)) = act_view s"
    by (auto simp: UpdateDtcOnPassed_def Let_def case_prod_beta bind_eq_Some_conv act_dtc_def
        split: option.split intro!: u)
qed

lemma act_UpdateEvent:
  assumes "dtcs_distinct s"
  shows "act_view (snd (UpdateEventOnFailed i s)) = act_view s"
    "act_view (snd (UpdateEventOnPassed i s)) = act_view s"
proof -
  have f: "act_view (upd_ev i fail_event s) = act_view s"
    "act_view (upd_ev i (\<lambda>e. e\<lparr>ec_uds := passed_status (ec_uds e)\<rparr>) s) = act_view s"
    by (rule act_upd_ev; simp add: act_ev_def fail_event_def Let_def)+
  have d: "act_view t = act_view s \<Longrightarrow> dtcs_distinct t" for t using act_distinct [of t s] assms by simp
  show "act_view (snd (UpdateEventOnFailed i s)) = act_view s"
    using f(1) by (simp add: UpdateEventOnFailed_def Let_def case_prod_beta act_UpdateDtc d)
  show "act_view (snd (UpdateEventOnPassed i s)) = act_view s"
    using f(2) by (simp add: UpdateEventOnPassed_def Let_def case_prod_beta act_UpdateDtc d)
qed

lemma act_apply_fault: "dtcs_distinct s \<Longrightarrow> act_view (snd (apply_fault old i s)) = act_view s"
  by (simp add: apply_fault_def act_UpdateEvent split: StatusType.split)

lemma evs_apply_fault:
  "evs (snd (apply_fault old i s)) = (evs s)[i :=
     (if old \<noteq> ec_fault (evs s ! i) \<and> ec_fault (evs s ! i) = EV_FAILED then fail_event (evs s ! i)
      else if old \<noteq> ec_fault (evs s ! i) \<and> ec_fault (evs s ! i) = EV_PASSED
      then (evs s ! i)\<lparr>ec_uds := passed_status (ec_uds (evs s ! i))\<rparr> else evs s ! i)]"
  by (auto simp: apply_fault_def split: StatusType.split)

text \<open>An event whose reports are accepted.\<close>

definition active :: "nat option \<Rightarrow> nat \<Rightarrow> diag \<Rightarrow> bool" where
  "active ref i s \<longleftrightarrow> GetEventCtx ref s = Some i \<and> i < length (evs s) \<and> dtcs_distinct s \<and>
     CheckEventCondition (evs s ! i) s = le_OK"

lemma find_act:
  "map act_dtc xs = map act_dtc ys \<Longrightarrow>
   map_option act_dtc (find (\<lambda>d. dc_code d = code) xs) = map_option act_dtc (find (\<lambda>d. dc_code d = code) ys)"
proof (induction xs arbitrary: ys)
  case (Cons x xs)
  then obtain y zs where "ys = y # zs" "act_dtc x = act_dtc y" "map act_dtc xs = map act_dtc zs" by auto
  moreover from this(2) have "dc_code x = dc_code y" by (simp add: act_dtc_def)
  ultimately show ?case using Cons.IH [of zs] by simp
qed simp

lemma active_view:
  assumes v: "act_view s' = act_view s" and a: "active ref i s"
  shows "active ref i s'"
proof -
  have e: "svcRefs s' = svcRefs s" "cycles s' = cycles s" "map act_dtc (dtcs s') = map act_dtc (dtcs s)"
    "map act_ev (evs s') = map act_ev (evs s)"
    using v by (simp_all add: act_view_def)
  have len: "length (evs s') = length (evs s)" using e(4) map_eq_imp_length_eq by blast
  have i: "i < length (evs s)" using a by (simp add: active_def)
  have ev: "act_ev (evs s' ! i) = act_ev (evs s ! i)"
    using arg_cong [OF e(4), of "\<lambda>xs. xs ! i"] i len by simp
  have d: "map_option act_dtc (GetDtcCtxByCode code s') = map_option act_dtc (GetDtcCtxByCode code s)" for code
    unfolding GetDtcCtxByCode_def by (rule find_act [OF e(3)])
  have "CheckEventCondition (evs s' ! i) s' = CheckEventCondition (evs s ! i) s"
  proof (cases "ec_dtcCtx (evs s ! i)")
    case (Some code)
    have "GetDtcCtxByCode code s' = None \<longleftrightarrow> GetDtcCtxByCode code s = None"
      "\<And>x y. GetDtcCtxByCode code s' = Some x \<Longrightarrow> GetDtcCtxByCode code s = Some y \<Longrightarrow>
        dc_activation x = dc_activation y"
      using d [of code] by (auto simp: act_dtc_def)
    then show ?thesis
      using ev Some by (auto simp: CheckEventCondition_def act_ev_def GetOperCycleCtxById_def e(2)
          split: option.split)
  qed (use ev in \<open>auto simp: CheckEventCondition_def act_ev_def GetOperCycleCtxById_def e(2) split: option.split\<close>)
  then show ?thesis
    using a e(1) len act_distinct [OF v] by (simp add: active_def GetEventCtx_def split: option.splits)
qed

lemma act_time: "time_report status now e = Some e' \<Longrightarrow> act_ev e' = act_ev e"
  by (auto simp: time_report_def start_debounce_timer_def Let_def act_ev_def split: StatusType.splits if_splits)

lemma act_Debounce: "act_view (snd (DebounceEvent i status s)) = act_view s"
proof -
  have u: "act_view (set_counter i n s) = act_view s"
    "act_view (upd_ev i (\<lambda>e. e\<lparr>ec_fault := g e\<rparr>) s) = act_view s"
    "act_view (upd_ev i (\<lambda>e. e\<lparr>ec_fdcTrigger := b\<rparr>) s) = act_view s" for n g b s
    by (simp_all add: set_counter_def act_upd_ev act_ev_def)
  have "act_view (snd (DebounceCounterBased i status s)) = act_view s"
    by (cases status) (simp_all add: DebounceCounterBased_def Let_def u)
  moreover have "act_view (snd (DebounceTimeBased i status s)) = act_view s"
    by (auto simp: DebounceTimeBased_def split: option.split intro!: act_upd_ev dest!: act_time)
      (simp add: act_ev_def)
  ultimately show ?thesis
    by (cases "ec_debounceType (evs s ! i)") (simp_all add: DebounceEvent_def u)
qed

section \<open>Runs of reports\<close>

text \<open>An accepted report is debounced and applied.\<close>

lemma report_active:
  assumes "active ref i s" "status \<noteq> EV_UNKNOWN"
  shows "diag_do cf (Report ref status []) s = Inr (snd
    (let (result, s3) = DebounceEvent i status (triggerSnapshot i ON_EVERY_TEST_FAILED
        (upd_ev i (\<lambda>e. e\<lparr>ec_faultCode := []\<rparr>) s)) in
     if result \<noteq> le_OK then (result, s3) else apply_fault (ec_fault (evs s ! i)) i s3))"
proof -
  have "ref \<noteq> None" using assms(1) by (auto simp: active_def GetEventCtx_def split: option.splits)
  then show ?thesis
    using assms by (auto simp: active_def SetStatusWithSupplierFaultCode_def Let_def case_prod_beta)
qed

primrec reports :: "diag_cfg \<Rightarrow> nat option \<Rightarrow> StatusType \<Rightarrow> nat \<Rightarrow> diag \<Rightarrow> diag mem" where
  "reports cf ref status 0 s = Inr s"
| "reports cf ref status (Suc n) s =
     mbind (diag_do cf (Report ref status []) s) (reports cf ref status n)"

text \<open>The counter from which a "pre-failed" report counts up.\<close>

definition jump_start :: "EventCtx \<Rightarrow> int" where
  "jump_start e = (if cc_jumpUp (ec_counter e) then max (ec_debounceCounter e) (cc_jumpUpValue (ec_counter e))
     else ec_debounceCounter e)"

definition counting :: "nat \<Rightarrow> diag \<Rightarrow> bool" where
  "counting i s \<longleftrightarrow> ec_debounceType (evs s ! i) = DEBOUNCE_COUNTER_BASED \<and>
     counter_checks (ec_counter (evs s ! i)) \<and>
     cc_passedThreshold (ec_counter (evs s ! i)) \<le> ec_debounceCounter (evs s ! i) \<and>
     ec_debounceCounter (evs s ! i) \<le> cc_failedThreshold (ec_counter (evs s ! i))"

lemma prefailed_min:
  assumes "counter_checks c" "cc_passedThreshold c \<le> n" "n < cc_failedThreshold c"
  shows "prefailed_counter c n =
    min (cc_failedThreshold c) ((if cc_jumpUp c then max n (cc_jumpUpValue c) else n) + cc_incrementStepSize c)"
  using assms by (auto simp: prefailed_counter_def counter_bounds int16_id)

lemma prefailed_fault:
  assumes "counter_checks c" "cc_passedThreshold c < n"
  shows "counter_fault c n EV_PREFAILED = (if cc_failedThreshold c \<le> n then EV_FAILED else EV_PREFAILED)"
  using assms by (simp add: counter_fault_def)

lemma failed_bit: "bit (failed_status st) 0" "bit (failed_status st OR UDS_CDTC) 0" "bit (ec_uds (fail_event e)) 0"
  by (simp_all add: fail_event_def Let_def status_ops)

text \<open>One "pre-failed" report.\<close>

lemma prefailed_report:
  assumes act: "active ref i s" and cnt: "counting i s"
    and fb: "ec_fault (evs s ! i) = EV_FAILED \<Longrightarrow> bit (ec_uds (evs s ! i)) 0"
  shows "\<exists>s'. diag_do cf (Report ref EV_PREFAILED []) s = Inr s' \<and> active ref i s' \<and> counting i s' \<and>
    ec_counter (evs s' ! i) = ec_counter (evs s ! i) \<and>
    ec_debounceCounter (evs s' ! i) = min (cc_failedThreshold (ec_counter (evs s ! i)))
      (jump_start (evs s ! i) + cc_incrementStepSize (ec_counter (evs s ! i))) \<and>
    (ec_fault (evs s' ! i) = EV_FAILED \<longleftrightarrow>
      ec_debounceCounter (evs s' ! i) = cc_failedThreshold (ec_counter (evs s ! i))) \<and>
    (ec_fault (evs s' ! i) = EV_FAILED \<longrightarrow> bit (ec_uds (evs s' ! i)) 0)"
proof -
  let ?e = "evs s ! i" let ?c = "ec_counter ?e" let ?n = "ec_debounceCounter ?e"
  define s2 where "s2 = triggerSnapshot i ON_EVERY_TEST_FAILED (upd_ev i (\<lambda>e. e\<lparr>ec_faultCode := []\<rparr>) s)"
  define m where "m = (if ?n < cc_failedThreshold ?c then prefailed_counter ?c ?n else ?n)"
  define s3 where "s3 = snd (DebounceEvent i EV_PREFAILED s2)"
  have i: "i < length (evs s)" and d: "dtcs_distinct s" using act by (simp_all add: active_def)
  note c = cnt [unfolded counting_def]
  have inc: "0 < cc_incrementStepSize ?c" and jlow: "- 32768 \<le> cc_jumpUpValue ?c"
    using c by (simp_all add: counter_bounds)
  have m: "m = min (cc_failedThreshold ?c) (jump_start ?e + cc_incrementStepSize ?c)"
    using c inc by (auto simp: m_def prefailed_min jump_start_def min_def)
  have mlow: "cc_passedThreshold ?c < m"
    using c inc by (auto simp: m jump_start_def counter_bounds)
  have deb: "fst (DebounceEvent i EV_PREFAILED s2) = le_OK"
    and e3: "evs s3 = (evs s)[i := evs s3 ! i]" "length (evs s3) = length (evs s)"
    and f3: "ec_fault (evs s3 ! i) = counter_fault ?c m EV_PREFAILED" "ec_debounceCounter (evs s3 ! i) = m"
      "ec_uds (evs s3 ! i) = ec_uds ?e" "act_ev (evs s3 ! i) = act_ev ?e"
    using c i by (auto simp: DebounceEvent_def DebounceCounterBased_def s2_def s3_def m_def Let_def act_ev_def)
  have "act_view s2 = act_view s" by (simp add: s2_def act_upd_ev act_ev_def)
  then have a3: "act_view s3 = act_view s" using act_Debounce by (simp add: s3_def)
  let ?s' = "snd (apply_fault (ec_fault ?e) i s3)"
  have a': "act_view ?s' = act_view s" using act_apply_fault act_distinct [OF a3] d a3 by simp
  have "diag_do cf (Report ref EV_PREFAILED []) s = Inr ?s'"
    using report_active [OF act] deb by (simp add: s2_def s3_def Let_def case_prod_beta)
  moreover have "active ref i ?s'" by (rule active_view [OF a' act])
  moreover have ev: "ec_fault (evs ?s' ! i) = ec_fault (evs s3 ! i)" "ec_debounceCounter (evs ?s' ! i) = m"
    "act_ev (evs ?s' ! i) = act_ev ?e"
    using f3 e3(2) i by (simp_all add: evs_apply_fault act_ev_def fail_event_def Let_def)
  moreover have "bit (ec_uds (evs ?s' ! i)) 0" if "ec_fault (evs ?s' ! i) = EV_FAILED"
    using that fb f3(3) ev(1) e3(2) i failed_bit by (auto simp: evs_apply_fault)
  moreover have "ec_fault (evs s3 ! i) = EV_FAILED \<longleftrightarrow> m = cc_failedThreshold ?c"
    using prefailed_fault [of ?c m] c mlow by (auto simp: f3 m)
  moreover have "counting i ?s'"
    using c ev(3) mlow by (simp add: counting_def act_ev_def ev(2)) (simp add: m)
  moreover have "ec_counter (evs ?s' ! i) = ?c" using ev(3) by (simp add: act_ev_def)
  ultimately show ?thesis by (intro exI [of _ ?s'] conjI) (simp_all add: m)
qed

lemma saturating_step:
  fixes F :: int
  assumes "0 < inc" "0 \<le> k"
  shows "min F (max (min F (max a b + inc)) b + k) = min F (max a b + (k + inc))"
    "min F (min F (a + inc) + k) = min F (a + (k + inc))"
  using assms by (auto simp: min_def max_def)

text \<open>
  C10: Reports that an event may be failing count up its counter by the configured step, from the
  jump-up value if that is set and higher, and never past the failed threshold: after \<open>n\<close> reports
  it stands at the minimum of the two. The event is qualified as failed exactly when the threshold
  is reached, so a monitor that keeps reporting gets there, and then its status byte says so; no
  failure of the store and no configuration of other events changes this.
\<close>

theorem prefailed_reports:
  assumes "active ref i s" "ec_debounceType (evs s ! i) = DEBOUNCE_COUNTER_BASED" "event_ok (evs s ! i)"
    "ec_fault (evs s ! i) \<noteq> EV_FAILED" "0 < n"
  shows "\<exists>s'. reports cf ref EV_PREFAILED n s = Inr s' \<and>
    ec_debounceCounter (evs s' ! i) = min (cc_failedThreshold (ec_counter (evs s ! i)))
      (jump_start (evs s ! i) + int n * cc_incrementStepSize (ec_counter (evs s ! i))) \<and>
    (ec_fault (evs s' ! i) = EV_FAILED \<longleftrightarrow> cc_failedThreshold (ec_counter (evs s ! i)) \<le>
      jump_start (evs s ! i) + int n * cc_incrementStepSize (ec_counter (evs s ! i))) \<and>
    (ec_fault (evs s' ! i) = EV_FAILED \<longrightarrow> ec_uds (evs s' ! i) AND UDS_TF \<noteq> 0)"
proof -
  let ?c = "ec_counter (evs s ! i)"
  have c: "counting i s" using assms(2,3) by (simp add: counting_def event_ok_def counter_ok_def)
  have inc: "0 < cc_incrementStepSize ?c" using c by (simp add: counting_def counter_bounds)
  have run: "\<exists>s'. reports cf ref EV_PREFAILED n s = Inr s' \<and> active ref i s' \<and> counting i s' \<and>
      ec_counter (evs s' ! i) = ec_counter (evs s ! i) \<and>
      (0 < n \<longrightarrow> ec_debounceCounter (evs s' ! i) = min (cc_failedThreshold (ec_counter (evs s ! i)))
        (jump_start (evs s ! i) + int n * cc_incrementStepSize (ec_counter (evs s ! i))) \<and>
        (ec_fault (evs s' ! i) = EV_FAILED \<longleftrightarrow>
          ec_debounceCounter (evs s' ! i) = cc_failedThreshold (ec_counter (evs s ! i))) \<and>
        (ec_fault (evs s' ! i) = EV_FAILED \<longrightarrow> bit (ec_uds (evs s' ! i)) 0))"
    if "active ref i s" "counting i s" "ec_fault (evs s ! i) = EV_FAILED \<Longrightarrow> bit (ec_uds (evs s ! i)) 0" for s n
    using that
  proof (induction n arbitrary: s)
    case (Suc n)
    let ?c = "ec_counter (evs s ! i)"
    obtain t where t: "diag_do cf (Report ref EV_PREFAILED []) s = Inr t" "active ref i t" "counting i t"
      "ec_counter (evs t ! i) = ?c"
      "ec_debounceCounter (evs t ! i) = min (cc_failedThreshold ?c) (jump_start (evs s ! i) + cc_incrementStepSize ?c)"
      "ec_fault (evs t ! i) = EV_FAILED \<longleftrightarrow> ec_debounceCounter (evs t ! i) = cc_failedThreshold ?c"
      "ec_fault (evs t ! i) = EV_FAILED \<longrightarrow> bit (ec_uds (evs t ! i)) 0"
      using prefailed_report [OF Suc.prems] by blast
    have inc: "0 < cc_incrementStepSize ?c" using Suc.prems(2) by (simp add: counting_def counter_bounds)
    have j: "min (cc_failedThreshold ?c) (jump_start (evs t ! i) + int n * cc_incrementStepSize ?c) =
        min (cc_failedThreshold ?c) (jump_start (evs s ! i) + int (Suc n) * cc_incrementStepSize ?c)"
    proof -
      have "int (Suc n) * cc_incrementStepSize ?c =
          int n * cc_incrementStepSize ?c + cc_incrementStepSize ?c" by (simp add: algebra_simps)
      moreover have "0 \<le> int n * cc_incrementStepSize ?c" using inc by simp
      ultimately show ?thesis
        using saturating_step [OF inc] t(4,5) by (simp add: jump_start_def)
    qed
    show ?case
      using Suc.IH [OF t(2,3)] t j by (cases n) auto
  qed simp
  show ?thesis
    using run [OF assms(1) c, of n] assms(4,5) by (auto simp: status_simps min_def)
qed

theorem prefailed_reports_witness:
  "\<exists>s'. reports sample_cfg (Some 0) EV_PREFAILED 4 sample_active = Inr s' \<and>
     ec_fault (evs s' ! 0) = EV_FAILED \<and> ec_uds (evs s' ! 0) AND UDS_TF \<noteq> 0"
proof -
  have "active (Some 0) 0 sample_active" by code_simp
  moreover have "ec_debounceType (evs sample_active ! 0) = DEBOUNCE_COUNTER_BASED" by code_simp
  moreover have "event_ok (evs sample_active ! 0)" by code_simp
  moreover have "ec_fault (evs sample_active ! 0) \<noteq> EV_FAILED" by code_simp
  moreover have "cc_failedThreshold (ec_counter (evs sample_active ! 0)) \<le>
      jump_start (evs sample_active ! 0) + 4 * cc_incrementStepSize (ec_counter (evs sample_active ! 0))"
    by code_simp
  ultimately show ?thesis
    using prefailed_reports [of "Some 0" 0 sample_active 4 sample_cfg] by auto
qed

section \<open>Debouncing by time\<close>

text \<open>The value the counter takes when a status is qualified, and the timer that leads to it.\<close>

definition qualified_value :: "StatusType \<Rightarrow> int" where
  "qualified_value status = (if status = EV_PREFAILED then MAX_FAULT_DETECTION_COUNTER else MIN_FAULT_DETECTION_COUNTER)"

definition timer_for :: "StatusType \<Rightarrow> TimerType" where
  "timer_for status = (if status = EV_PREFAILED then TIMER_PREFAILED else TIMER_PREPASSED)"

lemma passed_bit: "\<not> bit (passed_status st) 0"
  by (simp add: status_ops)

lemma pre_report:
  assumes act: "active ref i s" and t: "ec_debounceType (evs s ! i) = DEBOUNCE_TIME_BASED"
    and ok: "event_ok (evs s ! i)" and st: "status = EV_PREFAILED \<or> status = EV_PREPASSED"
    and arm: "ec_timerRuns (evs s ! i) \<or> ec_debounceCounter (evs s ! i) \<noteq> qualified_value status"
  shows "\<exists>s'. diag_do cf (Report ref status []) s = Inr s' \<and> active ref i s' \<and>
    ec_debounceType (evs s' ! i) = DEBOUNCE_TIME_BASED \<and> event_ok (evs s' ! i) \<and>
    ec_timerRuns (evs s' ! i) \<and> ec_timerType (evs s' ! i) = timer_for status \<and>
    ec_fault (evs s' ! i) = status \<and> clock s' = clock s \<and>
    (ec_timerType (evs s ! i) = timer_for status \<and> ec_timerRuns (evs s ! i) \<or>
      ec_startTime (evs s' ! i) = clock s)"
proof -
  let ?e = "evs s ! i"
  define s2 where "s2 = triggerSnapshot i ON_EVERY_TEST_FAILED (upd_ev i (\<lambda>e. e\<lparr>ec_faultCode := []\<rparr>) s)"
  define s3 where "s3 = snd (DebounceEvent i status s2)"
  have i: "i < length (evs s)" and d: "dtcs_distinct s" using act by (simp_all add: active_def)
  have z: "ec_timerRuns ?e \<Longrightarrow> ec_debounceCounter ?e = 0"
    using ok t by (simp add: event_ok_def counter_ok_def)
  have deb: "fst (DebounceEvent i status s2) = le_OK" and len: "length (evs s3) = length (evs s)"
    and c3: "clock s3 = clock s"
    and f3: "ec_fault (evs s3 ! i) = status" "ec_timerRuns (evs s3 ! i)"
      "ec_timerType (evs s3 ! i) = timer_for status"
      "ec_timerType ?e = timer_for status \<and> ec_timerRuns ?e \<or> ec_startTime (evs s3 ! i) = clock s"
    using st t i arm z
    by (auto simp: DebounceEvent_def DebounceTimeBased_def time_report_def start_debounce_timer_def s2_def s3_def
        Let_def qualified_value_def timer_for_def time_fault_def MAX_FAULT_DETECTION_COUNTER_def
        MIN_FAULT_DETECTION_COUNTER_def upd_ev_def triggerSnapshot_def out_def)
  have "act_view s2 = act_view s" by (simp add: s2_def act_upd_ev act_ev_def)
  then have a3: "act_view s3 = act_view s" using act_Debounce by (simp add: s3_def)
  have s': "snd (apply_fault old i s3) = s3" for old
    using st f3(1) by (auto simp: apply_fault_def)
  have "diag_do cf (Report ref status []) s = Inr s3"
    using report_active [OF act] deb st s' by (auto simp: s2_def s3_def Let_def case_prod_beta)
  moreover have "active ref i s3" by (rule active_view [OF a3 act])
  moreover have "act_ev (evs s3 ! i) = act_ev ?e"
    using arg_cong [OF a3, of "\<lambda>v. snd (snd (snd v)) ! i"] i len by (simp add: act_view_def)
  then have "ec_debounceType (evs s3 ! i) = DEBOUNCE_TIME_BASED" using t by (simp add: act_ev_def)
  moreover have "event_ok (evs s3 ! i)"
  proof -
    have "evs s3 ! i = (case time_report status (clock s) (?e\<lparr>ec_faultCode := []\<rparr>) of None \<Rightarrow> ?e
        | Some e \<Rightarrow> e\<lparr>ec_fault := time_fault (ec_debounceCounter e) status\<rparr>)"
      using st t i by (auto simp: s3_def s2_def DebounceEvent_def DebounceTimeBased_def upd_ev_def
          triggerSnapshot_def out_def split: option.split) (simp add: time_report_def)+
    moreover have "event_ok (?e\<lparr>ec_faultCode := []\<rparr>)" using ok by (rule event_ok_update)
    ultimately show ?thesis
      using ok t by (auto split: option.split intro!: event_ok_update dest: event_ok_time [rotated 2])
  qed
  ultimately show ?thesis using f3 c3 by blast
qed

lemma pre_reports:
  assumes "active ref i s" "ec_debounceType (evs s ! i) = DEBOUNCE_TIME_BASED" "event_ok (evs s ! i)"
    "status = EV_PREFAILED \<or> status = EV_PREPASSED"
    "ec_timerRuns (evs s ! i) \<and> ec_timerType (evs s ! i) = timer_for status"
    "ec_fault (evs s ! i) = status"
  shows "\<exists>s'. reports cf ref status n s = Inr s' \<and> active ref i s' \<and> event_ok (evs s' ! i) \<and>
    ec_timerRuns (evs s' ! i) \<and> ec_timerType (evs s' ! i) = timer_for status \<and>
    ec_fault (evs s' ! i) = status"
  using assms
proof (induction n arbitrary: s)
  case (Suc n)
  obtain t where t: "diag_do cf (Report ref status []) s = Inr t" "active ref i t"
    "ec_debounceType (evs t ! i) = DEBOUNCE_TIME_BASED" "event_ok (evs t ! i)"
    "ec_timerRuns (evs t ! i)" "ec_timerType (evs t ! i) = timer_for status" "ec_fault (evs t ! i) = status"
    using pre_report [OF Suc.prems(1-4), of cf] Suc.prems(5) by blast
  show ?case
    using Suc.IH [OF t(2-4) Suc.prems(4)] t by simp
qed auto

text \<open>
  C17: A report that a time-based event may be failing (or may be passing again) arms the debounce
  timer for that result unless the result is qualified already; any number of further reports of
  the same kind leaves it armed for it; and when it expires, the event is qualified as failed (as
  passed), its counter takes the extreme value, and the "test failed" bit of its status follows.
\<close>

theorem time_debounce:
  assumes "active ref i s" "ec_debounceType (evs s ! i) = DEBOUNCE_TIME_BASED" "event_ok (evs s ! i)"
    "status = EV_PREFAILED \<or> status = EV_PREPASSED"
    "ec_timerRuns (evs s ! i) \<or> ec_debounceCounter (evs s ! i) \<noteq> qualified_value status" "0 < n"
  shows "\<exists>s'. reports cf ref status n s = Inr s' \<and> ec_timerRuns (evs s' ! i) \<and>
    ec_fault (evs (debounce_expires i s') ! i) = (if status = EV_PREFAILED then EV_FAILED else EV_PASSED) \<and>
    ec_debounceCounter (evs (debounce_expires i s') ! i) = qualified_value status \<and>
    (ec_uds (evs (debounce_expires i s') ! i) AND UDS_TF \<noteq> 0 \<longleftrightarrow> status = EV_PREFAILED)"
proof -
  obtain m where n: "n = Suc m" using assms(6) by (cases n) auto
  obtain t where t: "diag_do cf (Report ref status []) s = Inr t" "active ref i t"
    "ec_debounceType (evs t ! i) = DEBOUNCE_TIME_BASED" "event_ok (evs t ! i)"
    "ec_timerRuns (evs t ! i)" "ec_timerType (evs t ! i) = timer_for status" "ec_fault (evs t ! i) = status"
    using pre_report [OF assms(1-5), of cf] by blast
  obtain u where u: "reports cf ref status m t = Inr u" "active ref i u" "ec_timerRuns (evs u ! i)"
    "ec_timerType (evs u ! i) = timer_for status" "ec_fault (evs u ! i) = status"
    using pre_reports [OF t(2-4) assms(4), of cf m] t(5-7) by blast
  have "i < length (evs u)" using u(2) by (simp add: active_def)
  then have "ec_fault (evs (debounce_expires i u) ! i) = (if status = EV_PREFAILED then EV_FAILED else EV_PASSED) \<and>
    ec_debounceCounter (evs (debounce_expires i u) ! i) = qualified_value status \<and>
    (ec_uds (evs (debounce_expires i u) ! i) AND UDS_TF \<noteq> 0 \<longleftrightarrow> status = EV_PREFAILED)"
    using assms(4) u(4,5)
    by (auto simp: debounce_expires_def TimeBasedDebounceTimerHandler_def Let_def timer_for_def
        qualified_value_def status_simps failed_bit passed_bit fail_event_def)
  then show ?thesis using t(1) u(1,3) by (auto simp: n)
qed

definition sample_timer :: diag where
  "sample_timer = snd (GetService 2 5 sample_active)"

theorem time_debounce_witness:
  "\<exists>s'. reports sample_cfg (Some 2) EV_PREFAILED 3 sample_timer = Inr s' \<and> ec_timerRuns (evs s' ! 1) \<and>
     ec_fault (evs (debounce_expires 1 s') ! 1) = EV_FAILED"
proof -
  have "active (Some 2) 1 sample_timer" by code_simp
  moreover have "ec_debounceType (evs sample_timer ! 1) = DEBOUNCE_TIME_BASED" by code_simp
  moreover have "event_ok (evs sample_timer ! 1)" by code_simp
  moreover have "ec_debounceCounter (evs sample_timer ! 1) \<noteq> qualified_value EV_PREFAILED" by code_simp
  ultimately show ?thesis
    using time_debounce [of "Some 2" 1 sample_timer EV_PREFAILED 3 sample_cfg] by auto
qed

section \<open>Confirmation\<close>

text \<open>
  The life of an event between two clears, as a sequence of qualified results and starts of its
  operation cycle, and the number of cycles in it with a failure.
\<close>

datatype ev_step = Fails | Passes | NewCycle

fun ev_apply :: "ev_step \<Rightarrow> EventCtx \<Rightarrow> EventCtx" where
  "ev_apply Fails e = fail_event e"
| "ev_apply Passes e = e\<lparr>ec_uds := passed_status (ec_uds e)\<rparr>"
| "ev_apply NewCycle e = cycle_start_event e"

fun failed_cycles :: "bool \<Rightarrow> ev_step list \<Rightarrow> nat" where
  "failed_cycles failed [] = 0"
| "failed_cycles failed (Fails # xs) = (if failed then 0 else 1) + failed_cycles True xs"
| "failed_cycles failed (Passes # xs) = failed_cycles failed xs"
| "failed_cycles failed (NewCycle # xs) = failed_cycles False xs"

definition counts :: "nat \<Rightarrow> nat \<Rightarrow> bool \<Rightarrow> EventCtx \<Rightarrow> bool" where
  "counts t k failed e \<longleftrightarrow> unat (ec_confirmationThreshold e) = t \<and> bit (ec_uds e) 1 = failed \<and>
     bit (ec_uds e) 3 = (t \<le> k) \<and> unat (ec_failureCounter e) = k mod t"

lemma cycle_start_fields [simp]:
  "ec_uds (cycle_start_event e) = cycle_start_status (ec_uds e)"
  "ec_failureCounter (cycle_start_event e) = ec_failureCounter e"
  "ec_confirmationThreshold (cycle_start_event e) = ec_confirmationThreshold e"
  by (simp_all add: cycle_start_event_def cycle_start_status_def ResetDebounce_def Let_def)

lemma counts_fail:
  assumes t: "0 < t" and c: "counts t k failed e"
  shows "counts t (k + (if failed then 0 else 1)) True (fail_event e)"
proof -
  have lt: "unat (ec_failureCounter e) < t" "t \<le> 255"
    using t c unsigned_less [where 'a = nat and w = "ec_confirmationThreshold e"] by (auto simp: counts_def)
  have nle: "\<not> ec_confirmationThreshold e \<le> ec_failureCounter e"
    using lt(1) c by (simp add: word_le_nat_alt counts_def)
  show ?thesis
  proof (cases failed)
    case True
    then show ?thesis
      using c nle by (auto simp: counts_def fail_event_def Let_def status_ops)
  next
    case False
    have m: "ec_failureCounter e < MAX_TEST_FAILURE_COUNTER"
      using lt by (simp add: word_less_nat_alt MAX_TEST_FAILURE_COUNTER_def)
    have u: "unat (ec_failureCounter e + 1) = unat (ec_failureCounter e) + 1"
      using lt by (subst unat_plus_simple [THEN iffD1]) (simp_all add: word_le_nat_alt unat_word_ariths)
    have le: "ec_confirmationThreshold e \<le> ec_failureCounter e + 1 \<longleftrightarrow> t = k mod t + 1"
      using lt c u by (auto simp: word_le_nat_alt counts_def)
    have s: "(k + 1) mod t = (if t = k mod t + 1 then 0 else k mod t + 1)"
      "t \<le> k + 1 \<longleftrightarrow> t = k mod t + 1 \<or> t \<le> k"
    proof -
      show "(k + 1) mod t = (if t = k mod t + 1 then 0 else k mod t + 1)"
        using mod_Suc [of k t] by (simp add: eq_commute)
      have "k < t \<Longrightarrow> k mod t = k" by simp
      then show "t \<le> k + 1 \<longleftrightarrow> t = k mod t + 1 \<or> t \<le> k"
        using mod_less_eq_dividend [of k t] by linarith
    qed
    show ?thesis
    proof (cases "t = k mod t + 1")
      case True
      then have "fail_event e = e\<lparr>ec_uds := failed_status (ec_uds e) OR UDS_CDTC, ec_failureCounter := 0\<rparr>"
        using c False m le by (simp add: counts_def fail_event_def Let_def status_simps)
      then show ?thesis using c False True s by (simp add: counts_def status_ops)
    next
      case nt: False
      then have "fail_event e =
          e\<lparr>ec_uds := failed_status (ec_uds e), ec_failureCounter := ec_failureCounter e + 1\<rparr>"
        using c False m le by (simp add: counts_def fail_event_def Let_def status_simps)
      then show ?thesis using c False nt u s by (simp add: counts_def status_ops)
    qed
  qed
qed

lemma counts_run:
  "0 < t \<Longrightarrow> counts t k failed e \<Longrightarrow>
   \<exists>b. counts t (k + failed_cycles failed xs) b (fold ev_apply xs e)"
proof (induction xs arbitrary: k failed e)
  case (Cons x xs)
  show ?case
  proof (cases x)
    case Fails
    then show ?thesis
      using Cons.IH [OF Cons.prems(1) counts_fail [OF Cons.prems]] by (simp add: add.assoc)
  next
    case Passes
    have "counts t k failed (e\<lparr>ec_uds := passed_status (ec_uds e)\<rparr>)"
      using Cons.prems by (simp add: counts_def status_ops)
    then show ?thesis using Passes Cons.IH [OF Cons.prems(1)] by simp
  next
    case NewCycle
    have "counts t k False (cycle_start_event e)"
      using Cons.prems by (simp add: counts_def status_ops)
    then show ?thesis using NewCycle Cons.IH [OF Cons.prems(1)] by simp
  qed
qed auto

text \<open>
  C11: From a clear on, a DTC's event is confirmed exactly when the number of operation cycles in
  which it failed at least once has reached its confirmation threshold, whatever the order of
  failures, passes and cycles: repeated failures within a cycle count once, and a confirmation is
  not lost again.
\<close>

theorem confirmed_at_threshold:
  assumes "ec_uds e = cleared_status" "ec_failureCounter e = 0" "ec_confirmationThreshold e \<noteq> 0"
  shows "ec_uds (fold ev_apply xs e) AND UDS_CDTC \<noteq> 0 \<longleftrightarrow>
    unat (ec_confirmationThreshold e) \<le> failed_cycles False xs"
proof -
  have t: "0 < unat (ec_confirmationThreshold e)" using assms(3) by (simp add: unat_gt_0)
  have "counts (unat (ec_confirmationThreshold e)) 0 False e"
    using assms t by (simp add: counts_def status_ops)
  from counts_run [OF t this, of xs] show ?thesis by (auto simp: counts_def status_simps)
qed

theorem confirmed_at_threshold_witness:
  "\<exists>e. ec_uds (fold ev_apply [Fails, Fails, NewCycle, Passes, NewCycle, Fails, Passes] e) AND UDS_CDTC \<noteq> 0"
proof -
  let ?e = "(evs sample_start ! 1)\<lparr>ec_uds := cleared_status\<rparr>"
  have "ec_confirmationThreshold ?e = 2" "ec_failureCounter ?e = 0" by code_simp+
  then have "ec_uds (fold ev_apply [Fails, Fails, NewCycle, Passes, NewCycle, Fails, Passes] ?e) AND UDS_CDTC \<noteq> 0"
    by (subst confirmed_at_threshold) simp_all
  then show ?thesis by blast
qed

end
