(* ===== verification/Diag_DtcStatus.thy ===== *)
theory Diag_DtcStatus
  imports Diag_Debounce
begin

unbundle bit_operations_syntax

text \<open>
  The status of a DTC after a report on one of its events, what clearing a DTC does to it and its
  events and to nothing else, and what an enable condition does to the events that depend on it.
\<close>

section \<open>Joining the events of a DTC\<close>

text \<open>Whether some event of a list has a status bit set.\<close>

definition some_event :: "u16 list \<Rightarrow> nat \<Rightarrow> diag \<Rightarrow> bool" where
  "some_event ids k s \<longleftrightarrow> (\<exists>eid\<in>set ids. case GetEventCtxById eid s of None \<Rightarrow> False
     | Some i \<Rightarrow> bit (ec_uds (evs s ! i)) k)"

lemma bit_join: "bit (join_status ids s) k \<longleftrightarrow> some_event ids k s"
proof -
  have "bit (foldl (\<lambda>st eid. case GetEventCtxById eid s of None \<Rightarrow> st
     | Some i \<Rightarrow> st OR ec_uds (evs s ! i)) a ids) k \<longleftrightarrow> bit a k \<or> some_event ids k s" for a
  proof (induction ids arbitrary: a)
    case (Cons x xs)
    then show ?case
      by (cases "GetEventCtxById x s") (auto simp: some_event_def bit_or_iff)
  qed (simp add: some_event_def)
  then show ?thesis by (simp add: join_status_def)
qed

definition dtc_bit :: "u16 list \<Rightarrow> nat \<Rightarrow> diag \<Rightarrow> bool" where
  "dtc_bit ids k s \<longleftrightarrow> some_event ids k s \<and> (k = 4 \<longrightarrow> \<not> some_event ids 5 s) \<and>
     (k = 6 \<longrightarrow> \<not> some_event ids 1 s)"

lemma bit_mask: "bit (mask_completed (join_status ids s)) k \<longleftrightarrow> dtc_bit ids k s"
proof -
  have "bit (mask_completed st) k \<longleftrightarrow>
      bit st k \<and> (k = 4 \<longrightarrow> \<not> bit st 5) \<and> (k = 6 \<longrightarrow> \<not> bit st 1)" for st
    using bit_byte_less [of st k] by (auto simp: mask_completed_def Let_def bit_and_iff status_simps)
  then show ?thesis by (simp add: bit_join dtc_bit_def)
qed

section \<open>The context of the DTC after an update\<close>

lemma dtcs_simps [simp]:
  "dtcs (out xs s) = dtcs s" "dtcs (upd_ev i f s) = dtcs s" "dtcs (triggerSnapshot i t s) = dtcs s"
  "dtcs (ReportEventUdsStatus i s) = dtcs s" "dtcs (ReportDtcStatus code st s) = dtcs s"
  "dtcs (snd (on_store op s)) = dtcs s" "dtcs (set_counter i n s) = dtcs s"
  by (simp_all add: out_def upd_ev_def triggerSnapshot_def ReportEventUdsStatus_def ReportDtcStatus_def
      on_store_def set_counter_def split: option.split prod.split)

lemma dtcs_store [simp]:
  "dtcs (snd (StoreAndReportEventUdsStatus i s)) = dtcs s"
  "dtcs (snd (StoreAndReportDTCStatus d s)) = dtcs s" "dtcs (TriggerSnapshotData old i s) = dtcs s"
  by (simp_all add: StoreAndReportEventUdsStatus_def StoreAndReportDTCStatus_def TriggerSnapshotData_def
      Let_def case_prod_beta)

lemma dtcs_Debounce [simp]: "dtcs (snd (DebounceEvent i status s)) = dtcs s"
proof -
  have "dtcs (snd (DebounceCounterBased i status s)) = dtcs s"
    by (cases status) (simp_all add: DebounceCounterBased_def Let_def)
  then show ?thesis
    by (cases "ec_debounceType (evs s ! i)")
      (simp_all add: DebounceEvent_def DebounceTimeBased_def split: option.split)
qed

lemma GetDtcCtxByCode_upd:
  "GetDtcCtxByCode code s = Some d \<Longrightarrow> dc_code (f d) = dc_code d \<Longrightarrow>
   GetDtcCtxByCode code (upd_dtc code f s) = Some (f d)"
proof -
  have "find (\<lambda>d. dc_code d = code) ds = Some d \<Longrightarrow> dc_code (f d) = dc_code d \<Longrightarrow>
    find (\<lambda>d. dc_code d = code) (map (\<lambda>d. if dc_code d = code then f d else d) ds) = Some (f d)" for ds
    by (induction ds) (auto split: if_splits)
  then show "GetDtcCtxByCode code s = Some d \<Longrightarrow> dc_code (f d) = dc_code d \<Longrightarrow>
    GetDtcCtxByCode code (upd_dtc code f s) = Some (f d)"
    by (simp add: GetDtcCtxByCode_def upd_dtc_def)
qed

lemma GetDtcCtxByCode_cong: "dtcs s' = dtcs s \<Longrightarrow> GetDtcCtxByCode code s' = GetDtcCtxByCode code s"
  by (simp add: GetDtcCtxByCode_def)

lemma GetDtcCtxByCode_simps [simp]:
  "GetDtcCtxByCode code (snd (on_store op s)) = GetDtcCtxByCode code s"
  "GetDtcCtxByCode code (ReportDtcStatus c st s) = GetDtcCtxByCode code s"
  "GetDtcCtxByCode code (snd (StoreAndReportDTCStatus d s)) = GetDtcCtxByCode code s"
  by (rule GetDtcCtxByCode_cong; simp)+

text \<open>An update of the DTC, whatever its result.\<close>

lemma UpdateDtc_status:
  assumes d: "GetDtcCtxByCode code s = Some d"
  shows "\<exists>d'. GetDtcCtxByCode code (snd (UpdateDtcOnFailed (Some code) s)) = Some d' \<and>
      dc_status d' = mask_completed (join_status (dc_events d) s) \<and> dc_events d' = dc_events d"
    "\<exists>d'. GetDtcCtxByCode code (snd (UpdateDtcOnPassed (Some code) s)) = Some d' \<and>
      dc_status d' = mask_completed (join_status (dc_events d) s) \<and> dc_events d' = dc_events d"
proof -
  have c: "dc_code d = code" using GetDtcCtxByCode_Some [OF d] by simp
  have u: "dc_code d' = dc_code d \<Longrightarrow> GetDtcCtxByCode code (upd_dtc code (\<lambda>_. d') s) = Some d'" for d'
    using GetDtcCtxByCode_upd [OF d, of "\<lambda>_. d'"] by simp
  show "\<exists>d'. GetDtcCtxByCode code (snd (UpdateDtcOnFailed (Some code) s)) = Some d' \<and>
      dc_status d' = mask_completed (join_status (dc_events d) s) \<and> dc_events d' = dc_events d"
    by (auto simp: UpdateDtcOnFailed_def d c Let_def case_prod_beta u)
  show "\<exists>d'. GetDtcCtxByCode code (snd (UpdateDtcOnPassed (Some code) s)) = Some d' \<and>
      dc_status d' = mask_completed (join_status (dc_events d) s) \<and> dc_events d' = dc_events d"
    by (auto simp: UpdateDtcOnPassed_def d c Let_def case_prod_beta u)
qed

lemma some_event_cong: "evs s' = evs s \<Longrightarrow> some_event ids k s' = some_event ids k s"
  by (simp add: some_event_def GetEventCtxById_def cong: option.case_cong)

lemma UpdateEvent_dtc:
  assumes c: "ec_dtcCtx (evs s ! i) = Some code" and i: "i < length (evs s)"
    and d: "GetDtcCtxByCode code s = Some d"
  shows "fst (UpdateEventOnFailed i s) = le_OK \<Longrightarrow>
      \<exists>d'. GetDtcCtxByCode code (snd (UpdateEventOnFailed i s)) = Some d' \<and>
        (\<forall>k. bit (dc_status d') k = dtc_bit (dc_events d') k (snd (UpdateEventOnFailed i s)))"
    "fst (UpdateEventOnPassed i s) = le_OK \<Longrightarrow>
      \<exists>d'. GetDtcCtxByCode code (snd (UpdateEventOnPassed i s)) = Some d' \<and>
        (\<forall>k. bit (dc_status d') k = dtc_bit (dc_events d') k (snd (UpdateEventOnPassed i s)))"
proof -
  have step: "\<exists>d'. GetDtcCtxByCode code s' = Some d' \<and> (\<forall>k. bit (dc_status d') k = dtc_bit (dc_events d') k s')"
    if t: "dtcs t = dtcs s" and s': "s' = snd (UpdateDtcOnFailed (Some code) t) \<or> s' = snd (UpdateDtcOnPassed (Some code) t)"
    for s' t
  proof -
    have "GetDtcCtxByCode code t = Some d" using d GetDtcCtxByCode_cong [OF t] by simp
    then have "\<exists>d'. GetDtcCtxByCode code s' = Some d' \<and>
        dc_status d' = mask_completed (join_status (dc_events d) t) \<and> dc_events d' = dc_events d"
      using UpdateDtc_status [of code t d] s' by (elim disjE) simp_all
    moreover have "evs s' = evs t" using s' by (elim disjE) simp_all
    then have "dtc_bit ids k s' = dtc_bit ids k t" for ids k
      by (simp add: dtc_bit_def some_event_cong [of s' t])
    ultimately show ?thesis by (auto simp: bit_mask)
  qed
  note steps = step [OF _ disjI1 [OF refl]] step [OF _ disjI2 [OF refl]]
  have f: "ec_dtcCtx (fail_event e) = ec_dtcCtx e" for e by (simp add: fail_event_def Let_def)
  show "fst (UpdateEventOnFailed i s) = le_OK \<Longrightarrow>
      \<exists>d'. GetDtcCtxByCode code (snd (UpdateEventOnFailed i s)) = Some d' \<and>
        (\<forall>k. bit (dc_status d') k = dtc_bit (dc_events d') k (snd (UpdateEventOnFailed i s)))"
    using i c by (auto simp: UpdateEventOnFailed_def Let_def case_prod_beta f split: if_splits intro!: steps)
  show "fst (UpdateEventOnPassed i s) = le_OK \<Longrightarrow>
      \<exists>d'. GetDtcCtxByCode code (snd (UpdateEventOnPassed i s)) = Some d' \<and>
        (\<forall>k. bit (dc_status d') k = dtc_bit (dc_events d') k (snd (UpdateEventOnPassed i s)))"
    using i c by (auto simp: UpdateEventOnPassed_def Let_def case_prod_beta split: if_splits intro!: steps)
qed

lemma evs_Debounce_other:
  assumes "i < length (evs s)"
  shows "length (evs (snd (DebounceEvent i status s))) = length (evs s)"
    "ec_dtcCtx (evs (snd (DebounceEvent i status s)) ! i) = ec_dtcCtx (evs s ! i)"
proof -
  have e: "map act_ev (evs (snd (DebounceEvent i status s))) = map act_ev (evs s)"
    using act_Debounce [of i status s] by (simp add: act_view_def)
  then show len: "length (evs (snd (DebounceEvent i status s))) = length (evs s)"
    using map_eq_imp_length_eq by blast
  show "ec_dtcCtx (evs (snd (DebounceEvent i status s)) ! i) = ec_dtcCtx (evs s ! i)"
    using arg_cong [OF e, of "\<lambda>xs. xs ! i"] assms len by (simp add: act_ev_def)
qed

text \<open>
  C16: When a report is answered with \<open>LE_OK\<close> and qualifies its event as failed or as passed for the
  first time since the opposite result, the status of the event's DTC is the join of the status
  bytes of all its events: a bit is set if some event has it set, except that the DTC does not
  count as "not completed" since the last clear (in this cycle) when some event has failed since
  then (in this cycle).
\<close>

theorem report_joins_dtc:
  assumes "SetStatusWithSupplierFaultCode cf ref status code s = Inr (le_OK, s')"
    "GetEventCtx ref s = Some i" "i < length (evs s)"
    "ec_fault (evs s' ! i) \<noteq> ec_fault (evs s ! i)"
    "ec_fault (evs s' ! i) = EV_FAILED \<or> ec_fault (evs s' ! i) = EV_PASSED"
  shows "\<exists>c d. ec_dtcCtx (evs s ! i) = Some c \<and> GetDtcCtxByCode c s' = Some d \<and>
    (\<forall>k. bit (dc_status d) k \<longleftrightarrow> dtc_bit (dc_events d) k s')"
proof -
  let ?s2 = "triggerSnapshot i ON_EVERY_TEST_FAILED (upd_ev i (\<lambda>e. e\<lparr>ec_faultCode := code\<rparr>) s)"
  define s3 where "s3 = snd (DebounceEvent i status ?s2)"
  have chk: "CheckEventCondition (evs s ! i) s = le_OK" and deb: "fst (DebounceEvent i status ?s2) = le_OK"
    and res: "apply_fault (ec_fault (evs s ! i)) i s3 = (le_OK, s')"
    using assms(1,2)
    by (auto simp: SetStatusWithSupplierFaultCode_def Let_def case_prod_beta s3_def split: if_splits)
  obtain c d where c: "ec_dtcCtx (evs s ! i) = Some c" and d: "GetDtcCtxByCode c s = Some d"
    using chk by (auto simp: CheckEventCondition_def bind_eq_Some_conv split: option.splits if_splits)
  have c3: "ec_dtcCtx (evs s3 ! i) = Some c" and len: "i < length (evs s3)"
    using evs_Debounce_other [of i ?s2 status] assms(3) c by (simp_all add: s3_def)
  have d3: "GetDtcCtxByCode c s3 = Some d"
    using d GetDtcCtxByCode_cong [of s3 s c] by (simp add: s3_def)
  have evs': "evs s' = evs (snd (apply_fault (ec_fault (evs s ! i)) i s3))" using res by simp
  then have f: "ec_fault (evs s' ! i) = ec_fault (evs s3 ! i)"
    using len by (simp add: evs_apply_fault fail_event_def Let_def)
  consider "UpdateEventOnFailed i s3 = (le_OK, s')" | "UpdateEventOnPassed i s3 = (le_OK, s')"
    using res f assms(4,5) by (auto simp: apply_fault_def)
  then have "\<exists>d. GetDtcCtxByCode c s' = Some d \<and> (\<forall>k. bit (dc_status d) k = dtc_bit (dc_events d) k s')"
    by cases (use UpdateEvent_dtc [OF c3 len d3] in auto)
  then show ?thesis using c by blast
qed

definition sample_ref2 :: diag where
  "sample_ref2 = snd (SetOperCycleState (Some 1) CYCLE_START
     (snd (GetOperCycle 1 5 (snd (SetEnableCondition sample_cfg 7 True (snd (GetService 3 5 sample_start)))))))"

theorem report_joins_dtc_witness:
  "\<exists>s' c d. SetStatusWithSupplierFaultCode sample_cfg (Some 0) EV_FAILED [9] sample_ref2 = Inr (le_OK, s') \<and>
     GetDtcCtxByCode c s' = Some d \<and> (bit (dc_status d) 0 \<longleftrightarrow> dtc_bit (dc_events d) 0 s')"
proof -
  let ?r = "SetStatusWithSupplierFaultCode sample_cfg (Some 0) EV_FAILED [9] sample_ref2"
  have "map_sum id fst ?r = Inr le_OK" by code_simp
  then obtain s' where r: "?r = Inr (le_OK, s')" by (cases ?r) auto
  have "map_sum id (\<lambda>x. ec_fault (evs (snd x) ! 2)) ?r = Inr EV_FAILED" by code_simp
  then have f: "ec_fault (evs s' ! 2) = EV_FAILED" using r by simp
  have "GetEventCtx (Some 0) sample_ref2 = Some 2" "length (evs sample_ref2) = 3"
    "ec_fault (evs sample_ref2 ! 2) \<noteq> EV_FAILED" by code_simp+
  then show ?thesis using report_joins_dtc [OF r, of 2] f r by auto
qed

section \<open>Clearing a DTC\<close>

definition cleared_event :: "EventCtx \<Rightarrow> bool" where
  "cleared_event e \<longleftrightarrow> ec_uds e = cleared_status \<and> ec_failureCounter e = 0 \<and> ec_fault e = EV_UNKNOWN \<and>
     ec_debounceCounter e = 0 \<and> (ec_debounceType e = DEBOUNCE_TIME_BASED \<longrightarrow> \<not> ec_timerRuns e)"

lemma evs_clear_event:
  "evs (clear_event i s) = (evs s)[i := ResetDebounce ((evs s ! i)\<lparr>ec_uds := cleared_status,
     ec_failureCounter := 0, ec_fault := EV_UNKNOWN\<rparr>)]"
  by (cases "i < length (evs s)")
    (auto simp: clear_event_def ResetDebounceCounter_def Let_def case_prod_beta list_update_beyond)

lemma ids_clear_event: "map ec_eventId (evs (clear_event i s)) = map ec_eventId (evs s)"
  unfolding evs_clear_event by (rule map_list_update_same) (simp add: ResetDebounce_def Let_def)

lemma find_index_of_map: "find_index (\<lambda>e. f e = k) xs = find_index (\<lambda>x. x = k) (map f xs)"
  by (induction xs) auto

lemma GetEventCtxById_ids:
  "map ec_eventId (evs s') = map ec_eventId (evs s) \<Longrightarrow> GetEventCtxById eid s' = GetEventCtxById eid s"
  by (simp add: GetEventCtxById_def find_index_of_map [of ec_eventId])

lemma clear_event_id_ids: "map ec_eventId (evs (clear_event_id eid s)) = map ec_eventId (evs s)"
  by (simp add: clear_event_id_def ids_clear_event split: option.split)

lemma cleared_ResetDebounce:
  "cleared_event (ResetDebounce (e\<lparr>ec_uds := cleared_status, ec_failureCounter := 0, ec_fault := EV_UNKNOWN\<rparr>))"
  by (simp add: cleared_event_def ResetDebounce_def Let_def)

text \<open>Clearing the events of a list.\<close>

lemma clear_events:
  "map ec_eventId (evs (fold clear_event_id ids s)) = map ec_eventId (evs s) \<and>
   (\<forall>j<length (evs s). if \<exists>eid\<in>set ids. GetEventCtxById eid s = Some j
     then cleared_event (evs (fold clear_event_id ids s) ! j)
     else evs (fold clear_event_id ids s) ! j = evs s ! j)"
proof (induction ids arbitrary: s)
  case (Cons x ids)
  let ?t = "clear_event_id x s"
  have ids: "map ec_eventId (evs ?t) = map ec_eventId (evs s)" by (rule clear_event_id_ids)
  then have len: "length (evs ?t) = length (evs s)" using map_eq_imp_length_eq by blast
  have get: "GetEventCtxById eid ?t = GetEventCtxById eid s" for eid
    by (rule GetEventCtxById_ids [OF ids])
  have one: "if GetEventCtxById x s = Some j then cleared_event (evs ?t ! j) else evs ?t ! j = evs s ! j"
    if "j < length (evs s)" for j
    using that cleared_ResetDebounce
    by (auto simp: clear_event_id_def evs_clear_event nth_list_update split: option.split)
  show ?case
    using Cons.IH [of ?t] ids len one by (fastforce simp: get split: if_splits)
qed simp

lemma dtcs_clear_events [simp]: "dtcs (fold clear_event_id ids s) = dtcs s"
proof -
  have "dtcs (clear_event_id x s) = dtcs s" for x s
    by (simp add: clear_event_id_def clear_event_def ResetDebounceCounter_def Let_def case_prod_beta
        split: option.split)
  then show ?thesis by (induction ids arbitrary: s) simp_all
qed

lemma GetDtcCtxByCode_upd_other:
  "c \<noteq> code \<Longrightarrow> (\<And>d. dc_code (f d) = dc_code d) \<Longrightarrow>
   GetDtcCtxByCode c (upd_dtc code f s) = GetDtcCtxByCode c s"
proof -
  assume "c \<noteq> code" "\<And>d. dc_code (f d) = dc_code d"
  then have "find (\<lambda>d. dc_code d = c) (map (\<lambda>d. if dc_code d = code then f d else d) ds) =
      find (\<lambda>d. dc_code d = c) ds" for ds by (induction ds) auto
  then show ?thesis by (simp add: GetDtcCtxByCode_def upd_dtc_def)
qed

lemma report_clear_fields [simp]:
  "evs (ReportClearDtcStatus code s) = evs s" "dtcs (ReportClearDtcStatus code s) = dtcs s"
  by (simp_all add: ReportClearDtcStatus_def split: option.split)

text \<open>
  C18: A request to clear one DTC that is answered with \<open>LE_OK\<close> was for a DTC that is known and not
  suppressed. It resets the DTC's status and occurrence counter and, of each of its events, the
  status, the failure counter, the qualified result, the debounce counter and a running debounce
  timer; the contexts of all other events and DTCs are exactly as before.
\<close>

theorem clear_single_dtc:
  assumes "ClearDtc cf code client s = (le_OK, s')" "code \<noteq> ALL_DTC_GROUP"
  shows "\<exists>d d'. GetDtcCtxByCode code s = Some d \<and> \<not> dc_suppression d \<and>
    GetDtcCtxByCode code s' = Some d' \<and> dc_status d' = cleared_status \<and> dc_occurrence d' = 0 \<and>
    dc_events d' = dc_events d \<and>
    (\<forall>j<length (evs s). if \<exists>eid\<in>set (dc_events d). GetEventCtxById eid s = Some j
      then cleared_event (evs s' ! j) else evs s' ! j = evs s ! j) \<and>
    (\<forall>c. c \<noteq> code \<longrightarrow> GetDtcCtxByCode c s' = GetDtcCtxByCode c s)"
proof -
  obtain d where d: "GetDtcCtxByCode code s = Some d" "\<not> dc_suppression d"
    using assms by (auto simp: ClearDtc_def ClearSingleDtc_def Let_def split: option.splits if_splits)
  define s1 where "s1 = upd_dtc code (\<lambda>d. d\<lparr>dc_reqClient := client\<rparr>) s"
  define s2 where "s2 = snd (on_store (DeleteData (dg_dem cf) code) s1)"
  define d2 where "d2 = d\<lparr>dc_reqClient := client\<rparr>"
  define s3 where "s3 = upd_dtc code (\<lambda>d. d\<lparr>dc_occurrence := 0, dc_status := cleared_status\<rparr>) s2"
  define s4 where "s4 = snd (on_store (SetDTCStatus code cleared_status 0)
    (if cleared_status \<noteq> dc_status d2 then ReportDtcStatus code cleared_status s3 else s3))"
  have g2: "GetDtcCtxByCode code s2 = Some d2"
    using GetDtcCtxByCode_upd [OF d(1), of "\<lambda>d. d\<lparr>dc_reqClient := client\<rparr>"]
    by (simp add: s2_def s1_def d2_def)
  have s': "s' = ReportClearDtcStatus code (fold clear_event_id (dc_events d) s4)"
    using assms d g2
    by (auto simp: ClearDtc_def ClearSingleDtc_def ClearDTCAndEventData_def Let_def case_prod_beta
        s1_def [symmetric] s2_def [symmetric] s3_def [symmetric] s4_def d2_def split: if_splits)
  have e: "evs s4 = evs s" by (simp add: s4_def s3_def s2_def s1_def)
  then have "GetEventCtxById eid s4 = GetEventCtxById eid s" for eid
    by (simp add: GetEventCtxById_def)
  then have ev: "if \<exists>eid\<in>set (dc_events d). GetEventCtxById eid s = Some j
      then cleared_event (evs s' ! j) else evs s' ! j = evs s ! j" if "j < length (evs s)" for j
    using clear_events [of "dc_events d" s4] e that by (simp add: s')
  have "dtcs s' = dtcs s4" by (simp add: s')
  then have g: "GetDtcCtxByCode c s' = GetDtcCtxByCode c s3" for c
    by (simp add: s4_def GetDtcCtxByCode_cong [of s' s4])
  have "GetDtcCtxByCode code s' = Some (d2\<lparr>dc_occurrence := 0, dc_status := cleared_status\<rparr>)"
    using GetDtcCtxByCode_upd [OF g2] by (simp add: g s3_def)
  moreover have "GetDtcCtxByCode c s' = GetDtcCtxByCode c s" if "c \<noteq> code" for c
    using that by (simp add: g s3_def s2_def s1_def GetDtcCtxByCode_upd_other)
  ultimately show ?thesis using d ev by (simp add: d2_def)
qed

definition sample_failed :: diag where
  "sample_failed = the (case SetStatusWithSupplierFaultCode sample_cfg (Some 0) EV_FAILED [1] sample_active of
     Inl _ \<Rightarrow> None | Inr x \<Rightarrow> Some (snd x))"

theorem clear_single_dtc_witness:
  "\<exists>s'. ClearDtc sample_cfg 0x123456 DTOOL sample_failed = (le_OK, s') \<and> cleared_event (evs s' ! 0) \<and>
     \<not> cleared_event (evs sample_failed ! 0)"
proof -
  have ok: "fst (ClearDtc sample_cfg 0x123456 DTOOL sample_failed) = le_OK" by code_simp
  obtain s' where r: "ClearDtc sample_cfg 0x123456 DTOOL sample_failed = (le_OK, s')"
    using ok by (cases "ClearDtc sample_cfg 0x123456 DTOOL sample_failed") auto
  have e: "map_option dc_events (GetDtcCtxByCode 0x123456 sample_failed) = Some [1, 2]"
    "GetEventCtxById 1 sample_failed = Some 0" "length (evs sample_failed) = 3"
    "(0x123456 :: u32) \<noteq> ALL_DTC_GROUP" "\<not> cleared_event (evs sample_failed ! 0)" by code_simp+
  from clear_single_dtc [OF r e(4)] e(1-3) have "cleared_event (evs s' ! 0)" by fastforce
  then show ?thesis using r e(5) by blast
qed

text \<open>
  Clearing gives the stored row the default activation, but not the context of the event service:
  after a DTC is deactivated and cleared its activation status reads as active, activating it again
  does nothing, and its events are still refused.
\<close>

lemma clear_forgets_activation:
  "let s1 = snd (DisableDTCSetting 0x123456 sample_active);
       s2 = snd (ClearDtc sample_cfg 0x123456 DTOOL s1) in
   fst (GetActivation 0x123456 (store s2)) = 1 \<and>
   map_option dc_activation (GetDtcCtxByCode 0x123456 s2) = Some False \<and>
   CheckEventCondition (evs s2 ! 0) s2 = le_UNSUPPORTED"
  by code_simp

section \<open>Enable conditions\<close>

definition holds :: "diag \<Rightarrow> byte \<Rightarrow> bool" where
  "holds s c \<longleftrightarrow> GetEnableConditionStatus c s"

lemma set_cond_status:
  "GetEnableConditionStatus x (s\<lparr>conds := set_cond c v (conds s)\<rparr>) = (if x = c then v else holds s x)"
proof -
  have "(case find (\<lambda>p. fst p = x) (set_cond c v cs) of None \<Rightarrow> False | Some p \<Rightarrow> snd p) =
      (if x = c then v else (case find (\<lambda>p. fst p = x) cs of None \<Rightarrow> False | Some p \<Rightarrow> snd p))" for cs
  proof (induction cs)
    case (Cons p cs)
    then show ?case by (cases "find_index (\<lambda>p. fst p = c) cs") (auto simp: set_cond_def)
  qed (simp add: set_cond_def)
  then show ?thesis by (simp add: holds_def GetEnableConditionStatus_def)
qed

text \<open>
  What the condition \<open>c\<close> does to one event when \<open>h\<close> tells which conditions hold: nothing when the event
  does not name it. Otherwise the alternatives decide when \<open>c\<close> is one of them, and the conjunction when
  it is not. An event that is disabled and whose behaviour is to reset starts debouncing anew: its
  counter is 0, and when it is debounced by time neither of its two timers runs any more.
\<close>

definition enabled_event :: "diag_cfg \<Rightarrow> byte \<Rightarrow> (byte \<Rightarrow> bool) \<Rightarrow> EventCtx \<Rightarrow> EventCtx \<Rightarrow> bool" where
  "enabled_event cf c h e e' \<longleftrightarrow> (case dg_enable cf (ec_eventId e) of
     None \<Rightarrow> e' = e
   | Some (ands, ors) \<Rightarrow>
       (if c \<in> set ors \<or> c \<in> set ands then
         (let on = (if c \<in> set ors then (\<exists>x\<in>set ors. h x) else (\<forall>x\<in>set ands. h x)) in
          e' = (if \<not> on \<and> ec_behavior e = DEBOUNCE_RESET
            then (if ec_debounceType e = DEBOUNCE_TIME_BASED
              then e\<lparr>ec_enable := False, ec_debounceCounter := 0, ec_timerRuns := False, ec_fdcTimerRuns := False,
                  ec_timerType := (if ec_timerRuns e then TIMER_UNKNOWN else ec_timerType e)\<rparr>
              else e\<lparr>ec_enable := False, ec_debounceCounter := 0\<rparr>)
            else e\<lparr>ec_enable := on\<rparr>))
        else e' = e))"

lemma evs_enable_one:
  "evs (enable_one cf c i s) = (case dg_enable cf (ec_eventId (evs s ! i)) of None \<Rightarrow> evs s
   | Some cs \<Rightarrow> (case enable_status cs c s of None \<Rightarrow> evs s
     | Some new \<Rightarrow> (evs s)[i := (if \<not> new \<and> ec_behavior (evs s ! i) = DEBOUNCE_RESET
         then ResetDebounce ((evs s ! i)\<lparr>ec_enable := new\<rparr>) else (evs s ! i)\<lparr>ec_enable := new\<rparr>)]))"
proof -
  have e: "e\<lparr>ec_enable := b\<rparr> = e" if "ec_enable e = b" for e :: EventCtx and b
    using that by (cases e) simp
  have r: "evs (ResetDebounceCounter i s) = (evs s)[i := ResetDebounce (evs s ! i)]" for s
    by (simp add: ResetDebounceCounter_def)
  show ?thesis
    by (cases "i < length (evs s)"; cases "dg_enable cf (ec_eventId (evs s ! i))")
      (simp_all add: enable_one_def r Let_def e list_update_beyond split: option.split)
qed

lemma enable_one_event:
  assumes i: "i < length (evs s)"
  shows "enabled_event cf c (\<lambda>x. GetEnableConditionStatus x s) (evs s ! i) (evs (enable_one cf c i s) ! i)"
    "j \<noteq> i \<Longrightarrow> evs (enable_one cf c i s) ! j = evs s ! j"
    "length (evs (enable_one cf c i s)) = length (evs s)" "conds (enable_one cf c i s) = conds s"
proof -
  have b: "list_ex P xs \<longleftrightarrow> (\<exists>x\<in>set xs. P x)" "list_all P xs \<longleftrightarrow> (\<forall>x\<in>set xs. P x)" for P :: "byte \<Rightarrow> bool" and xs
    by (simp_all add: list_ex_iff list_all_iff)
  show "enabled_event cf c (\<lambda>x. GetEnableConditionStatus x s) (evs s ! i) (evs (enable_one cf c i s) ! i)"
  proof (cases "dg_enable cf (ec_eventId (evs s ! i))")
    case (Some cs)
    show ?thesis
    proof (cases "enable_status cs c s")
      case None
      obtain ands ors where cs: "cs = (ands, ors)" by (cases cs)
      have "\<not> (c \<in> set ors \<or> c \<in> set ands)" using None by (auto simp: cs enable_status_def split: if_splits)
      then show ?thesis
        unfolding enabled_event_def evs_enable_one Some option.case None unfolding cs prod.case if_not_P by simp
    next
      case new: (Some new)
      then have ev: "evs (enable_one cf c i s) ! i = (if \<not> new \<and> ec_behavior (evs s ! i) = DEBOUNCE_RESET
         then ResetDebounce ((evs s ! i)\<lparr>ec_enable := new\<rparr>) else (evs s ! i)\<lparr>ec_enable := new\<rparr>)"
        using Some i by (simp add: evs_enable_one)
      obtain ands ors where cs: "cs = (ands, ors)" by (cases cs)
      have h: "(if c \<in> set ors then \<exists>x\<in>set ors. GetEnableConditionStatus x s
          else \<forall>x\<in>set ands. GetEnableConditionStatus x s) = new" "c \<in> set ors \<or> c \<in> set ands"
        using new by (auto simp: cs enable_status_def b split: if_splits)
      have reset: "ResetDebounce (e\<lparr>ec_enable := b\<rparr>) = (if ec_debounceType e = DEBOUNCE_TIME_BASED
             then e\<lparr>ec_enable := b, ec_debounceCounter := 0, ec_timerRuns := False, ec_fdcTimerRuns := False,
                 ec_timerType := (if ec_timerRuns e then TIMER_UNKNOWN else ec_timerType e)\<rparr>
             else e\<lparr>ec_enable := b, ec_debounceCounter := 0\<rparr>)" for e :: EventCtx and b
        by (cases e) (simp add: ResetDebounce_def Let_def)
      show ?thesis
        unfolding enabled_event_def Some option.case cs prod.case h(1) Let_def ev reset using h(2) by simp
    qed
  qed (simp add: enabled_event_def evs_enable_one)
  show "j \<noteq> i \<Longrightarrow> evs (enable_one cf c i s) ! j = evs s ! j"
    "length (evs (enable_one cf c i s)) = length (evs s)"
    by (simp_all add: evs_enable_one split: option.split)
  have k: "conds (ReportEnableCondState i b s) = conds s" "conds (upd_ev i f s) = conds s" for b f s
    by (simp_all add: ReportEnableCondState_def upd_ev_def out_def split: option.split)
  show "conds (enable_one cf c i s) = conds s"
    by (simp add: enable_one_def ResetDebounceCounter_def Let_def k split: option.split)
qed

lemma enable_loop:
  assumes "n \<le> length (evs s)"
    and t: "t = fold (enable_one cf c) [0..<n] s"
  shows "conds t = conds s \<and> length (evs t) = length (evs s) \<and>
    (\<forall>j<length (evs s). if j < n then enabled_event cf c (\<lambda>x. GetEnableConditionStatus x s) (evs s ! j) (evs t ! j)
      else evs t ! j = evs s ! j)"
  using assms(1) unfolding t
proof (induction n)
  case (Suc n)
  let ?t = "fold (enable_one cf c) [0..<n] s"
  have IH: "conds ?t = conds s" "length (evs ?t) = length (evs s)"
    "\<And>j. j < length (evs s) \<Longrightarrow>
      if j < n then enabled_event cf c (\<lambda>x. GetEnableConditionStatus x s) (evs s ! j) (evs ?t ! j)
      else evs ?t ! j = evs s ! j" using Suc by auto
  have g: "GetEnableConditionStatus x ?t = GetEnableConditionStatus x s" for x
    by (simp add: GetEnableConditionStatus_def IH(1))
  have n: "n < length (evs ?t)" "evs ?t ! n = evs s ! n" using Suc.prems IH(2) IH(3) [of n] by auto
  show ?case
    using enable_one_event [OF n(1), where cf = cf and c = c] IH n(2) g by (auto simp: less_Suc_eq)
qed simp

text \<open>
  C26: what setting an enable condition does, event by event. Events that do not name the condition are as
  they were. An event that has it among its alternatives is enabled exactly if one of its
  alternatives holds, whatever its conjunctive conditions are; an event that has it only among its
  conjunctive conditions exactly if all of these hold (its alternatives are not looked at). An event
  that is disabled and whose behaviour is to reset starts anew: its counter is 0 and, with time-based
  debouncing, its debounce timer and its FDC timer are stopped, so neither can qualify it later.
  Of every other event nothing but the enabling changes: a disabled event whose behaviour is to freeze keeps
  its counter and its running timers. The value is the one later reads of the condition give, and
  no other condition changes.
\<close>

theorem enable_condition_set:
  "(\<forall>j<length (evs s). enabled_event cf c (holds (snd (SetEnableCondition cf c v s))) (evs s ! j)
      (evs (snd (SetEnableCondition cf c v s)) ! j)) \<and>
   length (evs (snd (SetEnableCondition cf c v s))) = length (evs s) \<and>
   holds (snd (SetEnableCondition cf c v s)) = (holds s)(c := v)"
proof -
  let ?s1 = "s\<lparr>conds := set_cond c v (conds s)\<rparr>" and ?t = "snd (SetEnableCondition cf c v s)"
  have "?t = fold (enable_one cf c) [0..<length (evs s)] ?s1"
    by (simp add: SetEnableCondition_def SetEventEnableStatus_def)
  note l = enable_loop [OF _ this]
  have loop: "conds ?t = conds ?s1" "length (evs ?t) = length (evs s)"
    "\<And>j. j < length (evs s) \<Longrightarrow>
      enabled_event cf c (\<lambda>x. GetEnableConditionStatus x ?s1) (evs s ! j) (evs ?t ! j)"
    using l by simp_all
  have "holds ?t = (\<lambda>x. GetEnableConditionStatus x ?s1)"
    by (simp add: holds_def fun_eq_iff GetEnableConditionStatus_def loop(1))
  moreover have "(\<lambda>x. GetEnableConditionStatus x ?s1) = (holds s)(c := v)"
    by (auto simp: fun_eq_iff set_cond_status)
  ultimately show ?thesis using loop(2,3) by simp
qed

lemma disabled_event:
  assumes "enabled_event cf c h e e'" "dg_enable cf (ec_eventId e) = Some (ands, [])" "c \<in> set ands" "\<not> h c"
    and "ec_debounceType e = DEBOUNCE_TIME_BASED" "ec_timerRuns e"
  shows "e' = (if ec_behavior e = DEBOUNCE_RESET
    then e\<lparr>ec_enable := False, ec_debounceCounter := 0, ec_timerRuns := False, ec_fdcTimerRuns := False,
      ec_timerType := TIMER_UNKNOWN\<rparr> else e\<lparr>ec_enable := False\<rparr>)"
proof -
  have "\<not> (\<forall>x\<in>set ands. h x)" using assms(3,4) by blast
  then show ?thesis using assms by (simp add: enabled_event_def Let_def)
qed

text \<open>The timed event of the sample with both timers running, once to be reset and once to be frozen.\<close>

definition sample_timing :: "DebounceReset \<Rightarrow> diag" where
  "sample_timing b = upd_ev 1 (\<lambda>e. e\<lparr>ec_enable := True, ec_behavior := b, ec_timerRuns := True, ec_fdcTimerRuns := True\<rparr>) sample_start"

theorem enable_condition_set_witness:
  "let e = \<lambda>b. evs (snd (SetEnableCondition sample_cfg 7 False (sample_timing b))) ! 1 in
     \<not> ec_enable (e DEBOUNCE_RESET) \<and> \<not> ec_timerRuns (e DEBOUNCE_RESET) \<and> \<not> ec_fdcTimerRuns (e DEBOUNCE_RESET)
   \<and> \<not> ec_enable (e DEBOUNCE_FREEZE) \<and> ec_timerRuns (e DEBOUNCE_FREEZE) \<and> ec_fdcTimerRuns (e DEBOUNCE_FREEZE)"
proof -
  have e: "length (evs (sample_timing b)) = 3" "dg_enable sample_cfg (ec_eventId (evs (sample_timing b) ! 1)) = Some ([7], [])"
    "ec_debounceType (evs (sample_timing b) ! 1) = DEBOUNCE_TIME_BASED" "ec_behavior (evs (sample_timing b) ! 1) = b"
    "ec_timerRuns (evs (sample_timing b) ! 1)" "ec_fdcTimerRuns (evs (sample_timing b) ! 1)" for b
    by (cases b; code_simp)+
  have c: "enabled_event sample_cfg 7 ((holds (sample_timing b))(7 := False)) (evs (sample_timing b) ! 1)
      (evs (snd (SetEnableCondition sample_cfg 7 False (sample_timing b))) ! 1)" for b
    using enable_condition_set [of "sample_timing b" sample_cfg 7 False] e(1) [of b] by (metis one_less_numeral_iff semiring_norm(77))
  have r: "evs (snd (SetEnableCondition sample_cfg 7 False (sample_timing b))) ! 1 = (if b = DEBOUNCE_RESET
      then (evs (sample_timing b) ! 1)\<lparr>ec_enable := False, ec_debounceCounter := 0, ec_timerRuns := False, ec_fdcTimerRuns := False,
         ec_timerType := TIMER_UNKNOWN\<rparr> else (evs (sample_timing b) ! 1)\<lparr>ec_enable := False\<rparr>)" for b
    using disabled_event [OF c [of b] e(2) [of b] _ _ e(3) [of b] e(5) [of b]] unfolding e(4) by simp
  show ?thesis unfolding Let_def r by (simp add: e del: One_nat_def)
qed

end
