(* ===== verification/Diag_FdcBounds.thy ===== *)
theory Diag_FdcBounds
  imports Diag_Samples
begin

text \<open>
  How far the single-precision computation of the fault detection counter is from the quotient it
  approximates. A float has a value in the reals; the operations have a relative error of at most
  \<open>2 ^ -24\<close>, and small integers are exact.
\<close>

section \<open>Values of floats\<close>

definition rv :: "int \<times> int \<Rightarrow> real" where
  "rv x = real_of_int (fst x) * 2 powr real_of_int (snd x)"

lemma rv_num_den:
  assumes "num_den x = (a, b)"
  shows "0 < b" "rv x = real_of_int a / real_of_int b"
proof -
  have p: "2 powr real_of_int k = 2 ^ nat k" if "0 \<le> k" for k
    using that by (simp add: powr_real_of_int)
  have q: "2 powr real_of_int k = 1 / 2 ^ nat (- k)" if "k < 0" for k
    using that p [of "- k"] powr_minus_divide [of 2 "real_of_int (- k)"] by simp
  show "0 < b" using assms by (auto simp: num_den_def push_bit_eq_mult split: if_splits)
  show "rv x = real_of_int a / real_of_int b"
    using assms p [of "snd x"] q [of "snd x"]
    by (auto simp: num_den_def rv_def push_bit_eq_mult split: if_splits)
qed

lemma trunc32_floor: "trunc32 x = \<lfloor>rv x\<rfloor>"
proof -
  obtain a b where n: "num_den x = (a, b)" by (cases "num_den x")
  show ?thesis using rv_num_den [OF n] by (simp add: trunc32_def n floor_divide_of_int_eq)
qed

section \<open>Rounding\<close>

lemma bit_len_bounds: "0 < n \<Longrightarrow> \<exists>k. bit_len n = int k + 1 \<and> 2 ^ k \<le> n \<and> n < 2 ^ (k + 1)"
proof (induction n rule: bit_len.induct)
  case (1 n)
  show ?case
  proof (cases "n = 1")
    case True
    then show ?thesis by (intro exI [of _ 0]) (simp add: bit_len.simps)
  next
    case False
    then have "0 < n div 2" using 1 by linarith
    then obtain k where k: "bit_len (n div 2) = int k + 1" "2 ^ k \<le> n div 2" "n div 2 < 2 ^ (k + 1)"
      using 1 by auto
    have "bit_len n = int (Suc k) + 1" using k(1) 1 by (subst bit_len.simps) simp
    moreover have "2 ^ Suc k \<le> n" using k(2) by simp
    moreover have "n < 2 ^ (Suc k + 1)" using k(3) by simp
    ultimately show ?thesis by blast
  qed
qed

lemma scaled_value:
  assumes "scaled n d e = (a, b)" "0 < d"
  shows "0 < b" "real_of_int a / real_of_int b = real_of_int n / real_of_int d * 2 powr - real_of_int e"
proof -
  have p: "2 powr real_of_int k = 2 ^ nat k" if "0 \<le> k" for k
    using that by (simp add: powr_real_of_int)
  have q: "2 powr - real_of_int k = 1 / 2 ^ nat k" if "0 \<le> k" for k
    using that p [of k] by (simp add: powr_minus_divide)
  show "0 < b" using assms by (auto simp: scaled_def push_bit_eq_mult split: if_splits)
  show "real_of_int a / real_of_int b = real_of_int n / real_of_int d * 2 powr - real_of_int e"
  proof (cases "0 \<le> e")
    case True
    then show ?thesis using assms q [OF True] by (auto simp: scaled_def push_bit_eq_mult)
  next
    case False
    then show ?thesis using assms p [of "- e"] by (auto simp: scaled_def push_bit_eq_mult)
  qed
qed

lemma round_even_error:
  assumes "0 < b"
  shows "\<bar>real_of_int (round_even a b) - real_of_int a / real_of_int b\<bar> \<le> 1 / 2"
proof -
  have e: "real_of_int a = real_of_int b * real_of_int (a div b) + real_of_int (a mod b)"
    by (metis mult_div_mod_eq of_int_add of_int_mult)
  have m: "0 \<le> a mod b" "a mod b < b" using assms by simp_all
  have q: "real_of_int a / real_of_int b = real_of_int (a div b) + real_of_int (a mod b) / real_of_int b"
    using assms e by (simp add: field_simps)
  have "2 * (a mod b) \<le> b \<Longrightarrow> real_of_int (a mod b) / real_of_int b \<le> 1 / 2"
    "b \<le> 2 * (a mod b) \<Longrightarrow> 1 / 2 \<le> real_of_int (a mod b) / real_of_int b"
    "0 \<le> real_of_int (a mod b) / real_of_int b" "real_of_int (a mod b) / real_of_int b \<le> 1"
    using assms m by (simp_all add: field_simps)
  then show ?thesis unfolding q by (auto simp: round_even_def Let_def)
qed

lemma exp32_normal:
  assumes "0 < n" "0 < d" "scaled n d (exp32 n d) = (a, b)"
  shows "2 ^ 23 * real_of_int b \<le> real_of_int a"
proof -
  let ?e = "bit_len n - bit_len d - 24"
  obtain k where k: "bit_len n = int k + 1" "2 ^ k \<le> n"
    using bit_len_bounds [OF assms(1)] by (elim exE conjE)
  obtain l where l: "bit_len d = int l + 1" "d < 2 ^ (l + 1)"
    using bit_len_bounds [OF assms(2)] by (elim exE conjE)
  have kr: "2 ^ k \<le> real_of_int n" using k(2) of_int_le_iff [of "2 ^ k" n, where 'a = real] by simp
  have lr: "real_of_int d \<le> 2 ^ (l + 1)" using l(2) of_int_le_iff [of d "2 ^ (l + 1)", where 'a = real] by simp
  have quot: "2 ^ k / 2 ^ (l + 1) \<le> real_of_int n / real_of_int d"
    using kr lr assms(1,2) by (intro frac_le) simp_all
  have pw: "(2 ^ k / 2 ^ (l + 1)) * 2 powr - real_of_int ?e = 2 ^ 23"
  proof -
    have "2 ^ k / 2 ^ (l + 1) = 2 powr (real k - real (l + 1))"
      by (simp only: powr_diff powr_realpow zero_less_numeral)
    then have "(2 ^ k / 2 ^ (l + 1)) * 2 powr - real_of_int ?e = 2 powr (real k - real (l + 1) - real_of_int ?e)"
      by (simp add: powr_add [symmetric] algebra_simps)
    also have "real k - real (l + 1) - real_of_int ?e = 23" by (simp add: k(1) l(1))
    finally show ?thesis by (simp add: powr_numeral)
  qed
  obtain a0 b0 where s0: "scaled n d ?e = (a0, b0)" by (cases "scaled n d ?e")
  note v0 = scaled_value [OF s0 assms(2)]
  have low0: "2 ^ 23 \<le> real_of_int a0 / real_of_int b0"
    using mult_right_mono [OF quot, of "2 powr - real_of_int ?e"] pw v0(2) by simp
  note v = scaled_value [OF assms(3,2)]
  have "2 ^ 23 \<le> real_of_int a / real_of_int b"
  proof (cases "a0 < push_bit 24 b0")
    case True
    then have "exp32 n d = ?e" by (simp add: exp32_def Let_def s0)
    then show ?thesis using low0 assms(3) s0 by simp
  next
    case False
    then have e: "exp32 n d = ?e + 1" by (simp add: exp32_def Let_def s0)
    have "2 ^ 24 * b0 \<le> a0" using False by (simp add: push_bit_eq_mult)
    then have "real_of_int (2 ^ 24 * b0) \<le> real_of_int a0" by (simp only: of_int_le_iff)
    then have "2 ^ 24 \<le> real_of_int a0 / real_of_int b0" using v0(1) by (simp add: pos_le_divide_eq)
    moreover have "real_of_int a / real_of_int b = real_of_int a0 / real_of_int b0 / 2"
      unfolding v(2) v0(2) e by (simp add: powr_diff powr_minus_divide)
    ultimately show ?thesis by simp
  qed
  then show ?thesis using v(1) by (simp add: pos_le_divide_eq)
qed

text \<open>The relative error of a rounded quotient.\<close>

lemma fl32_error:
  assumes "0 < n" "0 < d"
  shows "\<bar>rv (fl32 n d) - real_of_int n / real_of_int d\<bar> \<le> real_of_int n / real_of_int d / 2 ^ 24"
proof -
  let ?e = "exp32 n d"
  obtain a b where s: "scaled n d ?e = (a, b)" by (cases "scaled n d ?e")
  note v = scaled_value [OF s assms(2)]
  have f: "fl32 n d = (round_even a b, ?e)" using assms(1) by (simp add: fl32_def Let_def s)
  have p: "0 < 2 powr real_of_int ?e" by simp
  have x: "real_of_int n / real_of_int d = real_of_int a / real_of_int b * 2 powr real_of_int ?e"
    unfolding v(2) by (simp add: powr_minus_divide)
  have "1 / 2 \<le> real_of_int a / real_of_int b / 2 ^ 24"
    using exp32_normal [OF assms s] v(1) by (simp add: field_simps)
  then have "\<bar>real_of_int (round_even a b) - real_of_int a / real_of_int b\<bar> \<le> real_of_int a / real_of_int b / 2 ^ 24"
    using round_even_error [OF v(1), of a] by linarith
  then have "\<bar>real_of_int (round_even a b) - real_of_int a / real_of_int b\<bar> * 2 powr real_of_int ?e
      \<le> real_of_int a / real_of_int b / 2 ^ 24 * 2 powr real_of_int ?e"
    using p by (intro mult_right_mono) simp_all
  moreover have "rv (fl32 n d) - real_of_int n / real_of_int d =
      (real_of_int (round_even a b) - real_of_int a / real_of_int b) * 2 powr real_of_int ?e"
    unfolding f x rv_def by (simp add: algebra_simps)
  ultimately show ?thesis unfolding x by (simp add: abs_mult)
qed

lemma of_int32_exact:
  assumes "0 < n" "n < 2 ^ 24"
  shows "rv (of_int32 n) = real_of_int n"
proof -
  obtain k where k: "bit_len n = int k + 1" "2 ^ k \<le> n" using bit_len_bounds assms(1) by blast
  have "(2 :: int) ^ k < 2 ^ 24" using k(2) assms(2) by linarith
  then have "k < 24" by (rule power_less_imp_less_exp [rotated]) simp
  moreover have "bit_len 1 = 1" by (simp add: bit_len.simps)
  ultimately have "exp32 n 1 \<le> 0" using k(1) by (simp add: exp32_def Let_def split: prod.split)
  then have "snd (scaled n 1 (exp32 n 1)) = 1" by (cases "exp32 n 1 = 0") (simp_all add: scaled_def)
  then obtain a where s: "scaled n 1 (exp32 n 1) = (a, 1)" by (cases "scaled n 1 (exp32 n 1)") simp
  have "round_even a 1 = a" by (simp add: round_even_def)
  then have "fl32 n 1 = (a, exp32 n 1)" using assms(1) by (simp add: fl32_def Let_def s)
  then show ?thesis
    using scaled_value(2) [OF s] by (simp add: of_int32_def rv_def powr_minus_divide)
qed

lemma fdiv32_error:
  assumes "0 < rv x" "0 < rv y"
  shows "\<bar>rv (fdiv32 x y) - rv x / rv y\<bar> \<le> rv x / rv y / 2 ^ 24"
proof -
  obtain a b c d where n: "num_den x = (a, b)" "num_den y = (c, d)" by (cases "num_den x", cases "num_den y")
  note x = rv_num_den [OF n(1)] and y = rv_num_den [OF n(2)]
  have pos: "0 < a" "0 < c" using assms x y by (simp_all add: zero_less_divide_iff)
  have "rv x / rv y = real_of_int (a * d) / real_of_int (b * c)" by (simp add: x y)
  moreover have "fdiv32 x y = fl32 (a * d) (b * c)" by (simp add: fdiv32_def n)
  ultimately show ?thesis using fl32_error [of "a * d" "b * c"] pos x(1) y(1) by simp
qed

lemma fmul32_error:
  assumes "0 < rv x" "0 < rv y"
  shows "\<bar>rv (fmul32 x y) - rv x * rv y\<bar> \<le> rv x * rv y / 2 ^ 24"
proof -
  obtain a b c d where n: "num_den x = (a, b)" "num_den y = (c, d)" by (cases "num_den x", cases "num_den y")
  note x = rv_num_den [OF n(1)] and y = rv_num_den [OF n(2)]
  have pos: "0 < a" "0 < c" using assms x y by (simp_all add: zero_less_divide_iff)
  have "rv x * rv y = real_of_int (a * c) / real_of_int (b * d)" by (simp add: x y)
  moreover have "fmul32 x y = fl32 (a * c) (b * d)" by (simp add: fmul32_def n)
  ultimately show ?thesis using fl32_error [of "a * c" "b * d"] pos x(1) y(1) by simp
qed

section \<open>The counter\<close>

text \<open>
  A number that is close to a quotient of small integers has the same integer part, except that it
  may be one less when the quotient is an integer.
\<close>

lemma floor_near:
  assumes f: "0 < f" "f < 32768" and v: "\<bar>v - real_of_int n / real_of_int f\<bar> < 1 / 32767"
  shows "\<lfloor>v\<rfloor> = n div f \<or> f dvd n \<and> \<lfloor>v\<rfloor> = n div f - 1"
proof -
  define q r where "q = n div f" and "r = n mod f"
  have n: "n = q * f + r" "0 \<le> r" "r < f" using f(1) by (simp_all add: q_def r_def)
  have x: "real_of_int n / real_of_int f = real_of_int q + real_of_int r / real_of_int f"
    using f(1) by (simp add: n(1) field_simps)
  have u: "1 / 32767 \<le> 1 / real_of_int f" using f by (simp add: field_simps)
  show ?thesis
  proof (cases "r = 0")
    case True
    then have "f dvd n" by (simp add: r_def mod_eq_0_iff_dvd)
    moreover have "\<bar>v - real_of_int q\<bar> < 1" using v True by (simp add: x)
    then have "\<lfloor>v\<rfloor> = q \<or> \<lfloor>v\<rfloor> = q - 1"
      by (cases "real_of_int q \<le> v") (auto simp: floor_eq_iff)
    ultimately show ?thesis by (simp add: q_def)
  next
    case False
    then have "1 \<le> r" "r + 1 \<le> f" using n by linarith+
    then have "1 / real_of_int f \<le> real_of_int r / real_of_int f"
      "real_of_int r / real_of_int f + 1 / real_of_int f \<le> 1"
      using f(1) by (simp_all add: field_simps)
    then have "real_of_int q \<le> v" "v < real_of_int q + 1" using v [unfolded x] u by linarith+
    then have "\<lfloor>v\<rfloor> = q" by (rule floor_unique)
    then show ?thesis by (simp add: q_def)
  qed
qed

lemma error_sum:
  fixes v R Y :: real
  assumes "\<bar>R - Y\<bar> \<le> Y / 2 ^ 24" "R \<le> 2 * Y" "\<bar>v - R\<bar> \<le> R / 2 ^ 24"
  shows "\<bar>v - Y\<bar> \<le> 3 * Y / 2 ^ 24"
proof -
  have "R / 2 ^ 24 \<le> 2 * Y / 2 ^ 24" using assms(2) by (rule divide_right_mono) simp
  moreover have "3 * Y / 2 ^ 24 = Y / 2 ^ 24 + 2 * Y / 2 ^ 24" by simp
  ultimately show ?thesis using assms(1,3) by linarith
qed

text \<open>
  C25: For every debounce counter between 0 and its failed threshold, the fault detection counter
  computed in single precision is \<open>127 * counter div failedThreshold\<close>, except that it may be one
  less where that quotient is exact; so it is between 0 and 126, the conversion to a byte never
  meets a value it cannot hold, and what the target does with such a value does not matter.
\<close>

theorem counter_fdc_exact:
  assumes "0 < c" "c < f" "f < 32768"
  shows "\<exists>n. CalcCounterBasedDebounceFDC u8 c f = word_of_int n \<and> 0 \<le> n \<and> n \<le> 126 \<and>
    (n = 127 * c div f \<or> f dvd 127 * c \<and> n = 127 * c div f - 1)"
proof -
  define ratio where "ratio = fdiv32 (of_int32 127) (of_int32 f)"
  define v where "v = fmul32 (of_int32 c) ratio"
  let ?x = "127 / real_of_int f" and ?c = "real_of_int c"
  have c: "rv (of_int32 c) = ?c" and f: "rv (of_int32 f) = real_of_int f"
    and k: "rv (of_int32 127) = 127" using assms by (simp_all add: of_int32_exact)
  have r: "\<bar>rv ratio - ?x\<bar> \<le> ?x / 2 ^ 24"
    using fdiv32_error [of "of_int32 127" "of_int32 f"] assms by (simp add: ratio_def f k)
  have xpos: "0 < ?x" using assms by simp
  then have small: "?x / 2 ^ 24 < ?x" by (simp add: field_simps)
  have rpos: "0 < rv ratio" using r small by linarith
  have r2: "rv ratio \<le> 2 * ?x" using r small by linarith
  have m: "\<bar>rv v - ?c * rv ratio\<bar> \<le> ?c * rv ratio / 2 ^ 24"
    using fmul32_error [of "of_int32 c" ratio] assms rpos by (simp add: v_def c)
  have y: "?c * ?x < 127" using assms by (simp add: field_simps)
  have "?c * \<bar>rv ratio - ?x\<bar> \<le> ?c * (?x / 2 ^ 24)" using r assms by (intro mult_left_mono) simp_all
  then have "\<bar>?c * rv ratio - ?c * ?x\<bar> \<le> ?c * ?x / 2 ^ 24"
  proof -
    assume h: "?c * \<bar>rv ratio - ?x\<bar> \<le> ?c * (?x / 2 ^ 24)"
    have "\<bar>?c * rv ratio - ?c * ?x\<bar> = ?c * \<bar>rv ratio - ?x\<bar>"
      unfolding right_diff_distrib [symmetric] abs_mult using assms by simp
    then show ?thesis using h by simp
  qed
  moreover have "?c * rv ratio \<le> 2 * (?c * ?x)" using mult_left_mono [OF r2, of ?c] assms by (simp add: mult.commute)
  ultimately have "\<bar>rv v - ?c * ?x\<bar> \<le> 3 * (?c * ?x) / 2 ^ 24" using m by (rule error_sum)
  then have "\<bar>rv v - ?c * ?x\<bar> < 1 / 32767" using y by simp
  then have "\<bar>rv v - real_of_int (127 * c) / real_of_int f\<bar> < 1 / 32767"
    by (simp add: mult.commute)
  from floor_near [OF _ assms(3) this] assms
  have t: "trunc32 v = 127 * c div f \<or> f dvd 127 * c \<and> trunc32 v = 127 * c div f - 1"
    by (simp add: trunc32_floor)
  have hi: "127 * c div f \<le> 126"
  proof -
    have "127 * c div f * f + 127 * c mod f = 127 * c" by (rule div_mult_mod_eq)
    moreover have "0 \<le> 127 * c mod f" using assms by simp
    moreover have "127 * c < 127 * f" using assms by simp
    ultimately have "127 * c div f * f < 127 * f" by linarith
    then show ?thesis using assms by simp
  qed
  have lo: "f dvd 127 * c \<Longrightarrow> 1 \<le> 127 * c div f"
    using assms zdvd_imp_le [of f "127 * c"] by (simp add: pos_imp_zdiv_pos_iff int_one_le_iff_zero_less)
  have "0 \<le> 127 * c div f" using assms by (simp add: pos_imp_zdiv_nonneg_iff)
  then have b: "0 \<le> trunc32 v" "trunc32 v \<le> 126" using t lo hi by auto
  then have "CalcCounterBasedDebounceFDC u8 c f = word_of_int (trunc32 v)"
    using assms by (simp add: CalcCounterBasedDebounceFDC_def Let_def to_u8_def v_def ratio_def)
  then show ?thesis using b t by blast
qed

theorem counter_fdc_exact_witness:
  "(\<exists>n. CalcCounterBasedDebounceFDC (\<lambda>_. 0) 7 10 = word_of_int n \<and> n \<le> 126) \<and>
   uint (CalcCounterBasedDebounceFDC (\<lambda>_. 0) 41 5207) = 0 \<and> 127 * 41 div 5207 = (1 :: int)"
proof -
  have "uint (CalcCounterBasedDebounceFDC (\<lambda>_. 0) 41 5207) = 0" by code_simp
  then show ?thesis using counter_fdc_exact [of 7 10 "\<lambda>_. 0"] by fastforce
qed

end
