(* ===== verification/Dem_Laws.thy ===== *)
theory Dem_Laws
  imports Diag_Samples
begin

unbundle bit_operations_syntax

text \<open>
  The store of the diagnostic event manager as its clients see it: each column is a map from keys to
  values, a write that reports success updates one entry and a write that reports a failure none,
  whatever statement fails. The interface is a locale; the writes of the model provide it.
\<close>

section \<open>A column that is written atomically\<close>

text \<open>A list of writes with their results, and what it means for a map.\<close>

primrec run_writes :: "('k \<Rightarrow> 'v \<Rightarrow> 'd \<Rightarrow> le_res \<times> 'd) \<Rightarrow> ('k \<times> 'v) list \<Rightarrow> 'd \<Rightarrow> le_res list \<times> 'd" where
  "run_writes w [] d = ([], d)"
| "run_writes w (x # xs) d = (let (r, d1) = w (fst x) (snd x) d; (rs, d2) = run_writes w xs d1 in (r # rs, d2))"

fun map_writes :: "(('k \<times> 'v) \<times> le_res) list \<Rightarrow> ('k \<Rightarrow> 'v) \<Rightarrow> ('k \<Rightarrow> 'v)" where
  "map_writes [] m = m"
| "map_writes (((k, v), r) # xs) m = map_writes xs (if r = le_OK then m(k := v) else m)"

locale atomic_column =
  fixes invar :: "'d \<Rightarrow> bool"
    and key_ok :: "'k \<Rightarrow> bool"
    and read :: "'d \<Rightarrow> 'k \<Rightarrow> 'v"
    and put :: "'k \<Rightarrow> 'v \<Rightarrow> 'd \<Rightarrow> le_res \<times> 'd"
  assumes invar_put: "invar d \<Longrightarrow> key_ok k \<Longrightarrow> invar (snd (put k v d))"
    and read_put: "invar d \<Longrightarrow> key_ok k \<Longrightarrow> read (snd (put k v d)) =
      (if fst (put k v d) = le_OK then (read d)(k := v) else read d)"
begin

lemma run_refines:
  "invar d \<Longrightarrow> \<forall>x\<in>set xs. key_ok (fst x) \<Longrightarrow> run_writes put xs d = (rs, d') \<Longrightarrow>
   invar d' \<and> length rs = length xs \<and> read d' = map_writes (zip xs rs) (read d)"
proof (induction xs arbitrary: d rs)
  case (Cons x xs)
  obtain r d1 where w: "put (fst x) (snd x) d = (r, d1)" by (cases "put (fst x) (snd x) d")
  obtain rs2 where rs: "rs = r # rs2" "run_writes put xs d1 = (rs2, d')"
    using Cons.prems(3) by (auto simp: w split: prod.splits)
  have "invar d1" "read d1 = (if r = le_OK then (read d)(fst x := snd x) else read d)"
    using invar_put [of d "fst x" "snd x"] read_put [of d "fst x" "snd x"] Cons.prems(1,2) w
    by auto
  then show ?case
    using Cons.IH [of d1 rs2] Cons.prems(2) rs by (cases x) auto
qed simp

lemma put_twice:
  assumes "invar d" "key_ok k" "fst (put k v d) = le_OK" "fst (put k v' (snd (put k v d))) = le_OK"
  shows "read (snd (put k v' (snd (put k v d)))) = (read d)(k := v')"
  using assms by (simp add: read_put invar_put)

end

section \<open>The columns of the table of DTCs\<close>

definition dtc_find :: "u32 \<Rightarrow> dem \<Rightarrow> DtcEntity option" where
  "dtc_find dtc d = find (\<lambda>e. de_dtc e = dtc) (dtc_entity d)"

definition dtc_column :: "(DtcEntity \<Rightarrow> 'v) \<Rightarrow> dem \<Rightarrow> u32 \<Rightarrow> 'v" where
  "dtc_column col d dtc = (case dtc_find dtc d of None \<Rightarrow> col (new_DtcEntity dtc) | Some e \<Rightarrow> col e)"

definition dtc_keys :: "dem \<Rightarrow> bool" where
  "dtc_keys d \<longleftrightarrow> distinct (map de_dtc (dtc_entity d))"

lemma next_io_tables [simp]: "dtc_entity (snd (next_io d)) = dtc_entity d"
  by (simp add: next_io_def split: list.split)

lemma dtc_filter:
  assumes "dtc_keys d"
  shows "filter (\<lambda>e. de_dtc e = dtc) (dtc_entity d) = (case dtc_find dtc d of None \<Rightarrow> [] | Some e \<Rightarrow> [e])"
proof -
  have "distinct (map de_dtc xs) \<Longrightarrow>
      filter (\<lambda>e. de_dtc e = dtc) xs = (case find (\<lambda>e. de_dtc e = dtc) xs of None \<Rightarrow> [] | Some e \<Rightarrow> [e])" for xs
  proof (induction xs)
    case (Cons x xs)
    have "find (\<lambda>e. de_dtc e = de_dtc x) xs = None"
      using Cons.prems by (simp add: find_None_iff) (metis imageI)
    then show ?case using Cons by auto
  qed simp
  then show ?thesis using assms by (simp add: dtc_find_def dtc_keys_def)
qed

text \<open>A query finds the row, or finds none although there is one when it fails.\<close>

lemma query_key:
  assumes "dtc_keys d" "dtc \<noteq> - 1"
  shows "dtc_entity (snd (DtcDao_QueryByKey dtc d)) = dtc_entity d \<and>
    (case fst (DtcDao_QueryByKey dtc d) of Inl _ \<Rightarrow> True | Inr e \<Rightarrow> dtc_find dtc d = Some e)"
proof -
  let ?rows = "filter (\<lambda>e. de_dtc e = dtc) (dtc_entity d)"
  have r: "?rows = [] \<or> (\<exists>e. ?rows = [e] \<and> dtc_find dtc d = Some e)"
    using dtc_filter [OF assms(1), of dtc] by (auto split: option.splits)
  obtain x d1 where n: "next_io d = (x, d1)" by (cases "next_io d")
  then have d1: "dtc_entity d1 = dtc_entity d" using next_io_tables [of d] by simp
  show ?thesis
    using r assms(2) by (cases x) (auto simp: DtcDao_QueryByKey_def Query_def n d1 take_Cons'
        split: list.split if_splits)
qed

lemma Execute_io:
  "Execute f d = (le_OK, d') \<Longrightarrow> \<exists>d1. dtc_entity d1 = dtc_entity d \<and> f d1 = Some d'"
  "Execute f d = (r, d') \<Longrightarrow> r \<noteq> le_OK \<Longrightarrow> dtc_entity d' = dtc_entity d"
proof -
  obtain x d1 where n: "next_io d = (x, d1)" "dtc_entity d1 = dtc_entity d"
    using next_io_tables [of d] by (cases "next_io d") simp
  then show "Execute f d = (le_OK, d') \<Longrightarrow> \<exists>d1. dtc_entity d1 = dtc_entity d \<and> f d1 = Some d'"
    by (auto simp: Execute_def split: option.splits)
  show "Execute f d = (r, d') \<Longrightarrow> r \<noteq> le_OK \<Longrightarrow> dtc_entity d' = dtc_entity d"
    using n by (auto simp: Execute_def split: option.splits)
qed

text \<open>What an update of one row and an insertion do to the table.\<close>

lemma find_update:
  "find (\<lambda>x. de_dtc x = k) (map (\<lambda>x. if de_dtc x = de_dtc e then e else x) xs) =
    (if k = de_dtc e \<and> find (\<lambda>x. de_dtc x = k) xs \<noteq> None then Some e else find (\<lambda>x. de_dtc x = k) xs)"
  by (induction xs) auto

lemma find_append: "find P (xs @ ys) = (case find P xs of None \<Rightarrow> find P ys | Some x \<Rightarrow> Some x)"
  by (induction xs) auto

lemma find_absent: "k \<notin> set (map de_dtc xs) \<longleftrightarrow> find (\<lambda>x. de_dtc x = k) xs = None"
  by (auto simp: find_None_iff)

text \<open>The write of columns that leaves the key alone: on success one row has the new columns.\<close>

lemma Write_row:
  assumes inv: "dtc_keys d" and k: "dtc \<noteq> - 1" and f: "\<And>e. de_dtc (f e) = de_dtc e"
  shows "dtc_keys (snd (DtcDao_Write dtc f d)) \<and>
    dtc_column col (snd (DtcDao_Write dtc f d)) =
      (if fst (DtcDao_Write dtc f d) = le_OK
       then (dtc_column col d)(dtc := col (f (case dtc_find dtc d of None \<Rightarrow> new_DtcEntity dtc | Some e \<Rightarrow> e)))
       else dtc_column col d)"
proof -
  obtain q d1 where q: "DtcDao_QueryByKey dtc d = (q, d1)" by (cases "DtcDao_QueryByKey dtc d")
  have d1: "dtc_entity d1 = dtc_entity d" using query_key [OF inv k] q by simp
  obtain r d' where w: "DtcDao_Write dtc f d = (r, d')" by (cases "DtcDao_Write dtc f d")
  show ?thesis
  proof (cases "r = le_OK")
    case False
    have "dtc_entity d' = dtc_entity d"
      using w q d1 False by (cases q) (auto simp: DtcDao_Write_def DtcDao_Add_def DtcDao_Update_def dest: Execute_io(2))
    then show ?thesis using w False inv by (simp add: dtc_keys_def dtc_column_def dtc_find_def fun_eq_iff)
  next
    case True
    show ?thesis
    proof (cases q)
      case (Inl x)
      have fk: "de_dtc (f (new_DtcEntity dtc)) = dtc" by (simp add: f new_DtcEntity_def)
      have "Execute (\<lambda>d. let e1 = (if de_dtc (f (new_DtcEntity dtc)) = - 1 then (f (new_DtcEntity dtc))\<lparr>de_dtc :=
            word_of_int (next_id (map (uint \<circ> de_dtc) (dtc_entity d)))\<rparr> else f (new_DtcEntity dtc)) in
          if de_dtc e1 \<in> set (map de_dtc (dtc_entity d)) then None
          else Some (d\<lparr>dtc_entity := dtc_entity d @ [e1]\<rparr>)) d1 = (le_OK, d')"
        using w True q Inl by (simp add: DtcDao_Write_def DtcDao_Add_def)
      from Execute_io(1) [OF this] obtain d2 where x: "dtc_entity d2 = dtc_entity d1"
        "(if dtc \<in> set (map de_dtc (dtc_entity d2)) then None
          else Some (d2\<lparr>dtc_entity := dtc_entity d2 @ [f (new_DtcEntity dtc)]\<rparr>)) = Some d'"
        using k by (auto simp: Let_def fk)
      then have d2: "dtc_entity d2 = dtc_entity d1" "dtc \<notin> set (map de_dtc (dtc_entity d2))"
        "dtc_entity d' = dtc_entity d2 @ [f (new_DtcEntity dtc)]"
        by (auto split: if_splits)
      have none: "dtc_find dtc d = None"
        using d2(1,2) d1 by (simp add: dtc_find_def find_absent [symmetric])
      then have "dtc_find j d' = (if j = dtc then Some (f (new_DtcEntity dtc)) else dtc_find j d)" for j
        using d2 d1 fk by (auto simp: dtc_find_def find_append split: option.split)
      moreover have "dtc_keys d'" using d2 d1 inv fk by (simp add: dtc_keys_def)
      ultimately show ?thesis using w True none by (auto simp: dtc_column_def fun_eq_iff)
    next
      case (Inr e)
      have e: "dtc_find dtc d = Some e" using query_key [OF inv k] q Inr by simp
      then have ek: "de_dtc e = dtc" by (auto simp: dtc_find_def find_Some_iff)
      have "Execute (\<lambda>d. Some (d\<lparr>dtc_entity := map (\<lambda>x. if de_dtc x = de_dtc (f e) then f e else x)
          (dtc_entity d)\<rparr>)) d1 = (le_OK, d')"
        using w True q Inr by (simp add: DtcDao_Write_def DtcDao_Update_def)
      from Execute_io(1) [OF this] obtain d2 where x: "dtc_entity d2 = dtc_entity d1"
        "d2\<lparr>dtc_entity := map (\<lambda>x. if de_dtc x = dtc then f e else x) (dtc_entity d2)\<rparr> = d'"
        by (auto simp: f ek)
      then have d2: "dtc_entity d2 = dtc_entity d1"
        "dtc_entity d' = map (\<lambda>x. if de_dtc x = dtc then f e else x) (dtc_entity d2)" by auto
      have "dtc_find j d' = (if j = dtc then Some (f e) else dtc_find j d)" for j
        using find_update [of j "f e" "dtc_entity d"] d2 d1 e by (simp add: dtc_find_def f ek)
      moreover have "map de_dtc (dtc_entity d') = map de_dtc (dtc_entity d)"
        using d2 d1 f ek by (auto simp: comp_def)
      then have "dtc_keys d'" using inv by (simp add: dtc_keys_def)
      ultimately show ?thesis using w True e by (auto simp: dtc_column_def fun_eq_iff)
    qed
  qed
qed

interpretation dtc_status: atomic_column dtc_keys "\<lambda>k. k \<noteq> - 1"
  "dtc_column (\<lambda>e. (de_status e, de_occurrence e))" "\<lambda>k v. WriteStatusByDtc k (fst v) (snd v)"
  by unfold_locales (simp_all add: WriteStatusByDtc_def Write_row)

interpretation dtc_activation: atomic_column dtc_keys "\<lambda>k. k \<noteq> - 1" "dtc_column de_activation"
  WriteActivationByDtc
  by unfold_locales (simp_all add: WriteActivationByDtc_def Write_row)

interpretation dtc_suppression: atomic_column dtc_keys "\<lambda>k. k \<noteq> - 1" "dtc_column de_suppression"
  WriteSuppressionByDtc
  by unfold_locales (simp_all add: WriteSuppressionByDtc_def Write_row)

section \<open>Runs of writes\<close>

lemma Write_frame:
  assumes "dtc_keys d" "dtc \<noteq> - 1" "\<And>e. de_dtc (f e) = de_dtc e" "\<And>e. col (f e) = col e"
  shows "dtc_column col (snd (DtcDao_Write dtc f d)) = dtc_column col d"
  using Write_row [OF assms(1-3), of col] assms(4)
  by (auto simp: dtc_column_def fun_eq_iff split: option.split)

lemma run_status_frame:
  assumes col: "\<And>e v n. col (e\<lparr>de_status := v, de_occurrence := n\<rparr>) = col e"
  shows "dtc_keys d \<Longrightarrow> \<forall>x\<in>set ws. fst x \<noteq> - 1 \<Longrightarrow>
    run_writes (\<lambda>k v. WriteStatusByDtc k (fst v) (snd v)) ws d = (rs, d') \<Longrightarrow>
    dtc_column col d' = dtc_column col d"
proof (induction ws arbitrary: d rs)
  case (Cons x ws)
  obtain r d1 where w: "WriteStatusByDtc (fst x) (fst (snd x)) (snd (snd x)) d = (r, d1)"
    by (cases "WriteStatusByDtc (fst x) (fst (snd x)) (snd (snd x)) d")
  have "dtc_keys d1" "dtc_column col d1 = dtc_column col d"
    using Cons.prems(1,2) w dtc_status.invar_put [of d "fst x" "snd x"]
      Write_frame [of d "fst x" "\<lambda>e. e\<lparr>de_status := fst (snd x), de_occurrence := snd (snd x)\<rparr>" col] col
    by (auto simp: WriteStatusByDtc_def)
  then show ?case using Cons.IH [of d1] Cons.prems(2,3) by (auto simp: w split: prod.splits)
qed simp

text \<open>
  C5: The store refines maps: after any sequence of writes of the status and occurrence counter of
  DTCs, in which any statement of the database may fail at any point, the two columns are the maps
  that the writes answered with \<open>LE_OK\<close> give, in their order, and the activation and suppression
  of every DTC are what they were; a write that fails has no effect at all.
\<close>

theorem status_writes_refine:
  assumes "dtc_keys d" "\<forall>x\<in>set ws. fst x \<noteq> - 1"
    "run_writes (\<lambda>k v. SetDTCStatus k (fst v) (snd v)) ws d = (rs, d')"
  shows "length rs = length ws \<and>
    dtc_column (\<lambda>e. (de_status e, de_occurrence e)) d' =
      map_writes (zip ws rs) (dtc_column (\<lambda>e. (de_status e, de_occurrence e)) d) \<and>
    dtc_column de_activation d' = dtc_column de_activation d \<and>
    dtc_column de_suppression d' = dtc_column de_suppression d"
proof -
  note run = assms(3) [unfolded SetDTCStatus_def]
  show ?thesis
    using dtc_status.run_refines [OF assms(1,2) run]
      run_status_frame [OF _ assms(1,2) run, of de_activation]
      run_status_frame [OF _ assms(1,2) run, of de_suppression] by simp
qed

theorem status_writes_refine_witness:
  "\<exists>rs d'. run_writes (\<lambda>k v. SetDTCStatus k (fst v) (snd v)) [(1, (7, 1)), (1, (9, 2)), (2, (5, 0))]
       (sample_store\<lparr>io := [None, None, None, Some 0]\<rparr>) = (rs, d') \<and>
     rs = [le_OK, le_IO_ERROR, le_OK] \<and>
     dtc_column (\<lambda>e. (de_status e, de_occurrence e)) d' 1 = (7, 1)"
proof -
  let ?d = "sample_store\<lparr>io := [None, None, None, Some 0]\<rparr>" and ?ws = "[(1, (7, 1)), (1, (9, 2)), (2, (5, 0))] :: (u32 \<times> byte \<times> byte) list"
  obtain rs d' where r: "run_writes (\<lambda>k v. SetDTCStatus k (fst v) (snd v)) ?ws ?d = (rs, d')" by fastforce
  have "fst (run_writes (\<lambda>k v. SetDTCStatus k (fst v) (snd v)) ?ws ?d) = [le_OK, le_IO_ERROR, le_OK]"
    by code_simp
  then have rs: "rs = [le_OK, le_IO_ERROR, le_OK]" using r by simp
  have "dtc_keys ?d" "\<forall>x\<in>set ?ws. fst x \<noteq> - 1" by (simp_all add: dtc_keys_def sample_store_def)
  from status_writes_refine [OF this r] r rs show ?thesis by auto
qed

end
