(* ===== verification/Diag_DtcUds.thy ===== *)
theory Diag_DtcUds
  imports Diag_Dtc
begin

unbundle bit_operations_syntax

text \<open>
  The UDS side of the DTC services (\<open>tafDTCInfImpl.cpp\<close>): the handler of the requests
  ReadDTCInformation (0x19) and ClearDiagnosticInformation (0x14) that the UDS stack hands to the
  diagnostic service, and the responses it builds in its buffer of 4095 bytes.

  The current session of a VLAN and the sending of a response belong to the diagnostic back end
  (\<open>tafDiagBackend.cpp\<close>): whether they succeed is part of the environment \<open>dtc_env\<close>.
  A reply goes to the sender of the request, with the two addresses exchanged.
\<close>

record dtc_env =
  en_cfg :: diag_cfg
  en_session :: "u16 \<Rightarrow> le_res"
  en_respond :: le_res

datatype dtc_reply = PositiveResp byte "byte list" | NegativeResp byte byte

record dtcinf =
  di_diag :: diag
  di_respBuf :: "byte list"
  di_respBufLen :: nat
  di_replies :: "dtc_reply list"

definition RESPONSE_DATA_SIZE :: nat where "RESPONSE_DATA_SIZE = 4095"

definition NRC_INCORRECT_LEN :: byte where "NRC_INCORRECT_LEN = 0x13"
definition NRC_CONDITIONS_NOT_CORRECT :: byte where "NRC_CONDITIONS_NOT_CORRECT = 0x22"
definition NRC_REQ_OUT_OF_RANGE :: byte where "NRC_REQ_OUT_OF_RANGE = 0x31"
definition NRC_GENERAL_PROGRAMMING_FAILURE :: byte where "NRC_GENERAL_PROGRAMMING_FAILURE = 0x72"
definition NRC_SUBFUNCTION_NOT_SUPPORTED :: byte where "NRC_SUBFUNCTION_NOT_SUPPORTED = 0x12"
definition NRC_SERVICE_NOT_SUPPORTED :: byte where "NRC_SERVICE_NOT_SUPPORTED = 0x11"

definition reqReadDTCSvcId :: byte where "reqReadDTCSvcId = 0x19"
definition reqClearDTCSvcId :: byte where "reqClearDTCSvcId = 0x14"

section \<open>Building responses\<close>

definition dtc_bytes :: "u32 \<Rightarrow> byte list" where
  "dtc_bytes dtc = [ucast (drop_bit 16 dtc), ucast (drop_bit 8 dtc), ucast dtc]"

definition dtc_of_bytes :: "byte \<Rightarrow> byte \<Rightarrow> byte \<Rightarrow> u32" where
  "dtc_of_bytes a b c = push_bit 16 (ucast a) + push_bit 8 (ucast b) + ucast c"

text \<open>The buffer after the bytes of a list are written from a position on.\<close>

definition resp_put :: "nat \<Rightarrow> byte list \<Rightarrow> dtcinf \<Rightarrow> dtcinf mem" where
  "resp_put pos bs x = mbind (wrn (di_respBuf x) pos bs) (\<lambda>b. Inr (x\<lparr>di_respBuf := b\<rparr>))"

text \<open>Appending at \<open>respBufLen\<close>.\<close>

definition resp_append :: "byte list \<Rightarrow> dtcinf \<Rightarrow> dtcinf mem" where
  "resp_append bs x = mbind (resp_put (di_respBufLen x) bs x)
     (\<lambda>y. Inr (y\<lparr>di_respBufLen := di_respBufLen x + length bs\<rparr>))"

text \<open>Records of four bytes, a DTC and a byte, from place \<open>i\<close> on behind a base.\<close>

primrec resp_records :: "nat \<Rightarrow> nat \<Rightarrow> (u32 \<times> byte) list \<Rightarrow> dtcinf \<Rightarrow> dtcinf mem" where
  "resp_records base i [] x = Inr (x\<lparr>di_respBufLen := base + i * 4\<rparr>)"
| "resp_records base i (r # rs) x =
     mbind (resp_put (base + i * 4) (dtc_bytes (fst r) @ [snd r]) x) (resp_records base (Suc i) rs)"

definition ask :: "(dem \<Rightarrow> 'a \<times> dem) \<Rightarrow> dtcinf \<Rightarrow> 'a \<times> dtcinf" where
  "ask f x = (let (r, s) = on_store f (di_diag x) in (r, x\<lparr>di_diag := s\<rparr>))"

text \<open>A report answers with a result; the buffer holds the response when it is \<open>LE_OK\<close>.\<close>

definition dtc_in_session :: "dtc_env \<Rightarrow> u16 \<Rightarrow> (dtcinf \<Rightarrow> (le_res \<times> dtcinf) mem) \<Rightarrow> dtcinf \<Rightarrow>
    (le_res \<times> dtcinf) mem" where
  "dtc_in_session en vlan f x = (if en_session en vlan \<noteq> le_OK then Inr (en_session en vlan, x) else f x)"

definition done_with :: "dtcinf mem \<Rightarrow> (le_res \<times> dtcinf) mem" where
  "done_with m = mbind m (\<lambda>x. Inr (le_OK, x))"

definition GetNumOfDtcByStatusMask ::
  "dtc_env \<Rightarrow> byte \<Rightarrow> u16 \<Rightarrow> dtcinf \<Rightarrow> (le_res \<times> dtcinf) mem" where
  "GetNumOfDtcByStatusMask en statusMask vlan = dtc_in_session en vlan (\<lambda>x.
     let ((_, recs), x1) = ask (GetDtcByStatusMask_store statusMask) x;
         n = of_nat (length recs) :: u16 in
     done_with (mbind (resp_put 0 [DEM_DTC_AVAILABLE_MASK_DEF, DTC_FORMAT_IDENTIFIER_ISO_14229,
         ucast (drop_bit 8 n), ucast n] x1) (\<lambda>x2. Inr (x2\<lparr>di_respBufLen := 4\<rparr>))))"

definition GetDtcByStatusMask ::
  "dtc_env \<Rightarrow> byte \<Rightarrow> u16 \<Rightarrow> dtcinf \<Rightarrow> (le_res \<times> dtcinf) mem" where
  "GetDtcByStatusMask en statusMask vlan = dtc_in_session en vlan (\<lambda>x.
     let ((avail, recs), x1) = ask (GetDtcByStatusMask_store statusMask) x in
     done_with (mbind (resp_put 0 [avail] x1) (resp_records 1 0 recs)))"

definition GetDtcSnapshotID :: "dtc_env \<Rightarrow> u16 \<Rightarrow> dtcinf \<Rightarrow> (le_res \<times> dtcinf) mem" where
  "GetDtcSnapshotID en vlan = dtc_in_session en vlan (\<lambda>x.
     let (recs, x1) = ask GetSnapshotIdentification_store x in done_with (resp_records 0 0 recs x1))"

primrec append_dids :: "(u16 \<times> byte list) list \<Rightarrow> dtcinf \<Rightarrow> dtcinf mem" where
  "append_dids [] x = Inr x"
| "append_dids (p # ps) x = mbind (resp_append (be16 (fst p) @ snd p) x) (append_dids ps)"

primrec append_frames :: "SnapshotData list \<Rightarrow> dtcinf \<Rightarrow> dtcinf mem" where
  "append_frames [] x = Inr x"
| "append_frames (f # fs) x =
     mbind (resp_append [sd_recNumber f, sd_recDidSize f] x) (\<lambda>x1.
     mbind (append_dids (take (unat (sd_recDidSize f)) (sd_didSet f)) x1) (append_frames fs))"

definition GetDtcSnapshotRecordByDTCNum ::
  "dtc_env \<Rightarrow> u32 \<Rightarrow> byte \<Rightarrow> u16 \<Rightarrow> dtcinf \<Rightarrow> (le_res \<times> dtcinf) mem" where
  "GetDtcSnapshotRecordByDTCNum en dtc recNum vlan = dtc_in_session en vlan (\<lambda>x.
     mbind (GetSnapshotRecByDtc_store (dg_dem (en_cfg en)) dtc recNum (store (di_diag x)))
       (\<lambda>(r, d). let x1 = x\<lparr>di_diag := (di_diag x)\<lparr>store := d\<rparr>\<rparr> in
        case r of Inl result \<Rightarrow> Inr (result, x1)
        | Inr (status, frames) \<Rightarrow>
            done_with (mbind (resp_put 0 (dtc_bytes dtc @ [status]) x1)
              (\<lambda>x2. append_frames frames (x2\<lparr>di_respBufLen := 4\<rparr>)))))"

primrec append_ext :: "(byte \<times> byte list) list \<Rightarrow> dtcinf \<Rightarrow> dtcinf mem" where
  "append_ext [] x = Inr x"
| "append_ext (p # ps) x = mbind (resp_append (fst p # snd p) x) (append_ext ps)"

text \<open>
  For a DTC without a row the record of the store has the requested DTC and status 0, so the first
  bytes of the response are the same in both cases.
\<close>

definition GetExtDataRecordByDTCNum ::
  "dtc_env \<Rightarrow> u32 \<Rightarrow> byte \<Rightarrow> u16 \<Rightarrow> dtcinf \<Rightarrow> (le_res \<times> dtcinf) mem" where
  "GetExtDataRecordByDTCNum en dtc rec vlan = dtc_in_session en vlan (\<lambda>x.
     let (r, x1) = ask (GetExtDataRecByDtc_store dtc rec) x in
     case r of Inl result \<Rightarrow> Inr (result, x1)
     | Inr (status, recs) \<Rightarrow>
         done_with (mbind (resp_put 0 (dtc_bytes dtc @ [status]) x1)
           (\<lambda>x2. append_ext recs (x2\<lparr>di_respBufLen := 4\<rparr>))))"

definition GetSupportedDtc :: "dtc_env \<Rightarrow> u16 \<Rightarrow> dtcinf \<Rightarrow> (le_res \<times> dtcinf) mem" where
  "GetSupportedDtc en vlan = dtc_in_session en vlan (\<lambda>x.
     let ((avail, recs), x1) = ask (GetSupportedDtc_store (dg_dem (en_cfg en))) x in
     done_with (mbind (resp_put 0 [avail] x1) (resp_records 1 0 recs)))"

definition GetFaultDetCounter :: "dtc_env \<Rightarrow> u16 \<Rightarrow> dtcinf \<Rightarrow> (le_res \<times> dtcinf) mem" where
  "GetFaultDetCounter en vlan = dtc_in_session en vlan (\<lambda>x.
     done_with (resp_records 0 0 (ReportDTCFaultDetectionCounter (en_cfg en) (di_diag x)) x))"

text \<open>The response to a clear request is empty.\<close>

definition GetClearDTCResp :: "dtc_env \<Rightarrow> u32 \<Rightarrow> dtcinf \<Rightarrow> le_res \<times> dtcinf" where
  "GetClearDTCResp en grp x =
     (let (result, s) = ClearDtc (en_cfg en) grp DTOOL (di_diag x); x1 = x\<lparr>di_diag := s\<rparr> in
      (result, if result = le_OK then x1\<lparr>di_respBufLen := 0\<rparr> else x1))"

section \<open>The handler\<close>

definition SendDTCResp :: "dtc_env \<Rightarrow> byte \<Rightarrow> dtcinf \<Rightarrow> dtcinf" where
  "SendDTCResp en sid x =
     (let x1 = x\<lparr>di_replies := di_replies x @ [PositiveResp sid (take (di_respBufLen x) (di_respBuf x))]\<rparr> in
      if en_respond en \<noteq> le_OK then x
      else x1\<lparr>di_respBuf := replicate RESPONSE_DATA_SIZE 0, di_respBufLen := 0\<rparr>)"

definition SendNRCResp :: "byte \<Rightarrow> byte \<Rightarrow> dtcinf \<Rightarrow> dtcinf" where
  "SendNRCResp sid errCode x = x\<lparr>di_replies := di_replies x @ [NegativeResp sid errCode]\<rparr>"

text \<open>A report of the right length; a result other than \<open>LE_OK\<close> is request out of range.\<close>

definition report :: "dtc_env \<Rightarrow> byte \<Rightarrow> bool \<Rightarrow> (dtcinf \<Rightarrow> (le_res \<times> dtcinf) mem) \<Rightarrow> dtcinf \<Rightarrow>
    dtcinf mem" where
  "report en sid len_ok f x =
     (if \<not> len_ok then Inr (SendNRCResp sid NRC_INCORRECT_LEN x)
      else mbind (f x) (\<lambda>(result, x1).
        Inr (if result \<noteq> le_OK then SendNRCResp sid NRC_REQ_OUT_OF_RANGE x1
             else SendDTCResp en sid x1)))"

definition ReadDTC :: "dtc_env \<Rightarrow> u16 \<Rightarrow> byte list \<Rightarrow> dtcinf \<Rightarrow> dtcinf mem" where
  "ReadDTC en vlan msg x = mbind (rd msg 1) (\<lambda>sub.
     let sid = reqReadDTCSvcId; f = sub AND 0x7F;
         dtc = dtc_of_bytes (msg ! 2) (msg ! 3) (msg ! 4) in
     if f = 0x01 then report en sid (length msg = 3) (GetNumOfDtcByStatusMask en (msg ! 2) vlan) x
     else if f = 0x02 then report en sid (length msg = 3) (GetDtcByStatusMask en (msg ! 2) vlan) x
     else if f = 0x03 then report en sid (length msg = 2) (GetDtcSnapshotID en vlan) x
     else if f = 0x04 then report en sid (length msg = 6)
       (GetDtcSnapshotRecordByDTCNum en dtc (msg ! 5) vlan) x
     else if f = 0x06 then report en sid (length msg = 6)
       (GetExtDataRecordByDTCNum en dtc (msg ! 5) vlan) x
     else if f = 0x0A then report en sid (length msg = 2) (GetSupportedDtc en vlan) x
     else if f = 0x14 then report en sid (length msg = 2) (GetFaultDetCounter en vlan) x
     else Inr (SendNRCResp sid NRC_SUBFUNCTION_NOT_SUPPORTED x))"

definition ClearDTC :: "dtc_env \<Rightarrow> byte list \<Rightarrow> dtcinf \<Rightarrow> dtcinf" where
  "ClearDTC en msg x =
     (let sid = reqClearDTCSvcId in
      if length msg < 4 then SendNRCResp sid NRC_INCORRECT_LEN x
      else let (result, x1) = GetClearDTCResp en (dtc_of_bytes (msg ! 1) (msg ! 2) (msg ! 3)) x in
      if result = le_UNAVAILABLE then SendNRCResp sid NRC_CONDITIONS_NOT_CORRECT x1
      else if result = le_UNSUPPORTED then SendNRCResp sid NRC_REQ_OUT_OF_RANGE x1
      else if result = le_IO_ERROR then SendNRCResp sid NRC_GENERAL_PROGRAMMING_FAILURE x1
      else SendDTCResp en sid x1)"

definition UDSMsgHandler :: "dtc_env \<Rightarrow> u16 \<Rightarrow> byte \<Rightarrow> byte list \<Rightarrow> dtcinf \<Rightarrow> dtcinf mem" where
  "UDSMsgHandler en vlan sid msg x =
     (if sid = reqReadDTCSvcId then ReadDTC en vlan msg x
      else if sid = reqClearDTCSvcId then Inr (ClearDTC en msg x)
      else Inr (SendNRCResp sid NRC_SERVICE_NOT_SUPPORTED x))"

end
