(* ===== verification/Diag_Response.thy ===== *)
theory Diag_Response
  imports Diag_DtcUds Diag_Samples
begin

unbundle bit_operations_syntax

text \<open>
  The responses to ReadDTCInformation: what is in the buffer, when it fits, and how a request to
  clear a DTC is refused.
\<close>

section \<open>Records in the buffer\<close>

definition record_bytes :: "u32 \<times> byte \<Rightarrow> byte list" where
  "record_bytes r = dtc_bytes (fst r) @ [snd r]"

lemma record_bytes_length: "length (record_bytes r) = 4" "length (concat (map record_bytes rs)) = 4 * length rs"
  by (simp_all add: record_bytes_def dtc_bytes_def length_concat comp_def sum_list_triv)

lemma resp_put_bytes:
  "length xs = p \<Longrightarrow> p + length bs \<le> length b \<Longrightarrow> di_respBuf x = xs @ drop p b \<Longrightarrow>
   resp_put p bs x = Inr (x\<lparr>di_respBuf := (xs @ bs) @ drop (p + length bs) b\<rparr>)"
  by (simp add: resp_put_def wrn_seq)

lemma resp_put_fault: "length (di_respBuf x) < p + length bs \<Longrightarrow> resp_put p bs x = Inl OutOfBounds"
  by (simp add: resp_put_def wrn_def)

text \<open>The loop over the records, from the record at place \<open>i\<close>.\<close>

lemma resp_records_run:
  "length xs = base + i * 4 \<Longrightarrow> length xs \<le> length b \<Longrightarrow> di_respBuf x = xs @ drop (base + i * 4) b \<Longrightarrow>
   resp_records base i rs x =
     (if base + (i + length rs) * 4 \<le> length b
      then Inr (x\<lparr>di_respBuf := (xs @ concat (map record_bytes rs)) @ drop (base + (i + length rs) * 4) b,
              di_respBufLen := base + (i + length rs) * 4\<rparr>)
      else Inl OutOfBounds)"
proof (induction rs arbitrary: i xs x)
  case (Cons r rs)
  let ?p = "base + i * 4"
  have l: "length (di_respBuf x) = length b" using Cons.prems by simp
  have four: "length (dtc_bytes (fst r) @ [snd r]) = 4" by (simp add: dtc_bytes_def)
  show ?case
  proof (cases "?p + 4 \<le> length b")
    case True
    let ?x = "x\<lparr>di_respBuf := (xs @ record_bytes r) @ drop (base + Suc i * 4) b\<rparr>"
    have "resp_put ?p (dtc_bytes (fst r) @ [snd r]) x = Inr ?x"
      using resp_put_bytes [OF Cons.prems(1) _ Cons.prems(3), of "dtc_bytes (fst r) @ [snd r]"] True four
      by (simp add: record_bytes_def add.commute add.left_commute)
    moreover have "resp_records base (Suc i) rs ?x =
        (if base + (Suc i + length rs) * 4 \<le> length b
         then Inr (?x\<lparr>di_respBuf := ((xs @ record_bytes r) @ concat (map record_bytes rs)) @
                drop (base + (Suc i + length rs) * 4) b, di_respBufLen := base + (Suc i + length rs) * 4\<rparr>)
         else Inl OutOfBounds)"
      using Cons.prems(1) True by (intro Cons.IH) (simp_all add: record_bytes_length)
    ultimately show ?thesis by simp
  next
    case False
    then show ?thesis using l resp_put_fault [of x ?p] four by simp
  qed
qed simp

text \<open>
  C28: The response to a request for the DTCs with a status mask holds the availability mask and four
  bytes for each DTC the store reports, three of the code and one of the status, in the order of
  the report, as long as there are at most 1023 of them; with more, the loop writes past the end
  of the 4095 bytes of the response buffer, which is not checked anywhere.
\<close>

theorem status_mask_response:
  assumes "length (di_respBuf x) = RESPONSE_DATA_SIZE" "en_session en vlan = le_OK"
    "ask (GetDtcByStatusMask_store statusMask) x = ((avail, recs), x1)"
  shows "if length recs \<le> 1023
    then \<exists>y. GetDtcByStatusMask en statusMask vlan x = Inr (le_OK, y) \<and> di_diag y = di_diag x1 \<and>
      take (di_respBufLen y) (di_respBuf y) = avail # concat (map record_bytes recs) \<and>
      length (di_respBuf y) = RESPONSE_DATA_SIZE
    else GetDtcByStatusMask en statusMask vlan x = Inl OutOfBounds"
proof -
  let ?b = "di_respBuf x"
  have len: "length ?b = 4095" using assms(1) by (simp add: RESPONSE_DATA_SIZE_def)
  have x1: "di_respBuf x1 = ?b" using assms(3) by (auto simp: ask_def split: prod.splits)
  have put: "resp_put 0 [avail] x1 = Inr (x1\<lparr>di_respBuf := [avail] @ drop 1 ?b\<rparr>)"
    using resp_put_bytes [of "[]" 0 "[avail]" ?b x1] len x1 by simp
  have run: "resp_records 1 0 recs (x1\<lparr>di_respBuf := [avail] @ drop 1 ?b\<rparr>) =
     (if 1 + length recs * 4 \<le> 4095
      then Inr (x1\<lparr>di_respBuf := ([avail] @ concat (map record_bytes recs)) @ drop (1 + length recs * 4) ?b,
              di_respBufLen := 1 + length recs * 4\<rparr>)
      else Inl OutOfBounds)"
    using resp_records_run [of "[avail]" 1 0 ?b "x1\<lparr>di_respBuf := [avail] @ drop 1 ?b\<rparr>" recs] len by simp
  have "(1 + length recs * 4 \<le> 4095) = (length recs \<le> 1023)" by linarith
  then show ?thesis
    using assms(2,3) put run len
    by (simp add: GetDtcByStatusMask_def dtc_in_session_def done_with_def record_bytes_length RESPONSE_DATA_SIZE_def)
qed

definition sample_env :: dtc_env where
  "sample_env = \<lparr>en_cfg = sample_cfg, en_session = (\<lambda>_. le_OK), en_respond = le_OK\<rparr>"

definition sample_inf :: "dem \<Rightarrow> dtcinf" where
  "sample_inf d = \<lparr>di_diag = (diag_boot d), di_respBuf = replicate RESPONSE_DATA_SIZE 0, di_respBufLen = 0,
     di_replies = []\<rparr>"

definition sample_rows :: dem where
  "sample_rows = sample_store\<lparr>dtc_entity := [(new_DtcEntity 0x123456)\<lparr>de_status := 0x2F\<rparr>, new_DtcEntity 0x00AB01,
     (new_DtcEntity 0x00AB02)\<lparr>de_status := 1, de_suppression := 1\<rparr>]\<rparr>"

theorem status_mask_response_witness:
  "\<exists>y. GetDtcByStatusMask sample_env 0x09 1 (sample_inf sample_rows) = Inr (le_OK, y) \<and>
     take (di_respBufLen y) (di_respBuf y) = [0x7F, 0x12, 0x34, 0x56, 0x2F]"
proof -
  let ?x = "sample_inf sample_rows"
  obtain a where a: "ask (GetDtcByStatusMask_store 0x09) ?x = ((0x7F, [(0x123456, 0x2F)]), a)"
  proof -
    have "fst (ask (GetDtcByStatusMask_store 0x09) ?x) = (0x7F, [(0x123456, 0x2F)])" by code_simp
    then show ?thesis by (cases "ask (GetDtcByStatusMask_store 0x09) ?x") (auto intro: that)
  qed
  have "length (di_respBuf ?x) = RESPONSE_DATA_SIZE" "en_session sample_env 1 = le_OK"
    by (simp_all add: sample_inf_def sample_env_def)
  moreover have "record_bytes (0x123456, 0x2F) = [0x12, 0x34, 0x56, 0x2F]" by code_simp
  ultimately show ?thesis using status_mask_response [of ?x sample_env 1 "0x09" "0x7F"] a by fastforce
qed

section \<open>Refused clears\<close>

text \<open>
  C29: how a request to clear DTCs is refused, for any event configuration and any state. A request
  of fewer than four bytes is answered with "incorrect message length", and one for a single code
  (not the group of all DTCs) that is not known with "request out of range"; neither changes anything
  but the answers. A request for a single DTC that is suppressed is answered with "conditions not correct";
  it is not cleared - no event, no status and nothing in the store changes - but the code has noted
  the diagnostic tool as the last client that asked to clear this DTC, which is all that changes.
\<close>

theorem clear_refused:
  "(length msg < 4 \<longrightarrow> UDSMsgHandler en vlan reqClearDTCSvcId msg x =
      Inr (x\<lparr>di_replies := di_replies x @ [NegativeResp reqClearDTCSvcId NRC_INCORRECT_LEN]\<rparr>)) \<and>
   (\<forall>code. 4 \<le> length msg \<and> code = dtc_of_bytes (msg ! 1) (msg ! 2) (msg ! 3) \<and> code \<noteq> ALL_DTC_GROUP \<longrightarrow>
      (GetDtcCtxByCode code (di_diag x) = None \<longrightarrow> UDSMsgHandler en vlan reqClearDTCSvcId msg x =
        Inr (x\<lparr>di_replies := di_replies x @ [NegativeResp reqClearDTCSvcId NRC_REQ_OUT_OF_RANGE]\<rparr>)) \<and>
      (\<forall>d. GetDtcCtxByCode code (di_diag x) = Some d \<and> dc_suppression d \<longrightarrow>
        UDSMsgHandler en vlan reqClearDTCSvcId msg x =
          Inr (x\<lparr>di_replies := di_replies x @ [NegativeResp reqClearDTCSvcId NRC_CONDITIONS_NOT_CORRECT],
            di_diag := upd_dtc code (\<lambda>d. d\<lparr>dc_reqClient := DTOOL\<rparr>) (di_diag x)\<rparr>)))"
proof -
  have sid: "reqClearDTCSvcId \<noteq> reqReadDTCSvcId"
    by (simp add: reqClearDTCSvcId_def reqReadDTCSvcId_def)
  show ?thesis
    by (auto simp: UDSMsgHandler_def sid ClearDTC_def SendNRCResp_def GetClearDTCResp_def ClearDtc_def
        ClearSingleDtc_def Let_def)
qed

text \<open>A request without a code, one for an unknown code, and one for the first DTC of the sample when suppressed.\<close>

definition sample_suppressed :: dtcinf where
  "sample_suppressed = (sample_inf sample_store)\<lparr>di_diag := upd_dtc 0x123456 (\<lambda>d. d\<lparr>dc_suppression := True\<rparr>) sample_start\<rparr>"

theorem clear_refused_witness:
  "\<exists>y1 y2 y3. UDSMsgHandler sample_env 1 reqClearDTCSvcId [0x14] sample_suppressed = Inr y1
     \<and> di_replies y1 = [NegativeResp reqClearDTCSvcId NRC_INCORRECT_LEN]
   \<and> UDSMsgHandler sample_env 1 reqClearDTCSvcId [0x14, 0x77, 0x77, 0x77] sample_suppressed = Inr y2
     \<and> di_replies y2 = [NegativeResp reqClearDTCSvcId NRC_REQ_OUT_OF_RANGE]
   \<and> UDSMsgHandler sample_env 1 reqClearDTCSvcId [0x14, 0x12, 0x34, 0x56] sample_suppressed = Inr y3
     \<and> di_replies y3 = [NegativeResp reqClearDTCSvcId NRC_CONDITIONS_NOT_CORRECT]"
proof -
  let ?x = sample_suppressed
  let ?m = "[0x14, 0x77, 0x77, 0x77] :: byte list" and ?k = "[0x14, 0x12, 0x34, 0x56] :: byte list"
  have m: "dtc_of_bytes (?m ! 1) (?m ! 2) (?m ! 3) \<noteq> ALL_DTC_GROUP"
    "GetDtcCtxByCode (dtc_of_bytes (?m ! 1) (?m ! 2) (?m ! 3)) (di_diag ?x) = None" by code_simp+
  have k: "dtc_of_bytes (?k ! 1) (?k ! 2) (?k ! 3) \<noteq> ALL_DTC_GROUP"
    "(case GetDtcCtxByCode (dtc_of_bytes (?k ! 1) (?k ! 2) (?k ! 3)) (di_diag ?x) of None \<Rightarrow> False | Some d \<Rightarrow> dc_suppression d)"
    by code_simp+
  have r: "di_replies ?x = []" by (simp add: sample_suppressed_def sample_inf_def)
  have "\<exists>y. UDSMsgHandler sample_env 1 reqClearDTCSvcId [0x14] ?x = Inr y \<and>
      di_replies y = [NegativeResp reqClearDTCSvcId NRC_INCORRECT_LEN]"
    using clear_refused [of "[0x14]" sample_env 1 ?x] r by simp
  moreover have "\<exists>y. UDSMsgHandler sample_env 1 reqClearDTCSvcId ?m ?x = Inr y \<and>
      di_replies y = [NegativeResp reqClearDTCSvcId NRC_REQ_OUT_OF_RANGE]"
    using clear_refused [of ?m sample_env 1 ?x, THEN conjunct2, THEN spec, of "dtc_of_bytes (?m ! 1) (?m ! 2) (?m ! 3)"] m r
    by (simp del: nth_Cons_numeral)
  moreover have "\<exists>y. UDSMsgHandler sample_env 1 reqClearDTCSvcId ?k ?x = Inr y \<and>
      di_replies y = [NegativeResp reqClearDTCSvcId NRC_CONDITIONS_NOT_CORRECT]"
    using clear_refused [of ?k sample_env 1 ?x, THEN conjunct2, THEN spec, of "dtc_of_bytes (?k ! 1) (?k ! 2) (?k ! 3)"] k r
    by (auto simp del: nth_Cons_numeral split: option.splits)
  ultimately show ?thesis by blast
qed

end
