(* ===== verification/Diag_DtcData.thy ===== *)
theory Diag_DtcData
  imports Diag_Dtc
begin

text \<open>
  The lists of stored data a client of the DTC service walks (\<open>tafDTCSvrImpl.cpp\<close>): \<open>GetDataList\<close>
  copies the records of a DTC from the store, \<open>GetFirstData\<close> and \<open>GetNextData\<close> hand out a reference
  for each record, the accessors read through it, and \<open>DeleteDataList\<close> releases all of it.

  A link of a list is the position of its record. The two maps of safe references are functions of
  the references handed out, whose numbers come from one counter; a reference to a record is a
  number for the list and a position in it, so that a read after the list was released is a memory
  fault. \<open>da_blocks\<close> counts the blocks the store has allocated for records and not released: two for
  each, the node and its value.
\<close>

section \<open>State\<close>

record DtcData =
  dd_code :: u32
  dd_type :: dtc_data_type
  dd_record :: byte
  dd_id :: "u16 option"
  dd_value :: "byte list"

record DtcDataList =
  dl_data :: "DtcData list"
  dl_refs :: "nat list"
  dl_curr :: "nat option"

record dtcdata =
  da_diag :: diag
  da_lists :: "nat \<rightharpoonup> DtcDataList"
  da_refs :: "nat \<rightharpoonup> nat \<times> nat"
  da_next :: nat
  da_blocks :: nat

section \<open>Lists\<close>

text \<open>
  A record whose value is longer than the limit of the API is dropped; the identifier is copied
  for snapshot data only. The store keeps values of at most 128 bytes.
\<close>

definition copy_data :: "nat \<Rightarrow> DtcDataInfo \<Rightarrow> DtcData option" where
  "copy_data valueMax i = (if valueMax < length (di_value i) then None
     else Some \<lparr>dd_code = di_dtcCode i, dd_type = di_type i, dd_record = di_recordNum i,
       dd_id = (if di_type i = SNAPSHOT_DATA then Some (di_dataId i) else None),
       dd_value = di_value i\<rparr>)"

definition ReleaseDTCData :: "DtcDataInfo list \<Rightarrow> dtcdata \<Rightarrow> dtcdata" where
  "ReleaseDTCData infos x = x\<lparr>da_blocks := da_blocks x - 2 * length infos\<rparr>"

text \<open>The loop takes the records off the list of the store, which is empty when it is released.\<close>

definition GetDataList :: "nat \<Rightarrow> diag_cfg \<Rightarrow> nat option \<Rightarrow> dtcdata \<Rightarrow> nat option \<times> dtcdata" where
  "GetDataList valueMax cf ref x = (case GetDtcCtx ref (da_diag x) of
     None \<Rightarrow> (None, x)
   | Some v \<Rightarrow>
      (if sv_suppression v then (None, x)
       else let (infos, s) = on_store (GetDTCData (dg_dem cf) (sv_code v)) (da_diag x);
                x1 = x\<lparr>da_diag := s, da_blocks := da_blocks x + 2 * length infos\<rparr> in
       if infos = [] then (None, x1)
       else let x2 = ReleaseDTCData [] x1; r = da_next x2 in
       (Some r, x2\<lparr>da_lists := (da_lists x2)(r \<mapsto> \<lparr>dl_data = List.map_filter (copy_data valueMax) infos,
          dl_refs = [], dl_curr = None\<rparr>), da_next := r + 1\<rparr>)))"

definition give_ref :: "nat \<Rightarrow> DtcDataList \<Rightarrow> nat \<Rightarrow> dtcdata \<Rightarrow> nat option \<times> dtcdata" where
  "give_ref r l k x = (let q = da_next x in
     (Some q, x\<lparr>da_lists := (da_lists x)(r \<mapsto> l\<lparr>dl_curr := Some k, dl_refs := dl_refs l @ [q]\<rparr>),
        da_refs := (da_refs x)(q \<mapsto> (r, k)), da_next := q + 1\<rparr>))"

definition GetFirstData :: "nat option \<Rightarrow> dtcdata \<Rightarrow> nat option \<times> dtcdata" where
  "GetFirstData ref x = (case ref of None \<Rightarrow> (None, x) | Some r \<Rightarrow>
     (case da_lists x r of None \<Rightarrow> (None, x)
      | Some l \<Rightarrow> if dl_data l = [] then (None, x) else give_ref r l 0 x))"

text \<open>
  Before the first record was asked for the current link is null: whether \<open>le_sls_PeekNext\<close> takes
  that for the end of the list is the parameter \<open>nullEnds\<close>.
\<close>

definition GetNextData :: "bool \<Rightarrow> nat option \<Rightarrow> dtcdata \<Rightarrow> (nat option \<times> dtcdata) mem" where
  "GetNextData nullEnds ref x = (case ref of None \<Rightarrow> Inr (None, x) | Some r \<Rightarrow>
     (case da_lists x r of None \<Rightarrow> Inr (None, x)
      | Some l \<Rightarrow> (case dl_curr l of
          None \<Rightarrow> if nullEnds then Inr (None, x) else Inl NullDeref
        | Some k \<Rightarrow> if Suc k < length (dl_data l) then Inr (give_ref r l (Suc k) x) else Inr (None, x))))"

definition DeleteDataList :: "nat option \<Rightarrow> dtcdata \<Rightarrow> le_res \<times> dtcdata" where
  "DeleteDataList ref x = (case ref of None \<Rightarrow> (le_BAD_PARAMETER, x) | Some r \<Rightarrow>
     (case da_lists x r of None \<Rightarrow> (le_NOT_FOUND, x)
      | Some l \<Rightarrow> (le_OK, x\<lparr>da_lists := (da_lists x)(r := None),
          da_refs := (\<lambda>q. if q \<in> set (dl_refs l) then None else da_refs x q)\<rparr>)))"

section \<open>Reading a record\<close>

definition data_query :: "(DtcData \<Rightarrow> le_res + 'a) \<Rightarrow> nat option \<Rightarrow> dtcdata \<Rightarrow> (le_res + 'a) mem" where
  "data_query f ref x = (case ref of None \<Rightarrow> Inr (Inl le_NOT_FOUND) | Some q \<Rightarrow>
     (case da_refs x q of None \<Rightarrow> Inr (Inl le_FAULT)
      | Some (r, k) \<Rightarrow> (case da_lists x r of None \<Rightarrow> Inl UseAfterRelease
          | Some l \<Rightarrow> if k < length (dl_data l) then Inr (f (dl_data l ! k)) else Inl UseAfterRelease)))"

definition GetDataDtcCode :: "nat option \<Rightarrow> dtcdata \<Rightarrow> (le_res + u32) mem" where
  "GetDataDtcCode = data_query (\<lambda>d. Inr (dd_code d))"

definition GetDataType :: "nat option \<Rightarrow> dtcdata \<Rightarrow> (le_res + dtc_data_type) mem" where
  "GetDataType = data_query (\<lambda>d. Inr (dd_type d))"

definition GetRecordNumber :: "nat option \<Rightarrow> dtcdata \<Rightarrow> (le_res + byte) mem" where
  "GetRecordNumber = data_query (\<lambda>d. Inr (dd_record d))"

text \<open>An identifier is set whenever the type is snapshot data.\<close>

definition GetDataId :: "nat option \<Rightarrow> dtcdata \<Rightarrow> (le_res + u16) mem" where
  "GetDataId = data_query (\<lambda>d. if dd_type d \<noteq> SNAPSHOT_DATA then Inl le_FORMAT_ERROR
     else Inr (the (dd_id d)))"

definition GetDataValue :: "nat \<Rightarrow> nat option \<Rightarrow> dtcdata \<Rightarrow> (le_res + byte list) mem" where
  "GetDataValue valueMax = data_query (\<lambda>d. if valueMax < length (dd_value d) then Inl le_FAULT
     else Inr (dd_value d))"

section \<open>Clients\<close>

text \<open>
  What clients do with lists, in any order, and any change of the rest of the services in between.
\<close>

inductive data_step :: "nat \<Rightarrow> diag_cfg \<Rightarrow> bool \<Rightarrow> dtcdata \<Rightarrow> dtcdata \<Rightarrow> bool"
  for valueMax cf nullEnds where
  step_list: "data_step valueMax cf nullEnds x (snd (GetDataList valueMax cf ref x))"
| step_first: "data_step valueMax cf nullEnds x (snd (GetFirstData ref x))"
| step_next: "GetNextData nullEnds ref x = Inr (q, y) \<Longrightarrow> data_step valueMax cf nullEnds x y"
| step_delete: "data_step valueMax cf nullEnds x (snd (DeleteDataList ref x))"
| step_other: "data_step valueMax cf nullEnds x (x\<lparr>da_diag := s\<rparr>)"

definition data_start :: "diag \<Rightarrow> dtcdata" where
  "data_start s = \<lparr>da_diag = s, da_lists = (\<lambda>_. None), da_refs = (\<lambda>_. None), da_next = 0,
     da_blocks = 0\<rparr>"

inductive data_reachable :: "nat \<Rightarrow> diag_cfg \<Rightarrow> bool \<Rightarrow> dtcdata \<Rightarrow> bool" for valueMax cf nullEnds where
  reach_start: "data_reachable valueMax cf nullEnds (data_start s)"
| reach_step: "data_reachable valueMax cf nullEnds x \<Longrightarrow> data_step valueMax cf nullEnds x y \<Longrightarrow>
    data_reachable valueMax cf nullEnds y"

end
