(* ===== verification/Diag_DtcWalk.thy ===== *)
theory Diag_DtcWalk
  imports Diag_DtcData Diag_Samples
begin

text \<open>
  What a client that walks a list of stored data gets, and that no reference of a client ever
  leads to a record that was released.
\<close>

section \<open>References stand for records\<close>

definition ref_ok :: "dtcdata \<Rightarrow> nat \<Rightarrow> nat \<Rightarrow> nat \<Rightarrow> bool" where
  "ref_ok x q r k \<longleftrightarrow> q < da_next x \<and>
     (\<exists>l. da_lists x r = Some l \<and> k < length (dl_data l) \<and> q \<in> set (dl_refs l))"

definition list_ok :: "dtcdata \<Rightarrow> nat \<Rightarrow> DtcDataList \<Rightarrow> bool" where
  "list_ok x r l \<longleftrightarrow> r < da_next x \<and> (\<forall>q\<in>set (dl_refs l). \<exists>k. da_refs x q = Some (r, k)) \<and>
     (\<forall>k. dl_curr l = Some k \<longrightarrow> k < length (dl_data l))"

definition data_ok :: "dtcdata \<Rightarrow> bool" where
  "data_ok x \<longleftrightarrow> (\<forall>q r k. da_refs x q = Some (r, k) \<longrightarrow> ref_ok x q r k) \<and>
     (\<forall>r l. da_lists x r = Some l \<longrightarrow> list_ok x r l)"

lemma data_ok_start: "data_ok (data_start s)"
  by (simp add: data_ok_def data_start_def)

lemma data_ok_give_ref:
  assumes ok: "data_ok x" and l: "da_lists x r = Some l" and k: "k < length (dl_data l)"
  shows "data_ok (snd (give_ref r l k x))"
proof -
  have r: "r < da_next x" and refs: "\<forall>q\<in>set (dl_refs l). \<exists>k. da_refs x q = Some (r, k)"
    using ok l by (auto simp: data_ok_def list_ok_def)
  have new: "da_refs x (da_next x) = None"
    using ok by (cases "da_refs x (da_next x)") (auto simp: data_ok_def ref_ok_def)
  have unknown: "da_next x \<notin> set (dl_refs l')" if "da_lists x r' = Some l'" for r' l'
    using that ok new by (fastforce simp: data_ok_def list_ok_def)
  have "ref_ok (snd (give_ref r l k x)) q r' k'" if "da_refs (snd (give_ref r l k x)) q = Some (r', k')" for q r' k'
    using that ok l k by (auto simp: give_ref_def Let_def ref_ok_def data_ok_def split: if_splits)
      (metis less_Suc_eq option.inject)+
  moreover have "list_ok (snd (give_ref r l k x)) r' l'" if "da_lists (snd (give_ref r l k x)) r' = Some l'" for r' l'
    using that ok l k r refs new
    by (auto simp: unknown give_ref_def Let_def list_ok_def data_ok_def less_Suc_eq split: if_splits)
  ultimately show ?thesis by (simp add: data_ok_def)
qed

lemma data_ok_GetDataList:
  assumes ok: "data_ok x"
  shows "data_ok (snd (GetDataList m cf ref x))"
proof -
  have "\<And>q r k. da_refs x q = Some (r, k) \<Longrightarrow> r \<noteq> da_next x"
    using ok by (fastforce simp: data_ok_def ref_ok_def list_ok_def)
  then show ?thesis
    using ok by (auto simp: GetDataList_def Let_def ReleaseDTCData_def data_ok_def ref_ok_def list_ok_def
        less_Suc_eq split: option.split prod.split)
qed

lemma data_ok_DeleteDataList:
  assumes ok: "data_ok x"
  shows "data_ok (snd (DeleteDataList ref x))"
proof (cases "Option.bind ref (da_lists x)")
  case None
  then show ?thesis using ok by (auto simp: DeleteDataList_def split: option.split)
next
  case (Some l)
  then obtain r where r: "ref = Some r" "da_lists x r = Some l" by (cases ref) auto
  have "q \<in> set (dl_refs l)" if "da_refs x q = Some (r, k)" for q k
    using that ok r by (fastforce simp: data_ok_def ref_ok_def)
  moreover have "q \<notin> set (dl_refs l)" if "da_lists x r' = Some l'" "r' \<noteq> r" "q \<in> set (dl_refs l')" for q r' l'
    using that ok r unfolding data_ok_def list_ok_def by (metis option.inject prod.inject)
  ultimately show ?thesis
    using ok r by (auto simp: DeleteDataList_def data_ok_def ref_ok_def list_ok_def split: if_splits)
qed

lemma data_ok_step:
  assumes "data_step m cf ne x y" "data_ok x"
  shows "data_ok y"
  using assms
proof cases
  case (step_first ref)
  then show ?thesis using assms(2)
    by (auto simp: GetFirstData_def intro: data_ok_give_ref split: option.split)
next
  case (step_next ref q)
  then show ?thesis using assms(2)
    by (auto simp: GetNextData_def split: option.splits if_splits)
      (metis data_ok_give_ref snd_conv)
next
  case (step_other s)
  then show ?thesis using assms(2) by (simp add: data_ok_def ref_ok_def list_ok_def)
qed (simp_all add: assms data_ok_GetDataList data_ok_DeleteDataList)

lemma data_ok_reachable: "data_reachable m cf ne x \<Longrightarrow> data_ok x"
  by (induction rule: data_reachable.induct) (auto intro: data_ok_start data_ok_step)

lemma data_query_defined: "data_ok x \<Longrightarrow> \<exists>v. data_query f ref x = Inr v"
  by (cases ref) (fastforce simp: data_query_def data_ok_def ref_ok_def split: option.split)+

section \<open>Deleting a list\<close>

text \<open>
  C31: In every state that clients reach, whatever lists they asked for, walked and deleted in
  whatever order, reading through a reference never touches a released record. Deleting a list
  invalidates exactly the references to its records: they are refused from then on, and every
  other reference reads what it read before.
\<close>

theorem deleted_list_refused:
  assumes "data_reachable m cf ne x" "da_lists x r = Some l"
  shows "\<exists>y. DeleteDataList (Some r) x = (le_OK, y) \<and> DeleteDataList (Some r) y = (le_NOT_FOUND, y) \<and>
    (\<forall>q\<in>set (dl_refs l). GetDataValue m (Some q) y = Inr (Inl le_FAULT)) \<and>
    (\<forall>q. q \<notin> set (dl_refs l) \<longrightarrow> GetDataValue m (Some q) y = GetDataValue m (Some q) x) \<and>
    (\<forall>q. \<exists>v. GetDataValue m q x = Inr v)"
proof -
  have ok: "data_ok x" by (rule data_ok_reachable) (rule assms)
  have other: "r' \<noteq> r" if "q \<notin> set (dl_refs l)" "da_refs x q = Some (r', k)" for q r' k
    using that ok assms(2) by (fastforce simp: data_ok_def ref_ok_def)
  let ?y = "snd (DeleteDataList (Some r) x)"
  have d: "DeleteDataList (Some r) x = (le_OK, ?y)"
    and y: "da_lists ?y = (da_lists x)(r := None)"
      "da_refs ?y = (\<lambda>q. if q \<in> set (dl_refs l) then None else da_refs x q)"
    by (simp_all add: DeleteDataList_def assms)
  have "DeleteDataList (Some r) ?y = (le_NOT_FOUND, ?y)"
    by (subst DeleteDataList_def) (simp add: y)
  moreover have "GetDataValue m (Some q) ?y = Inr (Inl le_FAULT)" if "q \<in> set (dl_refs l)" for q
    using that by (simp add: GetDataValue_def data_query_def y)
  moreover have "GetDataValue m (Some q) ?y = GetDataValue m (Some q) x" if "q \<notin> set (dl_refs l)" for q
    using that other[OF that] by (auto simp: GetDataValue_def data_query_def y split: option.split)
  moreover have "\<exists>v. GetDataValue m q x = Inr v" for q
    unfolding GetDataValue_def by (rule data_query_defined) (rule ok)
  ultimately show ?thesis using d by blast
qed

section \<open>Walking a list\<close>

primrec walk_next :: "bool \<Rightarrow> nat \<Rightarrow> nat \<Rightarrow> dtcdata \<Rightarrow> (nat list \<times> dtcdata) mem" where
  "walk_next ne r 0 x = Inr ([], x)"
| "walk_next ne r (Suc n) x = mbind (GetNextData ne (Some r) x) (\<lambda>(q, y).
     case q of None \<Rightarrow> Inr ([], y)
     | Some q \<Rightarrow> mbind (walk_next ne r n y) (\<lambda>(qs, z). Inr (q # qs, z)))"

definition walk :: "bool \<Rightarrow> nat \<Rightarrow> nat \<Rightarrow> dtcdata \<Rightarrow> (nat list \<times> dtcdata) mem" where
  "walk ne r n x = (case GetFirstData (Some r) x of (None, y) \<Rightarrow> Inr ([], y)
     | (Some q, y) \<Rightarrow> mbind (walk_next ne r n y) (\<lambda>(qs, z). Inr (q # qs, z)))"

text \<open>A walk from position \<open>k\<close> gives a reference for each later record and disturbs no other.\<close>

definition walked :: "nat \<Rightarrow> DtcData list \<Rightarrow> nat \<Rightarrow> dtcdata \<Rightarrow> nat list \<Rightarrow> dtcdata \<Rightarrow> bool" where
  "walked r ds k x qs z \<longleftrightarrow> (\<exists>l. da_lists z r = Some l \<and> dl_data l = ds) \<and> length qs = length ds - k \<and>
     (\<forall>i<length qs. da_refs z (qs ! i) = Some (r, k + i)) \<and> (\<forall>q<da_next x. da_refs z q = da_refs x q)"

lemma walked_cons:
  assumes "walked r ds (Suc k) (snd (give_ref r l k x)) qs z" "k < length ds"
  shows "walked r ds k x (da_next x # qs) z"
  using assms by (auto simp: walked_def give_ref_def Let_def nth_Cons split: nat.split)

lemma walk_next_all:
  assumes "da_lists x r = Some l" "dl_curr l = Some k" "length (dl_data l) - Suc k \<le> n"
  shows "\<exists>qs z. walk_next ne r n x = Inr (qs, z) \<and> walked r (dl_data l) (Suc k) x qs z"
  using assms
proof (induction n arbitrary: k x l)
  case 0
  then show ?case by (simp add: walked_def)
next
  case (Suc n)
  show ?case
  proof (cases "Suc k < length (dl_data l)")
    case False
    then show ?thesis using Suc.prems by (simp add: GetNextData_def mbind_def walked_def)
  next
    case True
    let ?y = "snd (give_ref r l (Suc k) x)"
    let ?l = "l\<lparr>dl_curr := Some (Suc k), dl_refs := dl_refs l @ [da_next x]\<rparr>"
    have "da_lists ?y r = Some ?l" "length (dl_data ?l) - Suc (Suc k) \<le> n"
      using Suc.prems(3) by (simp_all add: give_ref_def Let_def)
    from Suc.IH[OF this(1) _ this(2)] obtain qs z where
      w: "walk_next ne r n ?y = Inr (qs, z)" "walked r (dl_data l) (Suc (Suc k)) ?y qs z" by auto
    have "GetNextData ne (Some r) x = Inr (Some (da_next x), ?y)"
      using Suc.prems True by (simp add: GetNextData_def give_ref_def Let_def)
    then show ?thesis using w walked_cons[OF w(2) True] by (simp add: mbind_def)
  qed
qed

lemma walk_all:
  assumes "da_lists x r = Some l" "length (dl_data l) \<le> n"
  shows "\<exists>qs z. walk ne r n x = Inr (qs, z) \<and> walked r (dl_data l) 0 x qs z"
proof (cases "dl_data l = []")
  case True
  then show ?thesis using assms by (simp add: walk_def GetFirstData_def walked_def)
next
  case False
  let ?y = "snd (give_ref r l 0 x)"
  let ?l = "l\<lparr>dl_curr := Some 0, dl_refs := dl_refs l @ [da_next x]\<rparr>"
  have "da_lists ?y r = Some ?l" "length (dl_data ?l) - Suc 0 \<le> n"
    using assms(2) by (simp_all add: give_ref_def Let_def)
  from walk_next_all[OF this(1) _ this(2), of ne] obtain qs z where
    w: "walk_next ne r n ?y = Inr (qs, z)" "walked r (dl_data l) (Suc 0) ?y qs z" by auto
  have "GetFirstData (Some r) x = (Some (da_next x), ?y)"
    using assms False by (simp add: GetFirstData_def give_ref_def Let_def)
  then show ?thesis using w walked_cons[OF w(2)] False by (simp add: walk_def mbind_def)
qed

text \<open>The records of the store that fit, and their copies.\<close>

lemma copies: "List.map_filter (copy_data m) infos =
    map (\<lambda>i. the (copy_data m i)) (filter (\<lambda>i. length (di_value i) \<le> m) infos)"
  by (induction infos) (auto simp: List.map_filter_def copy_data_def)

lemma GetDataList_list:
  assumes "GetDataList m cf ref x = (Some r, y)"
  shows "\<exists>v. GetDtcCtx ref (da_diag x) = Some v \<and> \<not> sv_suppression v \<and> da_lists y r = Some
    \<lparr>dl_data = List.map_filter (copy_data m) (fst (GetDTCData (dg_dem cf) (sv_code v) (store (da_diag x)))),
     dl_refs = [], dl_curr = None\<rparr> \<and>
    da_blocks y = da_blocks x + 2 * length (fst (GetDTCData (dg_dem cf) (sv_code v) (store (da_diag x))))"
  using assms by (auto simp: GetDataList_def Let_def on_store_def ReleaseDTCData_def
      split: option.splits prod.splits if_splits)

text \<open>
  The blocks of the records are never released: the list they were on is empty by then.
\<close>

lemma data_list_leaks:
  assumes "GetDataList m cf ref x = (Some r, y)"
  shows "da_blocks x < da_blocks y \<and> da_blocks (snd (DeleteDataList (Some r) y)) = da_blocks y"
  using assms by (auto simp: GetDataList_def Let_def on_store_def ReleaseDTCData_def DeleteDataList_def
      split: option.splits prod.splits if_splits)

text \<open>
  C30: A client that asked for the stored data of a DTC and then takes the first record and the
  next ones until there are none gets one reference for each record of the store whose value the
  API can carry, in the order of the store; and code, type, record number, identifier and value
  read through them are those of the store.
\<close>

theorem data_walk_complete:
  assumes "GetDataList m cf ref x = (Some r, y)"
  shows "\<exists>v es. GetDtcCtx ref (da_diag x) = Some v \<and>
    es = filter (\<lambda>i. length (di_value i) \<le> m) (fst (GetDTCData (dg_dem cf) (sv_code v) (store (da_diag x)))) \<and>
    (\<forall>n\<ge>length es. \<exists>qs z. walk ne r n y = Inr (qs, z) \<and> length qs = length es \<and>
      (\<forall>i<length qs. GetDataDtcCode (Some (qs ! i)) z = Inr (Inr (di_dtcCode (es ! i))) \<and>
        GetDataType (Some (qs ! i)) z = Inr (Inr (di_type (es ! i))) \<and>
        GetRecordNumber (Some (qs ! i)) z = Inr (Inr (di_recordNum (es ! i))) \<and>
        GetDataId (Some (qs ! i)) z = Inr (if di_type (es ! i) = SNAPSHOT_DATA
          then Inr (di_dataId (es ! i)) else Inl le_FORMAT_ERROR) \<and>
        GetDataValue m (Some (qs ! i)) z = Inr (Inr (di_value (es ! i)))))"
proof -
  obtain v where v: "GetDtcCtx ref (da_diag x) = Some v"
    and l: "da_lists y r = Some \<lparr>dl_data = List.map_filter (copy_data m)
      (fst (GetDTCData (dg_dem cf) (sv_code v) (store (da_diag x)))), dl_refs = [], dl_curr = None\<rparr>"
    using GetDataList_list[OF assms] by blast
  define es where "es = filter (\<lambda>i. length (di_value i) \<le> m)
    (fst (GetDTCData (dg_dem cf) (sv_code v) (store (da_diag x))))"
  have es: "\<And>e. e \<in> set es \<Longrightarrow> length (di_value e) \<le> m" by (simp add: es_def)
  have "\<exists>qs z. walk ne r n y = Inr (qs, z) \<and>
      walked r (map (\<lambda>i. the (copy_data m i)) es) 0 y qs z" if "length es \<le> n" for n
    using walk_all[OF l, of n ne] that by (simp add: copies flip: es_def)
  moreover have "GetDataDtcCode (Some (qs ! i)) z = Inr (Inr (di_dtcCode (es ! i))) \<and>
        GetDataType (Some (qs ! i)) z = Inr (Inr (di_type (es ! i))) \<and>
        GetRecordNumber (Some (qs ! i)) z = Inr (Inr (di_recordNum (es ! i))) \<and>
        GetDataId (Some (qs ! i)) z = Inr (if di_type (es ! i) = SNAPSHOT_DATA
          then Inr (di_dataId (es ! i)) else Inl le_FORMAT_ERROR) \<and>
        GetDataValue m (Some (qs ! i)) z = Inr (Inr (di_value (es ! i)))"
    if w: "walked r (map (\<lambda>i. the (copy_data m i)) es) 0 y qs z" and i: "i < length qs" for qs z i
  proof -
    have "length (di_value (es ! i)) \<le> m" using es w i by (simp add: walked_def)
    then show ?thesis using w i
      by (auto simp: walked_def GetDataDtcCode_def GetDataType_def GetRecordNumber_def GetDataId_def
          GetDataValue_def data_query_def copy_data_def)
  qed
  ultimately show ?thesis using v unfolding es_def by (fastforce simp: walked_def)
qed

section \<open>Witnesses\<close>

text \<open>A DTC with an occurrence counter and one freeze frame of two identifiers.\<close>

definition frame_cfg :: diag_cfg where
  "frame_cfg = sample_cfg\<lparr>dg_dem := sample_dem\<lparr>cfg_dtc_entries := [(0x123456, [''lastOccurrence''], [''OccurrenceCounter''])],
     cfg_freeze_frames := (\<lambda>_. Some 2), cfg_extended_records := (\<lambda>_. Some 1)\<rparr>\<rparr>"

definition frame_store :: dem where
  "frame_store = \<lparr>dtc_entity = [(new_DtcEntity 0x123456)\<lparr>de_occurrence := 3\<rparr>], event_entity = [],
     snapshot_entity = [\<lparr>se_id = 1, se_dtc = 0x123456, se_did = 0xF190, se_value = [1, 2], se_record = 2\<rparr>,
       \<lparr>se_id = 2, se_dtc = 0x123456, se_did = 0xF191, se_value = [3], se_record = 2\<rparr>], io = []\<rparr>"

definition frame_state :: dtcdata where
  "frame_state = data_start (sample_start\<lparr>svcs := [\<lparr>sv_code = 0x123456, sv_suppression = False,
     sv_sessions = [1], sv_svcRef = Some 0\<rparr>], dtcRefs := [(0, 0x123456)], store := frame_store\<rparr>)"

definition frame_list :: dtcdata where
  "frame_list = snd (GetDataList 100 frame_cfg (Some 0) frame_state)"

lemma frame_listed: "GetDataList 100 frame_cfg (Some 0) frame_state = (Some 0, frame_list)"
proof -
  have "fst (GetDataList 100 frame_cfg (Some 0) frame_state) = Some 0" by code_simp
  then show ?thesis by (simp add: frame_list_def prod_eq_iff)
qed

lemma frame_records: "map di_value (filter (\<lambda>i. length (di_value i) \<le> 100)
    (fst (GetDTCData (dg_dem frame_cfg) 0x123456 frame_store))) = [[3], [1, 2], [3]]"
  by code_simp

theorem data_walk_complete_witness:
  "\<exists>qs z. walk True 0 3 frame_list = Inr (qs, z) \<and> length qs = 3 \<and>
     GetDataValue 100 (Some (qs ! 1)) z = Inr (Inr [1, 2])"
proof -
  let ?es = "filter (\<lambda>i. length (di_value i) \<le> 100) (fst (GetDTCData (dg_dem frame_cfg) 0x123456 frame_store))"
  have c: "map_option sv_code (GetDtcCtx (Some 0) (da_diag frame_state)) = Some 0x123456" by code_simp
  have s: "store (da_diag frame_state) = frame_store" by (simp add: frame_state_def data_start_def)
  have n: "length ?es = 3" "di_value (?es ! 1) = [1, 2]"
    using arg_cong[OF frame_records, of length] arg_cong[OF frame_records, of "\<lambda>xs. xs ! 1"] by simp_all
  obtain v where v: "GetDtcCtx (Some 0) (da_diag frame_state) = Some v" "sv_code v = 0x123456"
    using c by blast
  obtain qs z where "walk True 0 3 frame_list = Inr (qs, z)" "length qs = 3"
    "\<forall>i<3. GetDataValue 100 (Some (qs ! i)) z = Inr (Inr (di_value (?es ! i)))"
    using data_walk_complete[OF frame_listed, of True] by (auto simp: v s n(1))
  then show ?thesis using n(2) by auto
qed

theorem deleted_list_refused_witness:
  "\<exists>y. DeleteDataList (Some 0) (snd (GetFirstData (Some 0) frame_list)) = (le_OK, y) \<and>
     GetDataValue 100 (Some 1) y = Inr (Inl le_FAULT) \<and>
     GetDataValue 100 (Some 1) (snd (GetFirstData (Some 0) frame_list)) = Inr (Inr [3])"
proof -
  let ?x = "snd (GetFirstData (Some 0) frame_list)"
  have "data_reachable 100 frame_cfg True frame_list"
    unfolding frame_list_def frame_state_def by (rule reach_step[OF reach_start step_list])
  then have r: "data_reachable 100 frame_cfg True ?x" by (rule reach_step[OF _ step_first])
  have "map_option dl_refs (da_lists ?x 0) = Some [1]" by code_simp
  then obtain l where l: "da_lists ?x 0 = Some l" "dl_refs l = [1]" by blast
  have "GetDataValue 100 (Some 1) ?x = Inr (Inr [3])" by code_simp
  then show ?thesis using deleted_list_refused[OF r l(1)] l(2) by auto
qed

end
