(* ===== verification/Spec2Isabelle.thy ===== *)
theory Spec2Isabelle
  imports Sms_Pdu Doip_Faults Doip_Stream Doip_Discovery Uds_MgrRuns
    Diag_DtcStatus Diag_FdcBounds Dem_Laws Diag_Response Diag_DtcWalk
begin

text \<open>
  Verification development of the TelAF platform services (telematics application framework).

  The repository holds independent services over a vendor SDK. Modelled here are four that carry
  logic of their own: the PDU codec of the SMS service, the DoIP stack (ISO 13400, diagnostics over
  IP), the UDS stack (ISO 14229) on top of it with its manager and its security access, and the
  services above that keep diagnostic events and trouble codes (DTCs) and store them. All paths are relative to \<open>src/components\<close>.

  \<^bold>\<open>Shared theories.\<close> \<open>Taf_Prelude\<close> has the error monad of the models (\<open>mem\<close>: a value or the memory
  fault at which the C++ program leaves the language: an access outside a buffer, a null pointer, a
  released block, a loop that used up its fuel), bounded reads and writes of byte arrays, network byte
  order, the locale of codes for streams of records, and lemmas on lists. \<open>Taf_Legato\<close> states what the
  sources rely on of the string functions of Legato, which is not in the repository: the functions
  are parameters.

  \<^bold>\<open>SMS\<close> (\<open>tafSMSSvc/tafSmsPdu.cpp\<close>). \<open>Sms_Septet\<close>: the tables of the GSM alphabet, the packing of
  septets, the 7-bit encoder and decoder. \<open>Sms_Pdu\<close>: addresses, SMS-DELIVER decoding, SMS-SUBMIT
  encoding. Theorems: texts and submitted messages read back, the exact layout, the bounds of every
  write, and the inputs on which the code reads outside its array; that the decoder depends only on the
  octets it reads is an order on its results which every decoding function respects.

  \<^bold>\<open>DoIP\<close> (\<open>tafDoIPStack\<close>).
  \<^item> \<open>Doip_Config\<close>: \<open>VehicleManager\<close> (\<open>tafDoIPVehicleMgr.cpp\<close>), the configuration record, its
    initialisation from the parsed JSON file and all getters and setters.
  \<^item> \<open>Doip_Codec\<close>: \<open>ProtocolParser\<close> (\<open>tafDoIPVehDiscoveryAndParser.cpp\<close>), the generic header and the
    messages the entity sends.
  \<^item> \<open>Doip_State\<close>: the state of the TCP side. A connection object (\<open>tafDoIPConnection.hpp\<close>) is a
    record in a store indexed by identities, since handlers and other connections keep references to
    objects that have left the box of \<open>ConnectionManager\<close>; the lookups, sending, \<open>Shutdown\<close>, \<open>Stop\<close> and
    the removal from the box. Calls of Legato are events of a trace, their outcomes a function of the
    trace in the environment record \<open>doip_env\<close>.
  \<^item> \<open>Doip_Routing\<close>: routing activation. \<open>ConnectionStateMachine\<close>, the alive check of one and of all
    connections, the request and response handlers, the timers, \<open>Start\<close> and the creation of
    connections.
  \<^item> \<open>Doip_Tcp\<close>: reception. \<open>ReceiveTCPData\<close> fills the buffer, \<open>ConsumeTCPData\<close> takes up to five messages
    from it, \<open>ProcessDoipMessage\<close> dispatches them; diagnostic messages go to and from the thread of the
    UDS layer.
  \<^item> \<open>Doip_Udp\<close>: the session, requests over UDP, the vehicle announcement.

  \<^bold>\<open>What is shown of the DoIP stack.\<close> \<open>Doip_Inv\<close> has the well-formedness of a state and a lemma per
  operation that it is kept; \<open>Doip_Steps\<close> the event loop as a step relation, the invariant of its
  reachable states, and that the socket handler stays inside the buffers and reads at most once. \<open>Doip_Activation\<close> describes what each
  routing activation leads to, the arbitration between two testers with one address, and the ends of
  connections. \<open>Doip_Delivery\<close> follows a diagnostic message from the wire to the application, in one
  piece and in two, \<open>Doip_Stream\<close> several messages that lie in the buffer at once. \<open>Doip_Faults\<close> has the way back and the inputs on which the entity uses released
  memory or does not end. \<open>Doip_Discovery\<close> treats datagrams, the states of the session and the number
  of announcements.

  \<^bold>\<open>UDS security access\<close> (\<open>tafUDSStack/tafSecurityAccess.cpp\<close>). \<open>Uds_Security\<close>: the active object
  \<open>AO_SecurityAccess\<close> with its sessions and levels, the four state functions as \<open>handle_\<close>-functions,
  the dispatcher, creation and queries; pointers are indices, and what the handlers do to the outside
  is a trace. \<open>Uds_SecInv\<close>: the frame of the operations, as a locale over the relations between an
  object and a later one that all of them but the unlocking keep, and the theorem that only a key
  unlocks. \<open>Uds_SecSystem\<close>: the object among its partners - the manager, which handles one request at
  a time, the application that answers it, the session management and the delay timer - as a step
  relation, and the invariant. \<open>Uds_SecSafe\<close> and \<open>Uds_SecLive\<close> show that every dispatch keeps it,
  \<open>Uds_SecProps\<close> has the properties of the reachable states: the two crashes that one signal can cause,
  locking on session changes, the bound on wrong keys, one response per request, and runs that show
  the crashes. In the system the expiry of the timer is one step and sessions have bindings; \<open>sa_signal\<close>
  adds the other signals, and \<open>expiry_race_crash\<close> shows what can follow a change that is handled between the
  firing of the timer and its expiry.

  \<^bold>\<open>UDS manager\<close> (\<open>tafUDSStack/tafUDSCommunicationMgr.cpp\<close>, \<open>tafUDSStack.cpp\<close>, \<open>tafIDPS.cpp\<close>).
  \<^item> \<open>Uds_Manager\<close>: \<open>UdsCommunicationMgr\<close> as a record. The queues between its threads are fields of it:
    \<open>um_timerq\<close> for the timer thread, \<open>um_indq\<close> for deliveries in the main thread, \<open>um_p2q\<close> for the
    contexts of expired P2* timers, \<open>um_secq\<close> for reported session timeouts. Negative responses, the
    timers, and the checks of services, subfunctions and roles. The configuration that the build
    generates (\<open>cfg::\<close>) and the outcome of \<open>taf_doip_DiagRequest\<close> are the parameter \<open>uds_cfg\<close>.
  \<^item> \<open>Uds_Requests\<close>: one \<open>Indicate\<close>-function per service, with its checks in the order of the code.
  \<^item> \<open>Uds_Dispatch\<close>: \<open>DiagIndicationHandler\<close>, the end of a connection, the calls of the security access
    object and their effect on the manager, and \<open>IndMsgHandler\<close>.
  \<^item> \<open>Uds_Responses\<close>: one \<open>Resp\<close>-function per service, \<open>SendUDSResp\<close>, \<open>SetUDSData\<close>, the timeouts and the
    initial state.

  \<^bold>\<open>What is shown of the manager.\<close> \<open>Uds_MgrFrame\<close> and \<open>Uds_MgrReq\<close>: what sending and checking leave
  alone, as two relations that compose, and what a request looks like when it is passed on.
  \<open>Uds_MgrInv\<close>: the manager among its partners as a step relation and its invariant; the flag of the
  relation restricts it to partners that keep to the discipline the code relies on.
  \<open>Uds_MgrProps\<close>: which requests reach the diagnostic service. \<open>Uds_MgrAnswers\<close>: the refusal of a
  second request, the end of a request nobody answers.
  \<open>Uds_MgrResp\<close>: responses fit the buffers and have the right form. \<open>Uds_MgrEffects\<close>: session
  parameters, roles, the limit on failed authentications, disconnection, and two inputs on which the
  code does not do what it means to. \<open>Uds_MgrSecurity\<close>: the manager refines the system of
  \<open>Uds_SecSystem\<close>, so that the properties of \<open>Uds_SecProps\<close> hold for the object inside the manager.
  \<open>Uds_MgrRuns\<close>: a run that changes the session, unlocks a level and uses it, and the other inputs at
  which the properties apply.

  \<^bold>\<open>Diagnostic events and trouble codes\<close> (\<open>tafDiagSvc\<close>, \<open>tafDataAccessComp\<close>).
  \<^item> \<open>Dem_Store\<close>: the tables of the database and the data access objects (\<open>tafDTCEntityDAO.cpp\<close>,
    \<open>tafEventEntityDAO.cpp\<close>, \<open>tafSnapshotEntityDAO.cpp\<close> over \<open>tafSQLite3Handler.hpp\<close>). SQLite is not in
    the repository; a table is a list of rows, and which statements fail is the input \<open>io\<close>.
  \<^item> \<open>Dem_Handler\<close>: \<open>DemDataHandler\<close> (\<open>tafDataAccessCompImpl.cpp\<close>), the interface to the store.
  \<^item> \<open>Diag_Fdc\<close>: the fault detection counters, with the rounding of single precision.
  \<^item> \<open>Diag_Event\<close> and \<open>Diag_EventOps\<close>: \<open>taf_EventSvr\<close> (\<open>tafEventSvrImpl.cpp\<close>) and the enable conditions of
    \<open>taf_DiagSvr\<close>. The record \<open>diag\<close> holds the contexts of events, DTCs and operation cycles in their
    order; a context that points to another holds its key. The clock and the timers' expiries are
    inputs, indications to clients and requests for snapshots are appended to \<open>outs\<close>, references of
    clients are numbers.
  \<^item> \<open>Diag_Dtc\<close>, \<open>Diag_DtcData\<close> and \<open>Diag_DtcUds\<close>: \<open>taf_DTCSvr\<close> (\<open>tafDTCSvrImpl.cpp\<close>) and \<open>taf_DTCInf\<close>
    (\<open>tafDTCInfImpl.cpp\<close>), the operations on DTCs for clients, the lists of stored data clients walk, and
    the requests of a tester.

  \<^bold>\<open>What is shown of them.\<close> \<open>Diag_Inv\<close> and \<open>Diag_Refs\<close> have the invariants of events and of references,
  \<open>Diag_Keeps\<close> what the operations leave alone, \<open>Diag_Run\<close> the services as a step relation whose
  reachable states have the invariants, \<open>Diag_Samples\<close> a configuration the witnesses start from.
  \<open>Diag_Safety\<close>: the invariant, which reports have an effect, what a client that disconnects leaves
  behind. \<open>Diag_Debounce\<close>: the ways from a report to a qualified failure, by counter and by time, and
  from failures in cycles to the confirmation, against a count of the cycles. \<open>Diag_DtcStatus\<close>: the
  status of a DTC as the join of its events', clearing, enable conditions. \<open>Diag_FdcBounds\<close>: the
  counter against the exact quotient. \<open>Dem_Laws\<close>: the columns of the table of DTCs as maps, as a locale
  with three interpretations. \<open>Diag_Response\<close>: the size of a response and the refusals of a clear.
  \<open>Diag_DtcWalk\<close>: a walk of a list gives the records of the store, and no reference to a record
  outlives its list.

  \<^bold>\<open>Bounds and fuel.\<close> The only loop of the DoIP stack without a bound in the code is the one that
  discards input; it runs on the fuel \<open>ev_fuel\<close>, and \<open>discard_ends\<close> shows that 1500 steps are enough
  when reads yield data and that no fuel is enough when they do not. All other loops are structural
  or bounded by the code. Numbers of type \<open>uint32_t\<close> are words, or naturals reduced modulo \<open>2 ^ 32\<close>
  where the code can wrap. The loops of the diagnostic services run over lists.

  \<^bold>\<open>Not modelled.\<close> Set-up of sockets, TLS and VLAN look-up of the DoIP stack (operating-system calls),
  its public functions in \<open>tafDoIPStack.cpp\<close>, which check references and forward, and the delayed
  identification response, which nothing calls. Of the UDS stack the list of instances, \<open>UdsStart\<close>
  and \<open>UdsStop\<close> with the registration of handlers, the creation of threads, and the optional feature
  A, which is not compiled in. Of the diagnostic services the snapshot service and the back end, the
  parts for feature A and for one customer, the creation and
  migration of tables and the columns of times. Log messages. The other services are listed in the manifest with the
  reason.
\<close>

end
